(* ===== verification/JsPrelude.thy ===== *)
theory JsPrelude
  imports Complex_Main "HOL-Library.Sublist" "HOL-Library.Multiset" "HOL-Library.List_Lexorder"
    "HOL-Library.Char_ord"
begin

text \<open>
  Prelude of the development: the fragment of the JavaScript language and of its standard
  library that the modelled TypeScript code uses.  Values of type \<open>unknown\<close> are the datatype
  \<open>js\<close>; strings are ASCII character lists; numbers that the code only compares are rationals
  (a decimal literal stands for its exact value); a \<open>Date\<close> is its millisecond count, an \<open>int\<close>.
  \<open>Array.prototype.sort\<close> is a stable insertion sort by the code's comparator, whose contract is
  the locale \<open>js_comparator\<close>.  Arrays of entities and insertion-ordered \<open>Map\<close>s keyed by an
  \<open>id\<close> are lists with \<open>find_by\<close> and \<open>upsert_by\<close>, whose contract is the locale
  \<open>keyed_repository\<close>.
\<close>

named_theorems js_defs "definitions the component proofs unfold"
named_theorems frame "fields an operation leaves alone"

type_synonym time = int
type_synonym num = rat

text \<open>A thrown error is a value; an operation that may throw returns a sum.\<close>

datatype thrown = Error string | AuthorizationError string | ValidationError "string list"
type_synonym 'a result = "thrown + 'a"

section \<open>Values of type unknown\<close>

datatype js =
    JUndef
  | JNull
  | JBool bool
  | JNum num
  | JStr string
  | JArr "js list"
  | JObj "(string \<times> js) list"

type_synonym jsobj = "(string \<times> js) list"

definition nullish :: "js \<Rightarrow> bool" where
  "nullish v \<longleftrightarrow> v = JUndef \<or> v = JNull"

definition js_or :: "js \<Rightarrow> js \<Rightarrow> js" where
  \<comment> \<open>the operator \<open>??\<close>\<close>
  "js_or a b = (if nullish a then b else a)"

definition of_opt_str :: "string option \<Rightarrow> js" where
  "of_opt_str s = (case s of None \<Rightarrow> JUndef | Some x \<Rightarrow> JStr x)"

definition opt_or :: "'a option \<Rightarrow> 'a option \<Rightarrow> 'a option" where
  "opt_or a b = (case a of None \<Rightarrow> b | Some x \<Rightarrow> Some x)"

definition opt_default :: "'a option \<Rightarrow> 'a \<Rightarrow> 'a" where
  "opt_default a d = (case a of None \<Rightarrow> d | Some x \<Rightarrow> x)"

lemma opt_default_simps [simp]:
  "opt_default None d = d" "opt_default (Some x) d = x"
  by (simp_all add: opt_default_def)

lemma opt_or_simps [simp]:
  "opt_or None b = b" "opt_or (Some x) b = Some x"
  by (simp_all add: opt_or_def)

text \<open>\<open>Boolean(s)\<close> of a string-or-undefined: false on undefined and on the empty string.\<close>

definition truthy_str :: "string option \<Rightarrow> bool" where
  "truthy_str s \<longleftrightarrow> s \<noteq> None \<and> s \<noteq> Some []"

lemma truthy_str_simps [simp]:
  "\<not> truthy_str None" "truthy_str (Some x) \<longleftrightarrow> x \<noteq> []"
  by (simp_all add: truthy_str_def)

subsection \<open>String conversion\<close>

definition digit_char :: "nat \<Rightarrow> char" where
  "digit_char d = char_of (d + 48)"

fun nat_to_string :: "nat \<Rightarrow> string" where
  "nat_to_string n =
     (if n < 10 then [digit_char n] else nat_to_string (n div 10) @ [digit_char (n mod 10)])"

declare nat_to_string.simps [simp del]

fun frac_digits :: "nat \<Rightarrow> num \<Rightarrow> string" where
  "frac_digits 0 r = []"
| "frac_digits (Suc k) r =
     (if r = 0 then []
      else digit_char (nat \<lfloor>10 * r\<rfloor>) # frac_digits k (10 * r - of_int \<lfloor>10 * r\<rfloor>))"

definition num_to_string :: "num \<Rightarrow> string" where
  \<comment> \<open>decimal notation, at most 20 fractional digits; the exponent notation JavaScript uses
      from 1e21 on and below 1e-6 is not modelled\<close>
  "num_to_string r =
     (let a = \<bar>r\<bar>; i = \<lfloor>a\<rfloor>; f = a - of_int i; ds = frac_digits 20 f
      in (if r < 0 then ''-'' else []) @ nat_to_string (nat i) @ (if ds = [] then [] else ''.'' @ ds))"

fun join_with :: "string \<Rightarrow> string list \<Rightarrow> string" where
  "join_with sep [] = []"
| "join_with sep [x] = x"
| "join_with sep (x # y # ys) = x @ sep @ join_with sep (y # ys)"

fun js_string :: "js \<Rightarrow> string" where
  "js_string JUndef = ''undefined''"
| "js_string JNull = ''null''"
| "js_string (JBool b) = (if b then ''true'' else ''false'')"
| "js_string (JNum r) = num_to_string r"
| "js_string (JStr s) = s"
| "js_string (JArr xs) = join_with '','' (map (\<lambda>v. if nullish v then [] else js_string v) xs)"
| "js_string (JObj _) = ''[object Object]''"

subsection \<open>ASCII strings\<close>

definition lower_char :: "char \<Rightarrow> char" where
  "lower_char c =
     (let n = (of_char c :: nat) in if 65 \<le> n \<and> n \<le> 90 then char_of (n + 32) else c)"

definition to_lower :: "string \<Rightarrow> string" where
  "to_lower s = map lower_char s"

definition is_upper :: "char \<Rightarrow> bool" where
  "is_upper c \<longleftrightarrow> (65 :: nat) \<le> of_char c \<and> of_char c \<le> (90 :: nat)"

definition is_lower :: "char \<Rightarrow> bool" where
  "is_lower c \<longleftrightarrow> (97 :: nat) \<le> of_char c \<and> of_char c \<le> (122 :: nat)"

definition is_digit :: "char \<Rightarrow> bool" where
  "is_digit c \<longleftrightarrow> (48 :: nat) \<le> of_char c \<and> of_char c \<le> (57 :: nat)"

definition is_space :: "char \<Rightarrow> bool" where
  "is_space c \<longleftrightarrow> of_char c = (32 :: nat) \<or> ((9 :: nat) \<le> of_char c \<and> of_char c \<le> (13 :: nat))
     \<or> of_char c = (160 :: nat)"

definition str_includes :: "string \<Rightarrow> string \<Rightarrow> bool" where
  "str_includes s needle = sublist needle s"

definition starts_with :: "string \<Rightarrow> string \<Rightarrow> bool" where
  "starts_with s p = prefix p s"

definition ends_with :: "string \<Rightarrow> string \<Rightarrow> bool" where
  "ends_with s p = suffix p s"

text \<open>A regular expression \<open>/a|b|c/i.test(s)\<close> whose alternatives are lower-case words.\<close>

definition matches_any_word :: "string list \<Rightarrow> string \<Rightarrow> bool" where
  "matches_any_word ws s = list_ex (\<lambda>w. str_includes (to_lower s) w) ws"

fun split_on :: "char \<Rightarrow> string \<Rightarrow> string list" where
  "split_on c [] = [[]]"
| "split_on c (x # xs) =
     (if x = c then [] # split_on c xs
      else (case split_on c xs of [] \<Rightarrow> [[x]] | p # ps \<Rightarrow> (x # p) # ps))"

definition trim :: "string \<Rightarrow> string" where
  "trim s = rev (dropWhile is_space (rev (dropWhile is_space s)))"

text \<open>\<open>Number.parseInt(s, 10)\<close>: leading spaces and a sign, then the digits that follow.\<close>

definition parse_int :: "string \<Rightarrow> int option" where
  "parse_int s =
     (let t = dropWhile is_space s;
          negative = (t \<noteq> [] \<and> hd t = CHR ''-'');
          u = (if t \<noteq> [] \<and> (hd t = CHR ''-'' \<or> hd t = CHR ''+'') then tl t else t);
          ds = takeWhile is_digit u;
          n = fold (\<lambda>c acc. 10 * acc + (int (of_char c) - 48)) ds 0
      in if ds = [] then None else Some (if negative then - n else n))"

lemma split_on_nonempty [simp]: "split_on c s \<noteq> []"
  by (induction s) (auto split: list.splits)

lemma join_split_on: "join_with [c] (split_on c s) = s"
proof (induction s)
  case Nil
  then show ?case by simp
next
  case (Cons x xs)
  then show ?case
    by (cases "split_on c xs"; cases "tl (split_on c xs)") auto
qed

lemma split_on_no_sep: "p \<in> set (split_on c s) \<Longrightarrow> c \<notin> set p"
  by (induction s arbitrary: p) (auto split: list.splits if_splits)

section \<open>Fresh ids and the clock\<close>

text \<open>
  A call draws ids from \<open>randomUUID\<close> and reads the clock at its call sites.  A value of type \<open>draws\<close> gives a value for each
  call site of the running call; \<open>sub k s\<close> is that of the callee at site \<open>k\<close>.
\<close>

record draws =
  dr_id :: "nat list \<Rightarrow> string"
  dr_now :: "nat list \<Rightarrow> time"

definition sub :: "nat \<Rightarrow> draws \<Rightarrow> draws" where
  "sub k s = \<lparr>dr_id = (\<lambda>p. dr_id s (k # p)), dr_now = (\<lambda>p. dr_now s (k # p))\<rparr>"

definition fresh_id :: "string \<Rightarrow> nat \<Rightarrow> draws \<Rightarrow> string" where
  "fresh_id pre k s = pre @ ''_'' @ dr_id s [k]"

definition clock :: "nat \<Rightarrow> draws \<Rightarrow> time" where
  "clock k s = dr_now s [k]"

definition sample_draws :: draws where
  "sample_draws = \<lparr>dr_id = (\<lambda>p. concat (map nat_to_string p)), dr_now = (\<lambda>_. 0)\<rparr>"

section \<open>Objects as association lists\<close>

definition obj_get :: "jsobj \<Rightarrow> string \<Rightarrow> js" where
  "obj_get o' k = (case map_of o' k of None \<Rightarrow> JUndef | Some v \<Rightarrow> v)"

fun obj_set :: "string \<Rightarrow> js \<Rightarrow> jsobj \<Rightarrow> jsobj" where
  "obj_set k v [] = [(k, v)]"
| "obj_set k v ((k', v') # o') = (if k = k' then (k, v) # o' else (k', v') # obj_set k v o')"

text \<open>The object literal \<open>{...a, k1: v1, k2: v2}\<close>.\<close>

definition obj_spread :: "jsobj \<Rightarrow> jsobj \<Rightarrow> jsobj" where
  "obj_spread a b = fold (\<lambda>(k, v). obj_set k v) b a"

lemma map_of_obj_set: "map_of (obj_set k v o') = (map_of o')(k \<mapsto> v)"
  by (induction k v o' rule: obj_set.induct) auto

lemma obj_get_set [simp]: "obj_get (obj_set k v o') k' = (if k' = k then v else obj_get o' k')"
  by (simp add: obj_get_def map_of_obj_set)

lemma obj_spread_simps [simp]:
  "obj_spread a [] = a"
  "obj_spread a ((k, v) # b) = obj_spread (obj_set k v a) b"
  by (simp_all add: obj_spread_def)

lemma obj_get_Nil [simp]: "obj_get [] k = JUndef"
  by (simp add: obj_get_def)

lemma obj_get_Cons [simp]: "obj_get ((k', v) # o') k = (if k = k' then v else obj_get o' k)"
  by (simp add: obj_get_def)

text \<open>Mapping over the values of an object; a function of the key and the value.\<close>

definition obj_map :: "(string \<Rightarrow> js \<Rightarrow> js) \<Rightarrow> jsobj \<Rightarrow> jsobj" where
  "obj_map f o' = map (\<lambda>(k, v). (k, f k v)) o'"

lemma map_of_obj_map: "map_of (obj_map f o') k = map_option (f k) (map_of o' k)"
  by (induction o') (auto simp: obj_map_def)

lemma fst_obj_map [simp]: "map fst (obj_map f o') = map fst o'"
  by (auto simp: obj_map_def)

section \<open>Sorting\<close>

text \<open>
  \<open>xs.sort(cmp)\<close> is stable; for a consistent comparator its result is determined, so any
  stable sort models it.  The comparators return a number of which only the sign is read.
\<close>

fun insert_by :: "('a \<Rightarrow> 'a \<Rightarrow> int) \<Rightarrow> 'a \<Rightarrow> 'a list \<Rightarrow> 'a list" where
  "insert_by cmp x [] = [x]"
| "insert_by cmp x (y # ys) = (if cmp x y \<le> 0 then x # y # ys else y # insert_by cmp x ys)"

fun sort_by :: "('a \<Rightarrow> 'a \<Rightarrow> int) \<Rightarrow> 'a list \<Rightarrow> 'a list" where
  "sort_by cmp [] = []"
| "sort_by cmp (x # xs) = insert_by cmp x (sort_by cmp xs)"

lemma mset_insert_by [simp]: "mset (insert_by cmp x xs) = add_mset x (mset xs)"
  by (induction xs) auto

lemma mset_sort_by [simp]: "mset (sort_by cmp xs) = mset xs"
  by (induction xs) auto

lemma set_sort_by [simp]: "set (sort_by cmp xs) = set xs"
  by (metis mset_sort_by set_mset_mset)

lemma length_sort_by [simp]: "length (sort_by cmp xs) = length xs"
  by (metis mset_sort_by size_mset)

lemma sort_by_Nil_iff [simp]: "sort_by cmp xs = [] \<longleftrightarrow> xs = []"
  by (metis length_0_conv length_sort_by)

text \<open>Only the sign of a comparator on the elements of the array matters.\<close>

lemma insert_by_cong:
  "(\<And>y. y \<in> set xs \<Longrightarrow> (c x y \<le> 0) = (c' x y \<le> 0)) \<Longrightarrow> insert_by c x xs = insert_by c' x xs"
  by (induction xs) auto

lemma sort_by_cong:
  "(\<And>x y. x \<in> set xs \<Longrightarrow> y \<in> set xs \<Longrightarrow> (c x y \<le> 0) = (c' x y \<le> 0)) \<Longrightarrow>
   sort_by c xs = sort_by c' xs"
proof (induction xs)
  case (Cons x xs)
  then have "sort_by c xs = sort_by c' xs" by simp
  moreover have "insert_by c x (sort_by c' xs) = insert_by c' x (sort_by c' xs)"
    using Cons.prems by (intro insert_by_cong) simp
  ultimately show ?case by simp
qed simp

text \<open>The contract of a comparator: its sign is antisymmetric and \<open>\<le> 0\<close> is transitive.\<close>

locale js_comparator =
  fixes cmp :: "'a \<Rightarrow> 'a \<Rightarrow> int"
  assumes sgn_swap: "sgn (cmp x y) = - sgn (cmp y x)"
    and le_trans: "cmp x y \<le> 0 \<Longrightarrow> cmp y z \<le> 0 \<Longrightarrow> cmp x z \<le> 0"
begin

lemma le_total: "cmp x y \<le> 0 \<or> cmp y x \<le> 0"
  using sgn_swap[of x y] by (auto simp: sgn_if split: if_splits)

lemma not_le_swap: "\<not> cmp x y \<le> 0 \<Longrightarrow> cmp y x \<le> 0"
  using le_total by blast

lemma eq_swap: "cmp x y = 0 \<longleftrightarrow> cmp y x = 0"
  using sgn_swap[of x y] by (auto simp: sgn_if split: if_splits)

lemma refl0: "cmp x x = 0"
  using sgn_swap[of x x] by (auto simp: sgn_if split: if_splits)

lemma less_swap: "cmp x y < 0 \<longleftrightarrow> 0 < cmp y x"
  using sgn_swap[of x y] by (auto simp: sgn_if split: if_splits)

lemma sorted_insert_by:
  "sorted_wrt (\<lambda>a b. cmp a b \<le> 0) xs \<Longrightarrow> sorted_wrt (\<lambda>a b. cmp a b \<le> 0) (insert_by cmp x xs)"
proof (induction xs)
  case Nil
  then show ?case by simp
next
  case (Cons y ys)
  have "set (insert_by cmp x ys) = insert x (set ys)"
    by (metis mset_insert_by set_mset_add_mset_insert set_mset_mset)
  with Cons show ?case by (auto dest: not_le_swap intro: le_trans)
qed

lemma sorted_sort_by: "sorted_wrt (\<lambda>a b. cmp a b \<le> 0) (sort_by cmp xs)"
  by (induction xs) (simp_all add: sorted_insert_by)

lemma hd_sort_by_least: "x \<in> set xs \<Longrightarrow> cmp (hd (sort_by cmp xs)) x \<le> 0"
proof -
  assume "x \<in> set xs"
  then obtain y ys where s: "sort_by cmp xs = y # ys"
    by (metis list.exhaust list.set_cases sort_by_Nil_iff list.distinct(1))
  have "x \<in> set (y # ys)" using \<open>x \<in> set xs\<close> by (metis s set_sort_by)
  with sorted_sort_by[of xs] s show ?thesis by (auto simp: refl0)
qed

lemma filter_insert_by_eq:
  "(\<And>y. y \<in> set xs \<Longrightarrow> P y \<Longrightarrow> P x \<Longrightarrow> cmp x y \<le> 0) \<Longrightarrow>
   filter P (insert_by cmp x xs) = (if P x then x # filter P xs else filter P xs)"
  by (induction xs) auto

text \<open>Stability: elements that compare equal to a given one keep their order.\<close>

lemma sort_by_stable: "filter (\<lambda>y. cmp y a = 0) (sort_by cmp xs) = filter (\<lambda>y. cmp y a = 0) xs"
proof (induction xs)
  case Nil
  then show ?case by simp
next
  case (Cons x xs)
  have "cmp x y \<le> 0" if "cmp y a = 0" "cmp x a = 0" for y
    using that le_trans[of x a y] eq_swap[of y a] by simp
  then have "filter (\<lambda>y. cmp y a = 0) (insert_by cmp x (sort_by cmp xs)) =
      (if cmp x a = 0 then x # filter (\<lambda>y. cmp y a = 0) (sort_by cmp xs)
       else filter (\<lambda>y. cmp y a = 0) (sort_by cmp xs))"
    by (intro filter_insert_by_eq)
  with Cons show ?case by simp
qed

end

lemma js_comparator_key: "js_comparator c \<Longrightarrow> js_comparator (\<lambda>x y. c (f x) (f y))"
  unfolding js_comparator_def by blast

text \<open>A descending comparator \<open>(l, r) => c(r, l)\<close>, and \<open>c1 || c2\<close>.\<close>

lemma js_comparator_flip: "js_comparator c \<Longrightarrow> js_comparator (\<lambda>x y. c y x)"
  unfolding js_comparator_def by blast

definition cmp_or :: "('a \<Rightarrow> 'a \<Rightarrow> int) \<Rightarrow> ('a \<Rightarrow> 'a \<Rightarrow> int) \<Rightarrow> 'a \<Rightarrow> 'a \<Rightarrow> int" where
  "cmp_or c1 c2 x y = (let r = c1 x y in if r \<noteq> 0 then r else c2 x y)"

lemma js_comparator_or:
  assumes "js_comparator c1" and "js_comparator c2"
  shows "js_comparator (cmp_or c1 c2)"
proof (rule js_comparator.intro)
  fix x y z
  show "sgn (cmp_or c1 c2 x y) = - sgn (cmp_or c1 c2 y x)"
    using js_comparator.sgn_swap[OF assms(1), of x y] js_comparator.sgn_swap[OF assms(2), of x y]
      js_comparator.eq_swap[OF assms(1), of x y]
    by (simp add: cmp_or_def Let_def)
  assume h: "cmp_or c1 c2 x y \<le> 0" "cmp_or c1 c2 y z \<le> 0"
  then have le: "c1 x y \<le> 0" "c1 y z \<le> 0" by (auto simp: cmp_or_def Let_def split: if_splits)
  then have xz: "c1 x z \<le> 0" by (rule js_comparator.le_trans[OF assms(1)])
  show "cmp_or c1 c2 x z \<le> 0"
  proof (cases "c1 x z = 0")
    case True
    then have "c1 z x = 0" by (simp add: js_comparator.eq_swap[OF assms(1)])
    then have "c1 y x \<le> 0" "c1 z y \<le> 0"
      using le js_comparator.le_trans[OF assms(1), of y z x] js_comparator.le_trans[OF assms(1), of z x y]
      by simp_all
    then have "c1 x y = 0" "c1 y z = 0"
      using le js_comparator.less_swap[OF assms(1), of x y] js_comparator.less_swap[OF assms(1), of y z]
      by linarith+
    with h True js_comparator.le_trans[OF assms(2)] show ?thesis
      by (auto simp: cmp_or_def Let_def)
  qed (use xz in \<open>simp add: cmp_or_def Let_def\<close>)
qed

text \<open>The comparator \<open>(l, r) => l - r\<close> on numbers and dates.\<close>

definition num_cmp :: "'a::linorder \<Rightarrow> 'a \<Rightarrow> int" where
  "num_cmp a b = (if a < b then -1 else if b < a then 1 else 0)"

interpretation num_cmp: js_comparator num_cmp
  by unfold_locales (auto simp: num_cmp_def split: if_splits)

subsection \<open>String.prototype.localeCompare\<close>

text \<open>
  The root collation of ICU on printable ASCII: primary weights order space, punctuation,
  symbols, digits and letters (case-insensitively); equal primaries are told apart by case,
  lower case first.  Any other character sorts behind these by its code.
\<close>

definition collation_order :: string where
  "collation_order =
     '' _-,;:!?.'' @ [CHR 0x27, CHR 0x22] @ ''()[]{}@*/'' @ [CHR 0x5C] @ ''&#%'' @ [CHR 0x60] @
     ''^+<=>|~$0123456789abcdefghijklmnopqrstuvwxyz''"

fun index_of :: "'a \<Rightarrow> 'a list \<Rightarrow> nat" where
  "index_of x [] = 0"
| "index_of x (y # ys) = (if x = y then 0 else Suc (index_of x ys))"

definition primary_weight :: "char \<Rightarrow> nat" where
  "primary_weight c =
     (let l = lower_char c; i = index_of l collation_order
      in if i < length collation_order then i else 1000 + of_char c)"

definition tertiary_weight :: "char \<Rightarrow> nat" where
  "tertiary_weight c = (if is_upper c then 1 else 0)"

fun lex_cmp :: "'a::linorder list \<Rightarrow> 'a list \<Rightarrow> int" where
  "lex_cmp [] [] = 0"
| "lex_cmp [] (_ # _) = -1"
| "lex_cmp (_ # _) [] = 1"
| "lex_cmp (x # xs) (y # ys) = (if x < y then -1 else if y < x then 1 else lex_cmp xs ys)"

lemma lex_cmp_swap: "lex_cmp xs ys = - lex_cmp ys xs"
  by (induction xs ys rule: lex_cmp.induct) auto

lemma lex_cmp_trans: "lex_cmp xs ys \<le> 0 \<Longrightarrow> lex_cmp ys zs \<le> 0 \<Longrightarrow> lex_cmp xs zs \<le> 0"
proof (induction xs ys arbitrary: zs rule: lex_cmp.induct)
  case (4 x xs y ys)
  then show ?case by (cases zs) (auto split: if_splits)
next
  case (2 y ys)
  then show ?case by (cases zs) auto
qed auto

lemma lex_cmp_eq0: "lex_cmp xs ys = 0 \<longleftrightarrow> xs = ys"
  by (induction xs ys rule: lex_cmp.induct) auto

interpretation lex_cmp: js_comparator lex_cmp
proof
  show "sgn (lex_cmp x y) = - sgn (lex_cmp y x)" for x y :: "'a list"
    by (subst lex_cmp_swap) simp
qed (rule lex_cmp_trans)

definition locale_compare :: "string \<Rightarrow> string \<Rightarrow> int" where
  "locale_compare =
     cmp_or (\<lambda>a b. lex_cmp (map primary_weight a) (map primary_weight b))
            (\<lambda>a b. lex_cmp (map tertiary_weight a) (map tertiary_weight b))"

interpretation locale_compare: js_comparator locale_compare
  unfolding locale_compare_def
  by (rule js_comparator_or; rule js_comparator_key; rule lex_cmp.js_comparator_axioms)

text \<open>Distinct strings never compare as equal, so an id tie-break makes an order total.\<close>

lemma index_of_less: "x \<in> set xs \<Longrightarrow> index_of x xs < length xs"
  by (induction xs) auto

lemma index_of_nth: "index_of x xs < length xs \<Longrightarrow> xs ! index_of x xs = x"
  by (induction xs) auto

lemma index_of_le: "index_of x xs \<le> length xs"
  by (induction xs) auto

lemma lower_char_inj: "lower_char a = lower_char b \<Longrightarrow> is_upper a = is_upper b \<Longrightarrow> a = b"
proof -
  assume eq: "lower_char a = lower_char b" and up: "is_upper a = is_upper b"
  have low: "of_char (lower_char c) = (if is_upper c then of_char c + 32 else (of_char c :: nat))" for c
    by (auto simp: lower_char_def is_upper_def Let_def)
  from eq have "(of_char (lower_char a) :: nat) = of_char (lower_char b)" by simp
  with up have "(of_char a :: nat) = of_char b" by (auto simp: low split: if_splits)
  then show ?thesis by (metis char_of_char)
qed

lemma primary_weight_eq:
  assumes "primary_weight a = primary_weight b" and "is_upper a = is_upper b"
  shows "a = b"
proof -
  let ?i = "\<lambda>c. index_of (lower_char c) collation_order" and ?n = "length collation_order"
  have n: "?n < 1000" by (simp add: collation_order_def)
  consider "?i a < ?n" "?i b < ?n" | "\<not> ?i a < ?n" "\<not> ?i b < ?n"
    | "?i a < ?n" "\<not> ?i b < ?n" | "\<not> ?i a < ?n" "?i b < ?n" by blast
  then show ?thesis
  proof cases
    case 1
    then have "?i a = ?i b" using assms(1) by (simp add: primary_weight_def Let_def)
    then have "lower_char a = lower_char b" using 1 index_of_nth by metis
    then show ?thesis using assms(2) by (rule lower_char_inj)
  next
    case 2
    then have "(of_char a :: nat) = of_char b"
      using assms(1) by (simp add: primary_weight_def Let_def)
    then show ?thesis by (metis char_of_char)
  qed (use assms(1) n in \<open>simp_all add: primary_weight_def Let_def\<close>)
qed

lemma locale_compare_eq0: "locale_compare a b = 0 \<longleftrightarrow> a = b"
proof
  assume "locale_compare a b = 0"
  then have p: "map primary_weight a = map primary_weight b"
    and t: "map tertiary_weight a = map tertiary_weight b"
    by (auto simp: locale_compare_def cmp_or_def Let_def lex_cmp_eq0 split: if_splits)
  from p have "length a = length b" by (rule map_eq_imp_length_eq)
  then show "a = b" using p t
  proof (induction a b rule: list_induct2)
    case (Cons x xs y ys)
    then have "is_upper x = is_upper y"
      by (auto simp: tertiary_weight_def split: if_splits)
    with Cons show ?case by (auto intro: primary_weight_eq)
  qed simp
qed (simp add: locale_compare.refl0)

text \<open>
  Two sorted arrangements of the same elements agree when the comparator tells distinct
  elements apart: the result of a sort does not depend on the order of its input.
\<close>

context js_comparator
begin

lemma sorted_perm_unique:
  assumes "sorted_wrt (\<lambda>a b. cmp a b \<le> 0) xs" and "sorted_wrt (\<lambda>a b. cmp a b \<le> 0) ys"
    and "mset xs = mset ys"
    and "\<And>a b. a \<in> set xs \<Longrightarrow> b \<in> set xs \<Longrightarrow> cmp a b = 0 \<Longrightarrow> a = b"
  shows "xs = ys"
  using assms
proof (induction xs arbitrary: ys)
  case Nil
  then show ?case by simp
next
  case (Cons x xs)
  from Cons.prems(3) obtain y ys' where ys: "ys = y # ys'" by (cases ys) auto
  have sets: "set (x # xs) = set ys" by (metis Cons.prems(3) set_mset_mset)
  then have "x \<in> set ys" "y \<in> set (x # xs)" by (auto simp: ys)
  then have "cmp x y \<le> 0" "cmp y x \<le> 0"
    using Cons.prems(1,2) by (auto simp: ys refl0)
  then have "cmp x y = 0" using less_swap[of x y] by linarith
  then have "x = y" using Cons.prems(4) \<open>y \<in> set (x # xs)\<close> by auto
  then show ?case using Cons by (simp add: ys)
qed

lemma sort_by_perm:
  assumes "mset xs = mset ys"
    and "\<And>a b. a \<in> set xs \<Longrightarrow> b \<in> set xs \<Longrightarrow> cmp a b = 0 \<Longrightarrow> a = b"
  shows "sort_by cmp xs = sort_by cmp ys"
  using assms by (intro sorted_perm_unique sorted_sort_by) auto

end

text \<open>
  A list is distinct when some arrangement of its positions is strictly ascending: one
  comparison per element decides it.
\<close>

lemma distinct_by_order:
  fixes xs :: "'a::linorder list"
  assumes "successively (<) (map ((!) xs) p)" and "length p = length xs"
    and "\<forall>i \<in> set p. i < length xs"
  shows "distinct xs"
proof -
  have "sorted_wrt (<) (map ((!) xs) p)"
    using assms(1) by (simp add: successively_iff_sorted_wrt_strong)
  then have "distinct (map ((!) xs) p)" using strict_sorted_iff by blast
  then have d: "distinct p" "inj_on ((!) xs) (set p)" by (auto simp: distinct_map)
  have "set p = {..<length xs}"
    using assms(2,3) d(1) by (intro card_subset_eq) (auto simp: distinct_card)
  with d(2) show ?thesis by (simp add: distinct_conv_nth inj_on_def) blast
qed

section \<open>Operations on a state\<close>

text \<open>
  An operation returns its result, or the error it throws, and the state it leaves: changes made
  before a throw stay.  The combinators also serve early returns, whose value is the left of the sum.
\<close>

type_synonym ('s, 'a) op = "'s \<Rightarrow> 'a result \<times> 's"

definition op_return :: "'a \<Rightarrow> 's \<Rightarrow> ('e + 'a) \<times> 's" where
  "op_return x st = (Inr x, st)"

definition op_throw :: "'e \<Rightarrow> 's \<Rightarrow> ('e + 'a) \<times> 's" where
  "op_throw e st = (Inl e, st)"

definition op_bind ::
  "('s \<Rightarrow> ('e + 'a) \<times> 's) \<Rightarrow> ('a \<Rightarrow> 's \<Rightarrow> ('e + 'b) \<times> 's) \<Rightarrow> 's \<Rightarrow> ('e + 'b) \<times> 's" where
  "op_bind m f st = (case m st of (Inl e, st1) \<Rightarrow> (Inl e, st1) | (Inr x, st1) \<Rightarrow> f x st1)"

lemma op_simps [simp]:
  "op_return x st = (Inr x, st)" "op_throw e st = (Inl e, st)"
  by (simp_all add: op_return_def op_throw_def)

lemma op_bind_Inr:
  "op_bind m f st = (Inr y, st') \<longleftrightarrow> (\<exists>x st1. m st = (Inr x, st1) \<and> f x st1 = (Inr y, st'))"
  by (auto simp: op_bind_def split: prod.splits sum.splits)

lemma op_bind_Inl:
  "op_bind m f st = (Inl e, st') \<longleftrightarrow>
     m st = (Inl e, st') \<or> (\<exists>x st1. m st = (Inr x, st1) \<and> f x st1 = (Inl e, st'))"
  by (auto simp: op_bind_def split: prod.splits sum.splits)

text \<open>An operation keeps a relation between the states before and after it, thrown or not.\<close>

definition keeps :: "('s \<Rightarrow> 's \<Rightarrow> bool) \<Rightarrow> ('s \<Rightarrow> 'r \<times> 's) \<Rightarrow> bool" where
  "keeps R m \<longleftrightarrow> (\<forall>st. R st (snd (m st)))"

lemma keepsD: "keeps R m \<Longrightarrow> m st = (r, st') \<Longrightarrow> R st st'"
  by (metis keeps_def snd_conv)

lemma keepsI: "(\<And>st r st'. m st = (r, st') \<Longrightarrow> R st st') \<Longrightarrow> keeps R m"
  by (metis keeps_def prod.collapse)

lemma keeps_return: "reflp R \<Longrightarrow> keeps R (op_return x)"
  by (simp add: keeps_def reflpD)

lemma keeps_throw: "reflp R \<Longrightarrow> keeps R (op_throw e)"
  by (simp add: keeps_def reflpD)

lemma keeps_bind:
  assumes "transp R" and "keeps R m" and "\<And>x. keeps R (f x)"
  shows "keeps R (op_bind m f)"
proof (rule keepsI)
  fix st r st' assume h: "op_bind m f st = (r, st')"
  obtain x st1 where m: "m st = (x, st1)" by fastforce
  then have "R st st1" using assms(2) by (rule keepsD[rotated])
  show "R st st'"
  proof (cases x)
    case (Inl e)
    then show ?thesis using h m \<open>R st st1\<close> by (simp add: op_bind_def)
  next
    case (Inr y)
    then have "f y st1 = (r, st')" using h m by (simp add: op_bind_def)
    then have "R st1 st'" using assms(3) by (rule keepsD[rotated])
    with \<open>R st st1\<close> show ?thesis by (rule transpD[OF assms(1)])
  qed
qed

section \<open>Sets and maps built from an array\<close>

text \<open>\<open>[...new Set(xs)]\<close> keeps the first occurrence of each element, in order.\<close>

definition first_occurrences :: "'a list \<Rightarrow> 'a list" where
  "first_occurrences xs = rev (remdups (rev xs))"

lemma set_first_occurrences [simp]: "set (first_occurrences xs) = set xs"
  by (simp add: first_occurrences_def)

lemma distinct_first_occurrences [simp]: "distinct (first_occurrences xs)"
  by (simp add: first_occurrences_def)

section \<open>Redaction by key\<close>

text \<open>Several sanitisers replace the values of keys that match a pattern of sensitive words.\<close>

definition redact_keys :: "string list \<Rightarrow> jsobj \<Rightarrow> jsobj" where
  "redact_keys ws o' = obj_map (\<lambda>k v. if matches_any_word ws k then JStr ''[redacted]'' else v) o'"

lemma redact_keys_sensitive:
  "(k, v) \<in> set (redact_keys ws o') \<Longrightarrow> matches_any_word ws k \<Longrightarrow> v = JStr ''[redacted]''"
  by (auto simp: redact_keys_def obj_map_def)

lemma redact_keys_idem [simp]: "redact_keys ws (redact_keys ws o') = redact_keys ws o'"
  by (auto simp: redact_keys_def obj_map_def)

lemma fst_redact_keys [simp]: "map fst (redact_keys ws o') = map fst o'"
  by (simp add: redact_keys_def)

lemma obj_get_redact_keys:
  "\<not> matches_any_word ws k \<Longrightarrow> obj_get (redact_keys ws o') k = obj_get o' k"
  by (simp add: redact_keys_def obj_get_def map_of_obj_map split: option.splits)

section \<open>Arrays of entities\<close>

text \<open>\<open>items.find(x => x.id === id)\<close> and \<open>upsert\<close> / \<open>map.set(x.id, x)\<close>.\<close>

definition find_by :: "('a \<Rightarrow> 'k) \<Rightarrow> 'k \<Rightarrow> 'a list \<Rightarrow> 'a option" where
  "find_by key k xs = List.find (\<lambda>x. key x = k) xs"

fun upsert_by :: "('a \<Rightarrow> 'k) \<Rightarrow> 'a \<Rightarrow> 'a list \<Rightarrow> 'a list" where
  "upsert_by key x [] = [x]"
| "upsert_by key x (y # ys) = (if key y = key x then x # ys else y # upsert_by key x ys)"

text \<open>A mutation \<open>Object.assign(find(id), patch)\<close>: the first element with that id changes.\<close>

fun update_by :: "('a \<Rightarrow> 'k) \<Rightarrow> 'k \<Rightarrow> ('a \<Rightarrow> 'a) \<Rightarrow> 'a list \<Rightarrow> 'a list" where
  "update_by key k f [] = []"
| "update_by key k f (y # ys) = (if key y = k then f y # ys else y # update_by key k f ys)"

lemma find_by_simps [simp]:
  "find_by key k [] = None"
  "find_by key k (x # xs) = (if key x = k then Some x else find_by key k xs)"
  by (simp_all add: find_by_def)

lemma find_by_append: "find_by key k (xs @ ys) = opt_or (find_by key k xs) (find_by key k ys)"
  by (induction xs) auto

lemma find_by_Some: "find_by key k xs = Some x \<Longrightarrow> x \<in> set xs \<and> key x = k"
  by (induction xs) (auto split: if_splits)

lemma find_by_None: "find_by key k xs = None \<longleftrightarrow> k \<notin> key ` set xs"
  by (induction xs) auto

lemma find_by_distinct:
  "distinct (map key xs) \<Longrightarrow> x \<in> set xs \<Longrightarrow> find_by key (key x) xs = Some x"
  by (induction xs) (auto simp: rev_image_eqI)

lemma find_by_upsert [simp]:
  "find_by key k (upsert_by key x xs) = (if k = key x then Some x else find_by key k xs)"
  by (induction xs) auto

lemma set_upsert_by: "set (upsert_by key x xs) \<subseteq> insert x (set xs)"
  by (induction xs) auto

lemma keys_upsert_by: "key ` set (upsert_by key x xs) = insert (key x) (key ` set xs)"
  by (induction xs) auto

lemma distinct_upsert_by:
  "distinct (map key xs) \<Longrightarrow> distinct (map key (upsert_by key x xs))"
  by (induction xs) (auto simp: keys_upsert_by)

lemma find_by_update:
  "(\<And>x. key (f x) = key x) \<Longrightarrow>
   find_by key k' (update_by key k f xs) =
     (if k' = k then map_option f (find_by key k xs) else find_by key k' xs)"
  by (induction xs) auto

lemma map_key_update_by [simp]:
  "(\<And>x. key (f x) = key x) \<Longrightarrow> map key (update_by key k f xs) = map key xs"
  by (induction xs) auto

lemma length_update_by [simp]: "length (update_by key k f xs) = length xs"
  by (induction xs) auto

lemma in_update_by:
  "y \<in> set (update_by key k f xs) \<Longrightarrow> y \<in> set xs \<or> (\<exists>x \<in> set xs. key x = k \<and> y = f x)"
  by (induction xs) (auto split: if_splits)

text \<open>The contract every repository of the program offers to the services above it.\<close>

locale keyed_repository =
  fixes ident :: "'a \<Rightarrow> 'k"
    and lookup :: "'k \<Rightarrow> 's \<Rightarrow> 'a option"
    and save :: "'a \<Rightarrow> 's \<Rightarrow> 's"
  assumes lookup_ident: "lookup k s = Some x \<Longrightarrow> ident x = k"
    and lookup_save: "lookup k (save x s) = (if k = ident x then Some x else lookup k s)"
begin

lemma lookup_save_same: "lookup (ident x) (save x s) = Some x"
  by (simp add: lookup_save)

lemma lookup_save_other: "k \<noteq> ident x \<Longrightarrow> lookup k (save x s) = lookup k s"
  by (simp add: lookup_save)

lemma save_save: "ident x = ident y \<Longrightarrow> lookup k (save x (save y s)) = lookup k (save x s)"
  by (simp add: lookup_save)

text \<open>A read-modify-write that keeps the id touches that entity only.\<close>

lemma modify:
  "lookup k s = Some x \<Longrightarrow> ident y = ident x \<Longrightarrow>
   lookup k (save y s) = Some y \<and> (\<forall>k'. k' \<noteq> k \<longrightarrow> lookup k' (save y s) = lookup k' s)"
  by (auto simp: lookup_save dest: lookup_ident)

end

interpretation id_list: keyed_repository key "find_by key" "upsert_by key" for key
  by unfold_locales (auto dest: find_by_Some)

end
