(* ===== verification/TextPatterns.thy ===== *)
theory TextPatterns
  imports JsPrelude
begin

text \<open>
  The fragment of JavaScript regular expressions the sanitisers use: character classes with
  greedy repetition, sequences, alternatives, the word boundary and one capture group, matched
  by backtracking in the order of the language, and \<open>replace\<close> with the flag \<open>g\<close>.
\<close>

section \<open>Patterns\<close>

text \<open>
  \<open>Rep k c\<close> is the class \<open>c\<close> repeated at least \<open>k\<close> times, greedily; \<open>Cap r\<close> is the capture group;
  \<open>Bound\<close> is \<open>\b\<close>.
\<close>

datatype pat =
    Chr "char \<Rightarrow> bool"
  | Rep nat "char \<Rightarrow> bool"
  | Cat pat pat
  | Alt pat pat
  | Cap pat
  | Bound
  | Eps

definition is_word :: "char \<Rightarrow> bool" where
  "is_word c \<longleftrightarrow> is_upper c \<or> is_lower c \<or> is_digit c \<or> c = CHR ''_''"

definition word_at :: "char option \<Rightarrow> bool" where
  "word_at c = (case c of None \<Rightarrow> False | Some x \<Rightarrow> is_word x)"

definition first_char :: "string \<Rightarrow> char option" where
  "first_char s = (case s of [] \<Rightarrow> None | x # _ \<Rightarrow> Some x)"

text \<open>The character before position \<open>n\<close> of \<open>s\<close>, when \<open>p\<close> is the character before \<open>s\<close>.\<close>

definition char_before :: "char option \<Rightarrow> nat \<Rightarrow> string \<Rightarrow> char option" where
  "char_before p n s = (if n = 0 then p else Some (s ! (n - 1)))"

text \<open>A match is its length and the capture, an offset and a length; the first of the list wins.\<close>

type_synonym capture = "(nat \<times> nat) option"

fun matches :: "pat \<Rightarrow> char option \<Rightarrow> string \<Rightarrow> (nat \<times> capture) list" where
  "matches Eps p s = [(0, None)]"
| "matches (Chr c) p s = (case s of [] \<Rightarrow> [] | x # _ \<Rightarrow> if c x then [(1, None)] else [])"
| "matches (Rep k c) p s =
     map (\<lambda>n. (n, None)) (rev [k..<Suc (length (takeWhile c s))])"
| "matches (Cat a b) p s =
     concat (map (\<lambda>(n, cap). map (\<lambda>(m, cap').
         (n + m, opt_or cap (map_option (\<lambda>(i, l). (n + i, l)) cap')))
       (matches b (char_before p n s) (drop n s))) (matches a p s))"
| "matches (Alt a b) p s = matches a p s @ matches b p s"
| "matches (Cap r) p s = map (\<lambda>(n, _). (n, Some (0, n))) (matches r p s)"
| "matches Bound p s = (if word_at p \<noteq> word_at (first_char s) then [(0, None)] else [])"

text \<open>
  \<open>s.replace(r, f)\<close> with the flag \<open>g\<close>; the patterns of the code never match the empty string, so
  an empty match is skipped here.  The replacement is a function of the capture.
\<close>

function replace_all :: "pat \<Rightarrow> (string \<Rightarrow> string) \<Rightarrow> char option \<Rightarrow> string \<Rightarrow> string" where
  "replace_all r f p [] = []"
| "replace_all r f p (x # xs) =
     (case matches r p (x # xs) of
        (Suc n, cap) # _ \<Rightarrow>
          f (case cap of None \<Rightarrow> [] | Some (i, l) \<Rightarrow> take l (drop i (x # xs))) @
          replace_all r f (Some ((x # xs) ! n)) (drop n xs)
      | _ \<Rightarrow> x # replace_all r f (Some x) xs)"
  by pat_completeness auto
termination by (relation "measure (\<lambda>(r, f, p, s). length s)") auto

definition subst :: "pat \<Rightarrow> string \<Rightarrow> string \<Rightarrow> string" where
  "subst r repl s = replace_all r (\<lambda>_. repl) None s"

definition subst_with :: "pat \<Rightarrow> (string \<Rightarrow> string) \<Rightarrow> string \<Rightarrow> string" where
  "subst_with r f s = replace_all r f None s"

text \<open>\<open>r.test(s)\<close>: some position of the string has a match.\<close>

fun re_test :: "pat \<Rightarrow> char option \<Rightarrow> string \<Rightarrow> bool" where
  "re_test r p [] = (matches r p [] \<noteq> [])"
| "re_test r p (x # xs) = (matches r p (x # xs) \<noteq> [] \<or> re_test r (Some x) xs)"

section \<open>Writing patterns\<close>

definition same_char :: "char \<Rightarrow> char \<Rightarrow> bool" where
  "same_char c x \<longleftrightarrow> x = c"

text \<open>With the flag \<open>i\<close> a literal character matches in either case.\<close>

definition same_letter :: "char \<Rightarrow> char \<Rightarrow> bool" where
  "same_letter c x \<longleftrightarrow> lower_char x = lower_char c"

definition seq_of :: "pat list \<Rightarrow> pat" where
  "seq_of ps = foldr Cat ps Eps"

definition lit :: "string \<Rightarrow> pat" where
  "lit s = seq_of (map (\<lambda>c. Chr (same_char c)) s)"

definition lit_i :: "string \<Rightarrow> pat" where
  "lit_i s = seq_of (map (\<lambda>c. Chr (same_letter c)) s)"

definition is_alnum :: "char \<Rightarrow> bool" where
  "is_alnum c \<longleftrightarrow> is_upper c \<or> is_lower c \<or> is_digit c"

definition any_of :: "pat list \<Rightarrow> pat" where
  "any_of ps = foldr Alt ps (Chr (\<lambda>_. False))"

definition one_of :: "string \<Rightarrow> char \<Rightarrow> bool" where
  "one_of s c \<longleftrightarrow> c \<in> set s"

section \<open>What replacing keeps\<close>

lemma replace_all_no_match:
  "(\<And>p s. matches r p s = []) \<Longrightarrow> replace_all r f p s = s"
  by (induction r f p s rule: replace_all.induct) simp_all

text \<open>The characters of a result come from the input or from a replacement.\<close>

lemma set_replace_all:
  "set (replace_all r f p s) \<subseteq> set s \<union> (\<Union>cap. set (f cap))"
proof (induction "length s" arbitrary: p s rule: less_induct)
  case less
  show ?case
  proof (cases s)
    case (Cons x xs)
    have rec: "set (replace_all r f p' s') \<subseteq> set xs \<union> (\<Union>cap. set (f cap))"
      if "s' = drop n xs" for p' s' n
      using less[of s' p'] that Cons set_drop_subset[of n xs] by fastforce
    show ?thesis
      using rec[of "drop 0 xs" 0] rec[OF refl]
      by (auto simp: Cons split: list.splits prod.splits nat.splits) blast+
  qed simp
qed

end
