(* ===== verification/PolicyEngine.thy ===== *)
theory PolicyEngine
  imports JsPrelude
begin

text \<open>
  The policy engine of \<open>packages/policy/src\<close>: the data model of \<open>types.ts\<close>, the static engine
  of \<open>engine.ts\<close> (\<open>StaticPolicyEngine\<close>) and the contract its callers rely on.  Actions and
  resource kinds are strings, as at run time; \<open>is_policy_action\<close> and \<open>is_policy_resource_kind\<close>
  are the membership tests of the code. 
\<close>

section \<open>Data model\<close>

record policy_subject =
  subj_actor_id :: string
  subj_principal_id :: "string option"
  subj_actor_kind :: string
  subj_roles :: "string list"
  subj_teams :: "string list option"
  subj_auth_mode :: "string option"
  subj_service_account_id :: "string option"
  subj_is_mock_actor :: "bool option"
  subj_metadata :: "jsobj option"

record policy_resource =
  res_kind :: string
  res_id :: "string option"
  res_metadata :: jsobj

record policy_context =
  ctx_task_id :: "string option"
  ctx_task_run_id :: "string option"
  ctx_repo_id :: "string option"
  ctx_branch_name :: "string option"
  ctx_model_id :: "string option"
  ctx_provider_kind :: "string option"
  ctx_runner_kind :: "string option"
  ctx_command :: "string option"
  ctx_skill_refs :: "js list option"
  ctx_harness_ref :: js
  ctx_instruction_refs :: "js list option"
  ctx_risk_score :: "num option"
  ctx_environment :: jsobj
  ctx_metadata :: jsobj

datatype decision_value = DecAllow | DecDeny | DecRequireApproval | DecNotApplicable

text \<open>\<open>EffOther\<close> is a value outside the declared union, which \<open>validatePolicySet\<close> rejects.\<close>

datatype rule_effect = EffAllow | EffDeny | EffRequireApproval | EffOther string

record rule_conditions =
  c_subject_roles_any :: "string list option"
  c_provider_kinds :: "string list option"
  c_runner_kinds :: "string list option"
  c_resource_statuses :: "string list option"
  c_command_includes_any :: "string list option"
  c_command_equals_any :: "string list option"
  c_environment_equals :: "jsobj option"
  c_metadata_equals :: "jsobj option"
  c_risk_score_at_least :: "num option"

record policy_rule =
  rule_id :: string
  rule_name :: string
  rule_description :: string
  rule_eff :: rule_effect
  rule_action :: string
  rule_resource_kind :: "string option"
  rule_conds :: rule_conditions
  rule_priority :: num
  rule_enabled :: bool

record policy_request =
  req_subject :: policy_subject
  req_action :: string
  req_resource :: policy_resource
  req_context :: policy_context

record policy_decision =
  dec_id :: string
  dec_allowed :: bool
  dec_value :: decision_value
  dec_reason :: string
  dec_matched_rule_ids :: "string list"
  dec_subject :: policy_subject
  dec_resource :: policy_resource
  dec_action :: string
  dec_context :: policy_context
  dec_created_at :: time

definition policy_actions :: "string list" where
  "policy_actions = [
    ''task.create'', ''task.run'', ''git.branch.create'', ''git.pull_request.create'',
    ''git.webhook.receive'', ''git.webhook.verify'', ''git.webhook.process'',
    ''git.pull_request.sync'', ''git.branch.sync'', ''git.changed_files.read'',
    ''git.credential.resolve'', ''git.remote_operation'', ''git.merge'', ''git.rebase'',
    ''git.branch.delete'', ''llm.completion'', ''llm.remote_completion'', ''llm.model.use'',
    ''llm.credential.resolve'', ''llm.route.select'', ''llm.fallback'', ''runner.execute'',
    ''runner.command.execute'', ''runner.local_execution'', ''registry.create'',
    ''registry.update'', ''registry.approve'', ''registry.rollback'',
    ''improvement.proposal.create'', ''improvement.proposal.approve'',
    ''improvement.draft_change.prepare'', ''improvement.apply'', ''provider.invoke'',
    ''provider.credential.resolve'', ''provider.local_cli.invoke'', ''provider.pty.invoke'',
    ''provider.cloud_api.invoke'', ''local_agent.register'', ''local_agent.channel.create'',
    ''local_agent.handshake.verify'', ''local_agent.capability.advertise'',
    ''local_agent.compatibility.check'', ''local_agent.invoke'',
    ''local_agent.consent.request'', ''local_agent.consent.approve'', ''local_agent.cancel'',
    ''local_agent.revoke'', ''local_agent.event.receive'', ''local_agent.stream.receive'',
    ''local_agent.session.approve'', ''local_agent.session.expire'', ''local_cli.invoke'',
    ''local_cli.template.use'', ''local_cli.file_write'', ''local_cli.shell_execution'',
    ''local_cli.network_access'', ''local_cli.danger_full_access'', ''credential.cache.read'',
    ''credential.cache.upload'', ''secret.metadata.read'', ''secret.lease.request'',
    ''secret.lease.issue'', ''secret.lease.revoke'', ''dashboard.read'', ''auth.read'',
    ''auth.authorize.check'', ''auth.admin'', ''sandbox.profile.use'',
    ''sandbox.session.create'', ''network.egress'', ''runner.secret.inject'',
    ''local_agent.secret.forward'', ''audit.secret.view'', ''mcp.server.list'',
    ''mcp.tool.list'', ''mcp.tool.invoke'', ''mcp.tool.invoke.low_risk'',
    ''mcp.tool.invoke.high_risk'', ''mcp.tool.invoke.critical'', ''mcp.tool.secret.resolve'',
    ''mcp.tool.network_access'', ''mcp.tool.write'', ''mcp.tool.deploy'', ''mcp.tool.call'',
    ''secret.read'']"

definition policy_resource_kinds :: "string list" where
  "policy_resource_kinds = [
    ''task'', ''task_run'', ''repo'', ''branch'', ''pull_request'', ''git_operation'',
    ''llm_model'', ''llm_provider'', ''llm_route'', ''llm_fallback_policy'',
    ''virtual_model_key'', ''runner'', ''command'', ''workspace'', ''skill'', ''harness'',
    ''instruction'', ''registry_item'', ''improvement_proposal'', ''draft_registry_change'',
    ''provider'', ''provider_credential'', ''local_agent'', ''local_cli'', ''secret_ref'',
    ''secret_lease'', ''sandbox_profile'', ''sandbox_session'', ''network_egress_policy'',
    ''redaction_policy'', ''mcp_server'', ''mcp_tool'', ''secret_scope'', ''dashboard'',
    ''auth'']"

definition is_policy_action :: "string \<Rightarrow> bool" where
  "is_policy_action a \<longleftrightarrow> a \<in> set policy_actions"

definition is_policy_resource_kind :: "string \<Rightarrow> bool" where
  "is_policy_resource_kind k \<longleftrightarrow> k \<in> set policy_resource_kinds"

text \<open>The constructors \<open>createPolicySubject\<close>, \<open>createPolicyResource\<close> and \<open>createPolicyContext\<close>.\<close>

definition create_policy_subject ::
  "string option \<Rightarrow> string option \<Rightarrow> string option \<Rightarrow> string list option \<Rightarrow> string list option \<Rightarrow>
   string option \<Rightarrow> string option \<Rightarrow> bool option \<Rightarrow> jsobj option \<Rightarrow> policy_subject" where
  "create_policy_subject actor prin kind roles teams mode account mock meta =
     \<lparr>subj_actor_id = opt_default actor ''mock-policy-actor'', subj_principal_id = prin,
      subj_actor_kind = opt_default kind ''system'', subj_roles = opt_default roles [''system''],
      subj_teams = teams, subj_auth_mode = mode, subj_service_account_id = account,
      subj_is_mock_actor = mock, subj_metadata = meta\<rparr>"

definition create_policy_resource :: "string \<Rightarrow> string option \<Rightarrow> jsobj option \<Rightarrow> policy_resource" where
  "create_policy_resource kind i meta =
     \<lparr>res_kind = kind, res_id = i, res_metadata = opt_default meta []\<rparr>"

definition create_policy_context :: "jsobj option \<Rightarrow> jsobj option \<Rightarrow> policy_context" where
  \<comment> \<open>the optional fields a caller gives besides are set on the result\<close>
  "create_policy_context env meta =
     \<lparr>ctx_task_id = None, ctx_task_run_id = None, ctx_repo_id = None, ctx_branch_name = None,
      ctx_model_id = None, ctx_provider_kind = None, ctx_runner_kind = None, ctx_command = None,
      ctx_skill_refs = None, ctx_harness_ref = JUndef, ctx_instruction_refs = None,
      ctx_risk_score = None, ctx_environment = opt_default env [], ctx_metadata = opt_default meta []\<rparr>"

section \<open>Rule matching\<close>

definition command_text :: "policy_request \<Rightarrow> string" where
  "command_text req =
     (case ctx_command (req_context req) of
        Some c \<Rightarrow> to_lower c
      | None \<Rightarrow> (let v = obj_get (res_metadata (req_resource req)) ''command''
                in if nullish v then [] else to_lower (js_string v)))"

definition map_matches :: "jsobj option \<Rightarrow> jsobj \<Rightarrow> bool" where
  "map_matches expected actual =
     (case expected of None \<Rightarrow> True
      | Some e \<Rightarrow> list_all (\<lambda>(k, v). obj_get actual k = v) e)"

text \<open>\<open>String(context.f ?? resource.metadata.f ?? "")\<close>.\<close>

definition context_or_metadata :: "string option \<Rightarrow> string \<Rightarrow> policy_request \<Rightarrow> string" where
  "context_or_metadata v key req =
     (case v of Some s \<Rightarrow> s
      | None \<Rightarrow> (let m = obj_get (res_metadata (req_resource req)) key
                in if nullish m then [] else js_string m))"

definition condition_matches :: "rule_conditions \<Rightarrow> policy_request \<Rightarrow> bool" where
  "condition_matches c req \<longleftrightarrow>
     (case c_subject_roles_any c of None \<Rightarrow> True
      | Some rs \<Rightarrow> list_ex (\<lambda>role. role \<in> set rs) (subj_roles (req_subject req))) \<and>
     (case c_provider_kinds c of None \<Rightarrow> True
      | Some ks \<Rightarrow> context_or_metadata (ctx_provider_kind (req_context req)) ''providerKind'' req \<in> set ks) \<and>
     (case c_runner_kinds c of None \<Rightarrow> True
      | Some ks \<Rightarrow> context_or_metadata (ctx_runner_kind (req_context req)) ''runnerKind'' req \<in> set ks) \<and>
     (case c_resource_statuses c of None \<Rightarrow> True
      | Some ss \<Rightarrow> context_or_metadata None ''status'' req \<in> set ss) \<and>
     (case c_command_includes_any c of None \<Rightarrow> True
      | Some ns \<Rightarrow> list_ex (\<lambda>n. str_includes (command_text req) (to_lower n)) ns) \<and>
     (case c_command_equals_any c of None \<Rightarrow> True
      | Some cs \<Rightarrow> list_ex (\<lambda>x. command_text req = to_lower x) cs) \<and>
     map_matches (c_environment_equals c) (ctx_environment (req_context req)) \<and>
     map_matches (c_metadata_equals c) (ctx_metadata (req_context req)) \<and>
     (case c_risk_score_at_least c of None \<Rightarrow> True
      | Some t \<Rightarrow> t \<le> opt_default (ctx_risk_score (req_context req)) 0)"

definition decision_value_for_effect :: "rule_effect \<Rightarrow> decision_value" where
  "decision_value_for_effect e =
     (if e = EffAllow then DecAllow
      else if e = EffRequireApproval then DecRequireApproval else DecDeny)"

section \<open>The static engine\<close>

definition rule_cmp :: "policy_rule \<Rightarrow> policy_rule \<Rightarrow> int" where
  "rule_cmp = cmp_or (\<lambda>l r. num_cmp (rule_priority r) (rule_priority l))
                     (\<lambda>l r. locale_compare (rule_id l) (rule_id r))"

definition rule_applies :: "policy_request \<Rightarrow> policy_rule \<Rightarrow> bool" where
  "rule_applies req r \<longleftrightarrow>
     rule_enabled r \<and> rule_action r = req_action req \<and>
     (rule_resource_kind r = None \<or> rule_resource_kind r = Some (res_kind (req_resource req))) \<and>
     condition_matches (rule_conds r) req"

definition candidates :: "policy_rule list \<Rightarrow> policy_request \<Rightarrow> policy_rule list" where
  "candidates rules req = sort_by rule_cmp (filter (rule_applies req) rules)"

definition evaluate :: "policy_rule list \<Rightarrow> draws \<Rightarrow> policy_request \<Rightarrow> policy_decision" where
  "evaluate rules s req =
     (case candidates rules req of
        [] \<Rightarrow> \<lparr>dec_id = fresh_id ''policydec'' 0 s, dec_allowed = False, dec_value = DecDeny,
               dec_reason = ''No policy rule allowed '' @ req_action req @ '' on ''
                            @ res_kind (req_resource req) @ ''.'',
               dec_matched_rule_ids = [''policy_default_deny''],
               dec_subject = req_subject req, dec_resource = req_resource req,
               dec_action = req_action req, dec_context = req_context req,
               dec_created_at = clock 0 s\<rparr>
      | matched # _ \<Rightarrow>
          (let decision = decision_value_for_effect (rule_eff matched) in
           \<lparr>dec_id = fresh_id ''policydec'' 0 s, dec_allowed = (decision = DecAllow),
            dec_value = decision, dec_reason = rule_description matched,
            dec_matched_rule_ids = [rule_id matched],
            dec_subject = req_subject req, dec_resource = req_resource req,
            dec_action = req_action req, dec_context = req_context req,
            dec_created_at = clock 0 s\<rparr>))"

definition evaluate_many :: "policy_rule list \<Rightarrow> (nat \<Rightarrow> draws) \<Rightarrow> policy_request list \<Rightarrow> policy_decision list" where
  "evaluate_many rules s reqs = map (\<lambda>(i, r). evaluate rules (s i) r) (enumerate 0 reqs)"

definition list_rules :: "policy_rule list \<Rightarrow> policy_rule list" where
  "list_rules rules = sort_by rule_cmp rules"

definition get_rule :: "policy_rule list \<Rightarrow> string \<Rightarrow> policy_rule option" where
  "get_rule rules i = find_by rule_id i rules"

subsection \<open>Validation of a rule set and the constructor\<close>

definition rule_errors :: "string set \<Rightarrow> policy_rule \<Rightarrow> string list" where
  "rule_errors ids r =
     (if rule_id r = [] then [''policy rule id is required''] else []) @
     (if rule_id r \<in> ids then [''duplicate policy rule id: '' @ rule_id r] else []) @
     (if \<not> is_policy_action (rule_action r)
      then [''invalid policy action for rule '' @ rule_id r] else []) @
     (case rule_resource_kind r of None \<Rightarrow> []
      | Some k \<Rightarrow> if is_policy_resource_kind k then []
                 else [''invalid resource kind for rule '' @ rule_id r]) @
     (case rule_eff r of EffOther _ \<Rightarrow> [''invalid policy effect for rule '' @ rule_id r] | _ \<Rightarrow> [])"

fun validate_loop :: "string set \<Rightarrow> policy_rule list \<Rightarrow> string list" where
  "validate_loop ids [] = []"
| "validate_loop ids (r # rs) = rule_errors ids r @ validate_loop (insert (rule_id r) ids) rs"

definition validate_policy_set :: "policy_rule list \<Rightarrow> bool \<times> string list" where
  "validate_policy_set rules = (let errors = validate_loop {} rules in (errors = [], errors))"

text \<open>\<open>new StaticPolicyEngine(rules)\<close> keeps a copy of a valid rule set and throws otherwise.\<close>

definition new_engine :: "policy_rule list \<Rightarrow> policy_rule list result" where
  "new_engine rules =
     (case validate_policy_set rules of
        (True, _) \<Rightarrow> Inr rules
      | (False, errors) \<Rightarrow> Inl (Error (''Invalid policy set: '' @ join_with ''; '' errors)))"

section \<open>What the engine decides\<close>

interpretation rule_cmp: js_comparator rule_cmp
  unfolding rule_cmp_def
  by (rule js_comparator_or)
     (rule js_comparator_flip[OF js_comparator_key[OF num_cmp.js_comparator_axioms]],
      rule js_comparator_key[OF locale_compare.js_comparator_axioms])

lemma rule_cmp_le_iff:
  "rule_cmp l r \<le> 0 \<longleftrightarrow> rule_priority r < rule_priority l \<or>
     rule_priority r = rule_priority l \<and> locale_compare (rule_id l) (rule_id r) \<le> 0"
  by (auto simp: rule_cmp_def cmp_or_def num_cmp_def Let_def split: if_splits)

lemma rule_cmp_le_priority: "rule_cmp l r \<le> 0 \<Longrightarrow> rule_priority r \<le> rule_priority l"
  by (auto simp: rule_cmp_le_iff)

lemma rule_cmp_eq0: "rule_cmp l r = 0 \<Longrightarrow> rule_id l = rule_id r"
  by (auto simp: rule_cmp_def cmp_or_def Let_def locale_compare_eq0 split: if_splits)

text \<open>The rule that decides a request, if any rule applies.\<close>

definition winner :: "policy_rule list \<Rightarrow> policy_request \<Rightarrow> policy_rule option" where
  "winner rules req = (case candidates rules req of [] \<Rightarrow> None | r # _ \<Rightarrow> Some r)"

lemma set_candidates [simp]: "set (candidates rules req) = {r \<in> set rules. rule_applies req r}"
  by (auto simp: candidates_def)

lemma candidates_Nil_iff: "candidates rules req = [] \<longleftrightarrow> (\<forall>r \<in> set rules. \<not> rule_applies req r)"
  by (simp add: candidates_def filter_empty_conv)

lemma winner_None: "winner rules req = None \<longleftrightarrow> (\<forall>r \<in> set rules. \<not> rule_applies req r)"
  by (auto simp: winner_def candidates_Nil_iff[symmetric] split: list.splits)

lemma winner_Some:
  assumes "winner rules req = Some w"
  shows "w \<in> set rules" and "rule_applies req w"
    and "r \<in> set rules \<Longrightarrow> rule_applies req r \<Longrightarrow> rule_cmp w r \<le> 0"
proof -
  from assms obtain ws where c: "candidates rules req = w # ws"
    by (auto simp: winner_def split: list.splits)
  then have "w \<in> set (candidates rules req)" by simp
  then show "w \<in> set rules" "rule_applies req w" by auto
  show "rule_cmp w r \<le> 0" if "r \<in> set rules" "rule_applies req r"
    using that rule_cmp.hd_sort_by_least[of r "filter (rule_applies req) rules"] c
    by (simp add: candidates_def)
qed

lemma winner_highest_priority:
  "winner rules req = Some w \<Longrightarrow> r \<in> set rules \<Longrightarrow> rule_applies req r \<Longrightarrow>
   rule_priority r \<le> rule_priority w"
  by (blast dest: winner_Some(3) rule_cmp_le_priority)

lemma evaluate_winner:
  "dec_allowed (evaluate rules s req) \<longleftrightarrow> (\<exists>w. winner rules req = Some w \<and> rule_eff w = EffAllow)"
  "dec_value (evaluate rules s req) =
     (case winner rules req of None \<Rightarrow> DecDeny | Some w \<Rightarrow> decision_value_for_effect (rule_eff w))"
  "dec_matched_rule_ids (evaluate rules s req) =
     (case winner rules req of None \<Rightarrow> [''policy_default_deny''] | Some w \<Rightarrow> [rule_id w])"
  by (auto simp: evaluate_def winner_def decision_value_for_effect_def Let_def split: list.splits)

lemma evaluate_request [simp]:
  "dec_subject (evaluate rules s req) = req_subject req"
  "dec_resource (evaluate rules s req) = req_resource req"
  "dec_action (evaluate rules s req) = req_action req"
  "dec_context (evaluate rules s req) = req_context req"
  "dec_id (evaluate rules s req) = fresh_id ''policydec'' 0 s"
  "dec_created_at (evaluate rules s req) = clock 0 s"
  by (simp_all add: evaluate_def Let_def split: list.splits)

lemma candidates_perm:
  assumes "mset rules = mset rules'" and "distinct (map rule_id rules)"
  shows "candidates rules req = candidates rules' req"
proof -
  have "a = b" if "a \<in> set rules" "b \<in> set rules" "rule_cmp a b = 0" for a b
    using that rule_cmp_eq0[of a b] assms(2) by (auto simp: distinct_map inj_on_def)
  moreover have "mset (filter (rule_applies req) rules) = mset (filter (rule_applies req) rules')"
    using assms(1) by simp
  ultimately show ?thesis
    unfolding candidates_def by (intro rule_cmp.sort_by_perm) auto
qed

text \<open>
  When every applicable rule has the same effect class, the verdict is that class: the form
  in which the default rule set is analysed.
\<close>

lemma never_allowed:
  assumes "\<And>r. r \<in> set rules \<Longrightarrow> rule_applies req r \<Longrightarrow>
      rule_eff r = EffAllow \<Longrightarrow>
      \<exists>d \<in> set rules. rule_applies req d \<and> rule_eff d \<noteq> EffAllow \<and> rule_priority r < rule_priority d"
  shows "\<not> dec_allowed (evaluate rules s req)"
proof
  assume "dec_allowed (evaluate rules s req)"
  then obtain w where w: "winner rules req = Some w" "rule_eff w = EffAllow"
    by (auto simp: evaluate_winner)
  with assms[of w] winner_Some(1,2)[OF w(1)] obtain d
    where "d \<in> set rules" "rule_applies req d" "rule_priority w < rule_priority d" by blast
  with winner_highest_priority[OF w(1)] show False by (metis leD)
qed

lemma allowed_has_rule:
  assumes "dec_allowed (evaluate rules s req)"
  obtains r where "r \<in> set rules" "rule_applies req r" "rule_eff r = EffAllow"
    "\<And>r'. r' \<in> set rules \<Longrightarrow> rule_applies req r' \<Longrightarrow> rule_priority r' \<le> rule_priority r"
proof -
  from assms obtain w where w: "winner rules req = Some w" and "rule_eff w = EffAllow"
    by (auto simp: evaluate_winner)
  then show thesis
    using that[of w] winner_Some(1,2)[OF w] winner_highest_priority[OF w] by blast
qed

section \<open>The contract of a policy engine\<close>

text \<open>
  \<open>PolicyService\<close> is built over any \<open>PolicyEngine\<close> and is one itself; what the services above rely
  on is that a decision is about the actor, action and resource of the request, is allowed
  exactly when its value is \<open>allow\<close>, and does not depend on the ids and the time drawn.
\<close>

locale policy_engine =
  fixes decide :: "draws \<Rightarrow> policy_request \<Rightarrow> policy_decision"
  assumes allowed_iff: "dec_allowed (decide s req) \<longleftrightarrow> dec_value (decide s req) = DecAllow"
    and decide_action: "dec_action (decide s req) = req_action req"
    and decide_actor: "subj_actor_id (dec_subject (decide s req)) = subj_actor_id (req_subject req)"
    and decide_resource: "res_kind (dec_resource (decide s req)) = res_kind (req_resource req)"
    and decide_stable: "dec_value (decide s req) = dec_value (decide s' req)"
begin

lemma verdict_stable: "dec_allowed (decide s req) = dec_allowed (decide s' req)"
  by (simp only: allowed_iff decide_stable[of s req s'])

lemma not_allowed_value:
  "\<not> dec_allowed (decide s req) \<Longrightarrow> dec_value (decide s req) \<noteq> DecAllow"
  by (simp add: allowed_iff)

end

lemma evaluate_stable:
  "dec_value (evaluate rules s req) = dec_value (evaluate rules s' req)"
  by (simp add: evaluate_winner)

interpretation static: policy_engine "evaluate rules" for rules
proof
  fix s req
  show "dec_allowed (evaluate rules s req) \<longleftrightarrow> dec_value (evaluate rules s req) = DecAllow"
    by (auto simp: evaluate_winner decision_value_for_effect_def split: option.splits)
qed (simp_all add: evaluate_stable)

section \<open>Sample requests for the witnesses\<close>

definition sample_subject :: "string list \<Rightarrow> policy_subject" where
  "sample_subject roles =
     \<lparr>subj_actor_id = ''actor'', subj_principal_id = None, subj_actor_kind = ''user'',
      subj_roles = roles, subj_teams = None, subj_auth_mode = None,
      subj_service_account_id = None, subj_is_mock_actor = None, subj_metadata = None\<rparr>"

definition sample_context :: "string option \<Rightarrow> string option \<Rightarrow> jsobj \<Rightarrow> jsobj \<Rightarrow> policy_context" where
  "sample_context provider cmd env meta =
     \<lparr>ctx_task_id = None, ctx_task_run_id = None, ctx_repo_id = None, ctx_branch_name = None,
      ctx_model_id = None, ctx_provider_kind = provider, ctx_runner_kind = None,
      ctx_command = cmd, ctx_skill_refs = None, ctx_harness_ref = JUndef,
      ctx_instruction_refs = None, ctx_risk_score = None, ctx_environment = env,
      ctx_metadata = meta\<rparr>"

definition sample_request ::
  "string list \<Rightarrow> string \<Rightarrow> string \<Rightarrow> string option \<Rightarrow> string option \<Rightarrow> jsobj \<Rightarrow> jsobj \<Rightarrow> policy_request" where
  "sample_request roles action kind provider cmd env meta =
     \<lparr>req_subject = sample_subject roles, req_action = action,
      req_resource = \<lparr>res_kind = kind, res_id = None, res_metadata = []\<rparr>,
      req_context = sample_context provider cmd env meta\<rparr>"

lemma sample_request_simps [simp]:
  "subj_roles (req_subject (sample_request roles action kind provider cmd env meta)) = roles"
  "req_action (sample_request roles action kind provider cmd env meta) = action"
  "req_resource (sample_request roles action kind provider cmd env meta) =
     \<lparr>res_kind = kind, res_id = None, res_metadata = []\<rparr>"
  "ctx_provider_kind (req_context (sample_request roles action kind provider cmd env meta)) = provider"
  "ctx_command (req_context (sample_request roles action kind provider cmd env meta)) = cmd"
  "ctx_environment (req_context (sample_request roles action kind provider cmd env meta)) = env"
  "ctx_metadata (req_context (sample_request roles action kind provider cmd env meta)) = meta"
  by (simp_all add: sample_request_def sample_subject_def sample_context_def)

section \<open>Properties\<close>

text \<open>
  C1: Over a rule set with distinct ids, a request is allowed exactly when an enabled allow rule
  applies to it and comes before every other applicable rule, higher priority first and then by
  id: deny by default, and a deny rule of higher priority wins over any allow rule.
\<close>

theorem evaluate_allowed_iff:
  assumes "distinct (map rule_id rules)"
  shows "dec_allowed (evaluate rules s req) \<longleftrightarrow>
    (\<exists>w \<in> set rules. rule_applies req w \<and> rule_eff w = EffAllow \<and>
      (\<forall>r \<in> set rules. rule_applies req r \<longrightarrow>
         r = w \<or> rule_priority r < rule_priority w \<or>
         rule_priority r = rule_priority w \<and> locale_compare (rule_id w) (rule_id r) < 0))"
    (is "?l \<longleftrightarrow> (\<exists>w \<in> set rules. ?P w)")
proof
  assume ?l
  then obtain w where w: "winner rules req = Some w" and a: "rule_eff w = EffAllow"
    by (auto simp: evaluate_winner)
  have "r = w \<or> rule_priority r < rule_priority w \<or>
      rule_priority r = rule_priority w \<and> locale_compare (rule_id w) (rule_id r) < 0"
    if r: "r \<in> set rules" "rule_applies req r" for r
  proof (cases "locale_compare (rule_id w) (rule_id r) = 0")
    case True
    then have "rule_id w = rule_id r" by (simp add: locale_compare_eq0)
    then show ?thesis
      using assms r(1) winner_Some(1)[OF w] by (auto simp: distinct_map inj_on_def)
  next
    case False
    then show ?thesis using winner_Some(3)[OF w r] by (auto simp: rule_cmp_le_iff)
  qed
  with a winner_Some(1,2)[OF w] show "\<exists>w \<in> set rules. ?P w" by blast
next
  assume "\<exists>w \<in> set rules. ?P w"
  then obtain w where w: "w \<in> set rules" "?P w" by blast
  then obtain v where v: "winner rules req = Some v"
    by (cases "winner rules req") (auto simp: winner_None)
  have "rule_cmp v w \<le> 0" by (rule winner_Some(3)[OF v]) (use w in auto)
  moreover have "v = w \<or> \<not> rule_cmp v w \<le> 0"
    using w winner_Some(1,2)[OF v] locale_compare.less_swap[of "rule_id w" "rule_id v"]
    by (fastforce simp: rule_cmp_le_iff)
  ultimately show ?l using v w by (auto simp: evaluate_winner)
qed

text \<open>
  With distinct rule ids, the decision does not depend on the order in which the rules are
  listed.
\<close>

theorem evaluate_rule_order_irrelevant:
  assumes "mset rules = mset rules'" and "distinct (map rule_id rules)"
  shows "evaluate rules s req = evaluate rules' s req"
  by (simp add: evaluate_def candidates_perm[OF assms])

definition sample_rule :: "string \<Rightarrow> rule_effect \<Rightarrow> num \<Rightarrow> policy_rule" where
  "sample_rule i e p =
     \<lparr>rule_id = i, rule_name = i, rule_description = i, rule_eff = e, rule_action = ''task.run'',
      rule_resource_kind = None,
      rule_conds = \<lparr>c_subject_roles_any = None, c_provider_kinds = None, c_runner_kinds = None,
        c_resource_statuses = None, c_command_includes_any = None, c_command_equals_any = None,
        c_environment_equals = None, c_metadata_equals = None, c_risk_score_at_least = None\<rparr>,
      rule_priority = p, rule_enabled = True\<rparr>"

theorem evaluate_allowed_iff_witness:
  "dec_allowed (evaluate [sample_rule ''a'' EffDeny 1, sample_rule ''b'' EffAllow 2] sample_draws
     (sample_request [] ''task.run'' ''task'' None None [] []))"
  by (subst evaluate_allowed_iff)
     (simp_all add: sample_rule_def rule_applies_def condition_matches_def map_matches_def)

theorem evaluate_rule_order_irrelevant_witness:
  "evaluate [sample_rule ''a'' EffDeny 1, sample_rule ''b'' EffAllow 1] sample_draws
       (sample_request [] ''task.run'' ''task'' None None [] []) =
   evaluate [sample_rule ''b'' EffAllow 1, sample_rule ''a'' EffDeny 1] sample_draws
       (sample_request [] ''task.run'' ''task'' None None [] [])"
  by (rule evaluate_rule_order_irrelevant) (simp_all add: sample_rule_def)

end
