(* ===== verification/PolicyRules.thy ===== *)
theory PolicyRules
  imports PolicyEngine
begin

text \<open>
  The default rule set of \<open>packages/policy/src/default-rules.ts\<close>, rule by rule in the order of the
  source, one definition per group of rules.  What the set lets through is proved in
  \<open>DefaultPolicy\<close>.
\<close>

section \<open>The rules\<close>

definition no_conditions :: rule_conditions where
  "no_conditions =
     \<lparr>c_subject_roles_any = None, c_provider_kinds = None, c_runner_kinds = None,
      c_resource_statuses = None, c_command_includes_any = None, c_command_equals_any = None,
      c_environment_equals = None, c_metadata_equals = None, c_risk_score_at_least = None\<rparr>"

definition git_remote_rules :: "policy_rule list" where
  "git_remote_rules = [
   \<lparr>rule_id = ''policy_git_remote_operation_disabled_deny'',
    rule_name = ''Deny disabled remote Git operations'',
    rule_description = ''Remote Git operations require explicit v1 runtime gates.'',
    rule_eff = EffDeny, rule_action = ''git.remote_operation'', rule_resource_kind = Some ''git_operation'',
    rule_conds = no_conditions\<lparr>c_environment_equals := Some [(''remoteGitEnabled'', JBool
      False)]\<rparr>,
    rule_priority = 1000, rule_enabled = True\<rparr>,
   \<lparr>rule_id = ''policy_git_remote_operation_gate_deny'',
    rule_name = ''Deny remote Git operation without operation gate'',
    rule_description = ''Remote Git operations require an operation-specific branch, PR, or read gate.'',
    rule_eff = EffDeny, rule_action = ''git.remote_operation'', rule_resource_kind = Some ''git_operation'',
    rule_conds = no_conditions\<lparr>c_environment_equals := Some [(''remoteOperationAllowed'', JBool
      False)]\<rparr>,
    rule_priority = 950, rule_enabled = True\<rparr>,
   \<lparr>rule_id = ''policy_git_remote_operation_allow_github_v1'',
    rule_name = ''Allow gated GitHub remote operation'',
    rule_description = ''GitHub remote operations may proceed only after v1 config gates and allowlists pass.'',
    rule_eff = EffAllow, rule_action = ''git.remote_operation'', rule_resource_kind = Some ''git_operation'',
    rule_conds = no_conditions\<lparr>c_provider_kinds := Some [''github''], c_environment_equals := Some
      [(''remoteGitEnabled'', JBool True), (''remoteOperationAllowed'', JBool True),
      (''repoAllowlisted'', JBool True), (''credentialsConfigured'', JBool True)]\<rparr>,
    rule_priority = 300, rule_enabled = True\<rparr>]"

definition git_webhook_rules :: "policy_rule list" where
  "git_webhook_rules = [
   \<lparr>rule_id = ''policy_git_webhook_receive_disabled_deny'',
    rule_name = ''Deny disabled GitHub webhook receive'',
    rule_description = ''GitHub webhook receive requires the explicit v2 webhook enable gate.'',
    rule_eff = EffDeny, rule_action = ''git.webhook.receive'', rule_resource_kind = Some ''git_operation'',
    rule_conds = no_conditions\<lparr>c_environment_equals := Some [(''githubWebhooksEnabled'', JBool
      False)]\<rparr>,
    rule_priority = 1000, rule_enabled = True\<rparr>,
   \<lparr>rule_id = ''policy_git_webhook_receive_unverified_deny'',
    rule_name = ''Deny unverified GitHub webhook receive'',
    rule_description = ''GitHub webhook receive requires signature verification.'',
    rule_eff = EffDeny, rule_action = ''git.webhook.receive'', rule_resource_kind = Some ''git_operation'',
    rule_conds = no_conditions\<lparr>c_environment_equals := Some [(''signatureVerified'', JBool
      False)]\<rparr>,
    rule_priority = 950, rule_enabled = True\<rparr>,
   \<lparr>rule_id = ''policy_git_webhook_receive_allow_v2'',
    rule_name = ''Allow verified GitHub webhook receive'',
    rule_description = ''Verified GitHub webhooks may be received after v2 enable, secret, signature, and repo gates pass.'',
    rule_eff = EffAllow, rule_action = ''git.webhook.receive'', rule_resource_kind = Some ''git_operation'',
    rule_conds = no_conditions\<lparr>c_provider_kinds := Some [''github''], c_environment_equals := Some
      [(''githubWebhooksEnabled'', JBool True), (''signatureVerified'', JBool True),
      (''repoAllowlisted'', JBool True), (''secretConfigured'', JBool True)]\<rparr>,
    rule_priority = 300, rule_enabled = True\<rparr>,
   \<lparr>rule_id = ''policy_git_webhook_verify_disabled_deny'',
    rule_name = ''Deny disabled GitHub webhook verification'',
    rule_description = ''GitHub webhook verification requires the explicit v2 webhook enable gate.'',
    rule_eff = EffDeny, rule_action = ''git.webhook.verify'', rule_resource_kind = Some ''git_operation'',
    rule_conds = no_conditions\<lparr>c_environment_equals := Some [(''githubWebhooksEnabled'', JBool
      False)]\<rparr>,
    rule_priority = 1000, rule_enabled = True\<rparr>,
   \<lparr>rule_id = ''policy_git_webhook_verify_unverified_deny'',
    rule_name = ''Deny failed GitHub webhook verification'',
    rule_description = ''Failed GitHub webhook signatures cannot pass verification policy.'',
    rule_eff = EffDeny, rule_action = ''git.webhook.verify'', rule_resource_kind = Some ''git_operation'',
    rule_conds = no_conditions\<lparr>c_environment_equals := Some [(''signatureVerified'', JBool
      False)]\<rparr>,
    rule_priority = 950, rule_enabled = True\<rparr>,
   \<lparr>rule_id = ''policy_git_webhook_verify_allow_v2'',
    rule_name = ''Allow verified GitHub webhook verification'',
    rule_description = ''GitHub webhook verification passes only after the signature has been verified.'',
    rule_eff = EffAllow, rule_action = ''git.webhook.verify'', rule_resource_kind = Some ''git_operation'',
    rule_conds = no_conditions\<lparr>c_provider_kinds := Some [''github''], c_environment_equals := Some
      [(''githubWebhooksEnabled'', JBool True), (''signatureVerified'', JBool True),
      (''secretConfigured'', JBool True)]\<rparr>,
    rule_priority = 300, rule_enabled = True\<rparr>,
   \<lparr>rule_id = ''policy_git_webhook_process_disabled_deny'',
    rule_name = ''Deny disabled GitHub webhook processing'',
    rule_description = ''GitHub webhook processing requires the explicit v2 webhook enable gate.'',
    rule_eff = EffDeny, rule_action = ''git.webhook.process'', rule_resource_kind = Some ''git_operation'',
    rule_conds = no_conditions\<lparr>c_environment_equals := Some [(''githubWebhooksEnabled'', JBool
      False)]\<rparr>,
    rule_priority = 1000, rule_enabled = True\<rparr>,
   \<lparr>rule_id = ''policy_git_webhook_process_unverified_deny'',
    rule_name = ''Deny unverified GitHub webhook processing'',
    rule_description = ''GitHub webhook processing requires signature verification.'',
    rule_eff = EffDeny, rule_action = ''git.webhook.process'', rule_resource_kind = Some ''git_operation'',
    rule_conds = no_conditions\<lparr>c_environment_equals := Some [(''signatureVerified'', JBool
      False)]\<rparr>,
    rule_priority = 950, rule_enabled = True\<rparr>,
   \<lparr>rule_id = ''policy_git_webhook_process_allow_v2'',
    rule_name = ''Allow verified GitHub webhook processing'',
    rule_description = ''Verified GitHub webhooks may update read models only after v2 gates pass.'',
    rule_eff = EffAllow, rule_action = ''git.webhook.process'', rule_resource_kind = Some ''git_operation'',
    rule_conds = no_conditions\<lparr>c_provider_kinds := Some [''github''], c_environment_equals := Some
      [(''githubWebhooksEnabled'', JBool True), (''signatureVerified'', JBool True),
      (''repoAllowlisted'', JBool True), (''secretConfigured'', JBool True)]\<rparr>,
    rule_priority = 300, rule_enabled = True\<rparr>]"

definition git_sync_rules :: "policy_rule list" where
  "git_sync_rules = [
   \<lparr>rule_id = ''policy_git_pr_sync_allow_v2'',
    rule_name = ''Allow non-destructive GitHub PR sync'',
    rule_description = ''GitHub PR sync may update read models when the repo is known or allowlisted and no destructive operation is requested.'',
    rule_eff = EffAllow, rule_action = ''git.pull_request.sync'', rule_resource_kind = Some ''pull_request'',
    rule_conds = no_conditions\<lparr>c_provider_kinds := Some [''github''], c_environment_equals := Some
      [(''repoAllowlisted'', JBool True), (''destructiveOperation'', JBool False)]\<rparr>,
    rule_priority = 250, rule_enabled = True\<rparr>,
   \<lparr>rule_id = ''policy_git_branch_sync_allow_v2'',
    rule_name = ''Allow non-destructive GitHub branch sync'',
    rule_description = ''GitHub branch sync may update read models when the repo is allowlisted and no destructive operation is requested.'',
    rule_eff = EffAllow, rule_action = ''git.branch.sync'', rule_resource_kind = Some ''branch'',
    rule_conds = no_conditions\<lparr>c_provider_kinds := Some [''github''], c_environment_equals := Some
      [(''repoAllowlisted'', JBool True), (''destructiveOperation'', JBool False)]\<rparr>,
    rule_priority = 250, rule_enabled = True\<rparr>,
   \<lparr>rule_id = ''policy_git_changed_files_read_disabled_deny'',
    rule_name = ''Deny GitHub changed-files read when remote Git is disabled'',
    rule_description = ''Changed-file refresh through GitHubClient requires explicit remote Git read gates.'',
    rule_eff = EffDeny, rule_action = ''git.changed_files.read'', rule_resource_kind = Some ''git_operation'',
    rule_conds = no_conditions\<lparr>c_environment_equals := Some [(''remoteGitEnabled'', JBool
      False)]\<rparr>,
    rule_priority = 1000, rule_enabled = True\<rparr>,
   \<lparr>rule_id = ''policy_git_changed_files_read_allow_v2'',
    rule_name = ''Allow gated GitHub changed-files read'',
    rule_description = ''Changed-file refresh may call the GitHubClient only after remote Git, credential, and repo allowlist gates pass.'',
    rule_eff = EffAllow, rule_action = ''git.changed_files.read'', rule_resource_kind = Some ''git_operation'',
    rule_conds = no_conditions\<lparr>c_provider_kinds := Some [''github''], c_environment_equals := Some
      [(''remoteGitEnabled'', JBool True), (''remoteOperationAllowed'', JBool True),
      (''repoAllowlisted'', JBool True), (''credentialsConfigured'', JBool True),
      (''destructiveOperation'', JBool False)]\<rparr>,
    rule_priority = 250, rule_enabled = True\<rparr>,
   \<lparr>rule_id = ''policy_git_credential_resolve_deny'',
    rule_name = ''Deny Git credential resolution without configured credentials'',
    rule_description = ''Git provider credential resolution requires configured SecretRef or legacy credential metadata before any secret provider read.'',
    rule_eff = EffDeny, rule_action = ''git.credential.resolve'', rule_resource_kind = Some ''provider_credential'',
    rule_conds = no_conditions\<lparr>c_environment_equals := Some [(''credentialsConfigured'', JBool
      False)]\<rparr>,
    rule_priority = 1000, rule_enabled = True\<rparr>,
   \<lparr>rule_id = ''policy_git_credential_resolve_allow_env_secretref_v1'',
    rule_name = ''Allow Git env-backed SecretRef credential resolution'',
    rule_description = ''GitHub credentials and webhook secrets may be resolved only from active env-backed SecretRefs behind the explicit env provider gate.'',
    rule_eff = EffAllow, rule_action = ''git.credential.resolve'', rule_resource_kind = Some ''provider_credential'',
    rule_conds = no_conditions\<lparr>c_provider_kinds := Some [''github''], c_environment_equals := Some
      [(''credentialsConfigured'', JBool True), (''secretRefActive'', JBool True),
      (''envSecretProviderEnabled'', JBool True), (''credentialCacheAccessAllowed'', JBool
      False), (''credentialMaterialStored'', JBool False)]\<rparr>,
    rule_priority = 300, rule_enabled = True\<rparr>]"

definition git_change_rules :: "policy_rule list" where
  "git_change_rules = [
   \<lparr>rule_id = ''policy_git_merge_deny'',
    rule_name = ''Deny Git merge'',
    rule_description = ''Provider merge is not implemented in Real Git Adapter v0.'',
    rule_eff = EffDeny, rule_action = ''git.merge'', rule_resource_kind = Some ''git_operation'',
    rule_conds = no_conditions,
    rule_priority = 1000, rule_enabled = True\<rparr>,
   \<lparr>rule_id = ''policy_git_rebase_deny'',
    rule_name = ''Deny Git rebase'',
    rule_description = ''Provider rebase is not implemented in Real Git Adapter v0.'',
    rule_eff = EffDeny, rule_action = ''git.rebase'', rule_resource_kind = Some ''git_operation'',
    rule_conds = no_conditions,
    rule_priority = 1000, rule_enabled = True\<rparr>,
   \<lparr>rule_id = ''policy_git_branch_delete_deny'',
    rule_name = ''Deny branch deletion'',
    rule_description = ''Destructive branch deletion is unsupported in v0.'',
    rule_eff = EffDeny, rule_action = ''git.branch.delete'', rule_resource_kind = Some ''branch'',
    rule_conds = no_conditions,
    rule_priority = 1000, rule_enabled = True\<rparr>,
   \<lparr>rule_id = ''policy_git_mock_branch_allow'',
    rule_name = ''Allow mock branch creation'',
    rule_description = ''Mock branch creation is allowed for the scaffold.'',
    rule_eff = EffAllow, rule_action = ''git.branch.create'', rule_resource_kind = Some ''branch'',
    rule_conds = no_conditions\<lparr>c_provider_kinds := Some [''mock'']\<rparr>,
    rule_priority = 200, rule_enabled = True\<rparr>,
   \<lparr>rule_id = ''policy_git_mock_pr_allow'',
    rule_name = ''Allow mock pull request creation'',
    rule_description = ''Mock PR creation is allowed for the scaffold.'',
    rule_eff = EffAllow, rule_action = ''git.pull_request.create'', rule_resource_kind = Some ''pull_request'',
    rule_conds = no_conditions\<lparr>c_provider_kinds := Some [''mock'']\<rparr>,
    rule_priority = 200, rule_enabled = True\<rparr>,
   \<lparr>rule_id = ''policy_git_local_read_only_allow'',
    rule_name = ''Allow local fixture Git operation'',
    rule_description = ''Safe local fixture Git operations are allowed when marked read-only and workspace-safe.'',
    rule_eff = EffAllow, rule_action = ''git.branch.create'', rule_resource_kind = Some ''branch'',
    rule_conds = no_conditions\<lparr>c_provider_kinds := Some [''local''], c_environment_equals := Some
      [(''localFixture'', JBool True), (''readOnly'', JBool True)]\<rparr>,
    rule_priority = 150, rule_enabled = True\<rparr>,
   \<lparr>rule_id = ''policy_git_github_branch_create_allow_v1'',
    rule_name = ''Allow gated GitHub branch creation'',
    rule_description = ''GitHub branch creation is allowed only when remote Git, branch creation, repo allowlist, branch prefix, and credential gates pass.'',
    rule_eff = EffAllow, rule_action = ''git.branch.create'', rule_resource_kind = Some ''branch'',
    rule_conds = no_conditions\<lparr>c_provider_kinds := Some [''github''], c_environment_equals := Some
      [(''remoteGitEnabled'', JBool True), (''remoteBranchCreateEnabled'', JBool True),
      (''repoAllowlisted'', JBool True), (''branchPrefixAllowed'', JBool True),
      (''credentialsConfigured'', JBool True)]\<rparr>,
    rule_priority = 250, rule_enabled = True\<rparr>,
   \<lparr>rule_id = ''policy_git_github_pr_create_allow_v1'',
    rule_name = ''Allow gated GitHub pull request creation'',
    rule_description = ''GitHub PR creation is allowed only when remote Git, PR creation, repo allowlist, branch prefix, and credential gates pass.'',
    rule_eff = EffAllow, rule_action = ''git.pull_request.create'', rule_resource_kind = Some ''pull_request'',
    rule_conds = no_conditions\<lparr>c_provider_kinds := Some [''github''], c_environment_equals := Some
      [(''remoteGitEnabled'', JBool True), (''remotePullRequestCreateEnabled'', JBool True),
      (''repoAllowlisted'', JBool True), (''branchPrefixAllowed'', JBool True),
      (''credentialsConfigured'', JBool True)]\<rparr>,
    rule_priority = 250, rule_enabled = True\<rparr>]"

definition llm_completion_rules :: "policy_rule list" where
  "llm_completion_rules = [
   \<lparr>rule_id = ''policy_llm_remote_completion_deny'',
    rule_name = ''Deny remote LLM completion'',
    rule_description = ''Remote model completions require explicit v1 runtime gates.'',
    rule_eff = EffDeny, rule_action = ''llm.remote_completion'', rule_resource_kind = Some ''llm_provider'',
    rule_conds = no_conditions\<lparr>c_environment_equals := Some [(''remoteLlmEnabled'', JBool
      False)]\<rparr>,
    rule_priority = 1000, rule_enabled = True\<rparr>,
   \<lparr>rule_id = ''policy_llm_remote_completion_gate_deny'',
    rule_name = ''Deny remote LLM completion without completion gate'',
    rule_description = ''Remote LLM completion requires the operation-specific completion gate.'',
    rule_eff = EffDeny, rule_action = ''llm.remote_completion'', rule_resource_kind = Some ''llm_provider'',
    rule_conds = no_conditions\<lparr>c_environment_equals := Some [(''remoteCompletionEnabled'', JBool
      False)]\<rparr>,
    rule_priority = 950, rule_enabled = True\<rparr>,
   \<lparr>rule_id = ''policy_llm_remote_completion_allow_openai_v1'',
    rule_name = ''Allow gated OpenAI-compatible remote completion'',
    rule_description = ''OpenAI-compatible remote completion may proceed only after v1 config, credential, model allowlist, and budget gates pass.'',
    rule_eff = EffAllow, rule_action = ''llm.remote_completion'', rule_resource_kind = Some ''llm_provider'',
    rule_conds = no_conditions\<lparr>c_provider_kinds := Some [''openai_compatible''],
      c_environment_equals := Some [(''remoteLlmEnabled'', JBool True),
      (''remoteCompletionEnabled'', JBool True), (''baseUrlConfigured'', JBool True),
      (''credentialsConfigured'', JBool True), (''modelAllowlisted'', JBool True),
      (''budgetAllowed'', JBool True)]\<rparr>,
    rule_priority = 250, rule_enabled = True\<rparr>,
   \<lparr>rule_id = ''policy_llm_disabled_model_deny'',
    rule_name = ''Deny disabled or deprecated model usage'',
    rule_description = ''Disabled and deprecated models cannot be selected.'',
    rule_eff = EffDeny, rule_action = ''llm.model.use'', rule_resource_kind = Some ''llm_model'',
    rule_conds = no_conditions\<lparr>c_resource_statuses := Some [''disabled'', ''deprecated'']\<rparr>,
    rule_priority = 900, rule_enabled = True\<rparr>,
   \<lparr>rule_id = ''policy_llm_mock_completion_allow'',
    rule_name = ''Allow mock LLM completion'',
    rule_description = ''Mock completions are allowed when budget checks have passed.'',
    rule_eff = EffAllow, rule_action = ''llm.completion'', rule_resource_kind = Some ''llm_provider'',
    rule_conds = no_conditions\<lparr>c_provider_kinds := Some [''mock''], c_environment_equals := Some
      [(''budgetAllowed'', JBool True)]\<rparr>,
    rule_priority = 200, rule_enabled = True\<rparr>,
   \<lparr>rule_id = ''policy_llm_openai_compatible_completion_allow_v1'',
    rule_name = ''Allow gated OpenAI-compatible completion'',
    rule_description = ''OpenAI-compatible completions are allowed only after remote, budget, credential, and model allowlist gates pass.'',
    rule_eff = EffAllow, rule_action = ''llm.completion'', rule_resource_kind = Some ''llm_provider'',
    rule_conds = no_conditions\<lparr>c_provider_kinds := Some [''openai_compatible''],
      c_environment_equals := Some [(''remoteLlmEnabled'', JBool True),
      (''remoteCompletionEnabled'', JBool True), (''baseUrlConfigured'', JBool True),
      (''credentialsConfigured'', JBool True), (''modelAllowlisted'', JBool True),
      (''budgetAllowed'', JBool True)]\<rparr>,
    rule_priority = 250, rule_enabled = True\<rparr>]"

definition llm_route_rules :: "policy_rule list" where
  "llm_route_rules = [
   \<lparr>rule_id = ''policy_llm_credential_resolve_deny'',
    rule_name = ''Deny LLM credential resolution without configured credentials'',
    rule_description = ''LLM provider credential resolution requires configured SecretRef or legacy credential metadata before any secret provider read.'',
    rule_eff = EffDeny, rule_action = ''llm.credential.resolve'', rule_resource_kind = Some ''provider_credential'',
    rule_conds = no_conditions\<lparr>c_environment_equals := Some [(''credentialsConfigured'', JBool
      False)]\<rparr>,
    rule_priority = 1000, rule_enabled = True\<rparr>,
   \<lparr>rule_id = ''policy_llm_credential_resolve_allow_env_secretref_v1'',
    rule_name = ''Allow LLM env-backed SecretRef credential resolution'',
    rule_description = ''OpenAI-compatible API keys may be resolved only from active env-backed SecretRefs behind the explicit env provider gate.'',
    rule_eff = EffAllow, rule_action = ''llm.credential.resolve'', rule_resource_kind = Some ''provider_credential'',
    rule_conds = no_conditions\<lparr>c_provider_kinds := Some [''openai_compatible''],
      c_environment_equals := Some [(''credentialsConfigured'', JBool True),
      (''secretRefActive'', JBool True), (''envSecretProviderEnabled'', JBool True),
      (''credentialCacheAccessAllowed'', JBool False), (''credentialMaterialStored'', JBool
      False)]\<rparr>,
    rule_priority = 300, rule_enabled = True\<rparr>,
   \<lparr>rule_id = ''policy_llm_active_model_allow'',
    rule_name = ''Allow active model use'',
    rule_description = ''Active models may be used when other checks pass.'',
    rule_eff = EffAllow, rule_action = ''llm.model.use'', rule_resource_kind = Some ''llm_model'',
    rule_conds = no_conditions\<lparr>c_resource_statuses := Some [''active'']\<rparr>,
    rule_priority = 100, rule_enabled = True\<rparr>,
   \<lparr>rule_id = ''policy_llm_route_select_allow_mock_v2'',
    rule_name = ''Allow mock LLM route selection'',
    rule_description = ''Mock LLM route selection is allowed when the selected provider is mock and budget gates are still enforced separately.'',
    rule_eff = EffAllow, rule_action = ''llm.route.select'', rule_resource_kind = Some ''llm_route'',
    rule_conds = no_conditions\<lparr>c_provider_kinds := Some [''mock'']\<rparr>,
    rule_priority = 220, rule_enabled = True\<rparr>,
   \<lparr>rule_id = ''policy_llm_route_select_allow_openai_v2'',
    rule_name = ''Allow gated OpenAI-compatible route selection'',
    rule_description = ''OpenAI-compatible route selection requires remote gates, credentials, model allowlist, and budget state.'',
    rule_eff = EffAllow, rule_action = ''llm.route.select'', rule_resource_kind = Some ''llm_route'',
    rule_conds = no_conditions\<lparr>c_provider_kinds := Some [''openai_compatible''],
      c_environment_equals := Some [(''remoteLlmEnabled'', JBool True),
      (''remoteCompletionEnabled'', JBool True), (''baseUrlConfigured'', JBool True),
      (''credentialsConfigured'', JBool True), (''modelAllowlisted'', JBool True),
      (''budgetAllowed'', JBool True)]\<rparr>,
    rule_priority = 240, rule_enabled = True\<rparr>,
   \<lparr>rule_id = ''policy_llm_fallback_deny_disabled_v2'',
    rule_name = ''Deny LLM fallback when disabled'',
    rule_description = ''Fallback may not run unless the v2 fallback gate is enabled.'',
    rule_eff = EffDeny, rule_action = ''llm.fallback'', rule_resource_kind = Some ''llm_fallback_policy'',
    rule_conds = no_conditions\<lparr>c_environment_equals := Some [(''fallbackEnabled'', JBool
      False)]\<rparr>,
    rule_priority = 1000, rule_enabled = True\<rparr>,
   \<lparr>rule_id = ''policy_llm_fallback_allow_bounded_v2'',
    rule_name = ''Allow bounded LLM fallback'',
    rule_description = ''Fallback may proceed only when the fallback gate and budget state allow it.'',
    rule_eff = EffAllow, rule_action = ''llm.fallback'', rule_resource_kind = Some ''llm_fallback_policy'',
    rule_conds = no_conditions\<lparr>c_environment_equals := Some [(''fallbackEnabled'', JBool True),
      (''fallbackWithinLimit'', JBool True), (''budgetAllowed'', JBool True)]\<rparr>,
    rule_priority = 260, rule_enabled = True\<rparr>]"

definition runner_rules :: "policy_rule list" where
  "runner_rules = [
   \<lparr>rule_id = ''policy_runner_command_default_deny'',
    rule_name = ''Deny runner command execution by default'',
    rule_description = ''Command execution requires explicit local execution, harness, and workspace gates.'',
    rule_eff = EffDeny, rule_action = ''runner.command.execute'', rule_resource_kind = Some ''command'',
    rule_conds = no_conditions,
    rule_priority = 100, rule_enabled = True\<rparr>,
   \<lparr>rule_id = ''policy_runner_network_command_deny'',
    rule_name = ''Deny runner network commands'',
    rule_description = ''Network commands are blocked in Local Agent Runner v1.'',
    rule_eff = EffDeny, rule_action = ''runner.command.execute'', rule_resource_kind = Some ''command'',
    rule_conds = no_conditions\<lparr>c_command_includes_any := Some [''curl'', ''wget'',
      ''fetch'']\<rparr>,
    rule_priority = 950, rule_enabled = True\<rparr>,
   \<lparr>rule_id = ''policy_runner_remote_git_command_deny'',
    rule_name = ''Deny runner remote Git commands'',
    rule_description = ''Runner may not run git fetch, push, merge, or rebase.'',
    rule_eff = EffDeny, rule_action = ''runner.command.execute'', rule_resource_kind = Some ''command'',
    rule_conds = no_conditions\<lparr>c_command_includes_any := Some [''git fetch'', ''git push'',
      ''git merge'', ''git rebase'']\<rparr>,
    rule_priority = 950, rule_enabled = True\<rparr>,
   \<lparr>rule_id = ''policy_runner_fixture_command_allow'',
    rule_name = ''Allow fixture-local runner command'',
    rule_description = ''Fixture-local command execution is allowed only when all local gates pass.'',
    rule_eff = EffAllow, rule_action = ''runner.command.execute'', rule_resource_kind = Some ''command'',
    rule_conds = no_conditions\<lparr>c_environment_equals := Some [(''localCommandExecutionEnabled'',
      JBool True), (''harnessAllowed'', JBool True), (''workspaceSafe'', JBool True)]\<rparr>,
    rule_priority = 200, rule_enabled = True\<rparr>,
   \<lparr>rule_id = ''policy_runner_execute_allow'',
    rule_name = ''Allow runner execution'',
    rule_description = ''Runner service execution is allowed for mock/local runner boundaries.'',
    rule_eff = EffAllow, rule_action = ''runner.execute'', rule_resource_kind = Some ''runner'',
    rule_conds = no_conditions\<lparr>c_runner_kinds := Some [''mock'', ''local'']\<rparr>,
    rule_priority = 100, rule_enabled = True\<rparr>]"

definition registry_rules :: "policy_rule list" where
  "registry_rules = [
   \<lparr>rule_id = ''policy_registry_create_allow_editor'',
    rule_name = ''Allow registry create for editor/admin'',
    rule_description = ''Registry create requires editor, admin, or system role.'',
    rule_eff = EffAllow, rule_action = ''registry.create'', rule_resource_kind = Some ''registry_item'',
    rule_conds = no_conditions\<lparr>c_subject_roles_any := Some [''registry_editor'', ''registry_admin'',
      ''system'']\<rparr>,
    rule_priority = 200, rule_enabled = True\<rparr>,
   \<lparr>rule_id = ''policy_registry_update_allow_editor'',
    rule_name = ''Allow registry update for editor/admin'',
    rule_description = ''Registry update requires editor, admin, reviewer, or system role depending on mutation type.'',
    rule_eff = EffAllow, rule_action = ''registry.update'', rule_resource_kind = Some ''registry_item'',
    rule_conds = no_conditions\<lparr>c_subject_roles_any := Some [''registry_editor'', ''registry_admin'',
      ''registry_reviewer'', ''system'']\<rparr>,
    rule_priority = 200, rule_enabled = True\<rparr>,
   \<lparr>rule_id = ''policy_registry_approve_allow_reviewer'',
    rule_name = ''Allow registry approval for reviewer/admin'',
    rule_description = ''Registry approval requires reviewer, admin, or system role.'',
    rule_eff = EffAllow, rule_action = ''registry.approve'', rule_resource_kind = Some ''registry_item'',
    rule_conds = no_conditions\<lparr>c_subject_roles_any := Some [''registry_reviewer'',
      ''registry_admin'', ''system'']\<rparr>,
    rule_priority = 200, rule_enabled = True\<rparr>,
   \<lparr>rule_id = ''policy_registry_rollback_allow_admin'',
    rule_name = ''Allow registry rollback for admin'',
    rule_description = ''Registry rollback requires admin or system role.'',
    rule_eff = EffAllow, rule_action = ''registry.rollback'', rule_resource_kind = Some ''registry_item'',
    rule_conds = no_conditions\<lparr>c_subject_roles_any := Some [''registry_admin'', ''system'']\<rparr>,
    rule_priority = 200, rule_enabled = True\<rparr>]"

definition improvement_rules :: "policy_rule list" where
  "improvement_rules = [
   \<lparr>rule_id = ''policy_improvement_apply_deny'',
    rule_name = ''Deny improvement apply'',
    rule_description = ''Auto-improvement apply remains unavailable.'',
    rule_eff = EffDeny, rule_action = ''improvement.apply'', rule_resource_kind = Some ''draft_registry_change'',
    rule_conds = no_conditions,
    rule_priority = 1000, rule_enabled = True\<rparr>,
   \<lparr>rule_id = ''policy_improvement_proposal_create_allow_system'',
    rule_name = ''Allow draft proposal creation'',
    rule_description = ''Draft proposal creation is allowed for system/admin mock actors.'',
    rule_eff = EffAllow, rule_action = ''improvement.proposal.create'', rule_resource_kind = Some ''improvement_proposal'',
    rule_conds = no_conditions\<lparr>c_subject_roles_any := Some [''system'', ''registry_admin'',
      ''improvement_editor'']\<rparr>,
    rule_priority = 200, rule_enabled = True\<rparr>,
   \<lparr>rule_id = ''policy_improvement_proposal_approval_requires_reviewer'',
    rule_name = ''Allow proposal approval for reviewer/admin'',
    rule_description = ''Proposal approval requires a reviewer/admin/system role.'',
    rule_eff = EffAllow, rule_action = ''improvement.proposal.approve'', rule_resource_kind = Some ''improvement_proposal'',
    rule_conds = no_conditions\<lparr>c_subject_roles_any := Some [''system'', ''system_admin'',
      ''platform_admin'', ''reviewer'', ''registry_admin'', ''registry_reviewer'',
      ''improvement_reviewer'']\<rparr>,
    rule_priority = 200, rule_enabled = True\<rparr>,
   \<lparr>rule_id = ''policy_improvement_draft_change_prepare_allow'',
    rule_name = ''Allow draft registry change preparation'',
    rule_description = ''Preparing draft registry changes is allowed because it does not mutate active registry entries.'',
    rule_eff = EffAllow, rule_action = ''improvement.draft_change.prepare'', rule_resource_kind = Some ''draft_registry_change'',
    rule_conds = no_conditions\<lparr>c_subject_roles_any := Some [''system'', ''registry_admin'',
      ''improvement_editor'']\<rparr>,
    rule_priority = 200, rule_enabled = True\<rparr>]"

definition credential_rules :: "policy_rule list" where
  "credential_rules = [
   \<lparr>rule_id = ''policy_provider_cloud_api_invoke_deny'',
    rule_name = ''Deny cloud API provider invocation'',
    rule_description = ''Enterprise provider cloud API invocation is disabled in v0.'',
    rule_eff = EffDeny, rule_action = ''provider.cloud_api.invoke'', rule_resource_kind = Some ''llm_provider'',
    rule_conds = no_conditions,
    rule_priority = 1000, rule_enabled = True\<rparr>,
   \<lparr>rule_id = ''policy_provider_credential_resolve_deny'',
    rule_name = ''Deny provider credential resolution'',
    rule_description = ''Provider credential resolution requires explicit safe runtime configuration.'',
    rule_eff = EffDeny, rule_action = ''provider.credential.resolve'', rule_resource_kind = Some ''provider_credential'',
    rule_conds = no_conditions\<lparr>c_environment_equals := Some [(''credentialsConfigured'', JBool
      False)]\<rparr>,
    rule_priority = 1000, rule_enabled = True\<rparr>,
   \<lparr>rule_id = ''policy_provider_credential_resolve_allow_env_secretref_v1'',
    rule_name = ''Allow env-backed SecretRef credential resolution'',
    rule_description = ''GitHub and OpenAI-compatible provider credentials may be resolved from active env-backed SecretRefs only when the env secret provider is explicitly enabled.'',
    rule_eff = EffAllow, rule_action = ''provider.credential.resolve'', rule_resource_kind = Some ''provider_credential'',
    rule_conds = no_conditions\<lparr>c_provider_kinds := Some [''github'', ''openai_compatible''],
      c_environment_equals := Some [(''credentialsConfigured'', JBool True),
      (''secretRefActive'', JBool True), (''envSecretProviderEnabled'', JBool True),
      (''credentialCacheAccessAllowed'', JBool False), (''credentialMaterialStored'', JBool
      False)]\<rparr>,
    rule_priority = 300, rule_enabled = True\<rparr>,
   \<lparr>rule_id = ''policy_provider_credential_resolve_allow_openai_env_v1'',
    rule_name = ''Allow OpenAI-compatible env credential reference'',
    rule_description = ''OpenAI-compatible v1 may use an environment-sourced API key only when remote gates are enabled and no credential cache access or stored secret material is involved.'',
    rule_eff = EffAllow, rule_action = ''provider.credential.resolve'', rule_resource_kind = Some ''provider_credential'',
    rule_conds = no_conditions\<lparr>c_provider_kinds := Some [''openai_compatible''],
      c_environment_equals := Some [(''remoteLlmEnabled'', JBool True),
      (''remoteCompletionEnabled'', JBool True), (''credentialsConfigured'', JBool True),
      (''credentialCacheAccessAllowed'', JBool False), (''credentialMaterialStored'', JBool
      False)]\<rparr>,
    rule_priority = 250, rule_enabled = True\<rparr>,
   \<lparr>rule_id = ''policy_provider_pty_invoke_deny'',
    rule_name = ''Deny PTY provider invocation'',
    rule_description = ''Interactive PTY fallback is disabled by default.'',
    rule_eff = EffDeny, rule_action = ''provider.pty.invoke'', rule_resource_kind = Some ''llm_provider'',
    rule_conds = no_conditions,
    rule_priority = 1000, rule_enabled = True\<rparr>,
   \<lparr>rule_id = ''policy_credential_cache_read_deny'',
    rule_name = ''Deny credential cache reads'',
    rule_description = ''Provider-owned credential caches must not be read.'',
    rule_eff = EffDeny, rule_action = ''credential.cache.read'', rule_resource_kind = Some ''provider_credential'',
    rule_conds = no_conditions,
    rule_priority = 1000, rule_enabled = True\<rparr>,
   \<lparr>rule_id = ''policy_credential_cache_upload_deny'',
    rule_name = ''Deny credential cache upload'',
    rule_description = ''Provider-owned credential caches must not be uploaded to Aichestra Cloud.'',
    rule_eff = EffDeny, rule_action = ''credential.cache.upload'', rule_resource_kind = Some ''provider_credential'',
    rule_conds = no_conditions,
    rule_priority = 1000, rule_enabled = True\<rparr>]"

definition local_cli_rules :: "policy_rule list" where
  "local_cli_rules = [
   \<lparr>rule_id = ''policy_local_cli_direct_invoke_deny'',
    rule_name = ''Deny direct local CLI execution'',
    rule_description = ''Aichestra Cloud must not execute local CLI providers directly.'',
    rule_eff = EffDeny, rule_action = ''local_cli.invoke'', rule_resource_kind = Some ''local_cli'',
    rule_conds = no_conditions,
    rule_priority = 1000, rule_enabled = True\<rparr>,
   \<lparr>rule_id = ''policy_local_cli_danger_full_access_deny'',
    rule_name = ''Deny local CLI danger full access'',
    rule_description = ''danger_full_access is denied by default.'',
    rule_eff = EffDeny, rule_action = ''local_cli.danger_full_access'', rule_resource_kind = Some ''local_cli'',
    rule_conds = no_conditions,
    rule_priority = 1000, rule_enabled = True\<rparr>,
   \<lparr>rule_id = ''policy_local_cli_shell_execution_deny'',
    rule_name = ''Deny local CLI shell execution'',
    rule_description = ''Local CLI shell execution is denied until a future Local Agent policy explicitly enables it.'',
    rule_eff = EffDeny, rule_action = ''local_cli.shell_execution'', rule_resource_kind = Some ''local_cli'',
    rule_conds = no_conditions,
    rule_priority = 1000, rule_enabled = True\<rparr>,
   \<lparr>rule_id = ''policy_local_cli_file_write_deny'',
    rule_name = ''Deny local CLI file write'',
    rule_description = ''Local CLI file write is denied until sandbox and consent controls exist.'',
    rule_eff = EffDeny, rule_action = ''local_cli.file_write'', rule_resource_kind = Some ''local_cli'',
    rule_conds = no_conditions,
    rule_priority = 1000, rule_enabled = True\<rparr>,
   \<lparr>rule_id = ''policy_local_cli_network_access_deny'',
    rule_name = ''Deny local CLI network access'',
    rule_description = ''Local CLI network access is denied until Local Agent network policy exists.'',
    rule_eff = EffDeny, rule_action = ''local_cli.network_access'', rule_resource_kind = Some ''local_cli'',
    rule_conds = no_conditions,
    rule_priority = 1000, rule_enabled = True\<rparr>]"

definition local_agent_mock_rules :: "policy_rule list" where
  "local_agent_mock_rules = [
   \<lparr>rule_id = ''policy_local_agent_register_allow_system'',
    rule_name = ''Allow mock Local Agent registration'',
    rule_description = ''Mock Local Agent registration is allowed for system and mock admin actors.'',
    rule_eff = EffAllow, rule_action = ''local_agent.register'', rule_resource_kind = Some ''local_agent'',
    rule_conds = no_conditions\<lparr>c_subject_roles_any := Some [''system'', ''mock_admin'',
      ''local_agent_admin'']\<rparr>,
    rule_priority = 300, rule_enabled = True\<rparr>,
   \<lparr>rule_id = ''policy_local_agent_channel_create_allow_mock'',
    rule_name = ''Allow mock Local Agent channel creation'',
    rule_description = ''Only mock in-memory Local Agent channels are allowed in v1.'',
    rule_eff = EffAllow, rule_action = ''local_agent.channel.create'', rule_resource_kind = Some ''local_agent'',
    rule_conds = no_conditions\<lparr>c_environment_equals := Some [(''mockTransport'', JBool True),
      (''realTransport'', JBool False)]\<rparr>,
    rule_priority = 300, rule_enabled = True\<rparr>,
   \<lparr>rule_id = ''policy_local_agent_handshake_verify_allow_mock'',
    rule_name = ''Allow mock Local Agent handshake verification'',
    rule_description = ''Mock handshakes are deterministic metadata and are not production crypto.'',
    rule_eff = EffAllow, rule_action = ''local_agent.handshake.verify'', rule_resource_kind = Some ''local_agent'',
    rule_conds = no_conditions\<lparr>c_environment_equals := Some [(''mockTransport'', JBool True),
      (''realTransport'', JBool False)]\<rparr>,
    rule_priority = 300, rule_enabled = True\<rparr>,
   \<lparr>rule_id = ''policy_local_agent_capability_advertise_allow_mock'',
    rule_name = ''Allow mock capability advertisement'',
    rule_description = ''Fixture Local Agents may advertise metadata-only capabilities.'',
    rule_eff = EffAllow, rule_action = ''local_agent.capability.advertise'', rule_resource_kind = Some ''local_agent'',
    rule_conds = no_conditions\<lparr>c_environment_equals := Some [(''mockTransport'', JBool
      True)]\<rparr>,
    rule_priority = 300, rule_enabled = True\<rparr>,
   \<lparr>rule_id = ''policy_local_agent_compatibility_check_allow_mock'',
    rule_name = ''Allow mock local CLI compatibility checks'',
    rule_description = ''Compatibility checks use fixture metadata only and do not run vendor CLIs.'',
    rule_eff = EffAllow, rule_action = ''local_agent.compatibility.check'', rule_resource_kind = Some ''local_agent'',
    rule_conds = no_conditions\<lparr>c_environment_equals := Some [(''mockTransport'', JBool
      True)]\<rparr>,
    rule_priority = 300, rule_enabled = True\<rparr>,
   \<lparr>rule_id = ''policy_local_agent_revoke_allow_system'',
    rule_name = ''Allow mock Local Agent revocation'',
    rule_description = ''Mock Local Agent revocation is allowed for system and local agent admin actors.'',
    rule_eff = EffAllow, rule_action = ''local_agent.revoke'', rule_resource_kind = Some ''local_agent'',
    rule_conds = no_conditions\<lparr>c_subject_roles_any := Some [''system'',
      ''local_agent_admin'']\<rparr>,
    rule_priority = 300, rule_enabled = True\<rparr>,
   \<lparr>rule_id = ''policy_local_agent_cancel_allow_system'',
    rule_name = ''Allow mock Local Agent invocation cancellation'',
    rule_description = ''Mock Local Agent invocation cancellation is allowed for system actors.'',
    rule_eff = EffAllow, rule_action = ''local_agent.cancel'', rule_resource_kind = Some ''local_agent'',
    rule_conds = no_conditions\<lparr>c_subject_roles_any := Some [''system'',
      ''local_agent_admin'']\<rparr>,
    rule_priority = 300, rule_enabled = True\<rparr>,
   \<lparr>rule_id = ''policy_local_agent_event_receive_allow_mock'',
    rule_name = ''Allow mock Local Agent event receipt'',
    rule_description = ''Mock Local Agent protocol events may be received after redaction controls.'',
    rule_eff = EffAllow, rule_action = ''local_agent.event.receive'', rule_resource_kind = Some ''local_agent'',
    rule_conds = no_conditions\<lparr>c_environment_equals := Some [(''mockTransport'', JBool
      True)]\<rparr>,
    rule_priority = 300, rule_enabled = True\<rparr>,
   \<lparr>rule_id = ''policy_local_agent_stream_receive_allow_mock'',
    rule_name = ''Allow mock Local Agent stream receipt'',
    rule_description = ''Mock stream events may be received after redaction controls.'',
    rule_eff = EffAllow, rule_action = ''local_agent.stream.receive'', rule_resource_kind = Some ''local_agent'',
    rule_conds = no_conditions\<lparr>c_environment_equals := Some [(''mockTransport'', JBool
      True)]\<rparr>,
    rule_priority = 300, rule_enabled = True\<rparr>]"

definition local_agent_consent_rules :: "policy_rule list" where
  "local_agent_consent_rules = [
   \<lparr>rule_id = ''policy_local_agent_session_expire_allow_system'',
    rule_name = ''Allow Local Agent session expiry'',
    rule_description = ''Session expiry is metadata-only and blocks future dispatch.'',
    rule_eff = EffAllow, rule_action = ''local_agent.session.expire'', rule_resource_kind = Some ''local_agent'',
    rule_conds = no_conditions\<lparr>c_subject_roles_any := Some [''system'',
      ''local_agent_admin'']\<rparr>,
    rule_priority = 300, rule_enabled = True\<rparr>,
   \<lparr>rule_id = ''policy_local_agent_session_approve_allow_mock'',
    rule_name = ''Allow mock Local Agent session consent approval'',
    rule_description = ''Session-scoped approval is metadata-only and still expires with Local Agent session state.'',
    rule_eff = EffAllow, rule_action = ''local_agent.session.approve'', rule_resource_kind = Some ''local_agent'',
    rule_conds = no_conditions\<lparr>c_subject_roles_any := Some [''system'',
      ''local_agent_admin'']\<rparr>,
    rule_priority = 300, rule_enabled = True\<rparr>,
   \<lparr>rule_id = ''policy_local_agent_consent_request_allow'',
    rule_name = ''Allow Local Agent consent request'',
    rule_description = ''Consent requests are allowed because they do not execute local CLI providers.'',
    rule_eff = EffAllow, rule_action = ''local_agent.consent.request'', rule_resource_kind = Some ''local_agent'',
    rule_conds = no_conditions,
    rule_priority = 300, rule_enabled = True\<rparr>,
   \<lparr>rule_id = ''policy_local_agent_consent_approve_allow_mock'',
    rule_name = ''Allow mock Local Agent consent approval'',
    rule_description = ''Mock consent decisions may be recorded, but dangerous consent levels remain denied by invocation policy.'',
    rule_eff = EffAllow, rule_action = ''local_agent.consent.approve'', rule_resource_kind = Some ''local_agent'',
    rule_conds = no_conditions,
    rule_priority = 300, rule_enabled = True\<rparr>]"

definition local_agent_invoke_rules :: "policy_rule list" where
  "local_agent_invoke_rules = [
   \<lparr>rule_id = ''policy_local_agent_invoke_revoked_deny'',
    rule_name = ''Deny revoked Local Agent invocation'',
    rule_description = ''Revoked Local Agents cannot receive invocations.'',
    rule_eff = EffDeny, rule_action = ''local_agent.invoke'', rule_resource_kind = Some ''local_agent'',
    rule_conds = no_conditions\<lparr>c_resource_statuses := Some [''revoked'']\<rparr>,
    rule_priority = 1000, rule_enabled = True\<rparr>,
   \<lparr>rule_id = ''policy_local_agent_invoke_disconnected_deny'',
    rule_name = ''Deny disconnected Local Agent invocation'',
    rule_description = ''Disconnected Local Agents cannot receive invocations.'',
    rule_eff = EffDeny, rule_action = ''local_agent.invoke'', rule_resource_kind = Some ''local_agent'',
    rule_conds = no_conditions\<lparr>c_resource_statuses := Some [''disconnected'', ''unknown'',
      ''pending'']\<rparr>,
    rule_priority = 1000, rule_enabled = True\<rparr>,
   \<lparr>rule_id = ''policy_local_agent_invoke_read_only_with_consent_allow'',
    rule_name = ''Allow read-only Local Agent invocation with consent'',
    rule_description = ''Read-only Local Agent invocations may dispatch only after policy and consent are satisfied.'',
    rule_eff = EffAllow, rule_action = ''local_agent.invoke'', rule_resource_kind = Some ''local_agent'',
    rule_conds = no_conditions\<lparr>c_environment_equals := Some [(''localAgentConnected'', JBool True),
      (''mockTransport'', JBool True)], c_metadata_equals := Some [(''consentLevel'', JStr
      ''read_only''), (''consentApproved'', JBool True)]\<rparr>,
    rule_priority = 800, rule_enabled = True\<rparr>,
   \<lparr>rule_id = ''policy_local_cli_template_use_incompatible_deny'',
    rule_name = ''Deny incompatible local CLI template use'',
    rule_description = ''Local CLI templates require a successful compatibility check before invocation.'',
    rule_eff = EffDeny, rule_action = ''local_cli.template.use'', rule_resource_kind = Some ''local_cli'',
    rule_conds = no_conditions\<lparr>c_metadata_equals := Some [(''compatible'', JBool False)]\<rparr>,
    rule_priority = 1000, rule_enabled = True\<rparr>,
   \<lparr>rule_id = ''policy_local_cli_template_use_allow_compatible_consent'',
    rule_name = ''Allow compatible local CLI template use with consent'',
    rule_description = ''Compatible local CLI templates may be used only after consent is approved.'',
    rule_eff = EffAllow, rule_action = ''local_cli.template.use'', rule_resource_kind = Some ''local_cli'',
    rule_conds = no_conditions\<lparr>c_metadata_equals := Some [(''compatible'', JBool True),
      (''consentApproved'', JBool True)]\<rparr>,
    rule_priority = 500, rule_enabled = True\<rparr>,
   \<lparr>rule_id = ''policy_local_cli_template_use_requires_consent'',
    rule_name = ''Require consent for local CLI template use'',
    rule_description = ''Template use is blocked until compatibility and consent are both satisfied.'',
    rule_eff = EffRequireApproval, rule_action = ''local_cli.template.use'', rule_resource_kind = Some ''local_cli'',
    rule_conds = no_conditions,
    rule_priority = 400, rule_enabled = True\<rparr>,
   \<lparr>rule_id = ''policy_local_agent_invoke_requires_consent'',
    rule_name = ''Require consent for Local Agent invocation'',
    rule_description = ''Aichestra Local Agent invocation requires explicit future user consent.'',
    rule_eff = EffRequireApproval, rule_action = ''local_agent.invoke'', rule_resource_kind = Some ''local_agent'',
    rule_conds = no_conditions,
    rule_priority = 700, rule_enabled = True\<rparr>]"

definition provider_invoke_rules :: "policy_rule list" where
  "provider_invoke_rules = [
   \<lparr>rule_id = ''policy_provider_local_cli_invoke_allow_boundary'',
    rule_name = ''Allow local CLI provider boundary'',
    rule_description = ''Local CLI provider requests may reach the Local Agent boundary, which remains unavailable in v0.'',
    rule_eff = EffAllow, rule_action = ''provider.local_cli.invoke'', rule_resource_kind = Some ''llm_provider'',
    rule_conds = no_conditions\<lparr>c_provider_kinds := Some [''local_cli'']\<rparr>,
    rule_priority = 200, rule_enabled = True\<rparr>,
   \<lparr>rule_id = ''policy_provider_mock_invoke_allow'',
    rule_name = ''Allow mock provider invocation'',
    rule_description = ''Mock provider invocation remains allowed for the scaffold.'',
    rule_eff = EffAllow, rule_action = ''provider.invoke'', rule_resource_kind = Some ''llm_provider'',
    rule_conds = no_conditions\<lparr>c_provider_kinds := Some [''mock'']\<rparr>,
    rule_priority = 200, rule_enabled = True\<rparr>,
   \<lparr>rule_id = ''policy_provider_openai_compatible_invoke_allow_v1'',
    rule_name = ''Allow gated OpenAI-compatible provider invocation'',
    rule_description = ''OpenAI-compatible provider invocation may proceed only when LLM v1 remote gates, credentials, model allowlist, and budget checks pass.'',
    rule_eff = EffAllow, rule_action = ''provider.invoke'', rule_resource_kind = Some ''llm_provider'',
    rule_conds = no_conditions\<lparr>c_provider_kinds := Some [''openai_compatible''],
      c_environment_equals := Some [(''remoteLlmEnabled'', JBool True),
      (''remoteCompletionEnabled'', JBool True), (''baseUrlConfigured'', JBool True),
      (''credentialsConfigured'', JBool True), (''modelAllowlisted'', JBool True),
      (''budgetAllowed'', JBool True)]\<rparr>,
    rule_priority = 250, rule_enabled = True\<rparr>,
   \<lparr>rule_id = ''policy_provider_openai_compatible_model_allowlist_deny_v1'',
    rule_name = ''Deny OpenAI-compatible provider invocation for non-allowlisted model'',
    rule_description = ''OpenAI-compatible provider invocation requires the selected model to satisfy the configured allowlist.'',
    rule_eff = EffDeny, rule_action = ''provider.invoke'', rule_resource_kind = Some ''llm_provider'',
    rule_conds = no_conditions\<lparr>c_provider_kinds := Some [''openai_compatible''],
      c_environment_equals := Some [(''modelAllowlisted'', JBool False)]\<rparr>,
    rule_priority = 900, rule_enabled = True\<rparr>]"

definition secret_rules :: "policy_rule list" where
  "secret_rules = [
   \<lparr>rule_id = ''policy_secret_metadata_read_allow_mock'',
    rule_name = ''Allow mock secret metadata reads'',
    rule_description = ''Mock secret metadata can be listed because it contains no secret material.'',
    rule_eff = EffAllow, rule_action = ''secret.metadata.read'', rule_resource_kind = Some ''secret_ref'',
    rule_conds = no_conditions\<lparr>c_environment_equals := Some [(''secretMaterialAvailable'', JBool
      False)]\<rparr>,
    rule_priority = 200, rule_enabled = True\<rparr>,
   \<lparr>rule_id = ''policy_secret_lease_request_allow_env_provider_credentials_v1'',
    rule_name = ''Allow metadata lease request for env provider credentials'',
    rule_description = ''Env-backed provider credential resolution may create a metadata SecretLease after credential policy approval; secret.read remains denied.'',
    rule_eff = EffAllow, rule_action = ''secret.lease.request'', rule_resource_kind = Some ''secret_lease'',
    rule_conds = no_conditions\<lparr>c_environment_equals := Some [(''secretRefActive'', JBool True),
      (''envSecretProviderEnabled'', JBool True), (''credentialCacheAccessAllowed'', JBool
      False), (''credentialMaterialStored'', JBool False)]\<rparr>,
    rule_priority = 1100, rule_enabled = True\<rparr>,
   \<lparr>rule_id = ''policy_secret_lease_request_requires_approval'',
    rule_name = ''Require approval for secret lease requests'',
    rule_description = ''Secret leases cannot be issued automatically in v0.'',
    rule_eff = EffRequireApproval, rule_action = ''secret.lease.request'', rule_resource_kind = Some ''secret_lease'',
    rule_conds = no_conditions,
    rule_priority = 1000, rule_enabled = True\<rparr>,
   \<lparr>rule_id = ''policy_secret_lease_issue_allow_env_provider_credentials_v1'',
    rule_name = ''Allow metadata lease issue for env provider credentials'',
    rule_description = ''Env-backed provider credential resolution may issue a metadata-only SecretLease without exposing the secret value outside the adapter boundary.'',
    rule_eff = EffAllow, rule_action = ''secret.lease.issue'', rule_resource_kind = Some ''secret_lease'',
    rule_conds = no_conditions\<lparr>c_environment_equals := Some [(''secretRefActive'', JBool True),
      (''envSecretProviderEnabled'', JBool True), (''credentialCacheAccessAllowed'', JBool
      False), (''credentialMaterialStored'', JBool False)]\<rparr>,
    rule_priority = 1100, rule_enabled = True\<rparr>,
   \<lparr>rule_id = ''policy_secret_lease_issue_requires_approval'',
    rule_name = ''Require approval for secret lease issue'',
    rule_description = ''Future secret lease issue requires explicit approval and real secret backend integration.'',
    rule_eff = EffRequireApproval, rule_action = ''secret.lease.issue'', rule_resource_kind = Some ''secret_lease'',
    rule_conds = no_conditions,
    rule_priority = 1000, rule_enabled = True\<rparr>,
   \<lparr>rule_id = ''policy_secret_lease_revoke_allow_system'',
    rule_name = ''Allow system secret lease revoke'',
    rule_description = ''Revoking a mock lease is allowed and does not expose secret material.'',
    rule_eff = EffAllow, rule_action = ''secret.lease.revoke'', rule_resource_kind = Some ''secret_lease'',
    rule_conds = no_conditions\<lparr>c_subject_roles_any := Some [''system'', ''security_admin'']\<rparr>,
    rule_priority = 200, rule_enabled = True\<rparr>,
   \<lparr>rule_id = ''policy_runner_secret_inject_deny'',
    rule_name = ''Deny runner secret injection'',
    rule_description = ''Secrets are not injected into runner processes in v0.'',
    rule_eff = EffDeny, rule_action = ''runner.secret.inject'', rule_resource_kind = Some ''runner'',
    rule_conds = no_conditions,
    rule_priority = 1000, rule_enabled = True\<rparr>,
   \<lparr>rule_id = ''policy_network_egress_deny'',
    rule_name = ''Deny network egress'',
    rule_description = ''External network egress is denied by default in the mock-first scaffold.'',
    rule_eff = EffDeny, rule_action = ''network.egress'', rule_resource_kind = Some ''network_egress_policy'',
    rule_conds = no_conditions,
    rule_priority = 1000, rule_enabled = True\<rparr>,
   \<lparr>rule_id = ''policy_local_agent_secret_forward_deny'',
    rule_name = ''Deny Local Agent secret forwarding'',
    rule_description = ''Local Agent secret forwarding is out of scope for v0.'',
    rule_eff = EffDeny, rule_action = ''local_agent.secret.forward'', rule_resource_kind = Some ''local_agent'',
    rule_conds = no_conditions,
    rule_priority = 1000, rule_enabled = True\<rparr>,
   \<lparr>rule_id = ''policy_audit_secret_view_deny'',
    rule_name = ''Deny secret audit view by default'',
    rule_description = ''Secret audit viewing requires future production authorization.'',
    rule_eff = EffDeny, rule_action = ''audit.secret.view'', rule_resource_kind = Some ''secret_scope'',
    rule_conds = no_conditions,
    rule_priority = 1000, rule_enabled = True\<rparr>]"

definition sandbox_rules :: "policy_rule list" where
  "sandbox_rules = [
   \<lparr>rule_id = ''policy_sandbox_default_deny_profile_allow'',
    rule_name = ''Allow default-deny sandbox profile'',
    rule_description = ''The default-deny sandbox profile may be referenced because it grants no network, secrets, or remote Git access.'',
    rule_eff = EffAllow, rule_action = ''sandbox.profile.use'', rule_resource_kind = Some ''sandbox_profile'',
    rule_conds = no_conditions\<lparr>c_environment_equals := Some [(''sandboxKind'', JStr ''none''),
      (''networkAllowed'', JBool False), (''secretsAllowed'', JBool False),
      (''remoteGitAllowed'', JBool False), (''profileStatus'', JStr ''active'')]\<rparr>,
    rule_priority = 200, rule_enabled = True\<rparr>,
   \<lparr>rule_id = ''policy_sandbox_default_deny_session_allow'',
    rule_name = ''Allow default-deny sandbox session metadata'',
    rule_description = ''Default-deny sandbox session metadata may be recorded when no network, secrets, or remote Git access is enabled.'',
    rule_eff = EffAllow, rule_action = ''sandbox.session.create'', rule_resource_kind = Some ''sandbox_session'',
    rule_conds = no_conditions\<lparr>c_environment_equals := Some [(''sandboxKind'', JStr ''none''),
      (''networkAllowed'', JBool False), (''secretsAllowed'', JBool False),
      (''remoteGitAllowed'', JBool False), (''profileStatus'', JStr ''active'')]\<rparr>,
    rule_priority = 200, rule_enabled = True\<rparr>,
   \<lparr>rule_id = ''policy_sandbox_safe_local_profile_allow'',
    rule_name = ''Allow safe local sandbox profile'',
    rule_description = ''Safe local temp workspace profiles may be used when network, secrets, and remote Git are disabled.'',
    rule_eff = EffAllow, rule_action = ''sandbox.profile.use'', rule_resource_kind = Some ''sandbox_profile'',
    rule_conds = no_conditions\<lparr>c_environment_equals := Some [(''sandboxKind'', JStr
      ''local_temp_workspace''), (''networkAllowed'', JBool False), (''secretsAllowed'', JBool
      False), (''remoteGitAllowed'', JBool False), (''profileStatus'', JStr ''active'')]\<rparr>,
    rule_priority = 200, rule_enabled = True\<rparr>,
   \<lparr>rule_id = ''policy_sandbox_safe_local_session_allow'',
    rule_name = ''Allow safe local sandbox session'',
    rule_description = ''Safe local temp workspace sessions may be created when network, secrets, and remote Git are disabled.'',
    rule_eff = EffAllow, rule_action = ''sandbox.session.create'', rule_resource_kind = Some ''sandbox_session'',
    rule_conds = no_conditions\<lparr>c_environment_equals := Some [(''sandboxKind'', JStr
      ''local_temp_workspace''), (''networkAllowed'', JBool False), (''secretsAllowed'', JBool
      False), (''remoteGitAllowed'', JBool False), (''profileStatus'', JStr ''active'')]\<rparr>,
    rule_priority = 200, rule_enabled = True\<rparr>]"

definition mcp_allow_rules :: "policy_rule list" where
  "mcp_allow_rules = [
   \<lparr>rule_id = ''policy_mcp_server_list_allow_mock_v0'',
    rule_name = ''Allow mock MCP server listing'',
    rule_description = ''Active mock MCP server metadata may be listed by authenticated read roles.'',
    rule_eff = EffAllow, rule_action = ''mcp.server.list'', rule_resource_kind = Some ''mcp_server'',
    rule_conds = no_conditions\<lparr>c_subject_roles_any := Some [''viewer'', ''developer'', ''reviewer'',
      ''security_admin'', ''platform_admin'', ''system_admin'', ''system''],
      c_environment_equals := Some [(''realTransportEnabled'', JBool False)]\<rparr>,
    rule_priority = 200, rule_enabled = True\<rparr>,
   \<lparr>rule_id = ''policy_mcp_tool_list_allow_mock_v0'',
    rule_name = ''Allow mock MCP tool listing'',
    rule_description = ''Active mock MCP tool metadata may be listed by authenticated read roles.'',
    rule_eff = EffAllow, rule_action = ''mcp.tool.list'', rule_resource_kind = Some ''mcp_tool'',
    rule_conds = no_conditions\<lparr>c_subject_roles_any := Some [''viewer'', ''developer'', ''reviewer'',
      ''security_admin'', ''platform_admin'', ''system_admin'', ''system''],
      c_environment_equals := Some [(''serverKind'', JStr ''mock''), (''serverStatus'', JStr
      ''active''), (''realTransportEnabled'', JBool False)]\<rparr>,
    rule_priority = 200, rule_enabled = True\<rparr>,
   \<lparr>rule_id = ''policy_mcp_tool_invoke_allow_low_risk_mock_v0'',
    rule_name = ''Allow low-risk mock MCP tool invocation'',
    rule_description = ''Low-risk read-only mock MCP tools may run when they require no secrets, network, write, deploy, or real transport.'',
    rule_eff = EffAllow, rule_action = ''mcp.tool.invoke.low_risk'', rule_resource_kind = Some ''mcp_tool'',
    rule_conds = no_conditions\<lparr>c_subject_roles_any := Some [''developer'',
      ''service_account_runner'', ''platform_admin'', ''system_admin'', ''system''],
      c_environment_equals := Some [(''serverKind'', JStr ''mock''), (''serverStatus'', JStr
      ''active''), (''toolStatus'', JStr ''active''), (''riskLevel'', JStr ''low''),
      (''readOnly'', JBool True), (''requiresSecrets'', JBool False), (''networkRequired'',
      JBool False), (''writeOperation'', JBool False), (''deployOperation'', JBool False),
      (''realTransportEnabled'', JBool False), (''localExecutionRequired'', JBool
      False)]\<rparr>,
    rule_priority = 200, rule_enabled = True\<rparr>,
   \<lparr>rule_id = ''policy_mcp_tool_invoke_allow_generic_low_risk_mock_v0'',
    rule_name = ''Allow generic low-risk mock MCP invocation'',
    rule_description = ''The generic MCP invocation gate allows only low-risk read-only mock tools with all unsafe capabilities disabled.'',
    rule_eff = EffAllow, rule_action = ''mcp.tool.invoke'', rule_resource_kind = Some ''mcp_tool'',
    rule_conds = no_conditions\<lparr>c_subject_roles_any := Some [''developer'',
      ''service_account_runner'', ''platform_admin'', ''system_admin'', ''system''],
      c_environment_equals := Some [(''serverKind'', JStr ''mock''), (''serverStatus'', JStr
      ''active''), (''toolStatus'', JStr ''active''), (''riskLevel'', JStr ''low''),
      (''readOnly'', JBool True), (''requiresSecrets'', JBool False), (''networkRequired'',
      JBool False), (''writeOperation'', JBool False), (''deployOperation'', JBool False),
      (''realTransportEnabled'', JBool False), (''localExecutionRequired'', JBool
      False)]\<rparr>,
    rule_priority = 200, rule_enabled = True\<rparr>]"

definition mcp_deny_rules :: "policy_rule list" where
  "mcp_deny_rules = [
   \<lparr>rule_id = ''policy_mcp_tool_invoke_high_risk_deny_v0'',
    rule_name = ''Deny high-risk MCP tool invocation'',
    rule_description = ''High-risk MCP tools are denied by default in v0.'',
    rule_eff = EffDeny, rule_action = ''mcp.tool.invoke.high_risk'', rule_resource_kind = Some ''mcp_tool'',
    rule_conds = no_conditions,
    rule_priority = 1000, rule_enabled = True\<rparr>,
   \<lparr>rule_id = ''policy_mcp_tool_invoke_critical_deny_v0'',
    rule_name = ''Deny critical MCP tool invocation'',
    rule_description = ''Critical MCP tools are denied by default in v0.'',
    rule_eff = EffDeny, rule_action = ''mcp.tool.invoke.critical'', rule_resource_kind = Some ''mcp_tool'',
    rule_conds = no_conditions,
    rule_priority = 1000, rule_enabled = True\<rparr>,
   \<lparr>rule_id = ''policy_mcp_tool_secret_resolve_deny_v0'',
    rule_name = ''Deny MCP tool secret resolution'',
    rule_description = ''MCP tools do not receive SecretRefs, leases, or raw secret material in v0.'',
    rule_eff = EffDeny, rule_action = ''mcp.tool.secret.resolve'', rule_resource_kind = Some ''mcp_tool'',
    rule_conds = no_conditions,
    rule_priority = 1000, rule_enabled = True\<rparr>,
   \<lparr>rule_id = ''policy_mcp_tool_network_access_deny_v0'',
    rule_name = ''Deny MCP tool network access'',
    rule_description = ''MCP network transport and tool network egress are disabled in v0.'',
    rule_eff = EffDeny, rule_action = ''mcp.tool.network_access'', rule_resource_kind = Some ''mcp_tool'',
    rule_conds = no_conditions,
    rule_priority = 1000, rule_enabled = True\<rparr>,
   \<lparr>rule_id = ''policy_mcp_tool_write_deny_v0'',
    rule_name = ''Deny MCP write tools'',
    rule_description = ''MCP write tools are disabled in v0.'',
    rule_eff = EffDeny, rule_action = ''mcp.tool.write'', rule_resource_kind = Some ''mcp_tool'',
    rule_conds = no_conditions,
    rule_priority = 1000, rule_enabled = True\<rparr>,
   \<lparr>rule_id = ''policy_mcp_tool_deploy_deny_v0'',
    rule_name = ''Deny MCP deploy tools'',
    rule_description = ''MCP deployment tools are disabled in v0.'',
    rule_eff = EffDeny, rule_action = ''mcp.tool.deploy'', rule_resource_kind = Some ''mcp_tool'',
    rule_conds = no_conditions,
    rule_priority = 1000, rule_enabled = True\<rparr>,
   \<lparr>rule_id = ''policy_mcp_tool_call_deny'',
    rule_name = ''Deny MCP tool calls'',
    rule_description = ''MCP tool calls are disabled in the mock-first scaffold.'',
    rule_eff = EffDeny, rule_action = ''mcp.tool.call'', rule_resource_kind = Some ''mcp_tool'',
    rule_conds = no_conditions,
    rule_priority = 1000, rule_enabled = True\<rparr>,
   \<lparr>rule_id = ''policy_secret_read_deny'',
    rule_name = ''Deny secret reads'',
    rule_description = ''Production secrets are not available to the scaffold.'',
    rule_eff = EffDeny, rule_action = ''secret.read'', rule_resource_kind = Some ''secret_scope'',
    rule_conds = no_conditions,
    rule_priority = 1000, rule_enabled = True\<rparr>]"

definition dashboard_auth_rules :: "policy_rule list" where
  "dashboard_auth_rules = [
   \<lparr>rule_id = ''policy_dashboard_read_allow_auth_v0'',
    rule_name = ''Allow dashboard read for authenticated mock roles'',
    rule_description = ''Dashboard read models are read-only and may be viewed by default v0 roles.'',
    rule_eff = EffAllow, rule_action = ''dashboard.read'', rule_resource_kind = Some ''dashboard'',
    rule_conds = no_conditions\<lparr>c_subject_roles_any := Some [''viewer'', ''developer'', ''reviewer'',
      ''security_admin'', ''platform_admin'', ''system_admin'', ''system'']\<rparr>,
    rule_priority = 200, rule_enabled = True\<rparr>,
   \<lparr>rule_id = ''policy_auth_read_allow_v0'',
    rule_name = ''Allow auth metadata read'',
    rule_description = ''Auth/RBAC v0 metadata contains no tokens or production sessions.'',
    rule_eff = EffAllow, rule_action = ''auth.read'', rule_resource_kind = Some ''auth'',
    rule_conds = no_conditions\<lparr>c_subject_roles_any := Some [''viewer'', ''developer'', ''reviewer'',
      ''security_admin'', ''platform_admin'', ''system_admin'', ''system'']\<rparr>,
    rule_priority = 200, rule_enabled = True\<rparr>,
   \<lparr>rule_id = ''policy_auth_authorize_check_allow_v0'',
    rule_name = ''Allow authorization check endpoint'',
    rule_description = ''Authorization check evaluates mock RBAC and policy without issuing credentials or sessions.'',
    rule_eff = EffAllow, rule_action = ''auth.authorize.check'', rule_resource_kind = Some ''auth'',
    rule_conds = no_conditions\<lparr>c_subject_roles_any := Some [''security_admin'', ''platform_admin'',
      ''system_admin'', ''system'']\<rparr>,
    rule_priority = 200, rule_enabled = True\<rparr>,
   \<lparr>rule_id = ''policy_auth_admin_future_deny'',
    rule_name = ''Deny production auth administration'',
    rule_description = ''Production auth administration is not implemented in v0.'',
    rule_eff = EffDeny, rule_action = ''auth.admin'', rule_resource_kind = Some ''auth'',
    rule_conds = no_conditions,
    rule_priority = 1000, rule_enabled = True\<rparr>]"

definition task_rules :: "policy_rule list" where
  "task_rules = [
   \<lparr>rule_id = ''policy_task_high_risk_requires_approval'',
    rule_name = ''Require approval for high-risk task execution'',
    rule_description = ''High-risk task execution demonstrates require_approval decisions.'',
    rule_eff = EffRequireApproval, rule_action = ''task.run'', rule_resource_kind = Some ''task'',
    rule_conds = no_conditions\<lparr>c_risk_score_at_least := Some 80\<rparr>,
    rule_priority = 500, rule_enabled = True\<rparr>,
   \<lparr>rule_id = ''policy_task_run_allow_default'',
    rule_name = ''Allow normal task execution'',
    rule_description = ''Normal task execution is allowed when no high-risk rule matches.'',
    rule_eff = EffAllow, rule_action = ''task.run'', rule_resource_kind = Some ''task'',
    rule_conds = no_conditions,
    rule_priority = 50, rule_enabled = True\<rparr>,
   \<lparr>rule_id = ''policy_task_create_allow_default'',
    rule_name = ''Allow task creation'',
    rule_description = ''Task creation remains allowed in the mock scaffold.'',
    rule_eff = EffAllow, rule_action = ''task.create'', rule_resource_kind = Some ''task'',
    rule_conds = no_conditions,
    rule_priority = 50, rule_enabled = True\<rparr>]"

definition default_policy_rules :: "policy_rule list" where
  "default_policy_rules =
     git_remote_rules @ git_webhook_rules @ git_sync_rules @ git_change_rules @
     llm_completion_rules @ llm_route_rules @ runner_rules @ registry_rules @ improvement_rules
     @ credential_rules @ local_cli_rules @ local_agent_mock_rules @ local_agent_consent_rules @
     local_agent_invoke_rules @ provider_invoke_rules @ secret_rules @ sandbox_rules @
     mcp_allow_rules @ mcp_deny_rules @ dashboard_auth_rules @ task_rules"

lemmas rule_chunk_defs =
  git_remote_rules_def git_webhook_rules_def git_sync_rules_def git_change_rules_def
  llm_completion_rules_def llm_route_rules_def runner_rules_def registry_rules_def
  improvement_rules_def credential_rules_def local_cli_rules_def local_agent_mock_rules_def
  local_agent_consent_rules_def local_agent_invoke_rules_def provider_invoke_rules_def
  secret_rules_def sandbox_rules_def mcp_allow_rules_def mcp_deny_rules_def
  dashboard_auth_rules_def task_rules_def

lemmas default_rule_defs = default_policy_rules_def rule_chunk_defs

text \<open>
  A weak congruence for the literal rules: the simplifier reads a field of a rule without
  rewriting inside its texts.
\<close>

lemma rule_literal_cong:
  "policy_rule_ext a b c d e f g h i m = policy_rule_ext a b c d e f g h i m"
  by (rule refl)

end
