(* ===== verification/DefaultPolicy.thy ===== *)
theory DefaultPolicy
  imports PolicyRules
begin

text \<open>
  What the default rule set of \<open>PolicyRules\<close> lets through: the actions no request can ever be
  allowed, the environment gates and the roles every allowed request has passed, the commands a
  runner may never execute, and the validity of the set itself.
\<close>

section \<open>Actions by their position\<close>

text \<open>
  Comparing action names character by character is slow, so the rules are also read by the
  position of their action in \<open>policy_actions\<close>, which lists every action once.
\<close>

lemma distinct_policy_actions: "distinct policy_actions"
  by (rule distinct_by_order[where p = "
      [72, 66, 65, 64, 57, 58, 63, 2, 14, 8, 9, 10, 12, 3, 7, 13, 11, 6, 4, 5, 31, 30, 29, 28,
       15, 18, 20, 17, 16, 19, 45, 40, 38, 41, 44, 43, 47, 39, 42, 37, 46, 71, 49, 50, 48, 56,
       53, 51, 55, 54, 52, 73, 83, 82, 75, 78, 77, 76, 74, 80, 79, 81, 69, 36, 33, 32, 34, 35,
       26, 24, 27, 25, 22, 21, 23, 70, 67, 68, 61, 60, 62, 59, 84, 0, 1]"])
    (simp_all add: policy_actions_def)

definition action_at :: "nat \<Rightarrow> string" where
  "action_at i = policy_actions ! i"

lemma action_at_eq: "i < 85 \<Longrightarrow> j < 85 \<Longrightarrow> action_at i = action_at j \<longleftrightarrow> i = j"
  unfolding action_at_def
  by (rule nth_eq_iff_index_eq[OF distinct_policy_actions]) (simp_all add: policy_actions_def)

lemma length_policy_actions: "length policy_actions = 85"
  by (simp add: policy_actions_def)

lemma action_at_is_action: "i < 85 \<Longrightarrow> is_policy_action (action_at i)"
  by (simp add: is_policy_action_def action_at_def length_policy_actions)

section \<open>Reading the rule set action by action\<close>

definition rules_for :: "string \<Rightarrow> policy_rule list" where
  "rules_for a = filter (\<lambda>r. rule_action r = a) default_policy_rules"

lemma candidates_rules_for:
  "candidates default_policy_rules req = candidates (rules_for (req_action req)) req"
proof -
  have "(rule_action r = req_action req \<and> rule_applies req r) = rule_applies req r" for r
    by (auto simp only: rule_applies_def)
  then have "filter (rule_applies req) (rules_for (req_action req)) =
      filter (rule_applies req) default_policy_rules"
    by (simp only: rules_for_def filter_filter)
  then show ?thesis by (simp only: candidates_def)
qed

lemma evaluate_rules_for:
  "evaluate default_policy_rules s req = evaluate (rules_for (req_action req)) s req"
  by (simp add: evaluate_def candidates_rules_for)

lemma default_allowed_iff:
  "dec_allowed (evaluate default_policy_rules s req) \<longleftrightarrow>
     (case sort_by rule_cmp (filter (rule_applies req) (rules_for (req_action req))) of
        [] \<Rightarrow> False | r # _ \<Rightarrow> rule_eff r = EffAllow)"
  unfolding evaluate_winner(1) winner_def candidates_rules_for[of req] candidates_def[symmetric]
  by (cases "candidates (rules_for (req_action req)) req") simp_all

text \<open>An allowed request satisfies the conditions of a rule that allows its action.\<close>

lemma allowed_default_rule:
  assumes "dec_allowed (evaluate default_policy_rules s req)"
  obtains r where "r \<in> set default_policy_rules" "rule_action r = req_action req"
    "rule_eff r = EffAllow" "condition_matches (rule_conds r) req"
  using assms by (rule allowed_has_rule) (use that in \<open>simp only: rule_applies_def\<close>)

definition demands_env :: "jsobj \<Rightarrow> rule_conditions \<Rightarrow> bool" where
  "demands_env gates c \<longleftrightarrow> list_all (\<lambda>g. g \<in> set (opt_default (c_environment_equals c) [])) gates"

lemma demands_env_matches:
  assumes "demands_env gates c" and "condition_matches c req"
  shows "map_matches (Some gates) (ctx_environment (req_context req))"
proof -
  let ?e = "opt_default (c_environment_equals c) []"
  from assms(2) have "map_matches (c_environment_equals c) (ctx_environment (req_context req))"
    by (simp only: condition_matches_def)
  then have "list_all (\<lambda>(k, v). obj_get (ctx_environment (req_context req)) k = v) ?e"
    by (cases "c_environment_equals c") (simp_all add: map_matches_def)
  with assms(1) show ?thesis by (simp add: demands_env_def map_matches_def list_all_iff)
qed

definition demands_role :: "string list \<Rightarrow> rule_conditions \<Rightarrow> bool" where
  "demands_role roles c \<longleftrightarrow>
     (case c_subject_roles_any c of None \<Rightarrow> False | Some rs \<Rightarrow> \<forall>r \<in> set rs. r \<in> set roles)"

lemma demands_role_matches:
  "demands_role roles c \<Longrightarrow> condition_matches c req \<Longrightarrow>
   \<exists>r \<in> set (subj_roles (req_subject req)). r \<in> set roles"
  unfolding demands_role_def condition_matches_def
  by (cases "c_subject_roles_any c") (auto simp only: option.case list_ex_iff)

section \<open>The gates every allowed request has passed\<close>

text \<open>
  For every action, the environment flags that each rule allowing it demands, and the roles
  of which each rule allowing it demands one.
\<close>

definition environment_gates :: "(string \<times> jsobj) list" where
  "environment_gates =
    [(''git.remote_operation'', [(''remoteGitEnabled'', JBool True),
      (''remoteOperationAllowed'', JBool True), (''repoAllowlisted'', JBool True),
      (''credentialsConfigured'', JBool True)]),
     (''git.webhook.receive'', [(''githubWebhooksEnabled'', JBool True),
      (''signatureVerified'', JBool True), (''repoAllowlisted'', JBool True),
      (''secretConfigured'', JBool True)]),
     (''git.webhook.verify'', [(''githubWebhooksEnabled'', JBool True), (''signatureVerified'',
      JBool True), (''secretConfigured'', JBool True)]),
     (''git.webhook.process'', [(''githubWebhooksEnabled'', JBool True),
      (''signatureVerified'', JBool True), (''repoAllowlisted'', JBool True),
      (''secretConfigured'', JBool True)]),
     (''git.pull_request.sync'', [(''repoAllowlisted'', JBool True), (''destructiveOperation'',
      JBool False)]),
     (''git.branch.sync'', [(''repoAllowlisted'', JBool True), (''destructiveOperation'', JBool
      False)]),
     (''git.changed_files.read'', [(''remoteGitEnabled'', JBool True),
      (''remoteOperationAllowed'', JBool True), (''repoAllowlisted'', JBool True),
      (''credentialsConfigured'', JBool True), (''destructiveOperation'', JBool False)]),
     (''git.credential.resolve'', [(''credentialsConfigured'', JBool True),
      (''secretRefActive'', JBool True), (''envSecretProviderEnabled'', JBool True),
      (''credentialCacheAccessAllowed'', JBool False), (''credentialMaterialStored'', JBool
      False)]),
     (''llm.remote_completion'', [(''remoteLlmEnabled'', JBool True),
      (''remoteCompletionEnabled'', JBool True), (''baseUrlConfigured'', JBool True),
      (''credentialsConfigured'', JBool True), (''modelAllowlisted'', JBool True),
      (''budgetAllowed'', JBool True)]),
     (''llm.completion'', [(''budgetAllowed'', JBool True)]),
     (''llm.credential.resolve'', [(''credentialsConfigured'', JBool True),
      (''secretRefActive'', JBool True), (''envSecretProviderEnabled'', JBool True),
      (''credentialCacheAccessAllowed'', JBool False), (''credentialMaterialStored'', JBool
      False)]),
     (''llm.fallback'', [(''fallbackEnabled'', JBool True), (''fallbackWithinLimit'', JBool
      True), (''budgetAllowed'', JBool True)]),
     (''runner.command.execute'', [(''localCommandExecutionEnabled'', JBool True),
      (''harnessAllowed'', JBool True), (''workspaceSafe'', JBool True)]),
     (''provider.credential.resolve'', [(''credentialsConfigured'', JBool True),
      (''credentialCacheAccessAllowed'', JBool False), (''credentialMaterialStored'', JBool
      False)]),
     (''local_agent.channel.create'', [(''mockTransport'', JBool True), (''realTransport'',
      JBool False)]),
     (''local_agent.handshake.verify'', [(''mockTransport'', JBool True), (''realTransport'',
      JBool False)]),
     (''local_agent.capability.advertise'', [(''mockTransport'', JBool True)]),
     (''local_agent.compatibility.check'', [(''mockTransport'', JBool True)]),
     (''local_agent.event.receive'', [(''mockTransport'', JBool True)]),
     (''local_agent.stream.receive'', [(''mockTransport'', JBool True)]),
     (''local_agent.invoke'', [(''localAgentConnected'', JBool True), (''mockTransport'', JBool
      True)]),
     (''secret.metadata.read'', [(''secretMaterialAvailable'', JBool False)]),
     (''secret.lease.request'', [(''secretRefActive'', JBool True),
      (''envSecretProviderEnabled'', JBool True), (''credentialCacheAccessAllowed'', JBool
      False), (''credentialMaterialStored'', JBool False)]),
     (''secret.lease.issue'', [(''secretRefActive'', JBool True),
      (''envSecretProviderEnabled'', JBool True), (''credentialCacheAccessAllowed'', JBool
      False), (''credentialMaterialStored'', JBool False)]),
     (''sandbox.profile.use'', [(''networkAllowed'', JBool False), (''secretsAllowed'', JBool
      False), (''remoteGitAllowed'', JBool False), (''profileStatus'', JStr ''active'')]),
     (''sandbox.session.create'', [(''networkAllowed'', JBool False), (''secretsAllowed'',
      JBool False), (''remoteGitAllowed'', JBool False), (''profileStatus'', JStr ''active'')]),
     (''mcp.server.list'', [(''realTransportEnabled'', JBool False)]),
     (''mcp.tool.list'', [(''serverKind'', JStr ''mock''), (''serverStatus'', JStr ''active''),
      (''realTransportEnabled'', JBool False)]),
     (''mcp.tool.invoke.low_risk'', [(''serverKind'', JStr ''mock''), (''serverStatus'', JStr
      ''active''), (''toolStatus'', JStr ''active''), (''riskLevel'', JStr ''low''),
      (''readOnly'', JBool True), (''requiresSecrets'', JBool False), (''networkRequired'',
      JBool False), (''writeOperation'', JBool False), (''deployOperation'', JBool False),
      (''realTransportEnabled'', JBool False), (''localExecutionRequired'', JBool False)]),
     (''mcp.tool.invoke'', [(''serverKind'', JStr ''mock''), (''serverStatus'', JStr
      ''active''), (''toolStatus'', JStr ''active''), (''riskLevel'', JStr ''low''),
      (''readOnly'', JBool True), (''requiresSecrets'', JBool False), (''networkRequired'',
      JBool False), (''writeOperation'', JBool False), (''deployOperation'', JBool False),
      (''realTransportEnabled'', JBool False), (''localExecutionRequired'', JBool False)])]"

definition role_gates :: "(string \<times> string list) list" where
  "role_gates =
    [(''registry.create'', [''registry_editor'', ''registry_admin'', ''system'']),
     (''registry.update'', [''registry_editor'', ''registry_admin'', ''registry_reviewer'',
      ''system'']),
     (''registry.approve'', [''registry_reviewer'', ''registry_admin'', ''system'']),
     (''registry.rollback'', [''registry_admin'', ''system'']),
     (''improvement.proposal.create'', [''system'', ''registry_admin'',
      ''improvement_editor'']),
     (''improvement.proposal.approve'', [''system'', ''system_admin'', ''platform_admin'',
      ''reviewer'', ''registry_admin'', ''registry_reviewer'', ''improvement_reviewer'']),
     (''improvement.draft_change.prepare'', [''system'', ''registry_admin'',
      ''improvement_editor'']),
     (''local_agent.register'', [''system'', ''mock_admin'', ''local_agent_admin'']),
     (''local_agent.revoke'', [''system'', ''local_agent_admin'']),
     (''local_agent.cancel'', [''system'', ''local_agent_admin'']),
     (''local_agent.session.expire'', [''system'', ''local_agent_admin'']),
     (''local_agent.session.approve'', [''system'', ''local_agent_admin'']),
     (''secret.lease.revoke'', [''system'', ''security_admin'']),
     (''mcp.server.list'', [''viewer'', ''developer'', ''reviewer'', ''security_admin'',
      ''platform_admin'', ''system_admin'', ''system'']),
     (''mcp.tool.list'', [''viewer'', ''developer'', ''reviewer'', ''security_admin'',
      ''platform_admin'', ''system_admin'', ''system'']),
     (''mcp.tool.invoke.low_risk'', [''developer'', ''service_account_runner'',
      ''platform_admin'', ''system_admin'', ''system'']),
     (''mcp.tool.invoke'', [''developer'', ''service_account_runner'', ''platform_admin'',
      ''system_admin'', ''system'']),
     (''dashboard.read'', [''viewer'', ''developer'', ''reviewer'', ''security_admin'',
      ''platform_admin'', ''system_admin'', ''system'']),
     (''auth.read'', [''viewer'', ''developer'', ''reviewer'', ''security_admin'',
      ''platform_admin'', ''system_admin'', ''system'']),
     (''auth.authorize.check'', [''security_admin'', ''platform_admin'', ''system_admin'',
      ''system''])]"

definition rule_action_indexes :: "nat list" where
  "rule_action_indexes =
    [11, 11, 11, 4, 4, 4, 5, 5, 5, 6, 6, 6, 7, 8, 9, 9, 10, 10, 12, 13, 14, 2, 3, 2, 2, 3, 16,
     16, 16, 17, 15, 15, 18, 18, 17, 19, 19, 20, 20, 22, 22, 22, 22, 21, 24, 25, 26, 27, 31, 28,
     29, 30, 36, 33, 33, 33, 35, 57, 58, 51, 56, 54, 53, 55, 37, 38, 39, 40, 41, 46, 45, 47, 48,
     50, 49, 43, 44, 42, 42, 42, 52, 52, 52, 42, 34, 32, 32, 32, 59, 60, 60, 61, 61, 62, 70, 69,
     71, 72, 67, 68, 67, 68, 73, 74, 76, 75, 77, 78, 79, 80, 81, 82, 83, 84, 63, 64, 65, 66, 1,
     1, 0]"

definition environment_gate_indexes :: "nat list" where
  "environment_gate_indexes =
    [11, 4, 5, 6, 7, 8, 9, 10, 16, 15, 18, 20, 22, 33, 38, 39, 40, 41, 47, 48, 42, 59, 60, 61,
     67, 68, 73, 74, 76, 75]"

definition role_gate_indexes :: "nat list" where
  "role_gate_indexes =
    [24, 25, 26, 27, 28, 29, 30, 37, 46, 45, 50, 49, 62, 73, 74, 76, 75, 63, 64, 65]"

lemma rule_actions_at: "map rule_action default_policy_rules = map action_at rule_action_indexes"
  by (simp add: default_rule_defs action_at_def policy_actions_def rule_action_indexes_def
      cong: rule_literal_cong)

lemma environment_gates_at:
  "environment_gates = zip (map action_at environment_gate_indexes) (map snd environment_gates)"
  by (simp add: environment_gates_def action_at_def policy_actions_def environment_gate_indexes_def)

lemma role_gates_at: "role_gates = zip (map action_at role_gate_indexes) (map snd role_gates)"
  by (simp add: role_gates_def action_at_def policy_actions_def role_gate_indexes_def)

lemma gate_table_check:
  assumes "map f rs = map action_at ks" and "tab = zip (map action_at js) gs"
    and "list_all (\<lambda>(k, r). list_all (\<lambda>(j, g). k = j \<longrightarrow> P r g) (zip js gs)) (zip ks rs)"
    and "list_all (\<lambda>k. k < 85) ks" and "list_all (\<lambda>j. j < 85) js"
    and "r \<in> set rs" and "(f r, g) \<in> set tab"
  shows "P r g"
proof -
  from assms(6) obtain i where i: "i < length rs" "r = rs ! i" by (auto simp: in_set_conv_nth)
  have len: "length ks = length rs" using assms(1) by (metis length_map)
  from assms(1) i len have fk: "f r = action_at (ks ! i)" by (metis nth_map)
  from assms(2,7) obtain n where n: "n < length js" "n < length gs" "f r = action_at (js ! n)" "g = gs ! n"
    by (auto simp: in_set_zip)
  have "ks ! i < 85" "js ! n < 85" using assms(4,5) i n len by (auto simp: list_all_length)
  then have "ks ! i = js ! n" using fk n(3) by (simp add: action_at_eq)
  moreover have "(ks ! i, r) \<in> set (zip ks rs)" "(js ! n, g) \<in> set (zip js gs)"
    using i n len by (auto simp: in_set_zip)
  ultimately show ?thesis using assms(3) by (fastforce simp: list_all_iff)
qed

lemma environment_gates_demanded:
  "list_all (\<lambda>(k, r). list_all (\<lambda>(j, g). k = j \<longrightarrow> rule_eff r = EffAllow \<longrightarrow> demands_env g (rule_conds r))
      (zip environment_gate_indexes (map snd environment_gates)))
    (zip rule_action_indexes default_policy_rules)"
  by (simp add: default_rule_defs rule_action_indexes_def environment_gate_indexes_def
      environment_gates_def demands_env_def no_conditions_def cong: rule_literal_cong)

lemma role_gates_demanded:
  "list_all (\<lambda>(k, r). list_all (\<lambda>(j, g). k = j \<longrightarrow> rule_eff r = EffAllow \<longrightarrow> demands_role g (rule_conds r))
      (zip role_gate_indexes (map snd role_gates)))
    (zip rule_action_indexes default_policy_rules)"
  by (simp add: default_rule_defs rule_action_indexes_def role_gate_indexes_def
      role_gates_def demands_role_def no_conditions_def cong: rule_literal_cong)

section \<open>What the default rules never allow\<close>

definition forbidden_actions :: "string list" where
  "forbidden_actions =
    [''git.merge'', ''git.rebase'', ''git.branch.delete'', ''runner.local_execution'',
     ''improvement.apply'', ''provider.pty.invoke'', ''provider.cloud_api.invoke'',
     ''local_cli.invoke'', ''local_cli.file_write'', ''local_cli.shell_execution'',
     ''local_cli.network_access'', ''local_cli.danger_full_access'', ''credential.cache.read'',
     ''credential.cache.upload'', ''auth.admin'', ''network.egress'', ''runner.secret.inject'',
     ''local_agent.secret.forward'', ''audit.secret.view'', ''mcp.tool.invoke.high_risk'',
     ''mcp.tool.invoke.critical'', ''mcp.tool.secret.resolve'', ''mcp.tool.network_access'',
     ''mcp.tool.write'', ''mcp.tool.deploy'', ''mcp.tool.call'', ''secret.read'']"

definition forbidden_indexes :: "nat list" where
  "forbidden_indexes =
    [12, 13, 14, 23, 31, 35, 36, 51, 53, 54, 55, 56, 57, 58, 66, 69, 70, 71, 72, 77, 78, 79, 80,
     81, 82, 83, 84]"

lemma forbidden_actions_at:
  "map (\<lambda>a. (a, ())) forbidden_actions =
     zip (map action_at forbidden_indexes) (replicate 27 ())"
  by (simp add: forbidden_actions_def action_at_def policy_actions_def forbidden_indexes_def
      numeral_eq_Suc)

lemma forbidden_not_allowed:
  "list_all (\<lambda>(k, r). list_all (\<lambda>(j, g). k = j \<longrightarrow> rule_eff r \<noteq> EffAllow)
      (zip forbidden_indexes (replicate 27 ()))) (zip rule_action_indexes default_policy_rules)"
  by (simp add: default_rule_defs rule_action_indexes_def forbidden_indexes_def numeral_eq_Suc
      cong: rule_literal_cong)

lemma indexes_in_range:
  "list_all (\<lambda>k. k < 85) rule_action_indexes" "list_all (\<lambda>k. k < 85) forbidden_indexes"
  "list_all (\<lambda>k. k < 85) environment_gate_indexes" "list_all (\<lambda>k. k < 85) role_gate_indexes"
  by (simp_all add: rule_action_indexes_def forbidden_indexes_def environment_gate_indexes_def
      role_gate_indexes_def)

lemma forbidden_rule:
  assumes "r \<in> set default_policy_rules" and "rule_action r \<in> set forbidden_actions"
  shows "rule_eff r \<noteq> EffAllow"
  by (rule gate_table_check[OF rule_actions_at forbidden_actions_at forbidden_not_allowed
        indexes_in_range(1,2) assms(1)]) (use assms(2) in auto)

lemma environment_gate_rule:
  assumes "r \<in> set default_policy_rules" and "(rule_action r, g) \<in> set environment_gates"
  shows "rule_eff r = EffAllow \<longrightarrow> demands_env g (rule_conds r)"
  by (rule gate_table_check[OF rule_actions_at environment_gates_at environment_gates_demanded
        indexes_in_range(1,3) assms])

lemma role_gate_rule:
  assumes "r \<in> set default_policy_rules" and "(rule_action r, g) \<in> set role_gates"
  shows "rule_eff r = EffAllow \<longrightarrow> demands_role g (rule_conds r)"
  by (rule gate_table_check[OF rule_actions_at role_gates_at role_gates_demanded
        indexes_in_range(1,4) assms])

section \<open>The rule set is valid\<close>

lemma default_rule_ids_distinct: "distinct (map rule_id default_policy_rules)"
  by (rule distinct_by_order[where p = "
      [97, 117, 116, 115, 57, 58, 114, 20, 13, 15, 14, 17, 16, 24, 25, 23, 18, 21, 22, 12, 19, 2,
       0, 1, 11, 9, 10, 5, 3, 4, 8, 6, 7, 48, 51, 50, 49, 34, 33, 32, 29, 38, 37, 30, 31, 28, 26,
       27, 35, 36, 70, 67, 65, 68, 76, 75, 71, 66, 78, 79, 83, 77, 64, 69, 96, 74, 73, 72, 60,
       59, 62, 63, 61, 81, 80, 82, 102, 112, 111, 105, 104, 107, 106, 103, 109, 108, 110, 95, 52,
       54, 55, 53, 84, 85, 86, 87, 56, 46, 44, 47, 45, 39, 43, 42, 40, 41, 94, 98, 99, 100, 101,
       91, 92, 89, 90, 93, 88, 113, 120, 118, 119]"])
    (simp_all add: default_rule_defs cong: rule_literal_cong)

lemma default_rule_kinds:
  "map rule_resource_kind default_policy_rules = map (\<lambda>i. Some (policy_resource_kinds ! i))
     [5, 5, 5, 5, 5, 5, 5, 5, 5, 5, 5, 5, 4, 3, 5, 5, 21, 21, 5, 5, 3, 3, 4, 3, 3, 4, 7, 7, 7, 6,
      7, 7, 21, 21, 6, 8, 8, 9, 9, 12, 12, 12, 12, 11, 17, 17, 17, 17, 19, 18, 18, 19, 7, 21, 21,
      21, 7, 21, 21, 23, 23, 23, 23, 23, 22, 22, 22, 22, 22, 22, 22, 22, 22, 22, 22, 22, 22, 22,
      22, 22, 23, 23, 23, 22, 7, 7, 7, 7, 24, 25, 25, 25, 25, 25, 11, 28, 22, 32, 26, 27, 26, 27,
      30, 31, 31, 31, 31, 31, 31, 31, 31, 31, 31, 32, 33, 34, 34, 34, 0, 0, 0]"
  by (simp add: default_rule_defs policy_resource_kinds_def cong: rule_literal_cong)

lemma default_rules_wellformed:
  "list_all (\<lambda>r. rule_id r \<noteq> [] \<and> (\<forall>e. rule_eff r \<noteq> EffOther e)) default_policy_rules"
  by (simp add: default_rule_defs cong: rule_literal_cong)

lemma policy_resource_kinds_at: "i < 35 \<Longrightarrow> is_policy_resource_kind (policy_resource_kinds ! i)"
proof -
  have "length policy_resource_kinds = 35" by (simp add: policy_resource_kinds_def)
  then show "i < 35 \<Longrightarrow> ?thesis" by (simp add: is_policy_resource_kind_def)
qed

lemma validate_loop_valid:
  assumes "distinct (map rule_id rs)" and "\<forall>r \<in> set rs. rule_id r \<notin> ids"
    and "\<forall>r \<in> set rs. rule_id r \<noteq> [] \<and> is_policy_action (rule_action r) \<and>
      (\<forall>e. rule_eff r \<noteq> EffOther e) \<and>
      (\<forall>k. rule_resource_kind r = Some k \<longrightarrow> is_policy_resource_kind k)"
  shows "validate_loop ids rs = []"
  using assms
proof (induction ids rs rule: validate_loop.induct)
  case (2 ids r rs)
  then have "rule_errors ids r = []"
    by (auto simp: rule_errors_def split: option.splits rule_effect.splits)
  moreover have "\<forall>x \<in> set rs. rule_id x \<noteq> rule_id r"
    using "2.prems"(1) by (simp add: image_iff) metis
  ultimately show ?case using 2 by simp
qed simp

section \<open>Actions whose rules interact\<close>

lemma runner_command_rules:
  "rules_for ''runner.command.execute'' =
     [runner_rules ! 0, runner_rules ! 1, runner_rules ! 2, runner_rules ! 3]"
  by (simp add: rules_for_def default_rule_defs cong: rule_literal_cong)

lemma invoke_rules:
  "rules_for ''local_agent.invoke'' =
     [local_agent_invoke_rules ! 0, local_agent_invoke_rules ! 1, local_agent_invoke_rules ! 2,
      local_agent_invoke_rules ! 6]"
  by (simp add: rules_for_def default_rule_defs cong: rule_literal_cong)

text \<open>What the literal conditions say.\<close>

lemma condition_matches_simps [simp]:
  "condition_matches no_conditions req"
  "condition_matches (no_conditions\<lparr>c_environment_equals := Some e\<rparr>) req \<longleftrightarrow>
     map_matches (Some e) (ctx_environment (req_context req))"
  "condition_matches (no_conditions\<lparr>c_command_includes_any := Some ns\<rparr>) req \<longleftrightarrow>
     list_ex (\<lambda>n. str_includes (command_text req) (to_lower n)) ns"
  "condition_matches (no_conditions\<lparr>c_resource_statuses := Some ss\<rparr>) req \<longleftrightarrow>
     context_or_metadata None ''status'' req \<in> set ss"
  "condition_matches (no_conditions\<lparr>c_environment_equals := Some e, c_metadata_equals := Some m\<rparr>) req \<longleftrightarrow>
     map_matches (Some e) (ctx_environment (req_context req)) \<and>
     map_matches (Some m) (ctx_metadata (req_context req))"
  "condition_matches (no_conditions\<lparr>c_provider_kinds := Some ks, c_environment_equals := Some e\<rparr>) req \<longleftrightarrow>
     context_or_metadata (ctx_provider_kind (req_context req)) ''providerKind'' req \<in> set ks \<and>
     map_matches (Some e) (ctx_environment (req_context req))"
  by (simp_all add: condition_matches_def no_conditions_def map_matches_def)

definition network_command_words :: "string list" where
  "network_command_words = [''curl'', ''wget'', ''fetch'']"

definition git_command_words :: "string list" where
  "git_command_words = [''git fetch'', ''git push'', ''git merge'', ''git rebase'']"

definition blocked_command_words :: "string list" where
  "blocked_command_words = network_command_words @ git_command_words"

lemma blocked_words_lower: "w \<in> set blocked_command_words \<Longrightarrow> to_lower w = w"
  by (auto simp: blocked_command_words_def network_command_words_def git_command_words_def
      to_lower_def lower_char_def)

lemma runner_command_conditions:
  "rule_conds (runner_rules ! 1) =
     no_conditions\<lparr>c_command_includes_any := Some network_command_words\<rparr>"
  "rule_conds (runner_rules ! 2) = no_conditions\<lparr>c_command_includes_any := Some git_command_words\<rparr>"
  by (simp_all add: runner_rules_def network_command_words_def git_command_words_def
      cong: rule_literal_cong)

lemma runner_command_fields:
  "rule_enabled (runner_rules ! 1)" "rule_enabled (runner_rules ! 2)"
  "rule_action (runner_rules ! 1) = ''runner.command.execute''"
  "rule_action (runner_rules ! 2) = ''runner.command.execute''"
  "rule_resource_kind (runner_rules ! 1) = Some ''command''"
  "rule_resource_kind (runner_rules ! 2) = Some ''command''"
  "rule_resource_kind (runner_rules ! 3) = Some ''command''"
  "rule_priority (runner_rules ! 1) = 950" "rule_priority (runner_rules ! 2) = 950"
  "rule_priority (runner_rules ! 3) = 200"
  "rule_eff (runner_rules ! 0) = EffDeny" "rule_eff (runner_rules ! 1) = EffDeny"
  "rule_eff (runner_rules ! 2) = EffDeny" "rule_eff (runner_rules ! 3) = EffAllow"
  by (simp_all add: runner_rules_def cong: rule_literal_cong)

lemma invoke_fields:
  "rule_enabled (local_agent_invoke_rules ! 0)" "rule_enabled (local_agent_invoke_rules ! 1)"
  "rule_action (local_agent_invoke_rules ! 0) = ''local_agent.invoke''"
  "rule_action (local_agent_invoke_rules ! 1) = ''local_agent.invoke''"
  "rule_resource_kind (local_agent_invoke_rules ! 0) = Some ''local_agent''"
  "rule_resource_kind (local_agent_invoke_rules ! 1) = Some ''local_agent''"
  "rule_resource_kind (local_agent_invoke_rules ! 2) = Some ''local_agent''"
  "rule_priority (local_agent_invoke_rules ! 0) = 1000"
  "rule_priority (local_agent_invoke_rules ! 1) = 1000"
  "rule_priority (local_agent_invoke_rules ! 2) = 800"
  "rule_eff (local_agent_invoke_rules ! 0) = EffDeny" "rule_eff (local_agent_invoke_rules ! 1) = EffDeny"
  "rule_eff (local_agent_invoke_rules ! 2) = EffAllow"
  "rule_eff (local_agent_invoke_rules ! 6) = EffRequireApproval"
  "rule_conds (local_agent_invoke_rules ! 0) = no_conditions\<lparr>c_resource_statuses := Some [''revoked'']\<rparr>"
  "rule_conds (local_agent_invoke_rules ! 1) =
     no_conditions\<lparr>c_resource_statuses := Some [''disconnected'', ''unknown'', ''pending'']\<rparr>"
  "rule_conds (local_agent_invoke_rules ! 2) =
     no_conditions\<lparr>c_environment_equals :=
         Some [(''localAgentConnected'', JBool True), (''mockTransport'', JBool True)],
       c_metadata_equals :=
         Some [(''consentLevel'', JStr ''read_only''), (''consentApproved'', JBool True)]\<rparr>"
  by (simp_all add: local_agent_invoke_rules_def cong: rule_literal_cong)

text \<open>An allowed request's deciding rule outranks every other applicable rule of its action.\<close>

lemma allowed_outranks:
  assumes "dec_allowed (evaluate default_policy_rules s req)"
  obtains r where "r \<in> set (rules_for (req_action req))" "rule_applies req r" "rule_eff r = EffAllow"
    "\<And>d. d \<in> set (rules_for (req_action req)) \<Longrightarrow> rule_applies req d \<Longrightarrow>
       rule_priority d \<le> rule_priority r"
proof -
  have "dec_allowed (evaluate (rules_for (req_action req)) s req)"
    using assms by (simp only: evaluate_rules_for)
  then obtain r where "r \<in> set (rules_for (req_action req))" "rule_applies req r" "rule_eff r = EffAllow"
    "\<And>d. d \<in> set (rules_for (req_action req)) \<Longrightarrow> rule_applies req d \<Longrightarrow>
       rule_priority d \<le> rule_priority r"
    by (rule allowed_has_rule) (rule that)
  then show thesis by (rule that)
qed

text \<open>
  Under the default rules a runner is never allowed a command whose text contains
  curl, wget, fetch, or a remote or history-changing Git command, whatever the gates say.
\<close>

theorem runner_blocked_commands_denied:
  assumes "req_action req = ''runner.command.execute''"
    and "w \<in> set blocked_command_words" and "str_includes (command_text req) w"
  shows "\<not> dec_allowed (evaluate default_policy_rules s req)"
proof
  assume "dec_allowed (evaluate default_policy_rules s req)"
  then obtain r where r: "r \<in> set (rules_for (req_action req))" "rule_applies req r" "rule_eff r = EffAllow"
    and top: "\<And>d. d \<in> set (rules_for (req_action req)) \<Longrightarrow> rule_applies req d \<Longrightarrow>
      rule_priority d \<le> rule_priority r"
    by (rule allowed_outranks) blast
  have "r = runner_rules ! 3"
    using r(1,3) by (auto simp: assms(1) runner_command_rules runner_command_fields simp del: One_nat_def)
  with r(2) have kind: "res_kind (req_resource req) = ''command''"
    by (simp add: rule_applies_def runner_command_fields)
  have "list_ex (\<lambda>n. str_includes (command_text req) (to_lower n)) network_command_words \<or>
      list_ex (\<lambda>n. str_includes (command_text req) (to_lower n)) git_command_words"
    using assms(2,3) blocked_words_lower[OF assms(2)]
    by (force simp: list_ex_iff blocked_command_words_def)
  then have "rule_applies req (runner_rules ! 1) \<or> rule_applies req (runner_rules ! 2)"
    by (simp add: rule_applies_def runner_command_fields runner_command_conditions kind assms(1) del: One_nat_def)
  then show False
    using top[of "runner_rules ! 1"] top[of "runner_rules ! 2"] \<open>r = runner_rules ! 3\<close>
    by (auto simp: assms(1) runner_command_rules runner_command_fields simp del: One_nat_def)
qed

text \<open>
  Under the default rules a Local Agent is invoked only over the mock transport, while
  connected, with an approved read-only consent, and never when its status is revoked,
  disconnected, unknown or pending.
\<close>

theorem local_agent_invoke_gated:
  assumes "req_action req = ''local_agent.invoke''"
    and "dec_allowed (evaluate default_policy_rules s req)"
  shows "obj_get (ctx_environment (req_context req)) ''mockTransport'' = JBool True \<and>
    obj_get (ctx_environment (req_context req)) ''localAgentConnected'' = JBool True \<and>
    obj_get (ctx_metadata (req_context req)) ''consentLevel'' = JStr ''read_only'' \<and>
    obj_get (ctx_metadata (req_context req)) ''consentApproved'' = JBool True \<and>
    context_or_metadata None ''status'' req \<notin> {''revoked'', ''disconnected'', ''unknown'', ''pending''}"
proof -
  from assms(2) obtain r
    where r: "r \<in> set (rules_for (req_action req))" "rule_applies req r" "rule_eff r = EffAllow"
    and top: "\<And>d. d \<in> set (rules_for (req_action req)) \<Longrightarrow> rule_applies req d \<Longrightarrow>
      rule_priority d \<le> rule_priority r"
    by (rule allowed_outranks) blast
  have w: "r = local_agent_invoke_rules ! 2"
    using r(1,3) by (auto simp: assms(1) invoke_rules invoke_fields simp del: One_nat_def)
  with r(2) have "res_kind (req_resource req) = ''local_agent''"
    and c: "condition_matches (rule_conds (local_agent_invoke_rules ! 2)) req"
    by (simp_all add: rule_applies_def invoke_fields)
  moreover have "\<not> rule_applies req (local_agent_invoke_rules ! 0)"
    "\<not> rule_applies req (local_agent_invoke_rules ! 1)"
    using top[of "local_agent_invoke_rules ! 0"] top[of "local_agent_invoke_rules ! 1"]
    by (auto simp: w assms(1) invoke_rules invoke_fields simp del: One_nat_def)
  ultimately show ?thesis
    by (simp add: rule_applies_def assms(1) invoke_fields map_matches_def del: One_nat_def)
qed

section \<open>What every decision of the default engine satisfies\<close>

lemma allowed_passes_gate:
  assumes "dec_allowed (evaluate default_policy_rules s req)"
    and "(req_action req, gates) \<in> set environment_gates" and "(k, v) \<in> set gates"
  shows "obj_get (ctx_environment (req_context req)) k = v"
proof -
  from assms(1) obtain r where r: "r \<in> set default_policy_rules" "rule_action r = req_action req"
    "rule_eff r = EffAllow" "condition_matches (rule_conds r) req"
    by (rule allowed_default_rule)
  then have "demands_env gates (rule_conds r)"
    using assms(2) environment_gate_rule[OF r(1)] by simp
  with r(4) have "map_matches (Some gates) (ctx_environment (req_context req))"
    by (intro demands_env_matches)
  with assms(3) show ?thesis by (auto simp: map_matches_def list_all_iff)
qed

lemma forbidden_never_allowed:
  assumes "req_action req \<in> set forbidden_actions"
  shows "\<not> dec_allowed (evaluate default_policy_rules s req)"
proof
  assume "dec_allowed (evaluate default_policy_rules s req)"
  then obtain r where "r \<in> set default_policy_rules" "rule_action r = req_action req" "rule_eff r = EffAllow"
    by (rule allowed_default_rule)
  with assms forbidden_rule show False by simp
qed

text \<open>
  C2: Whatever the subject, resource and context, the default rules never allow a merge, rebase
  or branch deletion, applying an improvement, a PTY or cloud provider call, a local CLI call, a
  credential-cache access, network egress, secret injection or forwarding, a secret read, an
  unsafe MCP call, or production auth administration.
\<close>

theorem default_rules_forbid:
  assumes "req_action req \<in> set forbidden_actions"
  shows "\<not> dec_allowed (evaluate default_policy_rules s req)"
  by (rule forbidden_never_allowed[OF assms])

text \<open>
  A request the default rules allow has passed every environment gate of its action: for
  instance a remote Git operation runs only with remote Git enabled, the operation allowed, the
  repository allowlisted and credentials configured, and a secret lease is issued only on an
  active reference with the environment provider enabled and no stored credential.
\<close>

theorem default_allowed_environment:
  assumes "dec_allowed (evaluate default_policy_rules s req)"
    and "(req_action req, gates) \<in> set environment_gates" and "(k, v) \<in> set gates"
  shows "obj_get (ctx_environment (req_context req)) k = v"
  by (rule allowed_passes_gate[OF assms])

text \<open>
  A request the default rules allow for a role-gated action comes from a subject that has one
  of the roles listed for it: registry approval and rollback, improvement proposals, lease and
  agent revocation, the dashboard, the MCP tools and the auth reads.
\<close>

theorem default_allowed_role:
  assumes "dec_allowed (evaluate default_policy_rules s req)"
    and "(req_action req, roles) \<in> set role_gates"
  shows "\<exists>r \<in> set (subj_roles (req_subject req)). r \<in> set roles"
proof -
  from assms(1) obtain r where r: "r \<in> set default_policy_rules" "rule_action r = req_action req"
    "rule_eff r = EffAllow" "condition_matches (rule_conds r) req"
    by (rule allowed_default_rule)
  then have "demands_role roles (rule_conds r)"
    using assms(2) role_gate_rule[OF r(1)] by simp
  then show ?thesis using r(4) by (rule demands_role_matches)
qed

text \<open>The default rule set passes its own validation, so the engine can be built from it.\<close>

theorem default_engine_valid: "new_engine default_policy_rules = Inr default_policy_rules"
proof -
  have kinds: "is_policy_resource_kind k"
    if "r \<in> set default_policy_rules" "rule_resource_kind r = Some k" for r k
  proof -
    have "Some k \<in> set (map rule_resource_kind default_policy_rules)" using that by force
    then show ?thesis
      unfolding default_rule_kinds by (auto intro: policy_resource_kinds_at)
  qed
  have acts: "is_policy_action (rule_action r)" if "r \<in> set default_policy_rules" for r
  proof -
    have "rule_action r \<in> set (map action_at rule_action_indexes)"
      using that rule_actions_at by (metis image_eqI list.set_map)
    then show ?thesis using indexes_in_range(1) action_at_is_action by (auto simp: list_all_iff)
  qed
  have "validate_loop {} default_policy_rules = []"
    using default_rules_wellformed kinds acts
    by (intro validate_loop_valid default_rule_ids_distinct) (auto simp: list_all_iff)
  then show ?thesis by (simp add: new_engine_def validate_policy_set_def)
qed

section \<open>Witnesses\<close>

lemma git_remote_rules_for:
  "rules_for ''git.remote_operation'' = [git_remote_rules ! 0, git_remote_rules ! 1, git_remote_rules ! 2]"
  by (simp add: rules_for_def default_rule_defs cong: rule_literal_cong)

lemma dashboard_rules_for: "rules_for ''dashboard.read'' = [dashboard_auth_rules ! 0]"
  by (simp add: rules_for_def default_rule_defs cong: rule_literal_cong)

definition remote_git_environment :: jsobj where
  "remote_git_environment =
     [(''remoteGitEnabled'', JBool True), (''remoteOperationAllowed'', JBool True),
      (''repoAllowlisted'', JBool True), (''credentialsConfigured'', JBool True)]"

lemma remote_git_allowed:
  "dec_allowed (evaluate default_policy_rules sample_draws
     (sample_request [] ''git.remote_operation'' ''git_operation''
        (Some ''github'') None remote_git_environment []))"
  by (simp add: default_allowed_iff git_remote_rules_for
      git_remote_rules_def rule_applies_def remote_git_environment_def
      map_matches_def context_or_metadata_def cong: rule_literal_cong)

theorem default_rules_forbid_witness:
  "\<not> dec_allowed (evaluate default_policy_rules sample_draws
     (sample_request [''system''] ''git.merge'' ''git_operation'' None None [] []))"
  using default_rules_forbid[of "sample_request [''system''] ''git.merge'' ''git_operation'' None None [] []" sample_draws]
  by (simp add: forbidden_actions_def)

theorem default_allowed_environment_witness:
  "obj_get remote_git_environment ''repoAllowlisted'' = JBool True"
  using default_allowed_environment[OF remote_git_allowed,
      of remote_git_environment "''repoAllowlisted''" "JBool True"]
  by (simp add: remote_git_environment_def environment_gates_def)

lemma dashboard_allowed:
  "dec_allowed (evaluate default_policy_rules sample_draws
     (sample_request [''viewer''] ''dashboard.read'' ''dashboard'' None None [] []))"
  by (simp add: default_allowed_iff dashboard_rules_for
      dashboard_auth_rules_def rule_applies_def condition_matches_def
      no_conditions_def map_matches_def cong: rule_literal_cong)

theorem default_allowed_role_witness:
  "\<exists>r \<in> set [''viewer'']. r \<in> set (the (map_of role_gates ''dashboard.read''))"
  using default_allowed_role[OF dashboard_allowed, of "the (map_of role_gates ''dashboard.read'')"]
  by (simp add: role_gates_def)

lemma lower_push: "to_lower ''Git Push origin'' = ''git push origin''"
  by code_simp

theorem runner_blocked_commands_denied_witness:
  "\<not> dec_allowed (evaluate default_policy_rules sample_draws
     (sample_request [] ''runner.command.execute'' ''command'' None (Some ''Git Push origin'')
       [(''localCommandExecutionEnabled'', JBool True), (''harnessAllowed'', JBool True),
        (''workspaceSafe'', JBool True)] []))"
  by (rule runner_blocked_commands_denied[where w = "''git push''"])
     (simp_all add: blocked_command_words_def network_command_words_def
        git_command_words_def command_text_def str_includes_def lower_push sublist_code)

lemma invoke_allowed:
  "dec_allowed (evaluate default_policy_rules sample_draws
     (sample_request [] ''local_agent.invoke'' ''local_agent'' None None
       [(''localAgentConnected'', JBool True), (''mockTransport'', JBool True)]
       [(''consentLevel'', JStr ''read_only''), (''consentApproved'', JBool True)]))"
  by (simp add: default_allowed_iff invoke_rules
      local_agent_invoke_rules_def rule_applies_def
      map_matches_def context_or_metadata_def rule_cmp_def cmp_or_def
      num_cmp_def cong: rule_literal_cong)

theorem local_agent_invoke_gated_witness:
  "obj_get [(''localAgentConnected'', JBool True), (''mockTransport'', JBool True)] ''mockTransport'' =
     JBool True"
  using local_agent_invoke_gated[OF _ invoke_allowed] by simp

end
