(* ===== verification/PolicyService.thy ===== *)
theory PolicyService
  imports PolicyEngine
begin

text \<open>
  The audited policy service of \<open>packages/policy/src/audit.ts\<close>: \<open>PolicyService\<close> over any engine
  that keeps the contract \<open>policy_engine\<close>, and its in-memory audit repository.  Decisions are
  sanitised before they are returned, and each evaluation appends one audit entry when auditing
  is enabled.
\<close>

section \<open>State\<close>

record policy_audit_entry =
  pae_id :: string
  pae_decision_id :: string
  pae_action :: string
  pae_resource_kind :: string
  pae_resource_id :: "string option"
  pae_actor_id :: "string option"
  pae_allowed :: bool
  pae_decision :: decision_value
  pae_reason :: string
  pae_matched_rule_ids :: "string list"
  pae_task_id :: "string option"
  pae_task_run_id :: "string option"
  pae_created_at :: time

record policy_service =
  svc_entries :: "policy_audit_entry list"
  svc_audit_enabled :: bool

type_synonym engine = "draws \<Rightarrow> policy_request \<Rightarrow> policy_decision"

section \<open>Sanitising a decision\<close>

definition policy_sensitive_words :: "string list" where
  "policy_sensitive_words = [''token'', ''secret'', ''key'', ''prompt'']"

definition sanitize_record :: "jsobj \<Rightarrow> jsobj" where
  "sanitize_record = redact_keys policy_sensitive_words"

definition sanitize_decision :: "policy_decision \<Rightarrow> policy_decision" where
  "sanitize_decision d = d\<lparr>
     dec_subject := (dec_subject d)\<lparr>subj_metadata :=
       map_option sanitize_record (subj_metadata (dec_subject d))\<rparr>,
     dec_resource := (dec_resource d)\<lparr>res_metadata := sanitize_record (res_metadata (dec_resource d))\<rparr>,
     dec_context := (dec_context d)\<lparr>ctx_metadata := sanitize_record (ctx_metadata (dec_context d)),
       ctx_environment := sanitize_record (ctx_environment (dec_context d))\<rparr>\<rparr>"

section \<open>The audit repository\<close>

definition append_audit_entry ::
  "draws \<Rightarrow> (string \<Rightarrow> time \<Rightarrow> policy_audit_entry) \<Rightarrow> policy_service \<Rightarrow> policy_service" where
  \<comment> \<open>the caller of the code gives neither an id nor a time\<close>
  "append_audit_entry s mk svc =
     svc\<lparr>svc_entries := svc_entries svc @ [mk (fresh_id ''policyaudit'' 0 s) (clock 0 s)]\<rparr>"

record policy_audit_filter =
  paf_action :: "string option"
  paf_actor_id :: "string option"
  paf_task_id :: "string option"
  paf_task_run_id :: "string option"

definition entry_matches :: "policy_audit_filter \<Rightarrow> policy_audit_entry \<Rightarrow> bool" where
  "entry_matches f e \<longleftrightarrow>
     (paf_action f = None \<or> Some (pae_action e) = paf_action f) \<and>
     (paf_actor_id f = None \<or> pae_actor_id e = paf_actor_id f) \<and>
     (paf_task_id f = None \<or> pae_task_id e = paf_task_id f) \<and>
     (paf_task_run_id f = None \<or> pae_task_run_id e = paf_task_run_id f)"

definition entry_cmp :: "policy_audit_entry \<Rightarrow> policy_audit_entry \<Rightarrow> int" where
  "entry_cmp = cmp_or (\<lambda>l r. num_cmp (pae_created_at l) (pae_created_at r))
                      (\<lambda>l r. locale_compare (pae_id l) (pae_id r))"

definition list_audit_entries :: "policy_audit_filter \<Rightarrow> policy_service \<Rightarrow> policy_audit_entry list" where
  "list_audit_entries f svc = sort_by entry_cmp (filter (entry_matches f) (svc_entries svc))"

section \<open>The service\<close>

definition append_decision_audit :: "draws \<Rightarrow> policy_decision \<Rightarrow> policy_service \<Rightarrow> policy_service" where
  "append_decision_audit s d =
     append_audit_entry s (\<lambda>i t.
       \<lparr>pae_id = i, pae_decision_id = dec_id d, pae_action = dec_action d,
        pae_resource_kind = res_kind (dec_resource d), pae_resource_id = res_id (dec_resource d),
        pae_actor_id = Some (subj_actor_id (dec_subject d)), pae_allowed = dec_allowed d,
        pae_decision = dec_value d, pae_reason = dec_reason d,
        pae_matched_rule_ids = dec_matched_rule_ids d, pae_task_id = ctx_task_id (dec_context d),
        pae_task_run_id = ctx_task_run_id (dec_context d), pae_created_at = t\<rparr>)"

definition svc_evaluate ::
  "engine \<Rightarrow> draws \<Rightarrow> policy_request \<Rightarrow> policy_service \<Rightarrow> policy_decision \<times> policy_service" where
  "svc_evaluate decide s req svc =
     (let decision = sanitize_decision (decide (sub 0 s) req)
      in (decision,
          if svc_audit_enabled svc then append_decision_audit (sub 1 s) decision svc else svc))"

fun svc_evaluate_many ::
  "engine \<Rightarrow> draws \<Rightarrow> nat \<Rightarrow> policy_request list \<Rightarrow> policy_service \<Rightarrow> policy_decision list \<times> policy_service" where
  \<comment> \<open>the i-th request draws from call site i\<close>
  "svc_evaluate_many decide s i [] svc = ([], svc)"
| "svc_evaluate_many decide s i (r # rs) svc =
     (let (d, svc1) = svc_evaluate decide (sub i s) r svc;
          (ds, svc2) = svc_evaluate_many decide s (Suc i) rs svc1
      in (d # ds, svc2))"

definition svc_config :: "policy_rule list \<Rightarrow> policy_service \<Rightarrow> string \<times> nat \<times> bool" where
  "svc_config rules svc =
     (''static'', length (filter rule_enabled (list_rules rules)), svc_audit_enabled svc)"

definition new_policy_service :: "bool option \<Rightarrow> policy_service" where
  "new_policy_service enabled = \<lparr>svc_entries = [], svc_audit_enabled = opt_default enabled True\<rparr>"

section \<open>What sanitising keeps\<close>

lemma sanitize_decision_keeps [simp]:
  "dec_id (sanitize_decision d) = dec_id d" "dec_allowed (sanitize_decision d) = dec_allowed d"
  "dec_value (sanitize_decision d) = dec_value d" "dec_action (sanitize_decision d) = dec_action d"
  "dec_reason (sanitize_decision d) = dec_reason d"
  "dec_matched_rule_ids (sanitize_decision d) = dec_matched_rule_ids d"
  "subj_actor_id (dec_subject (sanitize_decision d)) = subj_actor_id (dec_subject d)"
  "subj_roles (dec_subject (sanitize_decision d)) = subj_roles (dec_subject d)"
  "res_kind (dec_resource (sanitize_decision d)) = res_kind (dec_resource d)"
  "res_id (dec_resource (sanitize_decision d)) = res_id (dec_resource d)"
  "ctx_task_id (dec_context (sanitize_decision d)) = ctx_task_id (dec_context d)"
  by (simp_all add: sanitize_decision_def)

text \<open>The objects of a decision that may hold a value under a sensitive key.\<close>

definition decision_objects :: "policy_decision \<Rightarrow> jsobj list" where
  "decision_objects d =
     opt_default (map_option (\<lambda>m. [m]) (subj_metadata (dec_subject d))) [] @
     [res_metadata (dec_resource d), ctx_metadata (dec_context d), ctx_environment (dec_context d)]"

definition no_sensitive_value :: "policy_decision \<Rightarrow> bool" where
  "no_sensitive_value d \<longleftrightarrow>
     (\<forall>o' \<in> set (decision_objects d). \<forall>(k, v) \<in> set o'.
        matches_any_word policy_sensitive_words k \<longrightarrow> v = JStr ''[redacted]'')"

lemma sanitize_decision_no_sensitive: "no_sensitive_value (sanitize_decision d)"
  unfolding no_sensitive_value_def decision_objects_def sanitize_decision_def sanitize_record_def
  by (cases "subj_metadata (dec_subject d)") (auto dest: redact_keys_sensitive)

lemma sanitize_decision_idem: "sanitize_decision (sanitize_decision d) = sanitize_decision d"
  by (simp add: sanitize_decision_def sanitize_record_def option.map_comp comp_def)

section \<open>The service over any engine\<close>

interpretation entry_cmp: js_comparator entry_cmp
  unfolding entry_cmp_def
  by (rule js_comparator_or; rule js_comparator_key;
      rule num_cmp.js_comparator_axioms locale_compare.js_comparator_axioms)

lemma append_decision_audit_entries:
  "svc_entries (append_decision_audit s d svc) =
     svc_entries svc @ [last (svc_entries (append_decision_audit s d svc))]"
  "svc_audit_enabled (append_decision_audit s d svc) = svc_audit_enabled svc"
  by (simp_all add: append_decision_audit_def append_audit_entry_def)

text \<open>An audit entry tells of a decision what the decision says.\<close>

definition entry_of_decision :: "policy_decision \<Rightarrow> policy_audit_entry \<Rightarrow> bool" where
  "entry_of_decision d e \<longleftrightarrow>
     pae_decision_id e = dec_id d \<and> pae_action e = dec_action d \<and> pae_allowed e = dec_allowed d \<and>
     pae_decision e = dec_value d \<and> pae_matched_rule_ids e = dec_matched_rule_ids d \<and>
     pae_actor_id e = Some (subj_actor_id (dec_subject d)) \<and>
     pae_resource_kind e = res_kind (dec_resource d) \<and> pae_resource_id e = res_id (dec_resource d)"

lemma append_decision_audit_last:
  "entry_of_decision d (last (svc_entries (append_decision_audit s d svc)))"
  by (simp add: append_decision_audit_def append_audit_entry_def entry_of_decision_def)

context policy_engine
begin

lemma svc_decision:
  "fst (svc_evaluate decide s req svc) = sanitize_decision (decide (sub 0 s) req)"
  by (simp add: svc_evaluate_def Let_def)

lemma svc_state:
  "snd (svc_evaluate decide s req svc) =
     (if svc_audit_enabled svc
      then append_decision_audit (sub 1 s) (sanitize_decision (decide (sub 0 s) req)) svc else svc)"
  by (simp add: svc_evaluate_def Let_def)

lemma svc_enabled [simp]:
  "svc_audit_enabled (snd (svc_evaluate decide s req svc)) = svc_audit_enabled svc"
  by (simp add: svc_state append_decision_audit_entries)

lemma svc_audit:
  assumes "svc_evaluate decide s req svc = (d, svc')" and "svc_audit_enabled svc"
  shows "\<exists>e. svc_entries svc' = svc_entries svc @ [e] \<and> entry_of_decision d e"
proof -
  have "d = sanitize_decision (decide (sub 0 s) req)" "svc' = append_decision_audit (sub 1 s) d svc"
    using assms by (auto simp: svc_evaluate_def Let_def)
  then show ?thesis
    using append_decision_audit_entries(1)[of "sub 1 s" d svc] append_decision_audit_last[of d "sub 1 s" svc]
    by metis
qed

lemma svc_many_audit:
  assumes "svc_evaluate_many decide s i reqs svc = (ds, svc')" and "svc_audit_enabled svc"
  shows "\<exists>es. svc_entries svc' = svc_entries svc @ es \<and> list_all2 entry_of_decision ds es \<and>
    map dec_action ds = map req_action reqs"
  using assms
proof (induction reqs arbitrary: i svc ds svc')
  case (Cons r reqs)
  obtain d svc1 where one: "svc_evaluate decide (sub i s) r svc = (d, svc1)" by fastforce
  obtain ds2 svc2 where rest: "svc_evaluate_many decide s (Suc i) reqs svc1 = (ds2, svc2)" by fastforce
  have out: "ds = d # ds2" "svc' = svc2" using Cons.prems(1) one rest by auto
  have en: "svc_audit_enabled svc1" using svc_enabled[of "sub i s" r svc] one Cons.prems(2) by simp
  obtain e where e: "svc_entries svc1 = svc_entries svc @ [e]" "entry_of_decision d e"
    using svc_audit[OF one Cons.prems(2)] by blast
  obtain es where es: "svc_entries svc2 = svc_entries svc1 @ es" "list_all2 entry_of_decision ds2 es"
    "map dec_action ds2 = map req_action reqs"
    using Cons.IH[OF rest en] by blast
  have "dec_action d = req_action r"
    using svc_decision[of "sub i s" r svc] one by (simp add: decide_action)
  then show ?case using e es out by (intro exI[of _ "e # es"]) simp
qed simp

text \<open>The service is itself an engine: its verdicts are those of the engine inside.\<close>

lemma service_is_engine: "policy_engine (\<lambda>s req. fst (svc_evaluate decide s req svc))"
proof
  fix s s' req
  show "dec_value (fst (svc_evaluate decide s req svc)) = dec_value (fst (svc_evaluate decide s' req svc))"
    unfolding svc_decision sanitize_decision_keeps by (rule decide_stable)
qed (simp_all only: svc_decision sanitize_decision_keeps allowed_iff decide_action decide_actor
    decide_resource)

end

interpretation service: policy_engine "\<lambda>s req. fst (svc_evaluate (evaluate rules) s req svc)" for rules svc
  by (rule static.service_is_engine)

section \<open>Properties\<close>

text \<open>
  C3: The audited service gives the verdict of its static engine, and with auditing enabled it
  appends exactly one audit entry, which names the action, actor, resource, verdict and matched
  rules of the decision it returns.
\<close>

theorem service_evaluate_audited:
  assumes "svc_evaluate (evaluate rules) s req svc = (d, svc')" and "svc_audit_enabled svc"
  shows "dec_allowed d = dec_allowed (evaluate rules (sub 0 s) req) \<and>
    (\<exists>e. svc_entries svc' = svc_entries svc @ [e] \<and> entry_of_decision d e)"
  using static.svc_audit[OF assms] static.svc_decision[of rules s req svc] assms(1) by auto

text \<open>
  No decision the service returns holds a value under a key that names a token, a secret, a
  key or a prompt, in its subject, resource or context, unless it is the redaction mark.
\<close>

theorem service_decisions_sanitized:
  "no_sensitive_value (fst (svc_evaluate (evaluate rules) s req svc))"
  by (simp only: static.svc_decision sanitize_decision_no_sensitive)

text \<open>
  Evaluating a list of requests returns one decision per request in order and appends their
  audit entries in the same order, never dropping an earlier entry.
\<close>

theorem service_evaluate_many_audited:
  assumes "svc_evaluate_many (evaluate rules) s i reqs svc = (ds, svc')" and "svc_audit_enabled svc"
  shows "\<exists>es. svc_entries svc' = svc_entries svc @ es \<and> list_all2 entry_of_decision ds es \<and>
    map dec_action ds = map req_action reqs"
  by (rule static.svc_many_audit[OF assms])

theorem service_evaluate_audited_witness:
  "\<exists>e. svc_entries (snd (svc_evaluate (evaluate []) sample_draws
         (sample_request [] ''task.run'' ''task'' None None [] []) (new_policy_service None))) = [e] \<and>
       \<not> pae_allowed e"
  using service_evaluate_audited[of "[]" sample_draws "sample_request [] ''task.run'' ''task'' None None [] []"
      "new_policy_service None", OF prod.collapse[symmetric]]
  by (auto simp: new_policy_service_def entry_of_decision_def svc_evaluate_def Let_def evaluate_winner
      winner_def candidates_def)

theorem service_evaluate_many_audited_witness:
  "\<exists>es. svc_entries (snd (svc_evaluate_many (evaluate []) sample_draws 0
         [sample_request [] ''task.run'' ''task'' None None [] [],
          sample_request [] ''task.create'' ''task'' None None [] []] (new_policy_service None))) = es \<and>
       length es = 2"
  using service_evaluate_many_audited[of "[]" sample_draws 0
      "[sample_request [] ''task.run'' ''task'' None None [] [],
        sample_request [] ''task.create'' ''task'' None None [] []]"
      "new_policy_service None", OF prod.collapse[symmetric]]
  by (auto simp: new_policy_service_def dest!: list_all2_lengthD map_eq_imp_length_eq)

end
