(* ===== verification/TaskStatus.thy ===== *)
theory TaskStatus
  imports JsPrelude
begin

text \<open>
  The task state machine of \<open>packages/core/src/domain/status.ts\<close>: the statuses and the table
  of allowed transitions, the guard the store calls before it changes a status, and what
  every history of a task that respects the guard looks like.
\<close>

section \<open>Statuses and transitions\<close>

datatype task_status =
    Draft | Planned | PolicyBlocked | Queued | BranchCreated | Running | Testing | PrDraftReady
  | PrOpened | CiPending | CiFailed | ConflictDetected | ConflictFixing | ReviewRequired
  | MergeReady | Merged | Completed | Failed | Cancelled

fun status_name :: "task_status \<Rightarrow> string" where
  "status_name Draft = ''draft''"
| "status_name Planned = ''planned''"
| "status_name PolicyBlocked = ''policy_blocked''"
| "status_name Queued = ''queued''"
| "status_name BranchCreated = ''branch_created''"
| "status_name Running = ''running''"
| "status_name Testing = ''testing''"
| "status_name PrDraftReady = ''pr_draft_ready''"
| "status_name PrOpened = ''pr_opened''"
| "status_name CiPending = ''ci_pending''"
| "status_name CiFailed = ''ci_failed''"
| "status_name ConflictDetected = ''conflict_detected''"
| "status_name ConflictFixing = ''conflict_fixing''"
| "status_name ReviewRequired = ''review_required''"
| "status_name MergeReady = ''merge_ready''"
| "status_name Merged = ''merged''"
| "status_name Completed = ''completed''"
| "status_name Failed = ''failed''"
| "status_name Cancelled = ''cancelled''"

definition task_statuses :: "task_status list" where
  "task_statuses =
     [Draft, Planned, PolicyBlocked, Queued, BranchCreated, Running, Testing, PrDraftReady,
      PrOpened, CiPending, CiFailed, ConflictDetected, ConflictFixing, ReviewRequired,
      MergeReady, Merged, Completed, Failed, Cancelled]"

definition is_task_status :: "string \<Rightarrow> bool" where
  "is_task_status s \<longleftrightarrow> s \<in> set (map status_name task_statuses)"

definition parse_task_status :: "string \<Rightarrow> task_status result" where
  "parse_task_status s =
     (case List.find (\<lambda>t. status_name t = s) task_statuses of
        None \<Rightarrow> Inl (Error ''Invalid task status'') | Some t \<Rightarrow> Inr t)"

fun task_transitions :: "task_status \<Rightarrow> task_status list" where
  "task_transitions Draft = [Planned, Failed, Cancelled]"
| "task_transitions Planned = [PolicyBlocked, Queued, Failed, Cancelled]"
| "task_transitions PolicyBlocked = [Cancelled]"
| "task_transitions Queued = [PolicyBlocked, BranchCreated, Running, Failed, Cancelled]"
| "task_transitions BranchCreated = [Running, Failed, Cancelled]"
| "task_transitions Running = [Testing, Failed, Cancelled]"
| "task_transitions Testing =
     [PrDraftReady, ConflictDetected, ReviewRequired, Failed, CiFailed, Cancelled]"
| "task_transitions PrDraftReady =
     [PrOpened, ReviewRequired, MergeReady, Completed, Failed, Cancelled]"
| "task_transitions PrOpened = [CiPending, ConflictDetected, ReviewRequired, Failed, Cancelled]"
| "task_transitions CiPending = [CiFailed, MergeReady, Failed, Cancelled]"
| "task_transitions CiFailed = [Failed, ReviewRequired, Cancelled]"
| "task_transitions ConflictDetected = [ConflictFixing, ReviewRequired, Failed, Cancelled]"
| "task_transitions ConflictFixing = [ReviewRequired, Testing, Failed, Cancelled]"
| "task_transitions ReviewRequired = [MergeReady, Failed, Cancelled]"
| "task_transitions MergeReady = [Merged, Failed, Cancelled]"
| "task_transitions Merged = [Completed]"
| "task_transitions Completed = [Queued]"
| "task_transitions Failed = [Queued]"
| "task_transitions Cancelled = []"

definition can_transition :: "task_status \<Rightarrow> task_status \<Rightarrow> bool" where
  "can_transition s t \<longleftrightarrow> s = t \<or> t \<in> set (task_transitions s)"

definition assert_transition :: "task_status \<Rightarrow> task_status \<Rightarrow> unit result" where
  "assert_transition s t =
     (if \<not> can_transition s t
      then Inl (Error (''Invalid task status transition: '' @ status_name s @ '' -> '' @ status_name t))
      else Inr ())"

lemma assert_transition_ok [simp]: "assert_transition s t = Inr () \<longleftrightarrow> can_transition s t"
  by (simp add: assert_transition_def)

section \<open>Histories\<close>

text \<open>The step relation of the guard, and the histories a task may have had.\<close>

inductive task_step :: "task_status \<Rightarrow> task_status \<Rightarrow> bool" where
  "assert_transition s t = Inr () \<Longrightarrow> task_step s t"

inductive_simps task_step_iff [simp]: "task_step s t"

inductive history :: "task_status list \<Rightarrow> bool" where
  start: "history [Draft]"
| step: "history (s # h) \<Longrightarrow> task_step s t \<Longrightarrow> history (t # s # h)"

inductive_cases history_Nil [elim!]: "history []"

code_pred task_step .

text \<open>A history is written with the latest status first.\<close>

lemma history_Cons_hd: "history (t # s # h) \<Longrightarrow> can_transition s t \<and> history (s # h)"
  by (erule history.cases) auto

lemma history_ends_in_draft: "history h \<Longrightarrow> last h = Draft"
  by (induction rule: history.induct) auto

lemma history_suffix: "history (xs @ s # h) \<Longrightarrow> history (s # h)"
proof (induction xs)
  case (Cons x xs)
  then show ?case by (cases xs) (auto dest: history_Cons_hd)
qed simp

text \<open>A set of statuses the guard does not leave keeps a history in it.\<close>

definition closed_under :: "task_status set \<Rightarrow> task_status set \<Rightarrow> bool" where
  "closed_under gate S \<longleftrightarrow> (\<forall>s \<in> S. \<forall>t. can_transition s t \<longrightarrow> t \<in> S \<or> t \<in> gate)"

lemma history_passes_gate:
  assumes "history h" and "closed_under gate S" and "Draft \<in> S" and "hd h \<notin> S"
  shows "\<exists>g \<in> gate. g \<in> set h"
proof (rule ccontr)
  assume no: "\<not> ?thesis"
  from assms(1) no have "set h \<subseteq> S"
  proof (induction rule: history.induct)
    case (step s h t)
    then have "set (s # h) \<subseteq> S" by auto
    moreover have "t \<in> S"
      using step assms(2) \<open>set (s # h) \<subseteq> S\<close> by (auto simp: closed_under_def)
    ultimately show ?case by simp
  qed (use assms(3) in simp)
  moreover have "h \<noteq> []" using assms(1) by (cases h) auto
  ultimately show False using assms(4) by (cases h) auto
qed

lemma before_testing:
  "closed_under {Testing}
     {Draft, Planned, PolicyBlocked, Queued, BranchCreated, Running, Failed, Cancelled}"
  by (auto simp: closed_under_def can_transition_def)

lemma before_merge_ready:
  "closed_under {MergeReady} (- {MergeReady, Merged})"
  unfolding closed_under_def
proof (intro ballI allI impI)
  fix s t assume "s \<in> - {MergeReady, Merged}" "can_transition s t"
  then show "t \<in> - {MergeReady, Merged} \<or> t \<in> {MergeReady}"
    by (cases s) (auto simp: can_transition_def)
qed

lemma before_policy:
  "closed_under {Queued} {Draft, Planned, PolicyBlocked, Cancelled, Failed}"
  by (auto simp: closed_under_def can_transition_def)

lemma history_of_merged:
  assumes "history (Merged # h)"
  shows "Testing \<in> set h \<and> MergeReady \<in> set h \<and> Queued \<in> set h"
proof -
  have "\<exists>g \<in> {Testing}. g \<in> set (Merged # h)"
    by (rule history_passes_gate[OF assms before_testing]) auto
  moreover have "\<exists>g \<in> {MergeReady}. g \<in> set (Merged # h)"
    by (rule history_passes_gate[OF assms before_merge_ready]) auto
  moreover have "\<exists>g \<in> {Queued}. g \<in> set (Merged # h)"
    by (rule history_passes_gate[OF assms before_policy]) auto
  ultimately show ?thesis by auto
qed

lemma status_name_inj: "status_name s = status_name t \<longleftrightarrow> s = t"
  by (cases s; cases t) simp_all

section \<open>Properties\<close>

text \<open>
  C4: A task is merged only after it has been tested and then found merge-ready: every history
  the transition guard allows that ends in merged contains both statuses, and contains queued.
\<close>

theorem merged_only_after_testing:
  assumes "history (Merged # h)"
  shows "Testing \<in> set h \<and> MergeReady \<in> set h \<and> Queued \<in> set h"
  using assms by (rule history_of_merged)

text \<open>
  A cancelled task never changes its status again, and a task blocked by policy can only
  be cancelled: no history leads out of a policy block to a run.
\<close>

theorem blocked_and_cancelled_are_final:
  assumes "history (t # s # h)"
  shows "(s = Cancelled \<longrightarrow> t = Cancelled) \<and> (s = PolicyBlocked \<longrightarrow> t \<in> {PolicyBlocked, Cancelled})"
  using history_Cons_hd[OF assms] by (auto simp: can_transition_def)

text \<open>Whatever has happened to a task, there is a sequence of allowed changes that cancels it.\<close>

theorem task_can_be_cancelled: "task_step\<^sup>*\<^sup>* s Cancelled"
proof -
  have direct: "task_step\<^sup>*\<^sup>* t Cancelled" if "Cancelled \<in> set (task_transitions t)" for t
    using that by (intro r_into_rtranclp) (simp add: can_transition_def)
  have again: "task_step\<^sup>*\<^sup>* t Cancelled" if "Queued \<in> set (task_transitions t)" for t
    using that by (intro converse_rtranclp_into_rtranclp[OF _ direct[of Queued]]) (simp_all add: can_transition_def)
  have merged: "task_step\<^sup>*\<^sup>* Merged Cancelled"
    by (intro converse_rtranclp_into_rtranclp[OF _ again[of Completed]]) (simp_all add: can_transition_def)
  show ?thesis
    by (cases s) (simp_all add: direct again merged)
qed

text \<open>
  Parsing a status name and printing a status are inverse to each other, and parsing fails
  exactly on the strings that are no status.
\<close>

theorem task_status_roundtrip:
  "parse_task_status (status_name t) = Inr t \<and>
   (parse_task_status s = Inr t \<longleftrightarrow> s = status_name t) \<and>
   ((\<exists>e. parse_task_status s = Inl e) \<longleftrightarrow> \<not> is_task_status s)"
proof -
  have all: "set task_statuses = UNIV"
    by (auto simp: task_statuses_def intro: task_status.exhaust)
  have parse: "parse_task_status x = Inr u \<longleftrightarrow> x = status_name u" for x u
  proof (cases "List.find (\<lambda>t. status_name t = x) task_statuses")
    case None
    then have "status_name u \<noteq> x" using all by (auto simp: find_None_iff)
    then show ?thesis using None by (auto simp: parse_task_status_def)
  next
    case (Some v)
    then have "status_name v = x" by (auto simp: find_Some_iff)
    then show ?thesis using Some by (auto simp: parse_task_status_def status_name_inj)
  qed
  have "(\<exists>e. parse_task_status s = Inl e) \<longleftrightarrow> (\<forall>u. parse_task_status s \<noteq> Inr u)"
    by (cases "parse_task_status s") auto
  then show ?thesis using parse all by (auto simp: is_task_status_def)
qed

lemma happy_path:
  "history [Merged, MergeReady, PrDraftReady, Testing, Running, BranchCreated, Queued, Planned, Draft]"
  by (intro history.intros) (simp_all add: can_transition_def)

theorem merged_only_after_testing_witness:
  "Testing \<in> set [MergeReady, PrDraftReady, Testing, Running, BranchCreated, Queued, Planned, Draft]"
  using merged_only_after_testing[OF happy_path] by blast

lemma cancel_path: "history [Cancelled, PolicyBlocked, Planned, Draft]"
  by (intro history.intros) (simp_all add: can_transition_def)

theorem blocked_and_cancelled_are_final_witness: "Cancelled \<in> {PolicyBlocked, Cancelled}"
  using blocked_and_cancelled_are_final[OF cancel_path] by blast

end
