(* ===== verification/TaskModel.thy ===== *)
theory TaskModel
  imports TaskStatus
begin

text \<open>
  Tasks and their input: the entities of \<open>packages/core/src/domain/models.ts\<close> the store keeps for
  a task, the schemas of \<open>packages/core/src/schemas\<close> that read a request body into the input of
  a new task or repository, and \<open>slugify\<close> of \<open>ids.ts\<close>.
\<close>

section \<open>Entities\<close>

record task =
  t_id :: string
  t_title :: string
  t_description :: "string option"
  t_status :: task_status
  t_requester :: string
  t_repo_id :: string
  t_base_branch :: string
  t_branch_name :: "string option"
  t_agent :: "string option"
  t_model :: "string option"
  t_skill_ids :: "string list"
  t_harness_id :: "string option"
  t_instruction_set_id :: "string option"
  t_budget :: "num option"
  t_conflict_risk :: "num option"
  t_created_at :: time
  t_updated_at :: time

record repo =
  r_id :: string
  r_provider :: string
  r_owner :: string
  r_name :: string
  r_default_branch :: string
  r_remote_url :: "string option"
  r_active :: bool
  r_created_at :: time
  r_updated_at :: time

section \<open>Fields of a request body\<close>

definition as_object :: "js \<Rightarrow> string \<Rightarrow> jsobj result" where
  "as_object v label =
     (case v of JObj o' \<Rightarrow> Inr o' | _ \<Rightarrow> Inl (ValidationError [label @ '' must be an object'']))"

definition string_field :: "jsobj \<Rightarrow> string \<Rightarrow> bool \<Rightarrow> string option result" where
  "string_field o' key optional =
     (let v = obj_get o' key
      in if nullish v
         then (if optional then Inr None else Inl (ValidationError [key @ '' is required'']))
         else (case v of
                 JStr s \<Rightarrow> if trim s = [] then Inl (ValidationError [key @ '' must be a non-empty string''])
                          else Inr (Some s)
               | _ \<Rightarrow> Inl (ValidationError [key @ '' must be a non-empty string''])))"

definition number_field :: "jsobj \<Rightarrow> string \<Rightarrow> bool \<Rightarrow> num option \<Rightarrow> num option result" where
  \<comment> \<open>the value \<open>NaN\<close>, which the code rejects too, is not in the model of a number\<close>
  "number_field o' key optional minimum =
     (let v = obj_get o' key
      in if nullish v
         then (if optional then Inr None else Inl (ValidationError [key @ '' is required'']))
         else (case v of
                 JNum n \<Rightarrow> (case minimum of
                     None \<Rightarrow> Inr (Some n)
                   | Some m \<Rightarrow> if n < m
                       then Inl (ValidationError [key @ '' must be at least '' @ num_to_string m])
                       else Inr (Some n))
               | _ \<Rightarrow> Inl (ValidationError [key @ '' must be a number''])))"

fun strings_of :: "js list \<Rightarrow> string list option" where
  "strings_of [] = Some []"
| "strings_of (JStr s # vs) = map_option (Cons s) (strings_of vs)"
| "strings_of (_ # vs) = None"

definition string_array_field :: "jsobj \<Rightarrow> string \<Rightarrow> bool \<Rightarrow> string list result" where
  "string_array_field o' key optional =
     (let v = obj_get o' key;
          bad = Inl (ValidationError [key @ '' must be an array of strings''])
      in if nullish v
         then (if optional then Inr [] else Inl (ValidationError [key @ '' is required'']))
         else (case v of
                 JArr vs \<Rightarrow> (case strings_of vs of None \<Rightarrow> bad | Some ss \<Rightarrow> Inr ss)
               | _ \<Rightarrow> bad))"

text \<open>Sequencing of fallible steps.\<close>

definition bind_result :: "'a result \<Rightarrow> ('a \<Rightarrow> 'b result) \<Rightarrow> 'b result" where
  "bind_result m f = (case m of Inl e \<Rightarrow> Inl e | Inr x \<Rightarrow> f x)"

lemma bind_result_simps [simp]:
  "bind_result (Inl e) f = Inl e" "bind_result (Inr x) f = f x"
  by (simp_all add: bind_result_def)

lemma bind_result_Inr: "bind_result m f = Inr y \<longleftrightarrow> (\<exists>x. m = Inr x \<and> f x = Inr y)"
  by (cases m) simp_all

section \<open>The schemas\<close>

record create_task_input =
  ct_title :: string
  ct_description :: "string option"
  ct_repo_id :: string
  ct_base_branch :: string
  ct_requester :: "string option"
  ct_agent :: "string option"
  ct_model :: "string option"
  ct_skill_ids :: "string list option"
  ct_harness_id :: "string option"
  ct_budget :: "num option"

record create_repo_input =
  ci_provider :: "string option"
  ci_owner :: string
  ci_name :: string
  ci_default_branch :: "string option"
  ci_remote_url :: "string option"

definition opt_field :: "jsobj \<Rightarrow> string \<Rightarrow> string option result" where
  "opt_field o' key = string_field o' key True"

definition req_field :: "jsobj \<Rightarrow> string \<Rightarrow> string result" where
  "req_field o' key = bind_result (string_field o' key False) (\<lambda>v. Inr (opt_default v []))"

definition create_task_schema :: "js \<Rightarrow> create_task_input result" where
  "create_task_schema input =
     bind_result (as_object input ''CreateTaskInput'') (\<lambda>o'.
     bind_result (opt_field o' ''preferredAgent'') (\<lambda>preferred.
     bind_result (opt_field o' ''selectedAgent'') (\<lambda>selected.
     bind_result (opt_field o' ''targetBranch'') (\<lambda>target.
     bind_result (opt_field o' ''baseBranch'') (\<lambda>base.
     bind_result (bind_result (opt_field o' ''requesterUserId'')
         (\<lambda>r. case r of Some x \<Rightarrow> Inr (Some x) | None \<Rightarrow> opt_field o' ''requestedBy'')) (\<lambda>requester.
     bind_result (req_field o' ''title'') (\<lambda>title.
     bind_result (opt_field o' ''description'') (\<lambda>description.
     bind_result (req_field o' ''repoId'') (\<lambda>repo_id.
     bind_result (opt_field o' ''selectedModel'') (\<lambda>model.
     bind_result (string_array_field o' ''selectedSkillIds'' True) (\<lambda>skills.
     bind_result (opt_field o' ''selectedHarnessId'') (\<lambda>harness.
     bind_result (number_field o' ''budgetLimitUsd'' True (Some 0)) (\<lambda>budget.
       let agent = opt_or selected preferred
       in Inr \<lparr>ct_title = title, ct_description = description, ct_repo_id = repo_id,
               ct_base_branch = opt_default (opt_or base target) ''main'',
               ct_requester = requester,
               ct_agent = (if agent = Some ''mock-codex'' then Some ''codex'' else agent),
               ct_model = model, ct_skill_ids = Some skills, ct_harness_id = harness,
               ct_budget = budget\<rparr>)))))))))))))"

definition create_repo_schema :: "js \<Rightarrow> create_repo_input result" where
  "create_repo_schema input =
     bind_result (as_object input ''CreateRepoInput'') (\<lambda>o'.
     bind_result (opt_field o' ''provider'') (\<lambda>provider.
     bind_result (req_field o' ''owner'') (\<lambda>owner.
     bind_result (req_field o' ''name'') (\<lambda>name.
     bind_result (opt_field o' ''defaultBranch'') (\<lambda>branch.
     bind_result (opt_field o' ''remoteUrl'') (\<lambda>url.
       Inr \<lparr>ci_provider = Some (opt_default provider ''local''), ci_owner = owner, ci_name = name,
            ci_default_branch = Some (opt_default branch ''main''), ci_remote_url = url\<rparr>))))))"

definition task_from_input :: "string \<Rightarrow> time \<Rightarrow> create_task_input \<Rightarrow> task" where
  "task_from_input i now inp =
     \<lparr>t_id = i, t_title = ct_title inp, t_description = ct_description inp, t_status = Draft,
      t_requester = opt_default (ct_requester inp) ''user_demo_admin'', t_repo_id = ct_repo_id inp,
      t_base_branch = ct_base_branch inp, t_branch_name = None, t_agent = ct_agent inp,
      t_model = ct_model inp, t_skill_ids = opt_default (ct_skill_ids inp) [],
      t_harness_id = ct_harness_id inp, t_instruction_set_id = None, t_budget = ct_budget inp,
      t_conflict_risk = None, t_created_at = now, t_updated_at = now\<rparr>"

definition repo_from_input :: "string \<Rightarrow> time \<Rightarrow> create_repo_input \<Rightarrow> repo" where
  "repo_from_input i now inp =
     \<lparr>r_id = i, r_provider = opt_default (ci_provider inp) ''local'', r_owner = ci_owner inp,
      r_name = ci_name inp, r_default_branch = opt_default (ci_default_branch inp) ''main'',
      r_remote_url = ci_remote_url inp, r_active = True, r_created_at = now, r_updated_at = now\<rparr>"

section \<open>Slugs\<close>

definition slug_char :: "char \<Rightarrow> bool" where
  "slug_char c \<longleftrightarrow> is_lower c \<or> is_digit c"

text \<open>\<open>replace(/[^a-z0-9]+/g, "-")\<close>: every maximal run of other characters becomes one dash.\<close>

fun dash_runs :: "bool \<Rightarrow> string \<Rightarrow> string" where
  "dash_runs inrun [] = []"
| "dash_runs inrun (c # cs) =
     (if slug_char c then c # dash_runs False cs
      else if inrun then dash_runs True cs else CHR ''-'' # dash_runs True cs)"

definition trim_dashes :: "string \<Rightarrow> string" where
  "trim_dashes s = rev (dropWhile (\<lambda>c. c = CHR ''-'') (rev (dropWhile (\<lambda>c. c = CHR ''-'') s)))"

definition slugify :: "string \<Rightarrow> string" where
  "slugify v =
     (let slug = take 48 (trim_dashes (dash_runs False (to_lower v)))
      in if slug = [] then ''task'' else slug)"

section \<open>What the schemas accept\<close>

lemma string_field_Inr:
  "string_field o' key optional = Inr r \<longleftrightarrow>
     (nullish (obj_get o' key) \<and> optional \<and> r = None) \<or>
     (\<exists>s. obj_get o' key = JStr s \<and> trim s \<noteq> [] \<and> r = Some s)"
  by (cases "obj_get o' key") (auto simp: string_field_def nullish_def)

lemma opt_field_Inr:
  "opt_field o' key = Inr r \<longleftrightarrow>
     (nullish (obj_get o' key) \<and> r = None) \<or> (\<exists>s. obj_get o' key = JStr s \<and> trim s \<noteq> [] \<and> r = Some s)"
  by (simp add: opt_field_def string_field_Inr)

lemma req_field_Inr: "req_field o' key = Inr s \<longleftrightarrow> obj_get o' key = JStr s \<and> trim s \<noteq> []"
  by (auto simp: req_field_def bind_result_Inr string_field_Inr)

lemma number_field_Inr:
  "number_field o' key True (Some m) = Inr r \<longleftrightarrow>
     (nullish (obj_get o' key) \<and> r = None) \<or> (\<exists>n. obj_get o' key = JNum n \<and> m \<le> n \<and> r = Some n)"
  by (cases "obj_get o' key") (auto simp: number_field_def nullish_def)

lemma strings_of_iff: "strings_of vs = Some ss \<longleftrightarrow> vs = map JStr ss"
  by (induction vs arbitrary: ss rule: strings_of.induct) (auto simp: map_eq_Cons_conv Cons_eq_map_conv)

lemma trim_Nil [simp]: "trim [] = []"
  by (simp add: trim_def)

lemma create_task_schema_fields:
  assumes "create_task_schema (JObj o') = Inr inp"
  shows "req_field o' ''title'' = Inr (ct_title inp)" "req_field o' ''repoId'' = Inr (ct_repo_id inp)"
    "\<exists>b t. opt_field o' ''baseBranch'' = Inr b \<and> opt_field o' ''targetBranch'' = Inr t \<and>
       ct_base_branch inp = opt_default (opt_or b t) ''main''"
    "number_field o' ''budgetLimitUsd'' True (Some 0) = Inr (ct_budget inp)"
  using assms
  by (clarsimp simp: create_task_schema_def as_object_def bind_result_Inr Let_def simp del: split_paired_Ex)+

text \<open>
  C5: A request body the task schema accepts is an object with a title and a repository id that
  are not blank, a budget that is not negative, and a base branch (main when none is given); the
  task built from it starts as a draft with exactly these fields.
\<close>

theorem create_task_schema_sound:
  assumes "create_task_schema input = Inr inp"
  shows "(\<exists>o'. input = JObj o' \<and> obj_get o' ''title'' = JStr (ct_title inp) \<and>
      obj_get o' ''repoId'' = JStr (ct_repo_id inp)) \<and>
    trim (ct_title inp) \<noteq> [] \<and> trim (ct_repo_id inp) \<noteq> [] \<and> trim (ct_base_branch inp) \<noteq> [] \<and>
    (\<forall>b. t_budget (task_from_input i now inp) = Some b \<longrightarrow> 0 \<le> b) \<and>
    t_status (task_from_input i now inp) = Draft"
proof -
  obtain o' where o': "input = JObj o'"
    using assms by (cases input) (simp_all add: create_task_schema_def as_object_def)
  note f = create_task_schema_fields[OF assms[unfolded o']]
  obtain b t where bt: "opt_field o' ''baseBranch'' = Inr b" "opt_field o' ''targetBranch'' = Inr t"
    "ct_base_branch inp = opt_default (opt_or b t) ''main''"
    using f(3) by blast
  have main: "trim ''main'' = ''main''" by code_simp
  have "trim (ct_base_branch inp) \<noteq> []"
    using opt_field_Inr[THEN iffD1, OF bt(1)] opt_field_Inr[THEN iffD1, OF bt(2)] bt(3) main
    by (elim disjE conjE exE) simp_all
  moreover have "\<forall>b. ct_budget inp = Some b \<longrightarrow> 0 \<le> b"
    using number_field_Inr[THEN iffD1, OF f(4)] by auto
  ultimately show ?thesis
    using f(1,2)[unfolded req_field_Inr] by (simp add: o' task_from_input_def)
qed

section \<open>What slugs look like\<close>

lemma dash_runs_chars: "c \<in> set (dash_runs b s) \<Longrightarrow> slug_char c \<or> c = CHR ''-''"
  by (induction s arbitrary: b) (auto split: if_splits)

lemma set_trim_dashes: "set (trim_dashes s) \<subseteq> set s"
  by (auto simp: trim_dashes_def dest!: set_dropWhileD)

lemma hd_trim_dashes: "trim_dashes s \<noteq> [] \<Longrightarrow> hd (trim_dashes s) \<noteq> CHR ''-''"
proof -
  let ?t = "dropWhile (\<lambda>c. c = CHR ''-'') s" and ?d = "dropWhile (\<lambda>c. c = CHR ''-'')"
  assume ne: "trim_dashes s \<noteq> []"
  have "?t \<noteq> []"
  proof
    assume "?t = []"
    then have "trim_dashes s = []" by (simp only: trim_dashes_def rev.simps dropWhile.simps)
    with ne show False ..
  qed
  then have h: "hd ?t \<noteq> CHR ''-''" by (rule hd_dropWhile)
  obtain ys where "rev ?t = ys @ ?d (rev ?t)" by (metis takeWhile_dropWhile_id)
  then have "?t = rev (?d (rev ?t)) @ rev ys" by (metis rev_append rev_rev_ident)
  with ne have "hd ?t = hd (trim_dashes s)" by (metis hd_append2 trim_dashes_def)
  with h show ?thesis by simp
qed

text \<open>
  A slug is never empty, has at most 48 characters, only lower-case letters, digits and
  dashes, and does not begin with a dash.
\<close>

theorem slugify_shape:
  "slugify v \<noteq> [] \<and> length (slugify v) \<le> 48 \<and>
   list_all (\<lambda>c. slug_char c \<or> c = CHR ''-'') (slugify v) \<and> hd (slugify v) \<noteq> CHR ''-''"
proof -
  let ?t = "trim_dashes (dash_runs False (to_lower v))"
  have chars: "slug_char c \<or> c = CHR ''-''" if "c \<in> set (take 48 ?t)" for c
    using that set_trim_dashes dash_runs_chars by (metis in_set_takeD subsetD)
  have task: "\<forall>c \<in> set ''task''. slug_char c" by (simp add: slug_char_def is_lower_def)
  show ?thesis
  proof (cases "?t = []")
    case True
    then show ?thesis using task by (simp add: slugify_def Let_def list_all_iff)
  next
    case False
    then have "hd (take 48 ?t) \<noteq> CHR ''-''" using hd_trim_dashes by simp
    with False chars show ?thesis by (simp add: slugify_def Let_def list_all_iff)
  qed
qed

definition sample_task_input :: js where
  "sample_task_input = JObj [(''title'', JStr ''Fix''), (''repoId'', JStr ''r1'')]"

lemma sample_task_input_ok: "\<exists>inp. create_task_schema sample_task_input = Inr inp"
proof -
  have "trim ''Fix'' \<noteq> []" "trim ''r1'' \<noteq> []" by code_simp+
  then show ?thesis
    by (simp add: sample_task_input_def create_task_schema_def as_object_def req_field_def opt_field_def
        string_field_def number_field_def string_array_field_def nullish_def Let_def)
qed

theorem create_task_schema_sound_witness:
  "\<exists>inp. create_task_schema sample_task_input = Inr inp \<and> trim (ct_title inp) \<noteq> []"
  using sample_task_input_ok create_task_schema_sound by blast

end
