(* ===== verification/Conflicts.thy ===== *)
theory Conflicts
  imports JsPrelude
begin

text \<open>
  Conflict scoring of \<open>packages/core/src/conflicts/scoring.ts\<close>: the category of a file, the
  risk of a pair of branch leases, the effect of a merge simulation on it, and the decision
  the merge queue takes from a score.  Scores are the rationals of the decimal literals; the
  code only compares them and takes their maximum.
\<close>

section \<open>Data\<close>

datatype lease_status = LeaseActive | LeaseReleased | LeaseExpired

record branch_lease =
  bl_id :: string
  bl_task_id :: string
  bl_task_run_id :: string
  bl_repo_id :: string
  bl_branch_id :: string
  bl_branch_name :: string
  bl_base_branch :: string
  bl_files :: "string list"
  bl_symbols :: "string list"
  bl_tests :: "string list"
  bl_status :: lease_status
  bl_expires_at :: "time option"
  bl_released_at :: "time option"
  bl_created_at :: time
  bl_updated_at :: time

datatype file_category = FcCritical | FcPackage | FcTest | FcDocs | FcSource
datatype risk_level = RlNone | RlLow | RlMedium | RlHigh | RlCritical
datatype conflict_recommendation = CrSafe | CrMonitor | CrSerialize | CrBlock | CrHumanReview
datatype simulation_status = SimClean | SimTextConflict | SimFailed | SimUnavailable
datatype queue_status = MqQueued | MqReady | MqBlocked | MqMerged | MqCancelled
datatype queue_recommendation =
    RecReadyForReview | RecSafeToQueue | RecRequiresRebase | RecConflictDetected
  | RecManualReviewRequired | RecSimulationUnavailable

record merge_simulation =
  ms_id :: string
  ms_repo_id :: string
  ms_base_ref :: string
  ms_source_ref :: string
  ms_target_ref :: "string option"
  ms_task_run_id :: "string option"
  ms_branch_lease_id :: "string option"
  ms_status :: simulation_status
  ms_conflicting_files :: "string list"
  ms_changed_files :: "string list"
  ms_summary :: string
  ms_risk_contribution :: num
  ms_created_at :: time

record conflict_risk =
  cr_id :: string
  cr_repo_id :: string
  cr_source_lease_id :: string
  cr_target_lease_id :: string
  cr_source_task_run_id :: string
  cr_target_task_run_id :: string
  cr_overlap_files :: "string list"
  cr_risk_score :: num
  cr_risk_level :: risk_level
  cr_reasons :: "string list"
  cr_recommendation :: conflict_recommendation
  cr_simulation_status :: "simulation_status option"
  cr_simulation_risk :: "num option"
  cr_simulation_summary :: "string option"
  cr_computed_at :: time

record queue_decision =
  qd_status :: queue_status
  qd_reasons :: "string list"
  qd_blocking_reasons :: "string list"
  qd_recommendation :: queue_recommendation

section \<open>File categories\<close>

definition normalize_path :: "string \<Rightarrow> string" where
  "normalize_path p =
     (let q = map (\<lambda>c. if c = CHR 0x5C then CHR ''/'' else c) p;
          r = (if starts_with q ''./'' then drop 2 q else q)
      in to_lower r)"

definition first_segment :: "string \<Rightarrow> string" where
  "first_segment p = hd (split_on CHR ''/'' (normalize_path p))"

definition has_segment :: "string \<Rightarrow> string \<Rightarrow> bool" where
  "has_segment p s \<longleftrightarrow> s \<in> set (split_on CHR ''/'' (normalize_path p))"

definition is_package_file :: "string \<Rightarrow> bool" where
  "is_package_file p \<longleftrightarrow>
     normalize_path p \<in> {''package.json'', ''pnpm-lock.yaml'', ''yarn.lock'', ''package-lock.json''}"

definition critical_prefixes :: "string list" where
  "critical_prefixes =
     [''.github/workflows/'', ''infra/'', ''infrastructure/'', ''terraform/'', ''migrations/'',
      ''db/migrations/'', ''schema/'', ''auth/'', ''security/'']"

definition is_critical_file :: "string \<Rightarrow> bool" where
  "is_critical_file p \<longleftrightarrow>
     (let n = normalize_path p
      in list_ex (starts_with n) critical_prefixes \<or> n = ''prisma/schema.prisma'' \<or>
         has_segment n ''auth'' \<or> has_segment n ''security'')"

definition is_test_file :: "string \<Rightarrow> bool" where
  "is_test_file p \<longleftrightarrow>
     (let n = normalize_path p
      in str_includes n ''.test.'' \<or> str_includes n ''.spec.'' \<or> str_includes n ''/__tests__/'' \<or>
         starts_with n ''__tests__/'' \<or> starts_with n ''tests/'' \<or> starts_with n ''test/'')"

definition is_docs_file :: "string \<Rightarrow> bool" where
  "is_docs_file p \<longleftrightarrow> starts_with (normalize_path p) ''docs/'' \<or> ends_with (normalize_path p) ''.md''"

definition classify_conflict_file :: "string \<Rightarrow> file_category" where
  "classify_conflict_file p =
     (if is_package_file p then FcPackage else if is_test_file p then FcTest
      else if is_docs_file p then FcDocs else if is_critical_file p then FcCritical
      else FcSource)"

section \<open>Scores\<close>

definition conflict_risk_level :: "num \<Rightarrow> risk_level" where
  "conflict_risk_level s =
     (if s = 0 then RlNone else if s < 35/100 then RlLow else if s < 65/100 then RlMedium
      else if s < 85/100 then RlHigh else RlCritical)"

definition conflict_recommendation_for :: "num \<Rightarrow> conflict_recommendation" where
  "conflict_recommendation_for s =
     (if s = 0 then CrSafe else if s < 35/100 then CrMonitor else if s < 65/100 then CrSerialize
      else if s < 85/100 then CrBlock else CrHumanReview)"

fun risk_contribution :: "simulation_status \<Rightarrow> num" where
  "risk_contribution SimClean = 1/10"
| "risk_contribution SimTextConflict = 8/10"
| "risk_contribution SimFailed = 35/100"
| "risk_contribution SimUnavailable = 35/100"

definition recommendation_for_risk :: "num \<Rightarrow> string list \<Rightarrow> conflict_recommendation" where
  "recommendation_for_risk s reasons =
     (if s = 0 \<or> reasons = [''docs_file_overlap''] then CrSafe
      else if s \<le> 1/10 \<and> ''dry_run_merge_clean'' \<in> set reasons then CrSafe
      else if ''same_top_level_directory_activity'' \<in> set reasons \<or> reasons = [''test_file_overlap'']
      then CrMonitor
      else conflict_recommendation_for s)"

section \<open>A pair of leases\<close>

definition sorted_overlap :: "string list \<Rightarrow> string list \<Rightarrow> string list" where
  "sorted_overlap source target =
     sort (remdups (filter (\<lambda>f. f \<in> set (map normalize_path target)) (map normalize_path source)))"

definition same_directory_risk :: "string list \<Rightarrow> string list \<Rightarrow> bool" where
  "same_directory_risk source target \<longleftrightarrow>
     list_ex (\<lambda>d.
        let sc = length (filter (\<lambda>f. first_segment f = d) source);
            tc = length (filter (\<lambda>f. first_segment f = d) target)
        in tc > 0 \<and> sc + tc \<ge> 3)
       (filter (\<lambda>d. d \<noteq> []) (map first_segment source))"

definition category_rule :: "file_category \<Rightarrow> num \<times> string" where
  "category_rule c = (case c of
       FcCritical \<Rightarrow> (9/10, ''critical_path_overlap'')
     | FcPackage \<Rightarrow> (75/100, ''package_or_lockfile_overlap'')
     | FcSource \<Rightarrow> (6/10, ''source_file_overlap'')
     | FcTest \<Rightarrow> (3/10, ''test_file_overlap'')
     | FcDocs \<Rightarrow> (1/10, ''docs_file_overlap''))"

definition add_category :: "file_category set \<Rightarrow> file_category \<Rightarrow> num \<times> string list \<Rightarrow> num \<times> string list" where
  "add_category cats c acc =
     (if c \<in> cats then (max (fst acc) (fst (category_rule c)), snd acc @ [snd (category_rule c)])
      else acc)"

definition compute_pair_risk_score :: "branch_lease \<Rightarrow> branch_lease \<Rightarrow> string list \<times> num \<times> string list" where
  "compute_pair_risk_score source target =
     (let overlap = sorted_overlap (bl_files source) (bl_files target)
      in if overlap = [] then
           (if same_directory_risk (bl_files source) (bl_files target)
            then (overlap, 35/100, [''same_top_level_directory_activity''])
            else (overlap, 0, [''no_overlap'']))
         else
           (let cats = set (map classify_conflict_file overlap);
                r = fold (add_category cats) [FcCritical, FcPackage, FcSource, FcTest, FcDocs] (0, [])
            in (overlap, fst r, snd r)))"

fun simulation_name :: "simulation_status \<Rightarrow> string" where
  "simulation_name SimClean = ''clean''"
| "simulation_name SimTextConflict = ''text_conflict''"
| "simulation_name SimFailed = ''failed''"
| "simulation_name SimUnavailable = ''unavailable''"

definition combine_simulation_risk ::
  "num \<Rightarrow> string list \<Rightarrow> merge_simulation option \<Rightarrow> num \<times> string list" where
  "combine_simulation_risk score reasons simulation =
     (case simulation of None \<Rightarrow> (score, reasons)
      | Some sim \<Rightarrow>
          (let kept = filter (\<lambda>r. r \<noteq> ''no_overlap'') reasons;
               new = (case ms_status sim of
                        SimClean \<Rightarrow> ''dry_run_merge_clean''
                      | SimTextConflict \<Rightarrow> ''dry_run_text_conflict''
                      | st \<Rightarrow> ''dry_run_'' @ simulation_name st)
           in (max score (ms_risk_contribution sim), kept @ [new])))"

definition create_conflict_risk ::
  "branch_lease \<Rightarrow> branch_lease \<Rightarrow> time \<Rightarrow> merge_simulation option \<Rightarrow> conflict_risk" where
  "create_conflict_risk source target computed_at simulation =
     (let (left, right) = (if bl_id source \<le> bl_id target then (source, target) else (target, source));
          (overlap, score, reasons) = compute_pair_risk_score left right;
          (cscore, creasons) = combine_simulation_risk score reasons simulation
      in \<lparr>cr_id = ''risk_'' @ bl_id left @ ''_'' @ bl_id right, cr_repo_id = bl_repo_id left,
          cr_source_lease_id = bl_id left, cr_target_lease_id = bl_id right,
          cr_source_task_run_id = bl_task_run_id left, cr_target_task_run_id = bl_task_run_id right,
          cr_overlap_files = overlap, cr_risk_score = cscore,
          cr_risk_level = conflict_risk_level cscore, cr_reasons = creasons,
          cr_recommendation = recommendation_for_risk cscore creasons,
          cr_simulation_status = map_option ms_status simulation,
          cr_simulation_risk = map_option ms_risk_contribution simulation,
          cr_simulation_summary = map_option ms_summary simulation,
          cr_computed_at = computed_at\<rparr>)"

section \<open>The merge queue's decision\<close>

definition queue_decision_of ::
  "queue_status \<Rightarrow> string list \<Rightarrow> string list \<Rightarrow> queue_recommendation \<Rightarrow> queue_decision" where
  "queue_decision_of st rs bs rec =
     \<lparr>qd_status = st, qd_reasons = rs, qd_blocking_reasons = bs, qd_recommendation = rec\<rparr>"

definition merge_queue_decision :: "num \<Rightarrow> simulation_status option \<Rightarrow> queue_decision" where
  "merge_queue_decision score sim =
     (if sim = Some SimTextConflict then
        queue_decision_of MqBlocked [''dry_run_text_conflict''] [''conflict_detected''] RecConflictDetected
      else if sim = Some SimUnavailable then
        queue_decision_of (if score \<ge> 1/2 then MqBlocked else MqReady) [''dry_run_unavailable'']
          (if score \<ge> 1/2 then [''simulation_unavailable''] else []) RecSimulationUnavailable
      else if sim = Some SimFailed then
        queue_decision_of (if score \<ge> 1/2 then MqBlocked else MqReady) [''dry_run_failed'']
          (if score \<ge> 1/2 then [''simulation_failed''] else []) RecManualReviewRequired
      else if score < 1/2 then
        queue_decision_of MqReady (if score = 0 then [''no_active_overlap''] else [''low_conflict_risk'']) []
          (if sim = Some SimClean then RecSafeToQueue else RecReadyForReview)
      else if score < 85/100 then
        queue_decision_of MqBlocked [''serialize_with_overlapping_branch'']
          [''serialize_with_overlapping_branch''] RecRequiresRebase
      else
        queue_decision_of MqBlocked [''human_review_required_for_critical_overlap'']
          [''human_review_required_for_critical_overlap''] RecManualReviewRequired)"

section \<open>The order of a pair does not matter\<close>

lemma sorted_overlap_sym: "sorted_overlap xs ys = sorted_overlap ys xs"
proof -
  have "set (filter (\<lambda>f. f \<in> set (map normalize_path b)) (map normalize_path a)) =
      set (map normalize_path a) \<inter> set (map normalize_path b)" for a b
    by auto
  then have "sorted_list_of_set (set (filter (\<lambda>f. f \<in> set (map normalize_path ys)) (map normalize_path xs))) =
      sorted_list_of_set (set (filter (\<lambda>f. f \<in> set (map normalize_path xs)) (map normalize_path ys)))"
    by (simp add: Int_commute)
  then show ?thesis
    by (simp only: sorted_overlap_def sorted_list_of_set_sort_remdups[symmetric])
qed

lemma set_sorted_overlap:
  "set (sorted_overlap xs ys) = normalize_path ` set xs \<inter> normalize_path ` set ys"
  by (auto simp: sorted_overlap_def)

definition dir_count :: "string \<Rightarrow> string list \<Rightarrow> nat" where
  "dir_count d xs = length (filter (\<lambda>f. first_segment f = d) xs)"

lemma dir_count_pos: "0 < dir_count d xs \<longleftrightarrow> d \<in> first_segment ` set xs"
  by (auto simp: dir_count_def filter_empty_conv)

lemma same_directory_risk_iff:
  "same_directory_risk xs ys \<longleftrightarrow>
     (\<exists>d. d \<noteq> [] \<and> 0 < dir_count d xs \<and> 0 < dir_count d ys \<and> 3 \<le> dir_count d xs + dir_count d ys)"
  unfolding same_directory_risk_def list_ex_iff Let_def dir_count_def[symmetric]
  by (auto simp: dir_count_pos)

lemma same_directory_risk_sym: "same_directory_risk xs ys \<longleftrightarrow> same_directory_risk ys xs"
  unfolding same_directory_risk_iff by (metis add.commute)

lemma pair_risk_sym: "compute_pair_risk_score a b = compute_pair_risk_score b a"
  by (simp only: compute_pair_risk_score_def sorted_overlap_sym[of "bl_files a"]
      same_directory_risk_sym[of "bl_files a"])

section \<open>The range of the score\<close>

lemma category_score_range: "1/10 \<le> fst (category_rule c)" "fst (category_rule c) \<le> 9/10"
  by (cases c; simp add: category_rule_def)+

lemma fold_add_category:
  "fst (fold (add_category cats) cs acc) =
     fold max (map (\<lambda>c. fst (category_rule c)) (filter (\<lambda>c. c \<in> cats) cs)) (fst acc)"
  "snd (fold (add_category cats) cs acc) =
     snd acc @ map (\<lambda>c. snd (category_rule c)) (filter (\<lambda>c. c \<in> cats) cs)"
  by (induction cs arbitrary: acc) (auto simp: add_category_def max.commute)

lemma fold_max_ge: "(x :: num) \<le> fold max xs x" "y \<in> set xs \<Longrightarrow> y \<le> fold max xs (x :: num)"
proof -
  show ge: "x \<le> fold max xs x" for x :: num and xs
    by (induction xs arbitrary: x) (auto intro: order_trans[OF max.cobounded2])
  show "y \<in> set xs \<Longrightarrow> y \<le> fold max xs x"
    by (induction xs arbitrary: x) (auto intro: order_trans[OF _ ge])
qed

lemma fold_max_le: "(\<And>y. y \<in> set xs \<Longrightarrow> y \<le> b) \<Longrightarrow> x \<le> b \<Longrightarrow> fold max xs x \<le> (b :: num)"
  by (induction xs arbitrary: x) auto

lemma all_categories: "c \<in> set [FcCritical, FcPackage, FcSource, FcTest, FcDocs]"
  by (cases c) simp_all

lemma pair_risk_overlap:
  assumes "compute_pair_risk_score a b = (overlap, score, reasons)" and "overlap \<noteq> []"
  shows "f \<in> set overlap \<Longrightarrow> fst (category_rule (classify_conflict_file f)) \<le> score \<and>
      snd (category_rule (classify_conflict_file f)) \<in> set reasons"
    and "score \<le> 9/10" and "overlap = sorted_overlap (bl_files a) (bl_files b)"
    and "x \<in> set reasons \<Longrightarrow> \<exists>c. x = snd (category_rule c)"
proof -
  let ?cats = "set (map classify_conflict_file overlap)"
  let ?cs = "[FcCritical, FcPackage, FcSource, FcTest, FcDocs]"
  let ?r = "fold (add_category ?cats) ?cs (0, [])"
  show o': "overlap = sorted_overlap (bl_files a) (bl_files b)"
    using assms by (auto simp: compute_pair_risk_score_def Let_def split: if_splits)
  with assms have r: "score = fst ?r" "reasons = snd ?r"
    by (auto simp: compute_pair_risk_score_def Let_def simp del: fold_simps)
  show "\<exists>c. x = snd (category_rule c)" if "x \<in> set reasons" for x
    using that unfolding r fold_add_category by auto
  show "score \<le> 9/10"
    unfolding r fold_add_category using category_score_range(2) by (intro fold_max_le) auto
  show "fst (category_rule (classify_conflict_file f)) \<le> score \<and>
      snd (category_rule (classify_conflict_file f)) \<in> set reasons" if "f \<in> set overlap"
  proof
    have c: "classify_conflict_file f \<in> set (filter (\<lambda>c. c \<in> ?cats) ?cs)"
      using that all_categories by (simp only: set_filter set_map) blast
    show "fst (category_rule (classify_conflict_file f)) \<le> score"
      unfolding r fold_add_category using c by (intro fold_max_ge(2)) (simp only: set_map image_eqI)
    show "snd (category_rule (classify_conflict_file f)) \<in> set reasons"
      unfolding r fold_add_category using c by (simp only: set_append set_map Un_iff image_eqI simp_thms)
  qed
qed

lemma pair_risk_range:
  assumes "compute_pair_risk_score a b = (overlap, score, reasons)"
  shows "0 \<le> score \<and> score \<le> 9/10"
proof (cases "overlap = []")
  case True
  then show ?thesis
    using assms by (auto simp: compute_pair_risk_score_def Let_def simp del: fold_simps split: if_splits)
next
  case False
  then obtain f where "f \<in> set overlap" by (cases overlap) auto
  with pair_risk_overlap(1,2)[OF assms False] category_score_range(1)[of "classify_conflict_file f"]
  show ?thesis by fastforce
qed

lemma combine_simulation_ge: "score \<le> fst (combine_simulation_risk score reasons sim)"
  by (auto simp: combine_simulation_risk_def Let_def split: option.splits)

lemma combine_keeps_reason:
  "r \<in> set reasons \<Longrightarrow> r \<noteq> ''no_overlap'' \<Longrightarrow> r \<in> set (snd (combine_simulation_risk score reasons sim))"
  by (auto simp: combine_simulation_risk_def Let_def split: option.splits)

lemma create_conflict_risk_score:
  assumes "compute_pair_risk_score a b = (overlap, score, reasons)"
  shows "cr_risk_score (create_conflict_risk a b t sim) = fst (combine_simulation_risk score reasons sim)"
    and "cr_reasons (create_conflict_risk a b t sim) = snd (combine_simulation_risk score reasons sim)"
    and "cr_overlap_files (create_conflict_risk a b t sim) = overlap"
    and "cr_risk_level (create_conflict_risk a b t sim) =
      conflict_risk_level (fst (combine_simulation_risk score reasons sim))"
    and "cr_recommendation (create_conflict_risk a b t sim) =
      recommendation_for_risk (fst (combine_simulation_risk score reasons sim))
        (snd (combine_simulation_risk score reasons sim))"
  using assms pair_risk_sym[of a b]
  by (auto simp: create_conflict_risk_def Let_def split: prod.splits)

section \<open>Properties\<close>

text \<open>
  The risk of two leases does not depend on which of them is the source, neither the scored
  pair nor the recorded risk with its id.
\<close>

theorem conflict_risk_symmetric:
  assumes "bl_id a \<noteq> bl_id b"
  shows "compute_pair_risk_score a b = compute_pair_risk_score b a \<and>
    create_conflict_risk a b t sim = create_conflict_risk b a t sim"
  using assms pair_risk_sym[of a b] by (auto simp: create_conflict_risk_def Let_def)

text \<open>
  C6: Two leases that share a file of a critical path (workflows, infrastructure, migrations,
  auth, security) get a critical risk with the recommendation of a human review whatever a merge
  simulation says, and the merge queue blocks at that score.
\<close>

theorem critical_overlap_blocks:
  assumes "f \<in> set (bl_files a)" and "g \<in> set (bl_files b)"
    and "normalize_path f = normalize_path g" and "classify_conflict_file (normalize_path f) = FcCritical"
  shows "9/10 \<le> cr_risk_score (create_conflict_risk a b t sim) \<and>
    cr_risk_level (create_conflict_risk a b t sim) = RlCritical \<and>
    cr_recommendation (create_conflict_risk a b t sim) = CrHumanReview \<and>
    qd_status (merge_queue_decision (cr_risk_score (create_conflict_risk a b t sim)) any) = MqBlocked"
proof -
  obtain overlap score reasons where c: "compute_pair_risk_score a b = (overlap, score, reasons)"
    by (metis prod_cases3)
  have mem: "normalize_path f \<in> set (sorted_overlap (bl_files a) (bl_files b))"
    unfolding set_sorted_overlap using assms(1-3) by blast
  have "overlap \<noteq> []"
    using c mem by (auto simp: compute_pair_risk_score_def Let_def simp del: fold_simps split: if_splits)
  note o' = pair_risk_overlap[OF c this]
  have "fst (category_rule FcCritical) \<le> score" "snd (category_rule FcCritical) \<in> set reasons"
    using o'(1)[of "normalize_path f"] mem o'(3) assms(4) by auto
  then have s: "9/10 \<le> score" and r: "''critical_path_overlap'' \<in> set reasons"
    by (simp_all add: category_rule_def)
  let ?s = "fst (combine_simulation_risk score reasons sim)"
  let ?r = "snd (combine_simulation_risk score reasons sim)"
  have s': "9/10 \<le> ?s" using s combine_simulation_ge by (rule order_trans)
  have r': "''critical_path_overlap'' \<in> set ?r" by (rule combine_keeps_reason[OF r]) simp
  have same: "''same_top_level_directory_activity'' \<notin> set ?r"
  proof -
    have "''same_top_level_directory_activity'' \<notin> set reasons"
    proof
      assume "''same_top_level_directory_activity'' \<in> set reasons"
      then obtain c where "''same_top_level_directory_activity'' = snd (category_rule c)"
        using o'(4) by blast
      then show False by (cases c) (simp_all add: category_rule_def)
    qed
    then show ?thesis
      by (auto simp: combine_simulation_risk_def Let_def split: option.splits simulation_status.splits)
  qed
  have rec: "recommendation_for_risk ?s ?r = CrHumanReview"
    using s' r' same by (auto simp: recommendation_for_risk_def conflict_recommendation_for_def)
  have "conflict_risk_level ?s = RlCritical" using s' by (simp add: conflict_risk_level_def)
  moreover have "qd_status (merge_queue_decision ?s any) = MqBlocked"
    using s' by (simp add: merge_queue_decision_def queue_decision_of_def)
  ultimately show ?thesis
    using s' rec by (simp add: create_conflict_risk_score[OF c])
qed

text \<open>
  The score of a pair read off its files: the highest weight of a category that a shared file has, or 35/100
  when the leases share no file but are active in the same top-level directory.
\<close>

definition shared_files :: "branch_lease \<Rightarrow> branch_lease \<Rightarrow> string set" where
  "shared_files a b = normalize_path ` set (bl_files a) \<inter> normalize_path ` set (bl_files b)"

definition file_weight :: "string \<Rightarrow> num" where
  "file_weight f = fst (category_rule (classify_conflict_file f))"

definition pair_score :: "branch_lease \<Rightarrow> branch_lease \<Rightarrow> num" where
  "pair_score a b =
     (if shared_files a b = {} then (if same_directory_risk (bl_files a) (bl_files b) then 35/100 else 0)
      else Max (file_weight ` shared_files a b))"

lemma pair_score_exact:
  assumes "compute_pair_risk_score a b = (overlap, score, reasons)"
  shows "score = pair_score a b"
proof (cases "overlap = []")
  case True
  then have "sorted_overlap (bl_files a) (bl_files b) = []"
    using assms by (auto simp: compute_pair_risk_score_def Let_def simp del: fold_simps split: if_splits)
  then show ?thesis
    using assms set_sorted_overlap[of "bl_files a" "bl_files b"]
    by (auto simp: compute_pair_risk_score_def pair_score_def shared_files_def simp del: fold_simps split: if_splits)
next
  case False
  note o' = pair_risk_overlap[OF assms False]
  have files: "shared_files a b = set overlap"
    by (simp add: o'(3) set_sorted_overlap shared_files_def)
  let ?cats = "set (map classify_conflict_file overlap)"
  let ?cs = "[FcCritical, FcPackage, FcSource, FcTest, FcDocs]"
  have "sorted_overlap (bl_files a) (bl_files b) \<noteq> []" using False o'(3) by simp
  then have score: "score = fst (fold (add_category ?cats) ?cs (0, []))"
    using assms o'(3) by (auto simp: compute_pair_risk_score_def Let_def simp del: fold_simps)
  have "score \<le> Max (file_weight ` set overlap)"
    unfolding score fold_add_category fst_conv
  proof (rule fold_max_le)
    fix y assume "y \<in> set (map (\<lambda>c. fst (category_rule c)) (filter (\<lambda>c. c \<in> ?cats) ?cs))"
    then obtain c where "c \<in> ?cats" "y = fst (category_rule c)" by (simp only: set_map set_filter) blast
    then obtain f where "f \<in> set overlap" "y = file_weight f"
      by (simp only: set_map image_iff file_weight_def) blast
    then show "y \<le> Max (file_weight ` set overlap)" by simp
  next
    obtain f where f: "f \<in> set overlap" using False by (cases overlap) auto
    have "0 \<le> file_weight f"
      using category_score_range(1)[of "classify_conflict_file f"] by (simp add: file_weight_def)
    also have "\<dots> \<le> Max (file_weight ` set overlap)" using f by simp
    finally show "0 \<le> Max (file_weight ` set overlap)" .
  qed
  moreover have "Max (file_weight ` set overlap) \<le> score"
    using False o'(1) by (intro Max.boundedI) (auto simp: file_weight_def)
  ultimately show ?thesis
    using False by (simp add: pair_score_def files)
qed

text \<open>
  C7: The recorded risk score is the score of the pair or the contribution of the simulation, whichever is
  higher, for any contribution.  The score of the pair is the highest weight of a shared file, or that of
  activity in one directory when no file is shared, and lies between 0 and 0.9.  The level is none exactly
  at a score of 0 and critical exactly from 0.85 on.
\<close>

theorem conflict_risk_score_exact:
  "cr_risk_score (create_conflict_risk a b t sim) =
      (case sim of None \<Rightarrow> pair_score a b | Some m \<Rightarrow> max (pair_score a b) (ms_risk_contribution m)) \<and>
    0 \<le> pair_score a b \<and> pair_score a b \<le> 9/10 \<and>
    (cr_risk_level (create_conflict_risk a b t sim) = RlNone \<longleftrightarrow>
       cr_risk_score (create_conflict_risk a b t sim) = 0) \<and>
    (cr_risk_level (create_conflict_risk a b t sim) = RlCritical \<longleftrightarrow>
       85/100 \<le> cr_risk_score (create_conflict_risk a b t sim))"
proof -
  obtain overlap score reasons where c: "compute_pair_risk_score a b = (overlap, score, reasons)"
    by (metis prod_cases3)
  note score = pair_score_exact[OF c, symmetric]
  have fst: "fst (combine_simulation_risk score reasons sim) =
      (case sim of None \<Rightarrow> score | Some m \<Rightarrow> max score (ms_risk_contribution m))"
    by (simp add: combine_simulation_risk_def Let_def split: option.split)
  have level: "conflict_risk_level x = RlNone \<longleftrightarrow> x = 0" "conflict_risk_level x = RlCritical \<longleftrightarrow> 85/100 \<le> x" for x
    by (auto simp: conflict_risk_level_def)
  show ?thesis
    using pair_risk_range[OF c] unfolding create_conflict_risk_score[OF c] level fst score by blast
qed

text \<open>
  The merge queue lets an entry through only below a score of one half and without a textual
  conflict, and names a blocking reason exactly when it blocks.
\<close>

theorem merge_queue_decision_sound:
  "(qd_status (merge_queue_decision s sim) = MqReady \<longleftrightarrow> s < 1/2 \<and> sim \<noteq> Some SimTextConflict) \<and>
   (qd_status (merge_queue_decision s sim) = MqReady \<or> qd_status (merge_queue_decision s sim) = MqBlocked) \<and>
   (qd_blocking_reasons (merge_queue_decision s sim) \<noteq> [] \<longleftrightarrow>
      qd_status (merge_queue_decision s sim) = MqBlocked)"
  by (auto simp: merge_queue_decision_def queue_decision_of_def)

definition sample_lease :: "string \<Rightarrow> string list \<Rightarrow> branch_lease" where
  "sample_lease i fs =
     \<lparr>bl_id = i, bl_task_id = i, bl_task_run_id = i, bl_repo_id = ''repo'', bl_branch_id = i,
      bl_branch_name = i, bl_base_branch = ''main'', bl_files = fs, bl_symbols = [], bl_tests = [],
      bl_status = LeaseActive, bl_expires_at = None, bl_released_at = None, bl_created_at = 0,
      bl_updated_at = 0\<rparr>"

theorem conflict_risk_symmetric_witness:
  "create_conflict_risk (sample_lease ''a'' [''src/x.ts'']) (sample_lease ''b'' [''src/x.ts'']) 0 None =
   create_conflict_risk (sample_lease ''b'' [''src/x.ts'']) (sample_lease ''a'' [''src/x.ts'']) 0 None"
  using conflict_risk_symmetric[of "sample_lease ''a'' [''src/x.ts'']" "sample_lease ''b'' [''src/x.ts'']"]
  by (simp add: sample_lease_def)

lemma critical_sample:
  "normalize_path ''./Auth/login.ts'' = normalize_path ''auth/login.ts''"
  "classify_conflict_file (normalize_path ''./Auth/login.ts'') = FcCritical"
  by code_simp+

theorem critical_overlap_blocks_witness:
  "cr_risk_level (create_conflict_risk (sample_lease ''a'' [''./Auth/login.ts''])
     (sample_lease ''b'' [''auth/login.ts'']) 0 None) = RlCritical"
  using critical_overlap_blocks[of "''./Auth/login.ts''" "sample_lease ''a'' [''./Auth/login.ts'']"
      "''auth/login.ts''" "sample_lease ''b'' [''auth/login.ts'']" 0 None None] critical_sample
  by (simp add: sample_lease_def)

end
