(* ===== verification/Store.thy ===== *)
theory Store
  imports TaskModel Conflicts
begin

text \<open>
  The in-memory store of \<open>packages/db/src/repository.ts\<close>: tasks and their runs, branch leases,
  merge simulations, conflict risks, the merge queue and the audit log.  The store is a record of
  lists; an operation returns its result or the error it throws, and the store it leaves, which
  keeps the changes made before a throw.  A patch (\<open>Partial<Task>\<close>) is the function that
  overwrites its fields.  The lists of skills, harnesses and instructions and the webhook
  read models are not part of this state.
\<close>

section \<open>State\<close>

datatype run_status = RunQueued | RunRunning | RunSucceeded | RunFailed | RunCancelled

text \<open>Of a task run the store reads the ids only; its other optional fields are \<open>tr_data\<close>.\<close>

record task_run =
  tr_id :: string
  tr_task_id :: string
  tr_attempt :: nat
  tr_status :: run_status
  tr_agent :: string
  tr_model :: string
  tr_data :: jsobj
  tr_created_at :: time
  tr_updated_at :: time

record pull_request =
  pr_id :: string
  pr_task_id :: string
  pr_repo_id :: string
  pr_provider :: string
  pr_external_id :: "string option"
  pr_url :: "string option"
  pr_status :: string
  pr_created_at :: time
  pr_updated_at :: time

record queue_entry =
  qe_id :: string
  qe_repo_id :: string
  qe_task_id :: string
  qe_task_run_id :: string
  qe_branch_lease_id :: string
  qe_pull_request_id :: string
  qe_pull_request_url :: string
  qe_branch_name :: string
  qe_priority :: num
  qe_risk_score :: num
  qe_conflict_risk_score :: num
  qe_status :: queue_status
  qe_reasons :: "string list"
  qe_blocking_reasons :: "string list"
  qe_recommendation :: queue_recommendation
  qe_simulation_status :: "simulation_status option"
  qe_last_simulation_at :: "time option"
  qe_created_at :: time
  qe_updated_at :: time
  qe_merged_at :: "time option"
  qe_cancelled_at :: "time option"

record audit_log =
  al_id :: string
  al_actor_user_id :: "string option"
  al_action :: string
  al_target_type :: string
  al_target_id :: string
  al_task_id :: "string option"
  al_repo_id :: "string option"
  al_metadata :: jsobj
  al_created_at :: time

record store =
  st_repos :: "repo list"
  st_tasks :: "task list"
  st_runs :: "task_run list"
  st_leases :: "branch_lease list"
  st_queue :: "queue_entry list"
  st_simulations :: "merge_simulation list"
  st_pull_requests :: "pull_request list"
  st_audit :: "audit_log list"

type_synonym 'a store_op = "(store, 'a) op"

section \<open>Audit log, repositories and tasks\<close>

definition record_audit :: "draws \<Rightarrow> (string \<Rightarrow> time \<Rightarrow> audit_log) \<Rightarrow> store \<Rightarrow> store" where
  "record_audit s mk st = st\<lparr>st_audit := st_audit st @ [mk (fresh_id ''audit'' 0 s) (clock 0 s)]\<rparr>"

definition task_audit :: "task \<Rightarrow> string \<Rightarrow> jsobj \<Rightarrow> string \<Rightarrow> time \<Rightarrow> audit_log" where
  "task_audit t action meta i now =
     \<lparr>al_id = i, al_actor_user_id = Some (t_requester t), al_action = action,
      al_target_type = ''task'', al_target_id = t_id t, al_task_id = Some (t_id t),
      al_repo_id = Some (t_repo_id t), al_metadata = meta, al_created_at = now\<rparr>"

definition create_repo :: "draws \<Rightarrow> js \<Rightarrow> repo store_op" where
  "create_repo s input st =
     (case create_repo_schema input of
        Inl e \<Rightarrow> (Inl e, st)
      | Inr inp \<Rightarrow> (let r = repo_from_input (fresh_id ''repo'' 0 s) (clock 0 s) inp
                   in (Inr r, st\<lparr>st_repos := st_repos st @ [r]\<rparr>)))"

definition create_task :: "draws \<Rightarrow> js \<Rightarrow> task store_op" where
  "create_task s input st =
     (case create_task_schema input of
        Inl e \<Rightarrow> (Inl e, st)
      | Inr inp \<Rightarrow>
          (let t = task_from_input (fresh_id ''task'' 0 s) (clock 0 s) inp
           in (Inr t, record_audit (sub 1 s)
                 (task_audit t ''task.created'' [(''status'', JStr (status_name (t_status t)))])
                 (st\<lparr>st_tasks := st_tasks st @ [t]\<rparr>))))"

definition get_task :: "string \<Rightarrow> store \<Rightarrow> task option" where
  "get_task i st = find_by t_id i (st_tasks st)"

definition task_not_found :: "string \<Rightarrow> thrown" where
  "task_not_found i = Error (''Task not found: '' @ i)"

definition update_task :: "draws \<Rightarrow> string \<Rightarrow> (task \<Rightarrow> task) \<Rightarrow> task store_op" where
  "update_task s i patch st =
     (case get_task i st of
        None \<Rightarrow> (Inl (task_not_found i), st)
      | Some t \<Rightarrow>
          (let new = (\<lambda>t. (patch t)\<lparr>t_updated_at := clock 0 s\<rparr>)
           in (Inr (new t), st\<lparr>st_tasks := update_by t_id i new (st_tasks st)\<rparr>)))"

definition transition_task :: "draws \<Rightarrow> string \<Rightarrow> task_status \<Rightarrow> task store_op" where
  "transition_task s i status st =
     (case get_task i st of
        None \<Rightarrow> (Inl (task_not_found i), st)
      | Some t \<Rightarrow>
          (case assert_transition (t_status t) status of
             Inl e \<Rightarrow> (Inl e, st)
           | Inr _ \<Rightarrow>
               (let new = (\<lambda>t. t\<lparr>t_status := status, t_updated_at := clock 0 s\<rparr>)
                in (Inr (new t),
                    record_audit (sub 1 s)
                      (task_audit t ''task.status_changed''
                         [(''from'', JStr (status_name (t_status t))), (''to'', JStr (status_name status))])
                      (st\<lparr>st_tasks := update_by t_id i new (st_tasks st)\<rparr>)))))"

section \<open>Task runs, pull requests and branch leases\<close>

text \<open>A create operation is given the entity but its id and its two dates.\<close>

definition create_task_run :: "draws \<Rightarrow> (string \<Rightarrow> time \<Rightarrow> task_run) \<Rightarrow> task_run store_op" where
  "create_task_run s mk st =
     (let r = mk (fresh_id ''run'' 0 s) (clock 0 s) in (Inr r, st\<lparr>st_runs := st_runs st @ [r]\<rparr>))"

definition update_task_run :: "draws \<Rightarrow> string \<Rightarrow> (task_run \<Rightarrow> task_run) \<Rightarrow> task_run store_op" where
  "update_task_run s i patch st =
     (case find_by tr_id i (st_runs st) of
        None \<Rightarrow> (Inl (Error (''Task run not found: '' @ i)), st)
      | Some r \<Rightarrow>
          (let new = (\<lambda>r. (patch r)\<lparr>tr_updated_at := clock 0 s\<rparr>)
           in (Inr (new r), st\<lparr>st_runs := update_by tr_id i new (st_runs st)\<rparr>)))"

definition list_task_runs :: "string option \<Rightarrow> store \<Rightarrow> task_run list" where
  "list_task_runs i st = filter (\<lambda>r. i = None \<or> Some (tr_task_id r) = i) (st_runs st)"

definition create_pull_request :: "draws \<Rightarrow> (string \<Rightarrow> time \<Rightarrow> pull_request) \<Rightarrow> pull_request store_op" where
  "create_pull_request s mk st =
     (let p = mk (fresh_id ''pr'' 0 s) (clock 0 s)
      in (Inr p, st\<lparr>st_pull_requests := st_pull_requests st @ [p]\<rparr>))"

definition list_pull_requests :: "string option \<Rightarrow> store \<Rightarrow> pull_request list" where
  "list_pull_requests i st = filter (\<lambda>p. i = None \<or> Some (pr_task_id p) = i) (st_pull_requests st)"

definition create_branch_lease :: "draws \<Rightarrow> (string \<Rightarrow> time \<Rightarrow> branch_lease) \<Rightarrow> branch_lease store_op" where
  "create_branch_lease s mk st =
     (let l = mk (fresh_id ''lease'' 0 s) (clock 0 s) in (Inr l, st\<lparr>st_leases := st_leases st @ [l]\<rparr>))"

definition get_branch_lease :: "string \<Rightarrow> store \<Rightarrow> branch_lease option" where
  "get_branch_lease i st = find_by bl_id i (st_leases st)"

definition update_branch_lease :: "draws \<Rightarrow> string \<Rightarrow> (branch_lease \<Rightarrow> branch_lease) \<Rightarrow> branch_lease store_op" where
  "update_branch_lease s i patch st =
     (case get_branch_lease i st of
        None \<Rightarrow> (Inl (Error (''Branch lease not found: '' @ i)), st)
      | Some l \<Rightarrow>
          (let new = (\<lambda>l. (patch l)\<lparr>bl_updated_at := clock 0 s\<rparr>)
           in (Inr (new l), st\<lparr>st_leases := update_by bl_id i new (st_leases st)\<rparr>)))"

definition release_branch_lease :: "draws \<Rightarrow> string \<Rightarrow> branch_lease store_op" where
  "release_branch_lease s i =
     update_branch_lease (sub 0 s) i
       (\<lambda>l. l\<lparr>bl_status := LeaseReleased, bl_released_at := Some (clock 0 s)\<rparr>)"

definition list_branch_leases :: "string option \<Rightarrow> lease_status option \<Rightarrow> store \<Rightarrow> branch_lease list" where
  "list_branch_leases repo status st =
     filter (\<lambda>l. (repo = None \<or> Some (bl_repo_id l) = repo) \<and> (status = None \<or> Some (bl_status l) = status))
       (st_leases st)"

definition list_active_branch_leases :: "string \<Rightarrow> store \<Rightarrow> branch_lease list" where
  "list_active_branch_leases repo = list_branch_leases (Some repo) (Some LeaseActive)"

definition list_branch_leases_by_run :: "string \<Rightarrow> store \<Rightarrow> branch_lease list" where
  "list_branch_leases_by_run run st = filter (\<lambda>l. bl_task_run_id l = run) (st_leases st)"

section \<open>Simulations and conflict risks\<close>

definition simulation_cmp :: "merge_simulation \<Rightarrow> merge_simulation \<Rightarrow> int" where
  "simulation_cmp = cmp_or (\<lambda>l r. num_cmp (ms_created_at r) (ms_created_at l))
                           (\<lambda>l r. locale_compare (ms_id l) (ms_id r))"

definition list_merge_simulations ::
  "string option \<Rightarrow> string option \<Rightarrow> string option \<Rightarrow> store \<Rightarrow> merge_simulation list" where
  "list_merge_simulations repo run lease st =
     sort_by simulation_cmp
       (filter (\<lambda>m. (repo = None \<or> Some (ms_repo_id m) = repo) \<and>
                    (run = None \<or> ms_task_run_id m = run) \<and>
                    (lease = None \<or> ms_branch_lease_id m = lease)) (st_simulations st))"

definition head :: "'a list \<Rightarrow> 'a option" where
  "head xs = (case xs of [] \<Rightarrow> None | x # _ \<Rightarrow> Some x)"

definition latest_simulation_for_lease :: "string \<Rightarrow> store \<Rightarrow> merge_simulation option" where
  "latest_simulation_for_lease lease st = head (list_merge_simulations None None (Some lease) st)"

definition latest_simulation_for_run :: "string \<Rightarrow> store \<Rightarrow> merge_simulation option" where
  "latest_simulation_for_run run st = head (list_merge_simulations None (Some run) None st)"

definition latest_simulation_for_pair :: "branch_lease \<Rightarrow> branch_lease \<Rightarrow> store \<Rightarrow> merge_simulation option" where
  "latest_simulation_for_pair source target st =
     head (sort_by simulation_cmp
       (filter (\<lambda>m. ms_branch_lease_id m \<in> {Some (bl_id source), Some (bl_id target)}) (st_simulations st)))"

definition risk_cmp :: "conflict_risk \<Rightarrow> conflict_risk \<Rightarrow> int" where
  "risk_cmp = cmp_or (\<lambda>l r. num_cmp (cr_risk_score r) (cr_risk_score l))
                     (\<lambda>l r. locale_compare (cr_id l) (cr_id r))"

text \<open>The pairs the two nested index loops visit, in their order.\<close>

fun index_pairs :: "'a list \<Rightarrow> ('a \<times> 'a) list" where
  "index_pairs [] = []"
| "index_pairs (x # xs) = map (Pair x) xs @ index_pairs xs"

definition different_work :: "branch_lease \<Rightarrow> branch_lease \<Rightarrow> bool" where
  "different_work a b \<longleftrightarrow> bl_task_run_id a \<noteq> bl_task_run_id b \<and> bl_task_id a \<noteq> bl_task_id b"

definition risk_of_pair :: "draws \<Rightarrow> store \<Rightarrow> nat \<Rightarrow> branch_lease \<Rightarrow> branch_lease \<Rightarrow> conflict_risk" where
  "risk_of_pair s st k a b = create_conflict_risk a b (clock k s) (latest_simulation_for_pair a b st)"

definition compute_repo_conflict_risks :: "draws \<Rightarrow> string \<Rightarrow> store \<Rightarrow> conflict_risk list" where
  "compute_repo_conflict_risks s repo st =
     sort_by risk_cmp
       (map (\<lambda>(k, a, b). risk_of_pair s st k a b)
         (enumerate 0 (filter (\<lambda>(a, b). different_work a b)
           (index_pairs (list_active_branch_leases repo st)))))"

definition compute_conflict_risks_for_lease :: "draws \<Rightarrow> string \<Rightarrow> store \<Rightarrow> conflict_risk list" where
  "compute_conflict_risks_for_lease s i st =
     (case get_branch_lease i st of
        None \<Rightarrow> []
      | Some l \<Rightarrow>
          if bl_status l \<noteq> LeaseActive then []
          else sort_by risk_cmp
            (map (\<lambda>(k, b). risk_of_pair s st k l b)
              (enumerate 0 (filter (\<lambda>b. bl_id b \<noteq> bl_id l \<and> different_work b l)
                (list_active_branch_leases (bl_repo_id l) st)))))"

definition compute_conflict_risks_for_run :: "draws \<Rightarrow> string \<Rightarrow> store \<Rightarrow> conflict_risk list" where
  "compute_conflict_risks_for_run s run st =
     (let ids = set (map bl_id (list_branch_leases_by_run run st))
      in filter (\<lambda>r. cr_source_lease_id r \<in> ids \<or> cr_target_lease_id r \<in> ids)
           (concat (map (\<lambda>(k, repo). compute_repo_conflict_risks (sub k s) (r_id repo) st)
              (enumerate 0 (st_repos st)))))"

definition highest_conflict_risk_for_lease :: "draws \<Rightarrow> string \<Rightarrow> store \<Rightarrow> conflict_risk option" where
  "highest_conflict_risk_for_lease s i st = head (compute_conflict_risks_for_lease s i st)"

section \<open>The merge queue\<close>

record queue_fields =
  qf_risk_score :: num
  qf_conflict_risk_score :: num
  qf_status :: queue_status
  qf_reasons :: "string list"
  qf_blocking_reasons :: "string list"
  qf_recommendation :: queue_recommendation
  qf_simulation_status :: "simulation_status option"
  qf_last_simulation_at :: "time option"

text \<open>\<open>[...new Set(values)]\<close> keeps the first of equal elements.\<close>

fun unique_ordered :: "'a list \<Rightarrow> 'a list" where
  "unique_ordered [] = []"
| "unique_ordered (x # xs) = x # filter (\<lambda>y. y \<noteq> x) (unique_ordered xs)"

definition merge_queue_fields_for_lease :: "draws \<Rightarrow> string \<Rightarrow> store \<Rightarrow> queue_fields" where
  "merge_queue_fields_for_lease s lease st =
     (let risk = highest_conflict_risk_for_lease s lease st;
          sim = latest_simulation_for_lease lease st;
          conflict = opt_default (map_option cr_risk_score risk) 0;
          score = max conflict (opt_default (map_option ms_risk_contribution sim) 0);
          d = merge_queue_decision score (map_option ms_status sim)
      in \<lparr>qf_risk_score = score, qf_conflict_risk_score = conflict, qf_status = qd_status d,
          qf_reasons = unique_ordered (qd_reasons d @ opt_default (map_option cr_reasons risk) []),
          qf_blocking_reasons = qd_blocking_reasons d, qf_recommendation = qd_recommendation d,
          qf_simulation_status = map_option ms_status sim,
          qf_last_simulation_at = map_option ms_created_at sim\<rparr>)"

record queue_input =
  qi_repo_id :: string
  qi_task_id :: string
  qi_task_run_id :: string
  qi_branch_lease_id :: string
  qi_pull_request_id :: string
  qi_pull_request_url :: string
  qi_branch_name :: string
  qi_priority :: num
  qi_risk_score :: num
  qi_conflict_risk_score :: "num option"
  qi_status :: "queue_status option"
  qi_reasons :: "string list option"
  qi_blocking_reasons :: "string list option"
  qi_recommendation :: "queue_recommendation option"
  qi_simulation_status :: "simulation_status option"
  qi_last_simulation_at :: "time option"
  qi_merged_at :: "time option"
  qi_cancelled_at :: "time option"

definition create_merge_queue_entry :: "draws \<Rightarrow> queue_input \<Rightarrow> queue_entry store_op" where
  "create_merge_queue_entry s inp st =
     (let d = merge_queue_fields_for_lease (sub 1 s) (qi_branch_lease_id inp) st;
          e = \<lparr>qe_id = fresh_id ''queue'' 0 s, qe_repo_id = qi_repo_id inp, qe_task_id = qi_task_id inp,
               qe_task_run_id = qi_task_run_id inp, qe_branch_lease_id = qi_branch_lease_id inp,
               qe_pull_request_id = qi_pull_request_id inp,
               qe_pull_request_url = qi_pull_request_url inp, qe_branch_name = qi_branch_name inp,
               qe_priority = qi_priority inp,
               qe_risk_score = max (qi_risk_score inp) (qf_risk_score d),
               qe_conflict_risk_score = opt_default (qi_conflict_risk_score inp) (qf_conflict_risk_score d),
               qe_status = opt_default (qi_status inp) (qf_status d),
               qe_reasons = unique_ordered (opt_default (qi_reasons inp) [] @ qf_reasons d),
               qe_blocking_reasons = opt_default (qi_blocking_reasons inp) (qf_blocking_reasons d),
               qe_recommendation = opt_default (qi_recommendation inp) (qf_recommendation d),
               qe_simulation_status = opt_or (qi_simulation_status inp) (qf_simulation_status d),
               qe_last_simulation_at = opt_or (qi_last_simulation_at inp) (qf_last_simulation_at d),
               qe_created_at = clock 0 s, qe_updated_at = clock 0 s,
               qe_merged_at = qi_merged_at inp, qe_cancelled_at = qi_cancelled_at inp\<rparr>
      in (Inr e, st\<lparr>st_queue := st_queue st @ [e]\<rparr>))"

definition get_queue_entry :: "string \<Rightarrow> store \<Rightarrow> queue_entry option" where
  "get_queue_entry i st = find_by qe_id i (st_queue st)"

definition entry_not_found :: "string \<Rightarrow> thrown" where
  "entry_not_found i = Error (''Merge queue entry not found: '' @ i)"

definition update_merge_queue_entry :: "draws \<Rightarrow> string \<Rightarrow> (queue_entry \<Rightarrow> queue_entry) \<Rightarrow> queue_entry store_op" where
  "update_merge_queue_entry s i patch st =
     (case get_queue_entry i st of
        None \<Rightarrow> (Inl (entry_not_found i), st)
      | Some e \<Rightarrow>
          (let new = (\<lambda>e. (patch e)\<lparr>qe_updated_at := clock 0 s\<rparr>)
           in (Inr (new e), st\<lparr>st_queue := update_by qe_id i new (st_queue st)\<rparr>)))"

definition queue_cmp :: "queue_entry \<Rightarrow> queue_entry \<Rightarrow> int" where
  "queue_cmp = cmp_or (\<lambda>l r. num_cmp (qe_priority l) (qe_priority r))
                      (\<lambda>l r. num_cmp (qe_created_at l) (qe_created_at r))"

definition list_merge_queue_entries :: "string option \<Rightarrow> store \<Rightarrow> queue_entry list" where
  "list_merge_queue_entries repo st =
     sort_by queue_cmp (filter (\<lambda>e. repo = None \<or> Some (qe_repo_id e) = repo) (st_queue st))"

definition apply_queue_fields :: "queue_fields \<Rightarrow> queue_entry \<Rightarrow> queue_entry" where
  "apply_queue_fields f e = e\<lparr>qe_risk_score := qf_risk_score f,
     qe_conflict_risk_score := qf_conflict_risk_score f, qe_status := qf_status f,
     qe_reasons := qf_reasons f, qe_blocking_reasons := qf_blocking_reasons f,
     qe_recommendation := qf_recommendation f, qe_simulation_status := qf_simulation_status f,
     qe_last_simulation_at := qf_last_simulation_at f\<rparr>"

definition refresh_merge_queue_entry_risk :: "draws \<Rightarrow> string \<Rightarrow> queue_entry store_op" where
  "refresh_merge_queue_entry_risk s i st =
     (case get_queue_entry i st of
        None \<Rightarrow> (Inl (entry_not_found i), st)
      | Some e \<Rightarrow>
          update_merge_queue_entry (sub 1 s) i
            (apply_queue_fields (merge_queue_fields_for_lease (sub 0 s) (qe_branch_lease_id e) st)) st)"

fun refresh_entries :: "draws \<Rightarrow> nat \<Rightarrow> string list \<Rightarrow> queue_entry list store_op" where
  "refresh_entries s k [] = op_return []"
| "refresh_entries s k (i # ids) =
     op_bind (refresh_merge_queue_entry_risk (sub k s) i) (\<lambda>x.
     op_bind (refresh_entries s (Suc k) ids) (\<lambda>xs. op_return (x # xs)))"

definition refresh_merge_queue_entries_for_lease :: "draws \<Rightarrow> string \<Rightarrow> queue_entry list store_op" where
  "refresh_merge_queue_entries_for_lease s lease st =
     refresh_entries s 0
       (map qe_id (filter (\<lambda>e. qe_branch_lease_id e = lease \<and> qe_status e \<noteq> MqMerged \<and> qe_status e \<noteq> MqCancelled)
          (st_queue st))) st"

definition mark_merge_queue_entry_merged :: "draws \<Rightarrow> string \<Rightarrow> queue_entry store_op" where
  "mark_merge_queue_entry_merged s i st =
     (case get_queue_entry i st of
        None \<Rightarrow> (Inl (entry_not_found i), st)
      | Some e \<Rightarrow>
          op_bind (release_branch_lease (sub 0 s) (qe_branch_lease_id e)) (\<lambda>_.
            update_merge_queue_entry (sub 1 s) i
              (\<lambda>e. e\<lparr>qe_status := MqMerged, qe_merged_at := Some (clock 2 s)\<rparr>)) st)"

definition cancel_merge_queue_entry :: "draws \<Rightarrow> string \<Rightarrow> string option \<Rightarrow> queue_entry store_op" where
  "cancel_merge_queue_entry s i reason st =
     (case get_queue_entry i st of
        None \<Rightarrow> (Inl (entry_not_found i), st)
      | Some e0 \<Rightarrow>
          op_bind (release_branch_lease (sub 0 s) (qe_branch_lease_id e0)) (\<lambda>_.
            update_merge_queue_entry (sub 1 s) i
              (\<lambda>e. e\<lparr>qe_status := MqCancelled, qe_cancelled_at := Some (clock 2 s),
                 qe_reasons := qe_reasons e0 @ [opt_default reason ''cancelled'']\<rparr>)) st)"

text \<open>The two statements of \<open>recordMergeSimulation\<close> for a simulation of a lease.\<close>

definition update_simulated_task :: "draws \<Rightarrow> merge_simulation \<Rightarrow> string \<Rightarrow> unit store_op" where
  "update_simulated_task s m lease_id st =
     (case get_branch_lease lease_id st of
        None \<Rightarrow> (Inr (), st)
      | Some l \<Rightarrow>
          (let score = max (opt_default (map_option cr_risk_score
                 (highest_conflict_risk_for_lease (sub 0 s) (bl_id l) st)) 0) (ms_risk_contribution m)
           in op_bind (update_task (sub 1 s) (bl_task_id l) (\<lambda>t. t\<lparr>t_conflict_risk := Some score\<rparr>))
                (\<lambda>_. op_return ()) st))"

definition record_merge_simulation :: "draws \<Rightarrow> merge_simulation \<Rightarrow> merge_simulation store_op" where
  "record_merge_simulation s m st =
     (let st1 = st\<lparr>st_simulations := st_simulations st @ [m]\<rparr>
      in (case ms_branch_lease_id m of
            None \<Rightarrow> (Inr m, st1)
          | Some lease \<Rightarrow>
              if lease = [] then (Inr m, st1)
              else op_bind (update_simulated_task s m lease) (\<lambda>_.
                   op_bind (refresh_merge_queue_entries_for_lease (sub 2 s) lease) (\<lambda>_. op_return m)) st1))"

section \<open>Tasks: the audit trail replays their history\<close>

text \<open>The status an audit entry says a task has from then on.\<close>

definition metadata_status :: "string \<Rightarrow> audit_log \<Rightarrow> task_status option" where
  "metadata_status key l =
     (case obj_get (al_metadata l) key of
        JStr name \<Rightarrow> (case parse_task_status name of Inl _ \<Rightarrow> None | Inr t \<Rightarrow> Some t)
      | _ \<Rightarrow> None)"

definition logged_status :: "string \<Rightarrow> audit_log \<Rightarrow> task_status option" where
  "logged_status i l =
     (if al_target_type l \<noteq> ''task'' \<or> al_target_id l \<noteq> i then None
      else if al_action l = ''task.created'' then metadata_status ''status'' l
      else if al_action l = ''task.status_changed'' then metadata_status ''to'' l
      else None)"

definition trail :: "string \<Rightarrow> audit_log list \<Rightarrow> task_status list" where
  "trail i logs = rev (List.map_filter (logged_status i) logs)"

declare status_name.simps [simp del]

lemma trail_Nil [simp]: "trail i [] = []"
  by (simp add: trail_def)

lemma trail_snoc [simp]:
  "trail i (logs @ [l]) = (case logged_status i l of None \<Rightarrow> trail i logs | Some t \<Rightarrow> t # trail i logs)"
  by (simp add: trail_def List.map_filter_def split: option.splits)

lemma parse_status_name: "parse_task_status (status_name t) = Inr t"
  by (cases t) (simp_all add: parse_task_status_def task_statuses_def status_name.simps)

lemma logged_status_task_audit [simp]:
  "logged_status i (task_audit t ''task.created'' [(''status'', JStr (status_name x))] k now) =
     (if t_id t = i then Some x else None)"
  "logged_status i (task_audit t ''task.status_changed'' [(''from'', f), (''to'', JStr (status_name x))] k now) =
     (if t_id t = i then Some x else None)"
  by (auto simp: logged_status_def metadata_status_def task_audit_def parse_status_name)

text \<open>A call of an operation on tasks, runs, leases, simulations, the merge queue or the audit log.\<close>

datatype store_call =
    CallCreateRepo draws js
  | CallCreateTask draws js
  | CallUpdateTask draws string "task \<Rightarrow> task"
  | CallTransitionTask draws string task_status
  | CallCreateTaskRun draws "string \<Rightarrow> time \<Rightarrow> task_run"
  | CallUpdateTaskRun draws string "task_run \<Rightarrow> task_run"
  | CallCreatePullRequest draws "string \<Rightarrow> time \<Rightarrow> pull_request"
  | CallCreateLease draws "string \<Rightarrow> time \<Rightarrow> branch_lease"
  | CallUpdateLease draws string "branch_lease \<Rightarrow> branch_lease"
  | CallReleaseLease draws string
  | CallRecordSimulation draws merge_simulation
  | CallCreateEntry draws queue_input
  | CallUpdateEntry draws string "queue_entry \<Rightarrow> queue_entry"
  | CallRefreshEntry draws string
  | CallRefreshLease draws string
  | CallMarkMerged draws string
  | CallCancelEntry draws string "string option"
  | CallRecordAudit draws "string \<Rightarrow> time \<Rightarrow> audit_log"

text \<open>The store a call leaves, returned from or thrown.\<close>

fun perform :: "store_call \<Rightarrow> store \<Rightarrow> store" where
  "perform (CallCreateRepo s input) st = snd (create_repo s input st)"
| "perform (CallCreateTask s input) st = snd (create_task s input st)"
| "perform (CallUpdateTask s i patch) st = snd (update_task s i patch st)"
| "perform (CallTransitionTask s i status) st = snd (transition_task s i status st)"
| "perform (CallCreateTaskRun s mk) st = snd (create_task_run s mk st)"
| "perform (CallUpdateTaskRun s i patch) st = snd (update_task_run s i patch st)"
| "perform (CallCreatePullRequest s mk) st = snd (create_pull_request s mk st)"
| "perform (CallCreateLease s mk) st = snd (create_branch_lease s mk st)"
| "perform (CallUpdateLease s i patch) st = snd (update_branch_lease s i patch st)"
| "perform (CallReleaseLease s i) st = snd (release_branch_lease s i st)"
| "perform (CallRecordSimulation s m) st = snd (record_merge_simulation s m st)"
| "perform (CallCreateEntry s inp) st = snd (create_merge_queue_entry s inp st)"
| "perform (CallUpdateEntry s i patch) st = snd (update_merge_queue_entry s i patch st)"
| "perform (CallRefreshEntry s i) st = snd (refresh_merge_queue_entry_risk s i st)"
| "perform (CallRefreshLease s lease) st = snd (refresh_merge_queue_entries_for_lease s lease st)"
| "perform (CallMarkMerged s i) st = snd (mark_merge_queue_entry_merged s i st)"
| "perform (CallCancelEntry s i reason) st = snd (cancel_merge_queue_entry s i reason st)"
| "perform (CallRecordAudit s mk) st = record_audit s mk st"

text \<open>
  Three calls can break the agreement of the tasks with their trail: \<open>updateTask\<close> takes any patch, also one
  of the status or the id, \<open>recordAudit\<close> any entry, also one that says a status changed, and an id could
  be drawn twice.  A careful call does none of these.
\<close>

fun careful :: "store_call \<Rightarrow> store \<Rightarrow> bool" where
  "careful (CallCreateTask s input) st =
     (trail (fresh_id ''task'' 0 s) (st_audit st) = [] \<and> fresh_id ''task'' 0 s \<notin> set (map t_id (st_tasks st)))"
| "careful (CallUpdateTask s i patch) st =
     list_all (\<lambda>t. t_id (patch t) = t_id t \<and> t_status (patch t) = t_status t) (st_tasks st)"
| "careful (CallRecordAudit s mk) st =
     (al_action (mk (fresh_id ''audit'' 0 s) (clock 0 s)) \<notin> set [''task.created'', ''task.status_changed''])"
| "careful _ st = True"

fun careful_calls :: "store_call list \<Rightarrow> store \<Rightarrow> bool" where
  "careful_calls [] st = True"
| "careful_calls (c # cs) st = (careful c st \<and> careful_calls cs (perform c st))"

definition trail_inv :: "store \<Rightarrow> bool" where
  "trail_inv st \<longleftrightarrow> distinct (map t_id (st_tasks st)) \<and>
     (\<forall>t \<in> set (st_tasks st). history (trail (t_id t) (st_audit st)) \<and>
        hd (trail (t_id t) (st_audit st)) = t_status t)"

text \<open>Operations that leave ids and statuses of the tasks and the audit log alone.\<close>

definition same_tasks :: "store \<Rightarrow> store \<Rightarrow> bool" where
  "same_tasks st st' \<longleftrightarrow> st_audit st' = st_audit st \<and>
     map (\<lambda>t. (t_id t, t_status t)) (st_tasks st') = map (\<lambda>t. (t_id t, t_status t)) (st_tasks st)"

lemma same_tasks_order: "reflp same_tasks" "transp same_tasks"
  by (auto simp: same_tasks_def intro: reflpI transpI)

lemmas keeps_same_tasks =
  keeps_return[OF same_tasks_order(1)] keeps_throw[OF same_tasks_order(1)]
  keeps_bind[OF same_tasks_order(2)]

lemma same_tasks_inv:
  assumes "same_tasks st st'" and "trail_inv st"
  shows "trail_inv st'"
proof -
  let ?p = "\<lambda>t. (t_id t, t_status t)"
  have eq: "map ?p (st_tasks st') = map ?p (st_tasks st)" and a: "st_audit st' = st_audit st"
    using assms(1) by (simp_all add: same_tasks_def)
  have "map t_id xs = map fst (map ?p xs)" for xs by simp
  then have ids: "map t_id (st_tasks st') = map t_id (st_tasks st)" using eq by metis
  have "\<exists>u \<in> set (st_tasks st). ?p u = ?p t" if "t \<in> set (st_tasks st')" for t
  proof -
    have "?p t \<in> set (map ?p (st_tasks st'))" using that by simp
    then show ?thesis unfolding eq by force
  qed
  then show ?thesis
    using assms(2) ids a unfolding trail_inv_def by (metis prod.inject)
qed

lemma map_update_by:
  "(\<And>x. x \<in> set xs \<Longrightarrow> f (g x) = f x) \<Longrightarrow> map f (update_by key k g xs) = map f xs"
  by (induction xs) auto

lemma update_task_same:
  "list_all (\<lambda>t. t_id (patch t) = t_id t \<and> t_status (patch t) = t_status t) (st_tasks st) \<Longrightarrow>
   same_tasks st (snd (update_task s i patch st))"
  by (auto simp: update_task_def same_tasks_def Let_def list_all_iff intro!: map_update_by split: option.splits)

lemma keeps_update_task:
  "(\<And>t. t_id (patch t) = t_id t \<and> t_status (patch t) = t_status t) \<Longrightarrow>
   keeps same_tasks (update_task s i patch)"
  by (rule keepsI)
    (auto simp: update_task_def same_tasks_def Let_def map_update_by split: option.splits)

lemma keeps_update_lease: "keeps same_tasks (update_branch_lease s i patch)"
  by (rule keepsI) (auto simp: update_branch_lease_def same_tasks_def Let_def split: option.splits)

lemma keeps_release_lease: "keeps same_tasks (release_branch_lease s i)"
  by (simp add: release_branch_lease_def keeps_update_lease)

lemma keeps_update_entry: "keeps same_tasks (update_merge_queue_entry s i patch)"
  by (rule keepsI) (auto simp: update_merge_queue_entry_def same_tasks_def Let_def split: option.splits)

lemma keeps_refresh: "keeps same_tasks (refresh_merge_queue_entry_risk s i)"
proof (rule keepsI)
  fix st r st' assume h: "refresh_merge_queue_entry_risk s i st = (r, st')"
  show "same_tasks st st'"
  proof (cases "get_queue_entry i st")
    case None
    then show ?thesis
      using h by (simp add: refresh_merge_queue_entry_risk_def reflpD[OF same_tasks_order(1)])
  next
    case (Some e)
    then show ?thesis
      using h keepsD[OF keeps_update_entry] by (auto simp: refresh_merge_queue_entry_risk_def)
  qed
qed

lemma keeps_refresh_entries: "keeps same_tasks (refresh_entries s k ids)"
  by (induction ids arbitrary: k) (auto intro!: keeps_same_tasks keeps_refresh)

lemma keeps_refresh_for_lease: "keeps same_tasks (refresh_merge_queue_entries_for_lease s lease)"
  by (rule keepsI)
    (auto simp: refresh_merge_queue_entries_for_lease_def dest: keepsD[OF keeps_refresh_entries])

lemma keeps_mark_merged: "keeps same_tasks (mark_merge_queue_entry_merged s i)"
proof (rule keepsI)
  fix st r st' assume h: "mark_merge_queue_entry_merged s i st = (r, st')"
  show "same_tasks st st'"
  proof (cases "get_queue_entry i st")
    case None
    then show ?thesis
      using h by (simp add: mark_merge_queue_entry_merged_def reflpD[OF same_tasks_order(1)])
  next
    case (Some e)
    then show ?thesis
      using h unfolding mark_merge_queue_entry_merged_def
      by (auto dest!: keepsD[rotated] intro!: keeps_same_tasks keeps_release_lease keeps_update_entry)
  qed
qed

lemma keeps_cancel: "keeps same_tasks (cancel_merge_queue_entry s i reason)"
proof (rule keepsI)
  fix st r st' assume h: "cancel_merge_queue_entry s i reason st = (r, st')"
  show "same_tasks st st'"
  proof (cases "get_queue_entry i st")
    case None
    then show ?thesis
      using h by (simp add: cancel_merge_queue_entry_def reflpD[OF same_tasks_order(1)])
  next
    case (Some e)
    then show ?thesis
      using h unfolding cancel_merge_queue_entry_def
      by (auto dest!: keepsD[rotated] intro!: keeps_same_tasks keeps_release_lease keeps_update_entry)
  qed
qed

lemma keeps_update_simulated: "keeps same_tasks (update_simulated_task s m lease)"
proof (rule keepsI)
  fix st r st' assume h: "update_simulated_task s m lease st = (r, st')"
  show "same_tasks st st'"
  proof (cases "get_branch_lease lease st")
    case None
    then show ?thesis using h by (simp add: update_simulated_task_def reflpD[OF same_tasks_order(1)])
  next
    case (Some l)
    then obtain c where
      "op_bind (update_task (sub 1 s) (bl_task_id l) (\<lambda>t. t\<lparr>t_conflict_risk := Some c\<rparr>))
         (\<lambda>_. op_return ()) st = (r, st')"
      using h by (simp only: update_simulated_task_def option.case Let_def)
    moreover have "keeps same_tasks
      (op_bind (update_task (sub 1 s) (bl_task_id l) (\<lambda>t. t\<lparr>t_conflict_risk := Some c\<rparr>))
         (\<lambda>_. op_return ()))"
      by (intro keeps_same_tasks keeps_update_task) simp
    ultimately show ?thesis by (rule keepsD[rotated])
  qed
qed

lemma keeps_simulate: "keeps same_tasks (record_merge_simulation s m)"
proof (rule keepsI)
  fix st r st' assume h: "record_merge_simulation s m st = (r, st')"
  let ?st1 = "st\<lparr>st_simulations := st_simulations st @ [m]\<rparr>"
  have s1: "same_tasks st ?st1" by (simp add: same_tasks_def)
  have "same_tasks ?st1 st'"
  proof (cases "truthy_str (ms_branch_lease_id m)")
    case True
    let ?m = "op_bind (update_simulated_task s m (the (ms_branch_lease_id m))) (\<lambda>_.
      op_bind (refresh_merge_queue_entries_for_lease (sub 2 s) (the (ms_branch_lease_id m))) (\<lambda>_. op_return m))"
    have "?m ?st1 = (r, st')"
      using h True by (auto simp: record_merge_simulation_def Let_def truthy_str_def split: option.splits)
    moreover have "keeps same_tasks ?m"
      by (intro keeps_same_tasks keeps_update_simulated keeps_refresh_for_lease)
    ultimately show ?thesis by (rule keepsD[rotated])
  next
    case False
    then show ?thesis
      using h reflpD[OF same_tasks_order(1)]
      by (auto simp: record_merge_simulation_def Let_def truthy_str_def split: option.splits)
  qed
  with s1 show "same_tasks st st'" by (rule transpD[OF same_tasks_order(2)])
qed

lemma get_task_in: "get_task i st = Some t \<Longrightarrow> t \<in> set (st_tasks st) \<and> t_id t = i"
  by (auto simp: get_task_def dest: find_by_Some)

text \<open>What a transition does, on every branch.\<close>

lemma transition_task_cases:
  "transition_task s i status st =
     (case get_task i st of
        None \<Rightarrow> (Inl (task_not_found i), st)
      | Some t \<Rightarrow>
          if can_transition (t_status t) status
          then (Inr (t\<lparr>t_status := status, t_updated_at := clock 0 s\<rparr>),
                record_audit (sub 1 s)
                  (task_audit t ''task.status_changed''
                     [(''from'', JStr (status_name (t_status t))), (''to'', JStr (status_name status))])
                  (st\<lparr>st_tasks := update_by t_id i
                     (\<lambda>t. t\<lparr>t_status := status, t_updated_at := clock 0 s\<rparr>) (st_tasks st)\<rparr>))
          else (Inl (Error (''Invalid task status transition: '' @ status_name (t_status t) @ '' -> ''
                            @ status_name status)), st))"
  by (simp add: transition_task_def assert_transition_def Let_def split: option.splits)

lemma update_by_distinct:
  "distinct (map key xs) \<Longrightarrow> x \<in> set xs \<Longrightarrow> key x = k \<Longrightarrow> (\<And>x. key (f x) = key x) \<Longrightarrow>
   set (update_by key k f xs) = insert (f x) (set xs - {x})"
proof (induction xs)
  case (Cons y ys)
  show ?case
  proof (cases "key y = k")
    case True
    then have "y = x" "y \<notin> set ys"
      using Cons.prems by (auto simp: image_iff)
    then show ?thesis using True by auto
  next
    case False
    then have "y \<noteq> x" "x \<in> set ys" using Cons.prems by auto
    then show ?thesis using False Cons by auto
  qed
qed simp

lemma transition_inv:
  assumes "trail_inv st" and "transition_task s i status st = (r, st')"
  shows "trail_inv st'"
proof (cases "get_task i st")
  case None
  then show ?thesis using assms by (simp add: transition_task_cases)
next
  case (Some t)
  note t = get_task_in[OF Some]
  show ?thesis
  proof (cases "can_transition (t_status t) status")
    case False
    then show ?thesis using assms Some by (simp add: transition_task_cases)
  next
    case True
    let ?f = "\<lambda>t. t\<lparr>t_status := status, t_updated_at := clock 0 s\<rparr>"
    have st': "st_tasks st' = update_by t_id i ?f (st_tasks st)"
      "\<And>j. trail j (st_audit st') = (if j = i then status # trail i (st_audit st) else trail j (st_audit st))"
      using assms(2) Some True t by (auto simp: transition_task_cases record_audit_def)
    have d: "distinct (map t_id (st_tasks st))" using assms(1) by (simp add: trail_inv_def)
    have tasks: "set (st_tasks st') = insert (?f t) (set (st_tasks st) - {t})"
      unfolding st'(1) by (rule update_by_distinct[OF d]) (use t in auto)
    have old: "history (trail (t_id u) (st_audit st)) \<and> hd (trail (t_id u) (st_audit st)) = t_status u"
      if "u \<in> set (st_tasks st)" for u
      using assms(1) that by (simp add: trail_inv_def)
    obtain h where h: "trail i (st_audit st) = t_status t # h"
      using old[of t] t by (cases "trail i (st_audit st)") auto
    have "history (status # trail i (st_audit st))"
      unfolding h by (rule history.step) (use old[of t] t h True in auto)
    moreover have "t_id u \<noteq> i" if "u \<in> set (st_tasks st) - {t}" for u
      using that t d by (auto simp: distinct_map inj_on_def)
    ultimately show ?thesis
      using d old t unfolding trail_inv_def tasks st'(2) by (auto simp: st'(1))
  qed
qed

lemma create_task_ok:
  "create_task s input st = (Inr t, st') \<Longrightarrow> t_status t = Draft \<and> t_id t = fresh_id ''task'' 0 s \<and>
   st' = record_audit (sub 1 s) (task_audit t ''task.created'' [(''status'', JStr (status_name Draft))])
     (st\<lparr>st_tasks := st_tasks st @ [t]\<rparr>)"
  by (auto simp: create_task_def Let_def task_from_input_def split: sum.splits)

lemma create_inv:
  assumes "trail_inv st" and "careful (CallCreateTask s input) st"
  shows "trail_inv (snd (create_task s input st))"
proof (cases "create_task s input st")
  case (Pair r st')
  show ?thesis
  proof (cases r)
    case (Inl e)
    then show ?thesis using assms(1) Pair by (auto simp: create_task_def Let_def split: sum.splits)
  next
    case (Inr t)
    note ok = create_task_ok[OF Pair[unfolded Inr]]
    have st': "st_tasks st' = st_tasks st @ [t]" "t_status t = Draft"
      "\<And>j. trail j (st_audit st') = (if j = t_id t then [Draft] else trail j (st_audit st))"
      using ok assms(2) by (auto simp: record_audit_def)
    have fresh: "t_id t \<notin> t_id ` set (st_tasks st)" using ok assms(2) by simp
    then have "t_id u \<noteq> t_id t" if "u \<in> set (st_tasks st)" for u
      using that by (metis image_eqI)
    then have "trail_inv st'"
      using assms(1) fresh history.start unfolding trail_inv_def st'(1,3) by (simp add: st'(2))
    then show ?thesis by (simp add: Pair)
  qed
qed

lemma audit_inv:
  assumes "trail_inv st" and "careful (CallRecordAudit s mk) st"
  shows "trail_inv (record_audit s mk st)"
proof -
  have "logged_status i (mk (fresh_id ''audit'' 0 s) (clock 0 s)) = None" for i
    using assms(2) by (simp add: logged_status_def)
  then have tr: "trail i (st_audit (record_audit s mk st)) = trail i (st_audit st)" for i
    by (simp add: record_audit_def)
  have "st_tasks (record_audit s mk st) = st_tasks st" by (simp add: record_audit_def)
  then show ?thesis using assms(1) unfolding trail_inv_def tr by simp
qed

lemma keeps_snd: "keeps R m \<Longrightarrow> R st (snd (m st))"
  by (simp add: keeps_def)

text \<open>The other calls leave the tasks and their trail alone.\<close>

lemma other_calls_same:
  "same_tasks st (snd (create_repo s input st))" "same_tasks st (snd (create_task_run s mkr st))"
  "same_tasks st (snd (update_task_run s i pr st))" "same_tasks st (snd (create_pull_request s mkp st))"
  "same_tasks st (snd (create_branch_lease s mkl st))" "same_tasks st (snd (create_merge_queue_entry s inp st))"
  by (auto simp: same_tasks_def create_repo_def create_task_run_def update_task_run_def create_pull_request_def
      create_branch_lease_def create_merge_queue_entry_def Let_def split: sum.split option.split)

lemmas kept_calls =
  keeps_snd[OF keeps_update_lease] keeps_snd[OF keeps_release_lease] keeps_snd[OF keeps_simulate]
  keeps_snd[OF keeps_update_entry] keeps_snd[OF keeps_refresh] keeps_snd[OF keeps_refresh_for_lease]
  keeps_snd[OF keeps_mark_merged] keeps_snd[OF keeps_cancel]

lemma perform_inv:
  assumes "careful c st" and "trail_inv st"
  shows "trail_inv (perform c st)"
proof (cases c)
  case (CallCreateTask s input)
  then show ?thesis using assms create_inv[of st s input] by simp
next
  case (CallTransitionTask s i status)
  then show ?thesis using transition_inv[OF assms(2), of s i status] by (metis perform.simps(4) prod.collapse)
next
  case (CallUpdateTask s i patch)
  then show ?thesis using assms same_tasks_inv[OF update_task_same] by simp
next
  case (CallRecordAudit s mk)
  then show ?thesis using assms audit_inv[of st s mk] by simp
qed (use assms(2) in \<open>auto intro: same_tasks_inv[OF other_calls_same(1)] same_tasks_inv[OF other_calls_same(2)]
    same_tasks_inv[OF other_calls_same(3)] same_tasks_inv[OF other_calls_same(4)]
    same_tasks_inv[OF other_calls_same(5)] same_tasks_inv[OF other_calls_same(6)] same_tasks_inv[OF kept_calls(1)]
    same_tasks_inv[OF kept_calls(2)] same_tasks_inv[OF kept_calls(3)] same_tasks_inv[OF kept_calls(4)]
    same_tasks_inv[OF kept_calls(5)] same_tasks_inv[OF kept_calls(6)] same_tasks_inv[OF kept_calls(7)]
    same_tasks_inv[OF kept_calls(8)]\<close>)

lemma careful_calls_inv: "careful_calls cs st \<Longrightarrow> trail_inv st \<Longrightarrow> trail_inv (fold perform cs st)"
  by (induction cs arbitrary: st) (simp_all add: perform_inv)

section \<open>Conflict risks of a repository and of a lease\<close>

interpretation simulation_cmp: js_comparator simulation_cmp
  unfolding simulation_cmp_def
  by (rule js_comparator_or)
     (rule js_comparator_flip[OF js_comparator_key[OF num_cmp.js_comparator_axioms]],
      rule js_comparator_key[OF locale_compare.js_comparator_axioms])

interpretation risk_cmp: js_comparator risk_cmp
  unfolding risk_cmp_def
  by (rule js_comparator_or)
     (rule js_comparator_flip[OF js_comparator_key[OF num_cmp.js_comparator_axioms]],
      rule js_comparator_key[OF locale_compare.js_comparator_axioms])

interpretation queue_cmp: js_comparator queue_cmp
  unfolding queue_cmp_def
  by (rule js_comparator_or; rule js_comparator_key; rule num_cmp.js_comparator_axioms)

lemma risk_cmp_le_score: "risk_cmp l r \<le> 0 \<Longrightarrow> cr_risk_score r \<le> cr_risk_score l"
  by (auto simp: risk_cmp_def cmp_or_def num_cmp_def Let_def split: if_splits)

lemma head_sort_by_risk:
  assumes "head (sort_by risk_cmp xs) = Some r"
  shows "r \<in> set xs" and "x \<in> set xs \<Longrightarrow> cr_risk_score x \<le> cr_risk_score r"
proof -
  from assms obtain ys where s: "sort_by risk_cmp xs = r # ys"
    by (auto simp: head_def split: list.splits)
  have "r \<in> set (sort_by risk_cmp xs)" unfolding s by simp
  then show "r \<in> set xs" by simp
  show "cr_risk_score x \<le> cr_risk_score r" if "x \<in> set xs"
    using risk_cmp.hd_sort_by_least[OF that] risk_cmp_le_score by (simp add: s)
qed

lemma set_index_pairs: "(a, b) \<in> set (index_pairs xs) \<Longrightarrow> a \<in> set xs \<and> b \<in> set xs"
  by (induction xs) auto

lemma index_pairs_complete:
  "a \<in> set xs \<Longrightarrow> b \<in> set xs \<Longrightarrow> a \<noteq> b \<Longrightarrow> (a, b) \<in> set (index_pairs xs) \<or> (b, a) \<in> set (index_pairs xs)"
  by (induction xs) auto

lemma index_pairs_distinct: "distinct xs \<Longrightarrow> (a, b) \<in> set (index_pairs xs) \<Longrightarrow> a \<noteq> b"
  by (induction xs) (auto dest: set_index_pairs)

lemma set_active_leases:
  "set (list_active_branch_leases repo st) =
     {l \<in> set (st_leases st). bl_repo_id l = repo \<and> bl_status l = LeaseActive}"
  by (auto simp: list_active_branch_leases_def list_branch_leases_def)

text \<open>A risk without the time it was computed at.\<close>

definition timeless :: "conflict_risk \<Rightarrow> conflict_risk" where
  "timeless r = r\<lparr>cr_computed_at := 0\<rparr>"

definition pair_risk :: "store \<Rightarrow> branch_lease \<Rightarrow> branch_lease \<Rightarrow> conflict_risk" where
  "pair_risk st a b = create_conflict_risk a b 0 (latest_simulation_for_pair a b st)"

lemma timeless_risk_of_pair: "timeless (risk_of_pair s st k a b) = pair_risk st a b"
  by (simp add: timeless_def risk_of_pair_def pair_risk_def create_conflict_risk_def Let_def split: prod.splits)

lemma timeless_keeps [simp]:
  "cr_source_lease_id (timeless r) = cr_source_lease_id r"
  "cr_target_lease_id (timeless r) = cr_target_lease_id r"
  "cr_risk_score (timeless r) = cr_risk_score r"
  by (simp_all add: timeless_def)

lemma pair_risk_lease_ids:
  "{cr_source_lease_id (pair_risk st a b), cr_target_lease_id (pair_risk st a b)} = {bl_id a, bl_id b}"
  by (auto simp: pair_risk_def create_conflict_risk_def Let_def split: prod.splits)

lemma pair_risk_commute: "bl_id a \<noteq> bl_id b \<Longrightarrow> pair_risk st a b = pair_risk st b a"
  using pair_risk_sym[of a b]
  by (auto simp: pair_risk_def latest_simulation_for_pair_def insert_commute create_conflict_risk_def Let_def)

lemma timeless_enumerated:
  "timeless ` set (map (\<lambda>(k, x). risk_of_pair s st k (f x) (g x)) (enumerate n xs)) =
     (\<lambda>x. pair_risk st (f x) (g x)) ` set xs"
  by (induction xs arbitrary: n) (simp_all add: timeless_risk_of_pair)

lemma timeless_repo_risks:
  "timeless ` set (compute_repo_conflict_risks s repo st) =
     (\<lambda>p. pair_risk st (fst p) (snd p)) ` {p \<in> set (index_pairs (list_active_branch_leases repo st)).
        different_work (fst p) (snd p)}"
  using timeless_enumerated[of s st fst snd 0 "filter (\<lambda>p. different_work (fst p) (snd p))
      (index_pairs (list_active_branch_leases repo st))"]
  by (simp add: compute_repo_conflict_risks_def case_prod_unfold)

lemma timeless_lease_risks:
  assumes "get_branch_lease i st = Some l" and "bl_status l = LeaseActive"
  shows "timeless ` set (compute_conflict_risks_for_lease s i st) =
    pair_risk st l ` {b \<in> set (st_leases st). bl_repo_id b = bl_repo_id l \<and> bl_status b = LeaseActive \<and>
       bl_id b \<noteq> bl_id l \<and> different_work b l}"
proof -
  let ?xs = "filter (\<lambda>b. bl_id b \<noteq> bl_id l \<and> different_work b l) (list_active_branch_leases (bl_repo_id l) st)"
  have "set ?xs = {b \<in> set (st_leases st). bl_repo_id b = bl_repo_id l \<and> bl_status b = LeaseActive \<and>
      bl_id b \<noteq> bl_id l \<and> different_work b l}"
    by (auto simp: set_active_leases)
  then show ?thesis
    using assms timeless_enumerated[of s st "\<lambda>_. l" "\<lambda>b. b" 0 ?xs]
    by (simp add: compute_conflict_risks_for_lease_def)
qed

lemma different_work_sym: "different_work a b = different_work b a"
  by (auto simp: different_work_def)

lemma distinct_leases_ids:
  "distinct (map bl_id (st_leases st)) \<Longrightarrow> a \<in> set (st_leases st) \<Longrightarrow> b \<in> set (st_leases st) \<Longrightarrow>
   bl_id a = bl_id b \<Longrightarrow> a = b"
  by (auto simp: distinct_map inj_on_def)

section \<open>Closed merge-queue entries\<close>

lemma get_queue_entry_update:
  "i \<noteq> j \<Longrightarrow> (\<And>e. qe_id (patch e) = qe_id e) \<Longrightarrow>
   keeps (\<lambda>st st'. get_queue_entry j st' = get_queue_entry j st) (update_merge_queue_entry s i patch)"
  by (rule keepsI)
    (auto simp: update_merge_queue_entry_def get_queue_entry_def Let_def find_by_update split: option.splits)

lemma get_queue_entry_refresh:
  "i \<noteq> j \<Longrightarrow> keeps (\<lambda>st st'. get_queue_entry j st' = get_queue_entry j st) (refresh_merge_queue_entry_risk s i)"
  unfolding keeps_def refresh_merge_queue_entry_risk_def
  by (auto simp: get_queue_entry_update[unfolded keeps_def] apply_queue_fields_def split: option.splits)

lemma get_queue_entry_refresh_entries:
  "j \<notin> set ids \<Longrightarrow> keeps (\<lambda>st st'. get_queue_entry j st' = get_queue_entry j st) (refresh_entries s k ids)"
proof (induction ids arbitrary: k)
  case Nil
  then show ?case by (simp add: keeps_def)
next
  case (Cons i ids)
  have t: "transp (\<lambda>st st'. get_queue_entry j st' = get_queue_entry j st)" by (rule transpI) simp
  show ?case
    unfolding refresh_entries.simps
    by (intro keeps_bind[OF t] get_queue_entry_refresh Cons.IH keeps_return reflpI) (use Cons.prems in auto)
qed

lemma released_lease:
  assumes "release_branch_lease s i st = (Inr l, st')"
  shows "\<exists>l'. get_branch_lease i st' = Some l' \<and> bl_status l' = LeaseReleased \<and> bl_released_at l' \<noteq> None" and "st_queue st' = st_queue st"
  using assms
  by (auto simp: release_branch_lease_def update_branch_lease_def get_branch_lease_def Let_def find_by_update
      split: option.splits)

section \<open>Properties\<close>

text \<open>
  C8: Whatever calls are made on a store without tasks and audit entries of its operations on repositories,
  tasks, task runs, pull requests, leases, simulations, the merge queue and the audit log, in any order
  and returning or throwing, the audit trail of every task replays to its current status by allowed
  transitions only,
  and the trail of a merged task shows that it was tested and found merge-ready, provided the calls
  are careful: no patch of updateTask changes a status or an id, no caller writes an entry of a task
  status with recordAudit, and the ids drawn for tasks are unused.  The code checks none of the three.
\<close>

theorem audit_trail_replays_tasks:
  assumes "careful_calls cs st0" and "st_tasks st0 = []" and "st_audit st0 = []"
    and "t \<in> set (st_tasks (fold perform cs st0))"
  shows "history (trail (t_id t) (st_audit (fold perform cs st0))) \<and>
    hd (trail (t_id t) (st_audit (fold perform cs st0))) = t_status t \<and>
    (t_status t = Merged \<longrightarrow> {Testing, MergeReady} \<subseteq> set (trail (t_id t) (st_audit (fold perform cs st0))))"
proof -
  define st where "st = fold perform cs st0"
  have "trail_inv st"
    unfolding st_def by (rule careful_calls_inv[OF assms(1)]) (use assms(2) in \<open>simp add: trail_inv_def\<close>)
  with assms(4) have h: "history (trail (t_id t) (st_audit st))" "hd (trail (t_id t) (st_audit st)) = t_status t"
    by (simp_all add: trail_inv_def st_def)
  have "{Testing, MergeReady} \<subseteq> set (trail (t_id t) (st_audit st))" if "t_status t = Merged"
  proof -
    note m = that
    have "trail (t_id t) (st_audit st) \<noteq> []" using h(1) by auto
    then obtain rest where "trail (t_id t) (st_audit st) = Merged # rest"
      using h(2) m by (cases "trail (t_id t) (st_audit st)") simp_all
    then show ?thesis using history_of_merged h(1) by auto
  qed
  with h show ?thesis unfolding st_def by blast
qed

text \<open>
  A status change fails exactly when the task is unknown or the transition is not allowed, and
  then nothing in the store has changed; otherwise the task has the new status and one audit entry
  is added.
\<close>

theorem transition_task_result:
  "(case transition_task s i status st of
      (Inl e, st') \<Rightarrow> st' = st \<and>
        (case get_task i st of None \<Rightarrow> True | Some t \<Rightarrow> \<not> can_transition (t_status t) status)
    | (Inr t', st') \<Rightarrow> t_status t' = status \<and> get_task i st' = Some t' \<and>
        length (st_audit st') = Suc (length (st_audit st)))"
  by (auto simp: transition_task_cases get_task_def record_audit_def find_by_update split: option.splits)

text \<open>The pairs that name a lease, from the two computations of its risks.\<close>

definition active_in :: "string \<Rightarrow> store \<Rightarrow> branch_lease \<Rightarrow> bool" where
  "active_in repo st b \<longleftrightarrow> b \<in> set (st_leases st) \<and> bl_repo_id b = repo \<and> bl_status b = LeaseActive"

definition rival_leases :: "branch_lease \<Rightarrow> store \<Rightarrow> branch_lease set" where
  "rival_leases l st = {b. active_in (bl_repo_id l) st b \<and> bl_id b \<noteq> bl_id l \<and> different_work b l}"

lemma active_in_listed: "active_in repo st b \<longleftrightarrow> b \<in> set (list_active_branch_leases repo st)"
  by (auto simp: active_in_def set_active_leases)

lemma repo_pair_of_lease:
  assumes d: "distinct (map bl_id (st_leases st))" and l: "active_in (bl_repo_id l) st l"
    and p: "(a, b) \<in> set (index_pairs (list_active_branch_leases (bl_repo_id l) st))"
    and w: "different_work a b" and i: "bl_id a = bl_id l \<or> bl_id b = bl_id l"
  shows "pair_risk st a b \<in> pair_risk st l ` rival_leases l st"
proof -
  have "distinct (list_active_branch_leases (bl_repo_id l) st)"
    using d by (auto simp: list_active_branch_leases_def list_branch_leases_def distinct_map)
  then have ab: "active_in (bl_repo_id l) st a" "active_in (bl_repo_id l) st b" "a \<noteq> b"
    using set_index_pairs[OF p] index_pairs_distinct[OF _ p] by (auto simp: active_in_listed)
  then have ne: "bl_id a \<noteq> bl_id b"
    using distinct_leases_ids[OF d] by (auto simp: active_in_def)
  show ?thesis
  proof (cases "bl_id a = bl_id l")
    case True
    then have "a = l" using distinct_leases_ids[OF d] l ab by (auto simp: active_in_def)
    then show ?thesis using ab ne w different_work_sym by (auto simp: rival_leases_def)
  next
    case False
    then have "b = l" using distinct_leases_ids[OF d] l ab i by (auto simp: active_in_def)
    then show ?thesis using ab ne w pair_risk_commute[OF ne] by (auto simp: rival_leases_def)
  qed
qed

lemma lease_pair_of_repo:
  assumes l: "active_in (bl_repo_id l) st l" and b: "b \<in> rival_leases l st"
  shows "\<exists>p \<in> set (index_pairs (list_active_branch_leases (bl_repo_id l) st)).
    different_work (fst p) (snd p) \<and> pair_risk st l b = pair_risk st (fst p) (snd p) \<and>
    (bl_id (fst p) = bl_id l \<or> bl_id (snd p) = bl_id l)"
proof -
  let ?P = "index_pairs (list_active_branch_leases (bl_repo_id l) st)"
  have b': "bl_id b \<noteq> bl_id l" "different_work b l" "active_in (bl_repo_id l) st b"
    using b by (auto simp: rival_leases_def)
  then have "l \<noteq> b" by blast
  then have "(l, b) \<in> set ?P \<or> (b, l) \<in> set ?P"
    using l b'(3) by (intro index_pairs_complete) (simp_all add: active_in_listed)
  then show ?thesis
  proof
    assume "(l, b) \<in> set ?P"
    then show ?thesis
      using b' different_work_sym[of b l] by (intro bexI[of _ "(l, b)"]) simp_all
  next
    assume "(b, l) \<in> set ?P"
    then show ?thesis
      using b' pair_risk_commute[of l b st] by (intro bexI[of _ "(b, l)"]) simp_all
  qed
qed

text \<open>
  The risks of a lease are the risks of its repository that name it, so the two computations
  of the code agree up to the time stamp, when lease ids are distinct.
\<close>

theorem lease_risks_are_repo_risks:
  assumes "distinct (map bl_id (st_leases st))" and "get_branch_lease i st = Some l"
    and "bl_status l = LeaseActive"
  shows "timeless ` set (compute_conflict_risks_for_lease s i st) =
    timeless ` {r \<in> set (compute_repo_conflict_risks s' (bl_repo_id l) st).
       cr_source_lease_id r = i \<or> cr_target_lease_id r = i}"
proof -
  let ?P = "index_pairs (list_active_branch_leases (bl_repo_id l) st)"
  have l: "bl_id l = i" "active_in (bl_repo_id l) st l"
    using assms(2,3) find_by_Some by (force simp: get_branch_lease_def active_in_def)+
  have split: "timeless ` {r \<in> A. cr_source_lease_id r = i \<or> cr_target_lease_id r = i} =
      {r \<in> timeless ` A. cr_source_lease_id r = i \<or> cr_target_lease_id r = i}" for A
    by auto
  have ids: "(cr_source_lease_id (pair_risk st a b) = i \<or> cr_target_lease_id (pair_risk st a b) = i) \<longleftrightarrow>
      bl_id a = i \<or> bl_id b = i" for a b
    using pair_risk_lease_ids[of st a b] by (auto simp: doubleton_eq_iff)
  let ?R = "(\<lambda>p. pair_risk st (fst p) (snd p)) ` {p \<in> set ?P. different_work (fst p) (snd p)}"
  have "pair_risk st l ` rival_leases l st =
      {r \<in> ?R. cr_source_lease_id r = i \<or> cr_target_lease_id r = i}" (is "?L = ?S")
  proof (intro equalityI subsetI)
    fix x assume "x \<in> ?L"
    then obtain b where b: "b \<in> rival_leases l st" "x = pair_risk st l b" by blast
    then obtain p where "p \<in> set ?P" "different_work (fst p) (snd p)"
      "x = pair_risk st (fst p) (snd p)" "bl_id (fst p) = i \<or> bl_id (snd p) = i"
      using lease_pair_of_repo[OF l(2) b(1)] l(1) by auto
    then show "x \<in> ?S" using ids[of "fst p" "snd p"] by blast
  next
    fix x assume "x \<in> ?S"
    then obtain p where "p \<in> set ?P" "different_work (fst p) (snd p)" "x = pair_risk st (fst p) (snd p)"
      "cr_source_lease_id x = i \<or> cr_target_lease_id x = i" by blast
    then show "x \<in> ?L"
      using repo_pair_of_lease[OF assms(1) l(2), of "fst p" "snd p"] ids[of "fst p" "snd p"] l(1) by simp
  qed
  then show ?thesis
    by (simp only: split timeless_repo_risks timeless_lease_risks[OF assms(2,3)] conj_assoc
        rival_leases_def active_in_def)
qed

text \<open>
  An entry the merge queue reports as ready has no active lease of other work in the same
  repository whose risk with it reaches one half, and no textual conflict in its latest simulation.
\<close>

theorem ready_entry_has_no_conflict:
  assumes "qf_status (merge_queue_fields_for_lease s i st) = MqReady"
    and "r \<in> set (compute_conflict_risks_for_lease s i st)"
  shows "cr_risk_score r < 1/2 \<and>
    map_option ms_status (latest_simulation_for_lease i st) \<noteq> Some SimTextConflict"
proof -
  let ?h = "highest_conflict_risk_for_lease s i st"
  have dec: "qd_status (merge_queue_decision sc sim) = MqReady \<longleftrightarrow> sc < 1/2 \<and> sim \<noteq> Some SimTextConflict" for sc sim
    by (auto simp: merge_queue_decision_def queue_decision_of_def)
  have "?h \<noteq> None"
    using assms(2) by (auto simp: highest_conflict_risk_for_lease_def head_def split: list.splits)
  then obtain h where h: "?h = Some h" by blast
  let ?m = "opt_default (map_option ms_risk_contribution (latest_simulation_for_lease i st)) 0"
  have "max (cr_risk_score h) ?m < 1/2 \<and>
      map_option ms_status (latest_simulation_for_lease i st) \<noteq> Some SimTextConflict"
    using assms(1) h
    by (simp only: merge_queue_fields_for_lease_def Let_def dec queue_fields.simps option.map
        opt_default_simps simp_thms)
  then have "cr_risk_score h < 1/2 \<and> map_option ms_status (latest_simulation_for_lease i st) \<noteq> Some SimTextConflict"
    by (simp only: max_less_iff_conj simp_thms)
  moreover have "cr_risk_score r \<le> cr_risk_score h"
    using assms(2) h head_sort_by_risk(2)
    by (auto simp: highest_conflict_risk_for_lease_def compute_conflict_risks_for_lease_def head_def
        split: option.splits if_splits)
  ultimately show ?thesis by simp
qed

text \<open>The leases a risk names are active.\<close>

definition risk_names :: "conflict_risk \<Rightarrow> string \<Rightarrow> bool" where
  "risk_names r i \<longleftrightarrow> cr_source_lease_id r = i \<or> cr_target_lease_id r = i"

lemma pair_risk_names: "timeless r = pair_risk st a b \<Longrightarrow> risk_names r i \<longleftrightarrow> bl_id a = i \<or> bl_id b = i"
  using pair_risk_lease_ids[of st a b] timeless_keeps(1,2)[of r] unfolding risk_names_def by (metis insert_iff singletonD)

lemma repo_risk_names_active:
  assumes "r \<in> set (compute_repo_conflict_risks s repo st)" and "risk_names r i"
  shows "\<exists>l. active_in repo st l \<and> bl_id l = i"
proof -
  have "timeless r \<in> timeless ` set (compute_repo_conflict_risks s repo st)" using assms(1) by (rule imageI)
  then obtain p where p: "p \<in> set (index_pairs (list_active_branch_leases repo st))"
      "timeless r = pair_risk st (fst p) (snd p)"
    unfolding timeless_repo_risks by blast
  then show ?thesis
    using pair_risk_names[OF p(2)] assms(2) set_index_pairs[of "fst p" "snd p"] by (auto simp: active_in_listed)
qed

lemma lease_risk_names_active:
  assumes "r \<in> set (compute_conflict_risks_for_lease s j st)" and "risk_names r i"
  shows "\<exists>repo l. active_in repo st l \<and> bl_id l = i"
proof -
  from assms(1) obtain l where found: "get_branch_lease j st = Some l"
    by (cases "get_branch_lease j st") (simp_all add: compute_conflict_risks_for_lease_def)
  have active: "bl_status l = LeaseActive"
    using assms(1) found
    by (cases "bl_status l = LeaseActive") (simp_all add: compute_conflict_risks_for_lease_def)
  note l = found active
  have "timeless r \<in> timeless ` set (compute_conflict_risks_for_lease s j st)" using assms(1) by (rule imageI)
  then obtain b where b: "active_in (bl_repo_id l) st b" "timeless r = pair_risk st l b"
    unfolding timeless_lease_risks[OF l] active_in_def by auto
  have "active_in (bl_repo_id l) st l"
    using l find_by_Some by (force simp: get_branch_lease_def active_in_def)
  then show ?thesis using b(1) pair_risk_names[OF b(2)] assms(2) by auto
qed

lemma run_risk_names_active:
  assumes "r \<in> set (compute_conflict_risks_for_run s run st)" and "risk_names r i"
  shows "\<exists>repo l. active_in repo st l \<and> bl_id l = i"
proof -
  have "\<exists>x \<in> set (enumerate 0 (st_repos st)).
      r \<in> set (compute_repo_conflict_risks (sub (fst x) s) (r_id (snd x)) st)"
    using assms(1) by (simp add: compute_conflict_risks_for_run_def split_beta)
  then obtain k repo where "r \<in> set (compute_repo_conflict_risks (sub k s) repo st)" by blast
  then show ?thesis using repo_risk_names_active assms(2) by blast
qed

lemma released_not_active:
  assumes "distinct (map bl_id (st_leases st))" and "get_branch_lease i st = Some l" and "bl_status l = LeaseReleased"
  shows "\<not> (\<exists>repo b. active_in repo st b \<and> bl_id b = i)"
proof
  assume "\<exists>repo b. active_in repo st b \<and> bl_id b = i"
  then obtain b where b: "b \<in> set (st_leases st)" "bl_status b = LeaseActive" "bl_id b = i"
    by (auto simp: active_in_def)
  have "l \<in> set (st_leases st)" "bl_id l = i" using assms(2) find_by_Some by (force simp: get_branch_lease_def)+
  then have "b = l" using b by (intro distinct_leases_ids[OF assms(1)]) auto
  then show False using b(2) assms(3) by simp
qed

lemma release_lease_ids:
  "release_branch_lease s i st = (r, st') \<Longrightarrow> map bl_id (st_leases st') = map bl_id (st_leases st)"
  by (auto simp: release_branch_lease_def update_branch_lease_def Let_def map_update_by split: option.splits)

text \<open>
  C9: Marking an entry merged makes the entry merged and its branch lease released, with a date, and in the
  store this leaves no conflict risk names that lease any more, as source or as target: not among the
  risks of a repository, of a lease or of a task run.  Lease ids are distinct.
\<close>

theorem merged_entry_releases_lease:
  assumes "mark_merge_queue_entry_merged s i st = (Inr e, st')" and "distinct (map bl_id (st_leases st))"
  shows "get_queue_entry i st' = Some e \<and> qe_status e = MqMerged \<and>
    (\<exists>l. get_branch_lease (qe_branch_lease_id e) st' = Some l \<and> bl_status l = LeaseReleased \<and>
       bl_released_at l \<noteq> None) \<and>
    (\<forall>s' repo. \<not> list_ex (\<lambda>r. risk_names r (qe_branch_lease_id e)) (compute_repo_conflict_risks s' repo st')) \<and>
    (\<forall>s' j. \<not> list_ex (\<lambda>r. risk_names r (qe_branch_lease_id e)) (compute_conflict_risks_for_lease s' j st')) \<and>
    (\<forall>s' run. \<not> list_ex (\<lambda>r. risk_names r (qe_branch_lease_id e)) (compute_conflict_risks_for_run s' run st')) \<and>
    (\<forall>s'. compute_conflict_risks_for_lease s' (qe_branch_lease_id e) st' = [])"
proof -
  let ?f = "\<lambda>e. e\<lparr>qe_status := MqMerged, qe_merged_at := Some (clock 2 s)\<rparr>"
  from assms(1) obtain e0 where e0: "get_queue_entry i st = Some e0"
    by (cases "get_queue_entry i st") (simp_all add: mark_merge_queue_entry_merged_def)
  with assms(1) obtain l st1 where r: "release_branch_lease (sub 0 s) (qe_branch_lease_id e0) st = (Inr l, st1)"
    and u: "update_merge_queue_entry (sub 1 s) i ?f st1 = (Inr e, st')"
    by (auto simp: mark_merge_queue_entry_merged_def op_bind_Inr)
  note rl = released_lease[OF r]
  have "get_queue_entry i st1 = Some e0" using e0 rl(2) by (simp add: get_queue_entry_def)
  then have e: "e = (?f e0)\<lparr>qe_updated_at := clock 0 (sub 1 s)\<rparr>" "get_queue_entry i st' = Some e"
    and leases: "st_leases st' = st_leases st1"
    using u by (auto simp: update_merge_queue_entry_def get_queue_entry_def Let_def find_by_update)
  then obtain l' where l': "get_branch_lease (qe_branch_lease_id e) st' = Some l'" "bl_status l' = LeaseReleased"
      "bl_released_at l' \<noteq> None"
    using rl(1) by (auto simp: get_branch_lease_def)
  have "distinct (map bl_id (st_leases st'))"
    using assms(2) release_lease_ids[OF r] leases by simp
  note gone = released_not_active[OF this l'(1,2)]
  have lease: "qe_branch_lease_id e = qe_branch_lease_id e0" and merged: "qe_status e = MqMerged"
    and same: "get_queue_entry i st' = Some e"
    using e by simp_all
  have "compute_conflict_risks_for_lease s' (qe_branch_lease_id e) st' = []" for s'
    using l'(1,2) by (simp add: compute_conflict_risks_for_lease_def lease)
  moreover have "\<not> list_ex (\<lambda>r. risk_names r (qe_branch_lease_id e)) (compute_repo_conflict_risks s' repo st')"
    "\<not> list_ex (\<lambda>r. risk_names r (qe_branch_lease_id e)) (compute_conflict_risks_for_lease s' j st')"
    "\<not> list_ex (\<lambda>r. risk_names r (qe_branch_lease_id e)) (compute_conflict_risks_for_run s' run st')" for s' repo j run
    unfolding list_ex_iff
    by (use gone[folded lease] repo_risk_names_active in blast,
        use gone[folded lease] lease_risk_names_active in blast,
        use gone[folded lease] run_risk_names_active in blast)
  ultimately show ?thesis using l' merged same unfolding lease by blast
qed

text \<open>
  Refreshing the entries of a lease, as each new simulation does, never touches an entry that
  is already merged or cancelled, when entry ids are distinct.
\<close>

theorem refresh_keeps_closed_entries:
  assumes "distinct (map qe_id (st_queue st))" and "get_queue_entry i st = Some e"
    and "qe_status e = MqMerged \<or> qe_status e = MqCancelled"
    and "refresh_merge_queue_entries_for_lease s lease st = (r, st')"
  shows "get_queue_entry i st' = Some e"
proof -
  have e: "e \<in> set (st_queue st)" "qe_id e = i"
    using assms(2) find_by_Some by (force simp: get_queue_entry_def)+
  have "i \<notin> set (map qe_id (filter (\<lambda>e. qe_branch_lease_id e = lease \<and> qe_status e \<noteq> MqMerged \<and>
      qe_status e \<noteq> MqCancelled) (st_queue st)))"
    using assms(1,3) e by (auto simp: distinct_map inj_on_def)
  then have "get_queue_entry i st' = get_queue_entry i st"
    using keepsD[OF get_queue_entry_refresh_entries] assms(4)
    by (simp only: refresh_merge_queue_entries_for_lease_def)
  then show ?thesis using assms(2) by simp
qed

section \<open>Witnesses\<close>

definition empty_store :: store where
  "empty_store = \<lparr>st_repos = [], st_tasks = [], st_runs = [], st_leases = [], st_queue = [],
     st_simulations = [], st_pull_requests = [], st_audit = []\<rparr>"

definition sample_entry :: "string \<Rightarrow> queue_status \<Rightarrow> queue_entry" where
  "sample_entry lease status =
     \<lparr>qe_id = ''q1'', qe_repo_id = ''repo'', qe_task_id = ''a'', qe_task_run_id = ''a'',
      qe_branch_lease_id = lease, qe_pull_request_id = ''pr'', qe_pull_request_url = ''url'',
      qe_branch_name = ''a'', qe_priority = 1, qe_risk_score = 0, qe_conflict_risk_score = 0,
      qe_status = status, qe_reasons = [], qe_blocking_reasons = [],
      qe_recommendation = RecReadyForReview, qe_simulation_status = None,
      qe_last_simulation_at = None, qe_created_at = 0, qe_updated_at = 0, qe_merged_at = None,
      qe_cancelled_at = None\<rparr>"

definition sample_store :: "queue_status \<Rightarrow> store" where
  "sample_store status = empty_store\<lparr>
     st_leases := [sample_lease ''a'' [''src/x.ts''], sample_lease ''b'' [''docs/y.md'', ''src/z.ts'']],
     st_queue := [sample_entry ''a'' status]\<rparr>"

theorem audit_trail_replays_tasks_witness:
  "\<exists>t st. fold perform [CallCreateTask sample_draws sample_task_input, CallTransitionTask sample_draws ''x'' Planned]
       empty_store = st \<and> t \<in> set (st_tasks st) \<and> hd (trail (t_id t) (st_audit st)) = Draft"
proof -
  let ?cs = "[CallCreateTask sample_draws sample_task_input, CallTransitionTask sample_draws ''x'' Planned]"
  obtain inp where inp: "create_task_schema sample_task_input = Inr inp"
    using sample_task_input_ok by blast
  obtain t st where c: "create_task sample_draws sample_task_input empty_store = (Inr t, st)"
    by (simp add: create_task_def inp Let_def)
  note ok = create_task_ok[OF c]
  then have "st_tasks st = [t]" by (simp add: record_audit_def empty_store_def)
  moreover have "get_task ''x'' st = None"
    using ok by (simp add: get_task_def record_audit_def empty_store_def fresh_id_def)
  ultimately have st: "fold perform ?cs empty_store = st" "t \<in> set (st_tasks st)"
    by (simp_all add: c transition_task_cases)
  have "careful_calls ?cs empty_store" by (simp add: empty_store_def)
  from audit_trail_replays_tasks[OF this, of t] st ok
  show ?thesis by (intro exI[of _ t] exI[of _ st]) (simp add: empty_store_def)
qed

lemma sample_lease_found:
  "get_branch_lease ''a'' (sample_store status) = Some (sample_lease ''a'' [''src/x.ts''])"
  by (simp add: get_branch_lease_def sample_store_def sample_lease_def)

theorem lease_risks_are_repo_risks_witness:
  "timeless ` set (compute_conflict_risks_for_lease sample_draws ''a'' (sample_store MqQueued)) =
   timeless ` {r \<in> set (compute_repo_conflict_risks sample_draws ''repo'' (sample_store MqQueued)).
      cr_source_lease_id r = ''a'' \<or> cr_target_lease_id r = ''a''}"
  using lease_risks_are_repo_risks[of "sample_store MqQueued" "''a''" _ sample_draws sample_draws,
      OF _ sample_lease_found]
  by (simp add: sample_store_def sample_lease_def)

lemma no_shared_file:
  "compute_pair_risk_score (sample_lease ''a'' [''src/x.ts'']) (sample_lease ''b'' [''docs/y.md'', ''src/z.ts'']) =
     ([], 0, [''no_overlap''])"
  by code_simp

lemma sample_risks:
  "compute_conflict_risks_for_lease s ''a'' (sample_store status) =
     [risk_of_pair s (sample_store status) 0 (sample_lease ''a'' [''src/x.ts''])
        (sample_lease ''b'' [''docs/y.md'', ''src/z.ts''])]"
  unfolding compute_conflict_risks_for_lease_def sample_lease_found
  by (simp add: list_active_branch_leases_def list_branch_leases_def sample_store_def sample_lease_def
      different_work_def)

lemma sample_ready:
  "qf_status (merge_queue_fields_for_lease sample_draws ''a'' (sample_store MqQueued)) = MqReady"
proof -
  have "latest_simulation_for_pair a b (sample_store MqQueued) = None"
    "latest_simulation_for_lease ''a'' (sample_store MqQueued) = None" for a b
    by (simp_all add: latest_simulation_for_pair_def latest_simulation_for_lease_def head_def
        list_merge_simulations_def sample_store_def empty_store_def)
  moreover have "bl_id (sample_lease ''a'' [''src/x.ts'']) \<le> bl_id (sample_lease ''b'' [''docs/y.md'', ''src/z.ts''])"
    by (simp add: sample_lease_def)
  ultimately show ?thesis
    by (simp add: merge_queue_fields_for_lease_def highest_conflict_risk_for_lease_def head_def sample_risks
        risk_of_pair_def create_conflict_risk_def no_shared_file combine_simulation_risk_def Let_def
        merge_queue_decision_def queue_decision_of_def)
qed

theorem ready_entry_has_no_conflict_witness:
  "cr_risk_score (risk_of_pair sample_draws (sample_store MqQueued) 0 (sample_lease ''a'' [''src/x.ts''])
     (sample_lease ''b'' [''docs/y.md'', ''src/z.ts''])) < 1/2"
  using ready_entry_has_no_conflict[OF sample_ready] by (simp add: sample_risks)

theorem merged_entry_releases_lease_witness:
  "\<exists>e st'. mark_merge_queue_entry_merged sample_draws ''q1'' (sample_store MqReady) = (Inr e, st') \<and>
     \<not> list_ex (\<lambda>r. risk_names r ''a'') (compute_conflict_risks_for_lease sample_draws ''b'' st')"
proof -
  obtain e st' where m: "mark_merge_queue_entry_merged sample_draws ''q1'' (sample_store MqReady) = (Inr e, st')"
    and "qe_branch_lease_id e = ''a''"
    by (simp add: mark_merge_queue_entry_merged_def get_queue_entry_def sample_store_def sample_entry_def
        op_bind_def release_branch_lease_def update_branch_lease_def get_branch_lease_def sample_lease_def
        update_merge_queue_entry_def Let_def)
  moreover have "distinct (map bl_id (st_leases (sample_store MqReady)))"
    by (simp add: sample_store_def sample_lease_def)
  ultimately show ?thesis using merged_entry_releases_lease[OF m] by auto
qed

theorem refresh_keeps_closed_entries_witness:
  "get_queue_entry ''q1'' (snd (refresh_merge_queue_entries_for_lease sample_draws ''a'' (sample_store MqMerged))) =
     Some (sample_entry ''a'' MqMerged)"
  by (rule refresh_keeps_closed_entries[OF _ _ _ prod.collapse[symmetric]])
     (simp_all add: sample_store_def sample_entry_def get_queue_entry_def)

end
