(* ===== verification/AuthRepository.thy ===== *)
theory AuthRepository
  imports TextPatterns
begin

text \<open>
  Identities and their store, \<open>packages/auth/src/types.ts\<close> and \<open>repository.ts\<close>: principals,
  actors, teams, roles, permissions, role bindings and service accounts, the in-memory repository
  that keeps them, and the auth audit log with its metadata sanitiser.  The status and kind unions
  are strings where the code only compares them with one value.
\<close>

section \<open>Data model\<close>

record auth_principal =
  ap_id :: string
  ap_kind :: string
  ap_display_name :: string
  ap_email :: "string option"
  ap_status :: string
  ap_identity_provider_id :: "string option"
  ap_external_subject :: "string option"
  ap_created_at :: time
  ap_updated_at :: time
  ap_metadata :: jsobj

record actor =
  ac_id :: string
  ac_principal_id :: string
  ac_kind :: string
  ac_display_name :: string
  ac_roles :: "string list"
  ac_teams :: "string list"
  ac_status :: string
  ac_created_at :: time
  ac_updated_at :: time
  ac_metadata :: jsobj

record team =
  tm_id :: string
  tm_name :: string
  tm_display_name :: string
  tm_status :: string
  tm_metadata :: jsobj

record permission =
  pm_id :: string
  pm_action :: string
  pm_resource_kind :: string
  pm_description :: string
  pm_risk_level :: string

record role =
  ro_id :: string
  ro_name :: string
  ro_description :: string
  ro_permissions :: "string list"
  ro_status :: string
  ro_metadata :: jsobj

record resource_scope =
  sc_id :: string
  sc_kind :: string
  sc_scope_id :: "string option"
  sc_description :: string
  sc_metadata :: jsobj

record role_binding =
  rb_id :: string
  rb_principal_id :: "string option"
  rb_team_id :: "string option"
  rb_role_id :: string
  rb_scope :: resource_scope
  rb_status :: string
  rb_created_at :: time
  rb_updated_at :: time

record service_account =
  sa_id :: string
  sa_principal_id :: string
  sa_name :: string
  sa_owner_team_id :: "string option"
  sa_allowed_scopes :: "resource_scope list"
  sa_status :: string
  sa_created_at :: time
  sa_updated_at :: time
  sa_metadata :: jsobj

record identity_provider =
  ip_id :: string
  ip_kind :: string
  ip_display_name :: string
  ip_status :: string
  ip_metadata :: jsobj

record auth_event =
  ae_id :: string
  ae_type :: string
  ae_actor_id :: "string option"
  ae_principal_id :: "string option"
  ae_action :: "string option"
  ae_resource_kind :: "string option"
  ae_resource_id :: "string option"
  ae_result :: string
  ae_reason :: "string option"
  ae_request_id :: "string option"
  ae_policy_decision_id :: "string option"
  ae_created_at :: time
  ae_metadata :: jsobj

record auth_catalog =
  cat_principals :: "auth_principal list"
  cat_actors :: "actor list"
  cat_teams :: "team list"
  cat_roles :: "role list"
  cat_permissions :: "permission list"
  cat_role_bindings :: "role_binding list"
  cat_service_accounts :: "service_account list"
  cat_identity_providers :: "identity_provider list"

text \<open>The repository is a catalog and the audit events recorded so far.\<close>

record auth_repository = auth_catalog +
  repo_events :: "auth_event list"

section \<open>Lookups and updates\<close>

text \<open>A list operation returns the field; an upsert replaces the entity of that id or appends it.\<close>

definition get_principal :: "string \<Rightarrow> 'a auth_catalog_scheme \<Rightarrow> auth_principal option" where
  "get_principal i r = find_by ap_id i (cat_principals r)"

definition upsert_principal :: "auth_principal \<Rightarrow> 'a auth_catalog_scheme \<Rightarrow> 'a auth_catalog_scheme" where
  "upsert_principal x r = r\<lparr>cat_principals := upsert_by ap_id x (cat_principals r)\<rparr>"

definition get_actor :: "string \<Rightarrow> 'a auth_catalog_scheme \<Rightarrow> actor option" where
  "get_actor i r = find_by ac_id i (cat_actors r)"

definition get_actor_by_principal_id :: "string \<Rightarrow> 'a auth_catalog_scheme \<Rightarrow> actor option" where
  "get_actor_by_principal_id i r = find_by ac_principal_id i (cat_actors r)"

definition upsert_actor :: "actor \<Rightarrow> 'a auth_catalog_scheme \<Rightarrow> 'a auth_catalog_scheme" where
  "upsert_actor x r = r\<lparr>cat_actors := upsert_by ac_id x (cat_actors r)\<rparr>"

definition get_team :: "string \<Rightarrow> 'a auth_catalog_scheme \<Rightarrow> team option" where
  "get_team i r = List.find (\<lambda>t. tm_id t = i \<or> tm_name t = i) (cat_teams r)"

definition upsert_team :: "team \<Rightarrow> 'a auth_catalog_scheme \<Rightarrow> 'a auth_catalog_scheme" where
  "upsert_team x r = r\<lparr>cat_teams := upsert_by tm_id x (cat_teams r)\<rparr>"

definition get_role :: "string \<Rightarrow> 'a auth_catalog_scheme \<Rightarrow> role option" where
  "get_role i r = List.find (\<lambda>x. ro_id x = i \<or> ro_name x = i) (cat_roles r)"

definition upsert_role :: "role \<Rightarrow> 'a auth_catalog_scheme \<Rightarrow> 'a auth_catalog_scheme" where
  "upsert_role x r = r\<lparr>cat_roles := upsert_by ro_id x (cat_roles r)\<rparr>"

definition get_permission :: "string \<Rightarrow> 'a auth_catalog_scheme \<Rightarrow> permission option" where
  "get_permission i r = List.find (\<lambda>p. pm_id p = i \<or> pm_action p = i) (cat_permissions r)"

definition upsert_permission :: "permission \<Rightarrow> 'a auth_catalog_scheme \<Rightarrow> 'a auth_catalog_scheme" where
  "upsert_permission x r = r\<lparr>cat_permissions := upsert_by pm_id x (cat_permissions r)\<rparr>"

definition list_role_bindings ::
  "string option \<Rightarrow> string option \<Rightarrow> 'a auth_catalog_scheme \<Rightarrow> role_binding list" where
  "list_role_bindings p t r =
     filter (\<lambda>b. (p = None \<or> rb_principal_id b = p) \<and> (t = None \<or> rb_team_id b = t))
       (cat_role_bindings r)"

definition upsert_role_binding :: "role_binding \<Rightarrow> 'a auth_catalog_scheme \<Rightarrow> 'a auth_catalog_scheme" where
  "upsert_role_binding x r = r\<lparr>cat_role_bindings := upsert_by rb_id x (cat_role_bindings r)\<rparr>"

definition get_service_account :: "string \<Rightarrow> 'a auth_catalog_scheme \<Rightarrow> service_account option" where
  "get_service_account i r =
     List.find (\<lambda>a. sa_id a = i \<or> sa_principal_id a = i) (cat_service_accounts r)"

definition upsert_service_account :: "service_account \<Rightarrow> 'a auth_catalog_scheme \<Rightarrow> 'a auth_catalog_scheme" where
  "upsert_service_account x r = r\<lparr>cat_service_accounts := upsert_by sa_id x (cat_service_accounts r)\<rparr>"

definition get_identity_provider :: "string \<Rightarrow> 'a auth_catalog_scheme \<Rightarrow> identity_provider option" where
  "get_identity_provider i r = find_by ip_id i (cat_identity_providers r)"

definition upsert_identity_provider ::
  "identity_provider \<Rightarrow> 'a auth_catalog_scheme \<Rightarrow> 'a auth_catalog_scheme" where
  "upsert_identity_provider x r =
     r\<lparr>cat_identity_providers := upsert_by ip_id x (cat_identity_providers r)\<rparr>"

section \<open>Sanitised audit events\<close>

definition auth_sensitive_words :: "string list" where
  "auth_sensitive_words = [''token'', ''secret'', ''password'', ''cookie'', ''credential'',
     ''session'', ''apikey'', ''api_key'']"

definition bearer_pattern :: pat where
  \<comment> \<open>\<open>/Bearer\s+[A-Za-z0-9._~+/=-]+/g\<close>\<close>
  "bearer_pattern = Cat (lit ''Bearer'') (Cat (Rep 1 is_space)
     (Rep 1 (\<lambda>c. is_alnum c \<or> one_of ''._~+/=-'' c)))"

definition sk_pattern :: pat where
  \<comment> \<open>\<open>/sk-[A-Za-z0-9_-]{6,}/g\<close>\<close>
  "sk_pattern = Cat (lit ''sk-'') (Rep 6 (\<lambda>c. is_alnum c \<or> one_of ''_-'' c))"

definition cache_path_pattern :: pat where
  \<comment> \<open>the paths of the Codex and Claude credential caches, with the flag \<open>i\<close>\<close>
  "cache_path_pattern =
     Alt (lit_i ''~/.codex/auth.json'')
         (Cat (lit_i ''~/.claude'') (Rep 0 (\<lambda>c. \<not> is_space c \<and> \<not> one_of [CHR 0x22, CHR 0x27] c)))"

definition sanitize_text :: "string \<Rightarrow> string" where
  "sanitize_text s =
     subst cache_path_pattern ''[redacted-credential-cache]''
       (subst sk_pattern ''[redacted]'' (subst bearer_pattern ''Bearer [redacted]'' s))"

fun sanitize_value :: "js \<Rightarrow> js" where
  "sanitize_value (JStr s) = JStr (sanitize_text s)"
| "sanitize_value (JObj o') =
     JObj (map (\<lambda>(k, v). (k, if matches_any_word auth_sensitive_words k
                               then JStr ''[redacted]'' else sanitize_value v)) o')"
| "sanitize_value v = v"

definition sanitize_metadata :: "jsobj \<Rightarrow> jsobj" where
  "sanitize_metadata o' =
     map (\<lambda>(k, v). (k, if matches_any_word auth_sensitive_words k
                        then JStr ''[redacted]'' else sanitize_value v)) o'"

text \<open>A caller gives the event but its id and its date.\<close>

type_synonym event_input = "string \<Rightarrow> time \<Rightarrow> auth_event"

definition auth_event_of :: "draws \<Rightarrow> event_input \<Rightarrow> auth_event" where
  "auth_event_of s mk =
     (let e = mk (fresh_id ''authaudit'' 0 s) (clock 0 s)
      in e\<lparr>ae_metadata := sanitize_metadata (ae_metadata e)\<rparr>)"

definition record_auth_event ::
  "draws \<Rightarrow> event_input \<Rightarrow> auth_repository \<Rightarrow> auth_event \<times> auth_repository" where
  "record_auth_event s mk r =
     (let e = auth_event_of s mk in (e, r\<lparr>repo_events := repo_events r @ [e]\<rparr>))"

record auth_event_filter =
  aef_actor_id :: "string option"
  aef_principal_id :: "string option"
  aef_event_type :: "string option"
  aef_action :: "string option"

definition auth_event_matches :: "auth_event_filter \<Rightarrow> auth_event \<Rightarrow> bool" where
  "auth_event_matches f e \<longleftrightarrow>
     (aef_actor_id f = None \<or> ae_actor_id e = aef_actor_id f) \<and>
     (aef_principal_id f = None \<or> ae_principal_id e = aef_principal_id f) \<and>
     (aef_event_type f = None \<or> Some (ae_type e) = aef_event_type f) \<and>
     (aef_action f = None \<or> ae_action e = aef_action f)"

definition auth_event_cmp :: "auth_event \<Rightarrow> auth_event \<Rightarrow> int" where
  "auth_event_cmp = cmp_or (\<lambda>l r. num_cmp (ae_created_at r) (ae_created_at l))
                           (\<lambda>l r. locale_compare (ae_id l) (ae_id r))"

definition list_auth_events :: "auth_event_filter \<Rightarrow> auth_repository \<Rightarrow> auth_event list" where
  "list_auth_events f r = sort_by auth_event_cmp (filter (auth_event_matches f) (repo_events r))"

section \<open>Facts about the repository\<close>

interpretation auth_event_cmp: js_comparator auth_event_cmp
  unfolding auth_event_cmp_def
  by (rule js_comparator_or)
     (rule js_comparator_flip[OF js_comparator_key[OF num_cmp.js_comparator_axioms]],
      rule js_comparator_key[OF locale_compare.js_comparator_axioms])

text \<open>The entities with an id of their own are keyed repositories.\<close>

interpretation principals: keyed_repository ap_id get_principal upsert_principal
  by unfold_locales (auto simp: get_principal_def upsert_principal_def dest: find_by_Some)

interpretation actors: keyed_repository ac_id get_actor upsert_actor
  by unfold_locales (auto simp: get_actor_def upsert_actor_def dest: find_by_Some)

interpretation identity_providers: keyed_repository ip_id get_identity_provider upsert_identity_provider
  by unfold_locales (auto simp: get_identity_provider_def upsert_identity_provider_def dest: find_by_Some)

lemma find_Some_iff_set: "List.find P xs = Some x \<Longrightarrow> x \<in> set xs \<and> P x"
  by (induction xs) (auto split: if_splits)

lemma get_permission_Some:
  "get_permission i r = Some p \<Longrightarrow> p \<in> set (cat_permissions r) \<and> (pm_id p = i \<or> pm_action p = i)"
  unfolding get_permission_def by (drule find_Some_iff_set) simp

text \<open>The lookups read the catalog, which recording an event leaves alone.\<close>

definition catalog_of :: "'a auth_catalog_scheme \<Rightarrow> auth_catalog" where
  "catalog_of r = auth_catalog.truncate r"

lemma catalog_lookups:
  assumes "catalog_of r = catalog_of r'"
  shows "get_role i r = get_role i r'" and "get_permission i r = get_permission i r'"
    and "get_team i r = get_team i r'" and "get_actor i r = get_actor i r'"
    and "get_principal i r = get_principal i r'" and "get_service_account i r = get_service_account i r'"
    and "list_role_bindings p t r = list_role_bindings p t r'"
  using assms
  by (auto simp: catalog_of_def auth_catalog.defs get_role_def get_permission_def get_team_def get_actor_def
      get_principal_def get_service_account_def list_role_bindings_def)

lemma record_auth_event_simps [simp]:
  "fst (record_auth_event s mk r) = auth_event_of s mk"
  "repo_events (snd (record_auth_event s mk r)) = repo_events r @ [auth_event_of s mk]"
  "catalog_of (snd (record_auth_event s mk r)) = catalog_of r"
  by (simp_all add: record_auth_event_def Let_def catalog_of_def auth_catalog.defs)

section \<open>What sanitising guarantees\<close>

text \<open>A value is clean when no object in it, at any depth of objects, has an open sensitive key.\<close>

fun clean_value :: "string list \<Rightarrow> js \<Rightarrow> bool" where
  "clean_value ws (JObj o') =
     list_all (\<lambda>(k, v). if matches_any_word ws k then v = JStr ''[redacted]'' else clean_value ws v) o'"
| "clean_value ws v = True"

lemma clean_sanitize_value: "clean_value auth_sensitive_words (sanitize_value v)"
  by (induction v rule: sanitize_value.induct) (auto simp: list_all_iff split: prod.splits)

lemma clean_sanitize_metadata: "clean_value auth_sensitive_words (JObj (sanitize_metadata o'))"
proof -
  have "sanitize_value (JObj o') = JObj (sanitize_metadata o')"
    by (simp add: sanitize_metadata_def)
  then show ?thesis using clean_sanitize_value[of "JObj o'"] by simp
qed

lemma auth_event_of_clean [simp]:
  "clean_value auth_sensitive_words (JObj (ae_metadata (auth_event_of s mk)))"
  unfolding auth_event_of_def Let_def using clean_sanitize_metadata by simp

end
