(* ===== verification/AuthCatalog.thy ===== *)
theory AuthCatalog
  imports AuthRepository
begin

text \<open>
  The default identity catalog, \<open>packages/auth/src/catalog.ts\<close>: the permissions, the roles with
  the permissions they name by action, and the mock principals, actors, teams, bindings and
  service account \<open>createDefaultAuthCatalog\<close> seeds a repository with.
\<close>

definition catalog_created_at :: time where
  \<comment> \<open>2026-05-12T00:00:00.000Z\<close>
  "catalog_created_at = 1778544000000"

definition global_scope :: "string option \<Rightarrow> resource_scope" where
  "global_scope i =
     \<lparr>sc_id = opt_default i ''scope_global'', sc_kind = ''global'', sc_scope_id = None,
      sc_description = ''Global mock runtime scope.'', sc_metadata = [(''production'', JBool False)]\<rparr>"

definition task_scope :: "string \<Rightarrow> resource_scope" where
  "task_scope i =
     \<lparr>sc_id = ''scope_task_'' @ i, sc_kind = ''task'', sc_scope_id = Some i,
      sc_description = ''Task scope '' @ i @ ''.'', sc_metadata = [(''production'', JBool False)]\<rparr>"

definition permission_row :: "string \<Rightarrow> string \<Rightarrow> string \<Rightarrow> string \<Rightarrow> string \<Rightarrow> permission" where
  "permission_row i action kind descr risk =
     \<lparr>pm_id = i, pm_action = action, pm_resource_kind = kind, pm_description = descr,
      pm_risk_level = risk\<rparr>"

section \<open>Permissions and roles\<close>

definition default_auth_permissions :: "permission list" where
  "default_auth_permissions = [
    permission_row ''perm_task_create'' ''task.create'' ''task''
      ''Create tasks.'' ''low'',
    permission_row ''perm_task_run'' ''task.run'' ''task''
      ''Run tasks.'' ''medium'',
    permission_row ''perm_task_read'' ''task.read'' ''task''
      ''Read tasks.'' ''low'',
    permission_row ''perm_git_repo_read'' ''git.repo.read'' ''repo''
      ''Read repository metadata.'' ''low'',
    permission_row ''perm_git_branch_create'' ''git.branch.create'' ''branch''
      ''Create branches through gated providers.'' ''medium'',
    permission_row ''perm_git_pull_request_create'' ''git.pull_request.create'' ''pull_request''
      ''Create pull requests through gated providers.'' ''medium'',
    permission_row ''perm_git_remote_operation'' ''git.remote_operation'' ''git_operation''
      ''Use remote Git operation boundary.'' ''high'',
    permission_row ''perm_git_credential_resolve'' ''git.credential.resolve'' ''provider_credential''
      ''Resolve Git provider credentials through the security boundary.'' ''critical'',
    permission_row ''perm_git_webhook_process'' ''git.webhook.process'' ''git_operation''
      ''Process verified webhook metadata.'' ''medium'',
    permission_row ''perm_git_audit_read'' ''git.audit.read'' ''git_operation''
      ''Read Git audit events.'' ''low'',
    permission_row ''perm_git_merge'' ''git.merge'' ''git_operation''
      ''Future provider merge boundary; policy denied by default.'' ''critical'',
    permission_row ''perm_git_rebase'' ''git.rebase'' ''git_operation''
      ''Future provider rebase boundary; policy denied by default.'' ''critical'',
    permission_row ''perm_llm_completion'' ''llm.completion'' ''llm_provider''
      ''Run model completions through gateway.'' ''medium'',
    permission_row ''perm_llm_remote_completion'' ''llm.remote_completion'' ''llm_provider''
      ''Use remote LLM completion boundary.'' ''high'',
    permission_row ''perm_llm_model_use'' ''llm.model.use'' ''llm_model''
      ''Use catalog models.'' ''medium'',
    permission_row ''perm_llm_route_select'' ''llm.route.select'' ''llm_route''
      ''Select LLM routes through the gateway.'' ''medium'',
    permission_row ''perm_llm_fallback'' ''llm.fallback'' ''llm_fallback_policy''
      ''Use bounded LLM fallback policy.'' ''high'',
    permission_row ''perm_llm_credential_resolve'' ''llm.credential.resolve'' ''provider_credential''
      ''Resolve LLM provider credentials through the security boundary.'' ''critical'',
    permission_row ''perm_llm_audit_read'' ''llm.audit.read'' ''llm_provider''
      ''Read LLM audit events.'' ''low'',
    permission_row ''perm_runner_execute'' ''runner.execute'' ''runner''
      ''Run agent runner boundary.'' ''medium'',
    permission_row ''perm_runner_command_execute'' ''runner.command.execute'' ''command''
      ''Execute controlled fixture commands.'' ''high'',
    permission_row ''perm_registry_read'' ''registry.read'' ''registry_item''
      ''Read registry entries.'' ''low'',
    permission_row ''perm_registry_create'' ''registry.create'' ''registry_item''
      ''Create registry entries.'' ''medium'',
    permission_row ''perm_registry_update'' ''registry.update'' ''registry_item''
      ''Update registry entries.'' ''medium'',
    permission_row ''perm_registry_approve'' ''registry.approve'' ''registry_item''
      ''Approve registry entries.'' ''high'',
    permission_row ''perm_registry_rollback'' ''registry.rollback'' ''registry_item''
      ''Rollback registry entries.'' ''high'',
    permission_row ''perm_improvement_proposal_create'' ''improvement.proposal.create'' ''improvement_proposal''
      ''Create improvement proposals.'' ''medium'',
    permission_row ''perm_improvement_proposal_approve'' ''improvement.proposal.approve'' ''improvement_proposal''
      ''Approve proposal intent.'' ''high'',
    permission_row ''perm_improvement_eval_attach'' ''improvement.eval.attach'' ''improvement_proposal''
      ''Attach eval metadata.'' ''medium'',
    permission_row ''perm_improvement_apply'' ''improvement.apply'' ''draft_registry_change''
      ''Future apply boundary; policy denied by default.'' ''critical'',
    permission_row ''perm_provider_invoke'' ''provider.invoke'' ''provider''
      ''Invoke provider boundary.'' ''high'',
    permission_row ''perm_provider_credential_resolve'' ''provider.credential.resolve'' ''provider_credential''
      ''Resolve credential metadata through security boundary.'' ''critical'',
    permission_row ''perm_secret_ref_create'' ''secret.ref.create'' ''secret_ref''
      ''Create SecretRef metadata without raw values.'' ''high'',
    permission_row ''perm_secret_ref_update'' ''secret.ref.update'' ''secret_ref''
      ''Update SecretRef metadata without raw values.'' ''high'',
    permission_row ''perm_secret_ref_disable'' ''secret.ref.disable'' ''secret_ref''
      ''Disable SecretRef metadata.'' ''high'',
    permission_row ''perm_secret_ref_revoke'' ''secret.ref.revoke'' ''secret_ref''
      ''Revoke SecretRef metadata.'' ''critical'',
    permission_row ''perm_secret_read'' ''secret.read'' ''secret_scope''
      ''Future direct secret read; policy denied by default.'' ''critical'',
    permission_row ''perm_secret_lease_request'' ''secret.lease.request'' ''secret_lease''
      ''Request secret lease metadata.'' ''high'',
    permission_row ''perm_secret_lease_issue'' ''secret.lease.issue'' ''secret_lease''
      ''Issue secret lease metadata.'' ''critical'',
    permission_row ''perm_secret_audit_read'' ''secret.audit.read'' ''secret_scope''
      ''Read credential and secret audit metadata.'' ''medium'',
    permission_row ''perm_security_audit_read'' ''security.audit.read'' ''secret_scope''
      ''Read security audit.'' ''medium'',
    permission_row ''perm_policy_evaluate'' ''policy.evaluate'' ''policy''
      ''Evaluate policy.'' ''medium'',
    permission_row ''perm_policy_audit_read'' ''policy.audit.read'' ''policy''
      ''Read policy audit.'' ''medium'',
    permission_row ''perm_local_agent_invoke'' ''local_agent.invoke'' ''local_agent''
      ''Invoke Local Agent protocol boundary.'' ''high'',
    permission_row ''perm_local_agent_consent_approve'' ''local_agent.consent.approve'' ''local_agent''
      ''Approve Local Agent consent metadata.'' ''high'',
    permission_row ''perm_dashboard_read'' ''dashboard.read'' ''dashboard''
      ''Read dashboard read models.'' ''low'',
    permission_row ''perm_mcp_server_list'' ''mcp.server.list'' ''mcp_server''
      ''List MCP server catalog metadata.'' ''low'',
    permission_row ''perm_mcp_tool_list'' ''mcp.tool.list'' ''mcp_tool''
      ''List MCP tool catalog metadata.'' ''low'',
    permission_row ''perm_mcp_tool_invoke_low_risk'' ''mcp.tool.invoke.low_risk'' ''mcp_tool''
      ''Invoke low-risk read-only mock MCP tools.'' ''medium'',
    permission_row ''perm_mcp_tool_invoke_high_risk'' ''mcp.tool.invoke.high_risk'' ''mcp_tool''
      ''Future high-risk MCP invocation boundary.'' ''high'',
    permission_row ''perm_mcp_tool_invoke_critical'' ''mcp.tool.invoke.critical'' ''mcp_tool''
      ''Future critical MCP invocation boundary.'' ''critical'',
    permission_row ''perm_mcp_audit_read'' ''mcp.audit.read'' ''mcp_tool''
      ''Read MCP audit metadata.'' ''medium'',
    permission_row ''perm_auth_read'' ''auth.read'' ''auth''
      ''Read auth/RBAC metadata.'' ''low'',
    permission_row ''perm_auth_authorize_check'' ''auth.authorize.check'' ''auth''
      ''Check authorization decisions.'' ''medium'',
    permission_row ''perm_auth_admin'' ''auth.admin'' ''auth''
      ''Future auth administration boundary.'' ''critical'']"

definition permissions_of :: "string list \<Rightarrow> string list" where
  "permissions_of actions =
     map pm_id (filter (\<lambda>p. pm_action p \<in> set actions) default_auth_permissions)"

definition all_permission_ids :: "string list" where
  "all_permission_ids = map pm_id default_auth_permissions"

definition role_system_admin :: role where
  "role_system_admin =
     \<lparr>ro_id = ''role_system_admin'', ro_name = ''system_admin'',
      ro_description = ''Local mock system administrator. Not production auth.'',
      ro_permissions = all_permission_ids,
      ro_status = ''active'', ro_metadata = [(''productionOnlyFuture'', JBool True)]\<rparr>"

definition role_platform_admin :: role where
  "role_platform_admin =
     \<lparr>ro_id = ''role_platform_admin'', ro_name = ''platform_admin'',
      ro_description = ''Manage platform configuration while still obeying policy gates.'',
      ro_permissions = permissions_of [
        ''dashboard.read'', ''auth.read'', ''auth.authorize.check'', ''auth.admin'',
        ''registry.read'', ''registry.create'', ''registry.update'', ''registry.approve'',
        ''registry.rollback'', ''policy.evaluate'', ''policy.audit.read'', ''provider.invoke'',
        ''provider.credential.resolve'', ''git.credential.resolve'', ''llm.credential.resolve'',
        ''secret.ref.create'', ''secret.ref.update'', ''secret.ref.disable'',
        ''secret.ref.revoke'', ''git.repo.read'', ''git.branch.create'',
        ''git.pull_request.create'', ''git.remote_operation'', ''git.webhook.process'',
        ''git.audit.read'', ''git.merge'', ''git.rebase'', ''llm.completion'',
        ''llm.remote_completion'', ''llm.model.use'', ''llm.route.select'', ''llm.fallback'',
        ''llm.audit.read'', ''runner.execute'', ''runner.command.execute'', ''secret.audit.read'',
        ''security.audit.read'', ''mcp.server.list'', ''mcp.tool.list'',
        ''mcp.tool.invoke.low_risk'', ''mcp.tool.invoke.high_risk'', ''mcp.tool.invoke.critical'',
        ''mcp.audit.read''],
      ro_status = ''active'', ro_metadata = []\<rparr>"

definition role_developer :: role where
  "role_developer =
     \<lparr>ro_id = ''role_developer'', ro_name = ''developer'',
      ro_description = ''Run mock/local-safe development workflows.'',
      ro_permissions = permissions_of [
        ''dashboard.read'', ''task.read'', ''task.create'', ''task.run'', ''git.repo.read'',
        ''git.branch.create'', ''git.pull_request.create'', ''runner.execute'', ''llm.completion'',
        ''llm.model.use'', ''llm.route.select'', ''registry.read'', ''mcp.server.list'',
        ''mcp.tool.list'', ''mcp.tool.invoke.low_risk''],
      ro_status = ''active'', ro_metadata = []\<rparr>"

definition role_reviewer :: role where
  "role_reviewer =
     \<lparr>ro_id = ''role_reviewer'', ro_name = ''reviewer'',
      ro_description = ''Review registry and improvement governance metadata.'',
      ro_permissions = permissions_of [
        ''dashboard.read'', ''task.read'', ''registry.read'', ''registry.approve'',
        ''improvement.proposal.approve'', ''improvement.eval.attach'', ''git.repo.read'',
        ''mcp.server.list'', ''mcp.tool.list'', ''mcp.audit.read''],
      ro_status = ''active'', ro_metadata = []\<rparr>"

definition role_security_admin :: role where
  "role_security_admin =
     \<lparr>ro_id = ''role_security_admin'', ro_name = ''security_admin'',
      ro_description = ''Inspect security and policy audit state without direct secret reads.'',
      ro_permissions = permissions_of [
        ''dashboard.read'', ''auth.read'', ''auth.authorize.check'', ''secret.lease.request'',
        ''secret.audit.read'', ''security.audit.read'', ''policy.audit.read'',
        ''provider.credential.resolve'', ''git.credential.resolve'', ''llm.credential.resolve'',
        ''mcp.server.list'', ''mcp.tool.list'', ''mcp.audit.read''],
      ro_status = ''active'', ro_metadata = []\<rparr>"

definition role_service_account_runner :: role where
  "role_service_account_runner =
     \<lparr>ro_id = ''role_service_account_runner'', ro_name = ''service_account_runner'',
      ro_description = ''Scoped service account role for runner automation.'',
      ro_permissions = permissions_of [
        ''task.run'', ''runner.execute'', ''llm.completion'', ''llm.model.use'',
        ''llm.route.select'', ''git.branch.create'', ''mcp.tool.invoke.low_risk''],
      ro_status = ''active'', ro_metadata = [(''requiresScope'', JBool True)]\<rparr>"

definition role_viewer :: role where
  "role_viewer =
     \<lparr>ro_id = ''role_viewer'', ro_name = ''viewer'',
      ro_description = ''Read-only dashboard access.'',
      ro_permissions = permissions_of [
        ''dashboard.read'', ''mcp.server.list'', ''mcp.tool.list''],
      ro_status = ''active'', ro_metadata = []\<rparr>"

definition default_auth_roles :: "role list" where
  "default_auth_roles = [
    role_system_admin, role_platform_admin, role_developer, role_reviewer, role_security_admin,
    role_service_account_runner, role_viewer]"

section \<open>The mock identities\<close>

definition principal_mock_admin :: auth_principal where
  "principal_mock_admin =
     \<lparr>ap_id = ''principal_mock_admin'', ap_kind = ''system'', ap_display_name =
      ''Mock Admin Principal'', ap_email = None, ap_status = ''active'',
      ap_identity_provider_id = Some ''idp_mock'', ap_external_subject = Some ''mock-admin'',
      ap_created_at = catalog_created_at, ap_updated_at = catalog_created_at, ap_metadata = [(
      ''mock'', JBool True)]\<rparr>"

definition principal_demo_developer :: auth_principal where
  "principal_demo_developer =
     \<lparr>ap_id = ''principal_demo_developer'', ap_kind = ''user'', ap_display_name =
      ''Demo Developer'', ap_email = Some ''developer@example.com'', ap_status = ''active'',
      ap_identity_provider_id = Some ''idp_mock'', ap_external_subject = Some
      ''user_demo_developer'', ap_created_at = catalog_created_at,
      ap_updated_at = catalog_created_at, ap_metadata = [(''mock'', JBool True)]\<rparr>"

definition principal_demo_viewer :: auth_principal where
  "principal_demo_viewer =
     \<lparr>ap_id = ''principal_demo_viewer'', ap_kind = ''user'', ap_display_name = ''Demo Viewer'',
      ap_email = Some ''viewer@example.com'', ap_status = ''active'',
      ap_identity_provider_id = Some ''idp_mock'', ap_external_subject = Some ''user_demo_viewer'',
      ap_created_at = catalog_created_at, ap_updated_at = catalog_created_at, ap_metadata = [(
      ''mock'', JBool True)]\<rparr>"

definition principal_demo_reviewer :: auth_principal where
  "principal_demo_reviewer =
     \<lparr>ap_id = ''principal_demo_reviewer'', ap_kind = ''user'', ap_display_name = ''Demo Reviewer'',
      ap_email = Some ''reviewer@example.com'', ap_status = ''active'',
      ap_identity_provider_id = Some ''idp_mock'', ap_external_subject = Some
      ''user_demo_reviewer'', ap_created_at = catalog_created_at,
      ap_updated_at = catalog_created_at, ap_metadata = [(''mock'', JBool True)]\<rparr>"

definition principal_security_admin :: auth_principal where
  "principal_security_admin =
     \<lparr>ap_id = ''principal_security_admin'', ap_kind = ''user'', ap_display_name =
      ''Demo Security Admin'', ap_email = Some ''security@example.com'', ap_status = ''active'',
      ap_identity_provider_id = Some ''idp_mock'', ap_external_subject = Some
      ''user_security_admin'', ap_created_at = catalog_created_at,
      ap_updated_at = catalog_created_at, ap_metadata = [(''mock'', JBool True)]\<rparr>"

definition principal_runner_service :: auth_principal where
  "principal_runner_service =
     \<lparr>ap_id = ''principal_runner_service'', ap_kind = ''service_account'', ap_display_name =
      ''Runner Service Account'', ap_email = None, ap_status = ''active'',
      ap_identity_provider_id = Some ''idp_mock'', ap_external_subject = Some ''svc_runner'',
      ap_created_at = catalog_created_at, ap_updated_at = catalog_created_at, ap_metadata = [(
      ''mock'', JBool True)]\<rparr>"

definition principal_anonymous_mock :: auth_principal where
  "principal_anonymous_mock =
     \<lparr>ap_id = ''principal_anonymous_mock'', ap_kind = ''system'', ap_display_name =
      ''Anonymous Mock Principal'', ap_email = None, ap_status = ''disabled'',
      ap_identity_provider_id = Some ''idp_mock'', ap_external_subject = Some ''anonymous'',
      ap_created_at = catalog_created_at, ap_updated_at = catalog_created_at, ap_metadata = [(
      ''mock'', JBool True), (''authenticated'', JBool False)]\<rparr>"

definition default_principals :: "auth_principal list" where
  "default_principals = [
    principal_mock_admin, principal_demo_developer, principal_demo_viewer, principal_demo_reviewer,
    principal_security_admin, principal_runner_service, principal_anonymous_mock]"

definition team_platform :: team where
  "team_platform =
     \<lparr>tm_id = ''team_platform'', tm_name = ''platform'', tm_display_name = ''Platform'',
      tm_status = ''active'', tm_metadata = []\<rparr>"

definition team_security :: team where
  "team_security =
     \<lparr>tm_id = ''team_security'', tm_name = ''security'', tm_display_name = ''Security'',
      tm_status = ''active'', tm_metadata = []\<rparr>"

definition team_development :: team where
  "team_development =
     \<lparr>tm_id = ''team_development'', tm_name = ''development'', tm_display_name = ''Development'',
      tm_status = ''active'', tm_metadata = []\<rparr>"

definition default_teams :: "team list" where
  "default_teams = [
    team_platform, team_security, team_development]"

definition actor_mock_admin :: actor where
  "actor_mock_admin =
     \<lparr>ac_id = ''mock-admin'', ac_principal_id = ''principal_mock_admin'', ac_kind =
      ''anonymous_mock'', ac_display_name = ''Mock Admin'', ac_roles = [''system_admin'',
      ''platform_admin''], ac_teams = [''team_platform''], ac_status = ''active'',
      ac_created_at = catalog_created_at, ac_updated_at = catalog_created_at, ac_metadata = [(
      ''mock'', JBool True), (''productionAuth'', JBool False)]\<rparr>"

definition actor_user_demo_developer :: actor where
  "actor_user_demo_developer =
     \<lparr>ac_id = ''user_demo_developer'', ac_principal_id = ''principal_demo_developer'', ac_kind =
      ''human_user'', ac_display_name = ''Demo Developer'', ac_roles = [''developer''],
      ac_teams = [''team_development''], ac_status = ''active'',
      ac_created_at = catalog_created_at, ac_updated_at = catalog_created_at, ac_metadata = [(
      ''mock'', JBool True)]\<rparr>"

definition actor_user_demo_viewer :: actor where
  "actor_user_demo_viewer =
     \<lparr>ac_id = ''user_demo_viewer'', ac_principal_id = ''principal_demo_viewer'', ac_kind =
      ''human_user'', ac_display_name = ''Demo Viewer'', ac_roles = [''viewer''], ac_teams = [],
      ac_status = ''active'', ac_created_at = catalog_created_at,
      ac_updated_at = catalog_created_at, ac_metadata = [(''mock'', JBool True)]\<rparr>"

definition actor_user_demo_reviewer :: actor where
  "actor_user_demo_reviewer =
     \<lparr>ac_id = ''user_demo_reviewer'', ac_principal_id = ''principal_demo_reviewer'', ac_kind =
      ''human_user'', ac_display_name = ''Demo Reviewer'', ac_roles = [''reviewer''], ac_teams = [
      ''team_development''], ac_status = ''active'', ac_created_at = catalog_created_at,
      ac_updated_at = catalog_created_at, ac_metadata = [(''mock'', JBool True)]\<rparr>"

definition actor_user_security_admin :: actor where
  "actor_user_security_admin =
     \<lparr>ac_id = ''user_security_admin'', ac_principal_id = ''principal_security_admin'', ac_kind =
      ''human_user'', ac_display_name = ''Demo Security Admin'', ac_roles = [''security_admin''],
      ac_teams = [''team_security''], ac_status = ''active'', ac_created_at = catalog_created_at,
      ac_updated_at = catalog_created_at, ac_metadata = [(''mock'', JBool True)]\<rparr>"

definition actor_svc_runner :: actor where
  "actor_svc_runner =
     \<lparr>ac_id = ''svc_runner'', ac_principal_id = ''principal_runner_service'', ac_kind =
      ''service_account'', ac_display_name = ''Runner Service'', ac_roles = [
      ''service_account_runner''], ac_teams = [''team_development''], ac_status = ''active'',
      ac_created_at = catalog_created_at, ac_updated_at = catalog_created_at, ac_metadata = [(
      ''mock'', JBool True)]\<rparr>"

definition actor_anonymous_mock :: actor where
  "actor_anonymous_mock =
     \<lparr>ac_id = ''anonymous-mock'', ac_principal_id = ''principal_anonymous_mock'', ac_kind =
      ''anonymous_mock'', ac_display_name = ''Anonymous Mock'', ac_roles = [], ac_teams = [],
      ac_status = ''disabled'', ac_created_at = catalog_created_at,
      ac_updated_at = catalog_created_at, ac_metadata = [(''mock'', JBool True), (
      ''authenticated'', JBool False)]\<rparr>"

definition default_actors :: "actor list" where
  "default_actors = [
    actor_mock_admin, actor_user_demo_developer, actor_user_demo_viewer, actor_user_demo_reviewer,
    actor_user_security_admin, actor_svc_runner, actor_anonymous_mock]"

definition binding_mock_admin_system_admin :: role_binding where
  "binding_mock_admin_system_admin =
     \<lparr>rb_id = ''binding_mock_admin_system_admin'', rb_principal_id = Some ''principal_mock_admin'',
      rb_team_id = None, rb_role_id = ''role_system_admin'', rb_scope = global_scope None,
      rb_status = ''active'', rb_created_at = catalog_created_at,
      rb_updated_at = catalog_created_at\<rparr>"

definition binding_mock_admin_platform_admin :: role_binding where
  "binding_mock_admin_platform_admin =
     \<lparr>rb_id = ''binding_mock_admin_platform_admin'', rb_principal_id = Some
      ''principal_mock_admin'', rb_team_id = None, rb_role_id = ''role_platform_admin'',
      rb_scope = global_scope None, rb_status = ''active'', rb_created_at = catalog_created_at,
      rb_updated_at = catalog_created_at\<rparr>"

definition binding_developer :: role_binding where
  "binding_developer =
     \<lparr>rb_id = ''binding_developer'', rb_principal_id = Some ''principal_demo_developer'',
      rb_team_id = None, rb_role_id = ''role_developer'', rb_scope = global_scope None,
      rb_status = ''active'', rb_created_at = catalog_created_at,
      rb_updated_at = catalog_created_at\<rparr>"

definition binding_viewer :: role_binding where
  "binding_viewer =
     \<lparr>rb_id = ''binding_viewer'', rb_principal_id = Some ''principal_demo_viewer'',
      rb_team_id = None, rb_role_id = ''role_viewer'', rb_scope = global_scope None, rb_status =
      ''active'', rb_created_at = catalog_created_at, rb_updated_at = catalog_created_at\<rparr>"

definition binding_reviewer :: role_binding where
  "binding_reviewer =
     \<lparr>rb_id = ''binding_reviewer'', rb_principal_id = Some ''principal_demo_reviewer'',
      rb_team_id = None, rb_role_id = ''role_reviewer'', rb_scope = global_scope None,
      rb_status = ''active'', rb_created_at = catalog_created_at,
      rb_updated_at = catalog_created_at\<rparr>"

definition binding_security_admin :: role_binding where
  "binding_security_admin =
     \<lparr>rb_id = ''binding_security_admin'', rb_principal_id = Some ''principal_security_admin'',
      rb_team_id = None, rb_role_id = ''role_security_admin'', rb_scope = global_scope None,
      rb_status = ''active'', rb_created_at = catalog_created_at,
      rb_updated_at = catalog_created_at\<rparr>"

definition binding_runner_task_demo :: role_binding where
  "binding_runner_task_demo =
     \<lparr>rb_id = ''binding_runner_task_demo'', rb_principal_id = Some ''principal_runner_service'',
      rb_team_id = None, rb_role_id = ''role_service_account_runner'', rb_scope = task_scope
      ''task_demo_backend'', rb_status = ''active'', rb_created_at = catalog_created_at,
      rb_updated_at = catalog_created_at\<rparr>"

definition default_role_bindings :: "role_binding list" where
  "default_role_bindings = [
    binding_mock_admin_system_admin, binding_mock_admin_platform_admin, binding_developer,
    binding_viewer, binding_reviewer, binding_security_admin, binding_runner_task_demo]"

definition svcacct_runner :: service_account where
  "svcacct_runner =
     \<lparr>sa_id = ''svcacct_runner'', sa_principal_id = ''principal_runner_service'',
      sa_name = ''runner-service'', sa_owner_team_id = Some ''team_development'',
      sa_allowed_scopes = [task_scope ''task_demo_backend''], sa_status = ''active'',
      sa_created_at = catalog_created_at, sa_updated_at = catalog_created_at,
      sa_metadata = [(''mock'', JBool True), (''rawCredentialStored'', JBool False)]\<rparr>"

definition provider_row :: "string \<Rightarrow> string \<Rightarrow> string \<Rightarrow> string \<Rightarrow> jsobj \<Rightarrow> identity_provider" where
  "provider_row i kind disp status meta =
     \<lparr>ip_id = i, ip_kind = kind, ip_display_name = disp, ip_status = status, ip_metadata = meta\<rparr>"

definition default_identity_providers :: "identity_provider list" where
  "default_identity_providers = [
    provider_row ''idp_mock'' ''mock'' ''Mock Auth Provider'' ''active''
      [(''productionAuth'', JBool False)],
    provider_row ''idp_oidc_future'' ''oidc_future'' ''Future OIDC Provider'' ''disabled''
      [(''notImplemented'', JBool True)],
    provider_row ''idp_saml_future'' ''saml_future'' ''Future SAML Provider'' ''disabled''
      [(''notImplemented'', JBool True)],
    provider_row ''idp_scim_future'' ''scim_future'' ''Future SCIM Directory'' ''disabled''
      [(''notImplemented'', JBool True)],
    provider_row ''idp_github_future'' ''github_future'' ''Future GitHub Identity Provider'' ''disabled''
      [(''notImplemented'', JBool True)],
    provider_row ''idp_google_future'' ''google_future'' ''Future Google Identity Provider'' ''disabled''
      [(''notImplemented'', JBool True)],
    provider_row ''idp_microsoft_future'' ''microsoft_future'' ''Future Microsoft Identity Provider'' ''disabled''
      [(''notImplemented'', JBool True)],
    provider_row ''idp_custom_future'' ''custom_future'' ''Future Custom Identity Provider'' ''disabled''
      [(''notImplemented'', JBool True)]]"

definition default_auth_catalog :: auth_catalog where
  "default_auth_catalog =
     \<lparr>cat_principals = default_principals, cat_actors = default_actors, cat_teams = default_teams,
      cat_roles = default_auth_roles, cat_permissions = default_auth_permissions,
      cat_role_bindings = default_role_bindings, cat_service_accounts = [svcacct_runner],
      cat_identity_providers = default_identity_providers\<rparr>"

text \<open>\<open>new InMemoryAuthRepository(seed)\<close>: a field the seed does not give is the default one.\<close>

record auth_seed =
  seed_principals :: "auth_principal list option"
  seed_actors :: "actor list option"
  seed_teams :: "team list option"
  seed_roles :: "role list option"
  seed_permissions :: "permission list option"
  seed_role_bindings :: "role_binding list option"
  seed_service_accounts :: "service_account list option"
  seed_identity_providers :: "identity_provider list option"

definition new_auth_repository :: "auth_seed \<Rightarrow> auth_repository" where
  "new_auth_repository seed =
     \<lparr>cat_principals = opt_default (seed_principals seed) (cat_principals default_auth_catalog),
      cat_actors = opt_default (seed_actors seed) (cat_actors default_auth_catalog),
      cat_teams = opt_default (seed_teams seed) (cat_teams default_auth_catalog),
      cat_roles = opt_default (seed_roles seed) (cat_roles default_auth_catalog),
      cat_permissions = opt_default (seed_permissions seed) (cat_permissions default_auth_catalog),
      cat_role_bindings = opt_default (seed_role_bindings seed) (cat_role_bindings default_auth_catalog),
      cat_service_accounts =
        opt_default (seed_service_accounts seed) (cat_service_accounts default_auth_catalog),
      cat_identity_providers =
        opt_default (seed_identity_providers seed) (cat_identity_providers default_auth_catalog),
      repo_events = []\<rparr>"

definition empty_seed :: auth_seed where
  "empty_seed =
     \<lparr>seed_principals = None, seed_actors = None, seed_teams = None, seed_roles = None,
      seed_permissions = None, seed_role_bindings = None, seed_service_accounts = None,
      seed_identity_providers = None\<rparr>"

definition default_auth_repository :: auth_repository where
  "default_auth_repository = new_auth_repository empty_seed"

end
