(* ===== verification/AuthService.thy ===== *)
theory AuthService
  imports AuthCatalog PolicyService DefaultPolicy
begin

text \<open>
  Authentication and authorisation, \<open>packages/auth/src\<close>: the mock identity provider and the
  disabled future providers of \<open>providers.ts\<close>, the authorisation service of \<open>service.ts\<close>, which
  grants a permission through an active role binding whose scope covers the resource and then
  asks the policy service, and the request contexts of \<open>request-context.ts\<close>.  The service state
  is the auth repository and the policy service; the policy engine inside is a parameter.
\<close>

section \<open>Authentication\<close>

record auth_context =
  cx_request_id :: string
  cx_actor :: actor
  cx_principal :: auth_principal
  cx_teams :: "team list"
  cx_roles :: "role list"
  cx_permissions :: "permission list"
  cx_bindings :: "role_binding list"
  cx_mode :: string
  cx_authenticated :: bool
  cx_source :: string
  cx_created_at :: time
  cx_metadata :: jsobj

record auth_request =
  aq_request_id :: "string option"
  aq_actor_id :: "string option"
  aq_correlation_id :: "string option"
  aq_source :: "string option"
  aq_metadata :: "jsobj option"

fun unique_loop :: "('a \<Rightarrow> string) \<Rightarrow> string set \<Rightarrow> 'a list \<Rightarrow> 'a list" where
  "unique_loop key seen [] = []"
| "unique_loop key seen (x # xs) =
     (if key x \<in> seen then unique_loop key seen xs
      else x # unique_loop key (insert (key x) seen) xs)"

definition unique_by :: "('a \<Rightarrow> string) \<Rightarrow> 'a list \<Rightarrow> 'a list" where
  "unique_by key xs = unique_loop key {} xs"

definition word_id :: "string \<Rightarrow> string" where
  \<comment> \<open>\<open>id.replace(/[^a-zA-Z0-9_]/g, "_")\<close>\<close>
  "word_id i = map (\<lambda>c. if is_word c then c else CHR ''_'') i"

definition mock_unauthenticated :: jsobj where
  "mock_unauthenticated = [(''authenticated'', JBool False), (''mock'', JBool True)]"

definition disabled_principal :: "draws \<Rightarrow> string \<Rightarrow> auth_principal" where
  "disabled_principal s i =
     \<lparr>ap_id = ''principal_unknown_'' @ word_id i, ap_kind = ''system'',
      ap_display_name = ''Unknown actor '' @ i, ap_email = None, ap_status = ''disabled'',
      ap_identity_provider_id = None, ap_external_subject = None,
      ap_created_at = clock 0 s, ap_updated_at = clock 0 s, ap_metadata = mock_unauthenticated\<rparr>"

definition disabled_actor :: "draws \<Rightarrow> string \<Rightarrow> string \<Rightarrow> actor" where
  "disabled_actor s i p =
     \<lparr>ac_id = i, ac_principal_id = p, ac_kind = ''anonymous_mock'',
      ac_display_name = ''Unknown actor '' @ i, ac_roles = [], ac_teams = [],
      ac_status = ''disabled'', ac_created_at = clock 0 s, ac_updated_at = clock 0 s,
      ac_metadata = mock_unauthenticated\<rparr>"

definition is_active :: "string \<Rightarrow> bool" where
  "is_active st \<longleftrightarrow> st = ''active''"

text \<open>The part of \<open>resolveAuthContext\<close> that reads the repository.\<close>

definition context_of :: "draws \<Rightarrow> string \<Rightarrow> auth_request \<Rightarrow> auth_repository \<Rightarrow> auth_context" where
  "context_of s default_actor req r =
     (let actor_id = opt_default (aq_actor_id req) default_actor;
          found = get_actor actor_id r;
          actor = opt_default found
            (disabled_actor (sub 0 s) actor_id (''principal_unknown_'' @ word_id actor_id));
          principal = opt_default (get_principal (ac_principal_id actor) r)
            (disabled_principal (sub 1 s) actor_id);
          teams = List.map_filter (\<lambda>t. get_team t r) (ac_teams actor);
          principal_bindings = list_role_bindings (Some (ap_id principal)) None r;
          team_bindings = concat (map (\<lambda>t. list_role_bindings None (Some (tm_id t)) r) teams);
          bindings = filter (\<lambda>b. is_active (rb_status b))
            (unique_by rb_id (principal_bindings @ team_bindings));
          actor_roles = List.map_filter (\<lambda>n. get_role n r) (ac_roles actor);
          bound_roles = List.map_filter (\<lambda>b. get_role (rb_role_id b) r) bindings;
          roles = filter (\<lambda>x. is_active (ro_status x)) (unique_by ro_id (actor_roles @ bound_roles));
          permissions = unique_by pm_id
            (concat (map (\<lambda>x. List.map_filter (\<lambda>p. get_permission p r) (ro_permissions x)) roles))
      in \<lparr>cx_request_id = opt_default (aq_request_id req) (fresh_id ''req'' 2 s),
          cx_actor = actor, cx_principal = principal, cx_teams = teams, cx_roles = roles,
          cx_permissions = permissions, cx_bindings = bindings, cx_mode = ''mock'',
          cx_authenticated = (found \<noteq> None \<and> is_active (ac_status actor) \<and> is_active (ap_status principal)),
          cx_source = opt_default (aq_source req) ''api'', cx_created_at = clock 3 s,
          cx_metadata = obj_spread (opt_default (aq_metadata req) [])
            [(''isMockActor'', JBool True), (''productionAuthEnabled'', JBool False),
             (''correlationId'', of_opt_str (aq_correlation_id req))]\<rparr>)"

definition context_event :: "auth_context \<Rightarrow> string \<Rightarrow> string \<Rightarrow> string \<Rightarrow> jsobj \<Rightarrow> event_input" where
  "context_event cx ty res reason meta i t =
     \<lparr>ae_id = i, ae_type = ty, ae_actor_id = Some (ac_id (cx_actor cx)),
      ae_principal_id = Some (ap_id (cx_principal cx)), ae_action = None, ae_resource_kind = None,
      ae_resource_id = None, ae_result = res, ae_reason = Some reason,
      ae_request_id = Some (cx_request_id cx), ae_policy_decision_id = None, ae_created_at = t,
      ae_metadata = meta\<rparr>"

definition resolve_auth_context ::
  "draws \<Rightarrow> string \<Rightarrow> auth_request \<Rightarrow> auth_repository \<Rightarrow> auth_context \<times> auth_repository" where
  "resolve_auth_context s default_actor req r =
     (let cx = context_of s default_actor req r;
          missing = (get_actor (opt_default (aq_actor_id req) default_actor) r = None);
          r1 = snd (record_auth_event (sub 4 s)
            (context_event cx (if missing then ''auth_context_missing'' else ''auth_context_resolved'')
              (if missing then ''missing'' else ''resolved'')
              (if missing then ''actor_not_found'' else ''mock_auth_context_resolved'')
              [(''authMode'', JStr ''mock''), (''source'', JStr (cx_source cx)),
               (''authenticated'', JBool (cx_authenticated cx))]) r);
          r2 = (if missing then r1
                else snd (record_auth_event (sub 5 s)
                  (context_event cx ''mock_actor_used'' ''resolved''
                    ''MockAuthProvider is default and is not production auth.''
                    [(''authMode'', JStr ''mock''), (''productionAuthEnabled'', JBool False)]) r1));
          r3 = (if ac_kind (cx_actor cx) = ''service_account''
                then snd (record_auth_event (sub 6 s)
                  (context_event cx ''service_account_used''
                    (if cx_authenticated cx then ''resolved'' else ''denied'')
                    (if cx_authenticated cx then ''service_account_context_resolved''
                     else ''service_account_disabled_or_missing'')
                    [(''authMode'', JStr ''mock'')]) r2)
                else r2)
      in (cx, r3))"

definition validate_actor :: "actor \<Rightarrow> auth_repository \<Rightarrow> string option" where
  \<comment> \<open>\<open>None\<close> is \<open>ok\<close>, otherwise the reason\<close>
  "validate_actor a r =
     (if \<not> is_active (ac_status a) then Some ''actor_disabled''
      else (case get_principal (ac_principal_id a) r of
              None \<Rightarrow> Some ''principal_inactive_or_missing''
            | Some p \<Rightarrow> if is_active (ap_status p) then None else Some ''principal_inactive_or_missing''))"

text \<open>An \<open>AuthProvider\<close>: the mock one over a repository, or a placeholder of a future kind.\<close>

datatype auth_provider = MockAuth string | FutureAuth string

definition provider_kind :: "auth_provider \<Rightarrow> string" where
  "provider_kind p = (case p of MockAuth _ \<Rightarrow> ''mock'' | FutureAuth k \<Rightarrow> k)"

definition provider_resolve :: "auth_provider \<Rightarrow> draws \<Rightarrow> auth_request \<Rightarrow> (auth_repository, auth_context) op" where
  "provider_resolve p s req r =
     (case p of
        MockAuth d \<Rightarrow> (let (cx, r') = resolve_auth_context s d req r in (Inr cx, r'))
      | FutureAuth k \<Rightarrow>
          (Inl (Error (k @ '' is disabled and not implemented in Production Auth/RBAC Planning v0.'')), r))"

definition provider_validate_actor :: "auth_provider \<Rightarrow> actor \<Rightarrow> auth_repository \<Rightarrow> string option" where
  "provider_validate_actor p a r =
     (case p of MockAuth _ \<Rightarrow> validate_actor a r | FutureAuth k \<Rightarrow> Some (k @ ''_disabled''))"

definition provider_list_roles :: "auth_provider \<Rightarrow> auth_repository \<Rightarrow> role list" where
  "provider_list_roles p r = (case p of MockAuth _ \<Rightarrow> cat_roles r | FutureAuth _ \<Rightarrow> [])"

definition provider_list_permissions :: "auth_provider \<Rightarrow> auth_repository \<Rightarrow> permission list" where
  "provider_list_permissions p r = (case p of MockAuth _ \<Rightarrow> cat_permissions r | FutureAuth _ \<Rightarrow> [])"

section \<open>Authorisation\<close>

record auth_resource =
  ar_kind :: string
  ar_id :: "string option"
  ar_scope :: "resource_scope option"
  ar_metadata :: "jsobj option"

record check_request =
  ck_context :: auth_context
  ck_action :: string
  ck_resource :: auth_resource
  ck_policy_context :: "policy_context option"
    \<comment> \<open>an absent environment or metadata is the empty object\<close>

record auth_decision =
  ad_allowed :: bool
  ad_reason :: string
  ad_action :: string
  ad_resource_kind :: string
  ad_resource_id :: "string option"
  ad_actor_id :: string
  ad_principal_id :: "string option"
  ad_required_permission :: "string option"
  ad_policy_decision :: "policy_decision option"
  ad_audit_event :: "auth_event option"

record auth_service =
  as_repo :: auth_repository
  as_policy :: policy_service

definition to_policy_subject :: "auth_context \<Rightarrow> auth_repository \<Rightarrow> policy_subject" where
  "to_policy_subject cx r =
     create_policy_subject (Some (ac_id (cx_actor cx))) (Some (ap_id (cx_principal cx)))
       (Some (ac_kind (cx_actor cx))) (Some (map ro_name (cx_roles cx)))
       (Some (map tm_id (cx_teams cx))) (Some (cx_mode cx))
       (map_option sa_id (get_service_account (ap_id (cx_principal cx)) r))
       (Some (obj_get (cx_metadata cx) ''isMockActor'' = JBool True))
       (Some [(''source'', JStr (cx_source cx)), (''authenticated'', JBool (cx_authenticated cx)),
              (''productionAuthEnabled'', JBool False)])"

definition scope_matches :: "resource_scope \<Rightarrow> resource_scope option \<Rightarrow> string \<Rightarrow> string option \<Rightarrow> bool" where
  "scope_matches b requested kind i =
     (if sc_kind b = ''global'' then True
      else (case requested of
              Some q \<Rightarrow> if sc_kind b \<noteq> sc_kind q then False
                       else sc_scope_id b = None \<or> sc_scope_id b = sc_scope_id q
            | None \<Rightarrow> if sc_kind b = kind then sc_scope_id b = None \<or> sc_scope_id b = i else False))"

definition binding_event ::
  "auth_context \<Rightarrow> permission \<Rightarrow> auth_resource \<Rightarrow> role_binding \<Rightarrow> role \<Rightarrow> event_input" where
  "binding_event cx p res b role i t =
     \<lparr>ae_id = i, ae_type = ''role_binding_evaluated'', ae_actor_id = Some (ac_id (cx_actor cx)),
      ae_principal_id = Some (ap_id (cx_principal cx)), ae_action = Some (pm_action p),
      ae_resource_kind = Some (ar_kind res), ae_resource_id = ar_id res,
      ae_result = (if scope_matches (rb_scope b) (ar_scope res) (ar_kind res) (ar_id res)
                   then ''allowed'' else ''denied''),
      ae_reason = Some (''role_binding:'' @ rb_id b), ae_request_id = Some (cx_request_id cx),
      ae_policy_decision_id = None, ae_created_at = t,
      ae_metadata = [(''bindingScopeKind'', JStr (sc_kind (rb_scope b))),
        (''bindingScopeId'', of_opt_str (sc_scope_id (rb_scope b))), (''role'', JStr (ro_name role))]\<rparr>"

text \<open>The role through which a binding may grant the permission, before its scope is looked at.\<close>

definition binding_role ::
  "auth_context \<Rightarrow> permission \<Rightarrow> auth_repository \<Rightarrow> role_binding \<Rightarrow> role option" where
  "binding_role cx p r b =
     (if \<not> is_active (rb_status b) \<or> rb_role_id b \<notin> ro_id ` set (cx_roles cx) then None
      else (case get_role (rb_role_id b) r of
              None \<Rightarrow> None
            | Some role \<Rightarrow> if pm_id p \<in> set (ro_permissions role) then Some role else None))"

text \<open>\<open>some\<close> stops at the first binding that grants; the bindings after it leave no event.\<close>

fun grant_loop ::
  "draws \<Rightarrow> nat \<Rightarrow> auth_context \<Rightarrow> permission \<Rightarrow> auth_resource \<Rightarrow> role_binding list \<Rightarrow> auth_repository \<Rightarrow>
   bool \<times> auth_repository" where
  "grant_loop s k cx p res [] r = (False, r)"
| "grant_loop s k cx p res (b # bs) r =
     (case binding_role cx p r b of
        None \<Rightarrow> grant_loop s (Suc k) cx p res bs r
      | Some role \<Rightarrow>
          (let r' = snd (record_auth_event (sub k s) (binding_event cx p res b role) r)
           in if scope_matches (rb_scope b) (ar_scope res) (ar_kind res) (ar_id res) then (True, r')
              else grant_loop s (Suc k) cx p res bs r'))"

definition permission_granted ::
  "draws \<Rightarrow> auth_context \<Rightarrow> permission \<Rightarrow> auth_resource \<Rightarrow> auth_repository \<Rightarrow> bool \<times> auth_repository" where
  "permission_granted s cx p res r =
     (if pm_id p \<notin> pm_id ` set (cx_permissions cx) then (False, r)
      else grant_loop s 0 cx p res (cx_bindings cx) r)"

definition auth_policy_request :: "check_request \<Rightarrow> auth_repository \<Rightarrow> policy_request" where
  "auth_policy_request req r =
     (let cx = ck_context req; res = ck_resource req;
          given = opt_default (ck_policy_context req) (create_policy_context None None)
      in \<lparr>req_subject = to_policy_subject cx r, req_action = ck_action req,
          req_resource = create_policy_resource (ar_kind res) (ar_id res) (ar_metadata res),
          req_context = given\<lparr>
            ctx_environment := obj_spread (ctx_environment given)
              [(''authMode'', JStr (cx_mode cx)), (''authenticated'', JBool (cx_authenticated cx)),
               (''productionAuthEnabled'', JBool False)],
            ctx_metadata := obj_spread (ctx_metadata given)
              [(''requestId'', JStr (cx_request_id cx))]\<rparr>\<rparr>)"

definition decision_event ::
  "check_request \<Rightarrow> string \<Rightarrow> string \<Rightarrow> string \<Rightarrow> policy_decision option \<Rightarrow> jsobj \<Rightarrow> event_input" where
  "decision_event req ty res reason pd meta i t =
     (let cx = ck_context req in
      \<lparr>ae_id = i, ae_type = ty, ae_actor_id = Some (ac_id (cx_actor cx)),
       ae_principal_id = Some (ap_id (cx_principal cx)), ae_action = Some (ck_action req),
       ae_resource_kind = Some (ar_kind (ck_resource req)), ae_resource_id = ar_id (ck_resource req),
       ae_result = res, ae_reason = Some reason, ae_request_id = Some (cx_request_id cx),
       ae_policy_decision_id = map_option dec_id pd, ae_created_at = t, ae_metadata = meta\<rparr>)"

definition auth_deny ::
  "draws \<Rightarrow> check_request \<Rightarrow> string \<Rightarrow> permission option \<Rightarrow> policy_decision option \<Rightarrow> auth_repository \<Rightarrow>
   auth_decision \<times> auth_repository" where
  "auth_deny s req reason p pd r =
     (let cx = ck_context req;
          (e, r') = record_auth_event s
            (decision_event req ''authorization_denied'' ''denied'' reason pd
              [(''authMode'', JStr (cx_mode cx)), (''authenticated'', JBool (cx_authenticated cx)),
               (''roles'', JArr (map (\<lambda>x. JStr (ro_name x)) (cx_roles cx)))]) r
      in (\<lparr>ad_allowed = False, ad_reason = reason, ad_action = ck_action req,
           ad_resource_kind = ar_kind (ck_resource req), ad_resource_id = ar_id (ck_resource req),
           ad_actor_id = ac_id (cx_actor cx), ad_principal_id = Some (ap_id (cx_principal cx)),
           ad_required_permission = Some (opt_default (map_option pm_action p) (ck_action req)),
           ad_policy_decision = pd, ad_audit_event = Some e\<rparr>, r'))"

definition auth_allow ::
  "draws \<Rightarrow> check_request \<Rightarrow> permission \<Rightarrow> policy_decision option \<Rightarrow> auth_repository \<Rightarrow>
   auth_decision \<times> auth_repository" where
  "auth_allow s req p pd r =
     (let cx = ck_context req;
          (e, r') = record_auth_event s
            (decision_event req ''authorization_allowed'' ''allowed'' ''rbac_and_policy_allowed'' pd
              [(''authMode'', JStr (cx_mode cx)),
               (''roles'', JArr (map (\<lambda>x. JStr (ro_name x)) (cx_roles cx))),
               (''teams'', JArr (map (\<lambda>x. JStr (tm_id x)) (cx_teams cx)))]) r
      in (\<lparr>ad_allowed = True, ad_reason = ''allowed'', ad_action = ck_action req,
           ad_resource_kind = ar_kind (ck_resource req), ad_resource_id = ar_id (ck_resource req),
           ad_actor_id = ac_id (cx_actor cx), ad_principal_id = Some (ap_id (cx_principal cx)),
           ad_required_permission = Some (pm_action p), ad_policy_decision = pd,
           ad_audit_event = Some e\<rparr>, r'))"

definition is_policy_check :: "check_request \<Rightarrow> bool" where
  "is_policy_check req \<longleftrightarrow>
     is_policy_action (ck_action req) \<and> is_policy_resource_kind (ar_kind (ck_resource req))"

definition auth_check :: "engine \<Rightarrow> draws \<Rightarrow> check_request \<Rightarrow> auth_service \<Rightarrow> auth_decision \<times> auth_service" where
  "auth_check decide s req svc =
     (let cx = ck_context req; r = as_repo svc; p = get_permission (ck_action req) r;
          deny = (\<lambda>k reason p pd svc'.
            let (d, r') = auth_deny (sub k s) req reason p pd (as_repo svc') in (d, svc'\<lparr>as_repo := r'\<rparr>))
      in if \<not> cx_authenticated cx \<or> \<not> is_active (ac_status (cx_actor cx)) \<or>
            \<not> is_active (ap_status (cx_principal cx))
         then deny 0 ''actor_not_authenticated_or_disabled'' p None svc
         else (case p of
           None \<Rightarrow> deny 1 (''permission_not_registered:'' @ ck_action req) None None svc
         | Some pm \<Rightarrow>
             (let (granted, r1) = permission_granted (sub 2 s) cx pm (ck_resource req) r;
                  svc1 = svc\<lparr>as_repo := r1\<rparr>
              in if \<not> granted then deny 3 (''permission_denied:'' @ ck_action req) p None svc1
                 else if is_policy_check req then
                   (let (pd, ps) = svc_evaluate decide (sub 4 s) (auth_policy_request req r1) (as_policy svc1);
                        svc2 = svc1\<lparr>as_policy := ps\<rparr>
                    in if \<not> dec_allowed pd then deny 5 (''policy_denied:'' @ dec_reason pd) p (Some pd) svc2
                       else (let (d, r2) = auth_allow (sub 6 s) req pm (Some pd) (as_repo svc2)
                             in (d, svc2\<lparr>as_repo := r2\<rparr>)))
                 else (let (d, r2) = auth_allow (sub 6 s) req pm None (as_repo svc1)
                       in (d, svc1\<lparr>as_repo := r2\<rparr>)))))"

definition has_permission ::
  "engine \<Rightarrow> draws \<Rightarrow> auth_context \<Rightarrow> string \<Rightarrow> auth_resource \<Rightarrow> auth_service \<Rightarrow> auth_decision \<times> auth_service" where
  "has_permission decide s cx action res =
     auth_check decide s \<lparr>ck_context = cx, ck_action = action, ck_resource = res, ck_policy_context = None\<rparr>"

text \<open>An \<open>AuthorizationError\<close> carries the decision, which is the left of the sum.\<close>

definition require_permission ::
  "engine \<Rightarrow> draws \<Rightarrow> auth_context \<Rightarrow> string \<Rightarrow> auth_resource \<Rightarrow> auth_service \<Rightarrow>
   (auth_decision + auth_decision) \<times> auth_service" where
  "require_permission decide s cx action res svc =
     (let (d, svc') = has_permission decide s cx action res svc
      in (if ad_allowed d then Inr d else Inl d, svc'))"

section \<open>Request contexts\<close>

record request_context =
  rc_request_id :: string
  rc_auth_context :: auth_context
  rc_correlation_id :: "string option"
  rc_source :: string
  rc_created_at :: time
  rc_metadata :: jsobj

text \<open>The headers of a request by lower-case name; a repeated header is not a string.\<close>

definition header_value :: "jsobj \<Rightarrow> string \<Rightarrow> string option" where
  "header_value hs name =
     (case obj_get hs (to_lower name) of JStr v \<Rightarrow> if v = [] then None else Some v | _ \<Rightarrow> None)"

definition from_auth_context :: "draws \<Rightarrow> auth_context \<Rightarrow> string \<Rightarrow> string option \<Rightarrow> request_context" where
  "from_auth_context s cx src corr =
     \<lparr>rc_request_id = cx_request_id cx, rc_auth_context = cx, rc_correlation_id = corr,
      rc_source = src, rc_created_at = clock 0 s,
      rc_metadata = [(''authMode'', JStr (cx_mode cx)), (''productionAuthEnabled'', JBool False)]\<rparr>"

definition resolve_request ::
  "auth_provider \<Rightarrow> draws \<Rightarrow> auth_request \<Rightarrow> string \<Rightarrow> string option \<Rightarrow> (auth_repository, request_context) op" where
  "resolve_request p s req src corr =
     op_bind (provider_resolve p (sub 0 s) req)
       (\<lambda>cx. op_return (from_auth_context (sub 1 s) cx src corr))"

definition resolve_from_api_request ::
  "auth_provider \<Rightarrow> draws \<Rightarrow> jsobj \<Rightarrow> (auth_repository, request_context) op" where
  "resolve_from_api_request p s hs =
     (let actor_id = header_value hs ''x-aichestra-actor-id'';
          corr = header_value hs ''x-aichestra-correlation-id''
      in resolve_request p s
           \<lparr>aq_request_id = Some (opt_default (header_value hs ''x-aichestra-request-id'') (fresh_id ''req'' 2 s)),
            aq_actor_id = actor_id, aq_correlation_id = corr, aq_source = Some ''api'',
            aq_metadata = Some [(''mockHeaderActorOverride'', JBool (actor_id \<noteq> None))]\<rparr>
           ''api'' corr)"

definition create_system_context ::
  "auth_provider \<Rightarrow> draws \<Rightarrow> string \<Rightarrow> (auth_repository, request_context) op" where
  "create_system_context p s reason =
     resolve_request p s
       \<lparr>aq_request_id = Some (fresh_id ''sysreq'' 2 s), aq_actor_id = Some ''mock-admin'',
        aq_correlation_id = None, aq_source = Some ''system'',
        aq_metadata = Some [(''reason'', JStr reason)]\<rparr> ''system'' None"

definition create_test_context ::
  "auth_provider \<Rightarrow> draws \<Rightarrow> string \<Rightarrow> jsobj \<Rightarrow> (auth_repository, request_context) op" where
  "create_test_context p s actor_id meta =
     resolve_request p s
       \<lparr>aq_request_id = Some (fresh_id ''testreq'' 2 s), aq_actor_id = Some actor_id,
        aq_correlation_id = None, aq_source = Some ''test'', aq_metadata = Some meta\<rparr> ''test'' None"

section \<open>What authorisation decides\<close>

text \<open>A binding of the context grants a permission on a resource.\<close>

definition binding_grants ::
  "auth_context \<Rightarrow> permission \<Rightarrow> auth_resource \<Rightarrow> auth_repository \<Rightarrow> role_binding \<Rightarrow> bool" where
  "binding_grants cx p res r b \<longleftrightarrow>
     is_active (rb_status b) \<and> rb_role_id b \<in> ro_id ` set (cx_roles cx) \<and>
     (\<exists>role. get_role (rb_role_id b) r = Some role \<and> pm_id p \<in> set (ro_permissions role)) \<and>
     scope_matches (rb_scope b) (ar_scope res) (ar_kind res) (ar_id res)"

definition rbac_allows :: "check_request \<Rightarrow> auth_repository \<Rightarrow> bool" where
  "rbac_allows req r \<longleftrightarrow>
     (let cx = ck_context req in
      cx_authenticated cx \<and> is_active (ac_status (cx_actor cx)) \<and> is_active (ap_status (cx_principal cx)) \<and>
      (\<exists>p. get_permission (ck_action req) r = Some p \<and> pm_id p \<in> pm_id ` set (cx_permissions cx) \<and>
         (\<exists>b \<in> set (cx_bindings cx). binding_grants cx p (ck_resource req) r b)))"

lemma binding_role_cong:
  "catalog_of r = catalog_of r' \<Longrightarrow> binding_role cx p r b = binding_role cx p r' b"
  unfolding binding_role_def by (simp add: catalog_lookups(1)[of r r'])

lemma binding_grants_cong:
  "catalog_of r = catalog_of r' \<Longrightarrow> binding_grants cx p res r b = binding_grants cx p res r' b"
  unfolding binding_grants_def by (simp add: catalog_lookups(1)[of r r'])

lemma binding_grants_iff:
  "binding_grants cx p res r b \<longleftrightarrow>
     (\<exists>role. binding_role cx p r b = Some role) \<and>
     scope_matches (rb_scope b) (ar_scope res) (ar_kind res) (ar_id res)"
  by (auto simp: binding_grants_def binding_role_def split: option.splits)

definition is_binding_event :: "auth_event \<Rightarrow> bool" where
  "is_binding_event e \<longleftrightarrow> ae_type e = ''role_binding_evaluated''"

lemma auth_event_of_keeps [simp]:
  "ae_type (auth_event_of s mk) = ae_type (mk (fresh_id ''authaudit'' 0 s) (clock 0 s))"
  "ae_result (auth_event_of s mk) = ae_result (mk (fresh_id ''authaudit'' 0 s) (clock 0 s))"
  "ae_action (auth_event_of s mk) = ae_action (mk (fresh_id ''authaudit'' 0 s) (clock 0 s))"
  "ae_actor_id (auth_event_of s mk) = ae_actor_id (mk (fresh_id ''authaudit'' 0 s) (clock 0 s))"
  by (simp_all add: auth_event_of_def Let_def)

lemma grant_loop_result:
  "fst (grant_loop s k cx p res bs r) \<longleftrightarrow> (\<exists>b \<in> set bs. binding_grants cx p res r b)"
proof (induction bs arbitrary: k r)
  case (Cons b bs)
  show ?case
  proof (cases "binding_role cx p r b")
    case None
    then show ?thesis using Cons[of "Suc k" r] by (simp add: binding_grants_iff)
  next
    case (Some role)
    define r' where "r' = snd (record_auth_event (sub k s) (binding_event cx p res b role) r)"
    then have c: "catalog_of r' = catalog_of r" by simp
    show ?thesis
      using Some Cons[of "Suc k" r'] binding_grants_cong[OF c]
      by (simp add: binding_grants_iff[of cx p res r b] r'_def[symmetric] Let_def)
  qed
qed simp

text \<open>What the loop leaves: the catalog unchanged and one event per binding it evaluated.\<close>

definition only_binding_events :: "auth_repository \<Rightarrow> auth_repository \<Rightarrow> bool" where
  "only_binding_events r r' \<longleftrightarrow>
     catalog_of r' = catalog_of r \<and>
     (\<exists>es. repo_events r' = repo_events r @ es \<and> list_all is_binding_event es)"

lemma only_binding_events_refl [simp]: "only_binding_events r r"
  by (simp add: only_binding_events_def)

lemma only_binding_events_trans:
  "only_binding_events r1 r2 \<Longrightarrow> only_binding_events r2 r3 \<Longrightarrow> only_binding_events r1 r3"
  unfolding only_binding_events_def by (metis append_assoc list_all_append)

lemma record_binding_event:
  "only_binding_events r (snd (record_auth_event s (binding_event cx p res b role) r))"
  by (simp add: only_binding_events_def is_binding_event_def binding_event_def)

lemma grant_loop_events: "only_binding_events r (snd (grant_loop s k cx p res bs r))"
proof (induction bs arbitrary: k r)
  case (Cons b bs)
  then show ?case
    by (auto simp: Let_def record_binding_event split: option.splits
        intro: only_binding_events_trans[OF record_binding_event])
qed simp

lemma permission_granted_result:
  "fst (permission_granted s cx p res r) \<longleftrightarrow>
     pm_id p \<in> pm_id ` set (cx_permissions cx) \<and> (\<exists>b \<in> set (cx_bindings cx). binding_grants cx p res r b)"
  by (simp add: permission_granted_def grant_loop_result)

lemma permission_granted_events: "only_binding_events r (snd (permission_granted s cx p res r))"
  by (simp add: permission_granted_def grant_loop_events)

lemma auth_policy_request_cong:
  "catalog_of r = catalog_of r' \<Longrightarrow> auth_policy_request req r = auth_policy_request req r'"
  unfolding auth_policy_request_def to_policy_subject_def by (simp add: catalog_lookups(6)[of r r'])

lemma auth_deny_simps [simp]:
  "\<not> ad_allowed (fst (auth_deny s req reason p pd r))"
  "ad_reason (fst (auth_deny s req reason p pd r)) = reason"
  "ad_policy_decision (fst (auth_deny s req reason p pd r)) = pd"
  by (simp_all add: auth_deny_def Let_def split: prod.splits)

lemma auth_allow_simps [simp]:
  "ad_allowed (fst (auth_allow s req p pd r))"
  "ad_policy_decision (fst (auth_allow s req p pd r)) = pd"
  by (simp_all add: auth_allow_def Let_def split: prod.splits)

context policy_engine
begin

lemma auth_check_allowed_iff:
  "ad_allowed (fst (auth_check decide s req svc)) \<longleftrightarrow>
     rbac_allows req (as_repo svc) \<and>
     (is_policy_check req \<longrightarrow>
        dec_allowed (decide (sub 0 (sub 4 s)) (auth_policy_request req (as_repo svc))))"
proof (cases "get_permission (ck_action req) (as_repo svc)")
  case None
  then show ?thesis
    by (simp add: auth_check_def rbac_allows_def Let_def split: prod.splits if_splits)
       (metis auth_deny_simps(1) fst_conv)
next
  case (Some p)
  let ?cx = "ck_context req" and ?res = "ck_resource req"
  obtain g r1 where g: "permission_granted (sub 2 s) ?cx p ?res (as_repo svc) = (g, r1)" by fastforce
  have cat: "catalog_of r1 = catalog_of (as_repo svc)"
    using permission_granted_events[of "as_repo svc" "sub 2 s" ?cx p ?res] g
    by (simp add: only_binding_events_def)
  have gi: "g \<longleftrightarrow> pm_id p \<in> pm_id ` set (cx_permissions ?cx) \<and>
      (\<exists>b \<in> set (cx_bindings ?cx). binding_grants ?cx p ?res (as_repo svc) b)"
    using permission_granted_result[of "sub 2 s" ?cx p ?res "as_repo svc"] g by simp
  have rb: "rbac_allows req (as_repo svc) \<longleftrightarrow> cx_authenticated ?cx \<and> is_active (ac_status (cx_actor ?cx)) \<and>
      is_active (ap_status (cx_principal ?cx)) \<and> g"
    by (simp add: rbac_allows_def Let_def Some gi)
  have rq: "auth_policy_request req r1 = auth_policy_request req (as_repo svc)"
    by (rule auth_policy_request_cong[OF cat])
  obtain pd ps where pd: "svc_evaluate decide (sub 4 s) (auth_policy_request req (as_repo svc)) (as_policy svc) = (pd, ps)"
    by fastforce
  have pda: "dec_allowed pd \<longleftrightarrow> dec_allowed (decide (sub 0 (sub 4 s)) (auth_policy_request req (as_repo svc)))"
    using svc_decision[of "sub 4 s" "auth_policy_request req (as_repo svc)" "as_policy svc"] pd by simp
  show ?thesis
    unfolding rb pda[symmetric]
    by (auto simp: auth_check_def Let_def Some g rq pd case_prod_beta)
qed

end

text \<open>The last event of a check is the one its decision carries, and tells the verdict.\<close>

definition event_of_check :: "check_request \<Rightarrow> auth_decision \<Rightarrow> auth_event \<Rightarrow> bool" where
  "event_of_check req d e \<longleftrightarrow>
     ad_audit_event d = Some e \<and> ae_action e = Some (ck_action req) \<and>
     ae_actor_id e = Some (ac_id (cx_actor (ck_context req))) \<and>
     (if ad_allowed d then ae_type e = ''authorization_allowed'' \<and> ae_result e = ''allowed''
      else ae_type e = ''authorization_denied'' \<and> ae_result e = ''denied'')"

definition audited :: "check_request \<Rightarrow> auth_repository \<Rightarrow> auth_decision \<times> auth_repository \<Rightarrow> bool" where
  "audited req r out \<longleftrightarrow>
     catalog_of (snd out) = catalog_of r \<and>
     (\<exists>es e. repo_events (snd out) = repo_events r @ es @ [e] \<and> list_all is_binding_event es \<and>
        event_of_check req (fst out) e)"

lemma audited_deny: "only_binding_events r r' \<Longrightarrow> audited req r (auth_deny s req reason p pd r')"
  by (auto simp: audited_def only_binding_events_def auth_deny_def decision_event_def event_of_check_def
      Let_def record_auth_event_def catalog_of_def auth_catalog.defs)

lemma audited_allow: "only_binding_events r r' \<Longrightarrow> audited req r (auth_allow s req p pd r')"
  by (auto simp: audited_def only_binding_events_def auth_allow_def decision_event_def event_of_check_def
      Let_def record_auth_event_def catalog_of_def auth_catalog.defs)

lemma auth_check_audited:
  "audited req (as_repo svc)
     (fst (auth_check decide s req svc), as_repo (snd (auth_check decide s req svc)))"
  unfolding auth_check_def Let_def case_prod_beta
  by (simp add: audited_deny audited_allow permission_granted_events split: option.split)

lemma unique_loop_subset: "set (unique_loop key seen xs) \<subseteq> set xs"
  by (induction key seen xs rule: unique_loop.induct) auto

lemma unique_loop_keys: "key ` set (unique_loop key seen xs) = key ` set xs - seen"
  by (induction key seen xs rule: unique_loop.induct) auto

lemma unique_by_keys: "key ` set (unique_by key xs) = key ` set xs"
  by (simp add: unique_by_def unique_loop_keys)

lemma unique_by_distinct: "distinct (map key (unique_by key xs))"
proof -
  have "distinct (map key (unique_loop key seen xs))" for seen
  proof (induction key seen xs rule: unique_loop.induct)
    case (2 key seen x xs)
    then show ?case using unique_loop_keys[of key "insert (key x) seen" xs] by simp
  qed simp
  then show ?thesis by (simp add: unique_by_def)
qed

end
