(* ===== verification/AuthProperties.thy ===== *)
theory AuthProperties
  imports AuthService
begin

text \<open>
  The default identities of \<open>packages/auth/src/catalog.ts\<close> evaluated, and the properties of
  authorisation: when a check is allowed, what it records, and what the composition with the
  default policy rules never permits.
\<close>

section \<open>The mock identities of the default catalog\<close>

lemma default_repo_simps [simp]:
  "cat_principals default_auth_repository = default_principals"
  "cat_actors default_auth_repository = default_actors"
  "cat_teams default_auth_repository = default_teams"
  "cat_roles default_auth_repository = default_auth_roles"
  "cat_permissions default_auth_repository = default_auth_permissions"
  "cat_role_bindings default_auth_repository = default_role_bindings"
  by (simp_all add: default_auth_repository_def new_auth_repository_def empty_seed_def default_auth_catalog_def)

definition actor_request :: "string \<Rightarrow> auth_request" where
  "actor_request i =
     \<lparr>aq_request_id = None, aq_actor_id = Some i, aq_correlation_id = None, aq_source = None,
      aq_metadata = None\<rparr>"

text \<open>The context of an actor of the default catalog.\<close>

definition default_context :: "draws \<Rightarrow> string \<Rightarrow> auth_context" where
  "default_context s i =
     fst (resolve_auth_context s ''mock-admin'' (actor_request i) default_auth_repository)"

lemma default_context_of:
  "default_context s i = context_of s ''mock-admin'' (actor_request i) default_auth_repository"
  by (simp add: default_context_def resolve_auth_context_def Let_def)

lemmas actor_defs = default_actors_def actor_mock_admin_def actor_user_demo_developer_def
  actor_user_demo_viewer_def actor_user_demo_reviewer_def actor_user_security_admin_def
  actor_svc_runner_def actor_anonymous_mock_def

lemmas principal_defs = default_principals_def principal_mock_admin_def principal_demo_developer_def
  principal_demo_viewer_def principal_demo_reviewer_def principal_security_admin_def
  principal_runner_service_def principal_anonymous_mock_def

lemmas role_defs = default_auth_roles_def role_system_admin_def role_platform_admin_def role_developer_def
  role_reviewer_def role_security_admin_def role_service_account_runner_def role_viewer_def

lemmas binding_defs = default_role_bindings_def binding_mock_admin_system_admin_def
  binding_mock_admin_platform_admin_def binding_developer_def binding_viewer_def binding_reviewer_def
  binding_security_admin_def binding_runner_task_demo_def

lemmas team_defs = default_teams_def team_platform_def team_security_def team_development_def

lemma default_actor:
  "get_actor ''user_demo_viewer'' default_auth_repository = Some actor_user_demo_viewer"
  "get_actor ''svc_runner'' default_auth_repository = Some actor_svc_runner"
  "get_actor ''mock-admin'' default_auth_repository = Some actor_mock_admin"
  "get_actor ''nobody'' default_auth_repository = None"
  by (simp_all add: get_actor_def actor_defs)

lemma default_principal:
  "get_principal ''principal_demo_viewer'' default_auth_repository = Some principal_demo_viewer"
  "get_principal ''principal_runner_service'' default_auth_repository = Some principal_runner_service"
  "get_principal ''principal_mock_admin'' default_auth_repository = Some principal_mock_admin"
  by (simp_all add: get_principal_def principal_defs)

lemma default_bindings:
  "list_role_bindings (Some ''principal_demo_viewer'') None default_auth_repository = [binding_viewer]"
  "list_role_bindings (Some ''principal_runner_service'') None default_auth_repository =
     [binding_runner_task_demo]"
  "list_role_bindings (Some ''principal_mock_admin'') None default_auth_repository =
     [binding_mock_admin_system_admin, binding_mock_admin_platform_admin]"
  "list_role_bindings None (Some ''team_development'') default_auth_repository = []"
  "list_role_bindings None (Some ''team_platform'') default_auth_repository = []"
  by (simp_all add: list_role_bindings_def binding_defs)

lemma default_team:
  "get_team ''team_development'' default_auth_repository = Some team_development"
  "get_team ''team_platform'' default_auth_repository = Some team_platform"
  by (simp_all add: get_team_def team_defs)

lemma default_role:
  "get_role ''viewer'' default_auth_repository = Some role_viewer"
  "get_role ''role_viewer'' default_auth_repository = Some role_viewer"
  "get_role ''service_account_runner'' default_auth_repository = Some role_service_account_runner"
  "get_role ''role_service_account_runner'' default_auth_repository = Some role_service_account_runner"
  "get_role ''system_admin'' default_auth_repository = Some role_system_admin"
  "get_role ''role_system_admin'' default_auth_repository = Some role_system_admin"
  "get_role ''platform_admin'' default_auth_repository = Some role_platform_admin"
  "get_role ''role_platform_admin'' default_auth_repository = Some role_platform_admin"
  by (simp_all add: get_role_def role_defs)

lemma viewer_context:
  "cx_roles (default_context s ''user_demo_viewer'') = [role_viewer]"
  "cx_bindings (default_context s ''user_demo_viewer'') = [binding_viewer]"
  "cx_authenticated (default_context s ''user_demo_viewer'')"
  by (simp_all add: default_context_of context_of_def Let_def actor_request_def default_actor default_principal
    default_bindings default_role List.map_filter_def actor_user_demo_viewer_def principal_demo_viewer_def
    binding_viewer_def role_viewer_def unique_by_def is_active_def)


lemma admin_context:
  "cx_roles (default_context s ''mock-admin'') = [role_system_admin, role_platform_admin]"
  "cx_bindings (default_context s ''mock-admin'') =
     [binding_mock_admin_system_admin, binding_mock_admin_platform_admin]"
  "cx_authenticated (default_context s ''mock-admin'')"
  "cx_actor (default_context s ''mock-admin'') = actor_mock_admin"
  "cx_principal (default_context s ''mock-admin'') = principal_mock_admin"
  by (simp_all add: default_context_of context_of_def Let_def actor_request_def default_actor default_principal
    default_bindings default_role default_team List.map_filter_def actor_mock_admin_def team_platform_def
    principal_mock_admin_def binding_mock_admin_system_admin_def binding_mock_admin_platform_admin_def
    role_system_admin_def role_platform_admin_def unique_by_def is_active_def)

lemma viewer_permissions:
  "ro_permissions role_viewer = [''perm_dashboard_read'', ''perm_mcp_server_list'', ''perm_mcp_tool_list'']"
  by (simp add: role_viewer_def permissions_of_def default_auth_permissions_def permission_row_def)

lemma check_context_viewer:
  assumes "rbac_allows req default_auth_repository" and "ck_context req = default_context s ''user_demo_viewer''"
  obtains p where "get_permission (ck_action req) default_auth_repository = Some p"
    and "pm_id p \<in> set (ro_permissions role_viewer)"
  using assms
  by (auto simp: rbac_allows_def Let_def viewer_context binding_grants_def binding_viewer_def default_role)

section \<open>Sample checks for the witnesses\<close>

lemma default_context_permissions:
  "pm_id ` set (cx_permissions (default_context s i)) =
     pm_id ` (\<Union>x \<in> set (cx_roles (default_context s i)).
       set (List.map_filter (\<lambda>p. get_permission p default_auth_repository) (ro_permissions x)))"
  by (simp add: default_context_of context_of_def Let_def unique_by_keys)

lemma context_has_permission:
  assumes "get_permission i default_auth_repository = Some p" and "x \<in> set (cx_roles (default_context s a))"
    and "i \<in> set (ro_permissions x)"
  shows "pm_id p \<in> pm_id ` set (cx_permissions (default_context s a))"
  unfolding default_context_permissions using assms by (force simp: map_filter_def image_iff)

definition resource_of :: "string \<Rightarrow> string option \<Rightarrow> auth_resource" where
  "resource_of k i = \<lparr>ar_kind = k, ar_id = i, ar_scope = None, ar_metadata = None\<rparr>"

definition sample_check :: "string \<Rightarrow> string \<Rightarrow> auth_resource \<Rightarrow> check_request" where
  "sample_check who action res =
     \<lparr>ck_context = default_context sample_draws who, ck_action = action, ck_resource = res,
      ck_policy_context = None\<rparr>"

definition sample_service :: auth_service where
  "sample_service = \<lparr>as_repo = default_auth_repository, as_policy = new_policy_service None\<rparr>"

lemma sample_check_simps [simp]:
  "ck_context (sample_check who action res) = default_context sample_draws who"
  "ck_action (sample_check who action res) = action"
  "ck_resource (sample_check who action res) = res"
  "as_repo sample_service = default_auth_repository"
  by (simp_all add: sample_check_def sample_service_def)

lemma rbac_allowsI:
  assumes "cx_authenticated (default_context sample_draws who)"
    and "is_active (ac_status (cx_actor (default_context sample_draws who)))"
    and "is_active (ap_status (cx_principal (default_context sample_draws who)))"
    and "get_permission a default_auth_repository = Some p"
    and "get_permission (pm_id p) default_auth_repository = Some p"
    and "b \<in> set (cx_bindings (default_context sample_draws who))" and "is_active (rb_status b)"
    and "get_role (rb_role_id b) default_auth_repository = Some role"
    and "role \<in> set (cx_roles (default_context sample_draws who))" and "ro_id role = rb_role_id b"
    and "pm_id p \<in> set (ro_permissions role)"
    and "scope_matches (rb_scope b) (ar_scope res) (ar_kind res) (ar_id res)"
  shows "rbac_allows (sample_check who a res) default_auth_repository"
  using assms context_has_permission[OF assms(5) assms(9) assms(11)]
  by (auto simp: rbac_allows_def Let_def binding_grants_def image_iff intro!: bexI[of _ b] bexI[of _ role])

lemma default_permission:
  "get_permission ''perm_git_merge'' default_auth_repository =
     Some (permission_row ''perm_git_merge'' ''git.merge'' ''git_operation''
       ''Future provider merge boundary; policy denied by default.'' ''critical'')"
  "get_permission ''dashboard.read'' default_auth_repository =
     Some (permission_row ''perm_dashboard_read'' ''dashboard.read'' ''dashboard'' ''Read dashboard read models.'' ''low'')"
  "get_permission ''perm_dashboard_read'' default_auth_repository =
     Some (permission_row ''perm_dashboard_read'' ''dashboard.read'' ''dashboard'' ''Read dashboard read models.'' ''low'')"
  "get_permission ''task.run'' default_auth_repository =
     Some (permission_row ''perm_task_run'' ''task.run'' ''task'' ''Run tasks.'' ''medium'')"
  "get_permission ''perm_task_run'' default_auth_repository =
     Some (permission_row ''perm_task_run'' ''task.run'' ''task'' ''Run tasks.'' ''medium'')"
  by (simp_all add: get_permission_def default_auth_permissions_def permission_row_def)

lemma pm_id_row [simp]: "pm_id (permission_row i a k d r) = i"
  by (simp add: permission_row_def)

lemma admin_has_merge: "''perm_git_merge'' \<in> set (ro_permissions role_system_admin)"
  by (simp add: role_system_admin_def all_permission_ids_def default_auth_permissions_def permission_row_def)



lemma viewer_status:
  "is_active (ac_status (cx_actor (default_context s ''user_demo_viewer'')))"
  "is_active (ap_status (cx_principal (default_context s ''user_demo_viewer'')))"
  by (simp_all add: default_context_of context_of_def Let_def actor_request_def default_actor default_principal
    actor_user_demo_viewer_def principal_demo_viewer_def is_active_def)


lemma binding_facts:
  "is_active (rb_status binding_viewer)" "rb_role_id binding_viewer = ''role_viewer''"
  "rb_scope binding_viewer = global_scope None"
  "is_active (rb_status binding_runner_task_demo)"
  "rb_role_id binding_runner_task_demo = ''role_service_account_runner''"
  "rb_scope binding_runner_task_demo = task_scope ''task_demo_backend''"
  "is_active (rb_status binding_mock_admin_system_admin)"
  "rb_role_id binding_mock_admin_system_admin = ''role_system_admin''"
  "rb_scope binding_mock_admin_system_admin = global_scope None"
  "ro_id role_viewer = ''role_viewer''" "ro_id role_system_admin = ''role_system_admin''"
  "ro_id role_service_account_runner = ''role_service_account_runner''"
  "is_active (ac_status actor_mock_admin)" "is_active (ap_status principal_mock_admin)"
  by (simp_all add: binding_viewer_def binding_runner_task_demo_def binding_mock_admin_system_admin_def
    role_viewer_def role_system_admin_def role_service_account_runner_def is_active_def
    actor_mock_admin_def principal_mock_admin_def)

lemma global_scope_matches [simp]: "scope_matches (global_scope i) q k j"
  by (simp add: scope_matches_def global_scope_def)

lemma viewer_has_dashboard:
  "rbac_allows (sample_check ''user_demo_viewer'' ''dashboard.read'' (resource_of ''console'' None))
     default_auth_repository"
  by (rule rbac_allowsI[OF viewer_context(3) viewer_status default_permission(2), of binding_viewer role_viewer])
    (simp_all only: viewer_context pm_id_row default_permission binding_facts default_role viewer_permissions
      list.set insert_iff simp_thms global_scope_matches)


lemma admin_has_merge_id:
  "rbac_allows (sample_check ''mock-admin'' ''perm_git_merge'' (resource_of ''git_operation'' None))
     default_auth_repository"
  by (rule rbac_allowsI[OF admin_context(3) _ _ default_permission(1), of binding_mock_admin_system_admin role_system_admin])
      (simp_all only: admin_context pm_id_row default_permission binding_facts default_role admin_has_merge list.set insert_iff simp_thms global_scope_matches)

section \<open>Properties\<close>

text \<open>
  C10: A check is allowed exactly when the context is authenticated with an active actor and an
  active principal, the action names a registered permission the context holds, some active
  binding of the context gives it through a role of the context with a scope that covers the
  resource, and, where the action and the resource kind belong to the policy vocabulary, the
  policy engine allows it too.
\<close>

theorem auth_check_allowed_exactly:
  "ad_allowed (fst (auth_check (evaluate rules) s req svc)) =
     (rbac_allows req (as_repo svc) \<and>
      (if is_policy_check req
       then dec_allowed (evaluate rules (sub 0 (sub 4 s)) (auth_policy_request req (as_repo svc)))
       else True))"
  by (simp only: static.auth_check_allowed_iff) simp

text \<open>
  C11: Whatever its outcome, a check changes no identity and only appends to the audit log: the
  bindings it evaluated and, last, the event its decision carries, which names the actor, the
  action and the verdict.
\<close>

theorem auth_check_leaves_trail:
  "\<exists>es e. repo_events (as_repo (snd (auth_check decide s req svc))) = repo_events (as_repo svc) @ es @ [e] \<and>
     list_all is_binding_event es \<and> event_of_check req (fst (auth_check decide s req svc)) e \<and>
     catalog_of (as_repo (snd (auth_check decide s req svc))) = catalog_of (as_repo svc)"
  using auth_check_audited[of req svc decide s] by (auto simp: audited_def)

text \<open>
  An actor the repository does not know resolves to a context no check will ever allow, in
  this or any later state of the service.
\<close>

theorem unknown_actor_denied:
  assumes "get_actor i r = None" and "aq_actor_id rq = Some i"
    and "ck_context req = fst (resolve_auth_context s dflt rq r)"
  shows "\<not> ad_allowed (fst (auth_check (evaluate rules) s' req svc))"
proof -
  have "\<not> cx_authenticated (ck_context req)"
    using assms by (simp add: resolve_auth_context_def context_of_def Let_def)
  then show ?thesis by (simp add: static.auth_check_allowed_iff rbac_allows_def Let_def)
qed

text \<open>
  C12: Over the default policy, no identity, role or binding authorises a forbidden action, such as
  a merge, a secret read or a cloud provider call, on a resource kind of the policy vocabulary.
\<close>

theorem forbidden_actions_never_authorised:
  assumes "ck_action req \<in> set forbidden_actions" and "is_policy_check req"
  shows "\<not> ad_allowed (fst (auth_check (evaluate default_policy_rules) s req svc))"
  using assms forbidden_never_allowed[of "auth_policy_request req (as_repo svc)"]
  by (simp add: static.auth_check_allowed_iff auth_policy_request_def Let_def)

text \<open>
  In the default catalog the viewer is authorised for the dashboard and the two MCP listings
  only, whatever the policy rules and the resource.
\<close>

theorem viewer_reads_only:
  assumes "ad_allowed (fst (auth_check (evaluate rules) s' req svc))"
    and "as_repo svc = default_auth_repository" and "ck_context req = default_context s ''user_demo_viewer''"
  shows "\<exists>p. get_permission (ck_action req) default_auth_repository = Some p \<and>
    pm_id p \<in> {''perm_dashboard_read'', ''perm_mcp_server_list'', ''perm_mcp_tool_list''}"
proof -
  have "rbac_allows req default_auth_repository"
    using assms(1,2) by (simp add: static.auth_check_allowed_iff)
  then obtain p where p: "get_permission (ck_action req) default_auth_repository = Some p"
    "pm_id p \<in> set (ro_permissions role_viewer)"
    using assms(3) by (rule check_context_viewer)
  then show ?thesis by (simp add: viewer_permissions)
qed


text \<open>
  A permission is looked up by its id as well as by its action, and an id is not a policy
  action: the default administrator, asked for the permission of git.merge by its id, is
  authorised without the policy engine, which forbids that action.
\<close>

theorem permission_id_skips_policy:
  "ad_allowed (fst (auth_check (evaluate default_policy_rules) s
     (sample_check ''mock-admin'' ''perm_git_merge'' (resource_of ''git_operation'' None)) sample_service)) \<and>
   pm_action (the (get_permission ''perm_git_merge'' default_auth_repository)) = ''git.merge''"
  using admin_has_merge_id default_permission(1)
  by (simp add: static.auth_check_allowed_iff is_policy_check_def is_policy_action_def policy_actions_def permission_row_def)

theorem unknown_actor_denied_witness:
  "\<not> ad_allowed (fst (auth_check (evaluate []) sample_draws
     (sample_check ''nobody'' ''task.run'' (resource_of ''task'' None)) sample_service))"
  by (rule unknown_actor_denied[where i = "''nobody''" and r = default_auth_repository
     and rq = "actor_request ''nobody''" and s = sample_draws and dflt = "''mock-admin''"])
   (simp_all add: default_actor actor_request_def default_context_def)

theorem forbidden_actions_never_authorised_witness:
  "\<not> ad_allowed (fst (auth_check (evaluate default_policy_rules) sample_draws
     (sample_check ''mock-admin'' ''git.merge'' (resource_of ''git_operation'' None)) sample_service))"
  by (rule forbidden_actions_never_authorised)
    (simp_all add: forbidden_actions_def is_policy_check_def is_policy_action_def policy_actions_def
       is_policy_resource_kind_def policy_resource_kinds_def resource_of_def)

theorem viewer_reads_only_witness:
  "\<exists>p. get_permission ''dashboard.read'' default_auth_repository = Some p \<and>
    pm_id p \<in> {''perm_dashboard_read'', ''perm_mcp_server_list'', ''perm_mcp_tool_list''}"
  using viewer_reads_only[of "[]" sample_draws "sample_check ''user_demo_viewer'' ''dashboard.read'' (resource_of ''console'' None)"
     sample_service sample_draws] viewer_has_dashboard
  by (simp add: static.auth_check_allowed_iff is_policy_check_def is_policy_resource_kind_def policy_resource_kinds_def resource_of_def)



end
