(* ===== verification/Redaction.thy ===== *)
theory Redaction
  imports TextPatterns
begin

text \<open>
  Redaction of \<open>packages/security/src\<close>: the masks of \<open>redaction.ts\<close>, the tests for raw secrets and
  credential-cache paths of \<open>service.ts\<close>, and the two metadata sanitisers.  A text is ASCII, so its
  bytes are its characters.
\<close>

section \<open>Patterns\<close>

definition token_char :: "char \<Rightarrow> bool" where
  "token_char c \<longleftrightarrow> is_alnum c \<or> one_of ''._~+/=-'' c"

definition not_space :: "char \<Rightarrow> bool" where
  "not_space c \<longleftrightarrow> \<not> is_space c"

definition dash_word :: "char \<Rightarrow> bool" where
  "dash_word c \<longleftrightarrow> is_alnum c \<or> one_of ''_-'' c"

definition bearer_pattern_i :: pat where
  "bearer_pattern_i = seq_of [lit_i ''Bearer'', Rep 1 is_space, Rep 1 token_char]"

text \<open>A literal prefix and at least eight characters of a class, between word boundaries.\<close>

definition key_pattern :: "string \<Rightarrow> (char \<Rightarrow> bool) \<Rightarrow> pat" where
  "key_pattern p c = seq_of [Bound, lit p, Rep 8 c, Bound]"

definition assigned :: "pat \<Rightarrow> pat" where
  \<comment> \<open>a captured name, \<open>=\<close> and a value without spaces\<close>
  "assigned name = seq_of [Cap name, Rep 0 is_space, lit ''='', Rep 0 is_space, Rep 1 not_space]"

definition env_prefixes :: pat where
  "env_prefixes = any_of (map lit_i [''OPENAI'', ''ANTHROPIC'', ''AICHESTRA_LLM'', ''AICHESTRA_GITHUB'',
     ''LLM'', ''GITHUB'', ''GOOGLE_APPLICATION''])"

definition sensitive_name :: pat where
  "sensitive_name = Cat (Rep 0 is_word) (any_of (map lit_i [''API_KEY'', ''TOKEN'', ''SECRET'', ''PASSWORD'']))"

definition slash :: "char \<Rightarrow> bool" where
  "slash c \<longleftrightarrow> one_of [CHR 0x5C, CHR ''/''] c"

definition codex_path :: pat where
  "codex_path = seq_of [lit ''~'', Chr slash, lit_i ''.codex'', Chr slash, lit_i ''auth.json'']"

definition claude_path :: pat where
  "claude_path = seq_of [lit ''~'', Chr slash, lit_i ''.claude'']"

definition adc_path :: pat where
  "adc_path = lit_i ''application_default_credentials.json''"

definition gcloud_path :: pat where
  "gcloud_path = seq_of [lit_i ''gcloud'', Chr slash, lit_i ''application_default_credentials'']"

section \<open>Masks\<close>

record redaction_policy =
  rp_id :: string
  rp_name :: string
  rp_mask_bearer :: bool
  rp_mask_api_keys :: bool
  rp_mask_paths :: bool
  rp_mask_env :: bool
  rp_mask_provider :: bool
  rp_max_preview :: nat
  rp_retention :: string
  rp_status :: string

record redaction_result =
  rr_policy_id :: string
  rr_text :: string
  rr_preview :: string
  rr_applied :: bool
  rr_truncated :: bool
  rr_original_bytes :: nat
  rr_preview_bytes :: nat

definition mask_bearer :: "string \<Rightarrow> string" where
  "mask_bearer = subst bearer_pattern_i ''Bearer [redacted]''"

definition mask_keys :: "string \<Rightarrow> string" where
  "mask_keys s =
     (let m = ''[redacted-api-key]''
      in subst (key_pattern ''AIza'' dash_word) m
        (subst (key_pattern ''github_pat_'' is_word) m
        (subst (key_pattern ''ghp_'' is_word) m
        (subst (key_pattern ''sk-'' dash_word) m s))))"

definition mask_assignment :: "pat \<Rightarrow> string \<Rightarrow> string" where
  "mask_assignment name = subst_with (Cat Bound (assigned name)) (\<lambda>v. v @ ''=[redacted]'')"

definition mask_env :: "string \<Rightarrow> string" where
  "mask_env s =
     subst (seq_of [lit_i ''GOOGLE_APPLICATION_CREDENTIALS'', Rep 0 is_space, lit ''='', Rep 0 is_space,
         Rep 1 not_space]) ''GOOGLE_APPLICATION_CREDENTIALS=[redacted]''
       (mask_assignment sensitive_name
       (mask_assignment (lit_i ''AICHESTRA_GITHUB_WEBHOOK_SECRET'')
       (mask_assignment (lit_i ''AICHESTRA_GITHUB_TOKEN'')
       (mask_assignment (Cat env_prefixes (lit_i ''_TOKEN''))
       (mask_assignment (Cat env_prefixes (lit_i ''_API_KEY'')) s)))))"

definition mask_paths :: "string \<Rightarrow> string" where
  "mask_paths s =
     (let m = ''[redacted-credential-cache]''
      in subst gcloud_path m (subst adc_path m
        (subst (Cat claude_path (Rep 0 not_space)) m (subst codex_path m s))))"

definition apply_redaction :: "redaction_policy \<Rightarrow> string \<Rightarrow> string" where
  "apply_redaction p s =
     (let s1 = if rp_mask_bearer p then mask_bearer s else s;
          s2 = if rp_mask_api_keys p \<or> rp_mask_provider p then mask_keys s1 else s1;
          s3 = if rp_mask_env p then mask_env s2 else s2
      in if rp_mask_paths p then mask_paths s3 else s3)"

definition limit_bytes :: "string \<Rightarrow> nat \<Rightarrow> string" where
  "limit_bytes s n = (if length s \<le> n then s else take n s)"

definition redact_with_policy :: "string \<Rightarrow> redaction_policy \<Rightarrow> redaction_result" where
  "redact_with_policy s p =
     (let red = apply_redaction p s; preview = limit_bytes red (rp_max_preview p)
      in \<lparr>rr_policy_id = rp_id p, rr_text = red, rr_preview = preview, rr_applied = (red \<noteq> s),
          rr_truncated = (length preview < length red), rr_original_bytes = length s,
          rr_preview_bytes = length preview\<rparr>)"

section \<open>Sanitised metadata\<close>

definition default_redaction :: redaction_policy where
  \<comment> \<open>of which the sanitiser reads the masks only\<close>
  "default_redaction =
     \<lparr>rp_id = [], rp_name = [], rp_mask_bearer = True, rp_mask_api_keys = True, rp_mask_paths = True,
      rp_mask_env = True, rp_mask_provider = True, rp_max_preview = 0, rp_retention = [], rp_status = []\<rparr>"

definition metadata_words :: "string list" where
  "metadata_words = [''token'', ''secret'', ''key'', ''credential'', ''authorization'', ''password'', ''prompt'']"

fun sanitize_security_value :: "string \<Rightarrow> js \<Rightarrow> js" where
  "sanitize_security_value key v =
     (if matches_any_word metadata_words key then JStr ''[redacted]''
      else (case v of
        JStr s \<Rightarrow> JStr (apply_redaction default_redaction s)
      | JArr xs \<Rightarrow> JArr (map (sanitize_security_value []) xs)
      | JObj o' \<Rightarrow> JObj (map (\<lambda>(k, x). (k, sanitize_security_value k x)) o')
      | _ \<Rightarrow> v))"

declare sanitize_security_value.simps [simp del]

definition looks_like_raw_secret :: "string \<Rightarrow> bool" where
  "looks_like_raw_secret s \<longleftrightarrow>
     re_test (key_pattern ''sk-'' dash_word) None s \<or>
     re_test (key_pattern ''ghp_'' is_word) None s \<or>
     re_test (key_pattern ''github_pat_'' is_word) None s \<or>
     re_test (Cat Bound (assigned sensitive_name)) None s \<or>
     re_test bearer_pattern_i None s"

definition looks_like_cache_path :: "string \<Rightarrow> bool" where
  "looks_like_cache_path s \<longleftrightarrow>
     re_test codex_path None s \<or> re_test claude_path None s \<or> re_test adc_path None s \<or>
     re_test gcloud_path None s"

definition security_words :: "string list" where
  "security_words = [''token'', ''secret'', ''key'', ''credential'', ''prompt'']"

text \<open>The audit sanitiser of the service looks at the top level of an object only.\<close>

definition sanitize_entry :: "string \<Rightarrow> js \<Rightarrow> js" where
  "sanitize_entry k v =
     (if matches_any_word security_words k then JStr ''[redacted]''
      else (case v of
        JStr s \<Rightarrow> if looks_like_raw_secret s \<or> looks_like_cache_path s then JStr ''[redacted]'' else v
      | _ \<Rightarrow> v))"

definition sanitize_security :: "jsobj \<Rightarrow> jsobj" where
  "sanitize_security o' = obj_map sanitize_entry o'"

definition has_raw_secret :: "jsobj \<Rightarrow> bool" where
  "has_raw_secret o' \<longleftrightarrow>
     list_ex (\<lambda>(k, v).
       (let l = to_lower k; str = (case v of JStr s \<Rightarrow> Some s | _ \<Rightarrow> None)
        in if l = ''value'' \<or> str_includes l ''token'' \<or> str_includes l ''secret'' \<or> str_includes l ''api_key''
           then (case str of None \<Rightarrow> False | Some s \<Rightarrow> s \<noteq> [] \<and> s \<noteq> ''[redacted]'')
           else (case str of None \<Rightarrow> False
                 | Some s \<Rightarrow> looks_like_raw_secret s \<or> looks_like_cache_path s))) o'"

definition is_safe_env_key :: "string \<Rightarrow> bool" where
  "is_safe_env_key s \<longleftrightarrow>
     (case s of [] \<Rightarrow> False
      | c # cs \<Rightarrow> (is_upper c \<or> c = CHR ''_'') \<and>
          list_all (\<lambda>x. is_upper x \<or> is_digit x \<or> x = CHR ''_'') cs) \<and>
     \<not> looks_like_raw_secret s \<and> \<not> looks_like_cache_path s"

section \<open>What the sanitisers guarantee\<close>

lemma limit_bytes_length: "length (limit_bytes s n) = min (length s) n"
  by (simp add: limit_bytes_def)

lemma limit_bytes_prefix: "prefix (limit_bytes s n) s"
  by (simp add: limit_bytes_def take_is_prefix)

lemma sanitize_security_key:
  "(k, v) \<in> set (sanitize_security o') \<Longrightarrow> matches_any_word security_words k \<Longrightarrow> v = JStr ''[redacted]''"
  by (auto simp: sanitize_security_def obj_map_def sanitize_entry_def)

text \<open>An entry of a sanitised object is open when it holds a secret under its key or as its value.\<close>

definition open_entry :: "string \<times> js \<Rightarrow> bool" where
  "open_entry e \<longleftrightarrow>
     (case e of (k, v) \<Rightarrow>
       v \<noteq> JStr ''[redacted]'' \<and>
       (matches_any_word security_words k \<or>
        (case v of JStr s \<Rightarrow> looks_like_raw_secret s \<or> looks_like_cache_path s | _ \<Rightarrow> False)))"

lemma sanitize_entry_closed: "\<not> open_entry (k, sanitize_entry k v)"
proof (cases "matches_any_word security_words k")
  case True
  then show ?thesis by (simp add: open_entry_def sanitize_entry_def)
next
  case False
  then show ?thesis by (cases v) (simp_all add: open_entry_def sanitize_entry_def)
qed

lemma sanitize_security_closed: "\<not> list_ex open_entry (sanitize_security o')"
  using sanitize_entry_closed by (fastforce simp: list_ex_iff sanitize_security_def obj_map_def)

end
