(* ===== verification/SecurityModel.thy ===== *)
theory SecurityModel
  imports Redaction AuthService
begin

text \<open>
  State of the security boundary, \<open>packages/security/src\<close>: the records of \<open>types.ts\<close>, the
  in-memory repositories of \<open>repository.ts\<close> with their default seed, and the environment secret
  provider of \<open>credentials.ts\<close>.  A repository is a list keyed by id; the state also holds the
  policy service, the authorisation service if one was given, and the secret provider.
\<close>

section \<open>Data model\<close>

record secret_ref =
  sr_id :: string
  sr_provider :: string
  sr_kind :: string
  sr_name :: string
  sr_env_key :: "string option"
  sr_scope :: string
  sr_description :: "string option"
  sr_status :: string
  sr_metadata :: jsobj
  sr_created_at :: time
  sr_updated_at :: time

record secret_scope =
  ssc_id :: string
  ssc_name :: string
  ssc_resource_kinds :: "string list"
  ssc_actions :: "string list"
  ssc_provider_ids :: "string list"
  ssc_repo_ids :: "string list option"
  ssc_runner_kinds :: "string list option"
  ssc_max_ttl :: int
  ssc_requires_approval :: bool
  ssc_metadata :: jsobj

record secret_lease =
  sl_id :: string
  sl_ref_id :: string
  sl_scope_id :: string
  sl_task_id :: "string option"
  sl_run_id :: "string option"
  sl_actor_id :: "string option"
  sl_status :: string
  sl_issued_at :: "time option"
  sl_expires_at :: "time option"
  sl_revoked_at :: "time option"
  sl_reason :: "string option"

record access_decision =
  xd_id :: string
  xd_allowed :: bool
  xd_decision :: string
  xd_reason :: string
  xd_ref_id :: "string option"
  xd_scope_id :: "string option"
  xd_task_id :: "string option"
  xd_run_id :: "string option"
  xd_actor_id :: "string option"
  xd_policy_decision_id :: "string option"
  xd_created_at :: time

record sandbox_profile =
  sp_id :: string
  sp_name :: string
  sp_kind :: string
  sp_network :: bool
  sp_file_write :: bool
  sp_shell :: bool
  sp_git_remote :: bool
  sp_secrets :: bool
  sp_allowed_commands :: "string list"
  sp_denied_commands :: "string list"
  sp_allowed_paths :: "string list"
  sp_denied_paths :: "string list"
  sp_network_policy :: "string option"
  sp_max_runtime :: nat
  sp_max_output :: nat
  sp_cleanup :: string
  sp_status :: string
  sp_metadata :: jsobj

record sandbox_session =
  sn_id :: string
  sn_profile_id :: string
  sn_task_id :: "string option"
  sn_run_id :: "string option"
  sn_runner_kind :: "string option"
  sn_workspace_id :: "string option"
  sn_status :: string
  sn_created_at :: time
  sn_completed_at :: "time option"
  sn_cleanup_at :: "time option"
  sn_metadata :: jsobj

record sandbox_decision =
  sd_id :: string
  sd_allowed :: bool
  sd_decision :: string
  sd_reason :: string
  sd_profile_id :: string
  sd_task_id :: "string option"
  sd_run_id :: "string option"
  sd_actor_id :: "string option"
  sd_policy_decision_id :: "string option"
  sd_created_at :: time

record egress_policy =
  ep_id :: string
  ep_name :: string
  ep_default :: string
  ep_allowed_hosts :: "string list"
  ep_denied_hosts :: "string list"
  ep_allowed_ports :: "int list"
  ep_denied_ports :: "int list"
  ep_localhost :: bool
  ep_private :: bool
  ep_status :: string
  ep_metadata :: jsobj

record security_event =
  se_id :: string
  se_type :: string
  se_actor_id :: "string option"
  se_principal_id :: "string option"
  se_task_id :: "string option"
  se_run_id :: "string option"
  se_target_id :: "string option"
  se_target_kind :: string
  se_result :: string
  se_reason :: "string option"
  se_metadata :: jsobj
  se_created_at :: time

section \<open>The environment secret provider\<close>

type_synonym env = "string \<Rightarrow> string option"

record env_provider =
  env_enabled :: bool
  env_allowed_keys :: "string list"
  env_vars :: env

record env_result =
  er_status :: string
  er_value :: "string option"
  er_reason :: "string option"

definition env_resolve :: "env_provider \<Rightarrow> secret_ref \<Rightarrow> env_result" where
  \<comment> \<open>\<open>ok\<close> is the status \<open>resolved\<close>\<close>
  "env_resolve p r =
     (let fail = (\<lambda>st reason. \<lparr>er_status = st, er_value = None, er_reason = Some reason\<rparr>)
      in if \<not> env_enabled p then fail ''blocked'' ''env_secret_provider_disabled''
         else if sr_provider r \<noteq> ''env'' then fail ''unavailable'' ''secret_provider_not_env''
         else (case sr_env_key r of
             None \<Rightarrow> fail ''missing'' ''secret_env_key_missing''
           | Some k \<Rightarrow>
               if k = [] then fail ''missing'' ''secret_env_key_missing''
               else if env_allowed_keys p \<noteq> [] \<and> k \<notin> set (env_allowed_keys p)
                    then fail ''denied'' ''env_key_not_allowlisted''
               else if truthy_str (env_vars p k)
                    then \<lparr>er_status = ''resolved'', er_value = env_vars p k, er_reason = None\<rparr>
                    else fail ''missing'' ''env_secret_missing''))"

definition env_result_ok :: "env_result \<Rightarrow> bool" where
  "env_result_ok r \<longleftrightarrow> er_status r = ''resolved''"

definition parse_csv :: "string option \<Rightarrow> string list" where
  "parse_csv v = filter (\<lambda>s. s \<noteq> []) (map trim (split_on CHR '','' (opt_default v [])))"

definition env_provider_from_env :: "env \<Rightarrow> env_provider" where
  "env_provider_from_env e =
     \<lparr>env_enabled = (e ''AICHESTRA_ENABLE_ENV_SECRET_PROVIDER'' = Some ''true''),
      env_allowed_keys = parse_csv (e ''AICHESTRA_ALLOWED_SECRET_ENV_KEYS''), env_vars = e\<rparr>"

lemma env_resolve_value:
  assumes "er_value (env_resolve p r) = Some v"
  shows "env_enabled p \<and> sr_provider r = ''env'' \<and>
    (\<exists>k. sr_env_key r = Some k \<and> k \<noteq> [] \<and> env_vars p k = Some v \<and> v \<noteq> [] \<and>
       (if env_allowed_keys p = [] then True else k \<in> set (env_allowed_keys p)))"
  using assms
  by (auto simp: env_resolve_def Let_def truthy_str_def split: if_splits option.splits)

section \<open>The repositories\<close>

record security_state =
  ss_refs :: "secret_ref list"
  ss_scopes :: "secret_scope list"
  ss_leases :: "secret_lease list"
  ss_access :: "access_decision list"
  ss_profiles :: "sandbox_profile list"
  ss_sessions :: "sandbox_session list"
  ss_sandbox_decisions :: "sandbox_decision list"
  ss_egress :: "egress_policy list"
  ss_redaction :: "redaction_policy list"
  ss_audit :: "security_event list"
  ss_policy :: policy_service
  ss_auth :: "auth_service option"
  ss_env :: env_provider

definition get_secret_ref :: "string \<Rightarrow> security_state \<Rightarrow> secret_ref option" where
  "get_secret_ref i st = find_by sr_id i (ss_refs st)"

definition save_secret_ref :: "secret_ref \<Rightarrow> security_state \<Rightarrow> security_state" where
  "save_secret_ref x st = st\<lparr>ss_refs := upsert_by sr_id x (ss_refs st)\<rparr>"

definition list_secret_refs :: "security_state \<Rightarrow> secret_ref list" where
  "list_secret_refs st = sort_by (\<lambda>a b. locale_compare (sr_id a) (sr_id b)) (ss_refs st)"

definition get_secret_scope :: "string \<Rightarrow> security_state \<Rightarrow> secret_scope option" where
  "get_secret_scope i st = find_by ssc_id i (ss_scopes st)"

definition get_secret_lease :: "string \<Rightarrow> security_state \<Rightarrow> secret_lease option" where
  "get_secret_lease i st = find_by sl_id i (ss_leases st)"

definition save_secret_lease :: "secret_lease \<Rightarrow> security_state \<Rightarrow> security_state" where
  "save_secret_lease x st = st\<lparr>ss_leases := upsert_by sl_id x (ss_leases st)\<rparr>"

definition list_secret_leases ::
  "string option \<Rightarrow> string option \<Rightarrow> string option \<Rightarrow> security_state \<Rightarrow> secret_lease list" where
  "list_secret_leases task run status st =
     sort_by (\<lambda>a b. locale_compare (sl_id a) (sl_id b))
       (filter (\<lambda>l. (task = None \<or> sl_task_id l = task) \<and> (run = None \<or> sl_run_id l = run) \<and>
          (status = None \<or> Some (sl_status l) = status)) (ss_leases st))"

definition save_access_decision_rec :: "access_decision \<Rightarrow> security_state \<Rightarrow> security_state" where
  "save_access_decision_rec x st = st\<lparr>ss_access := upsert_by xd_id x (ss_access st)\<rparr>"

definition get_sandbox_profile :: "string \<Rightarrow> security_state \<Rightarrow> sandbox_profile option" where
  "get_sandbox_profile i st = find_by sp_id i (ss_profiles st)"

definition get_sandbox_session :: "string \<Rightarrow> security_state \<Rightarrow> sandbox_session option" where
  "get_sandbox_session i st = find_by sn_id i (ss_sessions st)"

definition save_sandbox_session :: "sandbox_session \<Rightarrow> security_state \<Rightarrow> security_state" where
  "save_sandbox_session x st = st\<lparr>ss_sessions := upsert_by sn_id x (ss_sessions st)\<rparr>"

definition save_sandbox_decision :: "sandbox_decision \<Rightarrow> security_state \<Rightarrow> security_state" where
  "save_sandbox_decision x st = st\<lparr>ss_sandbox_decisions := upsert_by sd_id x (ss_sandbox_decisions st)\<rparr>"

definition list_egress_policies :: "security_state \<Rightarrow> egress_policy list" where
  "list_egress_policies st = sort_by (\<lambda>a b. locale_compare (ep_id a) (ep_id b)) (ss_egress st)"

definition get_egress_policy :: "string \<Rightarrow> security_state \<Rightarrow> egress_policy option" where
  "get_egress_policy i st = find_by ep_id i (ss_egress st)"

definition list_redaction_policies :: "security_state \<Rightarrow> redaction_policy list" where
  "list_redaction_policies st = sort_by (\<lambda>a b. locale_compare (rp_id a) (rp_id b)) (ss_redaction st)"

definition get_redaction_policy :: "string \<Rightarrow> security_state \<Rightarrow> redaction_policy option" where
  "get_redaction_policy i st = find_by rp_id i (ss_redaction st)"

record security_event_filter =
  sef_target_kind :: "string option"
  sef_type :: "string option"
  sef_task_id :: "string option"
  sef_run_id :: "string option"
  sef_actor_id :: "string option"

definition security_event_matches :: "security_event_filter \<Rightarrow> security_event \<Rightarrow> bool" where
  "security_event_matches f e \<longleftrightarrow>
     (sef_target_kind f = None \<or> Some (se_target_kind e) = sef_target_kind f) \<and>
     (sef_type f = None \<or> Some (se_type e) = sef_type f) \<and>
     (sef_task_id f = None \<or> se_task_id e = sef_task_id f) \<and>
     (sef_run_id f = None \<or> se_run_id e = sef_run_id f) \<and>
     (sef_actor_id f = None \<or> se_actor_id e = sef_actor_id f)"

definition list_security_events :: "security_event_filter \<Rightarrow> security_state \<Rightarrow> security_event list" where
  "list_security_events f st =
     sort_by (cmp_or (\<lambda>a b. num_cmp (se_created_at a) (se_created_at b))
                     (\<lambda>a b. locale_compare (se_id a) (se_id b)))
       (filter (security_event_matches f) (ss_audit st))"

interpretation secret_refs: keyed_repository sr_id get_secret_ref save_secret_ref
  by unfold_locales (auto simp: get_secret_ref_def save_secret_ref_def dest: find_by_Some)

interpretation secret_leases: keyed_repository sl_id get_secret_lease save_secret_lease
  by unfold_locales (auto simp: get_secret_lease_def save_secret_lease_def dest: find_by_Some)

interpretation sandbox_sessions: keyed_repository sn_id get_sandbox_session save_sandbox_session
  by unfold_locales (auto simp: get_sandbox_session_def save_sandbox_session_def dest: find_by_Some)

section \<open>The default seed\<close>

definition seed_created_at :: time where
  \<comment> \<open>2026-01-01T00:00:00.000Z\<close>
  "seed_created_at = 1767225600000"

definition denied_commands :: "string list" where
  "denied_commands = [''curl'', ''wget'', ''git fetch'', ''git push'', ''git merge'', ''git rebase'',
     ''kubectl'', ''vault'']"

definition default_secret_refs :: "secret_ref list" where
  "default_secret_refs =
     [\<lparr>sr_id = ''secretref_mock_provider_metadata'', sr_provider = ''mock'', sr_kind = ''mock_metadata'',
       sr_name = ''mock-provider-metadata'', sr_env_key = None, sr_scope = ''scope_mock_provider_metadata'',
       sr_description = Some ''Mock metadata reference; contains no secret value.'',
       sr_status = ''active'',
       sr_metadata = [(''storesRawSecret'', JBool False), (''fixtureOnly'', JBool True)],
       sr_created_at = seed_created_at, sr_updated_at = seed_created_at\<rparr>,
      \<lparr>sr_id = ''secretref_vault_future_placeholder'', sr_provider = ''vault_future'',
       sr_kind = ''provider_api_key'', sr_name = ''future-vault-secret'', sr_env_key = None,
       sr_scope = ''scope_future_real_credentials'',
       sr_description = Some ''Future Vault reference placeholder; not connected.'',
       sr_status = ''disabled'',
       sr_metadata = [(''notImplemented'', JBool True), (''storesRawSecret'', JBool False)],
       sr_created_at = seed_created_at, sr_updated_at = seed_created_at\<rparr>]"

definition default_secret_scopes :: "secret_scope list" where
  "default_secret_scopes =
     [\<lparr>ssc_id = ''scope_mock_provider_metadata'', ssc_name = ''Mock provider metadata'',
       ssc_resource_kinds = [''provider'', ''llm_provider''],
       ssc_actions = [''secret.metadata.read'', ''provider.credential.resolve''],
       ssc_provider_ids = [''mock''], ssc_repo_ids = None, ssc_runner_kinds = Some [''mock'', ''local''],
       ssc_max_ttl = 300, ssc_requires_approval = True,
       ssc_metadata = [(''secretMaterialAvailable'', JBool False)]\<rparr>,
      \<lparr>ssc_id = ''scope_future_real_credentials'', ssc_name = ''Future real provider credentials'',
       ssc_resource_kinds = [''provider_credential''], ssc_actions = [''secret.lease.request''],
       ssc_provider_ids = [], ssc_repo_ids = None, ssc_runner_kinds = None, ssc_max_ttl = 60,
       ssc_requires_approval = True, ssc_metadata = [(''notImplemented'', JBool True)]\<rparr>,
      \<lparr>ssc_id = ''scope_env_provider_credentials'', ssc_name = ''Env-backed provider credentials'',
       ssc_resource_kinds = [''provider_credential'', ''llm_provider'', ''repo''],
       ssc_actions = [''provider.credential.resolve'', ''secret.lease.request'', ''secret.lease.issue''],
       ssc_provider_ids = [''github'', ''openai_compatible'', ''openai-api-key''], ssc_repo_ids = None,
       ssc_runner_kinds = None, ssc_max_ttl = 300, ssc_requires_approval = False,
       ssc_metadata = [(''secretMaterialAvailable'', JBool True), (''envProviderOnly'', JBool True),
         (''credentialCacheAccessAllowed'', JBool False)]\<rparr>]"

definition placeholder_profile :: "string \<Rightarrow> string \<Rightarrow> string \<Rightarrow> string \<Rightarrow> jsobj \<Rightarrow> sandbox_profile" where
  \<comment> \<open>what the default and the three future profiles have in common\<close>
  "placeholder_profile i name kind status meta =
     \<lparr>sp_id = i, sp_name = name, sp_kind = kind, sp_network = False, sp_file_write = False,
      sp_shell = False, sp_git_remote = False, sp_secrets = False, sp_allowed_commands = [],
      sp_denied_commands = denied_commands, sp_allowed_paths = [], sp_denied_paths = [''.''],
      sp_network_policy = Some ''network_default_deny'', sp_max_runtime = 1000, sp_max_output = 1024,
      sp_cleanup = ''none'', sp_status = status, sp_metadata = meta\<rparr>"

definition local_temp_profile :: sandbox_profile where
  "local_temp_profile =
     \<lparr>sp_id = ''sandbox_local_temp_fixture'', sp_name = ''Local temp fixture sandbox'',
      sp_kind = ''local_temp_workspace'', sp_network = False, sp_file_write = True, sp_shell = True,
      sp_git_remote = False, sp_secrets = False,
      sp_allowed_commands = [''node --version'', ''node fixture-command.mjs'', ''echo''],
      sp_denied_commands = denied_commands,
      sp_allowed_paths = [''tests/fixtures'', ''tmp/aichestra-agent''], sp_denied_paths = [''.''],
      sp_network_policy = Some ''network_default_deny'', sp_max_runtime = 2000, sp_max_output = 4096,
      sp_cleanup = ''delete_temp_workspace'', sp_status = ''active'',
      sp_metadata = [(''fixtureOnly'', JBool True), (''productionSandbox'', JBool False)]\<rparr>"

definition default_sandbox_profiles :: "sandbox_profile list" where
  "default_sandbox_profiles =
     [placeholder_profile ''sandbox_default_deny'' ''Default deny sandbox'' ''none'' ''active''
        [(''default'', JBool True)],
      local_temp_profile,
      placeholder_profile ''sandbox_container_future'' ''Container sandbox future placeholder''
        ''container_future'' ''disabled'' [(''notImplemented'', JBool True)],
      placeholder_profile ''sandbox_firecracker_future'' ''Firecracker sandbox future placeholder''
        ''firecracker_future'' ''disabled'' [(''notImplemented'', JBool True)],
      placeholder_profile ''sandbox_kubernetes_future'' ''Kubernetes sandbox future placeholder''
        ''kubernetes_future'' ''disabled'' [(''notImplemented'', JBool True)]]"

definition default_egress_policies :: "egress_policy list" where
  "default_egress_policies =
     [\<lparr>ep_id = ''network_default_deny'', ep_name = ''Default deny network egress'', ep_default = ''deny'',
       ep_allowed_hosts = [], ep_denied_hosts = [''*''], ep_allowed_ports = [], ep_denied_ports = [],
       ep_localhost = False, ep_private = False, ep_status = ''active'',
       ep_metadata = [(''enforcement'', JStr ''model_only_v0'')]\<rparr>]"

definition default_redaction_policies :: "redaction_policy list" where
  "default_redaction_policies =
     [\<lparr>rp_id = ''redaction_default'', rp_name = ''Default security redaction'', rp_mask_bearer = True,
       rp_mask_api_keys = True, rp_mask_paths = True, rp_mask_env = True, rp_mask_provider = True,
       rp_max_preview = 128, rp_retention = ''short_preview'', rp_status = ''active''\<rparr>]"

definition new_security :: "policy_service \<Rightarrow> auth_service option \<Rightarrow> env_provider \<Rightarrow> security_state" where
  "new_security ps auth ep =
     \<lparr>ss_refs = default_secret_refs, ss_scopes = default_secret_scopes, ss_leases = [], ss_access = [],
      ss_profiles = default_sandbox_profiles, ss_sessions = [], ss_sandbox_decisions = [],
      ss_egress = default_egress_policies, ss_redaction = default_redaction_policies, ss_audit = [],
      ss_policy = ps, ss_auth = auth, ss_env = ep\<rparr>"

end
