(* ===== verification/SecurityService.thy ===== *)
theory SecurityService
  imports SecurityModel
begin

text \<open>
  The security control service, \<open>packages/security/src/service.ts\<close>: secret references, leases,
  credential resolution, sandbox sessions, network egress and redaction.  Every operation takes the
  engine inside the policy service; an operation that throws is an \<open>op\<close>, and the early returns of
  credential resolution are the left values of a sum.
\<close>

section \<open>Audit and policy\<close>

type_synonym security_event_input = "string \<Rightarrow> time \<Rightarrow> security_event"

definition sec_event ::
  "string \<Rightarrow> string \<Rightarrow> string option \<Rightarrow> string \<Rightarrow> string option \<Rightarrow> string option \<Rightarrow> string option \<Rightarrow>
   string option \<Rightarrow> string option \<Rightarrow> jsobj \<Rightarrow> security_event_input" where
  \<comment> \<open>target kind and id, type, result, reason, task, run, actor, principal, metadata\<close>
  "sec_event kind ty target res reason task run actor prin meta i t =
     \<lparr>se_id = i, se_type = ty, se_actor_id = actor, se_principal_id = prin, se_task_id = task,
      se_run_id = run, se_target_id = target, se_target_kind = kind, se_result = res, se_reason = reason,
      se_metadata = meta, se_created_at = t\<rparr>"

definition record_security_audit ::
  "draws \<Rightarrow> security_event_input \<Rightarrow> security_state \<Rightarrow> security_event \<times> security_state" where
  "record_security_audit s mk st =
     (let e = mk (fresh_id ''secaudit'' 0 s) (clock 0 s);
          e' = e\<lparr>se_metadata := sanitize_security (se_metadata e)\<rparr>
      in (e', st\<lparr>ss_audit := ss_audit st @ [e']\<rparr>))"

definition record_secret_audit ::
  "draws \<Rightarrow> security_event_input \<Rightarrow> security_state \<Rightarrow> security_event \<times> security_state" where
  "record_secret_audit s mk st =
     record_security_audit s (\<lambda>i t. (mk i t)\<lparr>se_target_kind := ''secret''\<rparr>) st"

definition audit :: "draws \<Rightarrow> security_event_input \<Rightarrow> security_state \<Rightarrow> security_state" where
  "audit s mk st = snd (record_security_audit s mk st)"

record security_policy_input =
  spi_action :: string
  spi_kind :: string
  spi_resource_id :: "string option"
  spi_task_id :: "string option"
  spi_run_id :: "string option"
  spi_actor_id :: "string option"
  spi_auth :: "auth_context option"
  spi_runner :: "string option"
  spi_environment :: jsobj
  spi_metadata :: jsobj

definition security_subject :: "auth_context option \<Rightarrow> string option \<Rightarrow> security_state \<Rightarrow> policy_subject" where
  "security_subject cx actor_id st =
     (case (cx, ss_auth st) of
        (Some c, Some svc) \<Rightarrow> to_policy_subject c (as_repo svc)
      | _ \<Rightarrow> create_policy_subject (Some (opt_default actor_id ''mock-security-actor'')) None
              (Some ''service'') (Some [''system'']) None None None None None)"

definition security_request :: "security_policy_input \<Rightarrow> security_state \<Rightarrow> policy_request" where
  "security_request i st =
     \<lparr>req_subject = security_subject (spi_auth i) (spi_actor_id i) st, req_action = spi_action i,
      req_resource = create_policy_resource (spi_kind i) (spi_resource_id i)
        (Some (sanitize_security (spi_metadata i))),
      req_context = (create_policy_context (Some (spi_environment i))
          (Some [(''source'', JStr ''security_control_service'')]))
        \<lparr>ctx_task_id := spi_task_id i, ctx_task_run_id := spi_run_id i, ctx_runner_kind := spi_runner i\<rparr>\<rparr>"

definition evaluate_security_policy ::
  "engine \<Rightarrow> draws \<Rightarrow> security_policy_input \<Rightarrow> security_state \<Rightarrow> policy_decision \<times> security_state" where
  "evaluate_security_policy decide s i st =
     (let (d, ps) = svc_evaluate decide s (security_request i st) (ss_policy st)
      in (d, st\<lparr>ss_policy := ps\<rparr>))"

section \<open>Secret references\<close>

definition secret_provider_kinds :: "string list" where
  "secret_provider_kinds = [''mock'', ''env'', ''vault_future'', ''aws_secrets_manager_future'',
     ''gcp_secret_manager_future'', ''azure_key_vault_future'', ''env_future'']"

definition secret_kinds :: "string list" where
  "secret_kinds = [''mock_metadata'', ''github_token'', ''github_webhook_secret'', ''llm_api_key'',
     ''provider_api_key'', ''webhook_secret'', ''future_oauth_token'', ''future_cloud_identity'']"

definition secret_ref_statuses :: "string list" where
  "secret_ref_statuses = [''active'', ''disabled'', ''revoked'']"

definition secret_ref_errors :: "secret_ref \<Rightarrow> string list" where
  "secret_ref_errors r =
     (if sr_id r = [] then [''secret ref id is required''] else []) @
     (if sr_name r = [] then [''secret ref name is required''] else []) @
     (if sr_provider r \<notin> set secret_provider_kinds then [''secret ref provider is invalid''] else []) @
     (if sr_kind r \<notin> set secret_kinds then [''secret ref secretKind is invalid''] else []) @
     (if sr_status r \<notin> set secret_ref_statuses then [''secret ref status is invalid''] else []) @
     (if sr_provider r = ''env'' \<and> \<not> truthy_str (sr_env_key r) then [''env secret ref requires envKey''] else []) @
     (case sr_env_key r of None \<Rightarrow> []
      | Some k \<Rightarrow> if k \<noteq> [] \<and> \<not> is_safe_env_key k
                 then [''secret envKey must be a safe env var reference''] else []) @
     (if has_raw_secret (sr_metadata r)
      then [''secret ref metadata must not contain raw secret material''] else []) @
     (if looks_like_cache_path (sr_name r) \<or> looks_like_cache_path (sr_scope r) \<or>
         (case sr_env_key r of None \<Rightarrow> False | Some k \<Rightarrow> looks_like_cache_path k)
      then [''credential cache paths are not valid secret references''] else [])"

definition validate_secret_ref ::
  "draws \<Rightarrow> secret_ref \<Rightarrow> security_state \<Rightarrow> string list \<times> security_state" where
  "validate_secret_ref s r st =
     (let errors = secret_ref_errors r
      in (errors,
          audit (sub 0 s) (sec_event ''secret'' ''secret_ref_validated'' (Some (sr_id r))
            (if errors = [] then ''allowed'' else ''blocked'')
            (if errors = [] then None else Some (join_with ''; '' errors)) None None None None
            [(''provider'', JStr (sr_provider r)), (''secretKind'', JStr (sr_kind r)),
             (''envKeyConfigured'', JBool (truthy_str (sr_env_key r))), (''status'', JStr (sr_status r))]) st))"

text \<open>The dates an input leaves out are the time of the call.\<close>

definition create_secret_ref ::
  "draws \<Rightarrow> (time \<Rightarrow> secret_ref) \<Rightarrow> (security_state, secret_ref) op" where
  "create_secret_ref s input st =
     (let r = input (clock 0 s) in
      if get_secret_ref (sr_id r) st \<noteq> None
      then (Inl (Error (''Secret ref already exists: '' @ sr_id r)), st)
      else (let (errors, st1) = validate_secret_ref (sub 1 s) r st in
        if errors \<noteq> [] then (Inl (Error (join_with ''; '' errors)), st1)
        else (let saved = r\<lparr>sr_metadata := sanitize_security (sr_metadata r)\<rparr>
              in (Inr saved,
                  audit (sub 2 s) (sec_event ''secret'' ''credential_secret_ref_created'' (Some (sr_id saved))
                    ''created'' None None None None None
                    [(''provider'', JStr (sr_provider saved)), (''secretKind'', JStr (sr_kind saved)),
                     (''envKeyConfigured'', JBool (truthy_str (sr_env_key saved))),
                     (''status'', JStr (sr_status saved))]) (save_secret_ref saved st1)))))"

definition update_secret_ref_status ::
  "draws \<Rightarrow> string \<Rightarrow> string \<Rightarrow> string option \<Rightarrow> (security_state, secret_ref) op" where
  "update_secret_ref_status s i status actor_id st =
     (if status \<notin> set secret_ref_statuses
      then (Inl (Error (''Invalid secret ref status: '' @ status)), st)
      else (case get_secret_ref i st of
          None \<Rightarrow> (Inl (Error (''Secret ref not found: '' @ i)), st)
        | Some r \<Rightarrow>
            (let r' = r\<lparr>sr_status := status, sr_updated_at := clock 0 s\<rparr>
             in (Inr r',
                 audit (sub 1 s) (sec_event ''secret''
                   (if status = ''revoked'' then ''credential_secret_ref_revoked''
                    else if status = ''disabled'' then ''credential_secret_ref_disabled''
                    else ''credential_secret_ref_created'') (Some i) ''updated'' None None None actor_id None
                   [(''provider'', JStr (sr_provider r')), (''secretKind'', JStr (sr_kind r')),
                    (''status'', JStr status)]) (save_secret_ref r' st)))))"

section \<open>Leases\<close>

record lease_request =
  lr_ref_id :: string
  lr_scope_id :: string
  lr_task_id :: "string option"
  lr_run_id :: "string option"
  lr_actor_id :: "string option"
  lr_ttl :: "int option"
  lr_reason :: "string option"

definition access_decision_of :: "decision_value \<Rightarrow> string" where
  "access_decision_of d =
     (if d = DecAllow then ''allow'' else if d = DecRequireApproval then ''require_approval'' else ''deny'')"

definition lease_ttl :: "int option \<Rightarrow> secret_scope option \<Rightarrow> int" where
  \<comment> \<open>the requested seconds, capped by the scope's bound or 60\<close>
  "lease_ttl requested sc =
     (let bound = opt_default (map_option ssc_max_ttl sc) 60
      in min (opt_default requested bound) bound)"

definition save_access_decision ::
  "draws \<Rightarrow> bool \<Rightarrow> string \<Rightarrow> string \<Rightarrow> string \<Rightarrow> string \<Rightarrow> string option \<Rightarrow> string option \<Rightarrow>
   string option \<Rightarrow> string \<Rightarrow> security_state \<Rightarrow> access_decision \<times> security_state" where
  "save_access_decision s allowed decision reason ref scope task run actor pd st =
     (let x = \<lparr>xd_id = fresh_id ''secretdecision'' 0 s, xd_allowed = allowed, xd_decision = decision,
               xd_reason = reason, xd_ref_id = Some ref, xd_scope_id = Some scope, xd_task_id = task,
               xd_run_id = run, xd_actor_id = actor, xd_policy_decision_id = Some pd,
               xd_created_at = clock 0 s\<rparr>
      in (x, save_access_decision_rec x st))"

definition request_lease ::
  "engine \<Rightarrow> draws \<Rightarrow> lease_request \<Rightarrow> security_state \<Rightarrow> secret_lease \<times> security_state" where
  "request_lease decide s q st =
     (let r = get_secret_ref (lr_ref_id q) st; sc = get_secret_scope (lr_scope_id q) st;
          (pd, st1) = evaluate_security_policy decide (sub 0 s)
            \<lparr>spi_action = ''secret.lease.request'', spi_kind = ''secret_lease'',
             spi_resource_id = Some (lr_ref_id q), spi_task_id = lr_task_id q, spi_run_id = lr_run_id q,
             spi_actor_id = lr_actor_id q, spi_auth = None, spi_runner = None,
             spi_environment = [(''secretRefExists'', JBool (r \<noteq> None)), (''scopeExists'', JBool (sc \<noteq> None)),
               (''requiresApproval'', JBool (opt_default (map_option ssc_requires_approval sc) True)),
               (''provider'', JStr (opt_default (map_option sr_provider r) ''unknown''))],
             spi_metadata = [(''scopeId'', JStr (lr_scope_id q))]\<rparr> st;
          (x, st2) = save_access_decision (sub 1 s) (dec_allowed pd) (access_decision_of (dec_value pd))
            (dec_reason pd) (lr_ref_id q) (lr_scope_id q) (lr_task_id q) (lr_run_id q) (lr_actor_id q)
            (dec_id pd) st1;
          now = clock 2 s; issued = xd_allowed x;
          l = \<lparr>sl_id = fresh_id ''secretlease'' 3 s, sl_ref_id = lr_ref_id q, sl_scope_id = lr_scope_id q,
               sl_task_id = lr_task_id q, sl_run_id = lr_run_id q, sl_actor_id = lr_actor_id q,
               sl_status = (if issued then ''issued'' else ''denied''),
               sl_issued_at = (if issued then Some now else None),
               sl_expires_at = (if issued then Some (now + lease_ttl (lr_ttl q) sc * 1000) else None),
               sl_revoked_at = None,
               sl_reason = Some (if issued then ''mock lease issued without secret material''
                                 else dec_reason pd)\<rparr>;
          st3 = audit (sub 4 s) (sec_event ''secret'' ''secret_lease_requested'' (Some (lr_ref_id q))
            ''blocked'' (lr_reason q) (lr_task_id q) (lr_run_id q) (lr_actor_id q) None
            [(''leaseId'', JStr (sl_id l)), (''scopeId'', JStr (lr_scope_id q)),
             (''policyDecisionId'', JStr (dec_id pd))]) (save_secret_lease l st2);
          st4 = audit (sub 5 s) (sec_event ''secret''
            (if issued then ''secret_lease_issued_mock'' else ''secret_lease_denied'') (Some (sl_id l))
            (if issued then ''created'' else ''blocked'') (sl_reason l) (lr_task_id q) (lr_run_id q)
            (lr_actor_id q) None
            [(''secretRefId'', JStr (lr_ref_id q)), (''scopeId'', JStr (lr_scope_id q)),
             (''decisionId'', JStr (xd_id x))]) st3
      in (l, st4))"

definition revoke_lease :: "engine \<Rightarrow> draws \<Rightarrow> string \<Rightarrow> (security_state, secret_lease) op" where
  "revoke_lease decide s i st =
     (case get_secret_lease i st of
        None \<Rightarrow> (Inl (Error (''Secret lease not found: '' @ i)), st)
      | Some l \<Rightarrow>
          (let meta = [(''secretRefId'', JStr (sl_ref_id l)), (''scopeId'', JStr (sl_scope_id l))];
               (pd, st1) = evaluate_security_policy decide (sub 0 s)
                 \<lparr>spi_action = ''secret.lease.revoke'', spi_kind = ''secret_lease'', spi_resource_id = Some i,
                  spi_task_id = sl_task_id l, spi_run_id = sl_run_id l, spi_actor_id = sl_actor_id l,
                  spi_auth = None, spi_runner = None, spi_environment = [], spi_metadata = meta\<rparr> st
           in if \<not> dec_allowed pd then (Inl (Error (dec_reason pd)), st1)
              else (let l' = l\<lparr>sl_status := ''revoked'', sl_revoked_at := Some (clock 1 s),
                             sl_reason := Some ''lease_revoked''\<rparr>
                    in (Inr l', audit (sub 2 s) (sec_event ''secret'' ''secret_lease_revoked'' (Some i) ''updated''
                          None (sl_task_id l) (sl_run_id l) (sl_actor_id l) None meta)
                          (save_secret_lease l' st1)))))"

text \<open>The placeholder environment of a lease, or the reason there is none.\<close>

definition get_safe_environment :: "string \<Rightarrow> security_state \<Rightarrow> string + (string \<times> string) list" where
  "get_safe_environment i st =
     (case get_secret_lease i st of
        None \<Rightarrow> Inl ''secret_lease_not_issued''
      | Some l \<Rightarrow> if sl_status l \<noteq> ''issued'' then Inl ''secret_lease_not_issued''
                 else Inr [(''AICHESTRA_SECRET_PLACEHOLDER'', ''mock-secret-not-materialized'')])"

section \<open>Sandbox sessions\<close>

record sandbox_request =
  sq_profile_id :: string
  sq_task_id :: "string option"
  sq_run_id :: "string option"
  sq_runner_kind :: "string option"
  sq_workspace_id :: "string option"
  sq_actor_id :: "string option"
  sq_metadata :: "jsobj option"

definition sandbox_policy_input :: "string \<Rightarrow> string \<Rightarrow> sandbox_request \<Rightarrow> sandbox_profile option \<Rightarrow> security_policy_input" where
  "sandbox_policy_input action kind q p =
     \<lparr>spi_action = action, spi_kind = kind, spi_resource_id = Some (sq_profile_id q),
      spi_task_id = sq_task_id q, spi_run_id = sq_run_id q, spi_actor_id = sq_actor_id q, spi_auth = None,
      spi_runner = sq_runner_kind q,
      spi_environment = [(''sandboxKind'', JStr (opt_default (map_option sp_kind p) ''unknown'')),
        (''profileStatus'', JStr (opt_default (map_option sp_status p) ''missing'')),
        (''networkAllowed'', JBool (opt_default (map_option sp_network p) True)),
        (''secretsAllowed'', JBool (opt_default (map_option sp_secrets p) True)),
        (''remoteGitAllowed'', JBool (opt_default (map_option sp_git_remote p) True)),
        (''shellExecutionAllowed'', JBool (opt_default (map_option sp_shell p) False))],
      spi_metadata = [(''workspaceId'', of_opt_str (sq_workspace_id q))]\<rparr>"

definition sandbox_usable :: "sandbox_profile option \<Rightarrow> bool" where
  "sandbox_usable p \<longleftrightarrow> (case p of None \<Rightarrow> False | Some x \<Rightarrow> is_active (sp_status x))"

definition create_sandbox_session ::
  "engine \<Rightarrow> draws \<Rightarrow> sandbox_request \<Rightarrow> security_state \<Rightarrow>
   (sandbox_session option \<times> sandbox_decision) \<times> security_state" where
  "create_sandbox_session decide s q st =
     (let p = get_sandbox_profile (sq_profile_id q) st;
          (pd, st1) = evaluate_security_policy decide (sub 0 s)
            (sandbox_policy_input ''sandbox.profile.use'' ''sandbox_profile'' q p) st;
          (sd, st2) = evaluate_security_policy decide (sub 1 s)
            (sandbox_policy_input ''sandbox.session.create'' ''sandbox_session'' q p) st1;
          allowed = (dec_allowed pd \<and> dec_allowed sd \<and> sandbox_usable p);
          d = \<lparr>sd_id = fresh_id ''sandboxdecision'' 2 s, sd_allowed = allowed,
               sd_decision = (if allowed then ''allow''
                 else if dec_value pd = DecRequireApproval \<or> dec_value sd = DecRequireApproval
                 then ''require_approval'' else ''deny''),
               sd_reason = (case p of None \<Rightarrow> ''sandbox_profile_not_found''
                 | Some x \<Rightarrow> if \<not> is_active (sp_status x) then ''sandbox_profile_disabled''
                            else if dec_allowed pd then dec_reason sd else dec_reason pd),
               sd_profile_id = sq_profile_id q, sd_task_id = sq_task_id q, sd_run_id = sq_run_id q,
               sd_actor_id = sq_actor_id q,
               sd_policy_decision_id = Some (if dec_allowed pd then dec_id sd else dec_id pd),
               sd_created_at = clock 2 s\<rparr>;
          res = (if allowed then ''allowed'' else ''blocked'');
          ev = (\<lambda>ty meta. sec_event ''sandbox'' ty (Some (sq_profile_id q)) res (Some (sd_reason d))
            (sq_task_id q) (sq_run_id q) (sq_actor_id q) None meta);
          st3 = audit (sub 3 s) (ev ''sandbox_profile_selected''
            [(''policyDecisionId'', JStr (dec_id pd)), (''workspaceId'', of_opt_str (sq_workspace_id q))])
            (save_sandbox_decision d st2);
          st4 = audit (sub 4 s) (ev ''sandbox_session_requested''
            [(''workspaceId'', of_opt_str (sq_workspace_id q))]) st3
      in if \<not> allowed then ((None, d), st4)
         else (let n = \<lparr>sn_id = fresh_id ''sandboxsession'' 5 s, sn_profile_id = sq_profile_id q,
                        sn_task_id = sq_task_id q, sn_run_id = sq_run_id q, sn_runner_kind = sq_runner_kind q,
                        sn_workspace_id = sq_workspace_id q, sn_status = ''active'', sn_created_at = clock 5 s,
                        sn_completed_at = None, sn_cleanup_at = None,
                        sn_metadata = sanitize_security (opt_default (sq_metadata q) [])\<rparr>
               in ((Some n, d),
                   audit (sub 6 s) (sec_event ''sandbox'' ''sandbox_session_created'' (Some (sn_id n)) ''created''
                     None (sq_task_id q) (sq_run_id q) (sq_actor_id q) None
                     [(''profileId'', JStr (sq_profile_id q)), (''workspaceId'', of_opt_str (sq_workspace_id q))])
                     (save_sandbox_session n st4))))"

definition change_sandbox_session ::
  "draws \<Rightarrow> string \<Rightarrow> string \<Rightarrow> (sandbox_session \<Rightarrow> sandbox_session) \<Rightarrow> (security_state, sandbox_session) op" where
  "change_sandbox_session s i ty f st =
     (case get_sandbox_session i st of
        None \<Rightarrow> (Inl (Error (''Sandbox session not found: '' @ i)), st)
      | Some n \<Rightarrow> (Inr (f n),
          audit (sub 1 s) (sec_event ''sandbox'' ty (Some i) ''updated'' None (sn_task_id n) (sn_run_id n)
            None None [(''profileId'', JStr (sn_profile_id n))]) (save_sandbox_session (f n) st)))"

definition complete_sandbox_session :: "draws \<Rightarrow> string \<Rightarrow> (security_state, sandbox_session) op" where
  "complete_sandbox_session s i =
     change_sandbox_session s i ''sandbox_session_completed''
       (\<lambda>n. n\<lparr>sn_status := ''completed'', sn_completed_at := Some (clock 0 s)\<rparr>)"

definition cleanup_sandbox_session :: "draws \<Rightarrow> string \<Rightarrow> (security_state, sandbox_session) op" where
  "cleanup_sandbox_session s i =
     change_sandbox_session s i ''sandbox_session_cleaned_up''
       (\<lambda>n. n\<lparr>sn_status := ''cleaned_up'', sn_cleanup_at := Some (clock 0 s)\<rparr>)"

section \<open>Network egress and redaction\<close>

record egress_request =
  eq_policy_id :: "string option"
  eq_host :: "string option"
  eq_port :: "int option"
  eq_task_id :: "string option"
  eq_run_id :: "string option"
  eq_actor_id :: "string option"
  eq_metadata :: jsobj

record egress_decision =
  ed_id :: string
  ed_allowed :: bool
  ed_reason :: string
  ed_policy_id :: string
  ed_host :: "string option"
  ed_port :: "int option"
  ed_policy_decision_id :: string
  ed_created_at :: time

definition js_port :: "int option \<Rightarrow> js" where
  "js_port p = (case p of None \<Rightarrow> JUndef | Some n \<Rightarrow> JNum (of_int n))"

text \<open>The policy asked for by a non-empty id, or else the first active one in id order.\<close>

definition chosen_policy ::
  "(string \<Rightarrow> security_state \<Rightarrow> 'a option) \<Rightarrow> (security_state \<Rightarrow> 'a list) \<Rightarrow> ('a \<Rightarrow> string) \<Rightarrow>
   string option \<Rightarrow> security_state \<Rightarrow> 'a option" where
  "chosen_policy get all status i st =
     (if truthy_str i then get (the i) st else List.find (\<lambda>x. is_active (status x)) (all st))"

definition egress_blocked :: "egress_policy option \<Rightarrow> string option \<Rightarrow> bool" where
  "egress_blocked p host \<longleftrightarrow>
     (case p of None \<Rightarrow> True
      | Some x \<Rightarrow> \<not> is_active (ep_status x) \<or> ep_default x = ''deny'' \<or>
                 (case host of None \<Rightarrow> False | Some h \<Rightarrow> h \<in> set (ep_denied_hosts x)))"

definition evaluate_network_egress ::
  "engine \<Rightarrow> draws \<Rightarrow> egress_request \<Rightarrow> security_state \<Rightarrow> egress_decision \<times> security_state" where
  "evaluate_network_egress decide s q st =
     (let p = chosen_policy get_egress_policy list_egress_policies ep_status (eq_policy_id q) st;
          pid = opt_default (map_option ep_id p) ''network_default_deny'';
          host_port = [(''host'', of_opt_str (eq_host q)), (''port'', js_port (eq_port q))];
          (pd, st1) = evaluate_security_policy decide (sub 0 s)
            \<lparr>spi_action = ''network.egress'', spi_kind = ''network_egress_policy'', spi_resource_id = Some pid,
             spi_task_id = eq_task_id q, spi_run_id = eq_run_id q, spi_actor_id = eq_actor_id q,
             spi_auth = None, spi_runner = None,
             spi_environment = [(''defaultAction'', JStr (opt_default (map_option ep_default p) ''deny'')),
               (''allowLocalhost'', JBool (opt_default (map_option ep_localhost p) False)),
               (''allowPrivateNetwork'', JBool (opt_default (map_option ep_private p) False))],
             spi_metadata = obj_spread host_port (eq_metadata q)\<rparr> st;
          allowed = (dec_allowed pd \<and> \<not> egress_blocked p (eq_host q));
          d = \<lparr>ed_id = fresh_id ''networkdecision'' 1 s, ed_allowed = allowed,
               ed_reason = (if allowed then ''network_egress_allowed_by_model'' else ''network_egress_blocked''),
               ed_policy_id = pid, ed_host = eq_host q, ed_port = eq_port q,
               ed_policy_decision_id = dec_id pd, ed_created_at = clock 1 s\<rparr>
      in (d, if allowed then st1
             else audit (sub 2 s) (sec_event ''network'' ''network_egress_blocked'' (Some pid) ''blocked''
               (Some (ed_reason d)) (eq_task_id q) (eq_run_id q) (eq_actor_id q) None
               (host_port @ [(''policyDecisionId'', JStr (dec_id pd))])) st1))"

record redact_request =
  rq_text :: string
  rq_policy_id :: "string option"
  rq_task_id :: "string option"
  rq_run_id :: "string option"
  rq_actor_id :: "string option"
  rq_metadata :: "jsobj option"

definition redact_text :: "draws \<Rightarrow> redact_request \<Rightarrow> security_state \<Rightarrow> redaction_result \<times> security_state" where
  "redact_text s q st =
     (case chosen_policy get_redaction_policy list_redaction_policies rp_status (rq_policy_id q) st of
        None \<Rightarrow>
          (\<lparr>rr_policy_id = opt_default (rq_policy_id q) ''none'', rr_text = [], rr_preview = [],
            rr_applied = True, rr_truncated = True, rr_original_bytes = length (rq_text q),
            rr_preview_bytes = 0\<rparr>, st)
      | Some p \<Rightarrow>
          (let r = redact_with_policy (rq_text q) p;
               sizes = [(''originalBytes'', JNum (of_nat (rr_original_bytes r))),
                        (''previewBytes'', JNum (of_nat (rr_preview_bytes r)))];
               ev = (\<lambda>ty meta. sec_event ''redaction'' ty (Some (rp_id p)) ''redacted'' None (rq_task_id q)
                       (rq_run_id q) (rq_actor_id q) None meta);
               st1 = (if rr_applied r \<or> rr_truncated r
                 then audit (sub 0 s) (ev
                   (if rr_applied r then ''redaction_applied'' else ''unsafe_output_truncated'')
                   (obj_spread (sizes @ [(''truncated'', JBool (rr_truncated r))])
                      (sanitize_security (opt_default (rq_metadata q) [])))) st
                 else st);
               st2 = (if rr_applied r \<and> rr_truncated r
                 then audit (sub 1 s) (ev ''unsafe_output_truncated'' sizes) st1 else st1)
           in (r, st2)))"

end
