(* ===== verification/CredentialResolution.thy ===== *)
theory CredentialResolution
  imports SecurityService
begin

text \<open>
  Credential resolution, \<open>resolveCredentialInternal\<close> of \<open>packages/security/src/service.ts\<close>: a secret
  value leaves the service only after the reference is found, active and valid, the authorisation
  service agrees, up to four policy decisions allow it and the environment provider yields it.
\<close>

section \<open>Requests and results\<close>

record credential_request =
  cr_ref_id :: string
  cr_purpose :: string
  cr_actor_id :: "string option"
  cr_principal_id :: "string option"
  cr_auth :: "auth_context option"
  cr_task_id :: "string option"
  cr_run_id :: "string option"
  cr_provider_id :: "string option"
  cr_policy_context :: "jsobj option"

record credential_handle =
  ch_id :: string
  ch_ref_id :: string
  ch_kind :: string
  ch_provider :: string
  ch_status :: string
  ch_expires_at :: "time option"
  ch_metadata :: jsobj

record credential_result =
  cz_id :: string
  cz_allowed :: bool
  cz_status :: string
  cz_handle :: "credential_handle option"
  cz_blocked_reason :: "string option"
  cz_policy_decision_id :: "string option"
  cz_auth_decision_id :: "string option"
  cz_audit_event_id :: "string option"
  cz_created_at :: time
  cz_value :: "string option"

text \<open>An early return of the resolution.\<close>

record denial =
  dn_status :: string
  dn_reason :: string
  dn_event :: string
  dn_policy_decision_id :: "string option"
  dn_auth_decision_id :: "string option"
  dn_ref :: "secret_ref option"

definition credential_provider_kind :: "credential_request \<Rightarrow> string" where
  "credential_provider_kind q =
     (let explicit = (case obj_get (opt_default (cr_policy_context q) []) ''providerKind'' of
                        JStr s \<Rightarrow> Some s | _ \<Rightarrow> None)
      in if truthy_str explicit then the explicit
         else if cr_purpose q = ''github_api_call'' then ''github''
         else if cr_purpose q = ''github_webhook_verification'' \<or> cr_purpose q = ''webhook_verification_future''
         then ''github''
         else if cr_purpose q = ''llm_api_call'' then ''openai_compatible''
         else opt_default (cr_provider_id q) ''provider'')"

definition purpose_action :: "string \<Rightarrow> string option" where
  "purpose_action p =
     (if p = ''github_api_call'' \<or> p = ''github_webhook_verification'' \<or> p = ''webhook_verification_future''
      then Some ''git.credential.resolve''
      else if p = ''llm_api_call'' then Some ''llm.credential.resolve'' else None)"

definition credential_auth_context ::
  "draws \<Rightarrow> credential_request \<Rightarrow> security_state \<Rightarrow> auth_context option \<times> security_state" where
  \<comment> \<open>the authorisation service is over the mock provider\<close>
  "credential_auth_context s q st =
     (case (ss_auth st, cr_auth q) of
        (None, c) \<Rightarrow> (c, st)
      | (Some svc, Some c) \<Rightarrow> (Some c, st)
      | (Some svc, None) \<Rightarrow>
          (let named = truthy_str (cr_actor_id q);
               (c, r) = resolve_auth_context s ''mock-admin''
                 \<lparr>aq_request_id = None,
                  aq_actor_id = Some (opt_default (cr_actor_id q) ''mock-admin''),
                  aq_correlation_id = None, aq_source = Some (if named then ''api'' else ''system''),
                  aq_metadata = Some [(''credentialResolution'', JBool True),
                    (''purpose'', JStr (cr_purpose q)), (''providerId'', of_opt_str (cr_provider_id q)),
                    (''principalId'', of_opt_str (cr_principal_id q))]\<rparr> (as_repo svc)
           in (Some c, st\<lparr>ss_auth := Some (svc\<lparr>as_repo := r\<rparr>)\<rparr>)))"

definition credential_environment :: "credential_request \<Rightarrow> secret_ref \<Rightarrow> security_state \<Rightarrow> jsobj" where
  "credential_environment q r st =
     obj_spread (sanitize_security (opt_default (cr_policy_context q) []))
       [(''credentialsConfigured'', JBool (is_active (sr_status r) \<and> truthy_str (sr_env_key r))),
        (''secretRefActive'', JBool (is_active (sr_status r))),
        (''envSecretProviderEnabled'', JBool (env_enabled (ss_env st))),
        (''envKeyAllowlistConfigured'', JBool (0 < length (env_allowed_keys (ss_env st)))),
        (''provider'', JStr (sr_provider r)), (''secretKind'', JStr (sr_kind r)),
        (''credentialCacheAccessAllowed'', JBool False), (''credentialMaterialStored'', JBool False),
        (''secretMaterialStored'', JBool False), (''purpose'', JStr (cr_purpose q))]"

definition credential_check :: "credential_request \<Rightarrow> auth_context \<Rightarrow> secret_ref \<Rightarrow> jsobj \<Rightarrow> check_request" where
  "credential_check q c r env =
     \<lparr>ck_context = c, ck_action = ''provider.credential.resolve'',
      ck_resource = \<lparr>ar_kind = ''provider_credential'', ar_id = Some (sr_id r), ar_scope = None,
        ar_metadata = Some [(''purpose'', JStr (cr_purpose q)), (''providerId'', of_opt_str (cr_provider_id q)),
          (''providerKind'', JStr (credential_provider_kind q)), (''secretKind'', JStr (sr_kind r)),
          (''envKeyConfigured'', JBool (truthy_str (sr_env_key r)))]\<rparr>,
      ck_policy_context = Some ((create_policy_context (Some env)
          (Some [(''source'', JStr ''security_control_service''), (''credentialResolution'', JBool True),
             (''purpose'', JStr (cr_purpose q))]))
        \<lparr>ctx_task_id := cr_task_id q, ctx_task_run_id := cr_run_id q,
         ctx_provider_kind := Some (credential_provider_kind q)\<rparr>)\<rparr>"

section \<open>The gates\<close>

text \<open>Authorisation, when the service has an authorisation service and a context.\<close>

definition authorization_gate ::
  "engine \<Rightarrow> draws \<Rightarrow> credential_request \<Rightarrow> auth_context option \<Rightarrow> secret_ref \<Rightarrow> jsobj \<Rightarrow> security_state \<Rightarrow>
   (denial + auth_decision option) \<times> security_state" where
  "authorization_gate decide s q c r env st =
     (case (ss_auth st, c) of
        (Some svc, Some cx) \<Rightarrow>
          (let (d, svc') = auth_check decide s (credential_check q cx r env) svc;
               st' = st\<lparr>ss_auth := Some svc'\<rparr>
           in if ad_allowed d then (Inr (Some d), st')
              else (Inl \<lparr>dn_status = ''denied'', dn_reason = ''authorization_denied:'' @ ad_reason d,
                dn_event = (if starts_with (ad_reason d) ''policy_denied:''
                            then ''credential_resolution_policy_denied''
                            else ''credential_resolution_authorization_denied''),
                dn_policy_decision_id = map_option dec_id (ad_policy_decision d),
                dn_auth_decision_id = map_option ae_id (ad_audit_event d), dn_ref = Some r\<rparr>, st'))
      | _ \<Rightarrow> (Inr None, st))"

definition auth_decision_id :: "auth_decision option \<Rightarrow> string option" where
  "auth_decision_id d = (case d of None \<Rightarrow> None | Some x \<Rightarrow> map_option ae_id (ad_audit_event x))"

definition credential_metadata :: "bool \<Rightarrow> credential_request \<Rightarrow> secret_ref \<Rightarrow> jsobj" where
  "credential_metadata source q r =
     [(''purpose'', JStr (cr_purpose q)), (''providerId'', of_opt_str (cr_provider_id q)),
      (''providerKind'', JStr (credential_provider_kind q))] @
     (if source then [(''credentialSource'', JStr ''secret_ref'')] else []) @
     [(''secretKind'', JStr (sr_kind r))]"

definition policy_gate ::
  "engine \<Rightarrow> draws \<Rightarrow> string \<Rightarrow> string \<Rightarrow> credential_request \<Rightarrow> auth_context option \<Rightarrow> secret_ref \<Rightarrow> jsobj \<Rightarrow>
   auth_decision option \<Rightarrow> security_state \<Rightarrow> (denial + policy_decision) \<times> security_state" where
  "policy_gate decide s action kind q c r env ad st =
     (let actor = opt_or (map_option (\<lambda>x. ac_id (cx_actor x)) c) (cr_actor_id q);
          (d, st') = evaluate_security_policy decide s
            \<lparr>spi_action = action, spi_kind = kind, spi_resource_id = Some (sr_id r), spi_task_id = cr_task_id q,
             spi_run_id = cr_run_id q, spi_actor_id = actor, spi_auth = c, spi_runner = None,
             spi_environment = env,
             spi_metadata = credential_metadata (kind = ''provider_credential'') q r\<rparr> st
      in if dec_allowed d then (Inr d, st')
         else (Inl \<lparr>dn_status = ''denied'', dn_reason = dec_reason d,
           dn_event = ''credential_resolution_policy_denied'', dn_policy_decision_id = Some (dec_id d),
           dn_auth_decision_id = auth_decision_id ad, dn_ref = Some r\<rparr>, st'))"

definition purpose_gate ::
  "engine \<Rightarrow> draws \<Rightarrow> credential_request \<Rightarrow> auth_context option \<Rightarrow> secret_ref \<Rightarrow> jsobj \<Rightarrow>
   auth_decision option \<Rightarrow> security_state \<Rightarrow> (denial + policy_decision option) \<times> security_state" where
  "purpose_gate decide s q c r env ad =
     (case purpose_action (cr_purpose q) of
        None \<Rightarrow> op_return None
      | Some a \<Rightarrow> op_bind (policy_gate decide s a ''provider_credential'' q c r env ad) (\<lambda>d. op_return (Some d)))"

definition reference_gate ::
  "draws \<Rightarrow> credential_request \<Rightarrow> security_state \<Rightarrow> (denial + secret_ref) \<times> security_state" where
  "reference_gate s q st =
     (let deny = (\<lambda>status reason ev r. Inl \<lparr>dn_status = status, dn_reason = reason, dn_event = ev,
          dn_policy_decision_id = None, dn_auth_decision_id = None, dn_ref = r\<rparr>)
      in case get_secret_ref (cr_ref_id q) st of
           None \<Rightarrow> (deny ''missing'' ''secret_ref_missing'' ''credential_resolution_missing'' None, st)
         | Some r \<Rightarrow>
             if sr_status r = ''disabled''
             then (deny ''denied'' ''secret_ref_disabled'' ''credential_resolution_denied'' (Some r), st)
             else if sr_status r = ''revoked''
             then (deny ''denied'' ''secret_ref_revoked'' ''credential_resolution_revoked'' (Some r), st)
             else (let (errors, st1) = validate_secret_ref s r st
                   in (case errors of
                         [] \<Rightarrow> (Inr r, st1)
                       | e # _ \<Rightarrow> (deny ''denied'' e ''credential_resolution_denied'' (Some r), st1))))"

definition environment_gate ::
  "secret_ref \<Rightarrow> string \<Rightarrow> auth_decision option \<Rightarrow> security_state \<Rightarrow> (denial + string) \<times> security_state" where
  "environment_gate r pd ad st =
     (let e = env_resolve (ss_env st) r
      in if env_result_ok e \<and> truthy_str (er_value e) then (Inr (the (er_value e)), st)
         else (Inl \<lparr>dn_status = er_status e,
           dn_reason = opt_default (er_reason e) ''credential_resolution_failed'',
           dn_event = (if er_reason e = Some ''env_secret_provider_disabled'' then ''credential_env_provider_disabled''
             else if er_reason e = Some ''env_key_not_allowlisted'' then ''credential_env_key_not_allowlisted''
             else if er_status e = ''missing'' then ''credential_resolution_missing''
             else ''credential_resolution_denied''),
           dn_policy_decision_id = Some pd, dn_auth_decision_id = auth_decision_id ad, dn_ref = Some r\<rparr>, st))"

text \<open>What has been established when every gate is passed.\<close>

record credential_grant =
  cg_ref :: secret_ref
  cg_auth :: "auth_decision option"
  cg_purpose :: "policy_decision option"
  cg_policy :: policy_decision
  cg_lease_policy :: policy_decision
  cg_value :: string

definition decision_gates ::
  "engine \<Rightarrow> draws \<Rightarrow> credential_request \<Rightarrow> auth_context option \<Rightarrow> secret_ref \<Rightarrow> jsobj \<Rightarrow> security_state \<Rightarrow>
   (denial + credential_grant) \<times> security_state" where
  "decision_gates decide s q c r env =
     op_bind (authorization_gate decide (sub 1 s) q c r env) (\<lambda>ad.
     op_bind (purpose_gate decide (sub 2 s) q c r env ad) (\<lambda>pp.
     op_bind (policy_gate decide (sub 3 s) ''provider.credential.resolve'' ''provider_credential'' q c r env ad) (\<lambda>cp.
     op_bind (policy_gate decide (sub 4 s) ''secret.lease.request'' ''secret_lease'' q c r env ad) (\<lambda>_.
     op_bind (policy_gate decide (sub 5 s) ''secret.lease.issue'' ''secret_lease'' q c r env ad) (\<lambda>lp.
     op_bind (environment_gate r (dec_id lp) ad) (\<lambda>v.
     op_return \<lparr>cg_ref = r, cg_auth = ad, cg_purpose = pp, cg_policy = cp, cg_lease_policy = lp,
                cg_value = v\<rparr>))))))"

definition credential_gates ::
  "engine \<Rightarrow> draws \<Rightarrow> credential_request \<Rightarrow> auth_context option \<Rightarrow> security_state \<Rightarrow>
   (denial + credential_grant) \<times> security_state" where
  "credential_gates decide s q c =
     op_bind (reference_gate (sub 0 s) q)
       (\<lambda>r st. decision_gates decide s q c r (credential_environment q r st) st)"

section \<open>Resolution\<close>

definition finish_resolution ::
  "draws \<Rightarrow> credential_request \<Rightarrow> string \<Rightarrow> time \<Rightarrow> auth_context option \<Rightarrow> denial \<Rightarrow> security_state \<Rightarrow>
   credential_result \<times> security_state" where
  "finish_resolution s q rid created c dn st =
     (let (e, st') = record_security_audit s
        (sec_event ''secret'' (dn_event dn) (Some (opt_default (map_option sr_id (dn_ref dn)) (cr_ref_id q)))
          ''blocked'' (Some (dn_reason dn)) (cr_task_id q) (cr_run_id q)
          (opt_or (map_option (\<lambda>x. ac_id (cx_actor x)) c) (cr_actor_id q))
          (opt_or (map_option (\<lambda>x. ap_id (cx_principal x)) c) (cr_principal_id q))
          [(''resolutionId'', JStr rid), (''purpose'', JStr (cr_purpose q)),
           (''providerId'', of_opt_str (cr_provider_id q)), (''providerKind'', JStr (credential_provider_kind q)),
           (''secretKind'', of_opt_str (map_option sr_kind (dn_ref dn))),
           (''authMode'', of_opt_str (map_option cx_mode c)),
           (''policyDecisionId'', of_opt_str (dn_policy_decision_id dn)),
           (''authorizationDecisionId'', of_opt_str (dn_auth_decision_id dn)),
           (''envKeyConfigured'', JBool (case dn_ref dn of None \<Rightarrow> False | Some r \<Rightarrow> truthy_str (sr_env_key r)))]) st
      in (\<lparr>cz_id = rid, cz_allowed = False, cz_status = dn_status dn, cz_handle = None,
           cz_blocked_reason = Some (dn_reason dn), cz_policy_decision_id = dn_policy_decision_id dn,
           cz_auth_decision_id = dn_auth_decision_id dn, cz_audit_event_id = Some (se_id e),
           cz_created_at = created, cz_value = None\<rparr>, st'))"

definition grant_resolution ::
  "draws \<Rightarrow> credential_request \<Rightarrow> string \<Rightarrow> time \<Rightarrow> auth_context option \<Rightarrow> bool \<Rightarrow> credential_grant \<Rightarrow>
   security_state \<Rightarrow> credential_result \<times> security_state" where
  "grant_resolution s q rid created c include_value g st =
     (let r = cg_ref g; sc = get_secret_scope (sr_scope r) st;
          actor = opt_or (map_option (\<lambda>x. ac_id (cx_actor x)) c) (cr_actor_id q);
          prin = opt_or (map_option (\<lambda>x. ap_id (cx_principal x)) c) (cr_principal_id q);
          ttl = min (opt_default (map_option ssc_max_ttl sc) 300) 300;
          l = \<lparr>sl_id = fresh_id ''secretlease'' 0 s, sl_ref_id = sr_id r, sl_scope_id = sr_scope r,
               sl_task_id = cr_task_id q, sl_run_id = cr_run_id q, sl_actor_id = actor,
               sl_status = ''issued'', sl_issued_at = Some created,
               sl_expires_at = Some (created + ttl * 1000), sl_revoked_at = None,
               sl_reason = Some ''env_secret_provider_credential_handle_issued''\<rparr>;
          (x, st1) = save_access_decision (sub 1 s) True ''allow'' (dec_reason (cg_policy g)) (sr_id r)
            (sr_scope r) (cr_task_id q) (cr_run_id q) actor (dec_id (cg_policy g)) (save_secret_lease l st);
          h = \<lparr>ch_id = fresh_id ''credhandle'' 2 s, ch_ref_id = sr_id r, ch_kind = sr_kind r,
               ch_provider = sr_provider r, ch_status = ''resolved'', ch_expires_at = sl_expires_at l,
               ch_metadata = [(''purpose'', JStr (cr_purpose q)), (''providerId'', of_opt_str (cr_provider_id q)),
                 (''providerKind'', JStr (credential_provider_kind q)), (''leaseId'', JStr (sl_id l)),
                 (''envKeyConfigured'', JBool (truthy_str (sr_env_key r))),
                 (''containsSecretMaterial'', JBool False)]\<rparr>;
          (e, st2) = record_security_audit (sub 3 s)
            (sec_event ''secret'' ''credential_resolution_allowed'' (Some (sr_id r)) ''allowed'' None
              (cr_task_id q) (cr_run_id q) actor prin
              [(''resolutionId'', JStr rid), (''handleId'', JStr (ch_id h)), (''leaseId'', JStr (sl_id l)),
               (''purpose'', JStr (cr_purpose q)), (''providerId'', of_opt_str (cr_provider_id q)),
               (''providerKind'', JStr (credential_provider_kind q)), (''secretKind'', JStr (sr_kind r)),
               (''authMode'', of_opt_str (map_option cx_mode c)),
               (''authorizationDecisionId'', of_opt_str (auth_decision_id (cg_auth g))),
               (''policyDecisionId'', JStr (dec_id (cg_policy g))),
               (''purposePolicyDecisionId'', of_opt_str (map_option dec_id (cg_purpose g))),
               (''leasePolicyDecisionId'', JStr (dec_id (cg_lease_policy g)))]) st1;
          st3 = audit (sub 4 s)
            (sec_event ''secret'' ''credential_value_redacted'' (Some (sr_id r)) ''redacted'' None
              (cr_task_id q) (cr_run_id q) actor prin
              [(''resolutionId'', JStr rid), (''handleId'', JStr (ch_id h)),
               (''containsSecretMaterial'', JBool False)]) st2
      in (\<lparr>cz_id = rid, cz_allowed = True, cz_status = ''resolved'', cz_handle = Some h,
           cz_blocked_reason = None, cz_policy_decision_id = Some (dec_id (cg_policy g)),
           cz_auth_decision_id = auth_decision_id (cg_auth g), cz_audit_event_id = Some (se_id e),
           cz_created_at = created, cz_value = (if include_value then Some (cg_value g) else None)\<rparr>, st3))"

definition audit_requested ::
  "draws \<Rightarrow> credential_request \<Rightarrow> string \<Rightarrow> auth_context option \<Rightarrow> security_state \<Rightarrow> security_state" where
  "audit_requested s q rid c st =
     audit s
       (sec_event ''secret'' ''credential_resolution_requested'' (Some (cr_ref_id q)) ''allowed'' None
         (cr_task_id q) (cr_run_id q)
         (opt_or (map_option (\<lambda>x. ac_id (cx_actor x)) c) (cr_actor_id q))
         (opt_or (map_option (\<lambda>x. ap_id (cx_principal x)) c) (cr_principal_id q))
         [(''resolutionId'', JStr rid), (''purpose'', JStr (cr_purpose q)),
          (''providerId'', of_opt_str (cr_provider_id q)),
          (''providerKind'', JStr (credential_provider_kind q)),
          (''authMode'', of_opt_str (map_option cx_mode c)),
          (''secretRefExists'', JBool (get_secret_ref (cr_ref_id q) st \<noteq> None))]) st"

definition resolve_credential_internal ::
  "engine \<Rightarrow> draws \<Rightarrow> credential_request \<Rightarrow> bool \<Rightarrow> security_state \<Rightarrow> credential_result \<times> security_state" where
  "resolve_credential_internal decide s q include_value st =
     (let created = clock 0 s; rid = fresh_id ''credres'' 0 s;
          (c, st1) = credential_auth_context (sub 1 s) q st
      in (case credential_gates decide (sub 3 s) q c (audit_requested (sub 2 s) q rid c st1) of
            (Inl dn, st2) \<Rightarrow> finish_resolution (sub 4 s) q rid created c dn st2
          | (Inr g, st2) \<Rightarrow> grant_resolution (sub 5 s) q rid created c include_value g st2))"

lemma resolve_credential_internal_cases:
  assumes "credential_auth_context (sub 1 s) q st = (c, st1)"
    and "credential_gates d (sub 3 s) q c (audit_requested (sub 2 s) q (fresh_id ''credres'' 0 s) c st1) =
      (out, st2)"
  shows "resolve_credential_internal d s q b st = (case out of
      Inl dn \<Rightarrow> finish_resolution (sub 4 s) q (fresh_id ''credres'' 0 s) (clock 0 s) c dn st2
    | Inr g \<Rightarrow> grant_resolution (sub 5 s) q (fresh_id ''credres'' 0 s) (clock 0 s) c b g st2)"
  by (cases out) (simp_all only: resolve_credential_internal_def Let_def assms prod.case sum.case)

definition resolve_credential ::
  "engine \<Rightarrow> draws \<Rightarrow> credential_request \<Rightarrow> security_state \<Rightarrow> credential_result \<times> security_state" where
  \<comment> \<open>the result without its value\<close>
  "resolve_credential decide s q st =
     (let (r, st') = resolve_credential_internal decide s q False st in (r\<lparr>cz_value := None\<rparr>, st'))"

definition resolve_credential_for_internal_use ::
  "engine \<Rightarrow> draws \<Rightarrow> credential_request \<Rightarrow> security_state \<Rightarrow> credential_result \<times> security_state" where
  "resolve_credential_for_internal_use decide s q = resolve_credential_internal decide s q True"

end
