(* ===== verification/SecurityInvariant.thy ===== *)
theory SecurityInvariant
  imports CredentialResolution
begin

text \<open>
  The invariant of the security state over every operation of the service: the audit log only
  grows by events without an open entry at the top level of their metadata, a lease that is issued has its dates and stays within
  the bound of its scope, and a finished sandbox session has its date.  The operations are the
  steps of a relation; an operation that throws is a step to the state it leaves.
\<close>

section \<open>What the state keeps\<close>

definition closed_event :: "security_event \<Rightarrow> bool" where
  "closed_event e \<longleftrightarrow> \<not> list_ex open_entry (se_metadata e)"

definition lease_bound :: "secret_scope list \<Rightarrow> string \<Rightarrow> int" where
  "lease_bound scopes i = opt_default (map_option ssc_max_ttl (find_by ssc_id i scopes)) 300"

definition lease_ok :: "secret_scope list \<Rightarrow> secret_lease \<Rightarrow> bool" where
  "lease_ok scopes l \<longleftrightarrow>
     sl_status l \<in> {''issued'', ''denied'', ''revoked''} \<and>
     (sl_status l = ''issued'' \<longrightarrow>
        (\<exists>i e. sl_issued_at l = Some i \<and> sl_expires_at l = Some e \<and>
           e - i \<le> 1000 * lease_bound scopes (sl_scope_id l))) \<and>
     (sl_status l = ''revoked'' \<longrightarrow> sl_revoked_at l \<noteq> None)"

definition session_ok :: "sandbox_session \<Rightarrow> bool" where
  "session_ok n \<longleftrightarrow>
     sn_status n \<in> {''active'', ''completed'', ''cleaned_up''} \<and>
     (sn_status n = ''completed'' \<longrightarrow> sn_completed_at n \<noteq> None) \<and>
     (sn_status n = ''cleaned_up'' \<longrightarrow> sn_cleanup_at n \<noteq> None)"

definition security_inv :: "security_state \<Rightarrow> bool" where
  "security_inv st \<longleftrightarrow>
     list_all closed_event (ss_audit st) \<and> list_all (lease_ok (ss_scopes st)) (ss_leases st) \<and>
     list_all session_ok (ss_sessions st)"

text \<open>The relation every operation keeps between the states before and after it.\<close>

definition secure :: "security_state \<Rightarrow> security_state \<Rightarrow> bool" where
  "secure st st' \<longleftrightarrow>
     ss_scopes st' = ss_scopes st \<and>
     (\<exists>es. ss_audit st' = ss_audit st @ es \<and> list_all closed_event es) \<and>
     (\<forall>l \<in> set (ss_leases st'). l \<in> set (ss_leases st) \<or> lease_ok (ss_scopes st) l) \<and>
     (\<forall>n \<in> set (ss_sessions st'). n \<in> set (ss_sessions st) \<or> session_ok n)"

lemma secure_refl: "secure st st"
  by (simp add: secure_def)

lemma secure_trans:
  assumes "secure st1 st2" and "secure st2 st3"
  shows "secure st1 st3"
proof -
  have "\<exists>es. ss_audit st3 = ss_audit st1 @ es \<and> list_all closed_event es"
    using assms unfolding secure_def by (metis append_assoc list_all_append)
  then show ?thesis using assms unfolding secure_def by metis
qed

lemma secure_inv: "secure st st' \<Longrightarrow> security_inv st \<Longrightarrow> security_inv st'"
  unfolding secure_def security_inv_def list_all_iff by (auto 4 3)

text \<open>The parts operations are made of.\<close>

lemma secure_then: "secure st1 st2 \<Longrightarrow> secure st st1 \<Longrightarrow> secure st st2"
  by (rule secure_trans)

lemma secure_audit: "secure st st1 \<Longrightarrow> secure st (snd (record_security_audit s mk st1))"
proof (erule secure_trans)
  show "secure st1 (snd (record_security_audit s mk st1))"
    by (simp add: secure_def record_security_audit_def Let_def closed_event_def sanitize_security_closed)
qed

lemma secure_policy: "secure st st1 \<Longrightarrow> secure st (snd (evaluate_security_policy d s i st1))"
  by (rule secure_then) (simp_all add: secure_def evaluate_security_policy_def case_prod_beta)

lemma secure_ref: "secure st st1 \<Longrightarrow> secure st (save_secret_ref x st1)"
  by (rule secure_then) (simp_all add: secure_def save_secret_ref_def)

lemma secure_access: "secure st st1 \<Longrightarrow> secure st (snd (save_access_decision s a d r ref sc t u ac pd st1))"
  by (rule secure_then)
    (simp_all add: secure_def save_access_decision_def save_access_decision_rec_def Let_def)

lemma secure_sandbox_decision: "secure st st1 \<Longrightarrow> secure st (save_sandbox_decision x st1)"
  by (rule secure_then) (simp_all add: secure_def save_sandbox_decision_def)

lemma secure_lease: "lease_ok (ss_scopes st1) l \<Longrightarrow> secure st st1 \<Longrightarrow> secure st (save_secret_lease l st1)"
  by (rule secure_then) (use set_upsert_by[of sl_id l] in \<open>fastforce simp: secure_def save_secret_lease_def\<close>)+

lemma secure_session: "session_ok n \<Longrightarrow> secure st st1 \<Longrightarrow> secure st (save_sandbox_session n st1)"
  by (rule secure_then) (use set_upsert_by[of sn_id n] in \<open>fastforce simp: secure_def save_sandbox_session_def\<close>)+

lemma scopes_frame [simp]:
  "ss_scopes (snd (record_security_audit s mk st)) = ss_scopes st"
  "ss_scopes (snd (evaluate_security_policy d s i st)) = ss_scopes st"
  "ss_scopes (snd (save_access_decision s a x r ref sc t u ac pd st)) = ss_scopes st"
  by (simp_all add: record_security_audit_def evaluate_security_policy_def save_access_decision_def
      save_access_decision_rec_def Let_def case_prod_beta)

lemmas secure_parts = secure_refl secure_audit secure_policy secure_ref secure_access
  secure_sandbox_decision secure_lease secure_session

section \<open>The operations\<close>

lemma secure_validate: "secure st st1 \<Longrightarrow> secure st (snd (validate_secret_ref s r st1))"
  by (simp add: validate_secret_ref_def Let_def audit_def secure_audit)

lemma secure_create_ref: "secure st (snd (create_secret_ref s f st))"
  by (simp add: create_secret_ref_def Let_def case_prod_beta audit_def secure_parts secure_validate)

lemma secure_update_ref: "secure st (snd (update_secret_ref_status s i x a st))"
  by (simp add: update_secret_ref_status_def Let_def audit_def secure_parts split: option.split)

lemma lease_ttl_bound: "lease_ttl q (find_by ssc_id i scopes) \<le> lease_bound scopes i"
  by (cases "find_by ssc_id i scopes") (simp_all add: lease_ttl_def lease_bound_def Let_def)

lemma secure_request_lease: "secure st (snd (request_lease d s q st))"
  unfolding request_lease_def Let_def case_prod_beta audit_def
  using lease_ttl_bound[of "lr_ttl q" "lr_scope_id q" "ss_scopes st"]
  by (simp add: secure_parts lease_ok_def get_secret_scope_def)

lemma secure_revoke_lease: "secure st (snd (revoke_lease d s i st))"
  unfolding revoke_lease_def Let_def case_prod_beta audit_def
  by (simp add: secure_parts lease_ok_def split: option.split)

lemma secure_create_session: "secure st (snd (create_sandbox_session d s q st))"
  unfolding create_sandbox_session_def Let_def case_prod_beta audit_def
  by (simp add: secure_parts session_ok_def)

lemma secure_change_session:
  "(\<And>n. session_ok (f n)) \<Longrightarrow> secure st (snd (change_sandbox_session s i ty f st))"
  by (simp add: change_sandbox_session_def audit_def secure_parts split: option.split)

lemma secure_egress: "secure st (snd (evaluate_network_egress d s q st))"
  unfolding evaluate_network_egress_def Let_def case_prod_beta audit_def
  by (simp add: secure_parts)

lemma secure_redact: "secure st (snd (redact_text s q st))"
  unfolding redact_text_def Let_def audit_def
  by (simp add: secure_parts split: option.split)

subsection \<open>Credential resolution\<close>

lemma reflp_secure: "reflp secure"
  by (simp add: reflp_def secure_refl)

lemma transp_secure: "transp secure"
  by (rule transpI) (rule secure_trans)

lemma secure_auth: "secure st (st\<lparr>ss_auth := x\<rparr>)"
  by (simp add: secure_def)

lemma gate_secure:
  "keeps secure (reference_gate s q)" "keeps secure (authorization_gate d s q c r env)"
  "keeps secure (policy_gate d s a k q c r env ad)" "keeps secure (environment_gate r pd ad)"
  by (simp_all add: keeps_def reference_gate_def authorization_gate_def policy_gate_def environment_gate_def
      Let_def case_prod_beta secure_parts secure_validate secure_auth split: option.split list.split)

lemma purpose_gate_secure: "keeps secure (purpose_gate d s q c r env ad)"
  by (auto simp: purpose_gate_def reflp_secure transp_secure split: option.split
      intro!: keeps_bind keeps_return gate_secure)

lemma credential_gates_secure: "keeps secure (credential_gates d s q c)"
proof -
  have "keeps secure (decision_gates d s q c r env)" for r env
    unfolding decision_gates_def
    by (intro keeps_bind keeps_return gate_secure purpose_gate_secure reflp_secure transp_secure)
  then have "keeps secure (\<lambda>st. decision_gates d s q c r (credential_environment q r st) st)" for r
    by (simp add: keeps_def)
  then show ?thesis
    unfolding credential_gates_def by (intro keeps_bind gate_secure transp_secure)
qed

lemma secure_finish: "secure st st1 \<Longrightarrow> secure st (snd (finish_resolution s q rid t c dn st1))"
  by (simp add: finish_resolution_def case_prod_beta secure_audit)

lemma secure_grant: "secure st st1 \<Longrightarrow> secure st (snd (grant_resolution s q rid t c i g st1))"
  unfolding grant_resolution_def Let_def case_prod_beta audit_def
  by (simp add: secure_parts lease_ok_def lease_bound_def get_secret_scope_def)

lemma secure_resolve: "secure st (snd (resolve_credential_internal d s q i st))"
proof -
  obtain c st1 where c: "credential_auth_context (sub 1 s) q st = (c, st1)" by fastforce
  then have "secure st st1"
    by (auto simp: credential_auth_context_def Let_def secure_auth secure_refl split: option.splits prod.splits)
  then have 2: "secure st (audit_requested (sub 2 s) q (fresh_id ''credres'' 0 s) c st1)"
    by (simp add: audit_requested_def audit_def secure_audit)
  obtain out st3 where g: "credential_gates d (sub 3 s) q c
      (audit_requested (sub 2 s) q (fresh_id ''credres'' 0 s) c st1) = (out, st3)" by fastforce
  have "secure st st3" by (rule secure_trans[OF 2 keepsD[OF credential_gates_secure g]])
  then show ?thesis
    unfolding resolve_credential_internal_cases[OF c g] by (cases out) (simp_all add: secure_finish secure_grant)
qed

section \<open>Steps and reachable states\<close>

inductive security_step :: "engine \<Rightarrow> security_state \<Rightarrow> security_state \<Rightarrow> bool" for d where
  step_validate_ref: "security_step d st (snd (validate_secret_ref s r st))"
| step_create_ref: "security_step d st (snd (create_secret_ref s f st))"
| step_update_ref: "security_step d st (snd (update_secret_ref_status s i x a st))"
| step_request_lease: "security_step d st (snd (request_lease d s q st))"
| step_revoke_lease: "security_step d st (snd (revoke_lease d s i st))"
| step_resolve: "security_step d st (snd (resolve_credential_internal d s cq b st))"
| step_create_session: "security_step d st (snd (create_sandbox_session d s sq st))"
| step_complete: "security_step d st (snd (complete_sandbox_session s i st))"
| step_cleanup: "security_step d st (snd (cleanup_sandbox_session s i st))"
| step_egress: "security_step d st (snd (evaluate_network_egress d s eq st))"
| step_redact: "security_step d st (snd (redact_text s rq st))"
| step_record_secret: "security_step d st (snd (record_secret_audit s mk st))"

lemma step_secure: "security_step d st st' \<Longrightarrow> secure st st'"
  by (induction rule: security_step.induct)
    (simp_all add: secure_validate[OF secure_refl] record_secret_audit_def secure_audit[OF secure_refl]
      secure_create_ref secure_update_ref secure_request_lease secure_revoke_lease secure_resolve
      secure_create_session secure_egress secure_redact complete_sandbox_session_def
      cleanup_sandbox_session_def secure_change_session session_ok_def)

lemma steps_secure: "(security_step d)\<^sup>*\<^sup>* st st' \<Longrightarrow> secure st st'"
  by (induction rule: rtranclp_induct) (auto intro: secure_trans step_secure secure_refl)

lemma new_security_inv: "security_inv (new_security ps auth ep)"
  by (simp add: security_inv_def new_security_def)

section \<open>Properties\<close>

text \<open>
  C16: In every state the public operations of the security service can reach, no top-level entry
  of an audit event's metadata is open, that is, holds an unredacted value under a sensitive key or
  a string value that looks like a secret; every issued lease has its dates and expires within the
  bound of its scope, every revoked lease has its revocation date and every finished sandbox
  session its date.  Values nested in the metadata and the reason of an event are not covered: the
  code records them as they are.
\<close>

theorem security_invariant:
  assumes "(security_step d)\<^sup>*\<^sup>* (new_security ps auth ep) st"
  shows "security_inv st"
  using steps_secure[OF assms] new_security_inv by (rule secure_inv)

text \<open>
  The security audit log is append-only: whatever operations follow, the events of a state
  stay, in order, at the front of the log.
\<close>

theorem security_audit_append_only:
  assumes "(security_step d)\<^sup>*\<^sup>* st st'"
  shows "prefix (ss_audit st) (ss_audit st')"
  using steps_secure[OF assms] by (auto simp: secure_def prefix_def)

definition initial_security :: security_state where
  "initial_security = new_security (new_policy_service None) None (env_provider_from_env (\<lambda>_. None))"

definition sample_redaction :: redact_request where
  "sample_redaction =
     \<lparr>rq_text = ''Bearer abc'', rq_policy_id = None, rq_task_id = None, rq_run_id = None, rq_actor_id = None,
      rq_metadata = None\<rparr>"

theorem security_invariant_witness:
  "security_inv (snd (redact_text sample_draws sample_redaction initial_security))"
  unfolding initial_security_def
  by (rule security_invariant[of "evaluate []",
      OF r_into_rtranclp[where r = "security_step (evaluate [])", OF step_redact]])

theorem security_audit_append_only_witness:
  "prefix (ss_audit initial_security)
     (ss_audit (snd (revoke_lease (evaluate []) sample_draws ''lease'' initial_security)))"
  by (rule security_audit_append_only[of "evaluate []",
      OF r_into_rtranclp[where r = "security_step (evaluate [])", OF step_revoke_lease]])

end
