(* ===== verification/SecurityProperties.thy ===== *)
theory SecurityProperties
  imports CredentialResolution
begin

text \<open>
  What the security boundary guarantees: the invariant of its state over every operation, what a
  released secret value presupposes, that nothing but the internal result depends on the value,
  and when a sandbox session is opened.
\<close>

section \<open>Frames\<close>

text \<open>The configuration no operation on leases, sessions or credentials changes.\<close>

definition same_config :: "security_state \<Rightarrow> security_state \<Rightarrow> bool" where
  "same_config st st' \<longleftrightarrow>
     ss_refs st' = ss_refs st \<and> ss_scopes st' = ss_scopes st \<and> ss_profiles st' = ss_profiles st \<and>
     ss_env st' = ss_env st"

lemma same_config_refl: "reflp same_config"
  by (simp add: reflp_def same_config_def)

lemma same_config_trans: "transp same_config"
  by (simp add: transp_def same_config_def)

lemma same_configD:
  "same_config st st' \<Longrightarrow> get_secret_ref i st' = get_secret_ref i st"
  "same_config st st' \<Longrightarrow> get_secret_scope i st' = get_secret_scope i st"
  "same_config st st' \<Longrightarrow> ss_env st' = ss_env st"
  by (simp_all add: same_config_def get_secret_ref_def get_secret_scope_def)

lemma audit_frame [simp]:
  "ss_refs (audit s mk st) = ss_refs st" "ss_scopes (audit s mk st) = ss_scopes st"
  "ss_leases (audit s mk st) = ss_leases st" "ss_profiles (audit s mk st) = ss_profiles st"
  "ss_sessions (audit s mk st) = ss_sessions st" "ss_env (audit s mk st) = ss_env st"
  "ss_policy (audit s mk st) = ss_policy st" "ss_auth (audit s mk st) = ss_auth st"
  by (simp_all add: audit_def record_security_audit_def Let_def)

lemma policy_frame [simp]:
  "ss_refs (snd (evaluate_security_policy d s i st)) = ss_refs st"
  "ss_scopes (snd (evaluate_security_policy d s i st)) = ss_scopes st"
  "ss_leases (snd (evaluate_security_policy d s i st)) = ss_leases st"
  "ss_profiles (snd (evaluate_security_policy d s i st)) = ss_profiles st"
  "ss_sessions (snd (evaluate_security_policy d s i st)) = ss_sessions st"
  "ss_env (snd (evaluate_security_policy d s i st)) = ss_env st"
  "ss_audit (snd (evaluate_security_policy d s i st)) = ss_audit st"
  "ss_auth (snd (evaluate_security_policy d s i st)) = ss_auth st"
  by (simp_all add: evaluate_security_policy_def split: prod.splits)

lemma evaluate_security_policy_decision:
  "fst (evaluate_security_policy (evaluate rules) s i st) =
     sanitize_decision (evaluate rules (sub 0 s) (security_request i st))"
  by (simp add: evaluate_security_policy_def case_prod_beta static.svc_decision)

lemma reference_gate_keeps: "keeps same_config (reference_gate s q)"
  by (simp add: keeps_def same_config_def reference_gate_def validate_secret_ref_def Let_def
      split: option.splits list.splits)

lemma authorization_gate_keeps: "keeps same_config (authorization_gate d s q c r env)"
  by (simp add: keeps_def same_config_def authorization_gate_def Let_def case_prod_beta
      split: option.splits)

lemma policy_gate_keeps: "keeps same_config (policy_gate d s a k q c r env ad)"
  by (simp add: keeps_def same_config_def policy_gate_def Let_def case_prod_beta)

lemma purpose_gate_keeps: "keeps same_config (purpose_gate d s q c r env ad)"
  by (auto simp: purpose_gate_def split: option.splits
      intro!: keeps_bind keeps_return same_config_refl same_config_trans policy_gate_keeps)

lemma environment_gate_keeps: "keeps same_config (environment_gate r pd ad)"
  by (simp add: keeps_def same_config_def environment_gate_def Let_def)

section \<open>What a released value presupposes\<close>

lemma reference_gate_ref:
  assumes "reference_gate s q st = (Inr r, st')"
  shows "get_secret_ref (cr_ref_id q) st = Some r \<and> sr_status r = ''active'' \<and> secret_ref_errors r = []"
proof -
  have "get_secret_ref (cr_ref_id q) st = Some r" and e: "secret_ref_errors r = []"
    and ns: "sr_status r \<noteq> ''disabled''" "sr_status r \<noteq> ''revoked''"
    using assms by (auto simp: reference_gate_def validate_secret_ref_def Let_def
        split: option.splits list.splits if_splits)
  moreover have "sr_status r \<in> set secret_ref_statuses"
    using e by (simp add: secret_ref_errors_def split: if_splits)
  ultimately show ?thesis by (simp add: secret_ref_statuses_def)
qed

lemma environment_gate_value:
  "environment_gate r pd ad st = (Inr v, st') \<Longrightarrow> er_value (env_resolve (ss_env st) r) = Some v"
  by (auto simp: environment_gate_def Let_def truthy_str_def split: if_splits)

lemma credential_gates_parts:
  assumes "credential_gates d s q c st = (Inr g, st')"
  obtains r st0 env ad st1 pp st2 cp st3 x st4 lp st5 v where
    "reference_gate (sub 0 s) q st = (Inr r, st0)"
    "authorization_gate d (sub 1 s) q c r env st0 = (Inr ad, st1)"
    "purpose_gate d (sub 2 s) q c r env ad st1 = (Inr pp, st2)"
    "policy_gate d (sub 3 s) ''provider.credential.resolve'' ''provider_credential'' q c r env ad st2 = (Inr cp, st3)"
    "policy_gate d (sub 4 s) ''secret.lease.request'' ''secret_lease'' q c r env ad st3 = (Inr x, st4)"
    "policy_gate d (sub 5 s) ''secret.lease.issue'' ''secret_lease'' q c r env ad st4 = (Inr lp, st5)"
    "environment_gate r (dec_id lp) ad st5 = (Inr v, st')"
    "g = \<lparr>cg_ref = r, cg_auth = ad, cg_purpose = pp, cg_policy = cp, cg_lease_policy = lp, cg_value = v\<rparr>"
  using assms unfolding credential_gates_def decision_gates_def op_bind_Inr by auto

lemma credential_gates_grant:
  assumes "credential_gates d s q c st = (Inr g, st')"
  shows "get_secret_ref (cr_ref_id q) st = Some (cg_ref g) \<and> sr_status (cg_ref g) = ''active'' \<and>
    secret_ref_errors (cg_ref g) = [] \<and> er_value (env_resolve (ss_env st) (cg_ref g)) = Some (cg_value g)"
  using assms
proof (rule credential_gates_parts)
  fix r st0 env ad st1 pp st2 cp st3 x st4 lp st5 v
  assume r: "reference_gate (sub 0 s) q st = (Inr r, st0)"
    and chain: "authorization_gate d (sub 1 s) q c r env st0 = (Inr ad, st1)"
      "purpose_gate d (sub 2 s) q c r env ad st1 = (Inr pp, st2)"
      "policy_gate d (sub 3 s) ''provider.credential.resolve'' ''provider_credential'' q c r env ad st2 = (Inr cp, st3)"
      "policy_gate d (sub 4 s) ''secret.lease.request'' ''secret_lease'' q c r env ad st3 = (Inr x, st4)"
      "policy_gate d (sub 5 s) ''secret.lease.issue'' ''secret_lease'' q c r env ad st4 = (Inr lp, st5)"
    and ev: "environment_gate r (dec_id lp) ad st5 = (Inr v, st')"
    and g: "g = \<lparr>cg_ref = r, cg_auth = ad, cg_purpose = pp, cg_policy = cp, cg_lease_policy = lp, cg_value = v\<rparr>"
  have "same_config st st5"
    using keepsD[OF reference_gate_keeps r] keepsD[OF authorization_gate_keeps chain(1)]
      keepsD[OF purpose_gate_keeps chain(2)] keepsD[OF policy_gate_keeps chain(3)]
      keepsD[OF policy_gate_keeps chain(4)] keepsD[OF policy_gate_keeps chain(5)]
    by (simp add: same_config_def)
  then show ?thesis
    using reference_gate_ref[OF r] environment_gate_value[OF ev] by (simp add: g same_config_def)
qed

text \<open>The policy decisions of a granted resolution, as the audit of the policy service has them.\<close>

definition policy_trail :: "string list \<Rightarrow> security_state \<Rightarrow> security_state \<Rightarrow> bool" where
  "policy_trail actions st st' \<longleftrightarrow>
     svc_audit_enabled (ss_policy st') = svc_audit_enabled (ss_policy st) \<and>
     (svc_audit_enabled (ss_policy st) \<longrightarrow>
      (\<exists>es. svc_entries (ss_policy st') = svc_entries (ss_policy st) @ es \<and>
         map pae_action es = actions \<and> list_all pae_allowed es))"

lemma policy_trail_refl: "ss_policy st' = ss_policy st \<Longrightarrow> policy_trail [] st st'"
  by (simp add: policy_trail_def)

lemma policy_trail_trans:
  assumes "policy_trail as st1 st2" and "policy_trail bs st2 st3"
  shows "policy_trail (as @ bs) st1 st3"
proof -
  have "\<exists>es. svc_entries (ss_policy st3) = svc_entries (ss_policy st1) @ es \<and>
      map pae_action es = as @ bs \<and> list_all pae_allowed es"
    if "svc_audit_enabled (ss_policy st1)"
  proof -
    from that assms obtain es fs where
      "svc_entries (ss_policy st2) = svc_entries (ss_policy st1) @ es" "map pae_action es = as" "list_all pae_allowed es"
      "svc_entries (ss_policy st3) = svc_entries (ss_policy st2) @ fs" "map pae_action fs = bs" "list_all pae_allowed fs"
      by (auto simp: policy_trail_def)
    then show ?thesis by (intro exI[of _ "es @ fs"]) simp
  qed
  then show ?thesis using assms by (simp add: policy_trail_def)
qed

lemma policy_gate_trail:
  assumes "policy_gate (evaluate rules) s a k q c r env ad st = (Inr d, st')"
  shows "policy_trail [a] st st'"
proof -
  define i where "i = \<lparr>spi_action = a, spi_kind = k, spi_resource_id = Some (sr_id r), spi_task_id = cr_task_id q,
     spi_run_id = cr_run_id q, spi_actor_id = opt_or (map_option (\<lambda>x. ac_id (cx_actor x)) c) (cr_actor_id q),
     spi_auth = c, spi_runner = None, spi_environment = env,
     spi_metadata = credential_metadata (k = ''provider_credential'') q r\<rparr>"
  obtain d' ps where e: "svc_evaluate (evaluate rules) s (security_request i st) (ss_policy st) = (d', ps)" by fastforce
  then have out: "dec_allowed d'" "ss_policy st' = ps"
    using assms by (auto simp: policy_gate_def Let_def evaluate_security_policy_def i_def split: if_splits)
  have act: "dec_action d' = a"
    using static.svc_decision[of rules s "security_request i st" "ss_policy st"] e
    by (simp add: security_request_def i_def)
  have en: "svc_audit_enabled ps = svc_audit_enabled (ss_policy st)"
    using static.svc_enabled[of rules s "security_request i st" "ss_policy st"] e by simp
  show ?thesis
    using static.svc_audit[OF e] out act en
    by (auto simp: policy_trail_def entry_of_decision_def)
qed

lemma reference_gate_policy: "ss_policy (snd (reference_gate s q st)) = ss_policy st"
  by (simp add: reference_gate_def validate_secret_ref_def Let_def split: option.splits list.splits)

lemma authorization_gate_policy: "ss_policy (snd (authorization_gate d s q c r env st)) = ss_policy st"
  by (simp add: authorization_gate_def Let_def case_prod_beta split: option.splits)

definition credential_actions :: "string \<Rightarrow> string list" where
  "credential_actions purpose =
     (case purpose_action purpose of None \<Rightarrow> [] | Some a \<Rightarrow> [a]) @
     [''provider.credential.resolve'', ''secret.lease.request'', ''secret.lease.issue'']"

lemma purpose_gate_trail:
  assumes "purpose_gate (evaluate rules) s q c r env ad st = (Inr d, st')"
  shows "policy_trail (case purpose_action (cr_purpose q) of None \<Rightarrow> [] | Some a \<Rightarrow> [a]) st st'"
  using assms
  by (auto simp: purpose_gate_def op_bind_Inr policy_trail_refl intro: policy_gate_trail split: option.splits)

lemma credential_gates_trail:
  assumes "credential_gates (evaluate rules) s q c st = (Inr g, st')"
  shows "policy_trail (credential_actions (cr_purpose q)) st st'"
  using assms
proof (rule credential_gates_parts)
  fix r st0 env ad st1 pp st2 cp st3 x st4 lp st5 v
  assume r: "reference_gate (sub 0 s) q st = (Inr r, st0)"
    and a: "authorization_gate (evaluate rules) (sub 1 s) q c r env st0 = (Inr ad, st1)"
    and p: "purpose_gate (evaluate rules) (sub 2 s) q c r env ad st1 = (Inr pp, st2)"
    and g1: "policy_gate (evaluate rules) (sub 3 s) ''provider.credential.resolve'' ''provider_credential'' q c r env ad st2 = (Inr cp, st3)"
    and g2: "policy_gate (evaluate rules) (sub 4 s) ''secret.lease.request'' ''secret_lease'' q c r env ad st3 = (Inr x, st4)"
    and g3: "policy_gate (evaluate rules) (sub 5 s) ''secret.lease.issue'' ''secret_lease'' q c r env ad st4 = (Inr lp, st5)"
    and ev: "environment_gate r (dec_id lp) ad st5 = (Inr v, st')"
  have "ss_policy st1 = ss_policy st"
    using reference_gate_policy[of "sub 0 s" q st] r authorization_gate_policy[of "evaluate rules" "sub 1 s" q c r env st0] a
    by simp
  then have t1: "policy_trail [] st st1" by (rule policy_trail_refl)
  have "ss_policy st' = ss_policy st5"
    using ev by (auto simp: environment_gate_def Let_def split: if_splits)
  then have t5: "policy_trail [] st5 st'" by (rule policy_trail_refl)
  show ?thesis
    using policy_trail_trans[OF policy_trail_trans[OF policy_trail_trans[OF policy_trail_trans[OF policy_trail_trans[OF t1
      purpose_gate_trail[OF p]] policy_gate_trail[OF g1]] policy_gate_trail[OF g2]] policy_gate_trail[OF g3]] t5]
    by (simp add: credential_actions_def)
qed

lemma grant_resolution_frame:
  "ss_policy (snd (grant_resolution s q rid t c i g st)) = ss_policy st"
  "cz_value (fst (grant_resolution s q rid t c i g st)) = (if i then Some (cg_value g) else None)"
  by (simp_all add: grant_resolution_def Let_def case_prod_beta record_security_audit_def
      save_access_decision_def save_access_decision_rec_def save_secret_lease_def)

lemma finish_resolution_value [simp]: "cz_value (fst (finish_resolution s q rid t c dn st)) = None"
  by (simp add: finish_resolution_def case_prod_beta)

lemma credential_auth_context_frame:
  assumes "credential_auth_context s q st = (c, st')"
  shows "same_config st st'" and "ss_policy st' = ss_policy st"
  using assms
  by (auto simp: credential_auth_context_def same_config_def Let_def split: option.splits prod.splits)

lemma released_value:
  assumes "resolve_credential_internal (evaluate rules) s q b st = (z, st')" and "cz_value z = Some v"
  obtains r where "get_secret_ref (cr_ref_id q) st = Some r" "sr_status r = ''active''"
    "secret_ref_errors r = []" "er_value (env_resolve (ss_env st) r) = Some v"
    "policy_trail (credential_actions (cr_purpose q)) st st'"
proof -
  obtain c st1 where c: "credential_auth_context (sub 1 s) q st = (c, st1)" by fastforce
  define st2 where "st2 = audit_requested (sub 2 s) q (fresh_id ''credres'' 0 s) c st1"
  obtain out st3 where g: "credential_gates (evaluate rules) (sub 3 s) q c st2 = (out, st3)" by fastforce
  note z = assms(1)[unfolded resolve_credential_internal_cases[OF c g[unfolded st2_def]]]
  obtain gr where gr: "out = Inr gr" "cg_value gr = v" "ss_policy st' = ss_policy st3"
  proof (cases out)
    case (Inl dn)
    then have "cz_value z = None"
      using z finish_resolution_value[of "sub 4 s" q "fresh_id ''credres'' 0 s" "clock 0 s" c dn st3] by simp
    then show ?thesis using assms(2) by simp
  next
    case (Inr gr)
    then have gr: "grant_resolution (sub 5 s) q (fresh_id ''credres'' 0 s) (clock 0 s) c b gr st3 = (z, st')"
      using z by simp
    have "cz_value z = (if b then Some (cg_value gr) else None)" "ss_policy st' = ss_policy st3"
      using grant_resolution_frame[of "sub 5 s" q "fresh_id ''credres'' 0 s" "clock 0 s" c b gr st3]
      by (simp_all add: gr)
    then show ?thesis using that[OF Inr] assms(2) by (simp split: if_splits)
  qed
  have cfg: "same_config st st2" "ss_policy st2 = ss_policy st"
    using credential_auth_context_frame[OF c] by (simp_all add: st2_def same_config_def audit_requested_def)
  note gg = credential_gates_grant[OF g[unfolded gr(1)]]
  have "policy_trail (credential_actions (cr_purpose q)) st st'"
    using credential_gates_trail[OF g[unfolded gr(1)]] cfg(2) gr(3) by (simp add: policy_trail_def)
  then show thesis
    using that gg gr(2) same_configD(1,3)[OF cfg(1)] by (auto simp: same_configD[OF cfg(1)])
qed

section \<open>Nothing else depends on the value\<close>

text \<open>
  Two states that differ in the values of the environment only, not in which of its variables are
  set; a run is blind when on such states it gives the same result and such states again.
\<close>

definition alike :: "security_state \<Rightarrow> security_state \<Rightarrow> bool" where
  "alike st1 st2 \<longleftrightarrow>
     (\<exists>e. st2 = st1\<lparr>ss_env := (ss_env st1)\<lparr>env_vars := e\<rparr>\<rparr> \<and>
        (\<forall>k. truthy_str (e k) = truthy_str (env_vars (ss_env st1) k)))"

lemma alikeE:
  assumes "alike st1 st2"
  obtains e where "st2 = st1\<lparr>ss_env := (ss_env st1)\<lparr>env_vars := e\<rparr>\<rparr>"
    and "\<And>k. truthy_str (e k) = truthy_str (env_vars (ss_env st1) k)"
  using assms by (auto simp: alike_def)

definition runs_alike ::
  "('a \<Rightarrow> 'b \<Rightarrow> bool) \<Rightarrow> (security_state \<Rightarrow> 'a \<times> security_state) \<Rightarrow> (security_state \<Rightarrow> 'b \<times> security_state) \<Rightarrow> bool" where
  "runs_alike A f g \<longleftrightarrow>
     (\<forall>st1 st2. alike st1 st2 \<longrightarrow> A (fst (f st1)) (fst (g st2)) \<and> alike (snd (f st1)) (snd (g st2)))"

lemma runs_alikeD:
  "runs_alike A f g \<Longrightarrow> alike st1 st2 \<Longrightarrow> A (fst (f st1)) (fst (g st2)) \<and> alike (snd (f st1)) (snd (g st2))"
  by (simp add: runs_alike_def)

text \<open>A run that commutes with a change of the environment's values is blind.\<close>

lemma runs_alikeI:
  assumes "\<And>st e. f (st\<lparr>ss_env := (ss_env st)\<lparr>env_vars := e\<rparr>\<rparr>) =
      (fst (f st), (snd (f st))\<lparr>ss_env := (ss_env st)\<lparr>env_vars := e\<rparr>\<rparr>)"
    and "\<And>st. ss_env (snd (f st)) = ss_env st"
  shows "runs_alike (=) f f"
  unfolding runs_alike_def alike_def using assms by auto

lemma runs_alike_bind:
  assumes "runs_alike (rel_sum (=) A) m1 m2" and "\<And>x y. A x y \<Longrightarrow> runs_alike (rel_sum (=) B) (f x) (g y)"
  shows "runs_alike (rel_sum (=) B) (op_bind m1 f) (op_bind m2 g)"
  unfolding runs_alike_def
proof (intro allI impI)
  fix st1 st2 assume a: "alike st1 st2"
  obtain r1 t1 where m1: "m1 st1 = (r1, t1)" by fastforce
  obtain r2 t2 where m2: "m2 st2 = (r2, t2)" by fastforce
  have r: "rel_sum (=) A r1 r2" and t: "alike t1 t2"
    using runs_alikeD[OF assms(1) a] by (simp_all add: m1 m2)
  from r show "rel_sum (=) B (fst (op_bind m1 f st1)) (fst (op_bind m2 g st2)) \<and>
      alike (snd (op_bind m1 f st1)) (snd (op_bind m2 g st2))"
    using t runs_alikeD[OF assms(2) t] by (cases r1; cases r2) (auto simp: op_bind_def m1 m2)
qed

lemma runs_alike_eq_sum: "runs_alike (=) f g \<Longrightarrow> runs_alike (rel_sum (=) (=)) f g"
  by (simp add: sum.rel_eq)

lemma runs_alike_return: "A x y \<Longrightarrow> runs_alike (rel_sum (=) A) (op_return x) (op_return y)"
  by (simp add: runs_alike_def)

lemma audit_swap:
  "record_security_audit s mk (st\<lparr>ss_env := x\<rparr>) =
     (fst (record_security_audit s mk st), (snd (record_security_audit s mk st))\<lparr>ss_env := x\<rparr>)"
  "audit s mk (st\<lparr>ss_env := x\<rparr>) = (audit s mk st)\<lparr>ss_env := x\<rparr>"
  by (simp_all add: record_security_audit_def audit_def Let_def)

lemma config_swap [simp]:
  "get_secret_ref i (st\<lparr>ss_env := x\<rparr>) = get_secret_ref i st"
  "get_secret_scope i (st\<lparr>ss_env := x\<rparr>) = get_secret_scope i st"
  "security_request j (st\<lparr>ss_env := x\<rparr>) = security_request j st"
  by (simp_all add: get_secret_ref_def get_secret_scope_def security_request_def security_subject_def)

lemma policy_swap:
  "evaluate_security_policy d s i (st\<lparr>ss_env := x\<rparr>) =
     (fst (evaluate_security_policy d s i st), (snd (evaluate_security_policy d s i st))\<lparr>ss_env := x\<rparr>)"
  by (simp add: evaluate_security_policy_def case_prod_beta)

lemma reference_gate_blind: "runs_alike (=) (reference_gate s q) (reference_gate s q)"
  by (rule runs_alikeI)
    (simp_all add: reference_gate_def validate_secret_ref_def Let_def audit_swap split: option.split list.split)

lemma authorization_gate_blind:
  "runs_alike (=) (authorization_gate d s q c r env) (authorization_gate d s q c r env)"
  by (rule runs_alikeI) (simp_all add: authorization_gate_def Let_def case_prod_beta split: option.split)

lemma policy_gate_blind:
  "runs_alike (=) (policy_gate d s a k q c r env ad) (policy_gate d s a k q c r env ad)"
  by (rule runs_alikeI) (simp_all add: policy_gate_def Let_def case_prod_beta policy_swap)

lemma purpose_gate_blind:
  "runs_alike (rel_sum (=) (=)) (purpose_gate d s q c r env ad) (purpose_gate d s q c r env ad)"
  by (auto simp: purpose_gate_def split: option.split
      intro!: runs_alike_bind runs_alike_return policy_gate_blind[THEN runs_alike_eq_sum])

lemma environment_gate_blind:
  "runs_alike (rel_sum (=) (\<lambda>_ _. True)) (environment_gate r pd ad) (environment_gate r pd ad)"
  unfolding runs_alike_def
proof (intro allI impI)
  fix st1 st2 assume a: "alike st1 st2"
  from a obtain e where e: "st2 = st1\<lparr>ss_env := (ss_env st1)\<lparr>env_vars := e\<rparr>\<rparr>"
    and t: "\<And>k. truthy_str (e k) = truthy_str (env_vars (ss_env st1) k)" by (rule alikeE) blast
  have r: "er_status (env_resolve (ss_env st2) r) = er_status (env_resolve (ss_env st1) r)"
    "er_reason (env_resolve (ss_env st2) r) = er_reason (env_resolve (ss_env st1) r)"
    "truthy_str (er_value (env_resolve (ss_env st2) r)) = truthy_str (er_value (env_resolve (ss_env st1) r))"
    by (simp_all add: e env_resolve_def Let_def t split: option.split)
  then show "rel_sum (=) (\<lambda>_ _. True) (fst (environment_gate r pd ad st1)) (fst (environment_gate r pd ad st2)) \<and>
      alike (snd (environment_gate r pd ad st1)) (snd (environment_gate r pd ad st2))"
    using a by (simp add: environment_gate_def Let_def env_result_ok_def)
qed

text \<open>Two grants that differ in the value only.\<close>

definition same_grant :: "credential_grant \<Rightarrow> credential_grant \<Rightarrow> bool" where
  "same_grant g1 g2 \<longleftrightarrow> g2 = g1\<lparr>cg_value := cg_value g2\<rparr>"

lemma credential_environment_swap:
  "alike st1 st2 \<Longrightarrow> credential_environment q r st2 = credential_environment q r st1"
  by (auto simp: alike_def credential_environment_def)

lemma runs_alike_bind_eq:
  assumes "runs_alike (=) m m" and "\<And>x. runs_alike (rel_sum (=) B) (f x) (g x)"
  shows "runs_alike (rel_sum (=) B) (op_bind m f) (op_bind m g)"
  by (rule runs_alike_bind[OF runs_alike_eq_sum[OF assms(1)]]) (use assms(2) in simp)

lemma decision_gates_blind:
  "runs_alike (rel_sum (=) same_grant) (decision_gates d s q c r env) (decision_gates d s q c r env)"
  unfolding decision_gates_def
  by (rule runs_alike_bind_eq[OF authorization_gate_blind],
      rule runs_alike_bind_eq[OF purpose_gate_blind[unfolded sum.rel_eq]],
      rule runs_alike_bind_eq[OF policy_gate_blind], rule runs_alike_bind_eq[OF policy_gate_blind],
      rule runs_alike_bind_eq[OF policy_gate_blind], rule runs_alike_bind[OF environment_gate_blind],
      rule runs_alike_return) (simp add: same_grant_def)

lemma credential_gates_blind:
  "runs_alike (rel_sum (=) same_grant) (credential_gates d s q c) (credential_gates d s q c)"
  unfolding credential_gates_def
proof (rule runs_alike_bind_eq[OF reference_gate_blind])
  fix r
  show "runs_alike (rel_sum (=) same_grant)
      (\<lambda>st. decision_gates d s q c r (credential_environment q r st) st)
      (\<lambda>st. decision_gates d s q c r (credential_environment q r st) st)"
    using runs_alikeD[OF decision_gates_blind]
    by (simp add: runs_alike_def credential_environment_swap)
qed

lemma credential_auth_context_blind:
  "runs_alike (=) (credential_auth_context s q) (credential_auth_context s q)"
  by (rule runs_alikeI)
    (simp_all add: credential_auth_context_def Let_def case_prod_beta split: option.split)

lemma audit_requested_alike:
  "alike st1 st2 \<Longrightarrow> alike (audit_requested s q rid c st1) (audit_requested s q rid c st2)"
  by (auto simp: alike_def audit_requested_def audit_swap)

lemma finish_resolution_blind:
  "runs_alike (=) (finish_resolution s q rid t c dn) (finish_resolution s q rid t c dn)"
  by (rule runs_alikeI)
    (simp_all add: finish_resolution_def case_prod_beta audit_swap record_security_audit_def Let_def)

lemma grant_resolution_blind:
  assumes "same_grant g1 g2"
  shows "runs_alike (=) (grant_resolution s q rid t c False g1) (grant_resolution s q rid t c False g2)"
proof -
  obtain v where "g2 = g1\<lparr>cg_value := v\<rparr>" using assms unfolding same_grant_def by blast
  then have "grant_resolution s q rid t c False g2 = grant_resolution s q rid t c False g1"
    by (intro ext) (simp add: grant_resolution_def Let_def)
  moreover have "runs_alike (=) (grant_resolution s q rid t c False g1) (grant_resolution s q rid t c False g1)"
    by (rule runs_alikeI)
      (simp_all add: grant_resolution_def Let_def case_prod_beta audit_def record_security_audit_def
        save_access_decision_def save_access_decision_rec_def save_secret_lease_def get_secret_scope_def)
  ultimately show ?thesis by simp
qed

lemma resolve_credential_blind:
  "runs_alike (=) (resolve_credential_internal d s q False) (resolve_credential_internal d s q False)"
  unfolding runs_alike_def
proof (intro allI impI)
  fix st1 st2 assume a: "alike st1 st2"
  obtain c t1 where c1: "credential_auth_context (sub 1 s) q st1 = (c, t1)" by fastforce
  then obtain t2 where c2: "credential_auth_context (sub 1 s) q st2 = (c, t2)" and t: "alike t1 t2"
    using runs_alikeD[OF credential_auth_context_blind a, of "sub 1 s" q] by (metis fst_conv prod.collapse snd_conv)
  let ?rid = "fresh_id ''credres'' 0 s"
  obtain o1 u1 where g1: "credential_gates d (sub 3 s) q c (audit_requested (sub 2 s) q ?rid c t1) = (o1, u1)" by fastforce
  obtain o2 u2 where g2: "credential_gates d (sub 3 s) q c (audit_requested (sub 2 s) q ?rid c t2) = (o2, u2)" by fastforce
  have o: "rel_sum (=) same_grant o1 o2" and u: "alike u1 u2"
    using runs_alikeD[OF credential_gates_blind audit_requested_alike[OF t, of "sub 2 s" q ?rid c],
        of d "sub 3 s" q c] by (simp_all add: g1 g2)
  from o show "fst (resolve_credential_internal d s q False st1) = fst (resolve_credential_internal d s q False st2) \<and>
      alike (snd (resolve_credential_internal d s q False st1)) (snd (resolve_credential_internal d s q False st2))"
    unfolding resolve_credential_internal_cases[OF c1 g1] resolve_credential_internal_cases[OF c2 g2]
    using runs_alikeD[OF finish_resolution_blind u] runs_alikeD[OF grant_resolution_blind u]
    by (cases o1; cases o2) auto
qed

section \<open>The default policy\<close>

text \<open>A policy decision of the service under the default rules has passed the gates of its action.\<close>

lemma security_policy_gate:
  assumes "dec_allowed (fst (evaluate_security_policy (evaluate default_policy_rules) s i st))"
    and "(spi_action i, gates) \<in> set environment_gates" and "(k, v) \<in> set gates"
  shows "obj_get (spi_environment i) k = v"
  using allowed_passes_gate[of "sub 0 s" "security_request i st" gates k v] assms
  by (simp add: evaluate_security_policy_decision security_request_def create_policy_context_def)

lemma sandbox_gate:
  "(''sandbox.session.create'', [(''networkAllowed'', JBool False), (''secretsAllowed'', JBool False),
     (''remoteGitAllowed'', JBool False), (''profileStatus'', JStr ''active'')]) \<in> set environment_gates"
  by (simp add: environment_gates_def)

lemma lease_gate:
  "(''secret.lease.request'', [(''secretRefActive'', JBool True), (''envSecretProviderEnabled'', JBool True),
     (''credentialCacheAccessAllowed'', JBool False), (''credentialMaterialStored'', JBool False)])
   \<in> set environment_gates"
  by (simp add: environment_gates_def)

lemma create_sandbox_session_allowed:
  assumes "create_sandbox_session d s q st = ((Some n, x), st')"
  shows "\<exists>p st1. get_sandbox_profile (sq_profile_id q) st = Some p \<and> sp_status p = ''active'' \<and>
    dec_allowed (fst (evaluate_security_policy d (sub 1 s)
      (sandbox_policy_input ''sandbox.session.create'' ''sandbox_session'' q (Some p)) st1))"
proof -
  let ?p = "get_sandbox_profile (sq_profile_id q) st"
  obtain pd st1 where pd: "evaluate_security_policy d (sub 0 s)
      (sandbox_policy_input ''sandbox.profile.use'' ''sandbox_profile'' q ?p) st = (pd, st1)" by fastforce
  obtain sd st2 where sd: "evaluate_security_policy d (sub 1 s)
      (sandbox_policy_input ''sandbox.session.create'' ''sandbox_session'' q ?p) st1 = (sd, st2)" by fastforce
  have "dec_allowed sd \<and> sandbox_usable ?p"
    using assms unfolding create_sandbox_session_def Let_def pd sd prod.case
    by (simp only: prod.case sd split: if_splits) auto
  then show ?thesis
    using sd by (cases ?p) (auto simp: sandbox_usable_def is_active_def intro!: exI[of _ st1])
qed

section \<open>Samples for the witnesses\<close>

text \<open>A reference to the variable K, and rules that allow its resolution.\<close>

definition sample_ref :: secret_ref where
  "sample_ref =
     \<lparr>sr_id = ''ref'', sr_provider = ''env'', sr_kind = ''provider_api_key'', sr_name = ''name'',
      sr_env_key = Some ''K'', sr_scope = ''scope'', sr_description = None, sr_status = ''active'',
      sr_metadata = [], sr_created_at = 0, sr_updated_at = 0\<rparr>"

definition sample_env :: "string \<Rightarrow> env_provider" where
  "sample_env v =
     \<lparr>env_enabled = True, env_allowed_keys = [''K''], env_vars = (\<lambda>k. if k = ''K'' then Some v else None)\<rparr>"

definition sample_security :: "string \<Rightarrow> security_state" where
  "sample_security v =
     save_secret_ref sample_ref (new_security (new_policy_service None) None (sample_env v))"

definition sample_credential :: credential_request where
  "sample_credential =
     \<lparr>cr_ref_id = ''ref'', cr_purpose = ''provider_api_call'', cr_actor_id = None, cr_principal_id = None,
      cr_auth = None, cr_task_id = None, cr_run_id = None, cr_provider_id = None, cr_policy_context = None\<rparr>"

definition allow_rules :: "policy_rule list" where
  "allow_rules =
     [(sample_rule ''a'' EffAllow 1)\<lparr>rule_action := ''provider.credential.resolve''\<rparr>,
      (sample_rule ''b'' EffAllow 1)\<lparr>rule_action := ''secret.lease.request''\<rparr>,
      (sample_rule ''c'' EffAllow 1)\<lparr>rule_action := ''secret.lease.issue''\<rparr>]"

lemma allow_rules_allow:
  "req_action req \<in> {''provider.credential.resolve'', ''secret.lease.request'', ''secret.lease.issue''} \<Longrightarrow>
   dec_allowed (evaluate allow_rules s req)"
  by (auto simp: evaluate_winner winner_def candidates_def allow_rules_def sample_rule_def rule_applies_def
      condition_matches_def map_matches_def)

lemma sample_policy_gate:
  assumes "a \<in> {''provider.credential.resolve'', ''secret.lease.request'', ''secret.lease.issue''}"
  obtains d st' where "policy_gate (evaluate allow_rules) s a k q c r env ad st = (Inr d, st')"
    "ss_env st' = ss_env st"
proof -
  let ?out = "policy_gate (evaluate allow_rules) s a k q c r env ad st"
  have "\<exists>d. fst ?out = Inr d"
    using allow_rules_allow assms
    by (simp add: policy_gate_def Let_def case_prod_beta evaluate_security_policy_decision security_request_def)
  moreover have "ss_env (snd ?out) = ss_env st" by (simp add: policy_gate_def Let_def case_prod_beta)
  ultimately show thesis using that by (metis prod.collapse)
qed

lemma sample_ref_valid: "secret_ref_errors sample_ref = []"
  by code_simp

lemma sample_security_simps [simp]:
  "ss_env (sample_security v) = sample_env v" "ss_auth (sample_security v) = None"
  "get_secret_ref ''ref'' (sample_security v) = Some sample_ref"
  "sr_status sample_ref = ''active''" "cr_ref_id sample_credential = ''ref''"
  by (simp_all add: sample_security_def save_secret_ref_def new_security_def get_secret_ref_def sample_ref_def
      sample_credential_def)

lemma audit_requested_frame [simp]:
  "ss_env (audit_requested s q i c st) = ss_env st" "ss_auth (audit_requested s q i c st) = ss_auth st"
  "get_secret_ref j (audit_requested s q i c st) = get_secret_ref j st"
  by (simp_all add: audit_requested_def get_secret_ref_def)

lemma validate_secret_ref_simps [simp]:
  "fst (validate_secret_ref s r st) = secret_ref_errors r"
  "ss_env (snd (validate_secret_ref s r st)) = ss_env st"
  "ss_auth (snd (validate_secret_ref s r st)) = ss_auth st"
  by (simp_all add: validate_secret_ref_def Let_def)

lemma reference_gate_passes:
  "get_secret_ref (cr_ref_id q) st = Some r \<Longrightarrow> sr_status r = ''active'' \<Longrightarrow> secret_ref_errors r = [] \<Longrightarrow>
   reference_gate s q st = (Inr r, snd (validate_secret_ref s r st))"
  by (simp add: reference_gate_def case_prod_beta)

lemma sample_released:
  assumes "v \<noteq> []"
  shows "cz_value (fst (resolve_credential_internal (evaluate allow_rules) s sample_credential True
    (sample_security v))) = Some v"
proof -
  let ?s = "sub 3 s" and ?q = sample_credential
  have c: "credential_auth_context (sub 1 s) ?q (sample_security v) = (None, sample_security v)"
    by (simp add: credential_auth_context_def sample_security_def save_secret_ref_def new_security_def
        sample_credential_def)
  define st0 where "st0 = snd (validate_secret_ref (sub 0 ?s) sample_ref
    (audit_requested (sub 2 s) ?q (fresh_id ''credres'' 0 s) None (sample_security v)))"
  have r: "reference_gate (sub 0 ?s) ?q (audit_requested (sub 2 s) ?q (fresh_id ''credres'' 0 s) None
      (sample_security v)) = (Inr sample_ref, st0)"
    unfolding st0_def by (rule reference_gate_passes) (simp_all add: sample_ref_valid)
  have e0: "ss_env st0 = sample_env v" "ss_auth st0 = None" by (simp_all add: st0_def)
  define env where "env = credential_environment ?q sample_ref st0"
  have a: "authorization_gate (evaluate allow_rules) (sub 1 ?s) ?q None sample_ref env st0 = (Inr None, st0)"
    by (simp add: authorization_gate_def e0)
  have p: "purpose_gate (evaluate allow_rules) (sub 2 ?s) ?q None sample_ref env None st0 = (Inr None, st0)"
    by (simp add: purpose_gate_def purpose_action_def sample_credential_def)
  obtain d1 st1 where g1: "policy_gate (evaluate allow_rules) (sub 3 ?s) ''provider.credential.resolve''
      ''provider_credential'' ?q None sample_ref env None st0 = (Inr d1, st1)" and e1: "ss_env st1 = ss_env st0"
    by (rule sample_policy_gate[of "''provider.credential.resolve''"]) simp_all
  obtain d2 st2 where g2: "policy_gate (evaluate allow_rules) (sub 4 ?s) ''secret.lease.request''
      ''secret_lease'' ?q None sample_ref env None st1 = (Inr d2, st2)" and e2: "ss_env st2 = ss_env st1"
    by (rule sample_policy_gate[of "''secret.lease.request''"]) simp_all
  obtain d3 st3 where g3: "policy_gate (evaluate allow_rules) (sub 5 ?s) ''secret.lease.issue''
      ''secret_lease'' ?q None sample_ref env None st2 = (Inr d3, st3)" and e3: "ss_env st3 = ss_env st2"
    by (rule sample_policy_gate[of "''secret.lease.issue''"]) simp_all
  have ev: "environment_gate sample_ref (dec_id d3) None st3 = (Inr v, st3)"
    using assms
    by (simp add: environment_gate_def e0 e1 e2 e3 env_resolve_def sample_env_def sample_ref_def env_result_ok_def Let_def)
  obtain g where g: "credential_gates (evaluate allow_rules) ?s ?q None (audit_requested (sub 2 s) ?q
      (fresh_id ''credres'' 0 s) None (sample_security v)) = (Inr g, st3)" "cg_value g = v"
    unfolding credential_gates_def decision_gates_def op_bind_Inr op_simps
    using r a p g1 g2 g3 ev unfolding env_def by fastforce
  show ?thesis
    unfolding resolve_credential_internal_cases[OF c g(1)] sum.case by (simp add: grant_resolution_frame g(2))
qed

definition sandbox_use :: sandbox_request where
  "sandbox_use =
     \<lparr>sq_profile_id = ''sandbox_local_temp_fixture'', sq_task_id = None, sq_run_id = None,
      sq_runner_kind = None, sq_workspace_id = None, sq_actor_id = None, sq_metadata = None\<rparr>"

lemma sandbox_rules_for:
  "rules_for ''sandbox.profile.use'' = [sandbox_rules ! 0, sandbox_rules ! 2]"
  "rules_for ''sandbox.session.create'' = [sandbox_rules ! 1, sandbox_rules ! 3]"
  by (simp_all add: rules_for_def default_rule_defs cong: rule_literal_cong)

section \<open>Properties\<close>

text \<open>
  C14: A secret value leaves the service only for an existing, active and valid reference to an
  allowed variable of the enabled environment provider that holds that value, and only after the
  policy has allowed, in this order, the action of the purpose, the resolution of the credential
  and the request and the issue of its lease.
\<close>

theorem released_secret_passed_every_gate:
  assumes "resolve_credential_for_internal_use (evaluate rules) s q st = (z, st')" and "cz_value z = Some v"
  shows "\<exists>r k. get_secret_ref (cr_ref_id q) st = Some r \<and> sr_status r = ''active'' \<and> secret_ref_errors r = [] \<and>
    sr_env_key r = Some k \<and> env_enabled (ss_env st) \<and> env_vars (ss_env st) k = Some v \<and>
    (if env_allowed_keys (ss_env st) = [] then True else k \<in> set (env_allowed_keys (ss_env st))) \<and>
    policy_trail (credential_actions (cr_purpose q)) st st'"
proof -
  from assms(1) have "resolve_credential_internal (evaluate rules) s q True st = (z, st')"
    by (simp add: resolve_credential_for_internal_use_def)
  then obtain r where "get_secret_ref (cr_ref_id q) st = Some r" "sr_status r = ''active''"
    "secret_ref_errors r = []" "er_value (env_resolve (ss_env st) r) = Some v"
    "policy_trail (credential_actions (cr_purpose q)) st st'"
    using assms(2) by (rule released_value)
  then show ?thesis using env_resolve_value by metis
qed

text \<open>
  C15: Neither the public result of a resolution nor the state it leaves depends on a secret value:
  on two states that differ only in the values of set environment variables, the results are equal
  and the states again differ in nothing else.
\<close>

theorem secret_values_stay_inside:
  assumes "alike st1 st2"
  shows "fst (resolve_credential d s q st1) = fst (resolve_credential d s q st2) \<and>
    alike (snd (resolve_credential d s q st1)) (snd (resolve_credential d s q st2))"
  using runs_alikeD[OF resolve_credential_blind assms, of d s q]
  by (simp add: resolve_credential_def case_prod_beta)

text \<open>
  C17: Under the default policy a sandbox session is opened only on an active profile without
  network, secrets or remote Git access.
\<close>

theorem sandbox_sessions_confined:
  assumes "create_sandbox_session (evaluate default_policy_rules) s q st = ((Some n, x), st')"
  shows "\<exists>p. get_sandbox_profile (sq_profile_id q) st = Some p \<and> sp_status p = ''active'' \<and>
    \<not> sp_network p \<and> \<not> sp_secrets p \<and> \<not> sp_git_remote p"
proof -
  obtain p st1 where p: "get_sandbox_profile (sq_profile_id q) st = Some p" "sp_status p = ''active''"
    "dec_allowed (fst (evaluate_security_policy (evaluate default_policy_rules) (sub 1 s)
      (sandbox_policy_input ''sandbox.session.create'' ''sandbox_session'' q (Some p)) st1))"
    using create_sandbox_session_allowed[OF assms] by blast
  note gate = security_policy_gate[OF p(3), of "[(''networkAllowed'', JBool False),
     (''secretsAllowed'', JBool False), (''remoteGitAllowed'', JBool False), (''profileStatus'', JStr ''active'')]"]
  show ?thesis
    using p(1,2) gate[of "''networkAllowed''" "JBool False"] gate[of "''secretsAllowed''" "JBool False"]
      gate[of "''remoteGitAllowed''" "JBool False"] sandbox_gate
    by (simp add: sandbox_policy_input_def)
qed

text \<open>
  Under the default policy a lease that is requested is never issued and network egress is
  never allowed: only the internal resolution of an environment credential issues a lease.
\<close>

theorem default_policy_issues_nothing:
  "sl_status (fst (request_lease (evaluate default_policy_rules) s q st)) = ''denied'' \<and>
   \<not> ed_allowed (fst (evaluate_network_egress (evaluate default_policy_rules) s' q' st))"
proof
  have n: "\<not> dec_allowed (fst (evaluate_security_policy (evaluate default_policy_rules) s0
      \<lparr>spi_action = ''secret.lease.request'', spi_kind = k, spi_resource_id = i, spi_task_id = t,
       spi_run_id = u, spi_actor_id = a, spi_auth = c, spi_runner = rn,
       spi_environment = [(''secretRefExists'', x1), (''scopeExists'', x2), (''requiresApproval'', x3),
         (''provider'', x4)], spi_metadata = m\<rparr> st0))" (is "\<not> dec_allowed ?d")
    for s0 k i t u a c rn x1 x2 x3 x4 m st0
  proof
    assume "dec_allowed ?d"
    from security_policy_gate[OF this, simplified, OF lease_gate, of "''secretRefActive''" "JBool True"]
    show False by simp
  qed
  show "sl_status (fst (request_lease (evaluate default_policy_rules) s q st)) = ''denied''"
    unfolding request_lease_def Let_def case_prod_beta save_access_decision_def by (simp add: n)
  show "\<not> ed_allowed (fst (evaluate_network_egress (evaluate default_policy_rules) s' q' st))"
    unfolding evaluate_network_egress_def Let_def case_prod_beta
    by (simp add: evaluate_security_policy_decision forbidden_never_allowed security_request_def
        forbidden_actions_def)
qed

text \<open>
  The check for raw secrets in the metadata of a new reference looks at the top level only: a
  reference with a token inside a nested object is accepted and stored with the token.
\<close>

theorem nested_secret_accepted:
  "\<exists>st. create_secret_ref s (\<lambda>_. sample_ref\<lparr>sr_id := ''nested'',
       sr_metadata := [(''config'', JObj [(''token'', JStr ''raw'')])]\<rparr>) (sample_security v) =
     (Inr (sample_ref\<lparr>sr_id := ''nested'',
       sr_metadata := [(''config'', JObj [(''token'', JStr ''raw'')])]\<rparr>), st)"
proof -
  let ?r = "sample_ref\<lparr>sr_id := ''nested'', sr_metadata := [(''config'', JObj [(''token'', JStr ''raw'')])]\<rparr>"
  have e: "secret_ref_errors ?r = []" by code_simp
  have m: "sanitize_security (sr_metadata ?r) = sr_metadata ?r" by code_simp
  have n: "get_secret_ref (sr_id ?r) (sample_security v) = None"
    by (simp add: sample_security_def save_secret_ref_def new_security_def get_secret_ref_def default_secret_refs_def)
      (simp add: sample_ref_def)
  show ?thesis
    using validate_secret_ref_simps(1)[of "sub 1 s" ?r "sample_security v"] e m n
    by (simp add: create_secret_ref_def Let_def case_prod_beta)
qed

theorem released_secret_passed_every_gate_witness:
  "env_vars (sample_env ''v'') ''K'' = Some ''v''"
  using released_secret_passed_every_gate[of allow_rules sample_draws sample_credential "sample_security ''v''",
      OF prod.collapse[symmetric], of "''v''"] sample_released[of "''v''" sample_draws]
  by (auto simp: resolve_credential_for_internal_use_def sample_ref_def)

theorem secret_values_stay_inside_witness:
  "fst (resolve_credential (evaluate allow_rules) sample_draws sample_credential (sample_security ''a'')) =
   fst (resolve_credential (evaluate allow_rules) sample_draws sample_credential (sample_security ''b''))"
proof -
  have "alike (sample_security ''a'') (sample_security ''b'')"
    unfolding alike_def
    by (rule exI[of _ "env_vars (sample_env ''b'')"])
      (simp add: sample_env_def sample_security_def save_secret_ref_def new_security_def)
  from secret_values_stay_inside[OF this] show ?thesis by blast
qed

theorem sandbox_sessions_confined_witness:
  "\<exists>p. get_sandbox_profile ''sandbox_local_temp_fixture'' (new_security (new_policy_service None) None (sample_env [])) = Some p \<and>
     \<not> sp_network p"
proof -
  let ?st = "new_security (new_policy_service None) None (sample_env [])"
  have p: "get_sandbox_profile ''sandbox_local_temp_fixture'' ?st = Some local_temp_profile"
    by (simp add: get_sandbox_profile_def new_security_def default_sandbox_profiles_def placeholder_profile_def
        local_temp_profile_def)
  have allow: "dec_allowed (fst (evaluate_security_policy (evaluate default_policy_rules) s
      (sandbox_policy_input a k sandbox_use (Some local_temp_profile)) st))"
    if "(a, k) \<in> {(''sandbox.profile.use'', ''sandbox_profile''), (''sandbox.session.create'', ''sandbox_session'')}" for a k s st
    using that
    by (auto simp: evaluate_security_policy_decision default_allowed_iff sandbox_policy_input_def
        security_request_def sandbox_rules_for sandbox_rules_def rule_applies_def map_matches_def create_policy_context_def
        create_policy_resource_def local_temp_profile_def condition_matches_def no_conditions_def
        cong: rule_literal_cong)
  have "\<exists>n x st'. create_sandbox_session (evaluate default_policy_rules) sample_draws sandbox_use ?st = ((Some n, x), st')"
    unfolding create_sandbox_session_def Let_def case_prod_beta
    using allow p by (simp add: sandbox_use_def sandbox_usable_def local_temp_profile_def is_active_def)
  then show ?thesis
    using sandbox_sessions_confined[of sample_draws sandbox_use ?st] by (auto simp: sandbox_use_def)
qed

end
