(* ===== verification/RegistryModel.thy ===== *)
theory RegistryModel
  imports TaskModel
begin

text \<open>
  The registry of skills, harnesses and instruction artifacts: the entities of
  \<open>packages/core/src/domain/models.ts\<close> and the pure part of \<open>packages/registry/src/index.ts\<close>,
  versions and version ranges, the validating constructors and the rule that decides which entry
  may be selected.  The three kinds of entry extend one record: the members only an instruction
  has, its checksum and the status of that checksum, are \<open>None\<close> for the others, which is what
  the code tests with \<open>in\<close>.  Numbers in versions are naturals, so versions with components beyond
  2 to the 53 are outside the model.
\<close>

section \<open>Entities\<close>

record version_ref =
  vr_kind :: string
  vr_name :: string
  vr_version :: string
  vr_id :: "string option"
  vr_checksum :: "string option"

record registry_dependency =
  dp_kind :: string
  dp_name :: string
  dp_range :: string
  dp_required :: bool
  dp_reason :: "string option"

record registry_entry =
  re_id :: string
  re_name :: string
  re_version :: string
  re_description :: string
  re_status :: string
  re_approval :: string
  re_eval :: string
  re_owner :: string
  re_agents :: "string list"
  re_dependencies :: "registry_dependency list option"
  re_checksum :: "string option"
  re_checksum_status :: "string option"
  re_created_at :: time
  re_updated_at :: time

record skill_package = registry_entry +
  sk_models :: "string list option"
  sk_tools :: "string list"
  sk_harnesses :: "string list"
  sk_rules :: "string list"
  sk_instruction_ref :: "version_ref option"
  sk_body :: "string option"
  sk_eval_refs :: "string list"
  sk_tags :: "string list"

record network_policy =
  np_mode :: string
  np_allow :: "string list option"

record loading_policy =
  lp_enabled :: bool
  lp_scopes :: "string list"
  lp_max_bytes :: num

record harness_package = registry_entry +
  ha_runtime :: string
  ha_image :: "string option"
  ha_tools :: "string list"
  ha_mcp_servers :: "string list"
  ha_secret_scopes :: "string list"
  ha_network :: "network_policy option"
  ha_test_commands :: "string list"
  ha_loading :: "loading_policy option"

record instruction_artifact = registry_entry +
  ia_type :: string
  ia_scope :: string
  ia_path :: "string option"
  ia_body :: "string option"
  ia_algorithm :: string
  ia_verified_at :: "time option"
  ia_precedence :: num
  ia_repos :: "string list"
  ia_directories :: "string list"
  ia_max_bytes :: num

datatype registry_entity =
    ESkill skill_package
  | EHarness harness_package
  | EInstruction instruction_artifact

text \<open>The members every entry has, and the kind the code reads off its shape.\<close>

fun entry_of :: "registry_entity \<Rightarrow> registry_entry" where
  "entry_of (ESkill s) = registry_entry.truncate s"
| "entry_of (EHarness h) = registry_entry.truncate h"
| "entry_of (EInstruction i) = registry_entry.truncate i"

fun shape_of :: "registry_entity \<Rightarrow> string" where
  "shape_of (ESkill s) = ''skill''"
| "shape_of (EHarness h) = ''harness''"
| "shape_of (EInstruction i) = ''instruction''"

section \<open>Closed vocabularies\<close>

definition registry_statuses :: "string list" where
  "registry_statuses = [''draft'', ''active'', ''deprecated'', ''archived'']"

definition approval_statuses :: "string list" where
  "approval_statuses = [''not_required'', ''pending'', ''approved'', ''rejected'']"

definition eval_statuses :: "string list" where
  "eval_statuses = [''not_required'', ''pending'', ''passed'', ''failed'']"

definition registry_kinds :: "string list" where
  "registry_kinds = [''skill'', ''harness'', ''instruction'']"

definition registry_package_kinds :: "string list" where
  "registry_package_kinds = [''skill'', ''harness'', ''instruction'', ''bundle'']"

definition eval_result_statuses :: "string list" where
  "eval_result_statuses = [''passed'', ''failed'', ''pending'', ''skipped'']"

definition eval_result_types :: "string list" where
  "eval_result_types = [''local'', ''manual'', ''mock'']"

definition eval_result_sources :: "string list" where
  "eval_result_sources = [''local_fixture'', ''manual'', ''mock'']"

definition assert_member :: "string list \<Rightarrow> string \<Rightarrow> string \<Rightarrow> string \<Rightarrow> string result" where
  "assert_member allowed listing value field =
     (if value \<in> set allowed then Inr value else Inl (Error (field @ '' must be '' @ listing)))"

definition assert_registry_status :: "string \<Rightarrow> string \<Rightarrow> string result" where
  "assert_registry_status =
     assert_member registry_statuses ''draft, active, deprecated, or archived''"

definition assert_approval_status :: "string \<Rightarrow> string \<Rightarrow> string result" where
  "assert_approval_status =
     assert_member approval_statuses ''not_required, pending, approved, or rejected''"

definition assert_eval_status :: "string \<Rightarrow> string \<Rightarrow> string result" where
  "assert_eval_status = assert_member eval_statuses ''not_required, pending, passed, or failed''"

definition assert_registry_kind :: "string \<Rightarrow> string \<Rightarrow> string result" where
  "assert_registry_kind = assert_member registry_kinds ''skill, harness, or instruction''"

definition assert_eval_result_status :: "string \<Rightarrow> string \<Rightarrow> string result" where
  "assert_eval_result_status =
     assert_member eval_result_statuses ''passed, failed, pending, or skipped''"

definition assert_eval_result_type :: "string \<Rightarrow> string \<Rightarrow> string result" where
  "assert_eval_result_type = assert_member eval_result_types ''local, manual, or mock''"

definition assert_eval_result_source :: "string \<Rightarrow> string \<Rightarrow> string result" where
  "assert_eval_result_source = assert_member eval_result_sources ''local_fixture, manual, or mock''"

definition normalize_package_kind :: "string \<Rightarrow> string result" where
  "normalize_package_kind value =
     (if value = ''registry_bundle'' then Inr ''bundle''
      else if value \<in> set registry_package_kinds then Inr value
      else Inl (Error ''packageKind must be skill, harness, instruction, or bundle''))"

definition require_string :: "string \<Rightarrow> string \<Rightarrow> string result" where
  "require_string value field =
     (if trim value = [] then Inl (Error (field @ '' is required'')) else Inr value)"

lemma assert_member_Inr [simp]:
  "assert_member allowed listing v field = Inr w \<longleftrightarrow> w = v \<and> v \<in> set allowed"
  by (auto simp: assert_member_def)

lemma require_string_Inr [simp]: "require_string v field = Inr w \<longleftrightarrow> w = v \<and> trim v \<noteq> []"
  by (auto simp: require_string_def)

section \<open>Versions\<close>

definition digit_value :: "char \<Rightarrow> nat" where
  "digit_value c = of_char c - 48"

definition digits_value :: "string \<Rightarrow> nat" where
  "digits_value s = foldl (\<lambda>n c. 10 * n + digit_value c) 0 s"

definition all_digits :: "string \<Rightarrow> bool" where
  \<comment> \<open>\<open>\d+\<close>\<close>
  "all_digits s \<longleftrightarrow> s \<noteq> [] \<and> list_all is_digit s"

type_synonym semver = "nat \<times> nat \<times> nat"

definition parse_semver :: "string \<Rightarrow> semver option" where
  \<comment> \<open>\<open>/^(\d+)\.(\d+)\.(\d+)$/\<close>\<close>
  "parse_semver version =
     (case split_on (CHR ''.'') version of
        [a, b, c] \<Rightarrow>
          if all_digits a \<and> all_digits b \<and> all_digits c
          then Some (digits_value a, digits_value b, digits_value c) else None
      | _ \<Rightarrow> None)"

definition diff :: "nat \<Rightarrow> nat \<Rightarrow> int" where
  "diff a b = int a - int b"

definition compare_semver :: "string \<Rightarrow> string \<Rightarrow> int" where
  "compare_semver left right =
     (case (parse_semver left, parse_semver right) of
        (Some (lma, lmi, lpa), Some (rma, rmi, rpa)) \<Rightarrow>
          if diff lma rma \<noteq> 0 then diff lma rma
          else if diff lmi rmi \<noteq> 0 then diff lmi rmi else diff lpa rpa
      | _ \<Rightarrow> locale_compare left right)"

definition is_major_range :: "string \<Rightarrow> bool" where
  \<comment> \<open>\<open>/^\d+\.x$/\<close>\<close>
  "is_major_range v =
     (case split_on (CHR ''.'') v of [a, b] \<Rightarrow> all_digits a \<and> b = ''x'' | _ \<Rightarrow> False)"

definition strip_sign :: "string \<Rightarrow> string" where
  \<comment> \<open>\<open>[\^~]?\<close> at the start of a range\<close>
  "strip_sign v = (case v of [] \<Rightarrow> [] | c # cs \<Rightarrow> if c = CHR ''^'' \<or> c = CHR ''~'' then cs else v)"

definition is_supported_range :: "string \<Rightarrow> bool" where
  "is_supported_range rng =
     (let value = trim rng
      in value = ''latest'' \<or> is_major_range value \<or> parse_semver (strip_sign value) \<noteq> None)"

definition satisfies_range :: "string \<Rightarrow> string \<Rightarrow> bool" where
  "satisfies_range version rng =
     (let value = trim rng in
      case parse_semver version of
        None \<Rightarrow> version = value
      | Some (major, minor, _) \<Rightarrow>
          if value = ''latest'' then True
          else if parse_semver value \<noteq> None then version = value
          else if is_major_range value then major = digits_value (hd (split_on (CHR ''.'') value))
          else if starts_with value ''^'' then
            (case parse_semver (tl value) of
               None \<Rightarrow> False
             | Some (bma, _, _) \<Rightarrow> major = bma \<and> compare_semver version (tl value) \<ge> 0)
          else if starts_with value ''~'' then
            (case parse_semver (tl value) of
               None \<Rightarrow> False
             | Some (bma, bmi, _) \<Rightarrow>
                 major = bma \<and> minor = bmi \<and> compare_semver version (tl value) \<ge> 0)
          else False)"

definition version_cmp :: "'a registry_entry_scheme \<Rightarrow> 'a registry_entry_scheme \<Rightarrow> int" where
  "version_cmp =
     cmp_or (\<lambda>left right. compare_semver (re_version right) (re_version left))
            (\<lambda>left right. locale_compare (re_name left) (re_name right))"

definition highest_compatible ::
  "'a registry_entry_scheme list \<Rightarrow> string \<Rightarrow> 'a registry_entry_scheme option" where
  "highest_compatible entries rng =
     (case sort_by version_cmp (filter (\<lambda>e. satisfies_range (re_version e) rng) entries) of
        [] \<Rightarrow> None | e # _ \<Rightarrow> Some e)"

section \<open>Which entry may be selected\<close>

definition is_selectable_lifecycle :: "'a registry_entry_scheme \<Rightarrow> bool" where
  "is_selectable_lifecycle e \<longleftrightarrow> re_status e = ''active''"

definition approval_allows :: "'a registry_entry_scheme \<Rightarrow> bool" where
  "approval_allows e \<longleftrightarrow> re_approval e = ''not_required'' \<or> re_approval e = ''approved''"

definition eval_allows :: "'a registry_entry_scheme \<Rightarrow> bool" where
  "eval_allows e \<longleftrightarrow> re_eval e = ''not_required'' \<or> re_eval e = ''passed''"

definition checksum_allows :: "'a registry_entry_scheme \<Rightarrow> bool" where
  "checksum_allows e \<longleftrightarrow> re_checksum_status e \<noteq> Some ''mismatch''"

definition selectable :: "'a registry_entry_scheme \<Rightarrow> bool" where
  "selectable e \<longleftrightarrow>
     is_selectable_lifecycle e \<and> approval_allows e \<and> eval_allows e \<and> checksum_allows e"

definition entry_label :: "'a registry_entry_scheme \<Rightarrow> string" where
  "entry_label e = re_name e @ ''@'' @ re_version e"

definition exclusion_warning :: "string \<Rightarrow> 'a registry_entry_scheme \<Rightarrow> string option" where
  "exclusion_warning kind e =
     (let label = kind @ '' '' @ entry_label e in
      if re_status e \<noteq> ''active''
      then Some (label @ '' excluded: status is '' @ re_status e @ ''.'')
      else if \<not> approval_allows e
      then Some (label @ '' excluded: approvalStatus is '' @ re_approval e @ ''.'')
      else if \<not> eval_allows e
      then Some (label @ '' excluded: evalStatus is '' @ re_eval e @ ''.'')
      else if \<not> checksum_allows e
      then Some (label @ '' excluded: checksumStatus is '' @ opt_default (re_checksum_status e) [] @ ''.'')
      else None)"

definition add_exclusion_warning ::
  "string \<Rightarrow> 'a registry_entry_scheme \<Rightarrow> string list \<Rightarrow> string list" where
  "add_exclusion_warning kind e warnings =
     (case exclusion_warning kind e of
        None \<Rightarrow> warnings
      | Some w \<Rightarrow> if w \<in> set warnings then warnings else warnings @ [w])"

text \<open>The entries a warning is given for are exactly those that cannot be selected.\<close>

lemma exclusion_warning_None: "exclusion_warning kind e = None \<longleftrightarrow> selectable e"
  by (simp add: exclusion_warning_def selectable_def is_selectable_lifecycle_def Let_def)

section \<open>References\<close>

definition ref_from_skill :: "skill_package \<Rightarrow> version_ref" where
  "ref_from_skill e = \<lparr>vr_kind = ''skill'', vr_name = re_name e, vr_version = re_version e,
     vr_id = Some (re_id e), vr_checksum = None\<rparr>"

definition ref_from_harness :: "harness_package \<Rightarrow> version_ref" where
  "ref_from_harness e = \<lparr>vr_kind = ''harness'', vr_name = re_name e, vr_version = re_version e,
     vr_id = Some (re_id e), vr_checksum = None\<rparr>"

definition ref_from_instruction :: "instruction_artifact \<Rightarrow> version_ref" where
  "ref_from_instruction e = \<lparr>vr_kind = ''instruction'', vr_name = re_name e,
     vr_version = re_version e, vr_id = Some (re_id e), vr_checksum = re_checksum e\<rparr>"

definition ref_label :: "version_ref \<Rightarrow> string" where
  "ref_label r = vr_name r @ ''@'' @ vr_version r"

section \<open>Validating constructors\<close>

text \<open>
  The members an input may leave out; a member left out is \<open>None\<close>.  The rest of the input is the
  record itself, so lists are lists of strings and the checks that a value is an array hold by type.
\<close>

record create_options =
  co_id :: "string option"
  co_approval :: "string option"
  co_eval :: "string option"
  co_created_at :: "time option"
  co_updated_at :: "time option"

definition normalize_dependency ::
  "string \<Rightarrow> nat \<Rightarrow> registry_dependency \<Rightarrow> registry_dependency result" where
  "normalize_dependency field i d =
     (let p = field @ ''['' @ nat_to_string i @ '']'' in
      bind_result (assert_registry_kind (dp_kind d) (p @ ''.kind'')) (\<lambda>k.
      bind_result (require_string (dp_name d) (p @ ''.name'')) (\<lambda>n.
      bind_result (require_string (dp_range d) (p @ ''.versionRange'')) (\<lambda>r.
        Inr d))))"

fun normalize_list ::
  "string \<Rightarrow> nat \<Rightarrow> registry_dependency list \<Rightarrow> registry_dependency list result" where
  "normalize_list field i [] = Inr []"
| "normalize_list field i (d # ds) =
     bind_result (normalize_dependency field i d) (\<lambda>x.
     bind_result (normalize_list field (Suc i) ds) (\<lambda>xs. Inr (x # xs)))"

definition normalize_dependencies ::
  "registry_dependency list option \<Rightarrow> string \<Rightarrow> registry_dependency list option result" where
  "normalize_dependencies ds field =
     (case ds of None \<Rightarrow> Inr None | Some xs \<Rightarrow>
        bind_result (normalize_list field 0 xs) (\<lambda>ys. Inr (Some ys)))"

text \<open>The checks that the three constructors share, up to the owner.\<close>

definition create_entry ::
  "string \<Rightarrow> string \<Rightarrow> draws \<Rightarrow> create_options \<Rightarrow> 'a registry_entry_scheme \<Rightarrow>
   'a registry_entry_scheme result" where
  "create_entry pre kind s o' e =
     (let created = opt_default (co_created_at o') (clock 0 s) in
      bind_result (require_string (re_name e) (kind @ ''.name'')) (\<lambda>_.
      bind_result (require_string (re_version e) (kind @ ''.version'')) (\<lambda>_.
      bind_result (require_string (re_description e) (kind @ ''.description'')) (\<lambda>_.
      bind_result (assert_registry_status (re_status e) (kind @ ''.status'')) (\<lambda>_.
      bind_result (assert_approval_status (opt_default (co_approval o') ''not_required'')
        (kind @ ''.approvalStatus'')) (\<lambda>approval.
      bind_result (assert_eval_status (opt_default (co_eval o') ''not_required'')
        (kind @ ''.evalStatus'')) (\<lambda>ev.
      bind_result (require_string (re_owner e) (kind @ ''.owner'')) (\<lambda>_.
        Inr (e\<lparr>re_id := opt_default (co_id o') (fresh_id pre 0 s), re_approval := approval,
               re_eval := ev, re_created_at := created,
               re_updated_at := opt_default (co_updated_at o') created\<rparr>)))))))))"

definition create_skill_package ::
  "draws \<Rightarrow> create_options \<Rightarrow> skill_package \<Rightarrow> skill_package result" where
  "create_skill_package s o' input =
     bind_result (create_entry ''skill'' ''skill'' s o'
       (input\<lparr>re_checksum := None, re_checksum_status := None\<rparr>)) (\<lambda>e.
     bind_result (normalize_dependencies (re_dependencies e) ''skill.dependencies'') (\<lambda>ds.
       if re_agents e = []
       then Inl (Error ''skill.compatibleAgents must include at least one agent'')
       else Inr (e\<lparr>re_dependencies := ds\<rparr>)))"

definition runtime_types :: "string list" where
  "runtime_types = [''docker'', ''kubernetes'', ''firecracker'', ''local'']"

definition is_network_mode :: "string \<Rightarrow> bool" where
  "is_network_mode v \<longleftrightarrow> v = ''disabled'' \<or> v = ''allowlist'' \<or> v = ''unrestricted''"

definition create_harness_definition ::
  "draws \<Rightarrow> create_options \<Rightarrow> harness_package \<Rightarrow> harness_package result" where
  "create_harness_definition s o' input =
     bind_result (create_entry ''harness'' ''harness'' s o'
       (input\<lparr>re_checksum := None, re_checksum_status := None\<rparr>)) (\<lambda>e.
     bind_result (normalize_dependencies (re_dependencies e) ''harness.dependencies'') (\<lambda>ds.
       if ha_runtime e \<notin> set runtime_types then Inl (Error ''harness.runtimeType is unsupported'')
       else if \<not> (case ha_network e of None \<Rightarrow> False | Some p \<Rightarrow> is_network_mode (np_mode p))
       then Inl (Error ''harness.networkPolicy.mode is unsupported'')
       else if re_agents e = []
       then Inl (Error ''harness.compatibleAgents must include at least one agent'')
       else if ha_loading e = None
       then Inl (Error ''harness.instructionLoadingPolicy is required'')
       else Inr (e\<lparr>re_dependencies := ds\<rparr>)))"

definition is_integer :: "num \<Rightarrow> bool" where
  "is_integer x \<longleftrightarrow> of_int \<lfloor>x\<rfloor> = x"

definition create_instruction_artifact ::
  "draws \<Rightarrow> create_options \<Rightarrow> instruction_artifact \<Rightarrow> instruction_artifact result" where
  "create_instruction_artifact s o' input =
     bind_result (create_entry ''instr'' ''instruction'' s o' input) (\<lambda>e.
     bind_result (require_string (opt_default (re_checksum e) []) ''instruction.checksum'') (\<lambda>c.
     bind_result (normalize_dependencies (re_dependencies e) ''instruction.dependencies'') (\<lambda>ds.
       if re_agents e = []
       then Inl (Error ''instruction.appliesToAgents must include at least one agent'')
       else if \<not> is_integer (ia_precedence e)
       then Inl (Error ''instruction.precedence must be an integer'')
       else if \<not> is_integer (ia_max_bytes e) \<or> ia_max_bytes e \<le> 0
       then Inl (Error ''instruction.maxContextBytes must be a positive integer'')
       else Inr (e\<lparr>re_checksum := Some c,
                   re_checksum_status := Some (opt_default (re_checksum_status e) ''unverified''),
                   re_dependencies := ds\<rparr>))))"

section \<open>A sample entry\<close>

definition sample_skill :: "string \<Rightarrow> string \<Rightarrow> registry_dependency list \<Rightarrow> skill_package" where
  "sample_skill i name ds = \<lparr>re_id = i, re_name = name, re_version = ''1.2.0'', re_description = ''d'',
     re_status = ''active'', re_approval = ''approved'', re_eval = ''passed'', re_owner = ''o'',
     re_agents = [''codex''], re_dependencies = Some ds, re_checksum = None, re_checksum_status = None,
     re_created_at = 0, re_updated_at = 0, sk_models = None, sk_tools = [], sk_harnesses = [],
     sk_rules = [], sk_instruction_ref = None, sk_body = None, sk_eval_refs = [], sk_tags = []\<rparr>"

definition sample_dependency :: "string \<Rightarrow> registry_dependency" where
  "sample_dependency rng =
     \<lparr>dp_kind = ''skill'', dp_name = ''b'', dp_range = rng, dp_required = True, dp_reason = None\<rparr>"

end
