(* ===== verification/RegistryResolution.thy ===== *)
theory RegistryResolution
  imports RegistryModel "HOL-Library.Monad_Syntax"
begin

text \<open>
  \<open>resolveRegistryContextForTask\<close> of \<open>packages/registry/src/index.ts\<close>: the skills, the harness and
  the instructions a task runs with, the entries they depend on, and the warnings and errors of
  the resolution.  The arrays the code pushes to are threaded as values.  The walk over the
  dependencies follows every path, with the set of keys on the path: it is a partial function, whose
  result \<open>None\<close> would be a walk that does not end.
\<close>

section \<open>Input and messages\<close>

record resolve_input =
  ri_task :: task
  ri_agent :: string
  ri_repo :: "repo option"
  ri_skills :: "skill_package list"
  ri_harnesses :: "harness_package list"
  ri_instructions :: "instruction_artifact list"

record messages =
  n_warnings :: "string list"
  n_errors :: "string list"

definition add_warning :: "string \<Rightarrow> messages \<Rightarrow> messages" where
  "add_warning w n = n\<lparr>n_warnings := n_warnings n @ [w]\<rparr>"

definition add_error :: "string \<Rightarrow> messages \<Rightarrow> messages" where
  "add_error e n = n\<lparr>n_errors := n_errors n @ [e]\<rparr>"

definition exclude_all :: "string \<Rightarrow> 'a registry_entry_scheme list \<Rightarrow> messages \<Rightarrow> messages" where
  "exclude_all kind es n = n\<lparr>n_warnings := fold (add_exclusion_warning kind) es (n_warnings n)\<rparr>"

definition mentions_error :: "string \<Rightarrow> messages \<Rightarrow> bool" where
  "mentions_error i n \<longleftrightarrow> list_ex (\<lambda>e. str_includes e i) (n_errors n)"

definition task_text :: "task \<Rightarrow> string" where
  "task_text t = to_lower (t_title t @ '' '' @ opt_default (t_description t) [])"

definition matches_any :: "string \<Rightarrow> string list \<Rightarrow> bool" where
  "matches_any text terms \<longleftrightarrow> list_ex (str_includes text) terms"

definition by_name :: "string \<Rightarrow> 'a registry_entry_scheme list \<Rightarrow> 'a registry_entry_scheme list" where
  "by_name name es = filter (\<lambda>e. re_name e = name) es"

definition find_by_name ::
  "'a registry_entry_scheme list \<Rightarrow> string \<Rightarrow> 'a registry_entry_scheme option" where
  "find_by_name es name = highest_compatible (by_name name es) ''latest''"

definition find_selectable ::
  "string \<Rightarrow> 'a registry_entry_scheme list \<Rightarrow> string \<Rightarrow> messages \<Rightarrow>
   'a registry_entry_scheme option \<times> messages" where
  "find_selectable kind es name n =
     (highest_compatible (filter selectable (by_name name es)) ''latest'',
      exclude_all kind (by_name name es) n)"

definition parse_name_version :: "string \<Rightarrow> (string \<times> string) option" where
  \<comment> \<open>the parts around the last \<open>@\<close>, unless it is absent or first\<close>
  "parse_name_version requested =
     (let ps = split_on (CHR ''@'') requested; name = join_with ''@'' (butlast ps)
      in if length ps = 1 \<or> name = [] then None else Some (name, last ps))"

definition find_requested ::
  "string \<Rightarrow> 'a registry_entry_scheme list \<Rightarrow> string \<Rightarrow> messages \<Rightarrow>
   'a registry_entry_scheme option \<times> messages" where
  "find_requested kind es requested n =
     (case find_by re_id requested es of
        Some e \<Rightarrow> (Some e, n)
      | None \<Rightarrow>
        (case parse_name_version requested of
           None \<Rightarrow> (None, n)
         | Some (name, rng) \<Rightarrow>
             if \<not> is_supported_range rng
             then (None, add_error (''Requested '' @ kind @ '' has unsupported version range: '' @ requested) n)
             else (let cs = by_name name es; n1 = exclude_all kind cs n;
                       sel = highest_compatible (filter selectable cs) rng
                   in (sel, if sel = None \<and> cs \<noteq> []
                            then add_error (''No selectable '' @ kind @ '' version satisfies '' @ name @
                              ''@'' @ rng @ ''.'') n1
                            else n1))))"

definition unique_by_id :: "'a registry_entry_scheme list \<Rightarrow> 'a registry_entry_scheme list" where
  \<comment> \<open>\<open>[...new Map(es.map(e => [e.id, e])).values()]\<close>\<close>
  "unique_by_id es = fold (upsert_by re_id) es []"

section \<open>Skills\<close>

definition conflict_terms :: "string list" where
  "conflict_terms = [''conflict'', ''merge'', ''branch lease'', ''dry-run'', ''dry run'', ''queue risk'']"

definition test_terms :: "string list" where
  "test_terms = [''jest'', ''test'', ''spec'', ''failing assertion'']"

definition auth_terms :: "string list" where
  "auth_terms = [''auth'', ''login'', ''session'', ''token'', ''permission'']"

fun requested_skills ::
  "skill_package list \<Rightarrow> string list \<Rightarrow> messages \<Rightarrow> skill_package list \<times> messages" where
  "requested_skills skills [] n = ([], n)"
| "requested_skills skills (i # ids) n =
     (case find_requested ''skill'' skills i n of
        (None, n1) \<Rightarrow>
          requested_skills skills ids
            (if mentions_error i n1 then n1 else add_error (''Requested skill was not found: '' @ i) n1)
      | (Some e, n1) \<Rightarrow>
          if \<not> selectable e then requested_skills skills ids (exclude_all ''skill'' [e] n1)
          else (let (es, n2) = requested_skills skills ids n1 in (e # es, n2)))"

definition with_conflict_skill ::
  "resolve_input \<Rightarrow> skill_package list \<times> messages \<Rightarrow> skill_package list \<times> messages" where
  "with_conflict_skill inp sel =
     (if matches_any (task_text (ri_task inp)) conflict_terms
      then (case find_selectable ''skill'' (ri_skills inp) ''conflict-risk-reviewer'' (snd sel) of
              (Some e, n) \<Rightarrow> (fst sel @ [e], n)
            | (None, n) \<Rightarrow>
                (fst sel, if find_by_name (ri_skills inp) ''conflict-risk-reviewer'' = None
                          then add_warning ''Default conflict-risk-reviewer skill is not available.'' n
                          else n))
      else sel)"

definition default_skill_for ::
  "string list \<Rightarrow> string \<Rightarrow> resolve_input \<Rightarrow> skill_package list \<times> messages \<Rightarrow> skill_package list \<times> messages" where
  "default_skill_for terms name inp sel =
     (if fst sel = [] \<and> matches_any (task_text (ri_task inp)) terms
      then (case find_selectable ''skill'' (ri_skills inp) name (snd sel) of
              (Some e, n) \<Rightarrow> ([e], n)
            | (None, n) \<Rightarrow> ([], n))
      else sel)"

definition fallback_skill ::
  "resolve_input \<Rightarrow> skill_package list \<times> messages \<Rightarrow> skill_package list \<times> messages" where
  "fallback_skill inp sel =
     (if fst sel = []
      then (let (auth, n) = find_selectable ''skill'' (ri_skills inp) ''auth-debugging'' (snd sel) in
            case opt_or auth (highest_compatible (filter selectable (ri_skills inp)) ''latest'') of
              Some e \<Rightarrow> ([e], n)
            | None \<Rightarrow> ([], add_error ''No selectable skills are registered.'' n))
      else sel)"

definition resolve_skill_entries :: "resolve_input \<Rightarrow> messages \<Rightarrow> skill_package list \<times> messages" where
  "resolve_skill_entries inp n =
     (let (sel, n') = fallback_skill inp
            (default_skill_for auth_terms ''auth-debugging'' inp
            (default_skill_for test_terms ''jest-test-fixer'' inp
            (with_conflict_skill inp (requested_skills (ri_skills inp) (t_skill_ids (ri_task inp)) n))))
      in (unique_by_id sel, n'))"

section \<open>Harness\<close>

definition frontend_terms :: "string list" where
  "frontend_terms = [''frontend'', ''react'', ''vite'', ''component'', ''dashboard'', ''ui'']"

definition dry_run_terms :: "string list" where
  "dry_run_terms = [''local git dry-run'', ''local git dry run'', ''merge simulation'']"

definition desired_harness :: "resolve_input \<Rightarrow> string" where
  "desired_harness inp =
     (let text = task_text (ri_task inp) in
      if matches_any text frontend_terms then ''frontend-node20''
      else if matches_any text dry_run_terms then ''local-git-dry-run'' else ''backend-node20'')"

definition requested_harness :: "resolve_input \<Rightarrow> messages \<Rightarrow> harness_package option \<times> messages" where
  \<comment> \<open>a harness id that is the empty string counts as absent\<close>
  "requested_harness inp n =
     (let i = opt_default (t_harness_id (ri_task inp)) [] in
      if i = [] then (None, n)
      else (case find_requested ''harness'' (ri_harnesses inp) i n of
              (None, n1) \<Rightarrow>
                (None, if mentions_error i n1 then n1
                       else add_error (''Requested harness was not found: '' @ i) n1)
            | (Some e, n1) \<Rightarrow>
                if \<not> selectable e then (None, exclude_all ''harness'' [e] n1) else (Some e, n1)))"

definition resolve_harness_entry :: "resolve_input \<Rightarrow> messages \<Rightarrow> harness_package option \<times> messages" where
  "resolve_harness_entry inp n =
     (case requested_harness inp n of
        (Some e, n1) \<Rightarrow> (Some e, n1)
      | (None, n1) \<Rightarrow>
        (let name = desired_harness inp in
         case find_selectable ''harness'' (ri_harnesses inp) name n1 of
           (Some e, n2) \<Rightarrow> (Some e, n2)
         | (None, n2) \<Rightarrow>
           (case highest_compatible (filter selectable (ri_harnesses inp)) ''latest'' of
              None \<Rightarrow> (None, add_error ''No selectable harnesses are registered.'' n2)
            | Some e \<Rightarrow>
                (Some e, add_warning (''Default harness '' @ name @ '' is not available; using '' @
                   entry_label e @ ''.'') n2))))"

section \<open>Instructions\<close>

definition applies_to_repo :: "instruction_artifact \<Rightarrow> repo option \<Rightarrow> bool" where
  "applies_to_repo e r \<longleftrightarrow>
     ia_repos e = [] \<or> (case r of None \<Rightarrow> False | Some x \<Rightarrow> r_id x \<in> set (ia_repos e))"

definition eligible_instructions :: "resolve_input \<Rightarrow> instruction_artifact list" where
  "eligible_instructions inp =
     filter (\<lambda>e. applies_to_repo e (ri_repo inp))
       (filter (\<lambda>e. ri_agent inp \<in> set (re_agents e)) (filter selectable (ri_instructions inp)))"

definition precedence_cmp :: "instruction_artifact \<Rightarrow> instruction_artifact \<Rightarrow> int" where
  "precedence_cmp = cmp_or (\<lambda>l r. num_cmp (ia_precedence l) (ia_precedence r))
     (\<lambda>l r. locale_compare (re_name l) (re_name r))"

definition opt_list :: "'a option \<Rightarrow> 'a list" where
  "opt_list o' = (case o' of None \<Rightarrow> [] | Some x \<Rightarrow> [x])"

definition resolve_instruction_entries ::
  "resolve_input \<Rightarrow> messages \<Rightarrow> instruction_artifact list \<times> messages" where
  "resolve_instruction_entries inp n =
     (let n1 = exclude_all ''instruction'' (ri_instructions inp) n;
          named = (\<lambda>name. highest_compatible (by_name name (eligible_instructions inp)) ''latest'');
          org = named ''org-secure-coding-baseline''; agents = named ''repo-agents-md'';
          guidance = named ''conflict-manager-guidance'';
          n2 = (if org = None
                then add_warning ''Default org-secure-coding-baseline instruction is not available.'' n1 else n1);
          sel = opt_list org @
            (if t_repo_id (ri_task inp) \<noteq> [] then opt_list agents else []) @
            (if matches_any (task_text (ri_task inp)) conflict_terms then opt_list guidance else [])
      in (sort_by precedence_cmp (unique_by_id sel), n2))"

section \<open>Dependencies\<close>

definition dependency_key :: "registry_dependency \<Rightarrow> string" where
  "dependency_key d = dp_kind d @ '':'' @ dp_name d"

definition entity_key :: "registry_entity \<Rightarrow> string" where
  "entity_key e = shape_of e @ '':'' @ re_name (entry_of e)"

definition select_dependency ::
  "('a registry_entry_scheme \<Rightarrow> registry_entity) \<Rightarrow> 'a registry_entry_scheme list \<Rightarrow>
   registry_dependency \<Rightarrow> messages \<Rightarrow> registry_entity option \<times> messages" where
  "select_dependency mk es d n =
     (let cs = by_name (dp_name d) es; n1 = exclude_all (dp_kind d) cs n;
          message = ''Dependency '' @ dp_kind d @ '' '' @ dp_name d @ ''@'' @ dp_range d @
            '' could not be resolved.''
      in case highest_compatible (filter selectable cs) (dp_range d) of
           Some e \<Rightarrow> (Some (mk e), n1)
         | None \<Rightarrow> (None, if dp_required d then add_error message n1 else add_warning message n1))"

definition find_selectable_dependency ::
  "resolve_input \<Rightarrow> registry_dependency \<Rightarrow> messages \<Rightarrow> registry_entity option \<times> messages" where
  "find_selectable_dependency inp d n =
     (if \<not> is_supported_range (dp_range d)
      then (None, add_error (''Dependency '' @ dp_kind d @ '' '' @ dp_name d @
              '' has unsupported version range '' @ dp_range d @ ''.'') n)
      else if dp_kind d = ''skill'' then select_dependency ESkill (ri_skills inp) d n
      else if dp_kind d = ''harness'' then select_dependency EHarness (ri_harnesses inp) d n
      else select_dependency EInstruction (ri_instructions inp) d n)"

record dep_state =
  ds_skills :: "skill_package list"
  ds_instructions :: "instruction_artifact list"
  ds_notes :: messages

definition dep_error :: "string \<Rightarrow> dep_state \<Rightarrow> dep_state" where
  "dep_error e st = st\<lparr>ds_notes := add_error e (ds_notes st)\<rparr>"

definition push_resolved :: "registry_dependency \<Rightarrow> registry_entity \<Rightarrow> dep_state \<Rightarrow> dep_state" where
  \<comment> \<open>a resolved harness is walked but not selected\<close>
  "push_resolved d e st =
     (case e of
        ESkill x \<Rightarrow> if dp_kind d = ''skill'' then st\<lparr>ds_skills := ds_skills st @ [x]\<rparr> else st
      | EInstruction x \<Rightarrow>
          if dp_kind d = ''instruction'' then st\<lparr>ds_instructions := ds_instructions st @ [x]\<rparr> else st
      | EHarness x \<Rightarrow> st)"

definition entity_dependencies :: "registry_entity \<Rightarrow> registry_dependency list" where
  "entity_dependencies e = opt_default (re_dependencies (entry_of e)) []"

definition circular_entry :: "registry_entity \<Rightarrow> string" where
  "circular_entry e = ''Circular registry dependency detected at '' @ re_name (entry_of e) @ ''.''"

definition circular_edge :: "string \<Rightarrow> string \<Rightarrow> string" where
  "circular_edge current key =
     ''Circular registry dependency detected: '' @ current @ '' -> '' @ key @ ''.''"

text \<open>
  The loop over the dependencies of the entry \<open>current\<close>, on the path \<open>visiting\<close>; the recursive call
  of \<open>resolveEntryDependencies\<close> for a resolved entry is the inner call, on a longer path.
\<close>

partial_function (option) dependency_loop ::
  "resolve_input \<Rightarrow> string \<Rightarrow> string list \<Rightarrow> registry_dependency list \<Rightarrow> dep_state \<Rightarrow> dep_state option" where
  [code]: "dependency_loop inp current visiting deps st =
     (case deps of
        [] \<Rightarrow> Some st
      | d # ds \<Rightarrow>
          if dependency_key d \<in> set visiting
          then dependency_loop inp current visiting ds (dep_error (circular_edge current (dependency_key d)) st)
          else (case find_selectable_dependency inp d (ds_notes st) of
                  (None, n) \<Rightarrow> dependency_loop inp current visiting ds (st\<lparr>ds_notes := n\<rparr>)
                | (Some e, n) \<Rightarrow>
                    (let st1 = push_resolved d e (st\<lparr>ds_notes := n\<rparr>) in
                     Option.bind
                       (if entity_key e \<in> set visiting then Some (dep_error (circular_entry e) st1)
                        else dependency_loop inp (entity_key e) (entity_key e # visiting)
                          (entity_dependencies e) st1)
                       (dependency_loop inp current visiting ds))))"

definition resolve_entry_dependencies ::
  "resolve_input \<Rightarrow> registry_entity \<Rightarrow> string list \<Rightarrow> dep_state \<Rightarrow> dep_state option" where
  "resolve_entry_dependencies inp e visiting st =
     (if entity_key e \<in> set visiting then Some (dep_error (circular_entry e) st)
      else dependency_loop inp (entity_key e) (entity_key e # visiting) (entity_dependencies e) st)"

fun resolve_roots :: "resolve_input \<Rightarrow> registry_entity list \<Rightarrow> dep_state \<Rightarrow> dep_state option" where
  "resolve_roots inp [] st = Some st"
| "resolve_roots inp (e # es) st =
     Option.bind (resolve_entry_dependencies inp e [] st) (resolve_roots inp es)"

section \<open>The resolution\<close>

record registry_resolution =
  rr_skills :: "version_ref list"
  rr_harness :: version_ref
  rr_instructions :: "version_ref list"
  rr_warnings :: "string list"
  rr_errors :: "string list"
  rr_resolved_at :: time

definition unresolved_harness :: version_ref where
  "unresolved_harness = \<lparr>vr_kind = ''harness'', vr_name = ''unresolved'', vr_version = ''0.0.0'',
     vr_id = None, vr_checksum = None\<rparr>"

text \<open>The entries selected before the dependencies are walked.\<close>

definition resolve_selected ::
  "resolve_input \<Rightarrow> skill_package list \<times> harness_package option \<times> instruction_artifact list \<times> messages" where
  "resolve_selected inp =
     (let (skills, n1) = resolve_skill_entries inp \<lparr>n_warnings = [], n_errors = []\<rparr>;
          (harness, n2) = resolve_harness_entry inp n1;
          (instructions, n3) = resolve_instruction_entries inp n2
      in (skills, harness, instructions, n3))"

definition selected_roots ::
  "skill_package list \<Rightarrow> harness_package option \<Rightarrow> instruction_artifact list \<Rightarrow> registry_entity list" where
  "selected_roots skills harness instructions =
     map ESkill skills @ map EHarness (opt_list harness) @ map EInstruction instructions"

definition resolution_of ::
  "time \<Rightarrow> harness_package option \<Rightarrow> dep_state \<Rightarrow> registry_resolution" where
  "resolution_of now harness st =
     (let n = (if harness = None
               then add_error ''Registry resolution could not select a harness.'' (ds_notes st)
               else ds_notes st)
      in \<lparr>rr_skills = map ref_from_skill (unique_by_id (ds_skills st)),
          rr_harness = (case harness of None \<Rightarrow> unresolved_harness | Some h \<Rightarrow> ref_from_harness h),
          rr_instructions = map ref_from_instruction (unique_by_id (ds_instructions st)),
          rr_warnings = first_occurrences (n_warnings n), rr_errors = first_occurrences (n_errors n),
          rr_resolved_at = now\<rparr>)"

definition seed_repo_for :: "resolve_input \<Rightarrow> repo list \<Rightarrow> repo option" where
  "seed_repo_for inp seeds = opt_or (ri_repo inp) (find_by r_id (t_repo_id (ri_task inp)) seeds)"

definition resolve_registry_context ::
  "draws \<Rightarrow> repo list \<Rightarrow> resolve_input \<Rightarrow> registry_resolution option" where
  "resolve_registry_context s seeds input =
     (let inp = input\<lparr>ri_repo := seed_repo_for input seeds\<rparr>;
          (skills, harness, instructions, n) = resolve_selected inp
      in map_option (resolution_of (clock 0 s) harness)
           (resolve_roots inp (selected_roots skills harness instructions)
              \<lparr>ds_skills = skills, ds_instructions = instructions, ds_notes = n\<rparr>))"

end
