(* ===== verification/RegistryProperties.thy ===== *)
theory RegistryProperties
  imports RegistryResolution
begin

text \<open>
  What the version resolver and the registry resolution promise: the highest compatible version,
  a dependency walk that always ends, selected entries that are all selectable, and a selection
  without errors that is closed under the dependencies of what it selects.
\<close>

section \<open>Versions\<close>

definition semver_key :: "string \<Rightarrow> nat list" where
  "semver_key v = (case parse_semver v of None \<Rightarrow> [] | Some (a, b, c) \<Rightarrow> [a, b, c])"

definition parseable :: "'a registry_entry_scheme \<Rightarrow> bool" where
  "parseable e \<longleftrightarrow> parse_semver (re_version e) \<noteq> None"

lemma compare_semver_key:
  assumes "parse_semver v \<noteq> None" and "parse_semver w \<noteq> None"
  shows "compare_semver v w \<le> 0 \<longleftrightarrow> lex_cmp (semver_key v) (semver_key w) \<le> 0"
    and "compare_semver v w = 0 \<longleftrightarrow> lex_cmp (semver_key v) (semver_key w) = 0"
  using assms
  by (auto simp: compare_semver_def semver_key_def diff_def split: prod.splits if_splits)

lemma lex_cmp_le: "lex_cmp (xs :: nat list) ys \<le> 0 \<longleftrightarrow> xs \<le> ys"
  by (induction xs ys rule: lex_cmp.induct) auto

text \<open>The total order the comparator is on versions that parse.\<close>

definition key_cmp :: "'a registry_entry_scheme \<Rightarrow> 'a registry_entry_scheme \<Rightarrow> int" where
  "key_cmp = cmp_or (\<lambda>l r. lex_cmp (semver_key (re_version r)) (semver_key (re_version l)))
     (\<lambda>l r. locale_compare (re_name l) (re_name r))"

interpretation version_order: js_comparator "key_cmp :: 'a registry_entry_scheme \<Rightarrow> _"
  unfolding key_cmp_def
  by (rule js_comparator_or;
      (rule js_comparator_key[OF locale_compare.js_comparator_axioms] |
       rule js_comparator_flip[OF js_comparator_key[OF lex_cmp.js_comparator_axioms]]))

lemma version_cmp_key:
  "parseable x \<Longrightarrow> parseable y \<Longrightarrow> (version_cmp x y \<le> 0) = (key_cmp x y \<le> 0)"
  using compare_semver_key[of "re_version y" "re_version x"]
  by (auto simp: version_cmp_def key_cmp_def cmp_or_def Let_def parseable_def)

lemma highest_compatible_sort:
  assumes "list_all parseable es"
  shows "highest_compatible es rng =
     (case sort_by key_cmp (filter (\<lambda>e. satisfies_range (re_version e) rng) es) of
        [] \<Rightarrow> None | e # _ \<Rightarrow> Some e)"
proof -
  have "sort_by version_cmp (filter (\<lambda>e. satisfies_range (re_version e) rng) es) =
      sort_by key_cmp (filter (\<lambda>e. satisfies_range (re_version e) rng) es)"
    using assms by (intro sort_by_cong version_cmp_key) (auto simp: list_all_iff)
  then show ?thesis by (simp add: highest_compatible_def)
qed

lemma highest_compatible_in:
  assumes "highest_compatible es rng = Some e"
  shows "e \<in> set es" and "satisfies_range (re_version e) rng"
proof -
  let ?fs = "filter (\<lambda>e. satisfies_range (re_version e) rng) es"
  obtain ys where "sort_by version_cmp ?fs = e # ys"
    using assms by (auto simp: highest_compatible_def split: list.splits)
  then have "e \<in> set (sort_by version_cmp ?fs)" by simp
  then have "e \<in> set ?fs" by (simp only: set_sort_by)
  then show "e \<in> set es" and "satisfies_range (re_version e) rng" by simp_all
qed

lemma highest_compatible_None:
  "highest_compatible es rng = None \<longleftrightarrow> \<not> list_ex (\<lambda>e. satisfies_range (re_version e) rng) es"
proof -
  have "highest_compatible es rng = None \<longleftrightarrow> filter (\<lambda>e. satisfies_range (re_version e) rng) es = []"
    by (metis (mono_tags, lifting) highest_compatible_def list.case(1) list.case(2) list.exhaust
        option.distinct(1) sort_by_Nil_iff)
  then show ?thesis by (auto simp: filter_empty_conv list_ex_iff)
qed

lemma highest_compatible_max:
  assumes "list_all parseable es" and "highest_compatible es rng = Some e"
    and "x \<in> set es" and "satisfies_range (re_version x) rng"
  shows "semver_key (re_version x) \<le> semver_key (re_version e)"
proof -
  let ?fs = "filter (\<lambda>e. satisfies_range (re_version e) rng) es"
  have "x \<in> set ?fs" using assms(3,4) by simp
  then have "key_cmp (hd (sort_by key_cmp ?fs)) x \<le> 0" by (rule version_order.hd_sort_by_least)
  moreover have "hd (sort_by key_cmp ?fs) = e"
    using assms(1,2) by (auto simp: highest_compatible_sort split: list.splits)
  ultimately have "lex_cmp (semver_key (re_version x)) (semver_key (re_version e)) \<le> 0"
    by (auto simp: key_cmp_def cmp_or_def Let_def split: if_splits)
  then show ?thesis by (simp add: lex_cmp_le)
qed

text \<open>
  C18: Over entries whose versions all parse, the resolver returns nothing exactly when no version is in the
  range, and otherwise an entry in the range whose version is the greatest of those in the range, in
  the order that compares major, minor and patch as numbers.
\<close>

theorem highest_compatible_correct:
  "if list_all parseable es then
     (case highest_compatible es rng of
        None \<Rightarrow> \<not> list_ex (\<lambda>e. satisfies_range (re_version e) rng) es
      | Some e \<Rightarrow> e \<in> set es \<and> satisfies_range (re_version e) rng \<and>
          list_all (\<lambda>x. semver_key (re_version x) \<le> semver_key (re_version e))
            (filter (\<lambda>x. satisfies_range (re_version x) rng) es))
   else True"
proof (cases "highest_compatible es rng")
  case None
  then show ?thesis using highest_compatible_None[of es rng] by simp
next
  case (Some e)
  show ?thesis
  proof (cases "list_all parseable es")
    case True
    then have "list_all (\<lambda>x. semver_key (re_version x) \<le> semver_key (re_version e))
        (filter (\<lambda>x. satisfies_range (re_version x) rng) es)"
      using highest_compatible_max[OF True Some] by (simp add: list_all_iff)
    with highest_compatible_in[OF Some] show ?thesis
      unfolding Some if_P[OF True] option.case by blast
  qed simp
qed

section \<open>What the lookups return\<close>

lemma highest_selectable:
  "highest_compatible (filter selectable es) rng = Some e \<Longrightarrow> e \<in> set es \<and> selectable e"
  by (auto dest: highest_compatible_in)

lemma in_by_name [simp]: "e \<in> set (by_name name es) \<longleftrightarrow> e \<in> set es \<and> re_name e = name"
  by (auto simp: by_name_def)

lemma highest_selectable_by_name:
  "highest_compatible (filter selectable (by_name name es)) rng = Some e \<Longrightarrow>
   e \<in> set es \<and> selectable e \<and> re_name e = name \<and> satisfies_range (re_version e) rng"
  by (auto dest: highest_compatible_in)

lemma find_selectable_in:
  "find_selectable kind es name n = (Some e, n') \<Longrightarrow> e \<in> set es \<and> selectable e"
  by (auto simp: find_selectable_def dest: highest_selectable_by_name)

lemma find_requested_in: "find_requested kind es i n = (Some e, n') \<Longrightarrow> e \<in> set es"
  by (auto simp: find_requested_def Let_def split: option.splits if_splits
      dest: find_by_Some highest_selectable_by_name)

definition chosen_from :: "'a registry_entry_scheme list \<Rightarrow> 'a registry_entry_scheme list \<Rightarrow> bool" where
  "chosen_from es sel \<longleftrightarrow> set sel \<subseteq> {e \<in> set es. selectable e}"

lemma chosen_from_simps [simp]:
  "chosen_from es []"
  "chosen_from es (e # sel) \<longleftrightarrow> e \<in> set es \<and> selectable e \<and> chosen_from es sel"
  "chosen_from es (sel @ sel') \<longleftrightarrow> chosen_from es sel \<and> chosen_from es sel'"
  by (auto simp: chosen_from_def)

lemma set_unique_by_id: "set (unique_by_id es) \<subseteq> set es"
proof -
  have "set (fold (upsert_by re_id) es acc) \<subseteq> set es \<union> set acc" for acc
  proof (induction es arbitrary: acc)
    case (Cons e es)
    then show ?case using set_upsert_by[of re_id e acc] by fastforce
  qed simp
  then show ?thesis by (fastforce simp: unique_by_id_def)
qed

lemma chosen_unique: "chosen_from es sel \<Longrightarrow> chosen_from es (unique_by_id sel)"
  using set_unique_by_id[of sel] by (auto simp: chosen_from_def)

lemma requested_skills_chosen: "chosen_from es (fst (requested_skills es ids n))"
  by (induction es ids n rule: requested_skills.induct)
    (auto split: option.splits prod.splits dest: find_requested_in simp: Let_def)

lemma with_conflict_skill_chosen:
  "chosen_from (ri_skills inp) (fst sel) \<Longrightarrow>
   chosen_from (ri_skills inp) (fst (with_conflict_skill inp sel))"
  by (auto simp: with_conflict_skill_def split: option.splits prod.splits dest: find_selectable_in)

lemma default_skill_for_chosen:
  "chosen_from (ri_skills inp) (fst sel) \<Longrightarrow>
   chosen_from (ri_skills inp) (fst (default_skill_for terms name inp sel))"
  by (auto simp: default_skill_for_def split: option.splits prod.splits dest: find_selectable_in)

lemma fallback_skill_chosen:
  "chosen_from (ri_skills inp) (fst sel) \<Longrightarrow>
   chosen_from (ri_skills inp) (fst (fallback_skill inp sel))"
  by (auto simp: fallback_skill_def opt_or_def split: option.splits prod.splits
      dest: find_selectable_in highest_selectable)

lemma resolve_skill_entries_chosen: "chosen_from (ri_skills inp) (fst (resolve_skill_entries inp n))"
  unfolding resolve_skill_entries_def Let_def case_prod_beta fst_conv
  by (intro chosen_unique fallback_skill_chosen default_skill_for_chosen
      with_conflict_skill_chosen requested_skills_chosen)

lemma requested_harness_in:
  "requested_harness inp n = (Some e, n') \<Longrightarrow> e \<in> set (ri_harnesses inp) \<and> selectable e"
  by (auto simp: requested_harness_def Let_def split: if_splits option.splits prod.splits
      dest: find_requested_in)

lemma resolve_harness_entry_in:
  "resolve_harness_entry inp n = (Some e, n') \<Longrightarrow> e \<in> set (ri_harnesses inp) \<and> selectable e"
  by (auto simp: resolve_harness_entry_def Let_def split: option.splits prod.splits
      dest: requested_harness_in find_selectable_in highest_selectable)

lemma eligible_in:
  assumes "e \<in> set (eligible_instructions inp)"
  shows "e \<in> set (ri_instructions inp)" and "selectable e"
  using assms
  by (auto simp: eligible_instructions_def)

lemma resolve_instruction_entries_chosen:
  "chosen_from (ri_instructions inp) (fst (resolve_instruction_entries inp n))"
proof -
  have named: "chosen_from (ri_instructions inp)
      (opt_list (highest_compatible (by_name name (eligible_instructions inp)) rng))" for name rng
  proof (cases "highest_compatible (by_name name (eligible_instructions inp)) rng")
    case (Some e)
    from highest_compatible_in(1)[OF this] have "e \<in> set (eligible_instructions inp)" by simp
    with Some show ?thesis by (simp add: opt_list_def eligible_in)
  qed (simp add: opt_list_def)
  have sorted: "chosen_from es sel \<Longrightarrow> chosen_from es (sort_by precedence_cmp sel)" for es sel
    by (simp add: chosen_from_def)
  show ?thesis
    unfolding resolve_instruction_entries_def Let_def fst_conv
    by (intro sorted chosen_unique) (simp add: named)
qed

section \<open>The dependency walk\<close>

definition catalogue :: "resolve_input \<Rightarrow> registry_entity list" where
  "catalogue inp = map ESkill (ri_skills inp) @ map EHarness (ri_harnesses inp) @
     map EInstruction (ri_instructions inp)"

definition open_keys :: "resolve_input \<Rightarrow> string list \<Rightarrow> string set" where
  "open_keys inp visiting = entity_key ` set (catalogue inp) - set visiting"

lemma finite_open_keys [simp]: "finite (open_keys inp visiting)"
  by (simp add: open_keys_def)

lemma open_keys_less:
  "e \<in> set (catalogue inp) \<Longrightarrow> entity_key e \<notin> set visiting \<Longrightarrow>
   card (open_keys inp (entity_key e # visiting)) < card (open_keys inp visiting)"
  by (rule psubset_card_mono) (auto simp: open_keys_def)

text \<open>A required dependency is met by an entry of the state, or by a harness of the catalogue.\<close>

definition meets :: "registry_dependency \<Rightarrow> 'a registry_entry_scheme \<Rightarrow> bool" where
  "meets d e \<longleftrightarrow> selectable e \<and> re_name e = dp_name d \<and> satisfies_range (re_version e) (dp_range d)"

definition met_in :: "resolve_input \<Rightarrow> dep_state \<Rightarrow> registry_dependency \<Rightarrow> bool" where
  "met_in inp st d \<longleftrightarrow> dp_required d \<longrightarrow>
     (if dp_kind d = ''skill'' then \<exists>e \<in> set (ds_skills st). meets d e
      else if dp_kind d = ''instruction'' then \<exists>e \<in> set (ds_instructions st). meets d e
      else if dp_kind d = ''harness'' then \<exists>e \<in> set (ri_harnesses inp). meets d e
      else True)"

lemma select_dependency_found:
  assumes "select_dependency mk es d n = (Some e, n')"
  shows "(\<exists>x \<in> set es. e = mk x \<and> meets d x) \<and> n_errors n' = n_errors n"
  using assms
  by (auto simp: select_dependency_def Let_def meets_def exclude_all_def split: option.splits
      dest!: highest_selectable_by_name)

lemma select_dependency_missing:
  assumes "select_dependency mk es d n = (None, n')"
  shows "n_errors n' = [] \<Longrightarrow> n_errors n = [] \<and> \<not> dp_required d"
  using assms
  by (auto simp: select_dependency_def Let_def exclude_all_def add_error_def add_warning_def
      split: option.splits if_splits)

lemma find_dependency_found:
  assumes "find_selectable_dependency inp d n = (Some e, n')"
  shows "e \<in> set (catalogue inp)" and "n_errors n' = n_errors n"
    and "(\<exists>x \<in> set (ri_skills inp). dp_kind d = ''skill'' \<and> e = ESkill x \<and> meets d x) \<or>
      (\<exists>x \<in> set (ri_harnesses inp). dp_kind d = ''harness'' \<and> e = EHarness x \<and> meets d x) \<or>
      (\<exists>x \<in> set (ri_instructions inp). dp_kind d \<noteq> ''skill'' \<and> dp_kind d \<noteq> ''harness'' \<and>
         e = EInstruction x \<and> meets d x)"
  using assms
  by (auto simp: find_selectable_dependency_def catalogue_def split: if_splits
      dest!: select_dependency_found)

lemma find_dependency_missing:
  assumes "find_selectable_dependency inp d n = (None, n')"
  shows "n_errors n' = [] \<Longrightarrow> n_errors n = [] \<and> \<not> dp_required d"
  using assms
  by (auto simp: find_selectable_dependency_def add_error_def split: if_splits
      dest: select_dependency_missing)

text \<open>What a stretch of the walk leaves behind, seen from the state it started in.\<close>

definition grows :: "dep_state \<Rightarrow> dep_state \<Rightarrow> bool" where
  "grows st st' \<longleftrightarrow> set (ds_skills st) \<subseteq> set (ds_skills st') \<and>
     set (ds_instructions st) \<subseteq> set (ds_instructions st') \<and>
     (n_errors (ds_notes st') = [] \<longrightarrow> n_errors (ds_notes st) = [])"

definition sound_state :: "resolve_input \<Rightarrow> dep_state \<Rightarrow> bool" where
  "sound_state inp st \<longleftrightarrow>
     chosen_from (ri_skills inp) (ds_skills st) \<and> chosen_from (ri_instructions inp) (ds_instructions st)"

definition added :: "dep_state \<Rightarrow> dep_state \<Rightarrow> registry_entity set" where
  "added st st' = ESkill ` (set (ds_skills st') - set (ds_skills st)) \<union>
     EInstruction ` (set (ds_instructions st') - set (ds_instructions st))"

definition closes :: "resolve_input \<Rightarrow> registry_dependency list \<Rightarrow> dep_state \<Rightarrow> dep_state \<Rightarrow> bool" where
  "closes inp deps st st' \<longleftrightarrow> n_errors (ds_notes st') = [] \<longrightarrow>
     (\<forall>d \<in> set deps. met_in inp st' d) \<and>
     (\<forall>e \<in> added st st'. \<forall>d \<in> set (entity_dependencies e). met_in inp st' d)"

lemma grows_refl: "grows st st"
  by (simp add: grows_def)

lemma grows_trans: "grows a b \<Longrightarrow> grows b c \<Longrightarrow> grows a c"
  by (auto simp: grows_def)

lemma met_in_grows: "met_in inp st d \<Longrightarrow> grows st st' \<Longrightarrow> met_in inp st' d"
  by (auto simp: met_in_def grows_def split: if_splits)

lemma added_split: "added a c \<subseteq> added a b \<union> added b c"
  by (auto simp: added_def)

lemma closes_trans:
  assumes "closes inp ds1 a b" and "closes inp ds2 b c" and "grows b c"
  shows "closes inp (ds1 @ ds2) a c"
proof -
  show ?thesis
    using added_split[of a c b] assms met_in_grows[OF _ assms(3)] by (auto simp: closes_def grows_def)
qed

lemma push_step:
  assumes "find_selectable_dependency inp d (ds_notes st) = (Some e, n)"
    and st1: "st1 = push_resolved d e (st\<lparr>ds_notes := n\<rparr>)"
  shows "grows st st1" and "sound_state inp st \<Longrightarrow> sound_state inp st1" and "met_in inp st1 d"
    and "added st st1 \<subseteq> {e}"
  using find_dependency_found[OF assms(1)] unfolding st1
  by (auto simp: push_resolved_def grows_def sound_state_def met_in_def added_def meets_def
      split: if_splits)

lemma closes_step:
  assumes "grows st st1" and "met_in inp st1 d" and "added st st1 \<subseteq> {e}"
    and "grows st1 st2" and "closes inp (entity_dependencies e) st1 st2"
  shows "closes inp [d] st st2"
proof -
  have "added st st2 \<subseteq> {e} \<union> added st1 st2"
    using assms(3) added_split by fast
  then show ?thesis
    using assms met_in_grows[OF assms(2,4)] by (auto simp: closes_def)
qed

lemma closes_error: "n_errors (ds_notes st') \<noteq> [] \<Longrightarrow> closes inp deps st st'"
  by (simp add: closes_def)

lemma dep_error_simps [simp]:
  "grows st (dep_error m st)" "sound_state inp (dep_error m st) = sound_state inp st"
  "closes inp deps st0 (dep_error m st)"
  by (auto simp: dep_error_def add_error_def grows_def sound_state_def closes_def)

definition walked ::
  "resolve_input \<Rightarrow> registry_dependency list \<Rightarrow> dep_state \<Rightarrow> dep_state \<Rightarrow> bool" where
  "walked inp deps st st' \<longleftrightarrow> (sound_state inp st \<longrightarrow> sound_state inp st') \<and> grows st st' \<and>
     closes inp deps st st'"

lemma walked_Nil: "walked inp [] st st"
  by (simp add: walked_def grows_refl closes_def added_def)

lemma walked_Cons: "walked inp [d] a b \<Longrightarrow> walked inp ds b c \<Longrightarrow> walked inp (d # ds) a c"
  using closes_trans[of inp "[d]" a b ds c] by (auto simp: walked_def intro: grows_trans)

lemma walked_error: "walked inp [d] st (dep_error m st)"
  by (simp add: walked_def)

lemma walked_missing:
  assumes "find_selectable_dependency inp d (ds_notes st) = (None, n)"
  shows "walked inp [d] st (st\<lparr>ds_notes := n\<rparr>)"
  using find_dependency_missing[OF assms]
  by (auto simp: walked_def sound_state_def grows_def closes_def added_def met_in_def)

lemma walked_entry:
  assumes "find_selectable_dependency inp d (ds_notes st) = (Some e, n)"
    and "st1 = push_resolved d e (st\<lparr>ds_notes := n\<rparr>)"
    and "walked inp (entity_dependencies e) st1 st2"
  shows "walked inp [d] st st2"
  using push_step[OF assms(1,2)] assms(3) unfolding walked_def
  by (blast intro: grows_trans closes_step)

lemma walked_circular:
  assumes "find_selectable_dependency inp d (ds_notes st) = (Some e, n)"
    and "st1 = push_resolved d e (st\<lparr>ds_notes := n\<rparr>)"
  shows "walked inp [d] st (dep_error m st1)"
  using push_step[OF assms] unfolding walked_def
  by (auto intro: grows_trans[of st st1])

text \<open>The walk ends on every catalogue: the keys of the catalogue that are not on the path decrease.\<close>

lemma dependency_loop_ends:
  "\<exists>st'. dependency_loop inp cur vis deps st = Some st' \<and> walked inp deps st st'"
proof (induction "card (open_keys inp vis)" arbitrary: cur vis deps st rule: less_induct)
  case less
  show ?case
  proof (induction deps arbitrary: st)
    case Nil
    then show ?case by (subst dependency_loop.simps) (simp add: walked_Nil)
  next
    case (Cons d ds)
    have rest: "\<exists>st'. dependency_loop inp cur vis ds b = Some st' \<and> walked inp (d # ds) st st'"
      if "walked inp [d] st b" for b
      using Cons[of b] that by (blast intro: walked_Cons)
    show ?case
    proof (cases "dependency_key d \<in> set vis")
      case True
      then show ?thesis
        using rest[OF walked_error] by (subst dependency_loop.simps) simp
    next
      case fresh: False
      obtain r n where f: "find_selectable_dependency inp d (ds_notes st) = (r, n)" by fastforce
      show ?thesis
      proof (cases r)
        case None
        with f fresh show ?thesis
          using rest[OF walked_missing[of inp d st n]] by (subst dependency_loop.simps) simp
      next
        case (Some e)
        define st1 where "st1 = push_resolved d e (st\<lparr>ds_notes := n\<rparr>)"
        have f': "find_selectable_dependency inp d (ds_notes st) = (Some e, n)" using f Some by simp
        have "\<exists>st2. (if entity_key e \<in> set vis then Some (dep_error (circular_entry e) st1)
            else dependency_loop inp (entity_key e) (entity_key e # vis) (entity_dependencies e) st1)
            = Some st2 \<and> walked inp [d] st st2"
        proof (cases "entity_key e \<in> set vis")
          case True
          then show ?thesis using walked_circular[OF f' st1_def] by simp
        next
          case False
          from less[OF open_keys_less[OF find_dependency_found(1)[OF f'] False],
              of "entity_key e" "entity_dependencies e" st1]
          obtain st2 where "dependency_loop inp (entity_key e) (entity_key e # vis)
              (entity_dependencies e) st1 = Some st2" "walked inp (entity_dependencies e) st1 st2"
            by blast
          with False walked_entry[OF f' st1_def] show ?thesis by simp
        qed
        then obtain st2 where st2: "(if entity_key e \<in> set vis
            then Some (dep_error (circular_entry e) st1)
            else dependency_loop inp (entity_key e) (entity_key e # vis) (entity_dependencies e) st1)
            = Some st2" "walked inp [d] st st2" by blast
        from rest[OF st2(2)] obtain st' where
          "dependency_loop inp cur vis ds st2 = Some st'" "walked inp (d # ds) st st'" by blast
        with st2(1) show ?thesis
          by (subst dependency_loop.simps)
            (simp only: list.case fresh f' prod.case option.case if_False Let_def
              st1_def[symmetric] bind.bind_lunit option.inject, blast)
      qed
    qed
  qed
qed

section \<open>The whole resolution\<close>

definition roots_walked ::
  "resolve_input \<Rightarrow> registry_entity list \<Rightarrow> dep_state \<Rightarrow> dep_state \<Rightarrow> bool" where
  "roots_walked inp es st st' \<longleftrightarrow> (sound_state inp st \<longrightarrow> sound_state inp st') \<and> grows st st' \<and>
     (n_errors (ds_notes st') = [] \<longrightarrow>
        (\<forall>e \<in> set es \<union> added st st'. \<forall>d \<in> set (entity_dependencies e). met_in inp st' d))"

lemma roots_walked_Cons:
  assumes "walked inp (entity_dependencies e) a b" and "roots_walked inp es b c"
  shows "roots_walked inp (e # es) a c"
proof -
  have g: "grows a b" "grows b c" using assms by (simp_all add: walked_def roots_walked_def)
  have "met_in inp c d" if no_errors: "n_errors (ds_notes c) = []"
    and e': "e' \<in> set (e # es) \<union> added a c" and d: "d \<in> set (entity_dependencies e')" for e' d
  proof -
    have b: "n_errors (ds_notes b) = []" using g(2) no_errors by (simp add: grows_def)
    consider "e' \<in> set es \<union> added b c" | "e' = e" | "e' \<in> added a b"
      using e' added_split[of a c b] by auto
    then show ?thesis
    proof cases
      case 1
      then show ?thesis using assms(2) no_errors d by (simp add: roots_walked_def)
    qed (use assms(1) b d met_in_grows[OF _ g(2)] in \<open>auto simp: walked_def closes_def\<close>)
  qed
  then show ?thesis
    using assms g by (auto simp: roots_walked_def walked_def intro: grows_trans)
qed

lemma resolve_roots_ends: "\<exists>st'. resolve_roots inp es st = Some st' \<and> roots_walked inp es st st'"
proof (induction es arbitrary: st)
  case Nil
  then show ?case by (simp add: roots_walked_def grows_refl added_def)
next
  case (Cons e es)
  obtain b where "resolve_entry_dependencies inp e [] st = Some b"
    "walked inp (entity_dependencies e) st b"
    using dependency_loop_ends[of inp "entity_key e" "[entity_key e]" "entity_dependencies e" st]
    by (auto simp: resolve_entry_dependencies_def)
  with Cons[of b] show ?case by (auto intro: roots_walked_Cons)
qed

lemma resolve_selected_sound:
  assumes "resolve_selected inp = (skills, harness, instructions, n)"
  shows "chosen_from (ri_skills inp) skills" and "chosen_from (ri_harnesses inp) (opt_list harness)"
    and "chosen_from (ri_instructions inp) instructions"
proof -
  obtain n1 where 1: "resolve_skill_entries inp \<lparr>n_warnings = [], n_errors = []\<rparr> = (skills, n1)"
    using assms by (auto simp: resolve_selected_def Let_def split: prod.splits)
  then obtain n2 where 2: "resolve_harness_entry inp n1 = (harness, n2)"
    using assms by (auto simp: resolve_selected_def Let_def split: prod.splits)
  with 1 have 3: "resolve_instruction_entries inp n2 = (instructions, n)"
    using assms by (auto simp: resolve_selected_def Let_def split: prod.splits)
  show "chosen_from (ri_skills inp) skills" using resolve_skill_entries_chosen 1 by (metis fst_conv)
  show "chosen_from (ri_instructions inp) instructions"
    using resolve_instruction_entries_chosen 3 by (metis fst_conv)
  show "chosen_from (ri_harnesses inp) (opt_list harness)"
    using resolve_harness_entry_in 2 by (cases harness) (auto simp: opt_list_def)
qed

text \<open>What a resolution is made of.\<close>

lemma resolution_cases:
  obtains harness st where
    "resolve_registry_context s seeds inp = Some (resolution_of (clock 0 s) harness st)"
    and "chosen_from (ri_harnesses inp) (opt_list harness)" and "sound_state inp st"
    and "n_errors (ds_notes st) = [] \<Longrightarrow>
      (\<forall>e \<in> ESkill ` set (ds_skills st) \<union> EHarness ` set (opt_list harness) \<union>
        EInstruction ` set (ds_instructions st). \<forall>d \<in> set (entity_dependencies e). met_in inp st d)"
proof -
  define inp' where "inp' = inp\<lparr>ri_repo := seed_repo_for inp seeds\<rparr>"
  have lists [simp]: "ri_skills inp' = ri_skills inp" "ri_harnesses inp' = ri_harnesses inp"
    "ri_instructions inp' = ri_instructions inp" by (simp_all add: inp'_def)
  have met [simp]: "met_in inp' = met_in inp" by (intro ext) (simp add: met_in_def)
  obtain skills harness instructions n where
    sel: "resolve_selected inp' = (skills, harness, instructions, n)" by (metis prod.exhaust)
  note sound = resolve_selected_sound[OF sel]
  let ?st = "\<lparr>ds_skills = skills, ds_instructions = instructions, ds_notes = n\<rparr>"
  let ?roots = "selected_roots skills harness instructions"
  obtain st where st: "resolve_roots inp' ?roots ?st = Some st" "roots_walked inp' ?roots ?st st"
    using resolve_roots_ends by blast
  show thesis
  proof (rule that)
    show "resolve_registry_context s seeds inp = Some (resolution_of (clock 0 s) harness st)"
      unfolding resolve_registry_context_def Let_def inp'_def[symmetric] sel prod.case st(1)
      by simp
    show "chosen_from (ri_harnesses inp) (opt_list harness)" using sound(2) by simp
    show "sound_state inp st"
      using st(2) sound by (auto simp: roots_walked_def sound_state_def)
    assume "n_errors (ds_notes st) = []"
    then have *: "\<forall>e \<in> set ?roots \<union> added ?st st. \<forall>d \<in> set (entity_dependencies e). met_in inp st d"
      using st(2) by (simp add: roots_walked_def)
    have "ESkill ` set (ds_skills st) \<union> EHarness ` set (opt_list harness) \<union>
        EInstruction ` set (ds_instructions st) \<subseteq> set ?roots \<union> added ?st st"
      by (auto simp: selected_roots_def added_def)
    with * show "\<forall>e \<in> ESkill ` set (ds_skills st) \<union> EHarness ` set (opt_list harness) \<union>
        EInstruction ` set (ds_instructions st). \<forall>d \<in> set (entity_dependencies e). met_in inp st d"
      by blast
  qed
qed

text \<open>
  C19: The registry resolution returns on every catalogue and every task: the walk over the dependencies
  ends although they may be circular.
\<close>

theorem registry_resolution_terminates: "\<exists>r. resolve_registry_context s seeds inp = Some r"
  by (rule resolution_cases[of s seeds inp]) blast

text \<open>
  C20: Everything a resolution selects, by request, by default or as a dependency, is an entry of
  the catalogue that is active, approved or in no need of approval, evaluated or in no need of it, and
  has no checksum mismatch; only a harness may be left unresolved, and then an error says so.
\<close>

theorem resolution_selects_only_selectable:
  "case resolve_registry_context s seeds inp of None \<Rightarrow> False
   | Some r \<Rightarrow>
       set (rr_skills r) \<subseteq> ref_from_skill ` {e \<in> set (ri_skills inp). selectable e} \<and>
       set (rr_instructions r) \<subseteq>
         ref_from_instruction ` {e \<in> set (ri_instructions inp). selectable e} \<and>
       (if rr_harness r = unresolved_harness
        then ''Registry resolution could not select a harness.'' \<in> set (rr_errors r)
        else rr_harness r \<in> ref_from_harness ` {e \<in> set (ri_harnesses inp). selectable e})"
proof (rule resolution_cases[of s seeds inp])
  fix harness st
  assume r: "resolve_registry_context s seeds inp = Some (resolution_of (clock 0 s) harness st)"
    and h: "chosen_from (ri_harnesses inp) (opt_list harness)" and st: "sound_state inp st"
  have "set (rr_skills (resolution_of (clock 0 s) harness st)) \<subseteq>
      ref_from_skill ` {e \<in> set (ri_skills inp). selectable e}"
    using st set_unique_by_id[of "ds_skills st"]
    by (auto simp: resolution_of_def Let_def sound_state_def chosen_from_def)
  moreover have "set (rr_instructions (resolution_of (clock 0 s) harness st)) \<subseteq>
      ref_from_instruction ` {e \<in> set (ri_instructions inp). selectable e}"
    using st set_unique_by_id[of "ds_instructions st"]
    by (auto simp: resolution_of_def Let_def sound_state_def chosen_from_def)
  moreover have "ref_from_harness e \<noteq> unresolved_harness" for e
    by (simp add: ref_from_harness_def unresolved_harness_def)
  ultimately show ?thesis
    using h unfolding r option.case
    by (cases harness) (auto simp: resolution_of_def Let_def opt_list_def add_error_def)
qed

section \<open>Closure under dependencies\<close>

definition selected_entities :: "resolve_input \<Rightarrow> registry_resolution \<Rightarrow> registry_entity list" where
  "selected_entities inp r =
     map ESkill (filter (\<lambda>e. ref_from_skill e \<in> set (rr_skills r)) (ri_skills inp)) @
     map EHarness (filter (\<lambda>e. ref_from_harness e = rr_harness r) (ri_harnesses inp)) @
     map EInstruction (filter (\<lambda>e. ref_from_instruction e \<in> set (rr_instructions r)) (ri_instructions inp))"

definition dependency_met :: "resolve_input \<Rightarrow> registry_resolution \<Rightarrow> registry_dependency \<Rightarrow> bool" where
  "dependency_met inp r d \<longleftrightarrow>
     (if dp_kind d = ''skill''
      then list_ex (\<lambda>e. meets d e \<and> ref_from_skill e \<in> set (rr_skills r)) (ri_skills inp)
      else if dp_kind d = ''instruction''
      then list_ex (\<lambda>e. meets d e \<and> ref_from_instruction e \<in> set (rr_instructions r)) (ri_instructions inp)
      else if dp_kind d = ''harness'' then list_ex (meets d) (ri_harnesses inp) else True)"

definition distinct_ids :: "resolve_input \<Rightarrow> bool" where
  "distinct_ids inp \<longleftrightarrow> distinct (map re_id (ri_skills inp)) \<and>
     distinct (map re_id (ri_harnesses inp)) \<and> distinct (map re_id (ri_instructions inp))"

lemma ids_unique_by_id: "re_id ` set (unique_by_id es) = re_id ` set es"
proof -
  have "re_id ` set (fold (upsert_by re_id) es acc) = re_id ` set es \<union> re_id ` set acc" for acc
    by (induction es arbitrary: acc) (auto simp: keys_upsert_by)
  then show ?thesis by (simp add: unique_by_id_def)
qed

lemma same_id: "distinct (map re_id es) \<Longrightarrow> x \<in> set es \<Longrightarrow> y \<in> set es \<Longrightarrow> re_id x = re_id y \<Longrightarrow> x = y"
  by (auto simp: distinct_map dest: inj_onD)

lemma set_unique_by_id_eq:
  assumes "distinct (map re_id es)" and "set sel \<subseteq> set es"
  shows "set (unique_by_id sel) = set sel"
proof -
  have "x \<in> set (unique_by_id sel)" if "x \<in> set sel" for x
  proof -
    from that have "re_id x \<in> re_id ` set (unique_by_id sel)" by (simp add: ids_unique_by_id)
    then obtain y where y: "y \<in> set (unique_by_id sel)" "re_id y = re_id x" by auto
    then have "y \<in> set sel" using set_unique_by_id by blast
    with y that assms have "y = x" by (meson same_id subsetD)
    with y show ?thesis by simp
  qed
  with set_unique_by_id[of sel] show ?thesis by blast
qed

text \<open>
  C21: When ids are unique and the resolution reports no error, it is closed: every required
  dependency of every selected skill, harness and instruction is met by a selectable entry of the
  required name whose version is in the range, and a skill or an instruction that is depended on is
  itself selected.
\<close>

theorem resolution_closed:
  assumes "distinct_ids inp" and r: "resolve_registry_context s seeds inp = Some r"
    and "rr_errors r = []" and "e \<in> set (selected_entities inp r)"
    and "d \<in> set (entity_dependencies e)" and "dp_required d"
  shows "dependency_met inp r d"
proof (rule resolution_cases[of s seeds inp])
  fix harness st
  assume c: "resolve_registry_context s seeds inp = Some (resolution_of (clock 0 s) harness st)"
    and h: "chosen_from (ri_harnesses inp) (opt_list harness)" and st: "sound_state inp st"
    and met: "n_errors (ds_notes st) = [] \<Longrightarrow>
      (\<forall>e \<in> ESkill ` set (ds_skills st) \<union> EHarness ` set (opt_list harness) \<union>
        EInstruction ` set (ds_instructions st). \<forall>d \<in> set (entity_dependencies e). met_in inp st d)"
  have req: "r = resolution_of (clock 0 s) harness st" using r c by simp
  have sub: "set (ds_skills st) \<subseteq> set (ri_skills inp)" "set (ds_instructions st) \<subseteq> set (ri_instructions inp)"
    using st by (auto simp: sound_state_def chosen_from_def)
  have uniq: "set (unique_by_id (ds_skills st)) = set (ds_skills st)"
    "set (unique_by_id (ds_instructions st)) = set (ds_instructions st)"
    using assms(1) set_unique_by_id_eq[OF _ sub(1)] set_unique_by_id_eq[OF _ sub(2)]
    by (simp_all add: distinct_ids_def)
  then have sk: "set (rr_skills r) = ref_from_skill ` set (ds_skills st)"
    and ins: "set (rr_instructions r) = ref_from_instruction ` set (ds_instructions st)"
    by (simp_all add: req resolution_of_def Let_def)
  have h_Some: "harness \<noteq> None"
    using assms(3) by (auto simp: req resolution_of_def Let_def add_error_def first_occurrences_def
        split: if_splits)
  then have errs: "n_errors (ds_notes st) = []"
    using assms(3) by (auto simp: req resolution_of_def Let_def first_occurrences_def)
  have e: "e \<in> ESkill ` set (ds_skills st) \<union> EHarness ` set (opt_list harness) \<union>
      EInstruction ` set (ds_instructions st)"
    using assms(1,4) h sub h_Some
    by (auto simp: selected_entities_def sk ins distinct_ids_def opt_list_def
        req[THEN arg_cong[where f = rr_harness]] resolution_of_def Let_def
        ref_from_skill_def ref_from_harness_def ref_from_instruction_def
        split: option.splits dest: same_id)
  from met[OF errs] e assms(5) have "met_in inp st d" by blast
  then show "dependency_met inp r d"
    using assms(6) sub by (auto simp: met_in_def dependency_met_def sk ins list_ex_iff split: if_splits)
qed

definition sample_task :: task where
  "sample_task = \<lparr>t_id = ''t1'', t_title = ''x'', t_description = None, t_status = Draft,
     t_requester = ''u'', t_repo_id = ''r'', t_base_branch = ''main'', t_branch_name = None,
     t_agent = None, t_model = None, t_skill_ids = [''s1''], t_harness_id = None,
     t_instruction_set_id = None, t_budget = None, t_conflict_risk = None, t_created_at = 0,
     t_updated_at = 0\<rparr>"

definition sample_harness :: "harness_package" where
  "sample_harness = \<lparr>re_id = ''h1'', re_name = ''backend-node20'', re_version = ''1.0.0'',
     re_description = ''d'', re_status = ''active'', re_approval = ''approved'', re_eval = ''passed'',
     re_owner = ''o'', re_agents = [''codex''], re_dependencies = None, re_checksum = None,
     re_checksum_status = None, re_created_at = 0, re_updated_at = 0, ha_runtime = ''docker'',
     ha_image = None, ha_tools = [], ha_mcp_servers = [], ha_secret_scopes = [], ha_network = None,
     ha_test_commands = [], ha_loading = None\<rparr>"

definition sample_input :: "string \<Rightarrow> resolve_input" where
  "sample_input rng = \<lparr>ri_task = sample_task, ri_agent = ''codex'', ri_repo = None,
     ri_skills = [sample_skill ''s1'' ''a''
        [sample_dependency rng],
       sample_skill ''s2'' ''b'' []],
     ri_harnesses = [sample_harness], ri_instructions = []\<rparr>"

theorem resolution_closed_witness:
  "dependency_met (sample_input ''^1.0.0'')
     (the (resolve_registry_context sample_draws [] (sample_input ''^1.0.0'')))
     (sample_dependency ''^1.0.0'')"
proof (rule resolution_closed[where s = sample_draws and seeds = "[]"
      and e = "ESkill (sample_skill ''s1'' ''a'' [sample_dependency ''^1.0.0''])"])
  show "distinct_ids (sample_input ''^1.0.0'')" by code_simp
  show "resolve_registry_context sample_draws [] (sample_input ''^1.0.0'') =
      Some (the (resolve_registry_context sample_draws [] (sample_input ''^1.0.0'')))" by code_simp
  show "rr_errors (the (resolve_registry_context sample_draws [] (sample_input ''^1.0.0''))) = []"
    by code_simp
  show "ESkill (sample_skill ''s1'' ''a'' [sample_dependency ''^1.0.0'']) \<in>
      set (selected_entities (sample_input ''^1.0.0'')
        (the (resolve_registry_context sample_draws [] (sample_input ''^1.0.0''))))"
    by code_simp
  show "sample_dependency ''^1.0.0'' \<in>
      set (entity_dependencies (ESkill (sample_skill ''s1'' ''a'' [sample_dependency ''^1.0.0''])))"
    by code_simp
  show "dp_required (sample_dependency ''^1.0.0'')" by code_simp
qed

end
