(* ===== verification/RegistryService.thy ===== *)
theory RegistryService
  imports RegistryModel PolicyService
begin

text \<open>
  The registry service of \<open>packages/registry/src/index.ts\<close> over the in-memory repository: role and
  policy based authorization, lifecycle, approval and evaluation changes, checksum verification,
  revision history, rollback, evaluation results and the approval queue.  The three kinds of entry
  have methods of the same shape, which are instances of one definition here.  A revision's
  snapshot is the entry itself, standing for its JSON image: the members that were undefined are
  missing from it, and its dates revive to the same instant.  SHA-256 and the files below the
  repository root are arguments.  The repository that also writes the state to a file differs by
  that I/O only and is not modelled.
\<close>

section \<open>State\<close>

record registry_actor =
  act_id :: string
  act_name :: string
  act_roles :: "string list"
  act_teams :: "string list option"

record registry_audit =
  ra_id :: string
  ra_actor_id :: string
  ra_action :: string
  ra_kind :: string
  ra_target_id :: string
  ra_name :: string
  ra_version :: string
  ra_before :: "jsobj option"
  ra_after :: "jsobj option"
  ra_reason :: "string option"
  ra_created_at :: time

record registry_revision =
  rv_id :: string
  rv_kind :: string
  rv_target_id :: string
  rv_name :: string
  rv_version :: string
  rv_number :: nat
  rv_snapshot :: registry_entity
  rv_checksum :: string
  rv_reason :: "string option"
  rv_created_by :: string
  rv_audit_id :: "string option"
  rv_created_at :: time

record eval_result =
  ev_id :: string
  ev_kind :: string
  ev_target_id :: string
  ev_target_name :: string
  ev_target_version :: string
  ev_name :: string
  ev_type :: string
  ev_status :: string
  ev_score :: "num option"
  ev_max_score :: "num option"
  ev_summary :: string
  ev_details :: "string option"
  ev_attached_by :: string
  ev_source :: string
  ev_artifact :: "string option"
  ev_attached_at :: time

record registry_state =
  rs_skills :: "skill_package list"
  rs_harnesses :: "harness_package list"
  rs_instructions :: "instruction_artifact list"
  rs_audit :: "registry_audit list"
  rs_revisions :: "registry_revision list"
  rs_evals :: "eval_result list"
  rs_policy :: "policy_service option"
  rs_default_actor :: registry_actor
  rs_repo_root :: "string option"

definition default_registry_actor :: registry_actor where
  "default_registry_actor = \<lparr>act_id = ''mock-admin'', act_name = ''Mock Admin'',
     act_roles = [''registry_admin''], act_teams = None\<rparr>"

section \<open>Repository\<close>

definition update_skill ::
  "draws \<Rightarrow> string \<Rightarrow> (skill_package \<Rightarrow> skill_package) \<Rightarrow> (registry_state, skill_package) op" where
  "update_skill s i patch st =
     (let f = (\<lambda>e. (patch e)\<lparr>re_updated_at := clock 0 s\<rparr>) in
      case find_by re_id i (rs_skills st) of
        None \<Rightarrow> (Inl (Error (''Skill not found: '' @ i)), st)
      | Some e \<Rightarrow> (Inr (f e), st\<lparr>rs_skills := update_by re_id i f (rs_skills st)\<rparr>))"

definition update_harness ::
  "draws \<Rightarrow> string \<Rightarrow> (harness_package \<Rightarrow> harness_package) \<Rightarrow> (registry_state, harness_package) op" where
  "update_harness s i patch st =
     (let f = (\<lambda>e. (patch e)\<lparr>re_updated_at := clock 0 s\<rparr>) in
      case find_by re_id i (rs_harnesses st) of
        None \<Rightarrow> (Inl (Error (''Harness not found: '' @ i)), st)
      | Some e \<Rightarrow> (Inr (f e), st\<lparr>rs_harnesses := update_by re_id i f (rs_harnesses st)\<rparr>))"

definition update_instruction ::
  "draws \<Rightarrow> string \<Rightarrow> (instruction_artifact \<Rightarrow> instruction_artifact) \<Rightarrow>
   (registry_state, instruction_artifact) op" where
  "update_instruction s i patch st =
     (let f = (\<lambda>e. (patch e)\<lparr>re_updated_at := clock 0 s\<rparr>) in
      case find_by re_id i (rs_instructions st) of
        None \<Rightarrow> (Inl (Error (''Instruction artifact not found: '' @ i)), st)
      | Some e \<Rightarrow> (Inr (f e), st\<lparr>rs_instructions := update_by re_id i f (rs_instructions st)\<rparr>))"

definition append_registry_audit ::
  "draws \<Rightarrow> (string \<Rightarrow> time \<Rightarrow> registry_audit) \<Rightarrow> registry_state \<Rightarrow> registry_audit \<times> registry_state" where
  "append_registry_audit s mk st =
     (let log = mk (fresh_id ''regaudit'' 0 s) (clock 0 s) in (log, st\<lparr>rs_audit := rs_audit st @ [log]\<rparr>))"

definition list_audit_for_target :: "string \<Rightarrow> string \<Rightarrow> registry_state \<Rightarrow> registry_audit list" where
  "list_audit_for_target kind i st =
     filter (\<lambda>l. ra_kind l = kind \<and> ra_target_id l = i) (rs_audit st)"

definition append_revision ::
  "draws \<Rightarrow> (string \<Rightarrow> time \<Rightarrow> registry_revision) \<Rightarrow> registry_state \<Rightarrow>
   registry_revision \<times> registry_state" where
  "append_revision s mk st =
     (let r = mk (fresh_id ''regrev'' 0 s) (clock 0 s)
      in (r, st\<lparr>rs_revisions := rs_revisions st @ [r]\<rparr>))"

definition revision_cmp :: "registry_revision \<Rightarrow> registry_revision \<Rightarrow> int" where
  "revision_cmp = cmp_or (\<lambda>l r. num_cmp (rv_number l) (rv_number r))
     (\<lambda>l r. num_cmp (rv_created_at l) (rv_created_at r))"

definition of_target :: "string \<Rightarrow> string \<Rightarrow> registry_revision \<Rightarrow> bool" where
  "of_target kind i r \<longleftrightarrow> rv_kind r = kind \<and> rv_target_id r = i"

definition list_revisions :: "string \<Rightarrow> string \<Rightarrow> registry_state \<Rightarrow> registry_revision list" where
  "list_revisions kind i st = sort_by revision_cmp (filter (of_target kind i) (rs_revisions st))"

definition at_last :: "'a list \<Rightarrow> 'a option" where
  \<comment> \<open>\<open>xs.at(-1)\<close>\<close>
  "at_last xs = (if xs = [] then None else Some (last xs))"

definition latest_revision :: "string \<Rightarrow> string \<Rightarrow> registry_state \<Rightarrow> registry_revision option" where
  "latest_revision kind i st = at_last (list_revisions kind i st)"

definition get_revision :: "string \<Rightarrow> registry_state \<Rightarrow> registry_revision option" where
  "get_revision i st = find_by rv_id i (rs_revisions st)"

definition append_eval_result ::
  "draws \<Rightarrow> (string \<Rightarrow> time \<Rightarrow> eval_result) \<Rightarrow> registry_state \<Rightarrow> eval_result \<times> registry_state" where
  "append_eval_result s mk st =
     (let r = mk (fresh_id ''regeval'' 0 s) (clock 0 s) in (r, st\<lparr>rs_evals := rs_evals st @ [r]\<rparr>))"

definition eval_cmp :: "eval_result \<Rightarrow> eval_result \<Rightarrow> int" where
  "eval_cmp = cmp_or (\<lambda>l r. num_cmp (ev_attached_at l) (ev_attached_at r))
     (\<lambda>l r. locale_compare (ev_id l) (ev_id r))"

definition list_eval_results :: "string \<Rightarrow> string \<Rightarrow> registry_state \<Rightarrow> eval_result list" where
  "list_eval_results kind i st =
     sort_by eval_cmp (filter (\<lambda>r. ev_kind r = kind \<and> ev_target_id r = i) (rs_evals st))"

section \<open>Authorization\<close>

definition role_permissions :: "string \<Rightarrow> string list" where
  "role_permissions role =
     (let all = [''registry.read'', ''registry.create'', ''registry.update'', ''registry.status.change'',
            ''registry.approval.change'', ''registry.eval.change'', ''registry.checksum.verify'',
            ''registry.rollback'', ''registry.audit.read'', ''registry.history.read'']
      in if role = ''registry_viewer''
         then [''registry.read'', ''registry.audit.read'', ''registry.history.read'']
         else if role = ''registry_editor''
         then [''registry.read'', ''registry.create'', ''registry.update'', ''registry.status.change'',
               ''registry.checksum.verify'', ''registry.audit.read'', ''registry.history.read'']
         else if role = ''registry_reviewer''
         then [''registry.read'', ''registry.approval.change'', ''registry.eval.change'',
               ''registry.audit.read'', ''registry.history.read'']
         else if role = ''registry_admin'' then all
         else if role = ''system'' then all else [])"

definition role_allows :: "registry_actor \<Rightarrow> string \<Rightarrow> bool" where
  "role_allows actor permission \<longleftrightarrow> permission \<in> set (concat (map role_permissions (act_roles actor)))"

definition permission_policy_action :: "string \<Rightarrow> string option" where
  "permission_policy_action p =
     (if p = ''registry.create'' then Some ''registry.create''
      else if p = ''registry.update'' \<or> p = ''registry.status.change'' \<or> p = ''registry.eval.change'' \<or>
              p = ''registry.checksum.verify''
      then Some ''registry.update''
      else if p = ''registry.approval.change'' then Some ''registry.approve''
      else if p = ''registry.rollback'' then Some ''registry.rollback'' else None)"

definition registry_policy_request ::
  "registry_actor \<Rightarrow> string \<Rightarrow> string \<Rightarrow> string option \<Rightarrow> string option \<Rightarrow> policy_request" where
  "registry_policy_request actor permission action kind i =
     \<lparr>req_subject = create_policy_subject (Some (act_id actor)) None
        (Some (if ''system'' \<in> set (act_roles actor) then ''system'' else ''user''))
        (Some (act_roles actor)) (act_teams actor) None None None None,
      req_action = action,
      req_resource = create_policy_resource ''registry_item'' i
        (Some [(''targetKind'', of_opt_str kind)]),
      req_context = create_policy_context None
        (Some [(''permission'', JStr permission), (''targetKind'', of_opt_str kind),
               (''targetId'', of_opt_str i)])\<rparr>"

text \<open>The verdict, with its reason, of the role based and of the policy backed authorizer.\<close>

definition authorizer_verdict ::
  "engine \<Rightarrow> draws \<Rightarrow> registry_actor \<Rightarrow> string \<Rightarrow> string option \<Rightarrow> string option \<Rightarrow> registry_state \<Rightarrow>
   (bool \<times> string) \<times> registry_state" where
  "authorizer_verdict decide s actor permission kind i st =
     (let allowed = role_allows actor permission;
          reason = (if allowed then ''allowed by mock registry role'' else ''missing permission '' @ permission)
      in case rs_policy st of
           None \<Rightarrow> ((allowed, reason), st)
         | Some ps \<Rightarrow>
             if \<not> allowed then ((allowed, reason), st)
             else (case permission_policy_action permission of
                     None \<Rightarrow> ((allowed, reason), st)
                   | Some action \<Rightarrow>
                       (let (d, ps') = svc_evaluate decide s
                              (registry_policy_request actor permission action kind i) ps
                        in ((dec_allowed d, if dec_allowed d then reason else dec_reason d),
                            st\<lparr>rs_policy := Some ps'\<rparr>))))"

definition registry_authorize ::
  "engine \<Rightarrow> draws \<Rightarrow> registry_actor \<Rightarrow> string \<Rightarrow> string option \<Rightarrow> string option \<Rightarrow>
   (registry_state, unit) op" where
  "registry_authorize decide s actor permission kind i st =
     (case authorizer_verdict decide s actor permission kind i st of
        ((allowed, reason), st1) \<Rightarrow>
          (if allowed then Inr () else Inl (AuthorizationError reason), st1))"

record actor_input =
  ai_actor :: "registry_actor option"
  ai_actor_id :: "string option"
  ai_reason :: "string option"

definition actor_from_input :: "registry_actor \<Rightarrow> registry_actor option \<Rightarrow> string option \<Rightarrow> registry_actor" where
  "actor_from_input d actor actor_id =
     (case actor of
        Some a \<Rightarrow> a
      | None \<Rightarrow> if truthy_str actor_id \<and> actor_id \<noteq> Some (act_id d)
                then \<lparr>act_id = the actor_id, act_name = the actor_id, act_roles = act_roles d, act_teams = None\<rparr>
                else d)"

definition acting :: "actor_input \<Rightarrow> registry_state \<Rightarrow> registry_actor" where
  "acting a st = actor_from_input (rs_default_actor st) (ai_actor a) (ai_actor_id a)"

section \<open>Entities by kind\<close>

definition find_entity :: "string \<Rightarrow> string \<Rightarrow> registry_state \<Rightarrow> registry_entity option" where
  "find_entity kind i st =
     (if kind = ''skill'' then map_option ESkill (find_by re_id i (rs_skills st))
      else if kind = ''harness'' then map_option EHarness (find_by re_id i (rs_harnesses st))
      else map_option EInstruction (find_by re_id i (rs_instructions st)))"

definition require_entity :: "string \<Rightarrow> string \<Rightarrow> (registry_state, registry_entity) op" where
  "require_entity kind i st =
     (case find_entity kind i st of
        Some e \<Rightarrow> (Inr e, st)
      | None \<Rightarrow> (Inl (Error ((if kind = ''skill'' then ''Skill'' else if kind = ''harness'' then ''Harness''
                 else ''Instruction artifact'') @ '' not found: '' @ i)), st))"

text \<open>A partial entry of the members the service changes one at a time.\<close>

record entry_patch =
  pa_status :: "string option"
  pa_approval :: "string option"
  pa_eval :: "string option"

definition apply_patch :: "entry_patch \<Rightarrow> 'a registry_entry_scheme \<Rightarrow> 'a registry_entry_scheme" where
  "apply_patch p e = e\<lparr>re_status := opt_default (pa_status p) (re_status e),
     re_approval := opt_default (pa_approval p) (re_approval e),
     re_eval := opt_default (pa_eval p) (re_eval e)\<rparr>"

definition map_outcome :: "('a \<Rightarrow> 'b) \<Rightarrow> 'a result \<times> 's \<Rightarrow> 'b result \<times> 's" where
  "map_outcome f r = (map_sum id f (fst r), snd r)"

definition patch_entity ::
  "draws \<Rightarrow> string \<Rightarrow> string \<Rightarrow> entry_patch \<Rightarrow> (registry_state, registry_entity) op" where
  "patch_entity s kind i p st =
     (if kind = ''skill'' then map_outcome ESkill (update_skill s i (apply_patch p) st)
      else if kind = ''harness'' then map_outcome EHarness (update_harness s i (apply_patch p) st)
      else map_outcome EInstruction (update_instruction s i (apply_patch p) st))"

section \<open>Audit snapshots and revisions\<close>

definition entity_snapshot :: "registry_entity \<Rightarrow> jsobj" where
  "entity_snapshot x =
     (let e = entry_of x in
      [(''id'', JStr (re_id e)), (''name'', JStr (re_name e)), (''version'', JStr (re_version e)),
       (''status'', JStr (re_status e)), (''approvalStatus'', JStr (re_approval e)),
       (''evalStatus'', JStr (re_eval e))])"

text \<open>The checksum of a snapshot: SHA-256 of the key-sorted JSON text of the entry.\<close>

type_synonym snapshot_checksum = "registry_entity \<Rightarrow> string"

definition registry_log ::
  "string \<Rightarrow> string \<Rightarrow> string \<Rightarrow> registry_entity \<Rightarrow> jsobj option \<Rightarrow> jsobj option \<Rightarrow> string option \<Rightarrow>
   string \<Rightarrow> time \<Rightarrow> registry_audit" where
  "registry_log actor action kind x before after reason i t =
     \<lparr>ra_id = i, ra_actor_id = actor, ra_action = action, ra_kind = kind,
      ra_target_id = re_id (entry_of x), ra_name = re_name (entry_of x),
      ra_version = re_version (entry_of x), ra_before = before, ra_after = after,
      ra_reason = reason, ra_created_at = t\<rparr>"

definition append_revision_for ::
  "snapshot_checksum \<Rightarrow> draws \<Rightarrow> string \<Rightarrow> registry_entity \<Rightarrow> string \<Rightarrow> string option \<Rightarrow>
   string option \<Rightarrow> registry_state \<Rightarrow> registry_revision \<times> registry_state" where
  "append_revision_for hash s kind x actor reason audit st =
     append_revision s (\<lambda>i t.
       \<lparr>rv_id = i, rv_kind = kind, rv_target_id = re_id (entry_of x), rv_name = re_name (entry_of x),
        rv_version = re_version (entry_of x),
        rv_number = Suc (opt_default (map_option rv_number (latest_revision kind (re_id (entry_of x)) st)) 0),
        rv_snapshot = x, rv_checksum = hash x, rv_reason = reason, rv_created_by = actor,
        rv_audit_id = audit, rv_created_at = t\<rparr>) st"

definition ensure_initial_revision ::
  "snapshot_checksum \<Rightarrow> draws \<Rightarrow> string \<Rightarrow> registry_entity \<Rightarrow> string \<Rightarrow> registry_state \<Rightarrow> registry_state" where
  "ensure_initial_revision hash s kind x actor st =
     (if latest_revision kind (re_id (entry_of x)) st = None
      then snd (append_revision_for hash s kind x actor (Some ''initial snapshot'') None st) else st)"

text \<open>The audit entry and the revision of a change, the last two steps of every mutation.\<close>

definition record_change ::
  "snapshot_checksum \<Rightarrow> draws \<Rightarrow> string \<Rightarrow> string \<Rightarrow> string \<Rightarrow> registry_entity \<Rightarrow> registry_entity option \<Rightarrow>
   string option \<Rightarrow> string option \<Rightarrow> registry_state \<Rightarrow>
   (registry_audit \<times> registry_revision) \<times> registry_state" where
  "record_change hash s kind actor action x before reason rev_reason st =
     (let (log, st1) = append_registry_audit (sub 0 s) (registry_log actor action kind x
            (map_option entity_snapshot before) (Some (entity_snapshot x)) reason) st;
          (rev, st2) = append_revision_for hash (sub 1 s) kind x actor rev_reason (Some (ra_id log)) st1
      in ((log, rev), st2))"

section \<open>Creation\<close>

definition create_registered ::
  "engine \<Rightarrow> snapshot_checksum \<Rightarrow> draws \<Rightarrow> string \<Rightarrow> registry_actor \<Rightarrow> registry_entity result \<Rightarrow>
   (registry_entity \<Rightarrow> registry_state \<Rightarrow> registry_state) \<Rightarrow> (registry_state, registry_entity) op" where
  "create_registered decide hash s kind actor built push =
     op_bind (registry_authorize decide (sub 0 s) actor ''registry.create'' (Some kind) None) (\<lambda>_ st.
       case built of
         Inl e \<Rightarrow> (Inl e, st)
       | Inr x \<Rightarrow>
           (Inr x, snd (record_change hash (sub 1 s) kind (act_id actor) ''create'' x None None
              (Some ''create'') (push x st))))"

definition push_entity :: "registry_entity \<Rightarrow> registry_state \<Rightarrow> registry_state" where
  "push_entity x st =
     (case x of
        ESkill e \<Rightarrow> st\<lparr>rs_skills := rs_skills st @ [e]\<rparr>
      | EHarness e \<Rightarrow> st\<lparr>rs_harnesses := rs_harnesses st @ [e]\<rparr>
      | EInstruction e \<Rightarrow> st\<lparr>rs_instructions := rs_instructions st @ [e]\<rparr>)"

definition create_skill ::
  "engine \<Rightarrow> snapshot_checksum \<Rightarrow> draws \<Rightarrow> create_options \<Rightarrow> skill_package \<Rightarrow> registry_actor \<Rightarrow>
   (registry_state, registry_entity) op" where
  "create_skill decide hash s o' input actor =
     create_registered decide hash s ''skill'' actor
       (map_sum id ESkill (create_skill_package (sub 2 s) o' input)) push_entity"

definition create_harness ::
  "engine \<Rightarrow> snapshot_checksum \<Rightarrow> draws \<Rightarrow> create_options \<Rightarrow> harness_package \<Rightarrow> registry_actor \<Rightarrow>
   (registry_state, registry_entity) op" where
  "create_harness decide hash s o' input actor =
     create_registered decide hash s ''harness'' actor
       (map_sum id EHarness (create_harness_definition (sub 2 s) o' input)) push_entity"

definition create_instruction ::
  "engine \<Rightarrow> snapshot_checksum \<Rightarrow> draws \<Rightarrow> create_options \<Rightarrow> instruction_artifact \<Rightarrow> registry_actor \<Rightarrow>
   (registry_state, registry_entity) op" where
  "create_instruction decide hash s o' input actor =
     create_registered decide hash s ''instruction'' actor
       (map_sum id EInstruction (create_instruction_artifact (sub 2 s) o' input)) push_entity"

section \<open>Status, approval and evaluation\<close>

definition status_audit_action :: "string \<Rightarrow> string \<Rightarrow> string" where
  "status_audit_action status previous =
     (if status = ''archived'' then ''archive''
      else if previous = ''archived'' \<and> status = ''active'' then ''restore'' else ''status_change'')"

definition approval_audit_action :: "string \<Rightarrow> string" where
  "approval_audit_action status =
     (if status = ''approved'' then ''approve'' else if status = ''rejected'' then ''reject'' else ''update'')"

definition eval_audit_action :: "string \<Rightarrow> string" where
  "eval_audit_action status =
     (if status = ''passed'' then ''mark_eval_passed''
      else if status = ''failed'' then ''mark_eval_failed'' else ''update'')"

definition change_entity ::
  "engine \<Rightarrow> snapshot_checksum \<Rightarrow> draws \<Rightarrow> string \<Rightarrow> string \<Rightarrow> (registry_entity \<Rightarrow> string) \<Rightarrow>
   string \<Rightarrow> entry_patch \<Rightarrow> string \<Rightarrow> actor_input \<Rightarrow> (registry_state, registry_entity) op" where
  "change_entity decide hash s permission kind action why patch i a st0 =
     (let actor = acting a st0 in
      op_bind (registry_authorize decide (sub 0 s) actor permission (Some kind) (Some i)) (\<lambda>_.
      op_bind (require_entity kind i) (\<lambda>before st.
      op_bind (patch_entity (sub 2 s) kind i patch) (\<lambda>updated st2.
        (Inr updated,
         snd (record_change hash (sub 3 s) kind (act_id actor) (action before) updated (Some before)
           (ai_reason a) (Some (opt_default (ai_reason a) why)) st2)))
        (ensure_initial_revision hash (sub 1 s) kind before (act_id actor) st))) st0)"

definition no_patch :: entry_patch where
  "no_patch = \<lparr>pa_status = None, pa_approval = None, pa_eval = None\<rparr>"

definition update_status ::
  "engine \<Rightarrow> snapshot_checksum \<Rightarrow> draws \<Rightarrow> string \<Rightarrow> string \<Rightarrow> string \<Rightarrow> actor_input \<Rightarrow>
   (registry_state, registry_entity) op" where
  "update_status decide hash s kind i status a =
     change_entity decide hash s ''registry.status.change'' kind
       (\<lambda>before. status_audit_action status (re_status (entry_of before))) ''status_change''
       (no_patch\<lparr>pa_status := Some status\<rparr>) i a"

definition update_approval ::
  "engine \<Rightarrow> snapshot_checksum \<Rightarrow> draws \<Rightarrow> string \<Rightarrow> string \<Rightarrow> string \<Rightarrow> actor_input \<Rightarrow>
   (registry_state, registry_entity) op" where
  "update_approval decide hash s kind i status a =
     change_entity decide hash s ''registry.approval.change'' kind
       (\<lambda>_. approval_audit_action status) ''approval_change'' (no_patch\<lparr>pa_approval := Some status\<rparr>) i a"

definition update_eval ::
  "engine \<Rightarrow> snapshot_checksum \<Rightarrow> draws \<Rightarrow> string \<Rightarrow> string \<Rightarrow> string \<Rightarrow> actor_input \<Rightarrow>
   (registry_state, registry_entity) op" where
  "update_eval decide hash s kind i status a =
     change_entity decide hash s ''registry.eval.change'' kind
       (\<lambda>_. eval_audit_action status) ''eval_status_change'' (no_patch\<lparr>pa_eval := Some status\<rparr>) i a"

definition update_skill_status ::
  "engine \<Rightarrow> snapshot_checksum \<Rightarrow> draws \<Rightarrow> string \<Rightarrow> string \<Rightarrow> actor_input \<Rightarrow>
   (registry_state, registry_entity) op" where
  "update_skill_status decide hash s = update_status decide hash s ''skill''"

definition update_skill_approval ::
  "engine \<Rightarrow> snapshot_checksum \<Rightarrow> draws \<Rightarrow> string \<Rightarrow> string \<Rightarrow> actor_input \<Rightarrow>
   (registry_state, registry_entity) op" where
  "update_skill_approval decide hash s = update_approval decide hash s ''skill''"

definition update_skill_eval ::
  "engine \<Rightarrow> snapshot_checksum \<Rightarrow> draws \<Rightarrow> string \<Rightarrow> string \<Rightarrow> actor_input \<Rightarrow>
   (registry_state, registry_entity) op" where
  "update_skill_eval decide hash s = update_eval decide hash s ''skill''"

definition update_harness_status ::
  "engine \<Rightarrow> snapshot_checksum \<Rightarrow> draws \<Rightarrow> string \<Rightarrow> string \<Rightarrow> actor_input \<Rightarrow>
   (registry_state, registry_entity) op" where
  "update_harness_status decide hash s = update_status decide hash s ''harness''"

definition update_harness_approval ::
  "engine \<Rightarrow> snapshot_checksum \<Rightarrow> draws \<Rightarrow> string \<Rightarrow> string \<Rightarrow> actor_input \<Rightarrow>
   (registry_state, registry_entity) op" where
  "update_harness_approval decide hash s = update_approval decide hash s ''harness''"

definition update_harness_eval ::
  "engine \<Rightarrow> snapshot_checksum \<Rightarrow> draws \<Rightarrow> string \<Rightarrow> string \<Rightarrow> actor_input \<Rightarrow>
   (registry_state, registry_entity) op" where
  "update_harness_eval decide hash s = update_eval decide hash s ''harness''"

definition update_instruction_status ::
  "engine \<Rightarrow> snapshot_checksum \<Rightarrow> draws \<Rightarrow> string \<Rightarrow> string \<Rightarrow> actor_input \<Rightarrow>
   (registry_state, registry_entity) op" where
  "update_instruction_status decide hash s = update_status decide hash s ''instruction''"

definition update_instruction_approval ::
  "engine \<Rightarrow> snapshot_checksum \<Rightarrow> draws \<Rightarrow> string \<Rightarrow> string \<Rightarrow> actor_input \<Rightarrow>
   (registry_state, registry_entity) op" where
  "update_instruction_approval decide hash s = update_approval decide hash s ''instruction''"

definition update_instruction_eval ::
  "engine \<Rightarrow> snapshot_checksum \<Rightarrow> draws \<Rightarrow> string \<Rightarrow> string \<Rightarrow> actor_input \<Rightarrow>
   (registry_state, registry_entity) op" where
  "update_instruction_eval decide hash s = update_eval decide hash s ''instruction''"

section \<open>Checksum verification\<close>

definition is_safe_relative_path :: "string \<Rightarrow> bool" where
  "is_safe_relative_path p \<longleftrightarrow> p \<noteq> [] \<and> \<not> starts_with p ''/'' \<and> \<not> str_includes p ''..''"

text \<open>
  The files below a repository root: the content at a safe relative path, if there is such a file.
  The further check that the resolved path stays below the root holds for every safe path.
\<close>

type_synonym repo_files = "string \<Rightarrow> string \<Rightarrow> string option"

definition read_safe_file :: "repo_files \<Rightarrow> string \<Rightarrow> string \<Rightarrow> string option" where
  "read_safe_file files dir p = (if is_safe_relative_path p then files dir p else None)"

definition verify_checksum ::
  "(string \<Rightarrow> string) \<Rightarrow> repo_files \<Rightarrow> time \<Rightarrow> string option \<Rightarrow> instruction_artifact \<Rightarrow>
   instruction_artifact \<Rightarrow> instruction_artifact" where
  \<comment> \<open>the patch that \<open>verifyInstructionChecksum\<close> returns for the first artifact, applied to the second\<close>
  "verify_checksum sha files now dir x e =
     (let content = opt_or (ia_body x)
            (if truthy_str (ia_path x) \<and> truthy_str dir
             then read_safe_file files (the dir) (the (ia_path x)) else None)
      in if ia_algorithm x \<noteq> ''sha256'' then e\<lparr>re_checksum_status := Some ''unavailable''\<rparr>
         else (case content of
                 None \<Rightarrow> e\<lparr>re_checksum_status := Some ''unavailable''\<rparr>
               | Some c \<Rightarrow>
                   e\<lparr>re_checksum_status :=
                       Some (if re_checksum x = Some (''sha256:'' @ sha c) then ''verified'' else ''mismatch''),
                     ia_verified_at := Some now\<rparr>))"

definition verified_snapshot :: "instruction_artifact \<Rightarrow> jsobj" where
  \<comment> \<open>the date is written as its milliseconds\<close>
  "verified_snapshot e = entity_snapshot (EInstruction e) @
     [(''checksumStatus'', of_opt_str (re_checksum_status e)),
      (''checksumVerifiedAt'',
        case ia_verified_at e of None \<Rightarrow> JUndef | Some t \<Rightarrow> JNum (of_int t))]"

definition verify_instruction_checksum ::
  "engine \<Rightarrow> (string \<Rightarrow> string) \<Rightarrow> snapshot_checksum \<Rightarrow> repo_files \<Rightarrow> draws \<Rightarrow> string \<Rightarrow> string option \<Rightarrow>
   actor_input \<Rightarrow> (registry_state, instruction_artifact) op" where
  "verify_instruction_checksum decide sha hash files s i dir a st0 =
     (let actor = acting a st0 in
      op_bind (registry_authorize decide (sub 0 s) actor ''registry.checksum.verify''
        (Some ''instruction'') (Some i)) (\<lambda>_ st.
      case find_by re_id i (rs_instructions st) of
        None \<Rightarrow> (Inl (Error (''Instruction artifact not found: '' @ i)), st)
      | Some before \<Rightarrow>
          op_bind (update_instruction (sub 2 s) i
              (verify_checksum sha files (clock 3 s) (opt_or dir (rs_repo_root st0)) before))
            (\<lambda>updated st2.
              let (log, st3) = append_registry_audit (sub 4 s) (registry_log (act_id actor)
                     (if re_checksum_status updated = Some ''verified'' then ''checksum_verified''
                      else ''checksum_failed'')
                     ''instruction'' (EInstruction updated) (Some (entity_snapshot (EInstruction before)))
                     (Some (verified_snapshot updated)) (ai_reason a)) st2
              in (Inr updated,
                  if re_checksum_status before \<noteq> re_checksum_status updated \<or>
                     ia_verified_at before \<noteq> ia_verified_at updated
                  then snd (append_revision_for hash (sub 5 s) ''instruction'' (EInstruction updated)
                    (act_id actor) (Some (opt_default (ai_reason a) ''checksum_verification''))
                    (Some (ra_id log)) st3)
                  else st3))
            (ensure_initial_revision hash (sub 1 s) ''instruction'' (EInstruction before) (act_id actor) st))
        st0)"

section \<open>Rollback\<close>

text \<open>
  The entry a revision restores: \<open>Object.assign\<close> of the snapshot over the current entry, so a member
  that is missing from the snapshot keeps its current value; only the date of the last
  verification is written even when it is undefined.
\<close>

definition restore_entry ::
  "string \<Rightarrow> 'a registry_entry_scheme \<Rightarrow> 'a registry_entry_scheme \<Rightarrow> 'a registry_entry_scheme" where
  "restore_entry i snap current =
     snap\<lparr>re_id := i, re_dependencies := opt_or (re_dependencies snap) (re_dependencies current)\<rparr>"

definition restore_skill :: "string \<Rightarrow> skill_package \<Rightarrow> skill_package \<Rightarrow> skill_package" where
  "restore_skill i snap current =
     (restore_entry i snap current)\<lparr>sk_models := opt_or (sk_models snap) (sk_models current),
       sk_instruction_ref := opt_or (sk_instruction_ref snap) (sk_instruction_ref current),
       sk_body := opt_or (sk_body snap) (sk_body current)\<rparr>"

definition restore_harness :: "string \<Rightarrow> harness_package \<Rightarrow> harness_package \<Rightarrow> harness_package" where
  "restore_harness i snap current =
     (restore_entry i snap current)\<lparr>ha_image := opt_or (ha_image snap) (ha_image current),
       ha_network := opt_or (ha_network snap) (ha_network current),
       ha_loading := opt_or (ha_loading snap) (ha_loading current)\<rparr>"

definition restore_instruction ::
  "string \<Rightarrow> instruction_artifact \<Rightarrow> instruction_artifact \<Rightarrow> instruction_artifact" where
  "restore_instruction i snap current =
     (restore_entry i snap current)\<lparr>ia_path := opt_or (ia_path snap) (ia_path current),
       ia_body := opt_or (ia_body snap) (ia_body current)\<rparr>"

definition restore_from_snapshot ::
  "draws \<Rightarrow> string \<Rightarrow> registry_entity \<Rightarrow> (registry_state, registry_entity) op" where
  \<comment> \<open>a snapshot is an entry of the kind of its revision\<close>
  "restore_from_snapshot s i snap st =
     (case snap of
        ESkill e \<Rightarrow> map_outcome ESkill (update_skill s i (restore_skill i e) st)
      | EHarness e \<Rightarrow> map_outcome EHarness (update_harness s i (restore_harness i e) st)
      | EInstruction e \<Rightarrow> map_outcome EInstruction (update_instruction s i (restore_instruction i e) st))"

record rollback_input =
  rb_kind :: string
  rb_target_id :: string
  rb_revision_id :: "string option"
  rb_number :: "int option"
  rb_reason :: string
  rb_actor :: "registry_actor option"
  rb_actor_id :: "string option"

record rollback_result =
  ro_kind :: string
  ro_target_id :: string
  ro_from :: registry_revision
  ro_to :: registry_revision
  ro_new :: registry_revision
  ro_audit_id :: string
  ro_created_at :: time

definition rollback_target :: "string \<Rightarrow> rollback_input \<Rightarrow> registry_state \<Rightarrow> registry_revision option" where
  "rollback_target kind q st =
     (if truthy_str (rb_revision_id q) then get_revision (the (rb_revision_id q)) st
      else (case rb_number q of
              None \<Rightarrow> None
            | Some n \<Rightarrow> List.find (\<lambda>r. int (rv_number r) = n) (list_revisions kind (rb_target_id q) st)))"

definition rollback_to ::
  "snapshot_checksum \<Rightarrow> draws \<Rightarrow> string \<Rightarrow> registry_actor \<Rightarrow> rollback_input \<Rightarrow> registry_entity \<Rightarrow>
   registry_revision \<Rightarrow> registry_revision \<Rightarrow> (registry_state, rollback_result) op" where
  \<comment> \<open>from the check of the reason on\<close>
  "rollback_to hash s kind actor q current latest target =
     op_bind (\<lambda>st. (require_string (rb_reason q) ''rollback.reason'', st)) (\<lambda>reason.
     op_bind (restore_from_snapshot (sub 2 s) (rb_target_id q) (rv_snapshot target)) (\<lambda>restored st.
       let ((log, rev), st1) = record_change hash (sub 3 s) kind (act_id actor) ''rollback'' restored
             (Some current) (Some reason) (Some (''rollback: '' @ reason)) st
       in (Inr \<lparr>ro_kind = kind, ro_target_id = re_id (entry_of restored), ro_from = latest,
                ro_to = target, ro_new = rev, ro_audit_id = ra_id log, ro_created_at = clock 4 s\<rparr>,
           st1)))"

definition rollback ::
  "engine \<Rightarrow> snapshot_checksum \<Rightarrow> draws \<Rightarrow> rollback_input \<Rightarrow> (registry_state, rollback_result) op" where
  "rollback decide hash s q st0 =
     (let actor = actor_from_input (rs_default_actor st0) (rb_actor q) (rb_actor_id q); i = rb_target_id q in
      op_bind (\<lambda>st. (assert_registry_kind (rb_kind q) ''rollback.targetKind'', st)) (\<lambda>kind.
      op_bind (registry_authorize decide (sub 0 s) actor ''registry.rollback'' (Some kind) (Some i)) (\<lambda>_.
      op_bind (require_entity kind i) (\<lambda>current st.
        let st1 = ensure_initial_revision hash (sub 1 s) kind current (act_id actor) st in
        case latest_revision kind i st1 of
          None \<Rightarrow> (Inl (Error (''No registry history found for '' @ kind @ '': '' @ i)), st1)
        | Some latest \<Rightarrow>
            (case rollback_target kind q st1 of
               None \<Rightarrow> (Inl (Error (''Rollback revision not found for '' @ kind @ '': '' @ i)), st1)
             | Some target \<Rightarrow>
                 if \<not> of_target kind i target
                 then (Inl (Error (''Rollback revision not found for '' @ kind @ '': '' @ i)), st1)
                 else rollback_to hash s kind actor q current latest target st1)))) st0)"

section \<open>Evaluation results\<close>

definition eval_status_from_result :: "string \<Rightarrow> string option" where
  "eval_status_from_result status =
     (if status = ''passed'' then Some ''passed'' else if status = ''failed'' then Some ''failed''
      else if status = ''pending'' then Some ''pending'' else None)"

record eval_input =
  ei_name :: string
  ei_type :: string
  ei_status :: string
  ei_score :: "num option"
  ei_max_score :: "num option"
  ei_summary :: string
  ei_details :: "string option"
  ei_attached_by :: "string option"
  ei_source :: string
  ei_artifact :: "string option"
  ei_update :: bool
  ei_by :: actor_input

definition eval_result_of ::
  "string \<Rightarrow> registry_entity \<Rightarrow> registry_actor \<Rightarrow> eval_input \<Rightarrow> (string \<Rightarrow> time \<Rightarrow> eval_result) result" where
  "eval_result_of kind x actor q =
     bind_result (require_string (ei_name q) ''evalResult.evalName'') (\<lambda>name.
     bind_result (assert_eval_result_type (ei_type q) ''evalResult.evalType'') (\<lambda>ty.
     bind_result (assert_eval_result_status (ei_status q) ''evalResult.status'') (\<lambda>status.
     bind_result (require_string (ei_summary q) ''evalResult.summary'') (\<lambda>summary.
     bind_result (assert_eval_result_source (ei_source q) ''evalResult.source'') (\<lambda>source.
       Inr (\<lambda>i t. \<lparr>ev_id = i, ev_kind = kind, ev_target_id = re_id (entry_of x),
         ev_target_name = re_name (entry_of x), ev_target_version = re_version (entry_of x),
         ev_name = name, ev_type = ty, ev_status = status, ev_score = ei_score q,
         ev_max_score = ei_max_score q, ev_summary = summary, ev_details = ei_details q,
         ev_attached_by = opt_default (ei_attached_by q) (act_id actor), ev_source = source,
         ev_artifact = ei_artifact q, ev_attached_at = t\<rparr>))))))"

definition apply_eval_result ::
  "snapshot_checksum \<Rightarrow> draws \<Rightarrow> string \<Rightarrow> registry_actor \<Rightarrow> eval_input \<Rightarrow> registry_entity \<Rightarrow>
   eval_result \<Rightarrow> string \<Rightarrow> (registry_state, eval_result) op" where
  \<comment> \<open>the branch that also changes the status of the entry\<close>
  "apply_eval_result hash s kind actor q x r audit_id st =
     (let st1 = ensure_initial_revision hash (sub 3 s) kind x (act_id actor) st in
      case eval_status_from_result (ev_status r) of
        None \<Rightarrow> (Inr r, st1)
      | Some status \<Rightarrow>
          op_bind (patch_entity (sub 4 s) kind (re_id (entry_of x)) (no_patch\<lparr>pa_eval := Some status\<rparr>))
            (\<lambda>updated st2. (Inr r, snd (append_revision_for hash (sub 5 s) kind updated (act_id actor)
               (Some (opt_default (ai_reason (ei_by q)) ''eval_result_attached'')) (Some audit_id) st2))) st1)"

definition attach_eval_result ::
  "engine \<Rightarrow> snapshot_checksum \<Rightarrow> draws \<Rightarrow> string \<Rightarrow> string \<Rightarrow> eval_input \<Rightarrow>
   (registry_state, eval_result) op" where
  "attach_eval_result decide hash s target_kind i q st0 =
     (let actor = acting (ei_by q) st0 in
      op_bind (\<lambda>st. (assert_registry_kind target_kind ''evalResult.targetKind'', st)) (\<lambda>kind.
      op_bind (registry_authorize decide (sub 0 s) actor ''registry.eval.change'' (Some kind) (Some i)) (\<lambda>_.
      op_bind (require_entity kind i) (\<lambda>x.
      op_bind (\<lambda>st. (eval_result_of kind x actor q, st)) (\<lambda>mk st.
        let (r, st1) = append_eval_result (sub 1 s) mk st;
            (log, st2) = append_registry_audit (sub 2 s) (registry_log (act_id actor) ''attach_eval_result''
              kind x (Some (entity_snapshot x))
              (Some (entity_snapshot x @ [(''evalResultId'', JStr (ev_id r)),
                 (''evalResultStatus'', JStr (ev_status r))])) (ai_reason (ei_by q))) st1
        in if ei_update q then apply_eval_result hash s kind actor q x r (ra_id log) st2
           else (Inr r, st2))))) st0)"

section \<open>Queries\<close>

definition authorized_read ::
  "engine \<Rightarrow> draws \<Rightarrow> registry_actor option \<Rightarrow> string \<Rightarrow> string option \<Rightarrow> string option \<Rightarrow>
   (registry_state \<Rightarrow> 'a) \<Rightarrow> (registry_state, 'a) op" where
  "authorized_read decide s actor permission kind i query st0 =
     op_bind (registry_authorize decide s (opt_default actor (rs_default_actor st0)) permission kind i)
       (\<lambda>_ st. (Inr (query st), st)) st0"

definition list_registry_skills ::
  "engine \<Rightarrow> draws \<Rightarrow> registry_actor option \<Rightarrow> (registry_state, skill_package list) op" where
  "list_registry_skills decide s actor = authorized_read decide s actor ''registry.read'' None None rs_skills"

definition list_registry_harnesses ::
  "engine \<Rightarrow> draws \<Rightarrow> registry_actor option \<Rightarrow> (registry_state, harness_package list) op" where
  "list_registry_harnesses decide s actor =
     authorized_read decide s actor ''registry.read'' None None rs_harnesses"

definition list_registry_instructions ::
  "engine \<Rightarrow> draws \<Rightarrow> registry_actor option \<Rightarrow> (registry_state, instruction_artifact list) op" where
  "list_registry_instructions decide s actor =
     authorized_read decide s actor ''registry.read'' None None rs_instructions"

definition list_revisions_for_target ::
  "engine \<Rightarrow> draws \<Rightarrow> string \<Rightarrow> string \<Rightarrow> registry_actor option \<Rightarrow>
   (registry_state, registry_revision list) op" where
  "list_revisions_for_target decide s kind i actor =
     authorized_read decide s actor ''registry.history.read'' (Some kind) (Some i) (list_revisions kind i)"

definition list_evals_for_target ::
  "engine \<Rightarrow> draws \<Rightarrow> string \<Rightarrow> string \<Rightarrow> registry_actor option \<Rightarrow> (registry_state, eval_result list) op" where
  "list_evals_for_target decide s kind i actor =
     authorized_read decide s actor ''registry.read'' (Some kind) (Some i) (list_eval_results kind i)"

definition list_registry_audit ::
  "engine \<Rightarrow> draws \<Rightarrow> string option \<Rightarrow> string option \<Rightarrow> registry_actor option \<Rightarrow>
   (registry_state, registry_audit list) op" where
  "list_registry_audit decide s kind i actor =
     authorized_read decide s actor ''registry.audit.read'' kind i (\<lambda>st.
       if truthy_str kind \<and> truthy_str i then list_audit_for_target (the kind) (the i) st
       else if truthy_str kind then filter (\<lambda>l. Some (ra_kind l) = kind) (rs_audit st)
       else rs_audit st)"

section \<open>Approval queue\<close>

record queue_item =
  aq_id :: string
  aq_kind :: string
  aq_target_id :: string
  aq_name :: string
  aq_version :: string
  aq_approval :: string
  aq_requested_by :: string
  aq_requested_at :: time
  aq_reason :: "string option"
  aq_status :: string
  aq_eval :: string
  aq_checksum_status :: "string option"
  aq_blocking :: "string list"
  aq_action :: string

definition queue_blocking_reasons :: "'a registry_entry_scheme \<Rightarrow> string list" where
  "queue_blocking_reasons e =
     (if re_status e \<noteq> ''active'' then [''lifecycle status is '' @ re_status e] else []) @
     (if re_eval e \<noteq> ''not_required'' \<and> re_eval e \<noteq> ''passed'' then [''evalStatus is '' @ re_eval e] else []) @
     (if re_checksum_status e = Some ''mismatch'' then [''checksumStatus is mismatch''] else [])"

definition approval_recommendation :: "'a registry_entry_scheme \<Rightarrow> string list \<Rightarrow> string" where
  "approval_recommendation e reasons =
     (if re_approval e = ''pending'' \<and> reasons = [] then ''review_for_approval''
      else if re_approval e = ''pending'' then ''resolve_blocking_reasons_before_approval''
      else if re_approval e = ''rejected'' then ''revise_or_archive'' else ''no_action_required'')"

definition queue_item_for :: "string \<Rightarrow> registry_entity \<Rightarrow> registry_state \<Rightarrow> queue_item" where
  "queue_item_for kind x st =
     (let e = entry_of x; latest = at_last (list_audit_for_target kind (re_id e) st);
          reasons = queue_blocking_reasons e
      in \<lparr>aq_id = ''approval:'' @ kind @ '':'' @ re_id e, aq_kind = kind, aq_target_id = re_id e,
          aq_name = re_name e, aq_version = re_version e, aq_approval = re_approval e,
          aq_requested_by = opt_default (map_option ra_actor_id latest) (re_owner e),
          aq_requested_at = opt_default (map_option ra_created_at latest) (re_updated_at e),
          aq_reason = Option.bind latest ra_reason, aq_status = re_status e, aq_eval = re_eval e,
          aq_checksum_status = re_checksum_status e, aq_blocking = reasons,
          aq_action = approval_recommendation e reasons\<rparr>)"

definition approval_cmp :: "queue_item \<Rightarrow> queue_item \<Rightarrow> int" where
  "approval_cmp = cmp_or (\<lambda>l r. num_cmp (aq_requested_at l) (aq_requested_at r))
     (cmp_or (\<lambda>l r. locale_compare (aq_kind l) (aq_kind r))
             (\<lambda>l r. locale_compare (aq_name l) (aq_name r)))"

record queue_filter =
  qf_kind :: "string option"
  qf_approval :: "string option"
  qf_owner :: "string option"
  qf_archived :: bool

definition queue_items :: "registry_state \<Rightarrow> queue_item list" where
  "queue_items st =
     map (\<lambda>e. queue_item_for ''skill'' (ESkill e) st) (rs_skills st) @
     map (\<lambda>e. queue_item_for ''harness'' (EHarness e) st) (rs_harnesses st) @
     map (\<lambda>e. queue_item_for ''instruction'' (EInstruction e) st) (rs_instructions st)"

definition queue_owner :: "queue_item \<Rightarrow> registry_state \<Rightarrow> string option" where
  "queue_owner item st =
     map_option (\<lambda>x. re_owner (entry_of x)) (find_entity (aq_kind item) (aq_target_id item) st)"

definition queue_selected :: "queue_filter \<Rightarrow> registry_state \<Rightarrow> queue_item \<Rightarrow> bool" where
  "queue_selected f st item \<longleftrightarrow>
     aq_approval item = opt_default (qf_approval f) ''pending'' \<and>
     (\<not> truthy_str (qf_kind f) \<or> Some (aq_kind item) = qf_kind f) \<and>
     (\<not> truthy_str (qf_owner f) \<or> queue_owner item st = qf_owner f) \<and>
     (qf_archived f \<or> aq_status item \<noteq> ''archived'')"

definition list_approval_queue ::
  "engine \<Rightarrow> draws \<Rightarrow> queue_filter \<Rightarrow> registry_actor option \<Rightarrow> (registry_state, queue_item list) op" where
  "list_approval_queue decide s f actor =
     authorized_read decide s actor ''registry.read'' None None
       (\<lambda>st. sort_by approval_cmp (filter (queue_selected f st) (queue_items st)))"

end
