(* ===== verification/RegistryHistory.thy ===== *)
theory RegistryHistory
  imports RegistryService
begin

text \<open>
  What the registry service promises: a mutation that is not authorized changes nothing, the
  revisions of an entry are numbered consecutively and the last one shows the entry as it is,
  and a rollback brings back the entry of an earlier revision.
\<close>

section \<open>Frames\<close>

text \<open>Two states with the same entries and history: an authorization changes the policy service only.\<close>

definition same_registry :: "registry_state \<Rightarrow> registry_state \<Rightarrow> bool" where
  "same_registry st st' \<longleftrightarrow> st'\<lparr>rs_policy := None\<rparr> = st\<lparr>rs_policy := None\<rparr>"

lemma same_registry_refl [simp]: "same_registry st st"
  by (simp add: same_registry_def)

lemma same_registryD:
  assumes "same_registry st st'"
  shows "rs_skills st' = rs_skills st" "rs_harnesses st' = rs_harnesses st"
    "rs_instructions st' = rs_instructions st" "rs_revisions st' = rs_revisions st"
    "rs_audit st' = rs_audit st" "rs_evals st' = rs_evals st"
    "rs_default_actor st' = rs_default_actor st"
  using assms by (cases st; cases st'; simp add: same_registry_def)+

lemma authorizer_frame: "same_registry st (snd (authorizer_verdict decide s actor p kind i st))"
  by (auto simp: authorizer_verdict_def same_registry_def Let_def split: option.splits prod.splits)

lemma authorize_frame: "registry_authorize decide s actor p kind i st = (r, st') \<Longrightarrow> same_registry st st'"
  using authorizer_frame[of st decide s actor p kind i]
  by (auto simp: registry_authorize_def split: prod.splits)

lemma find_entity_same: "same_registry st st' \<Longrightarrow> find_entity kind i st' = find_entity kind i st"
  by (simp add: find_entity_def same_registryD)

section \<open>Lookups after a change\<close>

definition entity_id :: "registry_entity \<Rightarrow> string" where
  "entity_id x = re_id (entry_of x)"

lemma entity_id_simps [simp]:
  "entity_id (ESkill e) = re_id e" "entity_id (EHarness h) = re_id h" "entity_id (EInstruction a) = re_id a"
  by (simp_all add: entity_id_def registry_entry.truncate_def)

lemma find_entity_shape:
  "find_entity kind i st = Some x \<Longrightarrow> kind \<in> set registry_kinds \<Longrightarrow> shape_of x = kind \<and> entity_id x = i"
  by (auto simp: find_entity_def registry_kinds_def split: if_splits dest: find_by_Some)

text \<open>Replacing an entry by one of the same kind and id changes the answer for that entry only.\<close>

definition replaces :: "registry_entity \<Rightarrow> registry_entity \<Rightarrow> registry_state \<Rightarrow> registry_state \<Rightarrow> bool" where
  "replaces x y st st' \<longleftrightarrow> shape_of y = shape_of x \<and> entity_id y = entity_id x \<and>
     rs_revisions st' = rs_revisions st \<and>
     (\<forall>kind \<in> set registry_kinds. \<forall>i. find_entity kind i st' =
        (if kind = shape_of x \<and> i = entity_id x then Some y else find_entity kind i st))"

lemma find_by_update_at:
  "(\<And>e. key e = i \<Longrightarrow> key (g e) = i) \<Longrightarrow>
   find_by key k (update_by key i g xs) =
     (if k = i then map_option g (find_by key i xs) else find_by key k xs)"
  by (induction xs) auto

lemma update_skill_replaces:
  assumes "update_skill s i f st = (Inr e', st')" and "\<And>e. re_id e = i \<Longrightarrow> re_id (f e) = i"
  shows "\<exists>e. find_by re_id i (rs_skills st) = Some e \<and> e' = (f e)\<lparr>re_updated_at := clock 0 s\<rparr> \<and>
    replaces (ESkill e) (ESkill e') st st'"
proof -
  from assms(1) obtain e where e: "find_by re_id i (rs_skills st) = Some e"
    and e': "e' = (f e)\<lparr>re_updated_at := clock 0 s\<rparr>"
    and st': "st' = st\<lparr>rs_skills := update_by re_id i (\<lambda>e. (f e)\<lparr>re_updated_at := clock 0 s\<rparr>) (rs_skills st)\<rparr>"
    by (auto simp: update_skill_def Let_def split: option.splits)
  with find_by_Some[OF e] assms(2) show ?thesis
    by (auto simp: replaces_def find_entity_def registry_kinds_def find_by_update_at)
qed

lemma update_harness_replaces:
  assumes "update_harness s i f st = (Inr e', st')" and "\<And>e. re_id e = i \<Longrightarrow> re_id (f e) = i"
  shows "\<exists>e. find_by re_id i (rs_harnesses st) = Some e \<and> e' = (f e)\<lparr>re_updated_at := clock 0 s\<rparr> \<and>
    replaces (EHarness e) (EHarness e') st st'"
proof -
  from assms(1) obtain e where e: "find_by re_id i (rs_harnesses st) = Some e"
    and e': "e' = (f e)\<lparr>re_updated_at := clock 0 s\<rparr>"
    and st': "st' = st\<lparr>rs_harnesses :=
      update_by re_id i (\<lambda>e. (f e)\<lparr>re_updated_at := clock 0 s\<rparr>) (rs_harnesses st)\<rparr>"
    by (auto simp: update_harness_def Let_def split: option.splits)
  with find_by_Some[OF e] assms(2) show ?thesis
    by (auto simp: replaces_def find_entity_def registry_kinds_def find_by_update_at)
qed

lemma update_instruction_replaces:
  assumes "update_instruction s i f st = (Inr e', st')" and "\<And>e. re_id e = i \<Longrightarrow> re_id (f e) = i"
  shows "\<exists>e. find_by re_id i (rs_instructions st) = Some e \<and> e' = (f e)\<lparr>re_updated_at := clock 0 s\<rparr> \<and>
    replaces (EInstruction e) (EInstruction e') st st'"
proof -
  from assms(1) obtain e where e: "find_by re_id i (rs_instructions st) = Some e"
    and e': "e' = (f e)\<lparr>re_updated_at := clock 0 s\<rparr>"
    and st': "st' = st\<lparr>rs_instructions :=
      update_by re_id i (\<lambda>e. (f e)\<lparr>re_updated_at := clock 0 s\<rparr>) (rs_instructions st)\<rparr>"
    by (auto simp: update_instruction_def Let_def split: option.splits)
  with find_by_Some[OF e] assms(2) show ?thesis
    by (auto simp: replaces_def find_entity_def registry_kinds_def find_by_update_at)
qed

lemma update_missing:
  "update_skill s i f st = (Inl e, st') \<Longrightarrow> st' = st"
  "update_harness s i g st = (Inl e, st') \<Longrightarrow> st' = st"
  "update_instruction s i h st = (Inl e, st') \<Longrightarrow> st' = st"
  by (auto simp: update_skill_def update_harness_def update_instruction_def Let_def split: option.splits)

lemma apply_patch_id [simp]: "re_id (apply_patch p e) = re_id e"
  by (simp add: apply_patch_def)

lemma map_outcome_simps:
  "map_outcome f r = (Inr y, st') \<longleftrightarrow> (\<exists>x. r = (Inr x, st') \<and> y = f x)"
  "map_outcome f r = (Inl e, st') \<longleftrightarrow> r = (Inl e, st')"
  by (cases r; cases "fst r"; auto simp: map_outcome_def)+

lemma patch_entity_replaces:
  assumes "patch_entity s kind i p st = (Inr y, st')" and "kind \<in> set registry_kinds"
  shows "\<exists>x. find_entity kind i st = Some x \<and> replaces x y st st'"
  using assms
  by (auto simp: patch_entity_def map_outcome_simps registry_kinds_def find_entity_def split: if_splits
      dest!: update_skill_replaces update_harness_replaces update_instruction_replaces)

lemma patch_entity_missing: "patch_entity s kind i p st = (Inl e, st') \<Longrightarrow> st' = st"
  by (auto simp: patch_entity_def map_outcome_simps split: if_splits dest: update_missing)

lemma restore_ids [simp]:
  "re_id (restore_skill i e c) = i" "re_id (restore_harness i h d) = i"
  "re_id (restore_instruction i a b) = i"
  by (simp_all add: restore_skill_def restore_harness_def restore_instruction_def restore_entry_def)

lemma restore_replaces:
  assumes "restore_from_snapshot s i snap st = (Inr y, st')"
  shows "\<exists>x. find_entity (shape_of snap) i st = Some x \<and> replaces x y st st'"
proof (cases snap)
  case (ESkill e)
  with assms show ?thesis
    using update_skill_replaces[of s i "restore_skill i e" st _ st']
    by (auto simp: restore_from_snapshot_def map_outcome_simps find_entity_def)
next
  case (EHarness e)
  with assms show ?thesis
    using update_harness_replaces[of s i "restore_harness i e" st _ st']
    by (auto simp: restore_from_snapshot_def map_outcome_simps find_entity_def)
next
  case (EInstruction e)
  with assms show ?thesis
    using update_instruction_replaces[of s i "restore_instruction i e" st _ st']
    by (auto simp: restore_from_snapshot_def map_outcome_simps find_entity_def)
qed

lemma restore_missing: "restore_from_snapshot s i snap st = (Inl e, st') \<Longrightarrow> st' = st"
  by (auto simp: restore_from_snapshot_def map_outcome_simps split: registry_entity.splits dest: update_missing)

section \<open>The invariant\<close>

fun without_date :: "registry_entity \<Rightarrow> registry_entity" where
  "without_date (ESkill e) = ESkill (e\<lparr>re_updated_at := 0\<rparr>)"
| "without_date (EHarness e) = EHarness (e\<lparr>re_updated_at := 0\<rparr>)"
| "without_date (EInstruction e) = EInstruction (e\<lparr>re_updated_at := 0\<rparr>)"

text \<open>The history of an entry is numbered from 1 on, and its last snapshot is the entry.\<close>

definition revision_history :: "string \<Rightarrow> string \<Rightarrow> registry_state \<Rightarrow> registry_revision list" where
  "revision_history kind i st = filter (of_target kind i) (rs_revisions st)"

definition numbered :: "registry_state \<Rightarrow> bool" where
  "numbered st \<longleftrightarrow> (\<forall>kind i. map rv_number (revision_history kind i st) = [1..<Suc (length (revision_history kind i st))]) \<and>
     (\<forall>r \<in> set (rs_revisions st). rv_kind r = shape_of (rv_snapshot r) \<and>
        rv_target_id r = entity_id (rv_snapshot r))"

definition current :: "registry_state \<Rightarrow> string \<Rightarrow> string \<Rightarrow> bool" where
  "current st kind i \<longleftrightarrow> (revision_history kind i st \<noteq> [] \<longrightarrow>
     (\<exists>x. find_entity kind i st = Some x \<and>
        without_date (rv_snapshot (last (revision_history kind i st))) = without_date x))"

definition history_inv :: "registry_state \<Rightarrow> bool" where
  "history_inv st \<longleftrightarrow> numbered st \<and> (\<forall>kind \<in> set registry_kinds. \<forall>i. current st kind i)"

interpretation revision_order: js_comparator revision_cmp
  unfolding revision_cmp_def
  by (rule js_comparator_or; rule js_comparator_key; rule num_cmp.js_comparator_axioms)

lemma history_sorted:
  assumes "numbered st"
  shows "list_revisions kind i st = revision_history kind i st"
proof -
  let ?h = "revision_history kind i st"
  have n: "map rv_number ?h = [1..<Suc (length ?h)]" using assms by (simp add: numbered_def)
  have "distinct (map rv_number ?h)" by (simp only: n distinct_upt)
  then have inj: "inj_on rv_number (set ?h)" by (simp add: distinct_map)
  have "sorted_wrt (<) (map rv_number ?h)" by (simp only: n) (simp only: sorted_wrt_upt)
  then have "sorted_wrt (\<lambda>a b. rv_number a < rv_number b) ?h" by (simp add: sorted_wrt_map)
  then have "sorted_wrt (\<lambda>a b. revision_cmp a b \<le> 0) ?h"
    by (rule sorted_wrt_mono_rel[rotated]) (simp add: revision_cmp_def cmp_or_def num_cmp_def Let_def)
  moreover have "a = b" if "a \<in> set ?h" "b \<in> set ?h" "revision_cmp a b = 0" for a b
    using that inj by (auto simp: revision_cmp_def cmp_or_def num_cmp_def Let_def
        split: if_splits dest: inj_onD)
  ultimately have "?h = sort_by revision_cmp ?h"
    by (intro revision_order.sorted_perm_unique revision_order.sorted_sort_by) auto
  then show ?thesis by (simp add: list_revisions_def revision_history_def)
qed

lemma latest_history:
  "numbered st \<Longrightarrow> latest_revision kind i st =
     (if revision_history kind i st = [] then None else Some (last (revision_history kind i st)))"
  by (simp add: latest_revision_def at_last_def history_sorted)

lemma latest_number:
  assumes "numbered st"
  shows "opt_default (map_option rv_number (latest_revision kind i st)) 0 = length (revision_history kind i st)"
proof (cases "revision_history kind i st = []")
  case False
  have "map rv_number (revision_history kind i st) = [1..<Suc (length (revision_history kind i st))]"
    using assms by (simp add: numbered_def)
  then have "last (map rv_number (revision_history kind i st)) = length (revision_history kind i st)"
    using False by (simp del: upt_Suc)
  with False show ?thesis by (simp add: latest_history[OF assms] last_map)
qed (simp add: latest_history[OF assms])

text \<open>Appending the revision of an entry.\<close>

lemma append_revision_history:
  assumes "append_revision_for hash s kind x actor reason audit st = (r, st')"
  shows "revision_history k i st' = revision_history k i st @ (if k = kind \<and> i = entity_id x then [r] else [])"
    and "rv_snapshot r = x" and "rv_kind r = kind" and "rv_target_id r = entity_id x"
    and "rv_number r = Suc (opt_default (map_option rv_number (latest_revision kind (entity_id x) st)) 0)"
    and "find_entity k i st' = find_entity k i st" and "rs_revisions st' = rs_revisions st @ [r]"
  using assms
  by (auto simp: append_revision_for_def append_revision_def Let_def revision_history_def of_target_def
      entity_id_def find_entity_def)

lemma append_revision_numbered:
  assumes "append_revision_for hash s (shape_of x) x actor reason audit st = (r, st')" and "numbered st"
  shows "numbered st'" and "current st' (shape_of x) i = (if i = entity_id x then
      (\<exists>y. find_entity (shape_of x) i st = Some y \<and> without_date x = without_date y)
      else current st (shape_of x) i)"
    and "k \<noteq> shape_of x \<Longrightarrow> current st' k i = current st k i"
proof -
  note a = append_revision_history[OF assms(1)]
  have "map rv_number (revision_history k i st') = [1..<Suc (length (revision_history k i st'))]" for k i
    using assms(2) unfolding a(1) numbered_def
    by (cases "k = shape_of x \<and> i = entity_id x") (auto simp: a(5) latest_number[OF assms(2)])
  then show "numbered st'" using assms(2) a(2-4,7) by (auto simp: numbered_def)
  show "current st' (shape_of x) i = (if i = entity_id x then
      (\<exists>y. find_entity (shape_of x) i st = Some y \<and> without_date x = without_date y)
      else current st (shape_of x) i)"
    and "k \<noteq> shape_of x \<Longrightarrow> current st' k i = current st k i"
    by (auto simp: current_def a(1,2,6))
qed

section \<open>Every operation keeps the invariant\<close>

lemma history_cong: "rs_revisions st' = rs_revisions st \<Longrightarrow> revision_history kind i st' = revision_history kind i st"
  by (simp add: revision_history_def)

lemma numbered_cong: "rs_revisions st' = rs_revisions st \<Longrightarrow> numbered st' = numbered st"
  by (simp add: numbered_def revision_history_def)

definition same_content :: "registry_state \<Rightarrow> registry_state \<Rightarrow> bool" where
  "same_content st st' \<longleftrightarrow> rs_revisions st' = rs_revisions st \<and>
     (\<forall>kind i. find_entity kind i st' = find_entity kind i st)"

lemma same_content_refl [simp]: "same_content st st"
  by (simp add: same_content_def)

lemma same_content_trans: "same_content a b \<Longrightarrow> same_content b c \<Longrightarrow> same_content a c"
  by (simp add: same_content_def)

lemma same_content_inv:
  assumes "same_content st st'"
  shows "history_inv st' = history_inv st"
proof -
  have r: "rs_revisions st' = rs_revisions st" and f: "\<And>k i. find_entity k i st' = find_entity k i st"
    using assms by (simp_all add: same_content_def)
  show ?thesis
    unfolding history_inv_def current_def numbered_cong[OF r] history_cong[OF r] f ..
qed

lemma same_registry_content: "same_registry st st' \<Longrightarrow> same_content st st'"
  by (simp add: same_content_def same_registryD find_entity_same)

lemma audit_content:
  "append_registry_audit s mk st = (l, st') \<Longrightarrow> same_content st st'"
  by (auto simp: append_registry_audit_def Let_def same_content_def find_entity_def)

lemma eval_content: "append_eval_result s mk st = (r, st') \<Longrightarrow> same_content st st'"
  by (auto simp: append_eval_result_def Let_def same_content_def find_entity_def)

text \<open>A change of an entry followed by the revision of the changed entry.\<close>

lemma revised_inv:
  assumes inv: "numbered st" and others: "\<And>k i. k \<in> set registry_kinds \<Longrightarrow>
      \<not> (k = shape_of y \<and> i = entity_id y) \<Longrightarrow> current st k i"
    and y: "find_entity (shape_of y) (entity_id y) st = Some y"
    and rev: "append_revision_for hash s (shape_of y) y actor reason audit st = (r, st')"
  shows "history_inv st'"
  unfolding history_inv_def
proof (intro conjI ballI allI)
  note a = append_revision_numbered[OF rev inv]
  show "numbered st'" by (rule a(1))
  fix k i assume k: "k \<in> set registry_kinds"
  show "current st' k i"
  proof (cases "k = shape_of y")
    case True
    then show ?thesis using a(2) y others[OF k] by simp
  next
    case False
    then show ?thesis using a(3) others[OF k] by simp
  qed
qed

lemma replaced_current:
  assumes "history_inv st" and "replaces x y st st1"
  shows "numbered st1"
    and "k \<in> set registry_kinds \<Longrightarrow> \<not> (k = shape_of y \<and> i = entity_id y) \<Longrightarrow> current st1 k i"
    and "shape_of y \<in> set registry_kinds \<Longrightarrow> find_entity (shape_of y) (entity_id y) st1 = Some y"
proof -
  from assms(2) have r: "rs_revisions st1 = rs_revisions st" "shape_of y = shape_of x"
    "entity_id y = entity_id x"
    and f: "\<And>kind i. kind \<in> set registry_kinds \<Longrightarrow> find_entity kind i st1 =
        (if kind = shape_of x \<and> i = entity_id x then Some y else find_entity kind i st)"
    by (simp_all add: replaces_def)
  show "numbered st1" unfolding numbered_cong[OF r(1)] using assms(1) by (simp add: history_inv_def)
  show "find_entity (shape_of y) (entity_id y) st1 = Some y" if "shape_of y \<in> set registry_kinds"
    using f[OF that] r by simp
  assume "k \<in> set registry_kinds" and "\<not> (k = shape_of y \<and> i = entity_id y)"
  then show "current st1 k i"
    using assms(1) f[of k i] r(2,3) unfolding current_def history_cong[OF r(1)] history_inv_def
    by auto
qed

lemma shape_in_kinds [simp]: "shape_of x \<in> set registry_kinds"
  by (cases x) (simp_all add: registry_kinds_def)

lemma replaced_revised_inv:
  assumes "history_inv st" and "replaces x y st st1"
    and "append_revision_for hash s (shape_of y) y actor reason audit st1 = (r, st2)"
  shows "history_inv st2"
  using replaced_current[OF assms(1,2)] by (intro revised_inv[OF _ _ _ assms(3)]) auto

lemma replaced_same_inv:
  assumes "history_inv st" and "replaces x y st st1" and "find_entity (shape_of x) (entity_id x) st = Some x"
    and "without_date y = without_date x"
  shows "history_inv st1"
  unfolding history_inv_def
proof (intro conjI ballI allI)
  note c = replaced_current[OF assms(1,2)]
  show "numbered st1" by (rule c(1))
  fix k i assume k: "k \<in> set registry_kinds"
  show "current st1 k i"
  proof (cases "k = shape_of y \<and> i = entity_id y")
    case True
    have "current st (shape_of x) (entity_id x)" using assms(1) by (simp add: history_inv_def)
    moreover have "rs_revisions st1 = rs_revisions st" "shape_of y = shape_of x" "entity_id y = entity_id x"
      using assms(2) by (simp_all add: replaces_def)
    ultimately show ?thesis
      using True assms(3,4) c(3) unfolding current_def history_cong[OF \<open>rs_revisions st1 = _\<close>] by auto
  qed (rule c(2)[OF k])
qed

lemma ensure_initial_inv:
  assumes "history_inv st" and "find_entity (shape_of x) (entity_id x) st = Some x"
  shows "history_inv (ensure_initial_revision hash s (shape_of x) x actor st)"
    and "find_entity k i (ensure_initial_revision hash s (shape_of x) x actor st) = find_entity k i st"
proof -
  obtain r st1 where rev: "append_revision_for hash s (shape_of x) x actor
      (Some ''initial snapshot'') None st = (r, st1)" by fastforce
  have "history_inv st1"
    using assms by (intro revised_inv[OF _ _ _ rev]) (auto simp: history_inv_def)
  with rev assms(1) show "history_inv (ensure_initial_revision hash s (shape_of x) x actor st)"
    by (simp add: ensure_initial_revision_def)
  show "find_entity k i (ensure_initial_revision hash s (shape_of x) x actor st) = find_entity k i st"
    using append_revision_history(6)[OF rev] rev by (simp add: ensure_initial_revision_def)
qed

lemma record_change_inv:
  assumes "history_inv st" and "replaces x y st st1"
    and "record_change hash s (shape_of y) actor action y before reason why st1 = (p, st2)"
  shows "history_inv st2"
proof -
  obtain log st1' where a: "append_registry_audit (sub 0 s) (registry_log actor action (shape_of y) y
      (map_option entity_snapshot before) (Some (entity_snapshot y)) reason) st1 = (log, st1')" by fastforce
  obtain r where rev: "append_revision_for hash (sub 1 s) (shape_of y) y actor why (Some (ra_id log)) st1' = (r, st2)"
    using assms(3) a by (auto simp: record_change_def Let_def split: prod.splits)
  from audit_content[OF a] assms(2) have "replaces x y st st1'"
    by (simp add: replaces_def same_content_def)
  from replaced_revised_inv[OF assms(1) this rev] show ?thesis .
qed

lemma change_entity_inv:
  assumes "history_inv st0" and "kind \<in> set registry_kinds"
    and "change_entity decide hash s permission kind action why patch i a st0 = (r, st')"
  shows "history_inv st'"
proof -
  define actor where "actor = acting a st0"
  obtain v st where auth: "registry_authorize decide (sub 0 s) actor permission (Some kind) (Some i) st0 = (v, st)"
    by fastforce
  from same_content_inv[OF same_registry_content[OF authorize_frame[OF auth]]] assms(1)
  have inv: "history_inv st" by simp
  show ?thesis
  proof (cases v)
    case (Inl e)
    with assms(3) auth inv show ?thesis
      by (simp add: change_entity_def Let_def op_bind_def actor_def[symmetric])
  next
    case (Inr u)
    show ?thesis
    proof (cases "find_entity kind i st")
      case None
      with assms(3) auth inv Inr show ?thesis
        by (auto simp: change_entity_def Let_def op_bind_def actor_def[symmetric] require_entity_def)
    next
      case (Some x)
      from find_entity_shape[OF Some assms(2)] have x: "shape_of x = kind" "entity_id x = i" by simp_all
      define st1 where "st1 = ensure_initial_revision hash (sub 1 s) kind x (act_id actor) st"
      have inv1: "history_inv st1" and find1: "find_entity kind i st1 = Some x"
        using ensure_initial_inv[OF inv, of x] x Some by (simp_all add: st1_def)
      obtain w st2 where p: "patch_entity (sub 2 s) kind i patch st1 = (w, st2)" by fastforce
      show ?thesis
      proof (cases w)
        case (Inl e)
        with p have "st2 = st1" by (simp add: patch_entity_missing)
        with assms(3) auth inv1 Inr Some p Inl show ?thesis
          by (auto simp: change_entity_def Let_def op_bind_def actor_def[symmetric] require_entity_def
              st1_def[symmetric] simp del: One_nat_def)
      next
        case Inr2: (Inr y)
        with p assms(2) find1 have rep: "replaces x y st1 st2"
          by (auto dest: patch_entity_replaces)
        then have "shape_of y = kind" using x by (simp add: replaces_def)
        with assms(3) auth Inr Some p Inr2 record_change_inv[OF inv1 rep] show ?thesis
          by (auto simp: change_entity_def Let_def op_bind_def actor_def[symmetric] require_entity_def
              st1_def[symmetric] prod_eq_iff simp del: One_nat_def)
      qed
    qed
  qed
qed

lemma authorized_cases:
  assumes "op_bind (registry_authorize decide s actor p kind i) f st0 = (r, st')"
  obtains (denied) reason where "r = Inl (AuthorizationError reason)" "same_registry st0 st'"
    | (allowed) st where "same_registry st0 st" "f () st = (r, st')"
      "registry_authorize decide s actor p kind i st0 = (Inr (), st)"
proof -
  obtain v st where a: "registry_authorize decide s actor p kind i st0 = (v, st)" by fastforce
  note frame = authorize_frame[OF a]
  show ?thesis
  proof (cases v)
    case (Inl e)
    then obtain reason where "e = AuthorizationError reason"
      using a by (auto simp: registry_authorize_def split: prod.splits if_splits)
    with Inl a assms frame show ?thesis by (intro denied[of reason]) (auto simp: op_bind_def)
  next
    case (Inr u)
    with a assms frame show ?thesis by (intro allowed[of st]) (auto simp: op_bind_def)
  qed
qed

lemma require_entity_cases:
  assumes "op_bind (require_entity kind i) f st = (r, st')"
  obtains (missing) e where "r = Inl e" "st' = st" "find_entity kind i st = None"
    | (found) x where "find_entity kind i st = Some x" "f x st = (r, st')"
  using assms by (auto simp: op_bind_def require_entity_def split: option.splits)

lemma same_registry_inv: "same_registry st st' \<Longrightarrow> history_inv st \<Longrightarrow> history_inv st'"
  using same_content_inv[OF same_registry_content] by simp

text \<open>Creation with an id that is not in use yet.\<close>

lemma find_push_entity:
  assumes "find_entity (shape_of x) (entity_id x) st = None" and "k \<in> set registry_kinds"
  shows "find_entity k i (push_entity x st) =
     (if k = shape_of x \<and> i = entity_id x then Some x else find_entity k i st)"
  using assms
  by (cases x) (auto simp: find_entity_def push_entity_def registry_kinds_def find_by_append opt_or_def
      split: option.splits)

lemma push_entity_revisions: "rs_revisions (push_entity x st) = rs_revisions st"
  by (cases x) (simp_all add: push_entity_def)

lemma create_registered_inv:
  assumes inv: "history_inv st0" and shape: "\<And>x. built = Inr x \<Longrightarrow> shape_of x = kind"
    and c: "create_registered decide hash s kind actor built push_entity st0 = (r, st')"
    and fresh: "\<And>x. r = Inr x \<Longrightarrow> find_entity kind (entity_id x) st0 = None"
  shows "history_inv st'"
  using c unfolding create_registered_def
proof (cases rule: authorized_cases)
  case (denied reason)
  then show ?thesis using inv by (blast intro: same_registry_inv)
next
  case (allowed st)
  have inv1: "history_inv st" using allowed(1) inv by (rule same_registry_inv)
  show ?thesis
  proof (cases built)
    case (Inl e)
    then show ?thesis using allowed(2) inv1 by simp
  next
    case (Inr x)
    then have r: "r = Inr x" and st': "st' = snd (record_change hash (sub 1 s) kind (act_id actor)
        ''create'' x None None (Some ''create'') (push_entity x st))"
      using allowed(2) by simp_all
    have none: "find_entity (shape_of x) (entity_id x) st = None"
      using fresh[OF r] shape[OF Inr] find_entity_same[OF allowed(1)] by simp
    note f = find_push_entity[OF none]
    obtain l st1 where a: "append_registry_audit (sub 0 (sub 1 s)) (registry_log (act_id actor) ''create'' kind x
        None (Some (entity_snapshot x)) None) (push_entity x st) = (l, st1)" by fastforce
    obtain rev st2 where p: "append_revision_for hash (sub 1 (sub 1 s)) (shape_of x) x (act_id actor)
        (Some ''create'') (Some (ra_id l)) st1 = (rev, st2)" by fastforce
    have "st' = st2"
      using a p shape[OF Inr] unfolding st' record_change_def
      by (simp add: Let_def del: One_nat_def)
    have c1: "rs_revisions st1 = rs_revisions st" and f1: "\<And>k i. find_entity k i st1 = find_entity k i (push_entity x st)"
      using audit_content[OF a] by (simp_all add: same_content_def push_entity_revisions)
    show ?thesis
      unfolding \<open>st' = st2\<close>
    proof (rule revised_inv[OF _ _ _ p])
      show "numbered st1" unfolding numbered_cong[OF c1] using inv1 by (simp add: history_inv_def)
      show "find_entity (shape_of x) (entity_id x) st1 = Some x" by (simp add: f1 f)
      fix k i assume "k \<in> set registry_kinds" "\<not> (k = shape_of x \<and> i = entity_id x)"
      then show "current st1 k i"
        using inv1 unfolding current_def history_cong[OF c1] f1 by (auto simp: f history_inv_def current_def)
    qed
  qed
qed

lemma map_sum_Inr: "map_sum id f m = Inr y \<longleftrightarrow> (\<exists>x. m = Inr x \<and> y = f x)"
  by (cases m) auto

lemma create_skill_inv:
  assumes "history_inv st" and "\<And>x. r = Inr x \<Longrightarrow> find_entity ''skill'' (entity_id x) st = None"
    and "create_skill decide hash s o' input actor st = (r, st')"
  shows "history_inv st'"
  by (rule create_registered_inv[OF assms(1) _ assms(3)[unfolded create_skill_def] assms(2)])
    (auto simp: map_sum_Inr)

lemma create_harness_inv:
  assumes "history_inv st" and "\<And>x. r = Inr x \<Longrightarrow> find_entity ''harness'' (entity_id x) st = None"
    and "create_harness decide hash s o' input actor st = (r, st')"
  shows "history_inv st'"
  by (rule create_registered_inv[OF assms(1) _ assms(3)[unfolded create_harness_def] assms(2)])
    (auto simp: map_sum_Inr)

lemma create_instruction_inv:
  assumes "history_inv st" and "\<And>x. r = Inr x \<Longrightarrow> find_entity ''instruction'' (entity_id x) st = None"
    and "create_instruction decide hash s o' input actor st = (r, st')"
  shows "history_inv st'"
  by (rule create_registered_inv[OF assms(1) _ assms(3)[unfolded create_instruction_def] assms(2)])
    (auto simp: map_sum_Inr)

text \<open>Verification: when no revision is written the entry changed in its date only.\<close>

lemma verify_checksum_id [simp]: "re_id (verify_checksum sha files now dir x e) = re_id e"
  by (auto simp: verify_checksum_def Let_def split: option.splits)

lemma verify_checksum_same:
  "re_checksum_status (verify_checksum sha files now dir x x) = re_checksum_status x \<Longrightarrow>
   ia_verified_at (verify_checksum sha files now dir x x) = ia_verified_at x \<Longrightarrow>
   verify_checksum sha files now dir x x = x"
  by (auto simp: verify_checksum_def Let_def split: option.splits if_splits)

lemma verify_inv:
  assumes inv: "history_inv st0"
    and v: "verify_instruction_checksum decide sha hash files s i dir a st0 = (r, st')"
  shows "history_inv st'"
  using v unfolding verify_instruction_checksum_def Let_def
proof (cases rule: authorized_cases)
  case (denied reason)
  then show ?thesis using inv by (blast intro: same_registry_inv)
next
  case (allowed st)
  have inv0: "history_inv st" using allowed(1) inv by (rule same_registry_inv)
  show ?thesis
  proof (cases "find_by re_id i (rs_instructions st)")
    case None
    then show ?thesis using allowed(2) inv0 by simp
  next
    case (Some x)
    then have x: "find_entity (shape_of (EInstruction x)) (entity_id (EInstruction x)) st = Some (EInstruction x)"
      by (auto simp: find_entity_def dest: find_by_Some)
    define actor where "actor = act_id (acting a st0)"
    define st1 where "st1 = ensure_initial_revision hash (sub 1 s) ''instruction'' (EInstruction x) actor st"
    have inv1: "history_inv st1" and find1: "\<And>k i. find_entity k i st1 = find_entity k i st"
      using ensure_initial_inv[OF inv0 x] by (simp_all add: st1_def)
    obtain w st2 where u: "update_instruction (sub 2 s) i (verify_checksum sha files (clock 3 s)
        (opt_or dir (rs_repo_root st0)) x) st1 = (w, st2)" by fastforce
    show ?thesis
    proof (cases w)
      case (Inl e)
      with u have "st2 = st1" by (simp add: update_missing)
      with allowed(2) Some Inl u inv1 show ?thesis
        by (simp add: op_bind_def st1_def[symmetric] actor_def[symmetric] del: One_nat_def)
    next
      case (Inr y)
      let ?v = "verify_checksum sha files (clock 3 s) (opt_or dir (rs_repo_root st0)) x"
      from update_instruction_replaces[OF u[unfolded Inr]] obtain e where
        e: "find_by re_id i (rs_instructions st1) = Some e" "y = (?v e)\<lparr>re_updated_at := clock 0 (sub 2 s)\<rparr>"
        and rep: "replaces (EInstruction e) (EInstruction y) st1 st2" by auto
      have ex: "e = x"
        using e(1) Some find1[of "''instruction''" i] by (simp add: find_entity_def)
      obtain l st3 where a3: "append_registry_audit (sub 4 s) (registry_log actor
          (if re_checksum_status y = Some ''verified'' then ''checksum_verified'' else ''checksum_failed'')
          ''instruction'' (EInstruction y) (Some (entity_snapshot (EInstruction x)))
          (Some (verified_snapshot y)) (ai_reason a)) st2 = (l, st3)" by fastforce
      from audit_content[OF a3] rep have rep3: "replaces (EInstruction x) (EInstruction y) st1 st3"
        by (simp add: replaces_def same_content_def ex)
      obtain rv st4 where rev: "append_revision_for hash (sub 5 s) ''instruction'' (EInstruction y) actor
          (Some (opt_default (ai_reason a) ''checksum_verification'')) (Some (ra_id l)) st3 = (rv, st4)"
        by fastforce
      have st': "st' = (if re_checksum_status x \<noteq> re_checksum_status y \<or> ia_verified_at x \<noteq> ia_verified_at y
          then st4 else st3)"
        using allowed(2) Some u Inr a3 rev
        by (auto simp: op_bind_def st1_def[symmetric] actor_def[symmetric] simp del: One_nat_def
            simp flip: if_distrib[of snd])
      show ?thesis
      proof (cases "re_checksum_status x \<noteq> re_checksum_status y \<or> ia_verified_at x \<noteq> ia_verified_at y")
        case True
        then show ?thesis
          using replaced_revised_inv[OF inv1 rep3] rev st' by simp
      next
        case False
        then have "?v x = x" using e(2) ex by (intro verify_checksum_same) simp_all
        then have "without_date (EInstruction y) = without_date (EInstruction x)"
          using e(2) ex by simp
        with replaced_same_inv[OF inv1 rep3] find1 x False st' show ?thesis by simp
      qed
    qed
  qed
qed

text \<open>Rollback and evaluation results.\<close>

lemma find_in_set: "List.find P xs = Some x \<Longrightarrow> x \<in> set xs \<and> P x"
  by (induction xs) (auto split: if_splits)

lemma rollback_target_shape:
  assumes "numbered st" and "rollback_target kind q st = Some target" and "of_target kind i target"
    and "kind \<in> set registry_kinds"
  shows "shape_of (rv_snapshot target) = kind"
proof -
  have "target \<in> set (rs_revisions st)"
    using assms(2) by (auto simp: rollback_target_def get_revision_def list_revisions_def
        split: if_splits option.splits dest!: find_by_Some find_in_set)
  then show ?thesis using assms(1,3) by (auto simp: numbered_def of_target_def)
qed

lemma rollback_to_cases:
  assumes inv: "history_inv st" and x: "find_entity kind i st = Some x" and i: "rb_target_id q = i"
    and kind: "kind \<in> set registry_kinds" and shape: "shape_of (rv_snapshot target) = kind"
    and r: "rollback_to hash s kind actor q x latest target st = (r, st')"
  shows "history_inv st'"
    and "r = Inr res \<Longrightarrow> \<exists>y st1. restore_from_snapshot (sub 2 s) i (rv_snapshot target) st = (Inr y, st1) \<and>
      find_entity kind i st' = Some y \<and> ro_to res = target \<and> ro_from res = latest \<and>
      rs_revisions st' = rs_revisions st @ [ro_new res] \<and> rv_snapshot (ro_new res) = y \<and>
      (\<exists>l. rs_audit st' = rs_audit st @ [l] \<and> ra_action l = ''rollback'' \<and> ra_id l = ro_audit_id res)"
proof -
  have "history_inv st' \<and> (\<forall>res. r = Inr res \<longrightarrow>
      (\<exists>y st1. restore_from_snapshot (sub 2 s) i (rv_snapshot target) st = (Inr y, st1) \<and>
        find_entity kind i st' = Some y \<and> ro_to res = target \<and> ro_from res = latest \<and>
        rs_revisions st' = rs_revisions st @ [ro_new res] \<and> rv_snapshot (ro_new res) = y \<and>
        (\<exists>l. rs_audit st' = rs_audit st @ [l] \<and> ra_action l = ''rollback'' \<and> ra_id l = ro_audit_id res)))"
  proof (cases "trim (rb_reason q) = []")
    case True
    then show ?thesis using r inv by (auto simp: rollback_to_def op_bind_def require_string_def)
  next
    case False
    obtain w st1 where w: "restore_from_snapshot (sub 2 s) i (rv_snapshot target) st = (w, st1)" by fastforce
    show ?thesis
    proof (cases w)
      case (Inl e)
      with w have "st1 = st" by (simp add: restore_missing)
      with r False w Inl i inv show ?thesis
        by (auto simp: rollback_to_def op_bind_def require_string_def)
    next
      case (Inr y)
      with restore_replaces[of "sub 2 s" i "rv_snapshot target" st y st1] w x shape
      have rep: "replaces x y st st1" by auto
      then have y: "shape_of y = kind" "entity_id y = i"
        using find_entity_shape[OF x kind] by (simp_all add: replaces_def)
      obtain l rv st2 where c: "record_change hash (sub 3 s) kind (act_id actor) ''rollback'' y (Some x)
          (Some (rb_reason q)) (Some (''rollback: '' @ rb_reason q)) st1 = ((l, rv), st2)"
        by (metis prod.exhaust)
      have st': "st' = st2" and res: "\<And>res. r = Inr res \<Longrightarrow> ro_to res = target \<and> ro_from res = latest \<and>
          ro_new res = rv \<and> ro_audit_id res = ra_id l"
        using r False w Inr i c by (auto simp: rollback_to_def op_bind_def require_string_def Let_def)
      have inv2: "history_inv st2" using record_change_inv[OF inv rep] c y by simp
      obtain st1' where a: "append_registry_audit (sub 0 (sub 3 s)) (registry_log (act_id actor) ''rollback'' kind y
            (Some (entity_snapshot x)) (Some (entity_snapshot y)) (Some (rb_reason q))) st1 = (l, st1')"
        and rev: "append_revision_for hash (sub 1 (sub 3 s)) kind y (act_id actor)
            (Some (''rollback: '' @ rb_reason q)) (Some (ra_id l)) st1' = (rv, st2)"
        using c by (auto simp: record_change_def Let_def split: prod.splits)
      note rv = append_revision_history[OF rev]
      from audit_content[OF a] rep have "find_entity kind i st1' = Some y"
        "rs_revisions st1' = rs_revisions st"
        using find_entity_shape[OF x kind] kind by (simp_all add: replaces_def same_content_def)
      moreover have "rs_audit st2 = rs_audit st @ [l]" "ra_action l = ''rollback''"
        using a rev w Inr
        by (auto simp: append_registry_audit_def append_revision_for_def append_revision_def Let_def
            registry_log_def restore_from_snapshot_def map_outcome_simps update_skill_def
            update_harness_def update_instruction_def split: registry_entity.splits option.splits)
      ultimately show ?thesis using inv2 st' res rv w Inr by auto
    qed
  qed
  then show "history_inv st'" and "r = Inr res \<Longrightarrow> \<exists>y st1. restore_from_snapshot (sub 2 s) i (rv_snapshot target) st = (Inr y, st1) \<and>
      find_entity kind i st' = Some y \<and> ro_to res = target \<and> ro_from res = latest \<and>
      rs_revisions st' = rs_revisions st @ [ro_new res] \<and> rv_snapshot (ro_new res) = y \<and>
      (\<exists>l. rs_audit st' = rs_audit st @ [l] \<and> ra_action l = ''rollback'' \<and> ra_id l = ro_audit_id res)"
    by blast+
qed

lemma ensure_initial_frame:
  "find_entity k i (ensure_initial_revision hash s kind x actor st) = find_entity k i st"
  "rs_audit (ensure_initial_revision hash s kind x actor st) = rs_audit st"
  "prefix (rs_revisions st) (rs_revisions (ensure_initial_revision hash s kind x actor st))"
  by (cases "append_revision_for hash s kind x actor (Some ''initial snapshot'') None st";
      auto simp: ensure_initial_revision_def append_revision_history(6,7))
    (auto simp: ensure_initial_revision_def append_revision_for_def append_revision_def Let_def)

text \<open>A rollback either leaves the entries alone or is the final stretch from an invariant state.\<close>

lemma rollback_cases:
  assumes inv: "history_inv st0" and r: "rollback decide hash s q st0 = (r, st')"
  obtains (stopped) e where "r = Inl e" "history_inv st'"
    | (ran) st actor x latest target where
      "history_inv st" "find_entity (rb_kind q) (rb_target_id q) st = Some x"
      "find_entity (rb_kind q) (rb_target_id q) st0 = Some x"
      "rb_kind q \<in> set registry_kinds" "shape_of (rv_snapshot target) = rb_kind q"
      "latest_revision (rb_kind q) (rb_target_id q) st = Some latest"
      "target \<in> set (rs_revisions st)" "of_target (rb_kind q) (rb_target_id q) target"
      "rs_audit st = rs_audit st0" "prefix (rs_revisions st0) (rs_revisions st)"
      "rollback_to hash s (rb_kind q) actor q x latest target st = (r, st')"
proof (cases "rb_kind q \<in> set registry_kinds")
  case False
  then have "r = Inl (Error (''rollback.targetKind'' @ '' must be skill, harness, or instruction''))" "st' = st0"
    using r by (auto simp: rollback_def op_bind_def assert_registry_kind_def assert_member_def Let_def)
  then show ?thesis using inv stopped by blast
next
  case kind: True
  define actor where "actor = actor_from_input (rs_default_actor st0) (rb_actor q) (rb_actor_id q)"
  have "op_bind (\<lambda>st. (assert_registry_kind (rb_kind q) ''rollback.targetKind'', st)) f st0 = f (rb_kind q) st0" for f
    using kind by (simp add: op_bind_def assert_registry_kind_def assert_member_def)
  note r' = r[unfolded rollback_def Let_def actor_def[symmetric] this]
  from r' show ?thesis
  proof (cases rule: authorized_cases)
    case (denied reason)
    then show ?thesis using inv same_registry_inv by (intro stopped) auto
  next
    case (allowed st)
    have inv1: "history_inv st" using allowed(1) inv by (rule same_registry_inv)
    from allowed(2) show ?thesis
    proof (cases rule: require_entity_cases)
      case (missing e)
      then show ?thesis using inv1 stopped by blast
    next
      case (found x)
      define st1 where "st1 = ensure_initial_revision hash (sub 1 s) (rb_kind q) x (act_id actor) st"
      note shape = find_entity_shape[OF found(1) kind]
      have inv2: "history_inv st1"
        using ensure_initial_inv(1)[OF inv1, of x hash "sub 1 s" "act_id actor"] found(1) shape
        by (simp add: st1_def)
      have find1: "find_entity k i st1 = find_entity k i st" for k i
        by (simp add: st1_def ensure_initial_frame)
      have frame: "rs_audit st1 = rs_audit st0" "prefix (rs_revisions st0) (rs_revisions st1)"
        using same_registryD[OF allowed(1)]
          ensure_initial_frame(3)[of st hash "sub 1 s" "rb_kind q" x "act_id actor"]
        by (simp_all add: st1_def ensure_initial_frame(2))
      note rest = found(2)[folded st1_def]
      show ?thesis
      proof (cases "latest_revision (rb_kind q) (rb_target_id q) st1")
        case None
        with rest have "r = Inl (Error (''No registry history found for '' @ rb_kind q @ '': '' @ rb_target_id q))"
          "st' = st1" by simp_all
        with inv2 show ?thesis by (intro stopped) simp_all
      next
        case latest: (Some latest)
        show ?thesis
        proof (cases "\<exists>target. rollback_target (rb_kind q) q st1 = Some target \<and>
            of_target (rb_kind q) (rb_target_id q) target")
          case False
          with rest latest obtain e where "r = Inl e" "st' = st1"
            by (auto split: option.splits if_splits)
          with inv2 show ?thesis by (intro stopped) simp_all
        next
          case True
          then obtain target where t: "rollback_target (rb_kind q) q st1 = Some target"
            "of_target (rb_kind q) (rb_target_id q) target" by blast
          have n: "numbered st1" using inv2 by (simp add: history_inv_def)
          have "target \<in> set (rs_revisions st1)"
            using t(1) by (auto simp: rollback_target_def get_revision_def list_revisions_def
                split: if_splits option.splits dest!: find_by_Some find_in_set)
          with inv2 rest latest t kind found(1) find1 find_entity_same[OF allowed(1)]
            rollback_target_shape[OF n t kind] show ?thesis
            by (intro ran[of st1 x target latest actor]) (simp_all add: frame)
        qed
      qed
    qed
  qed
qed

lemma rollback_inv:
  assumes "history_inv st" and "rollback decide hash s q st = (r, st')"
  shows "history_inv st'"
  using assms
proof (cases rule: rollback_cases)
  case (ran st1 actor x latest target)
  show ?thesis by (rule rollback_to_cases(1)[OF ran(1,2) refl ran(4,5,11)])
qed

lemma apply_eval_inv:
  assumes inv: "history_inv st" and x: "find_entity (shape_of x) (entity_id x) st = Some x"
    and r: "apply_eval_result hash s (shape_of x) actor q x res audit st = (r, st')"
  shows "history_inv st'"
proof -
  define st1 where "st1 = ensure_initial_revision hash (sub 3 s) (shape_of x) x (act_id actor) st"
  note i = ensure_initial_inv[OF inv x, where hash = hash and s = "sub 3 s" and actor = "act_id actor",
      folded st1_def]
  show ?thesis
  proof (cases "eval_status_from_result (ev_status res)")
    case None
    with r i(1) show ?thesis by (simp add: apply_eval_result_def st1_def[symmetric])
  next
    case (Some status)
    obtain w st2 where w: "patch_entity (sub 4 s) (shape_of x) (entity_id x)
        (no_patch\<lparr>pa_eval := Some status\<rparr>) st1 = (w, st2)" by fastforce
    show ?thesis
    proof (cases w)
      case (Inl e)
      with w have "st2 = st1" by (simp add: patch_entity_missing)
      with r Some w Inl i(1) show ?thesis
        by (simp add: apply_eval_result_def st1_def[symmetric] op_bind_def entity_id_def)
    next
      case (Inr y)
      with patch_entity_replaces[OF w[unfolded Inr]] i(2) x have rep: "replaces x y st1 st2" by auto
      then have y: "shape_of x = shape_of y" by (simp add: replaces_def)
      obtain rv st3 where rev: "append_revision_for hash (sub 5 s) (shape_of x) y (act_id actor)
          (Some (opt_default (ai_reason (ei_by q)) ''eval_result_attached'')) (Some audit) st2 = (rv, st3)"
        by fastforce
      with r Some w Inr have "st' = st3"
        by (simp add: apply_eval_result_def st1_def[symmetric] op_bind_def entity_id_def)
      with replaced_revised_inv[OF i(1) rep rev[unfolded y]] show ?thesis by simp
    qed
  qed
qed

lemma attach_eval_inv:
  assumes inv: "history_inv st0" and r: "attach_eval_result decide hash s kind i q st0 = (r, st')"
  shows "history_inv st'"
proof (cases "kind \<in> set registry_kinds")
  case False
  then have "st' = st0"
    using r by (auto simp: attach_eval_result_def op_bind_def assert_registry_kind_def assert_member_def Let_def)
  then show ?thesis using inv by simp
next
  case kind: True
  define actor where "actor = acting (ei_by q) st0"
  have "op_bind (\<lambda>st. (assert_registry_kind kind ''evalResult.targetKind'', st)) f st0 = f kind st0" for f
    using kind by (simp add: op_bind_def assert_registry_kind_def assert_member_def)
  note r' = r[unfolded attach_eval_result_def Let_def actor_def[symmetric] this]
  from r' show ?thesis
  proof (cases rule: authorized_cases)
    case (denied reason)
    then show ?thesis using inv by (blast intro: same_registry_inv)
  next
    case (allowed st)
    have inv1: "history_inv st" using allowed(1) inv by (rule same_registry_inv)
    from allowed(2) show ?thesis
    proof (cases rule: require_entity_cases)
      case (missing e)
      then show ?thesis using inv1 by simp
    next
      case (found x)
      note shape = find_entity_shape[OF found(1) kind]
      show ?thesis
      proof (cases "eval_result_of kind x actor q")
        case (Inl e)
        with found(2) inv1 show ?thesis by (simp add: op_bind_def)
      next
        case (Inr mk)
        obtain res st1 where e: "append_eval_result (sub 1 s) mk st = (res, st1)" by fastforce
        obtain l st2 where a: "append_registry_audit (sub 2 s) (registry_log (act_id actor) ''attach_eval_result''
            kind x (Some (entity_snapshot x)) (Some (entity_snapshot x @ [(''evalResultId'', JStr (ev_id res)),
              (''evalResultStatus'', JStr (ev_status res))])) (ai_reason (ei_by q))) st1 = (l, st2)"
          by fastforce
        have c: "same_content st st2" using eval_content[OF e] audit_content[OF a] by (rule same_content_trans)
        have inv2: "history_inv st2" using same_content_inv[OF c] inv1 by simp
        have f2: "find_entity (shape_of x) (entity_id x) st2 = Some x"
          using c found(1) shape by (simp add: same_content_def)
        have "(if ei_update q then apply_eval_result hash s kind actor q x res (ra_id l) st2
            else (Inr res, st2)) = (r, st')"
          using found(2) Inr e a by (simp add: op_bind_def del: One_nat_def)
        with inv2 apply_eval_inv[OF inv2 f2] shape show ?thesis by (simp split: if_splits)
      qed
    qed
  qed
qed

section \<open>Runs of the service\<close>

text \<open>
  The operations of the service, thrown errors included; an entry is created under an id that is
  not in use for its kind.
\<close>

inductive registry_step ::
  "engine \<Rightarrow> (string \<Rightarrow> string) \<Rightarrow> snapshot_checksum \<Rightarrow> repo_files \<Rightarrow> registry_state \<Rightarrow> registry_state \<Rightarrow> bool"
  for decide :: engine and sha :: "string \<Rightarrow> string" and hash :: snapshot_checksum and files :: repo_files
where
  skill_created: "create_skill decide hash s o' sk actor st = (r, st') \<Longrightarrow>
    (\<And>x. r = Inr x \<Longrightarrow> find_entity ''skill'' (entity_id x) st = None) \<Longrightarrow>
    registry_step decide sha hash files st st'"
| harness_created: "create_harness decide hash s o' ha actor st = (r, st') \<Longrightarrow>
    (\<And>x. r = Inr x \<Longrightarrow> find_entity ''harness'' (entity_id x) st = None) \<Longrightarrow>
    registry_step decide sha hash files st st'"
| instruction_created: "create_instruction decide hash s o' ia actor st = (r, st') \<Longrightarrow>
    (\<And>x. r = Inr x \<Longrightarrow> find_entity ''instruction'' (entity_id x) st = None) \<Longrightarrow>
    registry_step decide sha hash files st st'"
| status_updated: "kind \<in> set registry_kinds \<Longrightarrow> update_status decide hash s kind i status a st = (r, st') \<Longrightarrow>
    registry_step decide sha hash files st st'"
| approval_updated: "kind \<in> set registry_kinds \<Longrightarrow> update_approval decide hash s kind i status a st = (r, st') \<Longrightarrow>
    registry_step decide sha hash files st st'"
| eval_updated: "kind \<in> set registry_kinds \<Longrightarrow> update_eval decide hash s kind i status a st = (r, st') \<Longrightarrow>
    registry_step decide sha hash files st st'"
| checksum_verified: "verify_instruction_checksum decide sha hash files s i dir a st = (v, st') \<Longrightarrow>
    registry_step decide sha hash files st st'"
| rolled_back: "rollback decide hash s q st = (b, st') \<Longrightarrow> registry_step decide sha hash files st st'"
| eval_attached: "attach_eval_result decide hash s kind i e st = (w, st') \<Longrightarrow>
    registry_step decide sha hash files st st'"
| queue_listed: "list_approval_queue decide s f actor' st = (l, st') \<Longrightarrow>
    registry_step decide sha hash files st st'"

lemma authorized_read_same: "authorized_read decide s actor p kind i f st = (r, st') \<Longrightarrow> same_registry st st'"
  unfolding authorized_read_def by (erule authorized_cases) auto

lemma registry_step_inv:
  assumes "registry_step decide sha hash files st st'" and "history_inv st"
  shows "history_inv st'"
  using assms
proof cases
  case (status_updated kind s i status a r)
  then show ?thesis using assms(2) by (auto simp: update_status_def intro: change_entity_inv)
next
  case (approval_updated kind s i status a r)
  then show ?thesis using assms(2) by (auto simp: update_approval_def intro: change_entity_inv)
next
  case (eval_updated kind s i status a r)
  then show ?thesis using assms(2) by (auto simp: update_eval_def intro: change_entity_inv)
next
  case (queue_listed s f actor' l)
  then show ?thesis
    using assms(2) unfolding list_approval_queue_def
    by (blast intro: same_registry_inv dest: authorized_read_same)
qed (use assms(2) in \<open>blast intro: create_skill_inv create_harness_inv create_instruction_inv
    verify_inv rollback_inv attach_eval_inv\<close>)+

lemma registry_steps_inv:
  "(registry_step decide sha hash files)\<^sup>*\<^sup>* st st' \<Longrightarrow> history_inv st \<Longrightarrow> history_inv st'"
  by (induction rule: rtranclp_induct) (auto intro: registry_step_inv)

lemma history_inv_initial: "rs_revisions st = [] \<Longrightarrow> history_inv st"
  by (simp add: history_inv_def numbered_def current_def revision_history_def)

text \<open>
  C22: In every state the service reaches from one without history through creations of entries under
  ids not yet in use for their kind, changes of status, approval and evaluation, checksum
  verifications, rollbacks, attached evaluation results and listings of the approval queue, in any
  order and with whatever errors, the revisions of each entry are numbered 1, 2, 3 and so on without
  a gap, and the last of them shows the entry as it is now, but for the date of its last update.
  The import of a package, and a creation under an id already in use, are not among these steps.
\<close>

theorem registry_history_faithful:
  assumes "rs_revisions st0 = []" and "(registry_step decide sha hash files)\<^sup>*\<^sup>* st0 st"
    and "kind \<in> set registry_kinds"
  shows "map rv_number (list_revisions kind i st) = [1..<Suc (length (list_revisions kind i st))] \<and>
    (case latest_revision kind i st of None \<Rightarrow> list_revisions kind i st = []
     | Some r \<Rightarrow> \<exists>x. find_entity kind i st = Some x \<and> without_date (rv_snapshot r) = without_date x)"
proof -
  have inv: "history_inv st" using assms by (blast intro: registry_steps_inv history_inv_initial)
  then have n: "numbered st" and "current st kind i" using assms(3) by (simp_all add: history_inv_def)
  then show ?thesis
    unfolding latest_history[OF n] history_sorted[OF n]
    by (auto simp: numbered_def current_def simp del: upt_Suc)
qed

section \<open>Rollback\<close>






section \<open>Authorization\<close>

definition refused :: "(registry_state, 'a) op \<Rightarrow> registry_state \<Rightarrow> bool" where
  "refused m st \<longleftrightarrow> (\<exists>reason st'. m st = (Inl (AuthorizationError reason), st') \<and> same_registry st st')"

definition verdict ::
  "engine \<Rightarrow> draws \<Rightarrow> registry_actor \<Rightarrow> string \<Rightarrow> string option \<Rightarrow> string option \<Rightarrow> registry_state \<Rightarrow> bool" where
  "verdict decide s actor p kind i st = fst (fst (authorizer_verdict decide s actor p kind i st))"

lemma refused_bind:
  assumes "\<not> verdict decide s actor p kind i st"
  shows "refused (op_bind (registry_authorize decide s actor p kind i) f) st"
proof -
  obtain v reason st1 where a: "authorizer_verdict decide s actor p kind i st = ((v, reason), st1)"
    by (metis prod.exhaust)
  with assms have "\<not> v" by (simp add: verdict_def)
  moreover have "same_registry st st1" using authorizer_frame[of st decide s actor p kind i] a by simp
  ultimately show ?thesis using a by (simp add: refused_def op_bind_def registry_authorize_def)
qed

lemma refused_change:
  "\<not> verdict decide (sub 0 s) (acting a st) p (Some kind) (Some i) st \<Longrightarrow>
   refused (change_entity decide hash s p kind action why patch i a) st"
  using refused_bind[of decide "sub 0 s" "acting a st" p "Some kind" "Some i" st]
  by (simp add: refused_def change_entity_def Let_def)

lemma gatedI: "(\<not> v \<Longrightarrow> refused m st) \<Longrightarrow> v \<or> refused m st"
  by blast

text \<open>A rollback and an attached evaluation result check the kind before they ask the authorizer.\<close>

lemma refused_after_kind:
  assumes "kind \<in> set registry_kinds" and "\<not> verdict decide s actor p (Some kind) (Some i) st"
  shows "refused (op_bind (\<lambda>st. (assert_registry_kind kind field, st)) (\<lambda>kind.
    op_bind (registry_authorize decide s actor p (Some kind) (Some i)) (f kind))) st"
proof -
  have "assert_registry_kind kind field = Inr kind"
    using assms(1) by (simp add: assert_registry_kind_def assert_member_def)
  then show ?thesis using refused_bind[OF assms(2), of "f kind"] by (simp add: refused_def op_bind_def)
qed

definition unknown_kind :: "string \<Rightarrow> string \<Rightarrow> (registry_state, 'a) op \<Rightarrow> registry_state \<Rightarrow> bool" where
  "unknown_kind kind field m st \<longleftrightarrow> (\<exists>e. assert_registry_kind kind field = Inl e \<and> m st = (Inl e, st))"

lemma unknown_kindI:
  assumes "kind \<notin> set registry_kinds"
  shows "unknown_kind kind field (op_bind (\<lambda>st. (assert_registry_kind kind field, st)) f) st"
  using assms by (simp add: unknown_kind_def assert_registry_kind_def assert_member_def op_bind_def)

lemma kind_gatedI:
  assumes "kind \<in> set registry_kinds \<Longrightarrow> \<not> v \<Longrightarrow> refused m st"
    and "kind \<notin> set registry_kinds \<Longrightarrow> unknown_kind kind field m st"
  shows "if kind \<in> set registry_kinds then v \<or> refused m st else unknown_kind kind field m st"
  using assms by auto

text \<open>
  C24: Every mutation of the service but the import of a package (a creation, a change of status,
  approval or evaluation, a checksum verification, a rollback and an attached evaluation result)
  asks the authorizer for the permission of the operation on its target; when the actor is not let
  through it throws an authorization error and leaves the entries, the history, the audit log and
  the evaluation results as they were: at most the policy service records its decision.  A rollback
  and an attached result of an unknown kind throw before that, with no change at all.
\<close>

theorem registry_mutations_gated:
  "(verdict decide (sub 0 s) (acting a st) ''registry.status.change'' (Some kind) (Some i) st \<or>
      refused (update_status decide hash s kind i status a) st) \<and>
   (verdict decide (sub 0 s) (acting a st) ''registry.approval.change'' (Some kind) (Some i) st \<or>
      refused (update_approval decide hash s kind i status a) st) \<and>
   (verdict decide (sub 0 s) (acting a st) ''registry.eval.change'' (Some kind) (Some i) st \<or>
      refused (update_eval decide hash s kind i status a) st) \<and>
   (verdict decide (sub 0 s) (acting a st) ''registry.checksum.verify'' (Some ''instruction'') (Some i) st \<or>
      refused (verify_instruction_checksum decide sha hash files s i dir a) st) \<and>
   (verdict decide (sub 0 s) actor ''registry.create'' (Some ''skill'') None st \<or>
      refused (create_skill decide hash s o' sk actor) st) \<and>
   (verdict decide (sub 0 s) actor ''registry.create'' (Some ''harness'') None st \<or>
      refused (create_harness decide hash s o' ha actor) st) \<and>
   (verdict decide (sub 0 s) actor ''registry.create'' (Some ''instruction'') None st \<or>
      refused (create_instruction decide hash s o' ia actor) st) \<and>
   (if rb_kind q \<in> set registry_kinds
    then verdict decide (sub 0 s) (actor_from_input (rs_default_actor st) (rb_actor q) (rb_actor_id q))
           ''registry.rollback'' (Some (rb_kind q)) (Some (rb_target_id q)) st \<or>
         refused (rollback decide hash s q) st
    else unknown_kind (rb_kind q) ''rollback.targetKind'' (rollback decide hash s q) st) \<and>
   (if kind \<in> set registry_kinds
    then verdict decide (sub 0 s) (acting (ei_by ev) st) ''registry.eval.change'' (Some kind) (Some i) st \<or>
         refused (attach_eval_result decide hash s kind i ev) st
    else unknown_kind kind ''evalResult.targetKind'' (attach_eval_result decide hash s kind i ev) st)"
proof (intro conjI kind_gatedI gatedI)
  assume "\<not> verdict decide (sub 0 s) (acting a st) ''registry.status.change'' (Some kind) (Some i) st"
  then show "refused (update_status decide hash s kind i status a) st"
    unfolding update_status_def by (rule refused_change)
next
  assume "\<not> verdict decide (sub 0 s) (acting a st) ''registry.approval.change'' (Some kind) (Some i) st"
  then show "refused (update_approval decide hash s kind i status a) st"
    unfolding update_approval_def by (rule refused_change)
next
  assume "\<not> verdict decide (sub 0 s) (acting a st) ''registry.eval.change'' (Some kind) (Some i) st"
  then show "refused (update_eval decide hash s kind i status a) st"
    unfolding update_eval_def by (rule refused_change)
next
  assume "\<not> verdict decide (sub 0 s) (acting a st) ''registry.checksum.verify'' (Some ''instruction'') (Some i) st"
  from refused_bind[OF this] show "refused (verify_instruction_checksum decide sha hash files s i dir a) st"
    unfolding refused_def verify_instruction_checksum_def Let_def .
next
  assume "\<not> verdict decide (sub 0 s) actor ''registry.create'' (Some ''skill'') None st"
  then show "refused (create_skill decide hash s o' sk actor) st"
    unfolding create_skill_def create_registered_def by (rule refused_bind)
next
  assume "\<not> verdict decide (sub 0 s) actor ''registry.create'' (Some ''harness'') None st"
  then show "refused (create_harness decide hash s o' ha actor) st"
    unfolding create_harness_def create_registered_def by (rule refused_bind)
next
  assume "\<not> verdict decide (sub 0 s) actor ''registry.create'' (Some ''instruction'') None st"
  then show "refused (create_instruction decide hash s o' ia actor) st"
    unfolding create_instruction_def create_registered_def by (rule refused_bind)
next
  assume k: "rb_kind q \<in> set registry_kinds"
    and "\<not> verdict decide (sub 0 s) (actor_from_input (rs_default_actor st) (rb_actor q) (rb_actor_id q))
      ''registry.rollback'' (Some (rb_kind q)) (Some (rb_target_id q)) st"
  from refused_after_kind[OF this] show "refused (rollback decide hash s q) st"
    unfolding refused_def rollback_def Let_def .
next
  assume "rb_kind q \<notin> set registry_kinds"
  from unknown_kindI[OF this] show "unknown_kind (rb_kind q) ''rollback.targetKind'' (rollback decide hash s q) st"
    unfolding unknown_kind_def rollback_def Let_def .
next
  assume "kind \<in> set registry_kinds"
    and "\<not> verdict decide (sub 0 s) (acting (ei_by ev) st) ''registry.eval.change'' (Some kind) (Some i) st"
  from refused_after_kind[OF this] show "refused (attach_eval_result decide hash s kind i ev) st"
    unfolding refused_def attach_eval_result_def Let_def .
next
  assume "kind \<notin> set registry_kinds"
  from unknown_kindI[OF this] show "unknown_kind kind ''evalResult.targetKind'' (attach_eval_result decide hash s kind i ev) st"
    unfolding unknown_kind_def attach_eval_result_def Let_def .
qed

lemma create_entry_Inr:
  assumes "create_entry pre kind s o' e = Inr x"
  shows "x = e\<lparr>re_id := opt_default (co_id o') (fresh_id pre 0 s),
      re_approval := opt_default (co_approval o') ''not_required'',
      re_eval := opt_default (co_eval o') ''not_required'',
      re_created_at := opt_default (co_created_at o') (clock 0 s),
      re_updated_at := opt_default (co_updated_at o') (opt_default (co_created_at o') (clock 0 s))\<rparr>"
  using assms unfolding create_entry_def Let_def bind_result_Inr require_string_Inr
    assert_registry_status_def assert_approval_status_def assert_eval_status_def assert_member_Inr
  apply (elim exE conjE)
  apply hypsubst
  apply (drule Inr_inject)
  apply (rule sym)
  apply assumption
  done

lemma create_entry_fields:
  assumes "create_entry pre kind s o' e = Inr x"
  shows "re_status x = re_status e" "re_approval x = opt_default (co_approval o') ''not_required''"
    "re_eval x = opt_default (co_eval o') ''not_required''" "re_checksum_status x = re_checksum_status e"
  unfolding create_entry_Inr[OF assms] by simp_all
lemma create_skill_selectable:
  assumes "create_skill_package s o' input = Inr e" and "re_status input = ''active''"
    and "co_approval o' = Some ''approved''" and "co_eval o' = Some ''passed''"
  shows "selectable e"
proof -
  obtain x ds where x: "create_entry ''skill'' ''skill'' s o'
      (input\<lparr>re_checksum := None, re_checksum_status := None\<rparr>) = Inr x" and e: "e = x\<lparr>re_dependencies := ds\<rparr>"
    using assms(1) by (auto simp: create_skill_package_def bind_result_Inr split: if_splits)
  from create_entry_fields[OF x] assms(2-4) show ?thesis
    by (simp add: e selectable_def is_selectable_lifecycle_def approval_allows_def eval_allows_def
        checksum_allows_def)
qed

text \<open>
  C25: The role that may create entries suffices to create one that is already approved and evaluated, and so
  selectable at once, although it may neither approve nor evaluate: creation takes the approval and
  the evaluation status from its input.
\<close>

theorem editor_creates_approved:
  assumes "verdict decide (sub 0 s) actor ''registry.create'' (Some ''skill'') None st"
    and "co_approval o' = Some ''approved''" and "co_eval o' = Some ''passed''"
    and "re_status input = ''active''" and e: "create_skill_package (sub 2 s) o' input = Inr e"
  shows "\<exists>st'. create_skill decide hash s o' input actor st = (Inr (ESkill e), st') \<and> selectable e \<and>
    rs_skills st' = rs_skills st @ [e]"
proof -
  obtain v reason st1 where v: "authorizer_verdict decide (sub 0 s) actor ''registry.create'' (Some ''skill'') None st
      = ((v, reason), st1)"
    by (metis prod.exhaust)
  with assms(1) have a: "authorizer_verdict decide (sub 0 s) actor ''registry.create'' (Some ''skill'') None st
      = ((True, reason), st1)"
    by (simp add: verdict_def)
  have sk: "rs_skills st1 = rs_skills st"
    using authorizer_frame[of st decide "sub 0 s" actor "''registry.create''" "Some ''skill''" None] a
    by (simp add: same_registryD)
  have "selectable e" using e assms(4,2,3) by (rule create_skill_selectable)
  moreover have "rs_skills (snd (record_change hash s' k ac act (ESkill e) b w why st2)) = rs_skills st2"
    for s' k ac act b w why st2
    by (simp add: record_change_def append_registry_audit_def append_revision_for_def append_revision_def
        Let_def split: prod.splits)
  ultimately show ?thesis
    using a sk
    by (simp add: create_skill_def create_registered_def op_bind_def registry_authorize_def e
        push_entity_def)
qed

section \<open>Samples\<close>

definition sample_actor :: "string \<Rightarrow> registry_actor" where
  "sample_actor role = \<lparr>act_id = ''a1'', act_name = ''A'', act_roles = [role], act_teams = None\<rparr>"

definition sample_registry :: registry_state where
  "sample_registry = \<lparr>rs_skills = [sample_skill ''s1'' ''a'' []], rs_harnesses = [], rs_instructions = [],
     rs_audit = [], rs_revisions = [], rs_evals = [], rs_policy = None,
     rs_default_actor = default_registry_actor, rs_repo_root = None\<rparr>"

definition no_engine :: engine where
  \<comment> \<open>never asked: the sample registry is authorized by roles\<close>
  "no_engine s req = \<lparr>dec_id = [], dec_allowed = False, dec_value = DecDeny, dec_reason = [],
     dec_matched_rule_ids = [], dec_subject = req_subject req, dec_resource = req_resource req,
     dec_action = req_action req, dec_context = req_context req, dec_created_at = 0\<rparr>"

definition sample_reason :: actor_input where
  "sample_reason = \<lparr>ai_actor = None, ai_actor_id = None, ai_reason = Some ''r''\<rparr>"

definition archived_registry :: registry_state where
  "archived_registry = snd (update_skill_status no_engine (\<lambda>_. ''c'') sample_draws ''s1'' ''archived''
     sample_reason sample_registry)"

definition sample_rollback :: rollback_input where
  "sample_rollback = \<lparr>rb_kind = ''skill'', rb_target_id = ''s1'', rb_revision_id = None, rb_number = Some 1,
     rb_reason = ''undo'', rb_actor = None, rb_actor_id = None\<rparr>"

lemma archived_reached:
  "(registry_step no_engine id (\<lambda>_. ''c'') (\<lambda>_ _. None))\<^sup>*\<^sup>* sample_registry archived_registry"
proof (rule r_into_rtranclp, rule registry_step.status_updated)
  show "''skill'' \<in> set registry_kinds" by code_simp
  show "update_status no_engine (\<lambda>_. ''c'') sample_draws ''skill'' ''s1'' ''archived'' sample_reason sample_registry
      = (fst (update_skill_status no_engine (\<lambda>_. ''c'') sample_draws ''s1'' ''archived'' sample_reason
          sample_registry), archived_registry)"
    by (simp add: archived_registry_def update_skill_status_def)
qed

theorem registry_history_faithful_witness:
  "map rv_number (list_revisions ''skill'' ''s1'' archived_registry) =
     [1..<Suc (length (list_revisions ''skill'' ''s1'' archived_registry))] \<and>
   (case latest_revision ''skill'' ''s1'' archived_registry of None \<Rightarrow> list_revisions ''skill'' ''s1'' archived_registry = []
    | Some r \<Rightarrow> \<exists>x. find_entity ''skill'' ''s1'' archived_registry = Some x \<and>
        without_date (rv_snapshot r) = without_date x)"
  by (rule registry_history_faithful[OF _ archived_reached]) code_simp+

definition rolled_back :: "rollback_result result \<times> registry_state" where
  "rolled_back = rollback no_engine (\<lambda>_. ''c'') sample_draws sample_rollback archived_registry"


definition approved_input :: create_options where
  "approved_input = \<lparr>co_id = Some ''s2'', co_approval = Some ''approved'', co_eval = Some ''passed'',
     co_created_at = None, co_updated_at = None\<rparr>"

theorem editor_creates_approved_witness:
  "\<not> role_allows (sample_actor ''registry_editor'') ''registry.approval.change'' \<and>
   (\<exists>e st'. create_skill no_engine (\<lambda>_. ''c'') sample_draws approved_input (sample_skill ''s2'' ''b'' [])
      (sample_actor ''registry_editor'') sample_registry = (Inr (ESkill e), st') \<and> selectable e)"
proof
  show "\<not> role_allows (sample_actor ''registry_editor'') ''registry.approval.change''" by code_simp
  have "create_skill_package (sub 2 sample_draws) approved_input (sample_skill ''s2'' ''b'' []) =
      Inr (projr (create_skill_package (sub 2 sample_draws) approved_input (sample_skill ''s2'' ''b'' [])))"
    by code_simp
  from editor_creates_approved[OF _ _ _ _ this]
  show "\<exists>e st'. create_skill no_engine (\<lambda>_. ''c'') sample_draws approved_input (sample_skill ''s2'' ''b'' [])
      (sample_actor ''registry_editor'') sample_registry = (Inr (ESkill e), st') \<and> selectable e"
  proof -
    have "verdict no_engine (sub 0 sample_draws) (sample_actor ''registry_editor'') ''registry.create''
        (Some ''skill'') None sample_registry" by code_simp
    moreover have "co_approval approved_input = Some ''approved''" "co_eval approved_input = Some ''passed''"
      "re_status (sample_skill ''s2'' ''b'' []) = ''active''" by code_simp+
    ultimately show ?thesis
      using editor_creates_approved[OF _ _ _ _ \<open>create_skill_package _ _ _ = _\<close>] by blast
  qed
qed

end
