(* ===== verification/McpModel.thy ===== *)
theory McpModel
  imports SecurityService
begin

text \<open>
  The data of \<open>packages/mcp-gateway/src\<close>: servers, tools, invocations and audit events of
  \<open>types.ts\<close>, the metadata sanitiser and the in-memory repositories of \<open>repository.ts\<close>, and the
  default catalogue of \<open>catalog.ts\<close>.  Unions of string literals are datatypes, with the literal as
  the name of a constructor.
\<close>

section \<open>Vocabularies\<close>

datatype mcp_server_kind =
  KindMock | KindStdio | KindHttp | KindSse | KindLocalAgent | KindCustom

definition server_kind_name :: "mcp_server_kind \<Rightarrow> string" where
  "server_kind_name k = (case k of
       KindMock \<Rightarrow> ''mock'' | KindStdio \<Rightarrow> ''stdio_future'' | KindHttp \<Rightarrow> ''http_future''
     | KindSse \<Rightarrow> ''sse_future'' | KindLocalAgent \<Rightarrow> ''local_agent_future''
     | KindCustom \<Rightarrow> ''custom_future'')"

datatype mcp_entry_status = EntryActive | EntryDisabled | EntryDeprecated

definition entry_status_name :: "mcp_entry_status \<Rightarrow> string" where
  "entry_status_name st = (case st of
       EntryActive \<Rightarrow> ''active'' | EntryDisabled \<Rightarrow> ''disabled'' | EntryDeprecated \<Rightarrow> ''deprecated'')"

datatype mcp_risk = RiskLow | RiskMedium | RiskHigh | RiskCritical

definition mcp_risk_name :: "mcp_risk \<Rightarrow> string" where
  "mcp_risk_name r = (case r of
       RiskLow \<Rightarrow> ''low'' | RiskMedium \<Rightarrow> ''medium'' | RiskHigh \<Rightarrow> ''high'' | RiskCritical \<Rightarrow> ''critical'')"

datatype mcp_status =
  McpCompleted | McpBlocked | McpFailed | McpUnavailable | McpPolicyDenied | McpAuthDenied | McpSecretDenied

definition mcp_status_name :: "mcp_status \<Rightarrow> string" where
  "mcp_status_name st = (case st of
       McpCompleted \<Rightarrow> ''completed'' | McpBlocked \<Rightarrow> ''blocked'' | McpFailed \<Rightarrow> ''failed''
     | McpUnavailable \<Rightarrow> ''unavailable'' | McpPolicyDenied \<Rightarrow> ''policy_denied''
     | McpAuthDenied \<Rightarrow> ''auth_denied'' | McpSecretDenied \<Rightarrow> ''secret_denied'')"

datatype mcp_event_type =
    ServerListed
  | ToolListed
  | InvocationRequested
  | InvocationCompleted
  | InvocationBlocked
  | ToolAuthDenied
  | ToolPolicyDenied
  | ToolSecretDenied
  | ToolNetworkDenied
  | ToolUnavailable
  | RealTransportDisabled
  | OutputRedacted

datatype mcp_audit_result =
  ResAllowed | ResBlocked | ResCompleted | ResFailed | ResDenied | ResUnavailable | ResRedacted

datatype mcp_gateway_kind = GatewayMock | GatewayDisabledReal

section \<open>Entities\<close>

record mcp_server =
  mv_id :: string
  mv_name :: string
  mv_display_name :: string
  mv_description :: string
  mv_kind :: mcp_server_kind
  mv_status :: mcp_entry_status
  mv_owner_team :: "string option"
  mv_allowed_tools :: "string list"
  mv_secret_refs :: "string list"
  mv_sandbox_profile :: "string option"
  mv_network_policy :: "string option"
  mv_redaction_policy :: "string option"
  mv_metadata :: jsobj
  mv_created_at :: time
  mv_updated_at :: time

record mcp_tool =
  mt_id :: string
  mt_server_id :: string
  mt_name :: string
  mt_display_name :: string
  mt_description :: string
  mt_input_schema :: jsobj
  mt_output_schema :: "jsobj option"
  mt_risk :: mcp_risk
  mt_permissions :: "string list"
  mt_secret_refs :: "string list"
  mt_scopes :: "string list"
  mt_status :: mcp_entry_status
  mt_metadata :: jsobj
  mt_created_at :: time
  mt_updated_at :: time

record mcp_request =
  mq_id :: string
  mq_server_id :: string
  mq_tool_id :: string
  mq_tool_name :: string
  mq_actor_id :: "string option"
  mq_principal_id :: "string option"
  mq_task_id :: "string option"
  mq_run_id :: "string option"
  mq_agent_run_id :: "string option"
  mq_auth :: "auth_context option"
  mq_input :: jsobj
  mq_purpose :: string
  mq_metadata :: jsobj
  mq_created_at :: time

record mcp_result =
  mr_id :: string
  mr_request_id :: string
  mr_server_id :: string
  mr_tool_id :: string
  mr_status :: mcp_status
  mr_output :: "jsobj option"
  mr_preview :: "string option"
  mr_error :: "string option"
  mr_policy_decision_id :: "string option"
  mr_auth_decision_id :: "string option"
  mr_lease_ids :: "string list"
  mr_redaction :: bool
  mr_created_at :: time
  mr_completed_at :: "time option"
  mr_metadata :: jsobj

record mcp_event =
  mve_id :: string
  mve_type :: mcp_event_type
  mve_server_id :: "string option"
  mve_tool_id :: "string option"
  mve_request_id :: "string option"
  mve_actor_id :: "string option"
  mve_principal_id :: "string option"
  mve_task_id :: "string option"
  mve_run_id :: "string option"
  mve_result :: mcp_audit_result
  mve_reason :: "string option"
  mve_metadata :: jsobj
  mve_created_at :: time

section \<open>Text\<close>

subsection \<open>JSON.stringify with an indent of two\<close>

definition hex_digit :: "nat \<Rightarrow> char" where
  "hex_digit d = (if d < 10 then char_of (d + 48) else char_of (d + 87))"

definition json_char :: "char \<Rightarrow> string" where
  "json_char c =
     (let n = (of_char c :: nat); bs = CHR 0x5C
      in if c = CHR 0x22 \<or> c = bs then [bs, c]
         else if n = 8 then [bs, CHR ''b''] else if n = 9 then [bs, CHR ''t'']
         else if n = 10 then [bs, CHR ''n''] else if n = 12 then [bs, CHR ''f'']
         else if n = 13 then [bs, CHR ''r'']
         else if n < 32 then bs # ''u00'' @ [hex_digit (n div 16), hex_digit (n mod 16)]
         else [c])"

definition json_quote :: "string \<Rightarrow> string" where
  "json_quote s = [CHR 0x22] @ concat (map json_char s) @ [CHR 0x22]"

definition json_block :: "char \<Rightarrow> char \<Rightarrow> nat \<Rightarrow> string list \<Rightarrow> string" where
  "json_block l r n parts =
     (if parts = [] then [l, r]
      else [l, CHR 0x0A] @
        join_with [CHR '','', CHR 0x0A] (map (\<lambda>p. replicate (n + 2) CHR '' '' @ p) parts) @
        [CHR 0x0A] @ replicate n CHR '' '' @ [r])"

fun json_text :: "nat \<Rightarrow> js \<Rightarrow> string" where
  \<comment> \<open>at an indent of \<open>n\<close>; an undefined member of an object is left out, an undefined item is null\<close>
  "json_text n JUndef = ''null''"
| "json_text n JNull = ''null''"
| "json_text n (JBool b) = (if b then ''true'' else ''false'')"
| "json_text n (JNum r) = num_to_string r"
| "json_text n (JStr s) = json_quote s"
| "json_text n (JArr xs) = json_block CHR ''['' CHR '']'' n (map (json_text (n + 2)) xs)"
| "json_text n (JObj o') = json_block CHR ''{'' CHR ''}'' n
     (concat (map (\<lambda>(k, v). if v = JUndef then []
        else [json_quote k @ '': '' @ json_text (n + 2) v]) o'))"

definition to_json_preview :: "jsobj \<Rightarrow> string" where
  "to_json_preview o' = json_text 0 (JObj o')"

subsection \<open>Sanitisers\<close>

definition env_assignment :: pat where
  \<comment> \<open>a word that ends in a sensitive name, an equals sign and a value, with the flag \<open>i\<close>\<close>
  "env_assignment = seq_of [Bound, sensitive_name, Rep 0 is_space, lit ''='', Rep 0 is_space,
     Rep 1 (\<lambda>c. \<not> is_space c \<and> \<not> one_of [CHR 0x22, CHR 0x27, CHR '','', CHR ''}''] c)]"

definition cache_reference :: pat where
  "cache_reference = Alt (lit_i ''~/.codex/auth.json'')
     (Alt (Cat (lit_i ''~/.claude'') (Rep 0 (\<lambda>c. \<not> is_space c \<and> \<not> one_of [CHR 0x22, CHR 0x27] c)))
          (lit_i ''Google credential cache''))"

definition mcp_words :: "string list" where
  "mcp_words = [''token'', ''secret'', ''password'', ''cookie'', ''credential'', ''apikey'', ''api_key'',
     ''authorization'']"

definition mcp_metadata_text :: "string \<Rightarrow> string" where
  "mcp_metadata_text s =
     subst cache_reference ''[redacted-credential-cache]''
       (subst (Alt (Cat (lit ''ghp_'') (Rep 1 is_word)) (Cat (lit ''github_pat_'') (Rep 1 is_word)))
          ''[redacted]''
       (subst sk_pattern ''[redacted]''
       (subst bearer_pattern ''Bearer [redacted]''
       (subst env_assignment ''[redacted-env]'' s))))"

fun sanitize_mcp_entry :: "string \<Rightarrow> js \<Rightarrow> js" where
  \<comment> \<open>the value of a key of \<open>sanitizeMetadata\<close>; an array is cloned as it is\<close>
  "sanitize_mcp_entry k v =
     (if matches_any_word mcp_words k then JStr ''[redacted]''
      else (case v of
        JStr s \<Rightarrow> JStr (mcp_metadata_text s)
      | JObj o' \<Rightarrow> JObj (map (\<lambda>(k', v'). (k', sanitize_mcp_entry k' v')) o')
      | _ \<Rightarrow> v))"

declare sanitize_mcp_entry.simps [simp del]

definition sanitize_mcp_metadata :: "jsobj \<Rightarrow> jsobj" where
  "sanitize_mcp_metadata o' = obj_map sanitize_mcp_entry o'"

section \<open>State\<close>

text \<open>
  The four repositories of the gateway and its three services; the policy engine inside the
  services is a parameter of the operations.
\<close>

record mcp_state =
  mg_servers :: "mcp_server list"
  mg_tools :: "mcp_tool list"
  mg_invocations :: "mcp_result list"
  mg_audit :: "mcp_event list"
  mg_policy :: policy_service
  mg_auth :: auth_service
  mg_security :: security_state

definition list_mcp_servers :: "mcp_entry_status option \<Rightarrow> mcp_state \<Rightarrow> mcp_server list" where
  "list_mcp_servers status st = filter (\<lambda>v. status = None \<or> Some (mv_status v) = status) (mg_servers st)"

definition get_mcp_server :: "string \<Rightarrow> mcp_state \<Rightarrow> mcp_server option" where
  "get_mcp_server i st = List.find (\<lambda>v. mv_id v = i \<or> mv_name v = i) (mg_servers st)"

definition upsert_mcp_server :: "mcp_server \<Rightarrow> mcp_state \<Rightarrow> mcp_state" where
  "upsert_mcp_server v st = st\<lparr>mg_servers := upsert_by mv_id v (mg_servers st)\<rparr>"

definition list_mcp_tools :: "string option \<Rightarrow> mcp_entry_status option \<Rightarrow> mcp_state \<Rightarrow> mcp_tool list" where
  "list_mcp_tools server status st =
     filter (\<lambda>t. (server = None \<or> Some (mt_server_id t) = server) \<and>
                 (status = None \<or> Some (mt_status t) = status)) (mg_tools st)"

definition find_mcp_tool :: "string \<Rightarrow> mcp_state \<Rightarrow> mcp_tool option" where
  "find_mcp_tool i st = List.find (\<lambda>t. mt_id t = i \<or> mt_name t = i) (mg_tools st)"

definition upsert_mcp_tool :: "mcp_tool \<Rightarrow> mcp_state \<Rightarrow> mcp_state" where
  "upsert_mcp_tool t st = st\<lparr>mg_tools := upsert_by mt_id t (mg_tools st)\<rparr>"

definition record_invocation :: "mcp_result \<Rightarrow> mcp_state \<Rightarrow> mcp_state" where
  "record_invocation r st = st\<lparr>mg_invocations := mg_invocations st @ [r]\<rparr>"

definition get_invocation :: "string \<Rightarrow> mcp_state \<Rightarrow> mcp_result option" where
  "get_invocation i st = List.find (\<lambda>r. mr_id r = i \<or> mr_request_id r = i) (mg_invocations st)"

text \<open>Listings: newest first, equal dates by id.\<close>

definition newest_cmp :: "('a \<Rightarrow> time) \<Rightarrow> ('a \<Rightarrow> string) \<Rightarrow> 'a \<Rightarrow> 'a \<Rightarrow> int" where
  "newest_cmp date key = cmp_or (\<lambda>l r. num_cmp (date r) (date l)) (\<lambda>l r. locale_compare (key l) (key r))"

record invocation_filter =
  if_server :: "string option"
  if_tool :: "string option"
  if_status :: "mcp_status option"

definition list_invocations :: "invocation_filter \<Rightarrow> mcp_state \<Rightarrow> mcp_result list" where
  "list_invocations f st =
     sort_by (newest_cmp mr_created_at mr_id)
       (filter (\<lambda>r. (if_server f = None \<or> Some (mr_server_id r) = if_server f) \<and>
                    (if_tool f = None \<or> Some (mr_tool_id r) = if_tool f) \<and>
                    (if_status f = None \<or> Some (mr_status r) = if_status f)) (mg_invocations st))"

type_synonym mcp_event_input = "string \<Rightarrow> time \<Rightarrow> mcp_event"

definition record_mcp_event :: "draws \<Rightarrow> mcp_event_input \<Rightarrow> mcp_state \<Rightarrow> mcp_event \<times> mcp_state" where
  "record_mcp_event s mk st =
     (let e = mk (fresh_id ''mcpaudit'' 0 s) (clock 0 s);
          e' = e\<lparr>mve_metadata := sanitize_mcp_metadata (mve_metadata e)\<rparr>
      in (e', st\<lparr>mg_audit := mg_audit st @ [e']\<rparr>))"

record mcp_event_filter =
  mf_server :: "string option"
  mf_tool :: "string option"
  mf_type :: "mcp_event_type option"
  mf_actor :: "string option"

definition list_mcp_events :: "mcp_event_filter \<Rightarrow> mcp_state \<Rightarrow> mcp_event list" where
  "list_mcp_events f st =
     sort_by (newest_cmp mve_created_at mve_id)
       (filter (\<lambda>e. (mf_server f = None \<or> mve_server_id e = mf_server f) \<and>
                    (mf_tool f = None \<or> mve_tool_id e = mf_tool f) \<and>
                    (mf_type f = None \<or> Some (mve_type e) = mf_type f) \<and>
                    (mf_actor f = None \<or> mve_actor_id e = mf_actor f)) (mg_audit st))"

interpretation newest_cmp: js_comparator "newest_cmp date key" for date key
  unfolding newest_cmp_def
  using js_comparator_or[OF js_comparator_key[OF js_comparator_flip[OF num_cmp.js_comparator_axioms], of date]
      js_comparator_key[OF locale_compare.js_comparator_axioms, of key]] by simp

end
