(* ===== verification/McpCatalog.thy ===== *)
theory McpCatalog
  imports McpModel
begin

text \<open>
  The default catalogue of the MCP gateway, \<open>packages/mcp-gateway/src/catalog.ts\<close>: six servers,
  of which five are mocks, and twelve tools, of which seven are active.
\<close>

definition mcp_schema :: "jsobj \<Rightarrow> jsobj" where
  "mcp_schema props = [(''type'', JStr ''object''), (''properties'', JObj props),
     (''additionalProperties'', JBool False)]"

definition mcp_catalog_date :: time where
  \<comment> \<open>2026-05-13T00:00:00.000Z\<close>
  "mcp_catalog_date = 1778630400000"

text \<open>A row of the catalogue; its name is its id, and a server of it needs no secret.\<close>

definition mcp_server_row ::
  "string \<Rightarrow> string \<Rightarrow> string \<Rightarrow> mcp_server_kind \<Rightarrow> mcp_entry_status \<Rightarrow> string \<Rightarrow> string list \<Rightarrow> jsobj \<Rightarrow>
   mcp_server" where
  "mcp_server_row i display desc kind status team allowed meta =
     \<lparr>mv_id = i, mv_name = i, mv_display_name = display, mv_description = desc, mv_kind = kind,
      mv_status = status, mv_owner_team = Some team, mv_allowed_tools = allowed, mv_secret_refs = [],
      mv_sandbox_profile = None, mv_network_policy = None, mv_redaction_policy = None,
      mv_metadata = meta, mv_created_at = mcp_catalog_date, mv_updated_at = mcp_catalog_date\<rparr>"

definition mcp_tool_row ::
  "string \<Rightarrow> string \<Rightarrow> string \<Rightarrow> string \<Rightarrow> jsobj \<Rightarrow> jsobj option \<Rightarrow> mcp_risk \<Rightarrow> string list \<Rightarrow>
   string list \<Rightarrow> string list \<Rightarrow> mcp_entry_status \<Rightarrow> jsobj \<Rightarrow> mcp_tool" where
  "mcp_tool_row i server display desc inp outp risk perms secrets scopes status meta =
     \<lparr>mt_id = i, mt_server_id = server, mt_name = i, mt_display_name = display, mt_description = desc,
      mt_input_schema = inp, mt_output_schema = outp, mt_risk = risk, mt_permissions = perms,
      mt_secret_refs = secrets, mt_scopes = scopes, mt_status = status, mt_metadata = meta,
      mt_created_at = mcp_catalog_date, mt_updated_at = mcp_catalog_date\<rparr>"

section \<open>Servers\<close>

definition mock_github_mcp :: mcp_server where
  "mock_github_mcp = mcp_server_row ''mock-github-mcp'' ''Mock GitHub MCP''
    ''Deterministic read-only GitHub-like MCP fixture.'' KindMock EntryActive ''team_development''
    [''github.get_issue'', ''github.list_pull_requests'', ''github.get_private_issue'',
    ''github.create_issue''] [(''realIntegration'', JBool False), (''externalCalls'', JBool False)]"

definition mock_docs_search_mcp :: mcp_server where
  "mock_docs_search_mcp = mcp_server_row ''mock-docs-search-mcp'' ''Mock Docs Search MCP''
    ''Deterministic documentation search fixture.'' KindMock EntryActive ''team_platform'' [''docs.search'']
    [(''realIntegration'', JBool False), (''externalCalls'', JBool False)]"

definition mock_jira_mcp :: mcp_server where
  "mock_jira_mcp = mcp_server_row ''mock-jira-mcp'' ''Mock Jira MCP''
    ''Deterministic Jira-like ticket fixture.'' KindMock EntryActive ''team_development''
    [''jira.get_ticket'', ''jira.transition_ticket''] [(''realIntegration'', JBool False),
    (''externalCalls'', JBool False)]"

definition mock_db_schema_mcp :: mcp_server where
  "mock_db_schema_mcp = mcp_server_row ''mock-db-schema-mcp'' ''Mock DB Schema MCP''
    ''Deterministic database schema metadata fixture.'' KindMock EntryActive ''team_platform''
    [''db.get_schema'', ''db.run_write_query''] [(''realIntegration'', JBool False), (''externalCalls'',
    JBool False)]"

definition mock_ci_mcp :: mcp_server where
  "mock_ci_mcp = mcp_server_row ''mock-ci-mcp'' ''Mock CI MCP'' ''Deterministic CI status fixture.''
    KindMock EntryActive ''team_development'' [''ci.get_latest_status'', ''ci.deploy'']
    [(''realIntegration'', JBool False), (''externalCalls'', JBool False)]"

definition future_http_mcp :: mcp_server where
  "future_http_mcp = mcp_server_row ''future-http-mcp'' ''Future HTTP MCP Transport''
    ''Disabled real MCP transport placeholder.'' KindHttp EntryDisabled ''team_platform''
    [''future.real_tool''] [(''notImplemented'', JBool True), (''realTransport'', JBool False)]"

definition default_mcp_servers :: "mcp_server list" where
  "default_mcp_servers = [mock_github_mcp, mock_docs_search_mcp, mock_jira_mcp, mock_db_schema_mcp,
    mock_ci_mcp, future_http_mcp]"

section \<open>Tools\<close>

definition tool_github_get_issue :: mcp_tool where
  "tool_github_get_issue = mcp_tool_row ''github.get_issue'' ''mock-github-mcp'' ''Get Mock Issue''
    ''Read deterministic mock issue metadata.'' (mcp_schema [(''issueNumber'', JObj [(''type'', JStr
    ''number'')])]) (Some (mcp_schema [(''issue'', JObj [(''type'', JStr ''object'')])])) RiskLow
    [''mcp.tool.invoke.low_risk''] [] [''repo''] EntryActive [(''readOnly'', JBool True),
    (''networkRequired'', JBool False), (''writeOperation'', JBool False), (''deployOperation'', JBool
    False), (''localExecutionRequired'', JBool False)]"

definition tool_github_list_pull_requests :: mcp_tool where
  "tool_github_list_pull_requests = mcp_tool_row ''github.list_pull_requests'' ''mock-github-mcp''
    ''List Mock Pull Requests'' ''Read deterministic mock pull request metadata.'' (mcp_schema [(''state'',
    JObj [(''type'', JStr ''string'')])]) (Some (mcp_schema [(''pullRequests'', JObj [(''type'', JStr
    ''array'')])])) RiskLow [''mcp.tool.invoke.low_risk''] [] [''repo''] EntryActive [(''readOnly'', JBool
    True), (''networkRequired'', JBool False), (''writeOperation'', JBool False), (''deployOperation'',
    JBool False), (''localExecutionRequired'', JBool False)]"

definition tool_github_get_private_issue :: mcp_tool where
  "tool_github_get_private_issue = mcp_tool_row ''github.get_private_issue'' ''mock-github-mcp''
    ''Get Private Mock Issue'' ''Secret-requiring read fixture that remains blocked in v0.'' (mcp_schema
    [(''issueNumber'', JObj [(''type'', JStr ''number'')])]) None RiskLow [''mcp.tool.invoke.low_risk'',
    ''mcp.tool.secret.resolve''] [''secretref_future_github_mcp''] [''repo''] EntryActive [(''readOnly'',
    JBool True), (''networkRequired'', JBool False), (''writeOperation'', JBool False),
    (''deployOperation'', JBool False), (''localExecutionRequired'', JBool False)]"

definition tool_github_create_issue :: mcp_tool where
  "tool_github_create_issue = mcp_tool_row ''github.create_issue'' ''mock-github-mcp'' ''Create Mock Issue''
    ''Write-like fixture disabled by default.'' (mcp_schema [(''title'', JObj [(''type'', JStr
    ''string'')]), (''body'', JObj [(''type'', JStr ''string'')])]) None RiskHigh
    [''mcp.tool.invoke.high_risk'', ''mcp.tool.write''] [''secretref_future_github_mcp''] [''repo'']
    EntryDisabled [(''readOnly'', JBool False), (''networkRequired'', JBool False), (''writeOperation'',
    JBool True), (''deployOperation'', JBool False), (''localExecutionRequired'', JBool False)]"

definition tool_docs_search :: mcp_tool where
  "tool_docs_search = mcp_tool_row ''docs.search'' ''mock-docs-search-mcp'' ''Search Mock Docs''
    ''Search deterministic local documentation metadata.'' (mcp_schema [(''query'', JObj [(''type'', JStr
    ''string'')])]) (Some (mcp_schema [(''results'', JObj [(''type'', JStr ''array'')])])) RiskLow
    [''mcp.tool.invoke.low_risk''] [] [''global''] EntryActive [(''readOnly'', JBool True),
    (''networkRequired'', JBool False), (''writeOperation'', JBool False), (''deployOperation'', JBool
    False), (''localExecutionRequired'', JBool False)]"

definition tool_jira_get_ticket :: mcp_tool where
  "tool_jira_get_ticket = mcp_tool_row ''jira.get_ticket'' ''mock-jira-mcp'' ''Get Mock Ticket''
    ''Read deterministic Jira-like ticket metadata.'' (mcp_schema [(''ticketKey'', JObj [(''type'', JStr
    ''string'')])]) (Some (mcp_schema [(''ticket'', JObj [(''type'', JStr ''object'')])])) RiskLow
    [''mcp.tool.invoke.low_risk''] [] [''project''] EntryActive [(''readOnly'', JBool True),
    (''networkRequired'', JBool False), (''writeOperation'', JBool False), (''deployOperation'', JBool
    False), (''localExecutionRequired'', JBool False)]"

definition tool_jira_transition_ticket :: mcp_tool where
  "tool_jira_transition_ticket = mcp_tool_row ''jira.transition_ticket'' ''mock-jira-mcp''
    ''Transition Mock Ticket'' ''Write-like fixture disabled by default.'' (mcp_schema [(''ticketKey'', JObj
    [(''type'', JStr ''string'')]), (''transition'', JObj [(''type'', JStr ''string'')])]) None RiskHigh
    [''mcp.tool.invoke.high_risk'', ''mcp.tool.write''] [''secretref_future_jira_mcp''] [''project'']
    EntryDisabled [(''readOnly'', JBool False), (''networkRequired'', JBool False), (''writeOperation'',
    JBool True), (''deployOperation'', JBool False), (''localExecutionRequired'', JBool False)]"

definition tool_db_get_schema :: mcp_tool where
  "tool_db_get_schema = mcp_tool_row ''db.get_schema'' ''mock-db-schema-mcp'' ''Get Mock DB Schema''
    ''Read deterministic database schema metadata.'' (mcp_schema [(''schemaName'', JObj [(''type'', JStr
    ''string'')])]) (Some (mcp_schema [(''tables'', JObj [(''type'', JStr ''array'')])])) RiskLow
    [''mcp.tool.invoke.low_risk''] [] [''project''] EntryActive [(''readOnly'', JBool True),
    (''networkRequired'', JBool False), (''writeOperation'', JBool False), (''deployOperation'', JBool
    False), (''localExecutionRequired'', JBool False)]"

definition tool_db_run_write_query :: mcp_tool where
  "tool_db_run_write_query = mcp_tool_row ''db.run_write_query'' ''mock-db-schema-mcp''
    ''Run Mock Write Query'' ''Critical database write fixture disabled by default.'' (mcp_schema [(''sql'',
    JObj [(''type'', JStr ''string'')])]) None RiskCritical [''mcp.tool.invoke.critical'',
    ''mcp.tool.write''] [''secretref_future_db_mcp''] [''project''] EntryDisabled [(''readOnly'', JBool
    False), (''networkRequired'', JBool False), (''writeOperation'', JBool True), (''deployOperation'',
    JBool False), (''localExecutionRequired'', JBool False)]"

definition tool_ci_get_latest_status :: mcp_tool where
  "tool_ci_get_latest_status = mcp_tool_row ''ci.get_latest_status'' ''mock-ci-mcp''
    ''Get Latest Mock CI Status'' ''Read deterministic CI status metadata.'' (mcp_schema [(''branch'', JObj
    [(''type'', JStr ''string'')])]) (Some (mcp_schema [(''status'', JObj [(''type'', JStr ''string'')])]))
    RiskLow [''mcp.tool.invoke.low_risk''] [] [''repo''] EntryActive [(''readOnly'', JBool True),
    (''networkRequired'', JBool False), (''writeOperation'', JBool False), (''deployOperation'', JBool
    False), (''localExecutionRequired'', JBool False)]"

definition tool_ci_deploy :: mcp_tool where
  "tool_ci_deploy = mcp_tool_row ''ci.deploy'' ''mock-ci-mcp'' ''Deploy Mock CI''
    ''Critical deployment fixture disabled by default.'' (mcp_schema [(''environment'', JObj [(''type'',
    JStr ''string'')])]) None RiskCritical [''mcp.tool.invoke.critical'', ''mcp.tool.deploy'']
    [''secretref_future_ci_mcp''] [''project''] EntryDisabled [(''readOnly'', JBool False),
    (''networkRequired'', JBool False), (''writeOperation'', JBool False), (''deployOperation'', JBool
    True), (''localExecutionRequired'', JBool False)]"

definition tool_future_real_tool :: mcp_tool where
  "tool_future_real_tool = mcp_tool_row ''future.real_tool'' ''future-http-mcp'' ''Future Real MCP Tool''
    ''Disabled real transport placeholder.'' (mcp_schema []) None RiskCritical
    [''mcp.tool.invoke.critical''] [] [] EntryDisabled [(''notImplemented'', JBool True),
    (''realTransport'', JBool False), (''networkRequired'', JBool True)]"

definition default_mcp_tools :: "mcp_tool list" where
  "default_mcp_tools = [tool_github_get_issue, tool_github_list_pull_requests,
    tool_github_get_private_issue, tool_github_create_issue, tool_docs_search, tool_jira_get_ticket,
    tool_jira_transition_ticket, tool_db_get_schema, tool_db_run_write_query, tool_ci_get_latest_status,
    tool_ci_deploy, tool_future_real_tool]"

lemmas catalog_servers = mock_github_mcp_def mock_docs_search_mcp_def mock_jira_mcp_def
  mock_db_schema_mcp_def mock_ci_mcp_def future_http_mcp_def

lemmas catalog_tools = tool_github_get_issue_def tool_github_list_pull_requests_def tool_github_get_private_issue_def
    tool_github_create_issue_def tool_docs_search_def tool_jira_get_ticket_def
    tool_jira_transition_ticket_def tool_db_get_schema_def tool_db_run_write_query_def
    tool_ci_get_latest_status_def tool_ci_deploy_def tool_future_real_tool_def

end
