(* ===== verification/McpGateway.thy ===== *)
theory McpGateway
  imports McpCatalog
begin

text \<open>
  The MCP gateway, \<open>packages/mcp-gateway/src/gateway.ts\<close>: listings, the gates of an invocation,
  the mock tools, and the placeholder of a real transport.  The gateway asks its authorisation
  service, its policy service and its security service; the engine inside them is a parameter.
\<close>

section \<open>Helpers\<close>

definition risk_action :: "mcp_risk \<Rightarrow> string" where
  "risk_action r =
     (if r = RiskCritical then ''mcp.tool.invoke.critical''
      else if r = RiskHigh \<or> r = RiskMedium then ''mcp.tool.invoke.high_risk''
      else ''mcp.tool.invoke.low_risk'')"

definition result_status_for_reason :: "string \<Rightarrow> mcp_status" where
  "result_status_for_reason r =
     (if str_includes r ''authorization'' then McpAuthDenied
      else if str_includes r ''policy'' then McpPolicyDenied
      else if str_includes r ''secret'' then McpSecretDenied
      else if str_includes r ''unavailable'' \<or> str_includes r ''not_implemented'' then McpUnavailable
      else McpBlocked)"

definition flag :: "string \<Rightarrow> jsobj \<Rightarrow> bool" where
  \<comment> \<open>\<open>metadata[k] === true\<close>\<close>
  "flag k meta \<longleftrightarrow> obj_get meta k = JBool True"

definition sanitize_mcp_string :: "string \<Rightarrow> string" where
  "sanitize_mcp_string s =
     subst cache_reference ''[redacted-credential-cache]''
       (subst (Alt (seq_of [Bound, lit ''ghp_'', Rep 1 is_word]) (seq_of [lit ''github_pat_'', Rep 1 is_word, Bound]))
          ''[redacted-api-key]''
       (subst (seq_of [Bound, lit ''sk-'', Rep 6 dash_word, Bound]) ''[redacted-api-key]''
       (subst bearer_pattern_i ''Bearer [redacted]''
       (subst env_assignment ''[redacted-env]'' s))))"

text \<open>Each level of a value is sanitised by the security package before its members are.\<close>

fun js_depth :: "js \<Rightarrow> nat" where
  "js_depth (JArr xs) = Suc (fold max (map js_depth xs) 0)"
| "js_depth (JObj o') = Suc (fold max (map (\<lambda>(k, v). js_depth v) o') 0)"
| "js_depth _ = 0"

lemma fold_max_le_iff: "fold max xs (m :: nat) \<le> n \<longleftrightarrow> m \<le> n \<and> (\<forall>x \<in> set xs. x \<le> n)"
  by (induction xs arbitrary: m) auto

lemma js_depth_Arr_le: "js_depth (JArr xs) \<le> Suc n \<longleftrightarrow> (\<forall>x \<in> set xs. js_depth x \<le> n)"
  by (simp add: fold_max_le_iff)

lemma js_depth_Obj_le: "js_depth (JObj o') \<le> Suc n \<longleftrightarrow> (\<forall>(k, v) \<in> set o'. js_depth v \<le> n)"
  by (fastforce simp: fold_max_le_iff)

lemma js_depth_member_le:
  "x \<in> set xs \<Longrightarrow> js_depth x \<le> fold max (map js_depth xs) 0"
  "(k, v) \<in> set o' \<Longrightarrow> js_depth v \<le> fold max (map (\<lambda>(k, v). js_depth v) o') 0"
  using fold_max_le_iff[of "map js_depth xs" 0 "fold max (map js_depth xs) 0"]
    fold_max_le_iff[of "map (\<lambda>(k, v). js_depth v) o'" 0 "fold max (map (\<lambda>(k, v). js_depth v) o') 0"]
  by auto

lemma js_depth_members:
  "x \<in> set xs \<Longrightarrow> js_depth x < js_depth (JArr xs)"
  "(k, v) \<in> set o' \<Longrightarrow> js_depth v < js_depth (JObj o')"
  using js_depth_member_le by (simp_all add: less_Suc_eq_le)

lemma js_depth_sanitized: "js_depth (sanitize_security_value k v) \<le> js_depth v"
proof (induction v arbitrary: k)
  case (JArr xs)
  have "js_depth (sanitize_security_value [] x) \<le> fold max (map js_depth xs) 0" if "x \<in> set xs" for x
    using JArr[OF that] js_depth_member_le(1)[OF that] by (rule order_trans)
  then have "js_depth (JArr (map (sanitize_security_value []) xs)) \<le> js_depth (JArr xs)"
    unfolding js_depth.simps(1)[of xs] js_depth_Arr_le by simp
  then show ?case by (simp add: sanitize_security_value.simps)
next
  case (JObj o')
  have "js_depth (sanitize_security_value a b) \<le> fold max (map (\<lambda>(k, v). js_depth v) o') 0"
    if m: "(a, b) \<in> set o'" for a b
  proof -
    have "js_depth (sanitize_security_value a b) \<le> js_depth b" by (rule JObj[OF m]) simp
    then show ?thesis using js_depth_member_le(2)[OF m] by (rule order_trans)
  qed
  then have "js_depth (JObj (map (\<lambda>(k, x). (k, sanitize_security_value k x)) o')) \<le> js_depth (JObj o')"
    unfolding js_depth.simps(2)[of o'] js_depth_Obj_le by auto
  then show ?case by (simp add: sanitize_security_value.simps)
qed (simp_all add: sanitize_security_value.simps)

function sanitize_mcp_value :: "js \<Rightarrow> js" where
  "sanitize_mcp_value v =
     (case sanitize_security_value [] v of
        JStr s \<Rightarrow> JStr (sanitize_mcp_string s)
      | JArr xs \<Rightarrow> JArr (map sanitize_mcp_value xs)
      | JObj o' \<Rightarrow> JObj (map (\<lambda>(k, x). (k, sanitize_mcp_value x)) o')
      | w \<Rightarrow> w)"
  by pat_completeness auto
termination
proof (relation "measure js_depth")
  fix v w xs assume "sanitize_security_value [] v = JArr xs" "w \<in> set xs"
  then show "(w, v) \<in> measure js_depth"
    using js_depth_members(1)[of w xs] js_depth_sanitized[of "[]" v] by simp
next
  fix v o' kx k w assume "sanitize_security_value [] v = JObj o'" "kx \<in> set o'" "(k, w) = kx"
  then show "(w, v) \<in> measure js_depth"
    using js_depth_members(2)[of k w o'] js_depth_sanitized[of "[]" v] by simp
qed simp

declare sanitize_mcp_value.simps [simp del]

definition sanitize_mcp_record :: "jsobj \<Rightarrow> jsobj" where
  "sanitize_mcp_record o' = (case sanitize_mcp_value (JObj o') of JObj p \<Rightarrow> p | _ \<Rightarrow> [])"

section \<open>Contexts and authorisation\<close>

definition mcp_auth_request :: "string option \<Rightarrow> jsobj \<Rightarrow> auth_request" where
  "mcp_auth_request actor_id meta =
     \<lparr>aq_request_id = None, aq_actor_id = actor_id, aq_correlation_id = None, aq_source = Some ''api'',
      aq_metadata = Some ((''mcpGateway'', JBool True) # meta)\<rparr>"

text \<open>A given context, or one the authorisation service resolves with its mock provider.\<close>

definition mcp_context ::
  "draws \<Rightarrow> auth_context option \<Rightarrow> string option \<Rightarrow> jsobj \<Rightarrow> mcp_state \<Rightarrow> auth_context \<times> mcp_state" where
  "mcp_context s given actor_id meta st =
     (case given of
        Some cx \<Rightarrow> (cx, st)
      | None \<Rightarrow>
          (let (cx, r) = resolve_auth_context s ''mock-admin'' (mcp_auth_request actor_id meta) (as_repo (mg_auth st))
           in (cx, st\<lparr>mg_auth := (mg_auth st)\<lparr>as_repo := r\<rparr>\<rparr>)))"

definition context_for_request :: "draws \<Rightarrow> mcp_request \<Rightarrow> mcp_state \<Rightarrow> auth_context \<times> mcp_state" where
  "context_for_request s q =
     mcp_context s (mq_auth q) (mq_actor_id q)
       [(''requestId'', JStr (mq_id q)), (''taskId'', of_opt_str (mq_task_id q)),
        (''taskRunId'', of_opt_str (mq_run_id q))]"

definition mcp_check ::
  "auth_context \<Rightarrow> string \<Rightarrow> string \<Rightarrow> string \<Rightarrow> jsobj \<Rightarrow> mcp_request option \<Rightarrow> check_request" where
  "mcp_check cx action kind i env q =
     (let task = Option.bind q mq_task_id in
      \<lparr>ck_context = cx, ck_action = action,
       ck_resource = \<lparr>ar_kind = kind, ar_id = Some i,
         ar_scope = (if truthy_str task
           then Some \<lparr>sc_id = ''scope_task_'' @ the task, sc_kind = ''task'', sc_scope_id = task,
             sc_description = ''MCP invocation task scope'', sc_metadata = [(''mcpGateway'', JBool True)]\<rparr>
           else None),
         ar_metadata = Some (obj_spread env [(''mcpGateway'', JBool True)])\<rparr>,
       ck_policy_context = Some ((create_policy_context (Some env)
           (Some [(''requestId'', of_opt_str (map_option mq_id q)),
                  (''purpose'', of_opt_str (map_option mq_purpose q))]))
         \<lparr>ctx_task_id := task, ctx_task_run_id := Option.bind q mq_run_id\<rparr>)\<rparr>)"

definition mcp_authorize ::
  "engine \<Rightarrow> draws \<Rightarrow> auth_context \<Rightarrow> string \<Rightarrow> string \<Rightarrow> string \<Rightarrow> jsobj \<Rightarrow> mcp_request option \<Rightarrow>
   mcp_state \<Rightarrow> auth_decision \<times> mcp_state" where
  "mcp_authorize decide s cx action kind i env q st =
     (let (d, a) = auth_check decide s (mcp_check cx action kind i env q) (mg_auth st)
      in (d, st\<lparr>mg_auth := a\<rparr>))"

definition needs_secrets :: "mcp_server \<Rightarrow> mcp_tool \<Rightarrow> bool" where
  "needs_secrets v t \<longleftrightarrow> mt_secret_refs t \<noteq> [] \<or> mv_secret_refs v \<noteq> []"

definition mcp_environment :: "mcp_server \<Rightarrow> mcp_tool \<Rightarrow> jsobj" where
  "mcp_environment v t =
     [(''serverKind'', JStr (server_kind_name (mv_kind v))),
      (''serverStatus'', JStr (entry_status_name (mv_status v))),
      (''toolStatus'', JStr (entry_status_name (mt_status t))),
      (''riskLevel'', JStr (mcp_risk_name (mt_risk t))),
      (''readOnly'', JBool (flag ''readOnly'' (mt_metadata t))),
      (''requiresSecrets'', JBool (needs_secrets v t)),
      (''networkRequired'', JBool (flag ''networkRequired'' (mt_metadata t))),
      (''writeOperation'', JBool (flag ''writeOperation'' (mt_metadata t))),
      (''deployOperation'', JBool (flag ''deployOperation'' (mt_metadata t))),
      (''realTransportEnabled'', JBool False),
      (''localExecutionRequired'', JBool (flag ''localExecutionRequired'' (mt_metadata t)))]"

section \<open>Listings\<close>

record mcp_config =
  mc_kind :: mcp_gateway_kind
  mc_mock_enabled :: bool
  mc_real_transport :: bool
  mc_servers :: nat
  mc_active_tools :: nat
  mc_high_tools :: nat
  mc_external_calls :: bool
  mc_secret_forwarding :: bool
  mc_network_access :: bool

definition gateway_config :: "mcp_state \<Rightarrow> mcp_config" where
  "gateway_config st =
     (let tools = list_mcp_tools None None st in
      \<lparr>mc_kind = GatewayMock, mc_mock_enabled = True, mc_real_transport = False,
       mc_servers = length (list_mcp_servers None st),
       mc_active_tools = length (filter (\<lambda>t. mt_status t = EntryActive) tools),
       mc_high_tools = length (filter (\<lambda>t. mt_status t = EntryActive \<and>
         (mt_risk t = RiskHigh \<or> mt_risk t = RiskCritical)) tools),
       mc_external_calls = False, mc_secret_forwarding = False, mc_network_access = False\<rparr>)"

definition disabled_gateway_config :: "mcp_state \<Rightarrow> mcp_config" where
  "disabled_gateway_config st = (gateway_config st)
     \<lparr>mc_kind := GatewayDisabledReal, mc_mock_enabled := False, mc_real_transport := False,
      mc_external_calls := False, mc_secret_forwarding := False, mc_network_access := False\<rparr>"

record 'a mcp_listing =
  ml_allowed :: bool
  ml_items :: "'a list"
  ml_reason :: "string option"
  ml_auth :: "auth_decision option"

definition auth_event_id :: "auth_decision \<Rightarrow> js" where
  "auth_event_id d = of_opt_str (map_option ae_id (ad_audit_event d))"

definition listing_event ::
  "auth_context \<Rightarrow> mcp_event_type \<Rightarrow> string option \<Rightarrow> mcp_audit_result \<Rightarrow> string \<Rightarrow> jsobj \<Rightarrow> mcp_event_input" where
  "listing_event cx ty server res reason meta i time =
     \<lparr>mve_id = i, mve_type = ty, mve_server_id = server, mve_tool_id = None, mve_request_id = None,
      mve_actor_id = Some (ac_id (cx_actor cx)), mve_principal_id = Some (ap_id (cx_principal cx)),
      mve_task_id = None, mve_run_id = None, mve_result = res, mve_reason = Some reason,
      mve_metadata = meta, mve_created_at = time\<rparr>"

text \<open>The end of a listing: the items if the decision allows them, audited either way.\<close>

definition finish_listing ::
  "draws \<Rightarrow> auth_context \<Rightarrow> string \<Rightarrow> mcp_event_type \<Rightarrow> string \<Rightarrow> string option \<Rightarrow> auth_decision \<Rightarrow>
   (mcp_state \<Rightarrow> 'a list) \<Rightarrow> mcp_state \<Rightarrow> 'a mcp_listing \<times> mcp_state" where
  "finish_listing s cx action ty reason server d items st =
     (if \<not> ad_allowed d
      then (\<lparr>ml_allowed = False, ml_items = [], ml_reason = Some (ad_reason d), ml_auth = Some d\<rparr>,
            snd (record_mcp_event (sub 0 s) (listing_event cx ToolAuthDenied server ResDenied (ad_reason d)
              [(''action'', JStr action), (''authorizationDecisionId'', auth_event_id d)]) st))
      else (\<lparr>ml_allowed = True, ml_items = items st, ml_reason = None, ml_auth = Some d\<rparr>,
            snd (record_mcp_event (sub 1 s) (listing_event cx ty server ResAllowed reason
              [(''count'', JNum (of_nat (length (items st))))]) st)))"

definition list_servers ::
  "engine \<Rightarrow> draws \<Rightarrow> auth_context option \<Rightarrow> mcp_state \<Rightarrow> mcp_server mcp_listing \<times> mcp_state" where
  "list_servers decide s given st =
     (let (cx, st1) = mcp_context (sub 0 s) given None [] st;
          (d, st2) = mcp_authorize decide (sub 1 s) cx ''mcp.server.list'' ''mcp_server'' ''mcp_servers''
            [(''readOnly'', JBool True), (''serverKind'', JStr ''mock''), (''serverStatus'', JStr ''active''),
             (''realTransportEnabled'', JBool False)] None st1
      in finish_listing (sub 2 s) cx ''mcp.server.list'' ServerListed ''mcp_server_catalog_listed'' None d
           (list_mcp_servers None) st2)"

definition list_tools ::
  "engine \<Rightarrow> draws \<Rightarrow> string \<Rightarrow> auth_context option \<Rightarrow> mcp_state \<Rightarrow> mcp_tool mcp_listing \<times> mcp_state" where
  "list_tools decide s server_id given st =
     (let (cx, st1) = mcp_context (sub 0 s) given None [] st;
          refused = (\<lambda>reason. (\<lparr>ml_allowed = False, ml_items = [], ml_reason = Some reason, ml_auth = None\<rparr>, st1))
      in case get_mcp_server server_id st1 of
           None \<Rightarrow> refused ''server_not_found''
         | Some v \<Rightarrow>
             if mv_status v \<noteq> EntryActive then refused (''server_'' @ entry_status_name (mv_status v))
             else
               (let (d, st2) = mcp_authorize decide (sub 1 s) cx ''mcp.tool.list'' ''mcp_tool'' server_id
                  [(''readOnly'', JBool True), (''serverKind'', JStr (server_kind_name (mv_kind v))),
                   (''serverStatus'', JStr (entry_status_name (mv_status v))),
                   (''realTransportEnabled'', JBool False)] None st1
                in finish_listing (sub 2 s) cx ''mcp.tool.list'' ToolListed ''mcp_tool_catalog_listed''
                     (Some server_id) d (list_mcp_tools (Some server_id) None) st2))"

definition get_mcp_tool :: "string \<Rightarrow> string \<Rightarrow> mcp_state \<Rightarrow> mcp_tool option" where
  "get_mcp_tool server_id tool_id st =
     (case find_mcp_tool tool_id st of
        None \<Rightarrow> None | Some t \<Rightarrow> if mt_server_id t = server_id then Some t else None)"

section \<open>The gates of an invocation\<close>

record mcp_validation =
  va_ok :: bool
  va_status :: mcp_status
  va_reason :: string
  va_server :: "mcp_server option"
  va_tool :: "mcp_tool option"
  va_auth :: "auth_decision option"
  va_policy :: "policy_decision option"
  va_redaction :: bool

definition validation ::
  "bool \<Rightarrow> mcp_status \<Rightarrow> string \<Rightarrow> mcp_server option \<Rightarrow> mcp_tool option \<Rightarrow> auth_decision option \<Rightarrow>
   policy_decision option \<Rightarrow> mcp_validation" where
  "validation ok status reason v t d pd =
     \<lparr>va_ok = ok, va_status = status, va_reason = reason, va_server = v, va_tool = t, va_auth = d,
      va_policy = pd, va_redaction = False\<rparr>"

text \<open>The gates that read the catalogue only; the left of the sum is the refusal.\<close>

definition catalog_gate :: "mcp_request \<Rightarrow> mcp_state \<Rightarrow> mcp_validation + mcp_server \<times> mcp_tool" where
  "catalog_gate q st =
     (case get_mcp_server (mq_server_id q) st of
        None \<Rightarrow> Inl (validation False McpBlocked ''server_not_found'' None None None None)
      | Some v \<Rightarrow>
          (let missing = Inl (validation False McpBlocked ''tool_not_found'' (Some v) None None None) in
           case find_mcp_tool (mq_tool_id q) st of
             None \<Rightarrow> missing
           | Some t \<Rightarrow>
               (let refuse = (\<lambda>status reason. Inl (validation False status reason (Some v) (Some t) None None))
                in if mt_server_id t \<noteq> mv_id v \<or> mt_name t \<noteq> mq_tool_name q then missing
                   else if mv_status v \<noteq> EntryActive
                   then refuse McpBlocked (''server_'' @ entry_status_name (mv_status v))
                   else if mt_status t \<noteq> EntryActive
                   then refuse McpBlocked (''tool_'' @ entry_status_name (mt_status t))
                   else if mv_kind v \<noteq> KindMock then refuse McpUnavailable ''real_mcp_transport_disabled''
                   else if mt_id t \<notin> set (mv_allowed_tools v)
                   then refuse McpBlocked ''tool_not_allowed_for_server''
                   else Inr (v, t))))"

definition secret_refusal_reason :: string where
  "secret_refusal_reason = ''mcp_tool_secret_resolution_disabled_v0''"

definition authorization_refusal :: "mcp_server \<Rightarrow> mcp_tool \<Rightarrow> auth_decision \<Rightarrow> mcp_validation" where
  "authorization_refusal v t d =
     (let refuse = (\<lambda>status reason.
        validation False status reason (Some v) (Some t) (Some d) (ad_policy_decision d))
      in if ad_policy_decision d \<noteq> None \<and> needs_secrets v t then refuse McpSecretDenied secret_refusal_reason
         else refuse (if ad_policy_decision d \<noteq> None then McpPolicyDenied else McpAuthDenied) (ad_reason d))"

definition generic_request ::
  "mcp_request \<Rightarrow> auth_context \<Rightarrow> mcp_server \<Rightarrow> mcp_tool \<Rightarrow> mcp_state \<Rightarrow> policy_request" where
  "generic_request q cx v t st =
     \<lparr>req_subject = to_policy_subject cx (as_repo (mg_auth st)), req_action = ''mcp.tool.invoke'',
      req_resource = create_policy_resource ''mcp_tool'' (Some (mt_id t))
        (Some [(''status'', JStr (entry_status_name (mt_status t))),
          (''riskLevel'', JStr (mcp_risk_name (mt_risk t))),
          (''serverKind'', JStr (server_kind_name (mv_kind v)))]),
      req_context = (create_policy_context (Some (mcp_environment v t))
          (Some [(''requestId'', JStr (mq_id q)), (''purpose'', JStr (mq_purpose q))]))
        \<lparr>ctx_task_id := mq_task_id q, ctx_task_run_id := mq_run_id q\<rparr>\<rparr>"

text \<open>What an authorised tool may need and is refused: secrets, network, writes, deployment, a local agent.\<close>

definition capability_gates ::
  "engine \<Rightarrow> draws \<Rightarrow> mcp_request \<Rightarrow> auth_context \<Rightarrow> mcp_server \<Rightarrow> mcp_tool \<Rightarrow> auth_decision \<Rightarrow>
   policy_decision \<Rightarrow> mcp_state \<Rightarrow> mcp_validation \<times> mcp_state" where
  "capability_gates decide s q cx v t d pd st =
     (let result = (\<lambda>ok status reason. validation ok status reason (Some v) (Some t) (Some d)
            (Some (opt_default (ad_policy_decision d) pd)))
      in if needs_secrets v t then (result False McpSecretDenied secret_refusal_reason, st)
         else if flag ''networkRequired'' (mt_metadata t) then
           (let (e, sec) = evaluate_network_egress decide s
                \<lparr>eq_policy_id = None, eq_host = None, eq_port = None, eq_task_id = mq_task_id q,
                 eq_run_id = mq_run_id q, eq_actor_id = Some (ac_id (cx_actor cx)),
                 eq_metadata = [(''serverId'', JStr (mv_id v)), (''toolId'', JStr (mt_id t))]\<rparr> (mg_security st)
            in (result False McpPolicyDenied
                  (if ed_allowed e then ''mcp_network_access_not_implemented_v0'' else ''mcp_network_access_denied''),
                st\<lparr>mg_security := sec\<rparr>))
         else if flag ''writeOperation'' (mt_metadata t)
         then (result False McpPolicyDenied ''mcp_write_tool_denied_v0'', st)
         else if flag ''deployOperation'' (mt_metadata t)
         then (result False McpPolicyDenied ''mcp_deploy_tool_denied_v0'', st)
         else if flag ''localExecutionRequired'' (mt_metadata t)
         then (result False McpUnavailable ''local_agent_transport_required_not_implemented_v0'', st)
         else (result True McpCompleted ''mcp_mock_tool_allowed'', st))"

definition validate_invocation ::
  "engine \<Rightarrow> draws \<Rightarrow> mcp_request \<Rightarrow> mcp_state \<Rightarrow> mcp_validation \<times> mcp_state" where
  "validate_invocation decide s q st0 =
     (let (cx, st) = context_for_request (sub 0 s) q st0 in
      case catalog_gate q st0 of
        Inl refusal \<Rightarrow> (refusal, st)
      | Inr (v, t) \<Rightarrow>
          (let (d, st1) = mcp_authorize decide (sub 1 s) cx (risk_action (mt_risk t)) ''mcp_tool'' (mt_id t)
                 (mcp_environment v t) (Some q) st
           in if \<not> ad_allowed d then (authorization_refusal v t d, st1)
              else
                (let (pd, p) = svc_evaluate decide (sub 2 s) (generic_request q cx v t st1) (mg_policy st1);
                     st2 = st1\<lparr>mg_policy := p\<rparr>
                 in if \<not> dec_allowed pd
                    then (validation False McpPolicyDenied (''policy_denied:'' @ dec_reason pd) (Some v) (Some t)
                            (Some d) (Some pd), st2)
                    else capability_gates decide (sub 3 s) q cx v t d pd st2)))"

section \<open>The mock tools\<close>

definition string_or :: "js \<Rightarrow> string \<Rightarrow> js" where
  "string_or v d = (case v of JStr s \<Rightarrow> JStr s | _ \<Rightarrow> JStr d)"

definition is_string :: "js \<Rightarrow> bool" where
  "is_string v = (case v of JStr s \<Rightarrow> True | _ \<Rightarrow> False)"

definition mock_body :: "string \<Rightarrow> jsobj \<Rightarrow> jsobj" where
  \<comment> \<open>the members of an output after \<open>provider\<close> and \<open>toolName\<close>\<close>
  "mock_body i input =
     (if i = ''github.get_issue'' then
        [(''issue'', JObj
          [(''number'', case obj_get input ''issueNumber'' of JNum n \<Rightarrow> JNum n | _ \<Rightarrow> JNum 101),
           (''title'', JStr ''Mock issue for deterministic MCP Gateway v0''), (''state'', JStr ''open''),
           (''labels'', JArr [JStr ''mock'', JStr ''read-only''])])]
      else if i = ''github.list_pull_requests'' then
        [(''pullRequests'', JArr
          [JObj [(''number'', JNum 12), (''title'', JStr ''Mock PR sync read model''), (''state'', JStr ''open'')],
           JObj [(''number'', JNum 13), (''title'', JStr ''Mock docs update''), (''state'', JStr ''closed'')]])]
      else if i = ''docs.search'' then
        [(''queryObserved'', JBool (is_string (obj_get input ''query''))),
         (''results'', JArr
          [JObj [(''title'', JStr ''Aichestra Bootstrap''),
             (''path'', JStr ''docs/briefs/AICHESTRA_BOOTSTRAP.md''), (''score'', JNum (97 / 100))],
           JObj [(''title'', JStr ''MCP Gateway v0''),
             (''path'', JStr ''docs/features/mcp-gateway/v0.md''), (''score'', JNum (91 / 100))]])]
      else if i = ''jira.get_ticket'' then
        [(''ticket'', JObj
          [(''key'', string_or (obj_get input ''ticketKey'') ''AIC-101''), (''status'', JStr ''In Review''),
           (''summary'', JStr ''Mock ticket for deterministic tool governance'')])]
      else if i = ''db.get_schema'' then
        [(''schemaName'', string_or (obj_get input ''schemaName'') ''public''),
         (''tables'', JArr
          [JObj [(''name'', JStr ''tasks''), (''columns'', JArr [JStr ''id'', JStr ''title'', JStr ''status''])],
           JObj [(''name'', JStr ''task_runs''),
             (''columns'', JArr [JStr ''id'', JStr ''task_id'', JStr ''status''])]])]
      else if i = ''ci.get_latest_status'' then
        [(''branch'', string_or (obj_get input ''branch'') ''main''), (''status'', JStr ''passed''),
         (''checkedAt'', JStr ''2026-05-13T00:00:00.000Z'')]
      else [(''result'', JStr ''deterministic_mock_output'')])"

definition mock_output :: "mcp_tool option \<Rightarrow> jsobj \<Rightarrow> jsobj" where
  "mock_output t input =
     [(''provider'', JStr ''mock-mcp''), (''toolName'', JStr (opt_default (map_option mt_name t) ''unknown''))] @
     mock_body (opt_default (map_option mt_id t) []) input"

section \<open>Invoking a tool\<close>

text \<open>What the gateway fills in of a result besides the request.\<close>

record mcp_outcome =
  oc_status :: mcp_status
  oc_output :: "jsobj option"
  oc_preview :: "string option"
  oc_error :: "string option"
  oc_policy_decision_id :: "string option"
  oc_auth_decision_id :: "string option"
  oc_redaction :: bool
  oc_metadata :: jsobj

definition record_result :: "draws \<Rightarrow> mcp_request \<Rightarrow> mcp_outcome \<Rightarrow> mcp_state \<Rightarrow> mcp_result \<times> mcp_state" where
  "record_result s q oc st =
     (let r = \<lparr>mr_id = fresh_id ''mcpinv'' 0 s, mr_request_id = mq_id q, mr_server_id = mq_server_id q,
        mr_tool_id = mq_tool_id q, mr_status = oc_status oc, mr_output = oc_output oc,
        mr_preview = oc_preview oc, mr_error = oc_error oc,
        mr_policy_decision_id = oc_policy_decision_id oc, mr_auth_decision_id = oc_auth_decision_id oc,
        mr_lease_ids = [], mr_redaction = oc_redaction oc, mr_created_at = clock 1 s,
        mr_completed_at = Some (clock 2 s), mr_metadata = oc_metadata oc\<rparr>
      in (r, record_invocation r st))"

definition request_event ::
  "auth_context \<Rightarrow> mcp_request \<Rightarrow> mcp_event_type \<Rightarrow> mcp_audit_result \<Rightarrow> string \<Rightarrow> jsobj \<Rightarrow> mcp_event_input" where
  "request_event cx q ty res reason meta i time =
     \<lparr>mve_id = i, mve_type = ty, mve_server_id = Some (mq_server_id q), mve_tool_id = Some (mq_tool_id q),
      mve_request_id = Some (mq_id q), mve_actor_id = Some (ac_id (cx_actor cx)),
      mve_principal_id = Some (ap_id (cx_principal cx)), mve_task_id = mq_task_id q,
      mve_run_id = mq_run_id q, mve_result = res, mve_reason = Some reason, mve_metadata = meta,
      mve_created_at = time\<rparr>"

definition mcp_redact ::
  "draws \<Rightarrow> mcp_request \<Rightarrow> string option \<Rightarrow> jsobj \<Rightarrow> string \<Rightarrow> mcp_state \<Rightarrow> redaction_result \<times> mcp_state" where
  "mcp_redact s q actor extra text st =
     (let (r, sec) = redact_text s
          \<lparr>rq_text = text, rq_policy_id = None, rq_task_id = mq_task_id q, rq_run_id = mq_run_id q,
           rq_actor_id = actor,
           rq_metadata = Some ([(''serverId'', JStr (mq_server_id q)), (''toolId'', JStr (mq_tool_id q))] @ extra)\<rparr>
          (mg_security st)
      in (r, st\<lparr>mg_security := sec\<rparr>))"

definition redacted_metadata :: "draws \<Rightarrow> mcp_request \<Rightarrow> string \<Rightarrow> mcp_state \<Rightarrow> jsobj \<times> mcp_state" where
  "redacted_metadata s q label st =
     (let (r, st1) = mcp_redact s q (mq_actor_id q) [(''label'', JStr label)] (to_json_preview (mq_input q)) st;
          preview = sanitize_mcp_string (rr_preview r)
      in ([(''purpose'', JStr (mq_purpose q)), (''inputPreview'', JStr preview),
           (''redactionApplied'', JBool (rr_applied r \<or> rr_truncated r \<or> preview \<noteq> rr_preview r))], st1))"

definition final_status :: "mcp_validation \<Rightarrow> mcp_status" where
  \<comment> \<open>\<open>validation.status || resultStatusForReason(validation.reason)\<close>\<close>
  "final_status va =
     (if mcp_status_name (va_status va) \<noteq> [] then va_status va else result_status_for_reason (va_reason va))"

definition refusal_event :: "mcp_status \<Rightarrow> mcp_event_type" where
  "refusal_event status =
     (if status = McpAuthDenied then ToolAuthDenied
      else if status = McpPolicyDenied then ToolPolicyDenied
      else if status = McpSecretDenied then ToolSecretDenied
      else if status = McpUnavailable then ToolUnavailable
      else InvocationBlocked)"

definition decision_ids :: "mcp_validation \<Rightarrow> string option \<times> string option" where
  "decision_ids va = (map_option dec_id (va_policy va),
     Option.bind (va_auth va) (\<lambda>d. map_option ae_id (ad_audit_event d)))"

definition refuse_invocation ::
  "draws \<Rightarrow> auth_context \<Rightarrow> mcp_request \<Rightarrow> mcp_validation \<Rightarrow> mcp_state \<Rightarrow> mcp_result \<times> mcp_state" where
  "refuse_invocation s cx q va st =
     (let status = final_status va; (pid, aid) = decision_ids va;
          (r, st1) = record_result (sub 0 s) q
            \<lparr>oc_status = status, oc_output = None, oc_preview = None, oc_error = Some (va_reason va),
             oc_policy_decision_id = pid, oc_auth_decision_id = aid, oc_redaction = va_redaction va,
             oc_metadata = [(''reason'', JStr (va_reason va)),
               (''serverStatus'', of_opt_str (map_option (\<lambda>v. entry_status_name (mv_status v)) (va_server va))),
               (''toolStatus'', of_opt_str (map_option (\<lambda>t. entry_status_name (mt_status t)) (va_tool va))),
               (''riskLevel'', of_opt_str (map_option (\<lambda>t. mcp_risk_name (mt_risk t)) (va_tool va)))]\<rparr> st;
          (e, st2) = record_mcp_event (sub 1 s)
            (request_event cx q (refusal_event status)
              (if status = McpUnavailable then ResUnavailable else ResBlocked) (va_reason va)
              [(''policyDecisionId'', of_opt_str pid), (''authorizationDecisionId'', of_opt_str aid)]) st1
      in (r, st2))"

definition complete_invocation ::
  "draws \<Rightarrow> auth_context \<Rightarrow> mcp_request \<Rightarrow> mcp_validation \<Rightarrow> mcp_state \<Rightarrow> mcp_result \<times> mcp_state" where
  "complete_invocation s cx q va st =
     (let raw = mock_output (va_tool va) (mq_input q);
          output = sanitize_mcp_record raw;
          (pid, aid) = decision_ids va;
          (red, st1) = mcp_redact (sub 0 s) q (Some (ac_id (cx_actor cx))) [] (to_json_preview output) st;
          preview = sanitize_mcp_string (rr_preview red);
          changed = (rr_applied red \<or> to_json_preview raw \<noteq> to_json_preview output \<or> preview \<noteq> rr_preview red);
          redacted = (changed \<or> rr_truncated red);
          st2 = (if redacted
            then snd (record_mcp_event (sub 1 s) (request_event cx q OutputRedacted ResRedacted
              (if changed then ''redaction_applied'' else ''output_preview_truncated'')
              [(''previewBytes'', JNum (of_nat (rr_preview_bytes red))),
               (''originalBytes'', JNum (of_nat (rr_original_bytes red)))]) st1)
            else st1);
          (r, st3) = record_result (sub 2 s) q
            \<lparr>oc_status = McpCompleted, oc_output = Some output, oc_preview = Some preview, oc_error = None,
             oc_policy_decision_id = pid, oc_auth_decision_id = aid, oc_redaction = redacted,
             oc_metadata = [(''gatewayKind'', JStr ''mock''), (''deterministic'', JBool True),
               (''readOnly'', JBool (case va_tool va of None \<Rightarrow> False | Some t \<Rightarrow> flag ''readOnly'' (mt_metadata t))),
               (''policyDecisionId'', of_opt_str pid)]\<rparr> st2;
          (e, st4) = record_mcp_event (sub 3 s)
            (request_event cx q InvocationCompleted ResCompleted ''mock_mcp_tool_completed''
              [(''outputPreview'', JStr preview), (''policyDecisionId'', of_opt_str pid),
               (''authorizationDecisionId'', of_opt_str aid)]) st3
      in (r, st4))"

definition invoke_tool ::
  "engine \<Rightarrow> draws \<Rightarrow> mcp_request \<Rightarrow> mcp_state \<Rightarrow> mcp_result \<times> mcp_state" where
  "invoke_tool decide s q st =
     (let (cx, st1) = context_for_request (sub 0 s) q st;
          (meta, st2) = redacted_metadata (sub 1 s) q ''input'' st1;
          st3 = snd (record_mcp_event (sub 2 s)
            (request_event cx q InvocationRequested ResAllowed ''mcp_invocation_received'' meta) st2);
          (va, st4) = validate_invocation decide (sub 3 s) q st3
      in if \<not> va_ok va then refuse_invocation (sub 4 s) cx q va st4
         else complete_invocation (sub 5 s) cx q va st4)"

section \<open>The disabled real transport\<close>

text \<open>Its result is returned and not recorded.\<close>

definition disabled_invoke_tool :: "draws \<Rightarrow> mcp_request \<Rightarrow> mcp_state \<Rightarrow> mcp_result \<times> mcp_state" where
  "disabled_invoke_tool s q st =
     (let (cx, st1) = context_for_request (sub 0 s) q st;
          (e, st2) = record_mcp_event (sub 1 s)
            (request_event cx q RealTransportDisabled ResUnavailable ''real_mcp_transport_disabled''
              [(''networkAccess'', JBool False), (''processSpawn'', JBool False),
               (''secretForwarding'', JBool False)]) st1
      in (\<lparr>mr_id = fresh_id ''mcpinv'' 2 s, mr_request_id = mq_id q, mr_server_id = mq_server_id q,
           mr_tool_id = mq_tool_id q, mr_status = McpUnavailable, mr_output = None, mr_preview = None,
           mr_error = Some ''real_mcp_transport_disabled'', mr_policy_decision_id = None,
           mr_auth_decision_id = None, mr_lease_ids = [], mr_redaction = False,
           mr_created_at = clock 3 s, mr_completed_at = Some (clock 4 s),
           mr_metadata = [(''gatewayKind'', JStr ''disabled_real_transport''), (''notImplemented'', JBool True)]\<rparr>,
          st2))"

text \<open>The public \<open>recordAudit\<close>: a caller's event of any type, with the id and the date it chooses or fresh ones.\<close>

definition gateway_record_audit :: "draws \<Rightarrow> mcp_event_input \<Rightarrow> mcp_state \<Rightarrow> mcp_event \<times> mcp_state" where
  "gateway_record_audit s mk st = record_mcp_event s mk st"

definition new_mcp_gateway :: "auth_service \<Rightarrow> security_state \<Rightarrow> policy_service \<Rightarrow> mcp_state" where
  "new_mcp_gateway a sec p =
     \<lparr>mg_servers = default_mcp_servers, mg_tools = default_mcp_tools, mg_invocations = [], mg_audit = [],
      mg_policy = p, mg_auth = a, mg_security = sec\<rparr>"

end
