(* ===== verification/McpProperties.thy ===== *)
theory McpProperties
  imports McpGateway AuthProperties
begin

text \<open>
  Properties of the MCP gateway: the exact condition under which an invocation completes, what the
  default policy leaves of it, the shape of results, and the agreement of the invocation log with
  the audit log over every operation.
\<close>

section \<open>What the parts of an operation leave alone\<close>

text \<open>The logs and the catalogue of the gateway, and the identities of its authorisation service.\<close>

definition logs :: "mcp_state \<Rightarrow> mcp_result list \<times> mcp_event list" where
  "logs st = (mg_invocations st, mg_audit st)"

definition same_catalog :: "mcp_state \<Rightarrow> mcp_state \<Rightarrow> bool" where
  "same_catalog st st' \<longleftrightarrow>
     mg_servers st' = mg_servers st \<and> mg_tools st' = mg_tools st \<and>
     catalog_of (as_repo (mg_auth st')) = catalog_of (as_repo (mg_auth st))"

lemma same_catalog_refl: "same_catalog st st"
  by (simp add: same_catalog_def)

lemma same_catalog_trans: "same_catalog st1 st2 \<Longrightarrow> same_catalog st2 st3 \<Longrightarrow> same_catalog st1 st3"
  by (simp add: same_catalog_def)

lemma resolve_auth_context_catalog: "catalog_of (snd (resolve_auth_context s d rq r)) = catalog_of r"
  by (simp add: resolve_auth_context_def Let_def)

lemma mcp_context_frame:
  "logs (snd (mcp_context s g a m st)) = logs st" "same_catalog st (snd (mcp_context s g a m st))"
  by (simp_all add: mcp_context_def logs_def same_catalog_def case_prod_beta Let_def
      resolve_auth_context_catalog split: option.split)

lemma context_of_cong: "catalog_of r = catalog_of r' \<Longrightarrow> context_of s d rq r = context_of s d rq r'"
  unfolding context_of_def by (simp only: catalog_lookups[of r r'])

lemma mcp_context_cong:
  "same_catalog st st' \<Longrightarrow> fst (mcp_context s g a m st') = fst (mcp_context s g a m st)"
  using context_of_cong[of "as_repo (mg_auth st')" "as_repo (mg_auth st)"]
  by (simp add: mcp_context_def same_catalog_def resolve_auth_context_def case_prod_beta Let_def split: option.split)

lemma mcp_authorize_frame:
  "logs (snd (mcp_authorize d s cx a k i e q st)) = logs st"
  "same_catalog st (snd (mcp_authorize d s cx a k i e q st))"
  using auth_check_audited[of "mcp_check cx a k i e q" "mg_auth st" d s]
  by (simp_all add: mcp_authorize_def logs_def same_catalog_def case_prod_beta audited_def)

lemma mcp_redact_frame:
  "logs (snd (mcp_redact s q a x t st)) = logs st" "same_catalog st (snd (mcp_redact s q a x t st))"
  by (simp_all add: mcp_redact_def logs_def same_catalog_def case_prod_beta)

lemma redacted_metadata_frame:
  "logs (snd (redacted_metadata s q l st)) = logs st" "same_catalog st (snd (redacted_metadata s q l st))"
  by (simp_all add: redacted_metadata_def case_prod_beta Let_def mcp_redact_frame)

lemma record_mcp_event_frame: "same_catalog st (snd (record_mcp_event s mk st))"
  by (simp add: record_mcp_event_def same_catalog_def Let_def)

lemma capability_gates_frame: "logs (snd (capability_gates d s q cx v t ad pd st)) = logs st"
  by (simp add: capability_gates_def Let_def case_prod_beta logs_def)

lemma validate_invocation_frame: "logs (snd (validate_invocation d s q st)) = logs st"
proof -
  have policy: "logs (st1\<lparr>mg_policy := p\<rparr>) = logs st1" for st1 p by (simp add: logs_def)
  show ?thesis
    unfolding validate_invocation_def Let_def case_prod_beta context_for_request_def
    by (simp add: capability_gates_frame mcp_context_frame mcp_authorize_frame policy split: sum.split)
qed

section \<open>The condition of an invocation\<close>

text \<open>The tool and the server a request names are callable through each other.\<close>

definition callable :: "mcp_request \<Rightarrow> mcp_server \<Rightarrow> mcp_tool \<Rightarrow> mcp_state \<Rightarrow> bool" where
  "callable q v t st \<longleftrightarrow>
     get_mcp_server (mq_server_id q) st = Some v \<and> find_mcp_tool (mq_tool_id q) st = Some t \<and>
     mt_server_id t = mv_id v \<and> mt_name t = mq_tool_name q \<and> mv_status v = EntryActive \<and>
     mt_status t = EntryActive \<and> mv_kind v = KindMock \<and> mt_id t \<in> set (mv_allowed_tools v)"

text \<open>A tool needs nothing the gateway refuses.\<close>

definition harmless :: "mcp_server \<Rightarrow> mcp_tool \<Rightarrow> bool" where
  "harmless v t \<longleftrightarrow> \<not> needs_secrets v t \<and>
     list_all (\<lambda>k. \<not> flag k (mt_metadata t))
       [''networkRequired'', ''writeOperation'', ''deployOperation'', ''localExecutionRequired'']"

definition tool_check :: "auth_context \<Rightarrow> mcp_request \<Rightarrow> mcp_server \<Rightarrow> mcp_tool \<Rightarrow> check_request" where
  "tool_check cx q v t =
     mcp_check cx (risk_action (mt_risk t)) ''mcp_tool'' (mt_id t) (mcp_environment v t) (Some q)"

text \<open>
  The context allows the tool: by a role binding for the permission of its risk, by the policy for
  that permission and by the policy for invocations in general.
\<close>

definition cleared :: "engine \<Rightarrow> auth_context \<Rightarrow> mcp_request \<Rightarrow> mcp_server \<Rightarrow> mcp_tool \<Rightarrow> mcp_state \<Rightarrow> bool" where
  "cleared decide cx q v t st \<longleftrightarrow>
     rbac_allows (tool_check cx q v t) (as_repo (mg_auth st)) \<and>
     dec_allowed (decide sample_draws (auth_policy_request (tool_check cx q v t) (as_repo (mg_auth st)))) \<and>
     dec_allowed (decide sample_draws (generic_request q cx v t st))"

lemma catalog_gate_Inr: "catalog_gate q st = Inr (v, t) \<longleftrightarrow> callable q v t st"
  by (auto simp: catalog_gate_def callable_def Let_def split: option.split)

lemma capability_gates_ok: "va_ok (fst (capability_gates d s q cx v t ad pd st)) \<longleftrightarrow> harmless v t"
  by (simp add: capability_gates_def harmless_def Let_def case_prod_beta validation_def)

lemma refusals_not_ok:
  "\<not> va_ok (authorization_refusal v t d)" "catalog_gate q st = Inl va \<Longrightarrow> \<not> va_ok va"
  by (auto simp: authorization_refusal_def catalog_gate_def validation_def Let_def
      split: option.splits if_splits)

lemma mcp_check_simps [simp]:
  "ck_context (mcp_check cx a k i e q) = cx" "ck_action (mcp_check cx a k i e q) = a"
  "ar_kind (ck_resource (mcp_check cx a k i e q)) = k"
  "ar_id (ck_resource (mcp_check cx a k i e q)) = Some i"
  by (simp_all add: mcp_check_def Let_def)

lemma risk_action_policy: "is_policy_action (risk_action r)"
  by (cases r) (simp_all add: risk_action_def is_policy_action_def policy_actions_def)

lemma tool_check_policy: "is_policy_check (tool_check cx q v t)"
  by (simp add: is_policy_check_def tool_check_def risk_action_policy is_policy_resource_kind_def
      policy_resource_kinds_def)

lemma generic_request_cong: "same_catalog st st' \<Longrightarrow> generic_request q cx v t st' = generic_request q cx v t st"
  by (simp add: generic_request_def to_policy_subject_def same_catalog_def
      catalog_lookups(6)[of "as_repo (mg_auth st')" "as_repo (mg_auth st)"])

lemma rbac_allows_cong: "catalog_of r' = catalog_of r \<Longrightarrow> rbac_allows req r' = rbac_allows req r"
  using binding_grants_cong[of r' r] catalog_lookups(2)[of r' r] by (simp add: rbac_allows_def Let_def)

lemma same_catalogD: "same_catalog st st' \<Longrightarrow> catalog_of (as_repo (mg_auth st')) = catalog_of (as_repo (mg_auth st))"
  by (simp add: same_catalog_def)

context policy_engine
begin

lemma any_draws: "dec_allowed (decide s req) = dec_allowed (decide s' req)"
  by (simp only: allowed_iff decide_stable[of s req s'])

lemma mcp_authorize_allowed:
  "ad_allowed (fst (mcp_authorize decide s cx (risk_action (mt_risk t)) ''mcp_tool'' (mt_id t)
     (mcp_environment v t) (Some q) st)) \<longleftrightarrow>
   rbac_allows (tool_check cx q v t) (as_repo (mg_auth st)) \<and>
   dec_allowed (decide sample_draws (auth_policy_request (tool_check cx q v t) (as_repo (mg_auth st))))"
  using auth_check_allowed_iff[of s "tool_check cx q v t" "mg_auth st"] tool_check_policy[of cx q v t]
    any_draws[of "sub 0 (sub 4 s)" _ sample_draws]
  by (simp add: mcp_authorize_def case_prod_beta tool_check_def)

lemma validate_invocation_ok:
  "va_ok (fst (validate_invocation decide s q st)) \<longleftrightarrow>
     (\<exists>v t. callable q v t st \<and> harmless v t \<and>
        cleared decide (fst (context_for_request (sub 0 s) q st)) q v t st)"
proof (cases "catalog_gate q st")
  case (Inl va)
  then have "\<nexists>v t. callable q v t st" using catalog_gate_Inr[of q st] by simp
  with Inl show ?thesis
    using refusals_not_ok(2)[OF Inl] by (simp add: validate_invocation_def Let_def case_prod_beta)
next
  case (Inr vt)
  obtain v t where vt: "vt = (v, t)" by fastforce
  have only: "callable q v' t' st \<longleftrightarrow> v' = v \<and> t' = t" for v' t'
    using catalog_gate_Inr[of q st v' t'] Inr by (auto simp: vt)
  define cx st1 where "cx = fst (context_for_request (sub 0 s) q st)"
    and "st1 = snd (context_for_request (sub 0 s) q st)"
  define d st2 where "d = fst (mcp_authorize decide (sub 1 s) cx (risk_action (mt_risk t)) ''mcp_tool'' (mt_id t)
      (mcp_environment v t) (Some q) st1)"
    and "st2 = snd (mcp_authorize decide (sub 1 s) cx (risk_action (mt_risk t)) ''mcp_tool'' (mt_id t)
      (mcp_environment v t) (Some q) st1)"
  define pd where "pd = fst (svc_evaluate decide (sub 2 s) (generic_request q cx v t st2) (mg_policy st2))"
  have same: "same_catalog st st1" "same_catalog st st2"
    unfolding st1_def st2_def context_for_request_def
    by (rule mcp_context_frame(2), rule same_catalog_trans[OF mcp_context_frame(2) mcp_authorize_frame(2)])
  have "va_ok (fst (validate_invocation decide s q st)) \<longleftrightarrow>
      ad_allowed d \<and> dec_allowed pd \<and> harmless v t"
    unfolding validate_invocation_def Let_def case_prod_beta Inr vt sum.case fst_conv snd_conv
      cx_def[symmetric] st1_def[symmetric] d_def[symmetric] st2_def[symmetric] pd_def[symmetric]
    by (simp add: refusals_not_ok capability_gates_ok validation_def)
  moreover have "dec_allowed pd \<longleftrightarrow> dec_allowed (decide sample_draws (generic_request q cx v t st))"
    using any_draws[of "sub 0 (sub 2 s)" _ sample_draws]
    by (simp add: pd_def svc_decision generic_request_cong[OF same(2)])
  moreover have "ad_allowed d \<longleftrightarrow> rbac_allows (tool_check cx q v t) (as_repo (mg_auth st)) \<and>
      dec_allowed (decide sample_draws (auth_policy_request (tool_check cx q v t) (as_repo (mg_auth st))))"
    unfolding d_def mcp_authorize_allowed rbac_allows_cong[OF same_catalogD[OF same(1)]]
      auth_policy_request_cong[OF same_catalogD[OF same(1)]] ..
  ultimately show ?thesis
    by (auto simp: only cleared_def cx_def)
qed

end

lemma callable_cong: "same_catalog st st' \<Longrightarrow> callable q v t st' = callable q v t st"
  by (simp add: callable_def same_catalog_def get_mcp_server_def find_mcp_tool_def)

lemma cleared_cong:
  assumes "same_catalog st st'"
  shows "cleared d cx q v t st' = cleared d cx q v t st"
  unfolding cleared_def rbac_allows_cong[OF same_catalogD[OF assms]]
    auth_policy_request_cong[OF same_catalogD[OF assms]] generic_request_cong[OF assms] ..

text \<open>The state and context in which an invocation is validated.\<close>

definition received :: "draws \<Rightarrow> mcp_request \<Rightarrow> mcp_state \<Rightarrow> mcp_state" where
  "received s q st =
     (let (cx, st1) = context_for_request (sub 0 s) q st;
          (meta, st2) = redacted_metadata (sub 1 s) q ''input'' st1
      in snd (record_mcp_event (sub 2 s)
           (request_event cx q InvocationRequested ResAllowed ''mcp_invocation_received'' meta) st2))"

definition invoking_context :: "draws \<Rightarrow> mcp_request \<Rightarrow> mcp_state \<Rightarrow> auth_context" where
  "invoking_context s q st = fst (context_for_request (sub 0 (sub 3 s)) q st)"

lemma received_catalog: "same_catalog st (received s q st)"
  unfolding received_def Let_def case_prod_beta context_for_request_def
  by (rule same_catalog_trans[OF mcp_context_frame(2)
        same_catalog_trans[OF redacted_metadata_frame(2) record_mcp_event_frame]])

lemma invoke_tool_parts:
  "invoke_tool decide s q st =
     (let cx = fst (context_for_request (sub 0 s) q st);
          (va, st4) = validate_invocation decide (sub 3 s) q (received s q st)
      in if va_ok va then complete_invocation (sub 5 s) cx q va st4
         else refuse_invocation (sub 4 s) cx q va st4)"
  by (simp add: invoke_tool_def received_def Let_def case_prod_beta)

lemma final_status_eq: "final_status va = va_status va"
  by (simp add: final_status_def mcp_status_name_def split: mcp_status.split)

lemma refused_status:
  "mr_status (fst (refuse_invocation s cx q va st)) = va_status va"
  "mr_status (fst (complete_invocation s cx q va st)) = McpCompleted"
  by (simp_all add: refuse_invocation_def complete_invocation_def record_result_def final_status_eq
      Let_def case_prod_beta)

lemma catalog_gate_refusal:
  "catalog_gate q st = Inl va \<Longrightarrow> va_status va = McpBlocked \<or> va_status va = McpUnavailable"
  by (auto simp: catalog_gate_def validation_def Let_def split: option.splits if_splits)

lemma authorization_refusal_status:
  "va_status (authorization_refusal v t d) \<in> {McpSecretDenied, McpPolicyDenied, McpAuthDenied}"
  by (simp add: authorization_refusal_def validation_def Let_def)

lemma capability_gates_status:
  "va_status (fst (capability_gates d s q cx v t ad pd st)) \<in>
     (if va_ok (fst (capability_gates d s q cx v t ad pd st)) then {McpCompleted}
      else {McpSecretDenied, McpPolicyDenied, McpUnavailable})"
  by (simp add: capability_gates_def validation_def Let_def case_prod_beta)

lemma validation_status:
  "va_status (fst (validate_invocation decide s q st)) \<noteq> McpFailed \<and>
   (va_ok (fst (validate_invocation decide s q st)) \<longleftrightarrow>
      va_status (fst (validate_invocation decide s q st)) = McpCompleted)"
proof (cases "catalog_gate q st")
  case (Inl va)
  then show ?thesis
    using catalog_gate_refusal[OF Inl] refusals_not_ok(2)[OF Inl]
    by (auto simp: validate_invocation_def Let_def case_prod_beta)
next
  case (Inr vt)
  have auth: "va_status (authorization_refusal v t d) \<noteq> McpFailed \<and>
      va_status (authorization_refusal v t d) \<noteq> McpCompleted \<and> \<not> va_ok (authorization_refusal v t d)" for v t d
    using authorization_refusal_status[of v t d] refusals_not_ok(1)[of v t d] by auto
  have caps: "va_status (fst (capability_gates decide r q cx v t ad pd st1)) \<noteq> McpFailed \<and>
      (va_ok (fst (capability_gates decide r q cx v t ad pd st1)) \<longleftrightarrow>
        va_status (fst (capability_gates decide r q cx v t ad pd st1)) = McpCompleted)" for r cx v t ad pd st1
    using capability_gates_status[of decide r q cx v t ad pd st1] by (auto split: if_splits)
  show ?thesis
    unfolding validate_invocation_def Let_def case_prod_beta Inr sum.case
    by (simp add: auth caps) (simp add: validation_def)
qed

context policy_engine
begin

lemma invocation_completes_iff:
  "mr_status (fst (invoke_tool decide s q st)) = McpCompleted \<longleftrightarrow>
     (\<exists>v t. callable q v t st \<and> harmless v t \<and> cleared decide (invoking_context s q st) q v t st)"
proof -
  have "mr_status (fst (invoke_tool decide s q st)) = McpCompleted \<longleftrightarrow>
      va_ok (fst (validate_invocation decide (sub 3 s) q (received s q st)))"
    using validation_status[of decide "sub 3 s" q "received s q st"]
    by (simp add: invoke_tool_parts Let_def case_prod_beta refused_status)
  then show ?thesis
    unfolding validate_invocation_ok callable_cong[OF received_catalog] cleared_cong[OF received_catalog]
    by (simp only: invoking_context_def context_for_request_def mcp_context_cong[OF received_catalog])
qed

end

section \<open>The default policy\<close>

lemma tool_request_policy:
  "req_action (auth_policy_request (tool_check cx q v t) r) = risk_action (mt_risk t)"
  "subj_roles (req_subject (auth_policy_request (tool_check cx q v t) r)) = map ro_name (cx_roles cx)"
  "obj_get (ctx_environment (req_context (auth_policy_request (tool_check cx q v t) r))) ''readOnly'' =
     JBool (flag ''readOnly'' (mt_metadata t))"
  by (simp_all add: auth_policy_request_def tool_check_def to_policy_subject_def create_policy_subject_def Let_def)
    (simp add: mcp_check_def mcp_environment_def create_policy_context_def Let_def)

lemma default_clears_low_risk:
  assumes "cleared (evaluate default_policy_rules) cx q v t st"
  shows "mt_risk t = RiskLow" and "flag ''readOnly'' (mt_metadata t)"
    and "\<exists>role \<in> set (cx_roles cx). ro_name role \<in> {''developer'', ''service_account_runner'',
      ''platform_admin'', ''system_admin'', ''system''}"
proof -
  let ?req = "auth_policy_request (tool_check cx q v t) (as_repo (mg_auth st))"
  have ok: "dec_allowed (evaluate default_policy_rules sample_draws ?req)"
    using assms by (simp add: cleared_def)
  then have "risk_action (mt_risk t) \<notin> set forbidden_actions"
    using forbidden_never_allowed[of ?req] by (auto simp: tool_request_policy)
  then show low: "mt_risk t = RiskLow"
    by (cases "mt_risk t") (simp_all add: risk_action_def forbidden_actions_def)
  have "obj_get (ctx_environment (req_context ?req)) ''readOnly'' = JBool True"
    by (rule allowed_passes_gate[OF ok, of "the (map_of environment_gates ''mcp.tool.invoke.low_risk'')"])
      (simp_all add: tool_request_policy low risk_action_def environment_gates_def)
  then show "flag ''readOnly'' (mt_metadata t)" by (simp add: tool_request_policy)
  have "(req_action ?req, the (map_of role_gates ''mcp.tool.invoke.low_risk'')) \<in> set role_gates"
    by (simp add: tool_request_policy low risk_action_def role_gates_def)
  from default_allowed_role[OF ok this] show "\<exists>role \<in> set (cx_roles cx). ro_name role \<in> {''developer'',
      ''service_account_runner'', ''platform_admin'', ''system_admin'', ''system''}"
    by (auto simp: tool_request_policy role_gates_def)
qed

section \<open>Every operation\<close>

inductive mcp_step :: "engine \<Rightarrow> mcp_state \<Rightarrow> mcp_state \<Rightarrow> bool" for decide where
  list_servers: "mcp_step decide st (snd (list_servers decide s cx st))"
| list_tools: "mcp_step decide st (snd (list_tools decide s i cx st))"
| invoke: "mcp_step decide st (snd (invoke_tool decide s q st))"
| disabled_invoke: "mcp_step decide st (snd (disabled_invoke_tool s q st))"
| upsert_server: "mcp_step decide st (upsert_mcp_server v st)"
| upsert_tool: "mcp_step decide st (upsert_mcp_tool t st)"

definition result_key :: "mcp_result \<Rightarrow> string \<times> string \<times> string \<times> bool" where
  "result_key r = (mr_request_id r, mr_server_id r, mr_tool_id r, mr_status r = McpCompleted)"

text \<open>An event that tells how an invocation ended.\<close>

definition outcome_of :: "mcp_event \<Rightarrow> (string \<times> string \<times> string \<times> bool) option" where
  "outcome_of e =
     (case (mve_request_id e, mve_server_id e, mve_tool_id e) of
        (Some i, Some v, Some t) \<Rightarrow>
          if mve_type e = InvocationCompleted then Some (i, v, t, True)
          else if mve_type e \<in> {InvocationBlocked, ToolAuthDenied, ToolPolicyDenied, ToolSecretDenied,
            ToolUnavailable} then Some (i, v, t, False)
          else None
      | _ \<Rightarrow> None)"

text \<open>
  A caller may record an audit event of any type through \<open>recordAudit\<close>.  A run therefore marks each
  event of the audit log: True for one an operation of the gateway recorded, False for a caller's.
\<close>

inductive mcp_run :: "engine \<Rightarrow> mcp_state \<times> bool list \<Rightarrow> mcp_state \<times> bool list \<Rightarrow> bool" for decide where
  gateway_runs: "mcp_step decide st st' \<Longrightarrow>
    mcp_run decide (st, ms) (st', ms @ replicate (length (mg_audit st') - length (mg_audit st)) True)"
| caller_records: "mcp_run decide (st, ms) (snd (gateway_record_audit s mk st), ms @ [False])"

definition own_events :: "bool list \<Rightarrow> mcp_state \<Rightarrow> mcp_event list" where
  "own_events ms st = map fst (filter snd (zip (mg_audit st) ms))"

definition mcp_log_inv :: "bool list \<Rightarrow> mcp_state \<Rightarrow> bool" where
  "mcp_log_inv ms st \<longleftrightarrow>
     length ms = length (mg_audit st) \<and>
     map result_key (mg_invocations st) = List.map_filter outcome_of (own_events ms st) \<and>
     length (filter (\<lambda>e. mve_type e = InvocationRequested) (own_events ms st)) = length (mg_invocations st) \<and>
     list_all (\<lambda>e. clean_value mcp_words (JObj (mve_metadata e))) (mg_audit st)"

lemma clean_mcp_entry: "\<not> matches_any_word mcp_words k \<Longrightarrow> clean_value mcp_words (sanitize_mcp_entry k v)"
proof (induction k v rule: sanitize_mcp_entry.induct)
  case (1 k v)
  have red: "sanitize_mcp_entry k' v' = JStr ''[redacted]''" if "matches_any_word mcp_words k'" for k' v'
    using that by (simp add: sanitize_mcp_entry.simps)
  show ?case
    using 1 red by (cases v) (auto simp: sanitize_mcp_entry.simps[of k] list_all_iff)
qed

lemma clean_mcp_metadata: "clean_value mcp_words (JObj (sanitize_mcp_metadata o'))"
  by (auto simp: sanitize_mcp_metadata_def obj_map_def list_all_iff clean_mcp_entry)
    (simp add: sanitize_mcp_entry.simps)

text \<open>The results and events an operation appends.\<close>

definition well_logged :: "mcp_result list \<Rightarrow> mcp_event list \<Rightarrow> bool" where
  "well_logged rs es \<longleftrightarrow>
     map result_key rs = List.map_filter outcome_of es \<and>
     length (filter (\<lambda>e. mve_type e = InvocationRequested) es) = length rs \<and>
     list_all (\<lambda>e. clean_value mcp_words (JObj (mve_metadata e))) es"

definition appends :: "mcp_state \<Rightarrow> mcp_result list \<Rightarrow> mcp_event list \<Rightarrow> mcp_state \<Rightarrow> bool" where
  "appends st rs es st' \<longleftrightarrow> logs st' = (mg_invocations st @ rs, mg_audit st @ es)"

lemma appends_logs: "logs st' = logs st \<Longrightarrow> appends st [] [] st'"
  by (simp add: appends_def logs_def)

lemma appends_trans:
  "appends st rs es st1 \<Longrightarrow> appends st1 rs' es' st2 \<Longrightarrow> appends st (rs @ rs') (es @ es') st2"
  by (simp add: appends_def logs_def)

lemma appends_cong: "appends st rs es st1 \<Longrightarrow> logs st2 = logs st1 \<Longrightarrow> appends st rs es st2"
  by (simp add: appends_def)

lemma appends_after: "logs st1 = logs st \<Longrightarrow> appends st1 rs es st2 \<Longrightarrow> appends st rs es st2"
  by (simp add: appends_def logs_def)

lemma map_filter_append: "List.map_filter f (xs @ ys) = List.map_filter f xs @ List.map_filter f ys"
  by (simp add: List.map_filter_def)

definition logged :: "mcp_state \<Rightarrow> mcp_state \<Rightarrow> bool" where
  "logged st st' \<longleftrightarrow> (\<exists>rs es. appends st rs es st' \<and> well_logged rs es)"

lemma loggedI: "appends st rs es st' \<Longrightarrow> well_logged rs es \<Longrightarrow> logged st st'"
  unfolding logged_def by blast

lemma own_events_append:
  assumes "length ms = length (mg_audit st)" and "mg_audit st' = mg_audit st @ es"
  shows "own_events (ms @ replicate (length es) True) st' = own_events ms st @ es"
    and "es = [e] \<Longrightarrow> own_events (ms @ [False]) st' = own_events ms st"
proof -
  have "map fst (filter snd (zip es (replicate (length es) True))) = es" for es :: "mcp_event list"
    by (induction es) simp_all
  then show "own_events (ms @ replicate (length es) True) st' = own_events ms st @ es"
    "es = [e] \<Longrightarrow> own_events (ms @ [False]) st' = own_events ms st"
    using assms by (simp_all add: own_events_def)
qed

lemma logged_inv:
  assumes "mcp_log_inv ms st" and "logged st st'"
  shows "mcp_log_inv (ms @ replicate (length (mg_audit st') - length (mg_audit st)) True) st'"
proof -
  from assms(2) obtain rs es where a: "appends st rs es st'" and w: "well_logged rs es"
    unfolding logged_def by blast
  then have a: "mg_invocations st' = mg_invocations st @ rs" "mg_audit st' = mg_audit st @ es"
    by (simp_all add: appends_def logs_def)
  then show ?thesis
    using assms(1) w own_events_append(1)[OF _ a(2), of ms]
    by (simp add: mcp_log_inv_def well_logged_def map_filter_append)
qed

lemma event_appends: "appends st [] [fst (record_mcp_event s mk st)] (snd (record_mcp_event s mk st))"
  by (simp add: appends_def logs_def record_mcp_event_def Let_def)

lemma outcome_of_metadata: "outcome_of (e\<lparr>mve_metadata := m\<rparr>) = outcome_of e"
  by (simp add: outcome_of_def split: option.split)

lemma event_fields:
  "mve_type (fst (record_mcp_event s mk st)) = mve_type (mk (fresh_id ''mcpaudit'' 0 s) (clock 0 s))"
  "outcome_of (fst (record_mcp_event s mk st)) = outcome_of (mk (fresh_id ''mcpaudit'' 0 s) (clock 0 s))"
  "clean_value mcp_words (JObj (mve_metadata (fst (record_mcp_event s mk st))))"
  by (simp_all add: record_mcp_event_def Let_def outcome_of_metadata clean_mcp_metadata del: clean_value.simps)

lemma event_kinds:
  "mve_type (request_event cx q ty res reason meta i t) = ty"
  "mve_type (listing_event cx ty v res reason meta i t) = ty"
  "outcome_of (listing_event cx ty v res reason meta i t) = None"
  "outcome_of (request_event cx q ty res reason meta i t) =
     (if ty = InvocationCompleted then Some (mq_id q, mq_server_id q, mq_tool_id q, True)
      else if ty \<in> {InvocationBlocked, ToolAuthDenied, ToolPolicyDenied, ToolSecretDenied, ToolUnavailable}
      then Some (mq_id q, mq_server_id q, mq_tool_id q, False) else None)"
  by (simp_all add: request_event_def listing_event_def outcome_of_def)

lemma result_appends: "appends st [fst (record_result s q oc st)] [] (snd (record_result s q oc st))"
  by (simp add: appends_def logs_def record_result_def record_invocation_def Let_def)

lemma result_fields:
  "result_key (fst (record_result s q oc st)) =
     (mq_id q, mq_server_id q, mq_tool_id q, oc_status oc = McpCompleted)"
  by (simp add: record_result_def result_key_def Let_def)

lemma refusal_event_outcome:
  "status \<noteq> McpCompleted \<Longrightarrow> refusal_event status \<noteq> InvocationCompleted \<and> refusal_event status \<noteq> InvocationRequested \<and>
     refusal_event status \<in> {InvocationBlocked, ToolAuthDenied, ToolPolicyDenied, ToolSecretDenied, ToolUnavailable}"
  by (simp add: refusal_event_def)

text \<open>The end of an invocation: one result and one event that tells its outcome.\<close>

definition ends_with_result :: "mcp_state \<Rightarrow> mcp_result \<Rightarrow> mcp_state \<Rightarrow> bool" where
  "ends_with_result st r st' \<longleftrightarrow>
     (\<exists>es. appends st [r] es st' \<and> List.map_filter outcome_of es = [result_key r] \<and>
        list_all (\<lambda>e. mve_type e \<noteq> InvocationRequested \<and> clean_value mcp_words (JObj (mve_metadata e))) es)"

lemma refuse_ends:
  assumes "va_status va \<noteq> McpCompleted"
  shows "ends_with_result st (fst (refuse_invocation s cx q va st)) (snd (refuse_invocation s cx q va st))"
  using appends_trans[OF result_appends event_appends] refusal_event_outcome[OF assms] assms
  unfolding ends_with_result_def refuse_invocation_def Let_def case_prod_beta fst_conv snd_conv append_Nil append_Nil2
  by (fastforce simp: List.map_filter_def event_fields event_kinds result_fields final_status_eq simp del: clean_value.simps)

lemma ends_after:
  assumes "appends st [] es st1" and "ends_with_result st1 r st2"
    and "List.map_filter outcome_of es = []"
    and "list_all (\<lambda>e. mve_type e \<noteq> InvocationRequested \<and> clean_value mcp_words (JObj (mve_metadata e))) es"
  shows "ends_with_result st r st2"
proof -
  from assms(2) obtain es' where "appends st1 [r] es' st2" "List.map_filter outcome_of es' = [result_key r]"
    "list_all (\<lambda>e. mve_type e \<noteq> InvocationRequested \<and> clean_value mcp_words (JObj (mve_metadata e))) es'"
    unfolding ends_with_result_def by blast
  then have "appends st [r] (es @ es') st2" "List.map_filter outcome_of (es @ es') = [result_key r]"
    "list_all (\<lambda>e. mve_type e \<noteq> InvocationRequested \<and> clean_value mcp_words (JObj (mve_metadata e))) (es @ es')"
    using appends_trans[OF assms(1)] assms(3,4) by (auto simp: map_filter_append simp del: clean_value.simps)
  then show ?thesis unfolding ends_with_result_def by blast
qed

lemma result_and_event_end:
  assumes "oc_status oc = McpCompleted"
  shows "ends_with_result st (fst (record_result s q oc st))
    (snd (record_mcp_event s' (request_event cx q InvocationCompleted res reason meta)
       (snd (record_result s q oc st))))"
  using appends_trans[OF result_appends event_appends] assms
  unfolding ends_with_result_def append_Nil append_Nil2
  by (fastforce simp: List.map_filter_def event_fields event_kinds result_fields simp del: clean_value.simps)

lemma redaction_event_appends:
  "\<exists>es. appends st [] es
      (if b then snd (record_mcp_event s (request_event cx q OutputRedacted res reason meta) st) else st) \<and>
     List.map_filter outcome_of es = [] \<and>
     list_all (\<lambda>e. mve_type e \<noteq> InvocationRequested \<and> clean_value mcp_words (JObj (mve_metadata e))) es"
proof (cases b)
  case True
  then show ?thesis
    using event_appends[of st s "request_event cx q OutputRedacted res reason meta"]
    by (intro exI[of _ "[fst (record_mcp_event s (request_event cx q OutputRedacted res reason meta) st)]"])
      (simp add: List.map_filter_def event_fields event_kinds del: clean_value.simps)
next
  case False
  then show ?thesis by (intro exI[of _ "[]"]) (simp add: appends_def logs_def List.map_filter_def)
qed

lemma complete_ends:
  "ends_with_result st (fst (complete_invocation s cx q va st)) (snd (complete_invocation s cx q va st))"
proof -
  have redact: "ends_with_result (snd (mcp_redact a q b c d st)) r st' \<Longrightarrow> ends_with_result st r st'" for a b c d r st'
    unfolding ends_with_result_def using appends_after[OF mcp_redact_frame(1)] by blast
  show ?thesis
    unfolding complete_invocation_def Let_def case_prod_beta fst_conv snd_conv
    by (rule redact, rule exE[OF redaction_event_appends], (elim conjE)?,
        rule ends_after, assumption, rule result_and_event_end, simp, assumption, assumption)
qed

lemma invoke_logged: "logged st (snd (invoke_tool decide s q st))"
proof -
  let ?cx = "fst (context_for_request (sub 0 s) q st)"
  let ?st1 = "snd (redacted_metadata (sub 1 s) q ''input'' (snd (context_for_request (sub 0 s) q st)))"
  let ?mk = "request_event ?cx q InvocationRequested ResAllowed ''mcp_invocation_received''
    (fst (redacted_metadata (sub 1 s) q ''input'' (snd (context_for_request (sub 0 s) q st))))"
  let ?e = "fst (record_mcp_event (sub 2 s) ?mk ?st1)"
  let ?va = "validate_invocation decide (sub 3 s) q (received s q st)"
  have "received s q st = snd (record_mcp_event (sub 2 s) ?mk ?st1)"
    by (simp add: received_def Let_def case_prod_beta)
  moreover have "logs ?st1 = logs st" by (simp add: redacted_metadata_frame mcp_context_frame context_for_request_def)
  ultimately have "appends st [] [?e] (received s q st)" by (simp only: appends_after event_appends)
  then have start: "appends st [] [?e] (snd ?va)" by (rule appends_cong) (rule validate_invocation_frame)
  let ?r = "fst (invoke_tool decide s q st)"
  have "ends_with_result (snd ?va) ?r (snd (invoke_tool decide s q st))"
    using complete_ends refuse_ends validation_status[of decide "sub 3 s" q "received s q st"]
    by (cases "va_ok (fst ?va)") (simp_all add: invoke_tool_parts Let_def case_prod_beta)
  then obtain es where es: "appends (snd ?va) [?r] es (snd (invoke_tool decide s q st))"
    "List.map_filter outcome_of es = [result_key ?r]"
    "list_all (\<lambda>e. mve_type e \<noteq> InvocationRequested \<and> clean_value mcp_words (JObj (mve_metadata e))) es"
    unfolding ends_with_result_def by blast
  have "filter (\<lambda>e. mve_type e = InvocationRequested) es = []"
    using es(3) by (auto simp: filter_empty_conv list_all_iff simp del: clean_value.simps)
  then have "well_logged ([] @ [?r]) ([?e] @ es)"
    unfolding well_logged_def map_filter_append
    using es(2,3) event_fields[of "sub 2 s" ?mk ?st1] event_kinds(1,4)
    by (simp add: List.map_filter_def list_all_iff del: clean_value.simps)
  then show ?thesis by (rule loggedI[OF appends_trans[OF start es(1)]])
qed

lemma event_logged:
  assumes "logs st1 = logs st"
    and "\<And>i t. outcome_of (mk i t) = None" and "\<And>i t. mve_type (mk i t) \<noteq> InvocationRequested"
  shows "logged st (snd (record_mcp_event s mk st1))"
  by (rule loggedI[OF appends_after[OF assms(1) event_appends]])
    (simp add: well_logged_def List.map_filter_def event_fields assms del: clean_value.simps)

lemma same_logs_logged: "logs st1 = logs st \<Longrightarrow> logged st st1"
  by (rule loggedI, rule appends_logs) (simp_all add: well_logged_def List.map_filter_def)

lemma finish_listing_logged:
  "logs st1 = logs st \<Longrightarrow> ty \<noteq> InvocationRequested \<Longrightarrow>
   logged st (snd (finish_listing s cx a ty reason v d items st1))"
  by (simp add: finish_listing_def event_logged event_kinds)

lemma mcp_step_logged: "mcp_step decide st st' \<Longrightarrow> logged st st'"
proof (induction rule: mcp_step.induct)
  case (list_servers st s cx)
  then show ?case
    by (simp add: list_servers_def Let_def case_prod_beta finish_listing_logged mcp_authorize_frame mcp_context_frame)
next
  case (list_tools st s i cx)
  have keep: "logged st (snd (mcp_context a cx None [] st))" for a
    by (rule same_logs_logged) (rule mcp_context_frame)
  show ?case
    using keep
    by (simp add: list_tools_def Let_def case_prod_beta finish_listing_logged mcp_authorize_frame
        mcp_context_frame split: option.split)
next
  case (invoke st s q)
  then show ?case by (rule invoke_logged)
next
  case (disabled_invoke st s q)
  then show ?case
    by (simp add: disabled_invoke_tool_def Let_def case_prod_beta event_logged event_kinds
        context_for_request_def mcp_context_frame)
qed (rule same_logs_logged, simp add: logs_def upsert_mcp_server_def upsert_mcp_tool_def)+

lemma mcp_run_inv:
  assumes "mcp_run decide x x'" and "mcp_log_inv (snd x) (fst x)"
  shows "mcp_log_inv (snd x') (fst x')"
  using assms
proof cases
  case (gateway_runs st st' ms)
  then show ?thesis using assms(2) logged_inv[OF _ mcp_step_logged] by simp
next
  case (caller_records st ms s mk)
  let ?e = "fst (record_mcp_event s mk st)"
  have a: "appends st [] [?e] (snd (record_mcp_event s mk st))" by (rule event_appends)
  then have "mg_invocations (fst x') = mg_invocations st" "mg_audit (fst x') = mg_audit st @ [?e]"
    using caller_records(2) by (simp_all add: appends_def logs_def gateway_record_audit_def)
  then show ?thesis
    using assms(2) caller_records own_events_append(2)[of ms st "fst x'" "[?e]"] event_fields(3)[of s mk st]
    by (simp add: mcp_log_inv_def del: clean_value.simps)
qed

lemma new_gateway_inv: "mcp_log_inv [] (new_mcp_gateway a sec p)"
  by (simp add: mcp_log_inv_def own_events_def new_mcp_gateway_def List.map_filter_def)

section \<open>The shape of a result\<close>

text \<open>What a result of a request looks like, and that it is the last entry of the log.\<close>

definition result_ok :: "mcp_request \<Rightarrow> mcp_state \<Rightarrow> mcp_result \<times> mcp_state \<Rightarrow> bool" where
  "result_ok q st out \<longleftrightarrow>
     (case out of (r, st') \<Rightarrow>
       mr_request_id r = mq_id q \<and> mr_lease_ids r = [] \<and> mr_completed_at r \<noteq> None \<and>
       mg_invocations st' = mg_invocations st @ [r] \<and> mr_status r \<noteq> McpFailed \<and>
       (if mr_status r = McpCompleted then mr_output r \<noteq> None \<and> mr_preview r \<noteq> None \<and> mr_error r = None
        else mr_output r = None \<and> mr_preview r = None \<and> mr_error r \<noteq> None))"

lemma keeps_invocations:
  "mg_invocations (snd (record_mcp_event s mk st)) = mg_invocations st"
  "mg_invocations (snd (mcp_redact s q a x t st)) = mg_invocations st"
  by (simp_all add: record_mcp_event_def mcp_redact_def Let_def case_prod_beta)

lemma complete_result_ok: "result_ok q st (complete_invocation s cx q va st)"
  by (simp add: complete_invocation_def record_result_def record_invocation_def result_ok_def Let_def
      case_prod_beta keeps_invocations)

lemma refuse_result_ok:
  "va_status va \<noteq> McpCompleted \<Longrightarrow> va_status va \<noteq> McpFailed \<Longrightarrow>
   result_ok q st (refuse_invocation s cx q va st)"
  by (simp add: refuse_invocation_def record_result_def record_invocation_def result_ok_def Let_def
      case_prod_beta keeps_invocations final_status_eq)

lemma received_invocations: "mg_invocations (received s q st) = mg_invocations st"
  using redacted_metadata_frame(1)[of "sub 1 s" q "''input''" "snd (context_for_request (sub 0 s) q st)"]
    mcp_context_frame(1)[of "sub 0 s"]
  by (simp add: received_def Let_def case_prod_beta keeps_invocations logs_def context_for_request_def)

lemma invoke_result_ok: "result_ok q st (invoke_tool decide s q st)"
proof -
  let ?va = "validate_invocation decide (sub 3 s) q (received s q st)"
  have "mg_invocations (snd ?va) = mg_invocations st"
    using validate_invocation_frame[of decide "sub 3 s" q "received s q st"]
    by (simp add: logs_def received_invocations)
  moreover have "result_ok q (snd ?va) (invoke_tool decide s q st)"
    using validation_status[of decide "sub 3 s" q "received s q st"]
    by (simp add: invoke_tool_parts Let_def case_prod_beta complete_result_ok refuse_result_ok)
  ultimately show ?thesis unfolding result_ok_def case_prod_beta by simp
qed

section \<open>A sample invocation\<close>

definition sample_mcp :: mcp_state where
  "sample_mcp = new_mcp_gateway sample_service
     (new_security (new_policy_service None) None \<lparr>env_enabled = False, env_allowed_keys = [], env_vars = (\<lambda>_. None)\<rparr>)
     (new_policy_service None)"

definition search_request :: mcp_request where
  "search_request =
     \<lparr>mq_id = ''r1'', mq_server_id = ''mock-docs-search-mcp'', mq_tool_id = ''docs.search'',
      mq_tool_name = ''docs.search'', mq_actor_id = None, mq_principal_id = None, mq_task_id = None,
      mq_run_id = None, mq_agent_run_id = None, mq_auth = Some (default_context sample_draws ''mock-admin''),
      mq_input = [(''query'', JStr ''gateway'')], mq_purpose = ''docs'', mq_metadata = [], mq_created_at = 0\<rparr>"

lemma search_callable: "callable search_request mock_docs_search_mcp tool_docs_search sample_mcp"
  by (simp add: callable_def search_request_def sample_mcp_def new_mcp_gateway_def get_mcp_server_def
      find_mcp_tool_def default_mcp_servers_def default_mcp_tools_def catalog_servers catalog_tools
      mcp_server_row_def mcp_tool_row_def)

lemma search_harmless: "harmless mock_docs_search_mcp tool_docs_search"
  by (simp add: harmless_def needs_secrets_def flag_def mock_docs_search_mcp_def tool_docs_search_def
      mcp_server_row_def mcp_tool_row_def)

lemma mcp_rules_for:
  "rules_for ''mcp.tool.invoke.low_risk'' = [mcp_allow_rules ! 2]"
  "rules_for ''mcp.tool.invoke'' = [mcp_allow_rules ! 3]"
  by (simp_all add: rules_for_def default_rule_defs cong: rule_literal_cong)

definition low_risk_row :: permission where
  "low_risk_row = permission_row ''perm_mcp_tool_invoke_low_risk'' ''mcp.tool.invoke.low_risk'' ''mcp_tool''
     ''Invoke low-risk read-only mock MCP tools.'' ''medium''"

lemma low_risk_permission:
  "get_permission ''mcp.tool.invoke.low_risk'' default_auth_repository = Some low_risk_row"
  "get_permission ''perm_mcp_tool_invoke_low_risk'' default_auth_repository = Some low_risk_row"
  by (simp_all add: get_permission_def default_auth_permissions_def permission_row_def low_risk_row_def)

lemma admin_has_low_risk:
  "pm_id low_risk_row = ''perm_mcp_tool_invoke_low_risk''"
  "''perm_mcp_tool_invoke_low_risk'' \<in> set (ro_permissions role_system_admin)"
  by (simp_all add: low_risk_row_def role_system_admin_def all_permission_ids_def default_auth_permissions_def
      permission_row_def)

lemma search_rbac:
  "rbac_allows (tool_check (default_context sample_draws ''mock-admin'') search_request mock_docs_search_mcp
     tool_docs_search) default_auth_repository"
proof -
  let ?req = "tool_check (default_context sample_draws ''mock-admin'') search_request mock_docs_search_mcp tool_docs_search"
  have "rbac_allows (sample_check ''mock-admin'' ''mcp.tool.invoke.low_risk'' (ck_resource ?req)) default_auth_repository"
    by (rule rbac_allowsI[OF admin_context(3) _ _ low_risk_permission(1), of binding_mock_admin_system_admin role_system_admin])
      (simp_all only: admin_context low_risk_permission admin_has_low_risk binding_facts default_role list.set insert_iff simp_thms
        global_scope_matches)
  then show ?thesis
    by (simp add: rbac_allows_def tool_check_def risk_action_def tool_docs_search_def mcp_tool_row_def)
qed

lemma search_cleared:
  "cleared (evaluate default_policy_rules) (default_context sample_draws ''mock-admin'') search_request
     mock_docs_search_mcp tool_docs_search sample_mcp"
proof -
  have repo: "as_repo (mg_auth sample_mcp) = default_auth_repository"
    by (simp add: sample_mcp_def new_mcp_gateway_def)
  have tool: "mt_risk tool_docs_search = RiskLow" "mt_status tool_docs_search = EntryActive"
    "mt_secret_refs tool_docs_search = []" "mv_secret_refs mock_docs_search_mcp = []"
    "mv_kind mock_docs_search_mcp = KindMock" "mv_status mock_docs_search_mcp = EntryActive"
    "flag ''readOnly'' (mt_metadata tool_docs_search)" "\<not> flag ''networkRequired'' (mt_metadata tool_docs_search)"
    "\<not> flag ''writeOperation'' (mt_metadata tool_docs_search)"
    "\<not> flag ''deployOperation'' (mt_metadata tool_docs_search)"
    "\<not> flag ''localExecutionRequired'' (mt_metadata tool_docs_search)"
    by (simp_all add: tool_docs_search_def mock_docs_search_mcp_def mcp_tool_row_def mcp_server_row_def flag_def)
  have roles: "map ro_name (cx_roles (default_context sample_draws ''mock-admin'')) = [''system_admin'', ''platform_admin'']"
    by (simp add: admin_context role_system_admin_def role_platform_admin_def)
  show ?thesis
    unfolding cleared_def repo
    by (simp add: search_rbac)
      (simp add: default_allowed_iff tool_check_def auth_policy_request_def generic_request_def mcp_check_def
        risk_action_def tool Let_def mcp_rules_for mcp_allow_rules_def rule_applies_def map_matches_def
        to_policy_subject_def create_policy_subject_def create_policy_resource_def create_policy_context_def
        mcp_environment_def roles needs_secrets_def server_kind_name_def entry_status_name_def mcp_risk_name_def
        condition_matches_def no_conditions_def cong: rule_literal_cong)
qed

lemma search_completes:
  "mr_status (fst (invoke_tool (evaluate default_policy_rules) s search_request sample_mcp)) = McpCompleted"
  using search_callable search_harmless search_cleared
  by (auto simp: static.invocation_completes_iff invoking_context_def context_for_request_def mcp_context_def
      search_request_def)

section \<open>Properties\<close>

text \<open>
  C26: A tool invocation completes exactly when the request names an active mock server and an active
  tool of it that the server allows, the tool needs no secret, network, write, deployment or local
  agent, and the invoking context is cleared for it: by a role binding for the permission of its
  risk, by the policy for that permission and by the policy for invocations.
\<close>

theorem mcp_invocation_completes_exactly:
  "(mr_status (fst (invoke_tool (evaluate rules) s q st)) = McpCompleted) =
     (\<exists>v t. callable q v t st \<and> harmless v t \<and>
        cleared (evaluate rules) (invoking_context s q st) q v t st)"
  by (rule static.invocation_completes_iff)

text \<open>
  C27: Under the default policy only low-risk read-only tools complete, and only for a context with
  the role of a developer, the runner, an administrator or the system, whatever the catalogue and
  the bindings say.
\<close>

theorem default_mcp_is_read_only:
  assumes "mr_status (fst (invoke_tool (evaluate default_policy_rules) s q st)) = McpCompleted"
  shows "\<exists>v t. callable q v t st \<and> harmless v t \<and> mt_risk t = RiskLow \<and>
    flag ''readOnly'' (mt_metadata t) \<and>
    (\<exists>role \<in> set (cx_roles (invoking_context s q st)).
       ro_name role \<in> {''developer'', ''service_account_runner'', ''platform_admin'', ''system_admin'', ''system''})"
proof -
  obtain v t where c: "callable q v t st" "harmless v t"
    and ok: "cleared (evaluate default_policy_rules) (invoking_context s q st) q v t st"
    using assms unfolding static.invocation_completes_iff by blast
  show ?thesis using c default_clears_low_risk[OF ok] by (intro exI[of _ v] exI[of _ t] conjI)
qed

text \<open>
  C28: Every invocation returns a well-formed result for its request: it is completed with an output
  and a preview and without an error, or refused with an error and neither; it never fails and
  never carries a secret lease; and the last entry of the log is that result.
\<close>

theorem mcp_results_wellformed: "result_ok q st (invoke_tool decide s q st)"
  by (rule invoke_result_ok)

text \<open>
  C29: Over every sequence of gateway operations, of changes of the catalogue and of audit events callers
  record, the invocation log agrees with the events the gateway itself recorded: results and
  outcome events match one to one in order, and each invocation has its request event.  No event of
  the audit log, a caller's included, keeps a value under a sensitive key of its metadata at any
  depth of objects; the contents of arrays are kept as they are.
\<close>

theorem mcp_log_matches_audit:
  assumes "(mcp_run decide)\<^sup>*\<^sup>* (new_mcp_gateway a sec p, []) (st, ms)"
  shows "length ms = length (mg_audit st) \<and>
    map result_key (mg_invocations st) = List.map_filter outcome_of (own_events ms st) \<and>
    length (filter (\<lambda>e. mve_type e = InvocationRequested) (own_events ms st)) = length (mg_invocations st) \<and>
    list_all (\<lambda>e. clean_value mcp_words (JObj (mve_metadata e))) (mg_audit st)"
proof -
  have "mcp_log_inv (snd x) (fst x)" if "(mcp_run decide)\<^sup>*\<^sup>* (new_mcp_gateway a sec p, []) x" for x
    using that by (induction rule: rtranclp_induct) (auto intro: mcp_run_inv simp: new_gateway_inv)
  from this[OF assms] show ?thesis by (simp only: fst_conv snd_conv mcp_log_inv_def simp_thms)
qed

theorem default_mcp_is_read_only_witness:
  "\<exists>v t. callable search_request v t sample_mcp \<and> mt_risk t = RiskLow"
  using default_mcp_is_read_only[OF search_completes] by blast

theorem mcp_log_matches_audit_witness:
  "\<forall>mk. \<exists>st ms. (mcp_run (evaluate default_policy_rules))\<^sup>*\<^sup>* (sample_mcp, []) (st, ms) \<and>
     st = snd (gateway_record_audit sample_draws mk
       (snd (invoke_tool (evaluate default_policy_rules) sample_draws search_request sample_mcp))) \<and>
     map result_key (mg_invocations st) = List.map_filter outcome_of (own_events ms st)"
proof
  fix mk
  let ?st1 = "snd (invoke_tool (evaluate default_policy_rules) sample_draws search_request sample_mcp)"
  have "(mcp_run (evaluate default_policy_rules))\<^sup>*\<^sup>* (sample_mcp, [])
      (snd (gateway_record_audit sample_draws mk ?st1),
       ([] @ replicate (length (mg_audit ?st1) - length (mg_audit sample_mcp)) True) @ [False])"
    by (rule rtranclp.rtrancl_into_rtrancl[OF r_into_rtranclp])
      (rule mcp_run.gateway_runs, rule mcp_step.invoke, rule mcp_run.caller_records)
  from this mcp_log_matches_audit[OF this[unfolded sample_mcp_def]]
  show "\<exists>st ms. (mcp_run (evaluate default_policy_rules))\<^sup>*\<^sup>* (sample_mcp, []) (st, ms) \<and>
     st = snd (gateway_record_audit sample_draws mk ?st1) \<and>
     map result_key (mg_invocations st) = List.map_filter outcome_of (own_events ms st)"
    unfolding sample_mcp_def by blast
qed

end
