(* ===== verification/ImprovementModel.thy ===== *)
theory ImprovementModel
  imports TaskModel PolicyService DefaultPolicy JsDate
begin

text \<open>
  The data of the improvement loop, \<open>packages/improvement/src/index.ts\<close> with its types of
  \<open>packages/core/src/domain/models.ts\<close>: failure signals and clusters, candidates, proposals, eval
  requirements, canary plans, safety policies, draft registry changes, governance decisions and
  their audit; the vocabularies, the two status machines, the validating constructors and the
  in-memory repository.
\<close>

section \<open>Entities\<close>

record failure_signal =
  sig_id :: string
  sig_source_type :: string
  sig_source_id :: string
  sig_task_id :: "string option"
  sig_run_id :: "string option"
  sig_target_kind :: string
  sig_target_ref :: "string option"
  sig_severity :: string
  sig_category :: string
  sig_summary :: string
  sig_details :: "string option"
  sig_observed_at :: time
  sig_metadata :: jsobj

record failure_cluster =
  clu_id :: string
  clu_title :: string
  clu_category :: string
  clu_target_kind :: string
  clu_target_ref :: "string option"
  clu_signal_ids :: "string list"
  clu_severity :: string
  clu_status :: string
  clu_summary :: string
  clu_created_at :: time
  clu_updated_at :: time

record candidate =
  cand_id :: string
  cand_cluster_id :: string
  cand_target_kind :: string
  cand_target_id :: string
  cand_target_name :: string
  cand_target_version :: string
  cand_type :: string
  cand_priority :: string
  cand_summary :: string
  cand_evidence :: "string list"
  cand_status :: string
  cand_created_at :: time
  cand_updated_at :: time

record proposal =
  prp_id :: string
  prp_candidate_id :: string
  prp_target_kind :: string
  prp_target_id :: string
  prp_target_name :: string
  prp_target_version :: string
  prp_change_type :: string
  prp_patch :: "jsobj option"
  prp_summary :: string
  prp_rationale :: string
  prp_safety_notes :: "string list"
  prp_status :: string
  prp_created_by :: string
  prp_created_at :: time
  prp_updated_at :: time

record eval_requirement =
  evq_id :: string
  evq_target_kind :: string
  evq_target_id :: "string option"
  evq_name :: string
  evq_type :: string
  evq_required_status :: string
  evq_description :: string
  evq_blocking :: bool
  evq_created_at :: time

record canary_stage =
  cst_name :: string
  cst_percentage :: "num option"
  cst_scope :: string
  cst_success :: "string list"
  cst_rollback :: "string list"

record canary_plan =
  cpl_id :: string
  cpl_proposal_id :: string
  cpl_target_kind :: string
  cpl_target_id :: string
  cpl_stages :: "canary_stage list"
  cpl_status :: string
  cpl_created_at :: time
  cpl_updated_at :: time

record safety_policy =
  sfp_id :: string
  sfp_name :: string
  sfp_enabled :: bool
  sfp_target_kinds :: "string list"
  sfp_auto_apply :: bool
  sfp_human_approval :: bool
  sfp_eval_passed :: bool
  sfp_canary :: bool
  sfp_max_changes :: num
  sfp_blocked_scopes :: "string list option"
  sfp_created_at :: time
  sfp_updated_at :: time

record analysis =
  ana_id :: string
  ana_cluster_id :: string
  ana_summary :: string
  ana_target_kind :: string
  ana_target_ref :: "string option"
  ana_evidence :: "string list"
  ana_candidate_type :: string
  ana_confidence :: num
  ana_created_at :: time

record draft_change =
  drc_id :: string
  drc_proposal_id :: string
  drc_target_kind :: string
  drc_target_id :: string
  drc_target_name :: string
  drc_target_version :: string
  drc_change_type :: string
  drc_payload :: jsobj
  drc_status :: string
  drc_created_at :: time
  drc_updated_at :: time

record readiness =
  rdy_proposal_id :: string
  rdy_for_review :: bool
  rdy_eval_ids :: "string list"
  rdy_approval :: bool
  rdy_canary :: bool
  rdy_blocking :: "string list"
  rdy_policy_id :: string
  rdy_latest_decision :: "string option"
  rdy_eval_status :: string
  rdy_canary_ready :: bool
  rdy_draft_status :: "string option"
  rdy_evaluated_at :: time

record review_item =
  rvi_id :: string
  rvi_proposal_id :: string
  rvi_candidate_id :: string
  rvi_target_kind :: string
  rvi_target_id :: string
  rvi_target_name :: string
  rvi_target_version :: string
  rvi_change_type :: string
  rvi_status :: string
  rvi_readiness :: string
  rvi_blocking :: "string list"
  rvi_eval_ids :: "string list"
  rvi_approval :: bool
  rvi_canary :: bool
  rvi_latest_decision :: "string option"
  rvi_action :: string
  rvi_created_at :: time
  rvi_updated_at :: time

record governance_decision =
  gvd_id :: string
  gvd_proposal_id :: string
  gvd_actor_id :: string
  gvd_decision :: string
  gvd_reason :: string
  gvd_created_at :: time

record proposal_eval_run =
  evr_id :: string
  evr_proposal_id :: string
  evr_requirement_id :: string
  evr_status :: string
  evr_summary :: string
  evr_score :: "num option"
  evr_max_score :: "num option"
  evr_attached_by :: string
  evr_attached_at :: time
  evr_metadata :: "jsobj option"

record canary_readiness =
  cry_proposal_id :: string
  cry_required :: bool
  cry_ready :: bool
  cry_blocking :: "string list"
  cry_evaluated_at :: time

record apply_gate =
  apg_proposal_id :: string
  apg_can_apply :: bool
  apg_blocking :: "string list"
  apg_approval :: bool
  apg_eval_passed :: bool
  apg_canary_ready :: bool
  apg_policy_id :: string
  apg_evaluated_at :: time

record governance_event =
  gve_id :: string
  gve_action :: string
  gve_proposal_id :: "string option"
  gve_draft_id :: "string option"
  gve_actor_id :: string
  gve_message :: string
  gve_metadata :: "jsobj option"
  gve_created_at :: time

section \<open>Vocabularies and status machines\<close>

definition source_types :: "string list" where
  "source_types = [''task_run'', ''conflict_manager'', ''registry_resolver'', ''test_result'',
     ''usage_ledger'', ''manual'']"

definition signal_target_kinds :: "string list" where
  "signal_target_kinds = [''skill'', ''harness'', ''instruction'', ''model'', ''conflict_manager'', ''unknown'']"

definition improvement_target_kinds :: "string list" where
  "improvement_target_kinds = [''skill'', ''harness'', ''instruction'']"

definition severities :: "string list" where
  "severities = [''low'', ''medium'', ''high'', ''critical'']"

definition candidate_types :: "string list" where
  "candidate_types = [''update_instruction'', ''update_skill'', ''update_harness'', ''adjust_resolver'',
     ''add_eval_requirement'']"

definition priorities :: "string list" where
  "priorities = [''low'', ''medium'', ''high'']"

definition candidate_statuses :: "string list" where
  "candidate_statuses = [''new'', ''triaged'', ''proposal_requested'', ''proposal_created'', ''dismissed'']"

definition proposal_change_types :: "string list" where
  "proposal_change_types = [''patch'', ''new_version'', ''status_change'', ''eval_requirement'',
     ''instruction_update'']"

definition proposal_statuses :: "string list" where
  "proposal_statuses = [''draft'', ''awaiting_review'', ''eval_required'', ''approved_for_canary'',
     ''rejected'', ''applied'', ''archived'']"

definition eval_requirement_types :: "string list" where
  "eval_requirement_types = [''unit_test'', ''integration_test'', ''golden_case'', ''manual_review'', ''mock_eval'']"

definition eval_required_statuses :: "string list" where
  "eval_required_statuses = [''passed'', ''approved'']"

definition canary_statuses :: "string list" where
  "canary_statuses = [''draft'', ''ready'', ''running'', ''paused'', ''completed'', ''failed'']"

definition draft_change_types :: "string list" where
  "draft_change_types = [''patch'', ''new_version'', ''metadata_update'', ''eval_requirement'',
     ''instruction_update'']"

definition draft_change_statuses :: "string list" where
  "draft_change_statuses = [''draft'', ''awaiting_review'', ''rejected'', ''superseded'']"

definition governance_decisions :: "string list" where
  "governance_decisions = [''approve'', ''reject'', ''request_changes'', ''mark_eval_required'',
     ''mark_canary_required'', ''archive'']"

definition eval_run_statuses :: "string list" where
  "eval_run_statuses = [''pending'', ''passed'', ''failed'', ''skipped'']"

definition governance_actions :: "string list" where
  "governance_actions = [''proposal_decision_recorded'', ''proposal_approved'', ''proposal_rejected'',
     ''proposal_changes_requested'', ''proposal_eval_attached'', ''proposal_canary_readiness_checked'',
     ''proposal_apply_gate_checked'', ''proposal_apply_blocked'']"

definition proposal_transitions :: "string \<Rightarrow> string list" where
  "proposal_transitions st =
     (if st = ''draft'' then [''awaiting_review'', ''eval_required'', ''rejected'', ''archived'']
      else if st = ''awaiting_review''
      then [''eval_required'', ''approved_for_canary'', ''rejected'', ''archived'']
      else if st = ''eval_required''
      then [''awaiting_review'', ''approved_for_canary'', ''rejected'', ''archived'']
      else if st = ''approved_for_canary'' then [''rejected'', ''archived'']
      else if st = ''rejected'' then [''archived'']
      else [])"

definition draft_change_transitions :: "string \<Rightarrow> string list" where
  "draft_change_transitions st =
     (if st = ''draft'' then [''awaiting_review'', ''rejected'', ''superseded'']
      else if st = ''awaiting_review'' then [''rejected'', ''superseded'']
      else [])"

section \<open>Helpers\<close>

definition required_string :: "string option \<Rightarrow> string \<Rightarrow> string result" where
  \<comment> \<open>a value that is not a string is \<open>None\<close>\<close>
  "required_string v field =
     (case v of
        None \<Rightarrow> Inl (Error (field @ '' is required''))
      | Some x \<Rightarrow> if trim x = [] then Inl (Error (field @ '' is required'')) else Inr x)"

definition required_strings :: "string list \<Rightarrow> string \<Rightarrow> string list result" where
  \<comment> \<open>an empty array passes, whatever the message says\<close>
  "required_strings v field =
     (if list_ex (\<lambda>x. trim x = []) v then Inl (Error (field @ '' must be a non-empty string array''))
      else Inr v)"

definition severity_rank :: "string \<Rightarrow> int" where
  "severity_rank s = (if s \<in> set severities then int (index_of s severities) else -1)"

definition highest_severity :: "failure_signal list \<Rightarrow> string" where
  "highest_severity xs =
     fold (\<lambda>x cur. if severity_rank cur < severity_rank (sig_severity x) then sig_severity x else cur) xs ''low''"

definition by_id :: "('a \<Rightarrow> string) \<Rightarrow> 'a list \<Rightarrow> 'a list" where
  "by_id key xs = sort_by (\<lambda>l r. locale_compare (key l) (key r)) xs"

definition sort_strings :: "string list \<Rightarrow> string list" where
  \<comment> \<open>\<open>sort()\<close> without a comparator, by character codes\<close>
  "sort_strings xs = sort_by lex_cmp xs"

definition default_candidate_type :: "string \<Rightarrow> string" where
  "default_candidate_type kind =
     (if kind = ''instruction'' then ''update_instruction''
      else if kind = ''harness'' then ''update_harness'' else ''update_skill'')"

definition default_change_type :: "string \<Rightarrow> string" where
  "default_change_type ty =
     (if ty = ''update_instruction'' then ''instruction_update''
      else if ty = ''add_eval_requirement'' then ''eval_requirement''
      else ''patch'')"

text \<open>The id, name and version of a reference \<open>name@version\<close>.\<close>

definition parse_target_ref :: "string option \<Rightarrow> string \<Rightarrow> string \<times> string \<times> string" where
  "parse_target_ref ref kind =
     (if \<not> truthy_str ref then (kind @ ''_unknown'', ''unknown-'' @ kind, ''0.0.0'')
      else
        (let parts = split_on CHR ''@'' (the ref);
             name = (if hd parts \<noteq> [] then hd parts else ''unknown-'' @ kind);
             version = (case tl parts of [] \<Rightarrow> ''0.0.0'' | v # _ \<Rightarrow> if v \<noteq> [] then v else ''0.0.0'')
         in (kind @ ''_'' @ slugify name, name, version)))"

definition stable_cluster_id :: "string \<Rightarrow> string \<Rightarrow> string option \<Rightarrow> string" where
  "stable_cluster_id category kind ref =
     ''cluster_'' @ slugify (category @ ''-'' @ kind @ ''-'' @ opt_default ref ''none'')"

definition stable_analysis_id :: "string \<Rightarrow> string" where
  "stable_analysis_id i = ''analysis_'' @ slugify i"

definition stable_candidate_id :: "string \<Rightarrow> string \<Rightarrow> string" where
  "stable_candidate_id i ty = ''candidate_'' @ slugify (i @ ''-'' @ ty)"

definition stable_proposal_id :: "string \<Rightarrow> string" where
  "stable_proposal_id i = ''proposal_'' @ slugify i"

definition stable_draft_change_id :: "string \<Rightarrow> string" where
  "stable_draft_change_id i = ''draft_change_'' @ slugify i"

definition stable_review_item_id :: "string \<Rightarrow> string" where
  "stable_review_item_id i = ''proposal_review_'' @ slugify i"

definition governance_event_id :: "string \<Rightarrow> string option \<Rightarrow> time \<Rightarrow> string" where
  "governance_event_id action proposal t =
     ''governance_event_'' @ slugify (action @ ''-'' @ opt_default proposal ''none'' @ ''-'' @ iso_string t)"

subsection \<open>What a failure points at\<close>

definition target_kind_for_cluster :: "failure_cluster \<Rightarrow> string" where
  "target_kind_for_cluster c =
     (if clu_category c = ''instruction_checksum_mismatch'' then ''instruction''
      else if clu_category c = ''harness_runtime_failure'' then ''harness''
      else if clu_category c = ''conflict_risk_repeated'' then ''skill''
      else if clu_target_kind c \<in> {''skill'', ''harness'', ''instruction''} then clu_target_kind c
      else ''skill'')"

definition target_ref_for_cluster :: "failure_cluster \<Rightarrow> string \<Rightarrow> string option" where
  "target_ref_for_cluster c kind =
     (if clu_category c = ''conflict_risk_repeated'' then Some ''conflict-risk-reviewer@1.0.0''
      else if truthy_str (clu_target_ref c) then clu_target_ref c
      else if clu_category c = ''cost_spike'' then Some ''model-routing@0.0.0''
      else Some (kind @ ''-unknown@0.0.0''))"

definition candidate_type_for_cluster :: "failure_cluster \<Rightarrow> string \<Rightarrow> string" where
  "candidate_type_for_cluster c kind =
     (if clu_category c = ''instruction_checksum_mismatch'' then ''update_instruction''
      else if clu_category c = ''repeated_eval_failed'' \<and> kind = ''skill'' then ''update_skill''
      else if clu_category c = ''harness_runtime_failure'' then ''update_harness''
      else if clu_category c = ''registry_resolution_warning''
      then (if kind = ''instruction'' then ''update_instruction'' else ''adjust_resolver'')
      else if clu_category c = ''conflict_risk_repeated'' then ''update_skill''
      else if clu_category c = ''cost_spike'' then ''adjust_resolver''
      else default_candidate_type kind)"

definition change_type_for_candidate :: "candidate \<Rightarrow> failure_cluster option \<Rightarrow> string" where
  "change_type_for_candidate k c =
     (let category = map_option clu_category c in
      if category = Some ''repeated_eval_failed'' \<and> cand_target_kind k = ''skill'' then ''new_version''
      else if category = Some ''cost_spike'' then ''status_change''
      else if cand_type k = ''update_instruction'' then ''instruction_update''
      else if cand_type k = ''add_eval_requirement'' then ''eval_requirement''
      else if cand_type k = ''update_skill'' \<and> category = Some ''conflict_risk_repeated'' then ''patch''
      else default_change_type (cand_type k))"

definition draft_change_type :: "proposal \<Rightarrow> string" where
  "draft_change_type p =
     (if prp_change_type p = ''status_change'' then ''metadata_update'' else prp_change_type p)"

definition int_string :: "int \<Rightarrow> string" where
  "int_string n = num_to_string (of_int n)"

definition bump_patch_version :: "string \<Rightarrow> string" where
  "bump_patch_version v =
     (case map parse_int (split_on CHR ''.'' v) of
        Some a # Some b # Some c # _ \<Rightarrow> int_string a @ ''.'' @ int_string b @ ''.'' @ int_string (c + 1)
      | _ \<Rightarrow> v @ ''-draft'')"

section \<open>Constructors\<close>

definition in_vocabulary :: "string \<Rightarrow> string list \<Rightarrow> string \<Rightarrow> unit result" where
  "in_vocabulary v allowed message = (if v \<in> set allowed then Inr () else Inl (Error message))"

definition target_kind_message :: string where
  "target_kind_message = ''targetKind must be skill, harness, or instruction''"

definition create_default_safety_policy :: "time \<Rightarrow> safety_policy" where
  "create_default_safety_policy now =
     \<lparr>sfp_id = ''policy_auto_improvement_default'', sfp_name = ''Default mock auto-improvement safety policy'',
      sfp_enabled = True, sfp_target_kinds = [''skill'', ''harness'', ''instruction''], sfp_auto_apply = False,
      sfp_human_approval = True, sfp_eval_passed = True, sfp_canary = True, sfp_max_changes = 1,
      sfp_blocked_scopes = Some [], sfp_created_at = now, sfp_updated_at = now\<rparr>"

text \<open>The optional id, dates and metadata of an input; an absent one is filled in.\<close>

record signal_input =
  sgi_id :: "string option"
  sgi_source_type :: string
  sgi_source_id :: string
  sgi_task_id :: "string option"
  sgi_run_id :: "string option"
  sgi_target_kind :: string
  sgi_target_ref :: "string option"
  sgi_severity :: string
  sgi_category :: string
  sgi_summary :: string
  sgi_details :: "string option"
  sgi_observed_at :: "time option"
  sgi_metadata :: "jsobj option"

definition create_failure_signal :: "draws \<Rightarrow> signal_input \<Rightarrow> failure_signal result" where
  "create_failure_signal s i =
     bind_result (in_vocabulary (sgi_source_type i) source_types
       ''sourceType must be task_run, conflict_manager, registry_resolver, test_result, usage_ledger, or manual'') (\<lambda>_.
     bind_result (in_vocabulary (sgi_target_kind i) signal_target_kinds
       ''targetKind must be skill, harness, instruction, model, conflict_manager, or unknown'') (\<lambda>_.
     bind_result (in_vocabulary (sgi_severity i) severities ''severity must be low, medium, high, or critical'') (\<lambda>_.
     bind_result (required_string (Some (sgi_source_id i)) ''sourceId'') (\<lambda>source_id.
     bind_result (required_string (Some (sgi_category i)) ''category'') (\<lambda>category.
     bind_result (required_string (Some (sgi_summary i)) ''summary'') (\<lambda>summary.
       Inr \<lparr>sig_id = opt_default (sgi_id i) (fresh_id ''failure_signal'' 0 s),
         sig_source_type = sgi_source_type i, sig_source_id = source_id, sig_task_id = sgi_task_id i,
         sig_run_id = sgi_run_id i, sig_target_kind = sgi_target_kind i, sig_target_ref = sgi_target_ref i,
         sig_severity = sgi_severity i, sig_category = category, sig_summary = summary,
         sig_details = sgi_details i, sig_observed_at = opt_default (sgi_observed_at i) (clock 1 s),
         sig_metadata = opt_default (sgi_metadata i) []\<rparr>))))))"

record requirement_input =
  rqi_id :: "string option"
  rqi_target_kind :: string
  rqi_target_id :: "string option"
  rqi_name :: string
  rqi_type :: string
  rqi_required_status :: string
  rqi_description :: string
  rqi_blocking :: bool
  rqi_created_at :: "time option"

definition create_eval_requirement :: "draws \<Rightarrow> requirement_input \<Rightarrow> eval_requirement result" where
  "create_eval_requirement s i =
     bind_result (in_vocabulary (rqi_target_kind i) improvement_target_kinds target_kind_message) (\<lambda>_.
     bind_result (in_vocabulary (rqi_type i) eval_requirement_types
       ''requirementType must be unit_test, integration_test, golden_case, manual_review, or mock_eval'') (\<lambda>_.
     bind_result (in_vocabulary (rqi_required_status i) eval_required_statuses
       ''requiredStatus must be passed or approved'') (\<lambda>_.
     bind_result (required_string (Some (rqi_name i)) ''requirementName'') (\<lambda>name.
     bind_result (required_string (Some (rqi_description i)) ''description'') (\<lambda>desc.
       Inr \<lparr>evq_id = opt_default (rqi_id i) (fresh_id ''eval_requirement'' 0 s),
         evq_target_kind = rqi_target_kind i, evq_target_id = rqi_target_id i, evq_name = name,
         evq_type = rqi_type i, evq_required_status = rqi_required_status i, evq_description = desc,
         evq_blocking = rqi_blocking i, evq_created_at = opt_default (rqi_created_at i) (clock 1 s)\<rparr>)))))"

definition validate_canary_stage :: "canary_stage \<Rightarrow> unit result" where
  "validate_canary_stage g =
     bind_result (required_string (Some (cst_name g)) ''stage.name'') (\<lambda>_.
     bind_result (required_string (Some (cst_scope g)) ''stage.scope'') (\<lambda>_.
     bind_result (required_strings (cst_success g) ''stage.successCriteria'') (\<lambda>_.
     bind_result (required_strings (cst_rollback g) ''stage.rollbackCriteria'') (\<lambda>_.
       (case cst_percentage g of
          Some p \<Rightarrow> if p < 0 \<or> 100 < p then Inl (Error ''stage.percentage must be between 0 and 100'') else Inr ()
        | None \<Rightarrow> Inr ())))))"

fun validate_stages_loop :: "canary_stage list \<Rightarrow> unit result" where
  "validate_stages_loop [] = Inr ()"
| "validate_stages_loop (g # gs) = bind_result (validate_canary_stage g) (\<lambda>_. validate_stages_loop gs)"

definition validate_canary_stages :: "canary_stage list \<Rightarrow> unit result" where
  "validate_canary_stages gs =
     (if gs = [] then Inl (Error ''stages must include at least one canary stage'')
      else validate_stages_loop gs)"

record plan_input =
  pli_id :: "string option"
  pli_proposal_id :: string
  pli_target_kind :: string
  pli_target_id :: string
  pli_stages :: "canary_stage list"
  pli_status :: "string option"
  pli_created_at :: "time option"
  pli_updated_at :: "time option"

definition create_canary_plan :: "draws \<Rightarrow> plan_input \<Rightarrow> canary_plan result" where
  "create_canary_plan s i =
     bind_result (in_vocabulary (pli_target_kind i) improvement_target_kinds target_kind_message) (\<lambda>_.
     bind_result (in_vocabulary (opt_default (pli_status i) ''draft'') canary_statuses
       ''status must be draft, ready, running, paused, completed, or failed'') (\<lambda>_.
     bind_result (validate_canary_stages (pli_stages i)) (\<lambda>_.
     bind_result (required_string (Some (pli_proposal_id i)) ''proposalId'') (\<lambda>proposal_id.
     bind_result (required_string (Some (pli_target_id i)) ''targetId'') (\<lambda>target_id.
       Inr \<lparr>cpl_id = opt_default (pli_id i) (fresh_id ''canary_plan'' 0 s), cpl_proposal_id = proposal_id,
         cpl_target_kind = pli_target_kind i, cpl_target_id = target_id, cpl_stages = pli_stages i,
         cpl_status = opt_default (pli_status i) ''draft'',
         cpl_created_at = opt_default (pli_created_at i) (clock 1 s),
         cpl_updated_at = opt_default (pli_updated_at i) (clock 1 s)\<rparr>)))))"

record draft_input =
  dri_id :: "string option"
  dri_proposal_id :: string
  dri_target_kind :: string
  dri_target_id :: string
  dri_target_name :: string
  dri_target_version :: string
  dri_change_type :: string
  dri_payload :: jsobj
  dri_status :: "string option"
  dri_created_at :: "time option"
  dri_updated_at :: "time option"

definition create_draft_change :: "draws \<Rightarrow> draft_input \<Rightarrow> draft_change result" where
  "create_draft_change s i =
     bind_result (in_vocabulary (dri_target_kind i) improvement_target_kinds target_kind_message) (\<lambda>_.
     bind_result (in_vocabulary (dri_change_type i) draft_change_types ''changeType is invalid'') (\<lambda>_.
     bind_result (in_vocabulary (opt_default (dri_status i) ''draft'') draft_change_statuses
       ''status must be draft, awaiting_review, rejected, or superseded'') (\<lambda>_.
     bind_result (required_string (Some (dri_proposal_id i)) ''proposalId'') (\<lambda>proposal_id.
     bind_result (required_string (Some (dri_target_id i)) ''targetId'') (\<lambda>target_id.
     bind_result (required_string (Some (dri_target_name i)) ''targetName'') (\<lambda>target_name.
     bind_result (required_string (Some (dri_target_version i)) ''targetVersion'') (\<lambda>version.
       Inr \<lparr>drc_id = opt_default (dri_id i) (fresh_id ''draft_registry_change'' 0 s),
         drc_proposal_id = proposal_id, drc_target_kind = dri_target_kind i, drc_target_id = target_id,
         drc_target_name = target_name, drc_target_version = version, drc_change_type = dri_change_type i,
         drc_payload = dri_payload i, drc_status = opt_default (dri_status i) ''draft'',
         drc_created_at = opt_default (dri_created_at i) (clock 1 s),
         drc_updated_at = opt_default (dri_updated_at i) (clock 1 s)\<rparr>)))))))"

record decision_input =
  gdi_proposal_id :: string
  gdi_actor_id :: "string option"
  gdi_decision :: string
  gdi_reason :: string
  gdi_created_at :: "time option"

definition create_governance_decision :: "draws \<Rightarrow> decision_input \<Rightarrow> governance_decision result" where
  "create_governance_decision s i =
     bind_result (in_vocabulary (gdi_decision i) governance_decisions ''decision is invalid'') (\<lambda>_.
     bind_result (required_string (Some (gdi_proposal_id i)) ''proposalId'') (\<lambda>proposal_id.
     bind_result (required_string (Some (gdi_reason i)) ''reason'') (\<lambda>reason.
       Inr \<lparr>gvd_id = fresh_id ''proposal_decision'' 0 s, gvd_proposal_id = proposal_id,
         gvd_actor_id = opt_default (gdi_actor_id i) ''mock-admin'', gvd_decision = gdi_decision i,
         gvd_reason = reason, gvd_created_at = opt_default (gdi_created_at i) (clock 1 s)\<rparr>)))"

record eval_run_input =
  eri_id :: "string option"
  eri_proposal_id :: string
  eri_requirement_id :: string
  eri_status :: string
  eri_summary :: string
  eri_score :: "num option"
  eri_max_score :: "num option"
  eri_attached_by :: "string option"
  eri_attached_at :: "time option"
  eri_metadata :: "jsobj option"

definition create_proposal_eval_run :: "draws \<Rightarrow> eval_run_input \<Rightarrow> proposal_eval_run result" where
  "create_proposal_eval_run s i =
     bind_result (in_vocabulary (eri_status i) eval_run_statuses
       ''status must be pending, passed, failed, or skipped'') (\<lambda>_.
     bind_result (required_string (Some (eri_proposal_id i)) ''proposalId'') (\<lambda>proposal_id.
     bind_result (required_string (Some (eri_requirement_id i)) ''evalRequirementId'') (\<lambda>requirement_id.
     bind_result (required_string (Some (eri_summary i)) ''summary'') (\<lambda>summary.
       Inr \<lparr>evr_id = opt_default (eri_id i) (fresh_id ''proposal_eval_run'' 0 s),
         evr_proposal_id = proposal_id, evr_requirement_id = requirement_id, evr_status = eri_status i,
         evr_summary = summary, evr_score = eri_score i, evr_max_score = eri_max_score i,
         evr_attached_by = opt_default (eri_attached_by i) ''mock-admin'',
         evr_attached_at = opt_default (eri_attached_at i) (clock 1 s), evr_metadata = eri_metadata i\<rparr>))))"

definition create_governance_event ::
  "draws \<Rightarrow> string \<Rightarrow> string \<Rightarrow> string \<Rightarrow> string \<Rightarrow> jsobj option \<Rightarrow> governance_event result" where
  \<comment> \<open>action, proposal, actor and message; no caller gives an id or a date\<close>
  "create_governance_event s action proposal actor_id message meta =
     bind_result (in_vocabulary action governance_actions ''governance audit action is invalid'') (\<lambda>_.
     bind_result (required_string (Some message) ''message'') (\<lambda>msg.
       Inr \<lparr>gve_id = governance_event_id action (Some proposal) (clock 0 s), gve_action = action,
         gve_proposal_id = Some proposal, gve_draft_id = None, gve_actor_id = actor_id, gve_message = msg,
         gve_metadata = meta, gve_created_at = clock 0 s\<rparr>))"

end
