(* ===== verification/ImprovementService.thy ===== *)
theory ImprovementService
  imports ImprovementModel
begin

text \<open>
  The services of the improvement loop, \<open>packages/improvement/src/index.ts\<close>, over the in-memory
  repository: signals and their clustering, candidates, proposals, eval requirements, canary plans,
  safety policies, draft registry changes, governance decisions, eval runs, canary readiness, the
  apply gate and the mock engine.  The services are given one policy service, whose engine is a
  parameter.
\<close>

section \<open>The repository\<close>

record improvement_state =
  im_signals :: "failure_signal list"
  im_clusters :: "failure_cluster list"
  im_candidates :: "candidate list"
  im_proposals :: "proposal list"
  im_requirements :: "eval_requirement list"
  im_plans :: "canary_plan list"
  im_policies :: "safety_policy list"
  im_analyses :: "analysis list"
  im_drafts :: "draft_change list"
  im_readiness :: "readiness list"
  im_decisions :: "governance_decision list"
  im_runs :: "proposal_eval_run list"
  im_canary :: "canary_readiness list"
  im_gates :: "apply_gate list"
  im_audit :: "governance_event list"
  im_policy :: policy_service

definition new_improvement :: "draws \<Rightarrow> policy_service \<Rightarrow> improvement_state" where
  "new_improvement s p =
     \<lparr>im_signals = [], im_clusters = [], im_candidates = [], im_proposals = [], im_requirements = [],
      im_plans = [], im_policies = [create_default_safety_policy (clock 0 s)], im_analyses = [],
      im_drafts = [], im_readiness = [], im_decisions = [], im_runs = [], im_canary = [], im_gates = [],
      im_audit = [], im_policy = p\<rparr>"

type_synonym 'a improvement_op = "(improvement_state, 'a) op"

text \<open>A constructor that may throw, as an operation.\<close>

definition op_result :: "'a result \<Rightarrow> ('s, 'a) op" where
  "op_result r st = (r, st)"

text \<open>The update of the first entry with an id: thrown when there is none, dated otherwise.\<close>

definition update_entry ::
  "(improvement_state \<Rightarrow> 'a list) \<Rightarrow> ('a list \<Rightarrow> improvement_state \<Rightarrow> improvement_state) \<Rightarrow> ('a \<Rightarrow> string) \<Rightarrow>
   string \<Rightarrow> string \<Rightarrow> ('a \<Rightarrow> 'a) \<Rightarrow> 'a improvement_op" where
  "update_entry get put key missing i f st =
     (case find_by key i (get st) of
        None \<Rightarrow> (Inl (Error (missing @ i)), st)
      | Some x \<Rightarrow> (Inr (f x), put (update_by key i f (get st)) st))"

definition create_signal_row :: "failure_signal \<Rightarrow> improvement_state \<Rightarrow> improvement_state" where
  "create_signal_row x st = st\<lparr>im_signals := im_signals st @ [x]\<rparr>"

definition list_failure_signals :: "improvement_state \<Rightarrow> failure_signal list" where
  "list_failure_signals st = by_id sig_id (im_signals st)"

definition get_failure_signal :: "string \<Rightarrow> improvement_state \<Rightarrow> failure_signal option" where
  "get_failure_signal i st = find_by sig_id i (im_signals st)"

definition upsert_failure_cluster :: "failure_cluster \<Rightarrow> improvement_state \<Rightarrow> improvement_state" where
  "upsert_failure_cluster c st = st\<lparr>im_clusters := upsert_by clu_id c (im_clusters st)\<rparr>"

definition list_failure_clusters :: "improvement_state \<Rightarrow> failure_cluster list" where
  "list_failure_clusters st = by_id clu_id (im_clusters st)"

definition get_failure_cluster :: "string \<Rightarrow> improvement_state \<Rightarrow> failure_cluster option" where
  "get_failure_cluster i st = find_by clu_id i (im_clusters st)"

definition update_failure_cluster :: "draws \<Rightarrow> string \<Rightarrow> string \<Rightarrow> failure_cluster improvement_op" where
  \<comment> \<open>the status of a cluster is all that is ever patched\<close>
  "update_failure_cluster s i status =
     update_entry im_clusters (\<lambda>xs st. st\<lparr>im_clusters := xs\<rparr>) clu_id ''Failure cluster not found: '' i
       (\<lambda>c. c\<lparr>clu_status := status, clu_updated_at := clock 0 s\<rparr>)"

definition create_candidate_row :: "candidate \<Rightarrow> improvement_state \<Rightarrow> improvement_state" where
  "create_candidate_row x st = st\<lparr>im_candidates := im_candidates st @ [x]\<rparr>"

definition list_candidates :: "improvement_state \<Rightarrow> candidate list" where
  "list_candidates st = by_id cand_id (im_candidates st)"

definition get_candidate :: "string \<Rightarrow> improvement_state \<Rightarrow> candidate option" where
  "get_candidate i st = find_by cand_id i (im_candidates st)"

definition update_candidate :: "draws \<Rightarrow> string \<Rightarrow> string \<Rightarrow> candidate improvement_op" where
  "update_candidate s i status =
     update_entry im_candidates (\<lambda>xs st. st\<lparr>im_candidates := xs\<rparr>) cand_id ''Improvement candidate not found: '' i
       (\<lambda>c. c\<lparr>cand_status := status, cand_updated_at := clock 0 s\<rparr>)"

definition create_proposal_row :: "proposal \<Rightarrow> improvement_state \<Rightarrow> improvement_state" where
  "create_proposal_row x st = st\<lparr>im_proposals := im_proposals st @ [x]\<rparr>"

definition list_proposals :: "improvement_state \<Rightarrow> proposal list" where
  "list_proposals st = by_id prp_id (im_proposals st)"

definition get_proposal :: "string \<Rightarrow> improvement_state \<Rightarrow> proposal option" where
  "get_proposal i st = find_by prp_id i (im_proposals st)"

definition update_proposal :: "draws \<Rightarrow> string \<Rightarrow> string \<Rightarrow> proposal improvement_op" where
  "update_proposal s i status =
     update_entry im_proposals (\<lambda>xs st. st\<lparr>im_proposals := xs\<rparr>) prp_id ''Improvement proposal not found: '' i
       (\<lambda>p. p\<lparr>prp_status := status, prp_updated_at := clock 0 s\<rparr>)"

definition create_requirement_row :: "eval_requirement \<Rightarrow> improvement_state \<Rightarrow> improvement_state" where
  "create_requirement_row x st = st\<lparr>im_requirements := im_requirements st @ [x]\<rparr>"

definition list_eval_requirements :: "improvement_state \<Rightarrow> eval_requirement list" where
  "list_eval_requirements st = by_id evq_id (im_requirements st)"

definition get_eval_requirement :: "string \<Rightarrow> improvement_state \<Rightarrow> eval_requirement option" where
  "get_eval_requirement i st = find_by evq_id i (im_requirements st)"

definition create_plan_row :: "canary_plan \<Rightarrow> improvement_state \<Rightarrow> improvement_state" where
  "create_plan_row x st = st\<lparr>im_plans := im_plans st @ [x]\<rparr>"

definition list_canary_plans :: "improvement_state \<Rightarrow> canary_plan list" where
  "list_canary_plans st = by_id cpl_id (im_plans st)"

definition get_canary_plan :: "string \<Rightarrow> improvement_state \<Rightarrow> canary_plan option" where
  "get_canary_plan i st = find_by cpl_id i (im_plans st)"

definition list_safety_policies :: "improvement_state \<Rightarrow> safety_policy list" where
  "list_safety_policies st = by_id sfp_id (im_policies st)"

definition get_safety_policy :: "string \<Rightarrow> improvement_state \<Rightarrow> safety_policy option" where
  "get_safety_policy i st = find_by sfp_id i (im_policies st)"

definition upsert_safety_policy :: "safety_policy \<Rightarrow> improvement_state \<Rightarrow> improvement_state" where
  "upsert_safety_policy p st = st\<lparr>im_policies := upsert_by sfp_id p (im_policies st)\<rparr>"

definition create_analysis_row :: "analysis \<Rightarrow> improvement_state \<Rightarrow> improvement_state" where
  "create_analysis_row a st = st\<lparr>im_analyses := upsert_by ana_id a (im_analyses st)\<rparr>"

definition list_analyses :: "improvement_state \<Rightarrow> analysis list" where
  "list_analyses st = by_id ana_id (im_analyses st)"

definition get_analysis :: "string \<Rightarrow> improvement_state \<Rightarrow> analysis option" where
  "get_analysis i st = find_by ana_id i (im_analyses st)"

definition get_analysis_for_cluster :: "string \<Rightarrow> improvement_state \<Rightarrow> analysis option" where
  "get_analysis_for_cluster i st = find_by ana_cluster_id i (im_analyses st)"

definition create_draft_row :: "draft_change \<Rightarrow> improvement_state \<Rightarrow> improvement_state" where
  "create_draft_row d st = st\<lparr>im_drafts := upsert_by drc_id d (im_drafts st)\<rparr>"

definition list_draft_changes :: "improvement_state \<Rightarrow> draft_change list" where
  "list_draft_changes st = by_id drc_id (im_drafts st)"

definition get_draft_change :: "string \<Rightarrow> improvement_state \<Rightarrow> draft_change option" where
  "get_draft_change i st = find_by drc_id i (im_drafts st)"

definition get_draft_for_proposal :: "string \<Rightarrow> improvement_state \<Rightarrow> draft_change option" where
  "get_draft_for_proposal i st = find_by drc_proposal_id i (im_drafts st)"

definition update_draft_change :: "draws \<Rightarrow> string \<Rightarrow> string \<Rightarrow> draft_change improvement_op" where
  "update_draft_change s i status =
     update_entry im_drafts (\<lambda>xs st. st\<lparr>im_drafts := xs\<rparr>) drc_id ''Draft registry change not found: '' i
       (\<lambda>d. d\<lparr>drc_status := status, drc_updated_at := clock 0 s\<rparr>)"

definition upsert_readiness :: "readiness \<Rightarrow> improvement_state \<Rightarrow> improvement_state" where
  "upsert_readiness r st = st\<lparr>im_readiness := upsert_by rdy_proposal_id r (im_readiness st)\<rparr>"

definition list_readiness :: "improvement_state \<Rightarrow> readiness list" where
  "list_readiness st = by_id rdy_proposal_id (im_readiness st)"

definition get_readiness :: "string \<Rightarrow> improvement_state \<Rightarrow> readiness option" where
  "get_readiness i st = find_by rdy_proposal_id i (im_readiness st)"

definition create_decision_row :: "governance_decision \<Rightarrow> improvement_state \<Rightarrow> improvement_state" where
  "create_decision_row d st = st\<lparr>im_decisions := im_decisions st @ [d]\<rparr>"

text \<open>Listings in the order of time, equal times by id.\<close>

definition oldest_first :: "('a \<Rightarrow> time) \<Rightarrow> ('a \<Rightarrow> string) \<Rightarrow> 'a list \<Rightarrow> 'a list" where
  "oldest_first date key xs =
     sort_by (cmp_or (\<lambda>l r. num_cmp (date l) (date r)) (\<lambda>l r. locale_compare (key l) (key r))) xs"

definition list_decisions_for :: "string option \<Rightarrow> improvement_state \<Rightarrow> governance_decision list" where
  "list_decisions_for proposal st = oldest_first gvd_created_at gvd_id
     (filter (\<lambda>d. proposal = None \<or> Some (gvd_proposal_id d) = proposal) (im_decisions st))"

definition create_run_row :: "proposal_eval_run \<Rightarrow> improvement_state \<Rightarrow> improvement_state" where
  "create_run_row r st = st\<lparr>im_runs := im_runs st @ [r]\<rparr>"

definition list_runs_for :: "string option \<Rightarrow> improvement_state \<Rightarrow> proposal_eval_run list" where
  "list_runs_for proposal st = oldest_first evr_attached_at evr_id
     (filter (\<lambda>r. proposal = None \<or> Some (evr_proposal_id r) = proposal) (im_runs st))"

definition upsert_canary_readiness :: "canary_readiness \<Rightarrow> improvement_state \<Rightarrow> improvement_state" where
  "upsert_canary_readiness r st = st\<lparr>im_canary := upsert_by cry_proposal_id r (im_canary st)\<rparr>"

definition get_canary_readiness :: "string \<Rightarrow> improvement_state \<Rightarrow> canary_readiness option" where
  "get_canary_readiness i st = find_by cry_proposal_id i (im_canary st)"

definition list_canary_readiness :: "improvement_state \<Rightarrow> canary_readiness list" where
  "list_canary_readiness st = by_id cry_proposal_id (im_canary st)"

definition upsert_apply_gate :: "apply_gate \<Rightarrow> improvement_state \<Rightarrow> improvement_state" where
  "upsert_apply_gate g st = st\<lparr>im_gates := upsert_by apg_proposal_id g (im_gates st)\<rparr>"

definition get_apply_gate :: "string \<Rightarrow> improvement_state \<Rightarrow> apply_gate option" where
  "get_apply_gate i st = find_by apg_proposal_id i (im_gates st)"

definition list_apply_gates :: "improvement_state \<Rightarrow> apply_gate list" where
  "list_apply_gates st = by_id apg_proposal_id (im_gates st)"

definition append_governance_row :: "governance_event \<Rightarrow> improvement_state \<Rightarrow> improvement_state" where
  "append_governance_row e st = st\<lparr>im_audit := im_audit st @ [e]\<rparr>"

definition list_governance_events :: "string option \<Rightarrow> improvement_state \<Rightarrow> governance_event list" where
  "list_governance_events proposal st = oldest_first gve_created_at gve_id
     (filter (\<lambda>e. proposal = None \<or> gve_proposal_id e = proposal) (im_audit st))"

interpretation clusters: keyed_repository clu_id get_failure_cluster upsert_failure_cluster
  by unfold_locales (auto simp: get_failure_cluster_def upsert_failure_cluster_def dest: find_by_Some)

interpretation safety_policies: keyed_repository sfp_id get_safety_policy upsert_safety_policy
  by unfold_locales (auto simp: get_safety_policy_def upsert_safety_policy_def dest: find_by_Some)

interpretation draft_changes: keyed_repository drc_id get_draft_change create_draft_row
  by unfold_locales (auto simp: get_draft_change_def create_draft_row_def dest: find_by_Some)

interpretation apply_gates: keyed_repository apg_proposal_id get_apply_gate upsert_apply_gate
  by unfold_locales (auto simp: get_apply_gate_def upsert_apply_gate_def dest: find_by_Some)

section \<open>Signals and clusters\<close>

definition create_signal :: "draws \<Rightarrow> signal_input \<Rightarrow> failure_signal improvement_op" where
  "create_signal s i =
     op_bind (op_result (create_failure_signal s i)) (\<lambda>x st. (Inr x, create_signal_row x st))"

definition group_key :: "failure_signal \<Rightarrow> string" where
  "group_key x = sig_category x @ ''|'' @ sig_target_kind x @ ''|'' @ opt_default (sig_target_ref x) []"

text \<open>The groups in the order of their first signal, each with its signals in order.\<close>

fun add_to_group ::
  "string \<Rightarrow> failure_signal \<Rightarrow> (string \<times> failure_signal list) list \<Rightarrow> (string \<times> failure_signal list) list" where
  "add_to_group k x [] = [(k, [x])]"
| "add_to_group k x ((k', xs) # gs) =
     (if k = k' then (k, xs @ [x]) # gs else (k', xs) # add_to_group k x gs)"

definition signal_groups :: "failure_signal list \<Rightarrow> (string \<times> failure_signal list) list" where
  "signal_groups xs = fold (\<lambda>x. add_to_group (group_key x) x) xs []"

definition cluster_of :: "draws \<Rightarrow> failure_signal list \<Rightarrow> improvement_state \<Rightarrow> failure_cluster" where
  "cluster_of s xs st =
     (let first = hd xs;
          i = stable_cluster_id (sig_category first) (sig_target_kind first) (sig_target_ref first);
          existing = get_failure_cluster i st;
          ref = sig_target_ref first
      in \<lparr>clu_id = i,
          clu_title = sig_category first @ '' affecting '' @ opt_default ref (sig_target_kind first),
          clu_category = sig_category first, clu_target_kind = sig_target_kind first, clu_target_ref = ref,
          clu_signal_ids = sort_strings (map sig_id xs), clu_severity = highest_severity xs,
          clu_status = opt_default (map_option clu_status existing) ''open'',
          clu_summary = nat_to_string (length xs) @ '' signal(s) grouped by '' @ sig_category first @ '', '' @
            sig_target_kind first @ '', and '' @ opt_default ref ''no target ref'' @ ''.'',
          clu_created_at = opt_default (map_option clu_created_at existing) (clock 0 s),
          clu_updated_at = clock 0 s\<rparr>)"

fun cluster_loop ::
  "draws \<Rightarrow> nat \<Rightarrow> failure_signal list list \<Rightarrow> improvement_state \<Rightarrow> failure_cluster list \<times> improvement_state" where
  "cluster_loop s k [] st = ([], st)"
| "cluster_loop s k (g # gs) st =
     (let c = cluster_of (sub k s) g st; (cs, st') = cluster_loop s (Suc k) gs (upsert_failure_cluster c st)
      in (c # cs, st'))"

definition recompute_clusters ::
  "draws \<Rightarrow> improvement_state \<Rightarrow> failure_cluster list \<times> improvement_state" where
  "recompute_clusters s st =
     cluster_loop s 0
       (sort_by (\<lambda>l r. locale_compare (group_key (hd l)) (group_key (hd r)))
          (map snd (signal_groups (list_failure_signals st)))) st"

section \<open>Candidates and proposals\<close>

record candidate_input =
  cni_cluster_id :: string
  cni_target_kind :: "string option"
  cni_target_id :: "string option"
  cni_target_name :: "string option"
  cni_target_version :: "string option"
  cni_type :: "string option"
  cni_priority :: "string option"
  cni_summary :: "string option"
  cni_evidence :: "string list option"

definition priority_of_severity :: "string \<Rightarrow> string" where
  "priority_of_severity s =
     (if s = ''critical'' \<or> s = ''high'' then ''high'' else if s = ''medium'' then ''medium'' else ''low'')"

definition create_candidate_from_cluster :: "draws \<Rightarrow> candidate_input \<Rightarrow> candidate improvement_op" where
  "create_candidate_from_cluster s i st =
     (case get_failure_cluster (cni_cluster_id i) st of
        None \<Rightarrow> (Inl (Error (''Failure cluster not found: '' @ cni_cluster_id i)), st)
      | Some c \<Rightarrow>
          (let kind = opt_default (cni_target_kind i)
                 (if clu_target_kind c \<in> set improvement_target_kinds then clu_target_kind c else ''skill'');
               (tid, name, version) = parse_target_ref (clu_target_ref c) kind;
               ty = opt_default (cni_type i) (default_candidate_type kind);
               prio = opt_default (cni_priority i) (priority_of_severity (clu_severity c))
           in op_bind (op_result (in_vocabulary kind improvement_target_kinds target_kind_message)) (\<lambda>_.
              op_bind (op_result (in_vocabulary ty candidate_types ''candidateType is invalid'')) (\<lambda>_.
              op_bind (op_result (in_vocabulary prio priorities ''priority must be low, medium, or high'')) (\<lambda>_ st.
                (let x = \<lparr>cand_id = fresh_id ''improvement_candidate'' 0 s, cand_cluster_id = clu_id c,
                       cand_target_kind = kind, cand_target_id = opt_default (cni_target_id i) tid,
                       cand_target_name = opt_default (cni_target_name i) name,
                       cand_target_version = opt_default (cni_target_version i) version,
                       cand_type = ty, cand_priority = prio,
                       cand_summary = opt_default (cni_summary i)
                         (''Review '' @ kind @ '' '' @ name @ ''@'' @ version @ '' for '' @ clu_category c @ ''.''),
                       cand_evidence = opt_default (cni_evidence i) (clu_summary c # clu_signal_ids c),
                       cand_status = ''new'', cand_created_at = clock 1 s, cand_updated_at = clock 1 s\<rparr>
                 in (Inr x, create_candidate_row x st))))) st))"

definition triage_candidate :: "draws \<Rightarrow> string \<Rightarrow> string \<Rightarrow> candidate improvement_op" where
  "triage_candidate s i status =
     op_bind (op_result (in_vocabulary status candidate_statuses
       ''status must be new, triaged, proposal_requested, proposal_created, or dismissed''))
       (\<lambda>_. update_candidate s i status)"

definition is_candidate_proposable :: "candidate \<Rightarrow> bool" where
  "is_candidate_proposable c \<longleftrightarrow> cand_status c \<noteq> ''dismissed''"

record proposal_input =
  ppi_candidate_id :: string
  ppi_change_type :: "string option"
  ppi_patch :: "jsobj option"
  ppi_summary :: "string option"
  ppi_rationale :: "string option"
  ppi_safety_notes :: "string list option"
  ppi_created_by :: "string option"

text \<open>The candidate a proposal may be made from.\<close>

definition proposable_candidate :: "string \<Rightarrow> candidate improvement_op" where
  "proposable_candidate i st =
     (case get_candidate i st of
        None \<Rightarrow> (Inl (Error (''Improvement candidate not found: '' @ i)), st)
      | Some c \<Rightarrow>
          if \<not> is_candidate_proposable c then (Inl (Error ''Dismissed candidates cannot create proposals''), st)
          else (Inr c, st))"

definition create_draft_proposal :: "draws \<Rightarrow> proposal_input \<Rightarrow> proposal improvement_op" where
  "create_draft_proposal s i =
     op_bind (proposable_candidate (ppi_candidate_id i)) (\<lambda>c.
       (let ty = opt_default (ppi_change_type i) (default_change_type (cand_type c)) in
        op_bind (op_result (in_vocabulary ty proposal_change_types ''proposedChangeType is invalid'')) (\<lambda>_ st.
          (let p = \<lparr>prp_id = fresh_id ''improvement_proposal'' 0 s, prp_candidate_id = cand_id c,
                 prp_target_kind = cand_target_kind c, prp_target_id = cand_target_id c,
                 prp_target_name = cand_target_name c, prp_target_version = cand_target_version c,
                 prp_change_type = ty, prp_patch = ppi_patch i,
                 prp_summary = opt_default (ppi_summary i)
                   (''Draft-only '' @ ty @ '' proposal for '' @ cand_target_name c @ ''@'' @ cand_target_version c @ ''.''),
                 prp_rationale = opt_default (ppi_rationale i) (cand_summary c),
                 prp_safety_notes = opt_default (ppi_safety_notes i)
                   [''Phase 4 Preparation stores proposal metadata only.'',
                    ''No registry entry is mutated or activated by this proposal.''],
                 prp_status = ''draft'', prp_created_by = opt_default (ppi_created_by i) ''mock-admin'',
                 prp_created_at = clock 1 s, prp_updated_at = clock 1 s\<rparr>
           in op_bind (update_candidate (sub 2 s) (cand_id c) ''proposal_created'') (\<lambda>_. op_return p)
                (create_proposal_row p st)))))"

definition require_proposal :: "string \<Rightarrow> proposal improvement_op" where
  "require_proposal i st =
     (case get_proposal i st of
        None \<Rightarrow> (Inl (Error (''Improvement proposal not found: '' @ i)), st)
      | Some p \<Rightarrow> (Inr p, st))"

definition transition_proposal :: "draws \<Rightarrow> string \<Rightarrow> string \<Rightarrow> proposal improvement_op" where
  "transition_proposal s i status =
     op_bind (op_result (in_vocabulary status proposal_statuses ''status is invalid'')) (\<lambda>_.
       if status = ''applied''
       then op_throw (Error ''Applying proposals is out of scope for Phase 4 Preparation'')
       else op_bind (require_proposal i) (\<lambda>p.
         if status \<notin> set (proposal_transitions (prp_status p))
         then op_throw (Error (''Invalid proposal status transition: '' @ prp_status p @ '' -> '' @ status))
         else update_proposal s i status))"

section \<open>Requirements, plans, policies and draft changes\<close>

definition create_requirement :: "draws \<Rightarrow> requirement_input \<Rightarrow> eval_requirement improvement_op" where
  "create_requirement s i =
     op_bind (op_result (create_eval_requirement s i)) (\<lambda>x st. (Inr x, create_requirement_row x st))"

definition create_plan :: "draws \<Rightarrow> plan_input \<Rightarrow> canary_plan improvement_op" where
  "create_plan s i =
     op_bind (op_result (create_canary_plan s i)) (\<lambda>x st. (Inr x, create_plan_row x st))"

record safety_patch =
  sfx_name :: "string option"
  sfx_enabled :: "bool option"
  sfx_target_kinds :: "string list option"
  sfx_auto_apply :: "bool option"
  sfx_human_approval :: "bool option"
  sfx_eval_passed :: "bool option"
  sfx_canary :: "bool option"
  sfx_max_changes :: "num option"
  sfx_blocked_scopes :: "string list option"

definition patch_safety_policy :: "time \<Rightarrow> safety_patch \<Rightarrow> safety_policy \<Rightarrow> safety_policy" where
  "patch_safety_policy now x p = p\<lparr>
     sfp_name := opt_default (sfx_name x) (sfp_name p),
     sfp_enabled := opt_default (sfx_enabled x) (sfp_enabled p),
     sfp_target_kinds := opt_default (sfx_target_kinds x) (sfp_target_kinds p),
     sfp_auto_apply := opt_default (sfx_auto_apply x) (sfp_auto_apply p),
     sfp_human_approval := opt_default (sfx_human_approval x) (sfp_human_approval p),
     sfp_eval_passed := opt_default (sfx_eval_passed x) (sfp_eval_passed p),
     sfp_canary := opt_default (sfx_canary x) (sfp_canary p),
     sfp_max_changes := opt_default (sfx_max_changes x) (sfp_max_changes p),
     sfp_blocked_scopes := opt_or (sfx_blocked_scopes x) (sfp_blocked_scopes p),
     sfp_updated_at := now\<rparr>"

definition update_safety_policy :: "draws \<Rightarrow> string \<Rightarrow> safety_patch \<Rightarrow> safety_policy improvement_op" where
  "update_safety_policy s i x =
     (if sfx_auto_apply x = Some True
      then op_throw (Error ''Auto-apply is disabled during Phase 4 Preparation'')
      else if \<not> list_all (\<lambda>k. k \<in> set improvement_target_kinds) (opt_default (sfx_target_kinds x) [])
      then op_throw (Error ''allowedTargetKinds must contain only skill, harness, or instruction'')
      else if (case sfx_max_changes x of None \<Rightarrow> False | Some n \<Rightarrow> n < 1)
      then op_throw (Error ''maxChangesPerProposal must be at least 1'')
      else update_entry im_policies (\<lambda>xs st. st\<lparr>im_policies := xs\<rparr>) sfp_id
             ''Auto-improvement safety policy not found: '' i (patch_safety_policy (clock 0 s) x))"

definition create_draft :: "draws \<Rightarrow> draft_input \<Rightarrow> draft_change improvement_op" where
  "create_draft s i =
     op_bind (op_result (create_draft_change s i)) (\<lambda>x st. (Inr x, create_draft_row x st))"

definition transition_draft_change :: "draws \<Rightarrow> string \<Rightarrow> string \<Rightarrow> draft_change improvement_op" where
  "transition_draft_change s i status =
     op_bind (op_result (in_vocabulary status draft_change_statuses
       ''status must be draft, awaiting_review, rejected, or superseded'')) (\<lambda>_ st.
       (case get_draft_change i st of
          None \<Rightarrow> (Inl (Error (''Draft registry change not found: '' @ i)), st)
        | Some d \<Rightarrow>
            if status \<notin> set (draft_change_transitions (drc_status d))
            then (Inl (Error (''Invalid draft registry change status transition: '' @ drc_status d @ '' -> '' @ status)), st)
            else update_draft_change s i status st))"

section \<open>Readiness of a proposal\<close>

definition active_safety_policy :: "improvement_state \<Rightarrow> safety_policy result" where
  "active_safety_policy st =
     (let ps = list_safety_policies st in
      case List.find sfp_enabled ps of
        Some p \<Rightarrow> Inr p
      | None \<Rightarrow> (case ps of [] \<Rightarrow> Inl (Error ''Auto-improvement safety policy not found'') | p # _ \<Rightarrow> Inr p))"

definition required_eval_ids :: "proposal \<Rightarrow> improvement_state \<Rightarrow> string list" where
  "required_eval_ids p st =
     sort_strings (map evq_id (filter (\<lambda>r. evq_blocking r \<and> evq_target_kind r = prp_target_kind p \<and>
         (evq_target_id r = None \<or> evq_target_id r = Some (prp_target_id p))) (list_eval_requirements st)))"

definition latest_decision :: "string \<Rightarrow> improvement_state \<Rightarrow> governance_decision option" where
  "latest_decision i st =
     (let ds = list_decisions_for (Some i) st in if ds = [] then None else Some (last ds))"

definition eval_status_for_proposal :: "string \<Rightarrow> string list \<Rightarrow> improvement_state \<Rightarrow> string" where
  "eval_status_for_proposal i ids st =
     (if ids = [] then ''not_required''
      else
        (let runs = filter (\<lambda>r. evr_requirement_id r \<in> set ids) (list_runs_for (Some i) st)
         in if list_ex (\<lambda>r. evr_status r = ''failed'') runs then ''failed''
            else if list_all (\<lambda>j. list_ex (\<lambda>r. evr_requirement_id r = j \<and> evr_status r = ''passed'') runs) ids
            then ''passed'' else ''pending''))"

definition canary_ready_for_proposal :: "string \<Rightarrow> improvement_state \<Rightarrow> bool" where
  "canary_ready_for_proposal i st \<longleftrightarrow>
     list_ex (\<lambda>c. cpl_proposal_id c = i \<and> cpl_status c = ''ready'') (list_canary_plans st)"

definition closed_statuses :: "string list" where
  "closed_statuses = [''rejected'', ''archived'', ''applied'']"

definition open_statuses :: "string list" where
  "open_statuses = [''draft'', ''awaiting_review'', ''eval_required'']"

definition readiness_snapshot :: "draws \<Rightarrow> proposal \<Rightarrow> improvement_state \<Rightarrow> readiness result" where
  "readiness_snapshot s p st =
     bind_result (active_safety_policy st) (\<lambda>policy.
       (let ids = required_eval_ids p st;
            decision = map_option gvd_decision (latest_decision (prp_id p) st);
            evals = eval_status_for_proposal (prp_id p) ids st;
            canary = canary_ready_for_proposal (prp_id p) st;
            draft = map_option drc_status (get_draft_for_proposal (prp_id p) st);
            reason = (\<lambda>b r. if b then [r] else []);
            reasons =
              reason (sfp_human_approval policy \<and> decision \<noteq> Some ''approve'') ''human_approval_required'' @
              reason (sfp_eval_passed policy \<and> evals \<noteq> ''passed'') ''eval_pass_required'' @
              reason (sfp_canary policy \<and> \<not> canary) ''canary_required'' @
              reason (\<not> sfp_auto_apply policy) ''auto_apply_disabled'' @
              reason (draft \<in> {None, Some ''rejected'', Some ''superseded''}) ''draft_registry_change_required'' @
              reason (prp_status p \<in> set closed_statuses) (''proposal_status_'' @ prp_status p)
        in Inr \<lparr>rdy_proposal_id = prp_id p, rdy_for_review = (prp_status p \<in> set open_statuses),
             rdy_eval_ids = ids, rdy_approval = sfp_human_approval policy, rdy_canary = sfp_canary policy,
             rdy_blocking = reasons, rdy_policy_id = sfp_id policy, rdy_latest_decision = decision,
             rdy_eval_status = evals, rdy_canary_ready = canary, rdy_draft_status = draft,
             rdy_evaluated_at = clock 0 s\<rparr>))"

definition harmless_reasons :: "string list" where
  "harmless_reasons = [''auto_apply_disabled'', ''active_apply_not_implemented'']"

definition readiness_status :: "proposal \<Rightarrow> readiness \<Rightarrow> string" where
  "readiness_status p r =
     (if prp_status p \<in> set closed_statuses then ''closed''
      else if rdy_blocking r \<noteq> [] then
        (if list_all (\<lambda>x. x \<in> set harmless_reasons) (rdy_blocking r) then ''ready_for_review'' else ''blocked'')
      else if prp_status p = ''approved_for_canary'' then ''ready_for_canary''
      else ''ready_for_review'')"

definition recommended_action :: "readiness \<Rightarrow> string" where
  "recommended_action r =
     (if ''eval_pass_required'' \<in> set (rdy_blocking r) then ''attach_eval_result''
      else if ''canary_required'' \<in> set (rdy_blocking r) then ''prepare_canary_plan''
      else if rdy_latest_decision r = Some ''approve'' \<and> rdy_canary r then ''ready_for_canary_review''
      else if list_all (\<lambda>x. x \<in> set harmless_reasons) (rdy_blocking r) then ''review_proposal''
      else ''no_action'')"

section \<open>Governance\<close>

definition mock_improvement_subject :: "string option \<Rightarrow> policy_subject" where
  "mock_improvement_subject actor =
     (let a = opt_default actor ''mock-admin'';
          roles = (if str_includes a ''admin'' then [''registry_admin'']
            else if str_includes a ''reviewer'' then [''registry_reviewer'']
            else if starts_with a ''mock'' then [''system''] else [])
      in create_policy_subject (Some a) None (Some (if starts_with a ''mock'' then ''system'' else ''user''))
           (Some roles) None None None None None)"

definition improvement_request ::
  "string option \<Rightarrow> string \<Rightarrow> string \<Rightarrow> string option \<Rightarrow> jsobj \<Rightarrow> jsobj \<Rightarrow> policy_request" where
  "improvement_request actor action kind i meta ctx =
     \<lparr>req_subject = mock_improvement_subject actor, req_action = action,
      req_resource = create_policy_resource kind i (Some meta), req_context = create_policy_context None (Some ctx)\<rparr>"

definition improvement_policy ::
  "engine \<Rightarrow> draws \<Rightarrow> policy_request \<Rightarrow> improvement_state \<Rightarrow> policy_decision \<times> improvement_state" where
  "improvement_policy decide s req st =
     (let (d, p) = svc_evaluate decide s req (im_policy st) in (d, st\<lparr>im_policy := p\<rparr>))"

text \<open>A denied decision is thrown with its reason.\<close>

definition require_policy :: "engine \<Rightarrow> draws \<Rightarrow> policy_request \<Rightarrow> unit improvement_op" where
  "require_policy decide s req st =
     (let (d, st') = improvement_policy decide s req st
      in if dec_allowed d then (Inr (), st') else (Inl (Error (dec_reason d)), st'))"

definition append_governance_event ::
  "draws \<Rightarrow> string \<Rightarrow> string \<Rightarrow> string \<Rightarrow> string \<Rightarrow> jsobj option \<Rightarrow> unit improvement_op" where
  "append_governance_event s action proposal actor_id message meta =
     op_bind (op_result (create_governance_event s action proposal actor_id message meta))
       (\<lambda>e st. (Inr (), append_governance_row e st))"

definition status_for_decision :: "draws \<Rightarrow> proposal \<Rightarrow> string \<Rightarrow> improvement_state \<Rightarrow> string result" where
  "status_for_decision s p decision st =
     (if decision = ''reject'' then Inr ''rejected''
      else if decision = ''request_changes'' then Inr ''draft''
      else if decision = ''mark_eval_required'' then Inr ''eval_required''
      else if decision = ''mark_canary_required'' then Inr ''approved_for_canary''
      else if decision = ''archive'' then Inr ''archived''
      else if decision = ''approve'' then
        bind_result (readiness_snapshot s p st) (\<lambda>r.
          if rdy_eval_status r \<noteq> ''not_required'' \<and> rdy_eval_status r \<noteq> ''passed'' then Inr ''eval_required''
          else Inr (if rdy_canary r then ''approved_for_canary'' else ''awaiting_review''))
      else Inr (prp_status p))"

definition approval_request :: "string option \<Rightarrow> proposal \<Rightarrow> policy_request" where
  "approval_request actor p =
     improvement_request actor ''improvement.proposal.approve'' ''improvement_proposal'' (Some (prp_id p))
       [(''status'', JStr (prp_status p)), (''targetKind'', JStr (prp_target_kind p))]
       [(''source'', JStr ''improvement_governance''), (''decision'', JStr ''approve'')]"

text \<open>The audit of a decision: the decision itself and, for three kinds, its effect.\<close>

definition audit_decision :: "draws \<Rightarrow> proposal \<Rightarrow> governance_decision \<Rightarrow> unit improvement_op" where
  "audit_decision s p d =
     op_bind (append_governance_event (sub 0 s) ''proposal_decision_recorded'' (prp_id p) (gvd_actor_id d)
       (''Recorded '' @ gvd_decision d @ '' decision for '' @ prp_id p @ ''.'')
       (Some [(''decision'', JStr (gvd_decision d))])) (\<lambda>_.
     if gvd_decision d = ''approve''
     then append_governance_event (sub 1 s) ''proposal_approved'' (prp_id p) (gvd_actor_id d)
       (''Approved proposal '' @ prp_id p @ '' for the next governance gate.'') None
     else if gvd_decision d = ''reject''
     then append_governance_event (sub 2 s) ''proposal_rejected'' (prp_id p) (gvd_actor_id d)
       (''Rejected proposal '' @ prp_id p @ ''.'') None
     else if gvd_decision d = ''request_changes''
     then append_governance_event (sub 3 s) ''proposal_changes_requested'' (prp_id p) (gvd_actor_id d)
       (''Requested changes for proposal '' @ prp_id p @ ''.'') None
     else op_return ())"

definition record_decision :: "engine \<Rightarrow> draws \<Rightarrow> decision_input \<Rightarrow> governance_decision improvement_op" where
  "record_decision decide s i =
     op_bind (require_proposal (gdi_proposal_id i)) (\<lambda>p.
     op_bind (if gdi_decision i = ''approve''
              then require_policy decide (sub 0 s) (approval_request (gdi_actor_id i) p) else op_return ()) (\<lambda>_.
     op_bind (op_result (create_governance_decision (sub 1 s) i)) (\<lambda>d.
     op_bind (\<lambda>st. (Inr (), create_decision_row d st)) (\<lambda>_ st.
     op_bind (op_result (status_for_decision (sub 2 s) p (gvd_decision d) st)) (\<lambda>next_status.
     op_bind (if next_status \<noteq> prp_status p
              then op_bind (update_proposal (sub 3 s) (prp_id p) next_status) (\<lambda>_. op_return ())
              else op_return ()) (\<lambda>_.
     op_bind (audit_decision (sub 4 s) p d) (\<lambda>_. op_return d))) st))))"

definition list_decisions :: "string \<Rightarrow> governance_decision list improvement_op" where
  "list_decisions i = op_bind (require_proposal i) (\<lambda>_ st. (Inr (list_decisions_for (Some i) st), st))"

record review_filter =
  rvf_status :: "string option"
  rvf_target_kind :: "string option"
  rvf_action :: "string option"
  rvf_archived :: bool

definition review_item_for :: "draws \<Rightarrow> proposal \<Rightarrow> improvement_state \<Rightarrow> review_item result" where
  "review_item_for s p st =
     bind_result (readiness_snapshot s p st) (\<lambda>r.
       Inr \<lparr>rvi_id = stable_review_item_id (prp_id p), rvi_proposal_id = prp_id p,
         rvi_candidate_id = prp_candidate_id p, rvi_target_kind = prp_target_kind p,
         rvi_target_id = prp_target_id p, rvi_target_name = prp_target_name p,
         rvi_target_version = prp_target_version p, rvi_change_type = prp_change_type p,
         rvi_status = prp_status p, rvi_readiness = readiness_status p r, rvi_blocking = rdy_blocking r,
         rvi_eval_ids = rdy_eval_ids r, rvi_approval = rdy_approval r, rvi_canary = rdy_canary r,
         rvi_latest_decision = map_option gvd_decision (latest_decision (prp_id p) st),
         rvi_action = recommended_action r, rvi_created_at = prp_created_at p,
         rvi_updated_at = prp_updated_at p\<rparr>)"

fun review_items :: "draws \<Rightarrow> nat \<Rightarrow> proposal list \<Rightarrow> improvement_state \<Rightarrow> review_item list result" where
  "review_items s k [] st = Inr []"
| "review_items s k (p # ps) st =
     bind_result (review_item_for (sub k s) p st) (\<lambda>x.
     bind_result (review_items s (Suc k) ps st) (\<lambda>xs. Inr (x # xs)))"

definition in_review_queue :: "review_filter \<Rightarrow> proposal \<Rightarrow> bool" where
  "in_review_queue f p \<longleftrightarrow>
     (rvf_archived f \<or> prp_status p \<notin> set closed_statuses) \<and>
     (prp_status p \<in> set open_statuses \<or> rvf_archived f) \<and>
     (rvf_status f = None \<or> rvf_status f = Some (prp_status p)) \<and>
     (rvf_target_kind f = None \<or> rvf_target_kind f = Some (prp_target_kind p))"

definition list_review_queue :: "draws \<Rightarrow> review_filter \<Rightarrow> improvement_state \<Rightarrow> review_item list result" where
  "list_review_queue s f st =
     bind_result (review_items s 0 (filter (in_review_queue f) (list_proposals st)) st) (\<lambda>xs.
       Inr (oldest_first rvi_created_at rvi_proposal_id
         (filter (\<lambda>x. rvf_action f = None \<or> rvf_action f = Some (rvi_action x)) xs)))"

section \<open>Eval runs, canary readiness and the apply gate\<close>

definition attach_eval_run :: "draws \<Rightarrow> eval_run_input \<Rightarrow> proposal_eval_run improvement_op" where
  "attach_eval_run s i =
     op_bind (require_proposal (eri_proposal_id i)) (\<lambda>p st.
       (case get_eval_requirement (eri_requirement_id i) st of
          None \<Rightarrow> (Inl (Error (''Eval requirement not found: '' @ eri_requirement_id i)), st)
        | Some r \<Rightarrow>
            if evq_target_kind r \<noteq> prp_target_kind p \<or>
               (evq_target_id r \<noteq> None \<and> evq_target_id r \<noteq> Some (prp_target_id p))
            then (Inl (Error ''Eval requirement does not apply to proposal target''), st)
            else
              op_bind (op_result (create_proposal_eval_run (sub 0 s) i)) (\<lambda>x.
              op_bind (\<lambda>st. (Inr (), create_run_row x st)) (\<lambda>_.
              op_bind (append_governance_event (sub 1 s) ''proposal_eval_attached'' (prp_id p) (evr_attached_by x)
                (''Attached '' @ evr_status x @ '' eval run '' @ evr_id x @ '' to proposal '' @ prp_id p @ ''.'')
                (Some [(''evalRequirementId'', JStr (evr_requirement_id x)), (''status'', JStr (evr_status x))]))
                (\<lambda>_. op_return x))) st))"

definition list_eval_runs :: "string \<Rightarrow> proposal_eval_run list improvement_op" where
  "list_eval_runs i = op_bind (require_proposal i) (\<lambda>_ st. (Inr (list_runs_for (Some i) st), st))"

definition evaluate_canary_readiness :: "draws \<Rightarrow> string \<Rightarrow> canary_readiness improvement_op" where
  "evaluate_canary_readiness s i =
     op_bind (require_proposal i) (\<lambda>p st.
       op_bind (op_result (active_safety_policy st)) (\<lambda>policy st.
         (let ready = (\<not> sfp_canary policy \<or> canary_ready_for_proposal (prp_id p) st);
              r = \<lparr>cry_proposal_id = prp_id p, cry_required = sfp_canary policy, cry_ready = ready,
                   cry_blocking = (if sfp_canary policy \<and> \<not> ready then [''canary_required''] else []),
                   cry_evaluated_at = clock 0 s\<rparr>
          in op_bind (append_governance_event (sub 1 s) ''proposal_canary_readiness_checked'' (prp_id p) ''mock-admin''
               (''Checked canary readiness for proposal '' @ prp_id p @ ''.'')
               (Some [(''ready'', JBool ready), (''required'', JBool (sfp_canary policy))])) (\<lambda>_. op_return r)
               (upsert_canary_readiness r st))) st)"

definition apply_request :: "proposal \<Rightarrow> improvement_state \<Rightarrow> policy_request" where
  "apply_request p st =
     improvement_request (Some ''mock-admin'') ''improvement.apply'' ''draft_registry_change''
       (map_option drc_id (get_draft_for_proposal (prp_id p) st))
       [(''proposalId'', JStr (prp_id p)), (''targetKind'', JStr (prp_target_kind p))]
       [(''source'', JStr ''proposal_apply_gate'')]"

definition evaluate_apply_gate :: "engine \<Rightarrow> draws \<Rightarrow> string \<Rightarrow> apply_gate improvement_op" where
  "evaluate_apply_gate decide s i =
     op_bind (require_proposal i) (\<lambda>p st0.
     op_bind (op_result (active_safety_policy st0)) (\<lambda>policy.
     op_bind (op_result (readiness_snapshot (sub 0 s) p st0)) (\<lambda>r st.
       (let (d, st1) = improvement_policy decide (sub 1 s) (apply_request p st) st;
            reasons = ''active_apply_not_implemented'' #
              (if dec_allowed d then [] else [''policy_denied_improvement_apply'']) @ rdy_blocking r;
            blocking = sort_strings (first_occurrences reasons);
            js_reasons = JArr (map JStr blocking);
            g = \<lparr>apg_proposal_id = prp_id p, apg_can_apply = False, apg_blocking = blocking,
                 apg_approval = sfp_human_approval policy, apg_eval_passed = sfp_eval_passed policy,
                 apg_canary_ready = sfp_canary policy, apg_policy_id = sfp_id policy,
                 apg_evaluated_at = clock 2 s\<rparr>
        in op_bind (append_governance_event (sub 3 s) ''proposal_apply_gate_checked'' (prp_id p) ''mock-admin''
             (''Checked apply gate for proposal '' @ prp_id p @ ''.'')
             (Some [(''canApply'', JBool (apg_can_apply g)), (''blockingReasons'', js_reasons),
               (''policyDecisionId'', JStr (dec_id d))])) (\<lambda>_.
           op_bind (if \<not> apg_can_apply g
             then append_governance_event (sub 4 s) ''proposal_apply_blocked'' (prp_id p) ''mock-admin''
               (''Blocked apply for proposal '' @ prp_id p @ ''; apply is not implemented in Governance v1.'')
               (Some [(''blockingReasons'', js_reasons)])
             else op_return ()) (\<lambda>_. op_return g)) (upsert_apply_gate g st1)))) st0)"

section \<open>The mock engine\<close>

definition require_cluster :: "string \<Rightarrow> failure_cluster improvement_op" where
  "require_cluster i st =
     (case get_failure_cluster i st of
        None \<Rightarrow> (Inl (Error (''Failure cluster not found: '' @ i)), st)
      | Some c \<Rightarrow> (Inr c, st))"

definition analysis_of :: "draws \<Rightarrow> failure_cluster \<Rightarrow> improvement_state \<Rightarrow> analysis" where
  "analysis_of s c st =
     (let signals = List.map_filter (\<lambda>i. get_failure_signal i st) (clu_signal_ids c);
          kind = target_kind_for_cluster c;
          ref = target_ref_for_cluster c kind;
          ty = candidate_type_for_cluster c kind
      in \<lparr>ana_id = stable_analysis_id (clu_id c), ana_cluster_id = clu_id c,
          ana_summary = ''Deterministic mock analysis recommends '' @ ty @ '' for '' @ opt_default ref kind @ ''.'',
          ana_target_kind = kind, ana_target_ref = ref,
          ana_evidence = clu_summary c #
            map (\<lambda>x. sig_severity x @ '':'' @ sig_category x @ '':'' @ sig_summary x) signals,
          ana_candidate_type = ty,
          ana_confidence = (if 1 < length signals \<or> clu_severity c = ''high'' \<or> clu_severity c = ''critical''
            then 82 / 100 else 64 / 100),
          ana_created_at = clock 0 s\<rparr>)"

definition analyze_failure_cluster :: "draws \<Rightarrow> string \<Rightarrow> analysis improvement_op" where
  "analyze_failure_cluster s i st =
     (case get_analysis_for_cluster i st of
        Some a \<Rightarrow> (Inr a, st)
      | None \<Rightarrow> op_bind (require_cluster i) (\<lambda>c st.
          (let a = analysis_of s c st in (Inr a, create_analysis_row a st))) st)"

definition generate_candidate :: "draws \<Rightarrow> string \<Rightarrow> candidate improvement_op" where
  "generate_candidate s cluster_id =
     op_bind (analyze_failure_cluster (sub 0 s) cluster_id) (\<lambda>a st.
       (let (tid, name, version) = parse_target_ref (ana_target_ref a) (ana_target_kind a);
            i = stable_candidate_id cluster_id (ana_candidate_type a)
        in case get_candidate i st of
             Some c \<Rightarrow> (Inr c, st)
           | None \<Rightarrow>
               (let c = \<lparr>cand_id = i, cand_cluster_id = cluster_id, cand_target_kind = ana_target_kind a,
                      cand_target_id = tid, cand_target_name = name, cand_target_version = version,
                      cand_type = ana_candidate_type a,
                      cand_priority = (if 8 / 10 \<le> ana_confidence a then ''high'' else ''medium''),
                      cand_summary = ''Mock candidate for '' @ name @ ''@'' @ version @ '': '' @ ana_summary a,
                      cand_evidence = ana_evidence a, cand_status = ''new'',
                      cand_created_at = clock 1 s, cand_updated_at = clock 2 s\<rparr>
                in (Inr c, create_candidate_row c st))))"

definition generate_proposal :: "draws \<Rightarrow> string \<Rightarrow> proposal improvement_op" where
  "generate_proposal s candidate_id =
     op_bind (proposable_candidate candidate_id) (\<lambda>c st.
       (let i = stable_proposal_id (cand_id c) in
        case get_proposal i st of
          Some p \<Rightarrow> (Inr p, st)
        | None \<Rightarrow>
            (let cluster = get_failure_cluster (cand_cluster_id c) st;
                 ty = change_type_for_candidate c cluster;
                 target = cand_target_name c @ ''@'' @ cand_target_version c;
                 p = \<lparr>prp_id = i, prp_candidate_id = cand_id c, prp_target_kind = cand_target_kind c,
                      prp_target_id = cand_target_id c, prp_target_name = cand_target_name c,
                      prp_target_version = cand_target_version c, prp_change_type = ty,
                      prp_patch = Some [(''draftOnly'', JBool True),
                        (''category'', JStr (opt_default (map_option clu_category cluster) ''unknown'')),
                        (''target'', JStr target),
                        (''suggestedVersion'', if ty = ''new_version''
                           then JStr (bump_patch_version (cand_target_version c)) else JUndef)],
                      prp_summary = ''Draft-only mock '' @ ty @ '' proposal for '' @ target @ ''.'',
                      prp_rationale = cand_summary c,
                      prp_safety_notes = [''MockAutoImprovementEngine does not call LLMs or external services.'',
                        ''This proposal does not mutate or activate registry entries.'',
                        ''Future approval, eval, and canary gates must be satisfied separately.''],
                      prp_status = ''draft'', prp_created_by = ''mock-auto-improvement-engine'',
                      prp_created_at = clock 0 s, prp_updated_at = clock 1 s\<rparr>
             in op_bind (update_candidate (sub 2 s) (cand_id c) ''proposal_created'') (\<lambda>_.
                op_bind (case cluster of None \<Rightarrow> op_return ()
                         | Some u \<Rightarrow> op_bind (update_failure_cluster (sub 3 s) (clu_id u) ''proposal_created'')
                             (\<lambda>_. op_return ())) (\<lambda>_. op_return p)) (create_proposal_row p st))))"

definition prepare_draft_change :: "engine \<Rightarrow> draws \<Rightarrow> string \<Rightarrow> draft_change improvement_op" where
  "prepare_draft_change decide s i =
     op_bind (require_proposal i) (\<lambda>p st.
       (case get_draft_for_proposal (prp_id p) st of
          Some d \<Rightarrow> (Inr d, st)
        | None \<Rightarrow>
            op_bind (require_policy decide (sub 0 s)
              (improvement_request (Some ''mock-auto-improvement'') ''improvement.draft_change.prepare''
                 ''draft_registry_change'' (Some (prp_id p))
                 [(''targetKind'', JStr (prp_target_kind p)), (''proposedChangeType'', JStr (prp_change_type p))]
                 [(''source'', JStr ''mock_auto_improvement_engine'')])) (\<lambda>_.
            create_draft (sub 1 s)
              \<lparr>dri_id = Some (stable_draft_change_id (prp_id p)), dri_proposal_id = prp_id p,
               dri_target_kind = prp_target_kind p, dri_target_id = prp_target_id p,
               dri_target_name = prp_target_name p, dri_target_version = prp_target_version p,
               dri_change_type = draft_change_type p,
               dri_payload = [(''draftOnly'', JBool True), (''activeRegistryMutation'', JBool False),
                 (''target'', JObj [(''kind'', JStr (prp_target_kind p)), (''id'', JStr (prp_target_id p)),
                    (''name'', JStr (prp_target_name p)), (''version'', JStr (prp_target_version p))]),
                 (''proposedChangeType'', JStr (prp_change_type p)),
                 (''proposedPatch'', case prp_patch p of None \<Rightarrow> JUndef | Some o' \<Rightarrow> JObj o'),
                 (''proposedSummary'', JStr (prp_summary p))],
               dri_status = None, dri_created_at = None, dri_updated_at = None\<rparr>) st))"

definition evaluate_proposal_readiness :: "draws \<Rightarrow> string \<Rightarrow> readiness improvement_op" where
  "evaluate_proposal_readiness s i =
     op_bind (require_proposal i) (\<lambda>p st.
       op_bind (op_result (readiness_snapshot s p st)) (\<lambda>r st. (Inr r, upsert_readiness r st)) st)"

end
