(* ===== verification/ImprovementInvariant.thy ===== *)
theory ImprovementInvariant
  imports ImprovementService
begin

text \<open>
  The invariant of the improvement loop: nothing is ever applied and every decision is audited,
  kept by each operation of the services, and the transition system the operations form.
\<close>

section \<open>Auditing never fails\<close>

lemma trim_not_blank: "\<exists>c \<in> set v. \<not> is_space c \<Longrightarrow> trim v \<noteq> []"
proof -
  assume "\<exists>c \<in> set v. \<not> is_space c"
  then have rest: "dropWhile is_space v \<noteq> []" by (simp add: dropWhile_eq_Nil_conv)
  from hd_in_set[OF this] hd_dropWhile[OF this]
  have "\<exists>c \<in> set (rev (dropWhile is_space v)). \<not> is_space c" by auto
  then show ?thesis by (simp add: trim_def dropWhile_eq_Nil_conv)
qed

definition governance_event_of ::
  "draws \<Rightarrow> string \<Rightarrow> string \<Rightarrow> string \<Rightarrow> string \<Rightarrow> jsobj option \<Rightarrow> governance_event" where
  "governance_event_of s action proposal actor_id message meta =
     \<lparr>gve_id = governance_event_id action (Some proposal) (clock 0 s), gve_action = action,
      gve_proposal_id = Some proposal, gve_draft_id = None, gve_actor_id = actor_id, gve_message = message,
      gve_metadata = meta, gve_created_at = clock 0 s\<rparr>"

lemma append_governance_event_ok:
  assumes "action \<in> set governance_actions" and "c \<in> set message" and "\<not> is_space c"
  shows "append_governance_event s action proposal actor_id message meta st =
    (Inr (), append_governance_row (governance_event_of s action proposal actor_id message meta) st)"
  using assms trim_not_blank[of message]
  by (auto simp: append_governance_event_def op_bind_def op_result_def create_governance_event_def
      in_vocabulary_def required_string_def governance_event_of_def)

section \<open>The invariant\<close>

definition decision_key :: "governance_decision \<Rightarrow> string \<times> string \<times> js" where
  "decision_key d = (gvd_proposal_id d, gvd_actor_id d, JStr (gvd_decision d))"

definition recorded_key :: "governance_event \<Rightarrow> (string \<times> string \<times> js) option" where
  "recorded_key e =
     (if gve_action e = ''proposal_decision_recorded''
      then (case gve_proposal_id e of
              None \<Rightarrow> None
            | Some p \<Rightarrow> Some (p, gve_actor_id e, obj_get (opt_default (gve_metadata e) []) ''decision''))
      else None)"

definition never_applies :: "improvement_state \<Rightarrow> bool" where
  "never_applies st \<longleftrightarrow>
     im_policies st \<noteq> [] \<and> list_all (\<lambda>p. \<not> sfp_auto_apply p) (im_policies st) \<and>
     list_all (\<lambda>p. prp_status p \<noteq> ''applied'') (im_proposals st) \<and>
     list_all (\<lambda>g. \<not> apg_can_apply g) (im_gates st)"

definition decisions_audited :: "improvement_state \<Rightarrow> bool" where
  "decisions_audited st \<longleftrightarrow>
     map decision_key (im_decisions st) = List.map_filter recorded_key (im_audit st)"

definition improvement_inv :: "improvement_state \<Rightarrow> bool" where
  "improvement_inv st \<longleftrightarrow> never_applies st \<and> decisions_audited st"

definition preserved :: "'a improvement_op \<Rightarrow> bool" where
  "preserved m \<longleftrightarrow> (\<forall>st. improvement_inv st \<longrightarrow> improvement_inv (snd (m st)))"

lemma preservedI: "(\<And>st. improvement_inv st \<Longrightarrow> improvement_inv (snd (m st))) \<Longrightarrow> preserved m"
  by (simp add: preserved_def)

lemma preservedD: "preserved m \<Longrightarrow> improvement_inv st \<Longrightarrow> improvement_inv (snd (m st))"
  by (simp add: preserved_def)

lemma preserved_bind:
  assumes "preserved m" and "\<And>x. preserved (f x)"
  shows "preserved (op_bind m f)"
proof (rule preservedI)
  fix st assume "improvement_inv st"
  then have "improvement_inv (snd (m st))" by (rule preservedD[OF assms(1)])
  then show "improvement_inv (snd (op_bind m f st))"
    using preservedD[OF assms(2)] by (auto simp: op_bind_def split: prod.split sum.split)
qed

lemma preserved_parts:
  "preserved (op_return x)" "preserved (op_throw e)" "preserved (op_result r)"
  "preserved (require_proposal i)" "preserved (require_cluster i)" "preserved (proposable_candidate i)"
  by (simp_all add: preserved_def op_result_def require_proposal_def require_cluster_def proposable_candidate_def
      split: option.split)

text \<open>An update of an entry, and rows of the tables the invariant does not read.\<close>

lemma list_all_update_by:
  "list_all P xs \<Longrightarrow> (\<And>x. P x \<Longrightarrow> P (f x)) \<Longrightarrow> list_all P (update_by key i f xs)"
  by (induction xs) auto

lemma list_all_upsert_by: "list_all P xs \<Longrightarrow> P x \<Longrightarrow> list_all P (upsert_by key x xs)"
  by (induction xs) auto

lemma update_by_Nil_iff [simp]: "update_by key i f xs = [] \<longleftrightarrow> xs = []"
  by (cases xs) auto

lemma preserved_update_entry:
  assumes "\<And>st. improvement_inv st \<Longrightarrow> improvement_inv (put (update_by key i f (get st)) st)"
  shows "preserved (update_entry get put key missing i f)"
  using assms by (simp add: preserved_def update_entry_def split: option.split)

lemma preserved_updates:
  "preserved (update_failure_cluster s i x)" "preserved (update_candidate s i x)"
  "preserved (update_draft_change s i x)"
  "x \<noteq> ''applied'' \<Longrightarrow> preserved (update_proposal s i x)"
  unfolding update_failure_cluster_def update_candidate_def update_draft_change_def update_proposal_def
  by (rule preserved_update_entry,
      simp add: improvement_inv_def never_applies_def decisions_audited_def list_all_update_by)+

lemma preserved_row:
  assumes "\<And>st. improvement_inv st \<Longrightarrow> improvement_inv (g st)"
  shows "preserved (\<lambda>st. (r st, g st))"
  using assms by (simp add: preserved_def)

lemma row_inv:
  "improvement_inv st \<Longrightarrow> improvement_inv (create_signal_row a st)"
  "improvement_inv st \<Longrightarrow> improvement_inv (upsert_failure_cluster b st)"
  "improvement_inv st \<Longrightarrow> improvement_inv (create_candidate_row c st)"
  "improvement_inv st \<Longrightarrow> improvement_inv (create_requirement_row d st)"
  "improvement_inv st \<Longrightarrow> improvement_inv (create_plan_row e st)"
  "improvement_inv st \<Longrightarrow> improvement_inv (create_analysis_row f st)"
  "improvement_inv st \<Longrightarrow> improvement_inv (create_draft_row g st)"
  "improvement_inv st \<Longrightarrow> improvement_inv (upsert_readiness h st)"
  "improvement_inv st \<Longrightarrow> improvement_inv (create_run_row i st)"
  "improvement_inv st \<Longrightarrow> improvement_inv (upsert_canary_readiness j st)"
  "improvement_inv st \<Longrightarrow> prp_status k \<noteq> ''applied'' \<Longrightarrow> improvement_inv (create_proposal_row k st)"
  "improvement_inv st \<Longrightarrow> \<not> apg_can_apply l \<Longrightarrow> improvement_inv (upsert_apply_gate l st)"
  "improvement_inv st \<Longrightarrow> improvement_inv (st\<lparr>im_policy := m\<rparr>)"
  "improvement_inv st \<Longrightarrow> recorded_key n = None \<Longrightarrow> improvement_inv (append_governance_row n st)"
  by (simp_all add: improvement_inv_def never_applies_def decisions_audited_def create_signal_row_def
      upsert_failure_cluster_def create_candidate_row_def create_requirement_row_def create_plan_row_def
      create_analysis_row_def create_draft_row_def upsert_readiness_def create_run_row_def
      upsert_canary_readiness_def create_proposal_row_def upsert_apply_gate_def append_governance_row_def
      list_all_upsert_by List.map_filter_def)

lemma preserved_policy: "preserved (require_policy decide s req)"
  by (simp add: preserved_def require_policy_def improvement_policy_def Let_def case_prod_beta row_inv)

lemma preserved_event:
  "action \<noteq> ''proposal_decision_recorded'' \<Longrightarrow> preserved (append_governance_event s action p a m x)"
  unfolding append_governance_event_def create_governance_event_def required_string_def in_vocabulary_def
  by (auto simp: preserved_def op_bind_def op_result_def recorded_key_def intro!: row_inv)

section \<open>A governance decision\<close>

text \<open>The rows a decision appends to the audit, and what it does to the proposals.\<close>

definition audit_rows :: "draws \<Rightarrow> proposal \<Rightarrow> governance_decision \<Rightarrow> governance_event list" where
  "audit_rows s p d =
     governance_event_of (sub 0 s) ''proposal_decision_recorded'' (prp_id p) (gvd_actor_id d)
       (''Recorded '' @ gvd_decision d @ '' decision for '' @ prp_id p @ ''.'')
       (Some [(''decision'', JStr (gvd_decision d))]) #
     (if gvd_decision d = ''approve''
      then [governance_event_of (sub 1 s) ''proposal_approved'' (prp_id p) (gvd_actor_id d)
        (''Approved proposal '' @ prp_id p @ '' for the next governance gate.'') None]
      else if gvd_decision d = ''reject''
      then [governance_event_of (sub 2 s) ''proposal_rejected'' (prp_id p) (gvd_actor_id d)
        (''Rejected proposal '' @ prp_id p @ ''.'') None]
      else if gvd_decision d = ''request_changes''
      then [governance_event_of (sub 3 s) ''proposal_changes_requested'' (prp_id p) (gvd_actor_id d)
        (''Requested changes for proposal '' @ prp_id p @ ''.'') None]
      else [])"

lemma audit_decision_ok:
  "audit_decision s p d st = (Inr (), st\<lparr>im_audit := im_audit st @ audit_rows s p d\<rparr>)"
  by (simp add: audit_decision_def audit_rows_def op_bind_def append_governance_event_ok[where c = "CHR ''R''"]
      append_governance_event_ok[where c = "CHR ''A''"] governance_actions_def is_space_def
      append_governance_row_def)

definition decide_proposal :: "time \<Rightarrow> proposal \<Rightarrow> string \<Rightarrow> proposal list \<Rightarrow> proposal list" where
  "decide_proposal now p status xs =
     (if status = prp_status p then xs
      else update_by prp_id (prp_id p) (\<lambda>x. x\<lparr>prp_status := status, prp_updated_at := now\<rparr>) xs)"

lemma require_proposal_found: "get_proposal i st = Some p \<Longrightarrow> require_proposal i st = (Inr p, st)"
  by (simp add: require_proposal_def)

lemma get_proposal_id: "get_proposal i st = Some p \<Longrightarrow> prp_id p = i"
  by (auto simp: get_proposal_def dest: find_by_Some)

lemma active_policy_exists: "im_policies st \<noteq> [] \<Longrightarrow> \<exists>y. active_safety_policy st = Inr y"
  by (auto simp: active_safety_policy_def list_safety_policies_def by_id_def Let_def
      split: option.split list.split dest: arg_cong[where f = set])

lemma readiness_snapshot_ok: "im_policies st \<noteq> [] \<Longrightarrow> \<exists>r. readiness_snapshot s p st = Inr r"
  using active_policy_exists[of st] by (auto simp: readiness_snapshot_def Let_def)

lemma status_for_decision_ok:
  assumes "im_policies st \<noteq> []" and "decision \<in> set governance_decisions"
  shows "\<exists>x. status_for_decision s p decision st = Inr x \<and> x \<noteq> ''applied''"
  using readiness_snapshot_ok[OF assms(1), of s p] assms(2)
  by (auto simp: status_for_decision_def governance_decisions_def)

lemma created_decision:
  assumes "create_governance_decision s i = Inr d"
  shows "gvd_decision d = gdi_decision i" and "gvd_proposal_id d = gdi_proposal_id i"
    and "gdi_decision i \<in> set governance_decisions"
    and "gvd_actor_id d = opt_default (gdi_actor_id i) ''mock-admin''"
  using assms
  by (auto simp: create_governance_decision_def bind_result_Inr in_vocabulary_def required_string_def
      split: if_splits)

lemma update_proposal_found:
  "get_proposal i st = Some p \<Longrightarrow>
   update_proposal s i status st = (Inr (p\<lparr>prp_status := status, prp_updated_at := clock 0 s\<rparr>),
     st\<lparr>im_proposals := update_by prp_id i (\<lambda>x. x\<lparr>prp_status := status, prp_updated_at := clock 0 s\<rparr>) (im_proposals st)\<rparr>)"
  by (simp add: update_proposal_def update_entry_def get_proposal_def)

text \<open>What is left of a decision once it is constructed: it always succeeds.\<close>

definition decided :: "draws \<Rightarrow> proposal \<Rightarrow> governance_decision \<Rightarrow> string \<Rightarrow> improvement_state \<Rightarrow> improvement_state" where
  "decided s p d status st =
     st\<lparr>im_decisions := im_decisions st @ [d],
        im_proposals := decide_proposal (clock 0 (sub 3 s)) p status (im_proposals st),
        im_audit := im_audit st @ audit_rows (sub 4 s) p d\<rparr>"

definition decision_gate :: "engine \<Rightarrow> draws \<Rightarrow> decision_input \<Rightarrow> proposal \<Rightarrow> unit improvement_op" where
  "decision_gate decide s i p =
     (if gdi_decision i = ''approve''
      then require_policy decide (sub 0 s) (approval_request (gdi_actor_id i) p) else op_return ())"

lemma preserved_gate: "preserved (decision_gate decide s i p)"
  unfolding decision_gate_def by (simp add: preserved_policy preserved_parts)

lemma record_decision_gate:
  "get_proposal (gdi_proposal_id i) st = Some p \<Longrightarrow>
   record_decision decide s i st =
     op_bind (decision_gate decide s i p) (\<lambda>_.
     op_bind (op_result (create_governance_decision (sub 1 s) i)) (\<lambda>d.
     op_bind (\<lambda>st. (Inr (), create_decision_row d st)) (\<lambda>_ st.
     op_bind (op_result (status_for_decision (sub 2 s) p (gvd_decision d) st)) (\<lambda>next_status.
     op_bind (if next_status \<noteq> prp_status p
              then op_bind (update_proposal (sub 3 s) (prp_id p) next_status) (\<lambda>_. op_return ())
              else op_return ()) (\<lambda>_.
     op_bind (audit_decision (sub 4 s) p d) (\<lambda>_. op_return d))) st))) st"
  unfolding record_decision_def decision_gate_def
  by (subst op_bind_def) (simp add: require_proposal_found)

lemma decision_gate_keeps: "im_proposals (snd (decision_gate decide s i p st)) = im_proposals st"
  by (simp add: decision_gate_def require_policy_def improvement_policy_def Let_def case_prod_beta)

lemma record_decision_run:
  assumes p: "get_proposal (gdi_proposal_id i) st = Some p"
    and gate: "decision_gate decide s i p st = (Inr (), st1)"
    and d: "create_governance_decision (sub 1 s) i = Inr d"
    and status: "status_for_decision (sub 2 s) p (gvd_decision d) (create_decision_row d st1) = Inr status"
  shows "record_decision decide s i st = (Inr d, decided s p d status st1)"
proof -
  have "im_proposals st1 = im_proposals st"
    using decision_gate_keeps[of decide s i p st] gate by simp
  then have p1: "get_proposal (prp_id p) (create_decision_row d st1) = Some p"
    using p get_proposal_id[OF p] by (simp add: get_proposal_def create_decision_row_def)
  show ?thesis
    unfolding record_decision_gate[OF p]
    by (simp add: op_bind_def op_result_def gate d[unfolded One_nat_def] status[unfolded create_decision_row_def]
        update_proposal_found[OF p1[unfolded create_decision_row_def]] audit_decision_ok decided_def
        decide_proposal_def create_decision_row_def)
qed

lemma recorded_key_event [simp]:
  "action \<noteq> ''proposal_decision_recorded'' \<Longrightarrow> recorded_key (governance_event_of s action p a m x) = None"
  by (simp add: recorded_key_def governance_event_of_def)

lemma audit_rows_keys:
  "gvd_proposal_id d = prp_id p \<Longrightarrow> List.map_filter recorded_key (audit_rows s p d) = [decision_key d]"
  by (simp add: audit_rows_def recorded_key_def decision_key_def List.map_filter_def governance_event_of_def
      obj_get_def opt_default_def)

lemma decided_inv:
  assumes inv: "improvement_inv st" and "status \<noteq> ''applied''" and "gvd_proposal_id d = prp_id p"
  shows "improvement_inv (decided s p d status st)"
  using assms audit_rows_keys[OF assms(3), of "sub 4 s"]
  by (simp add: improvement_inv_def never_applies_def decisions_audited_def decided_def decide_proposal_def
      list_all_update_by List.map_filter_def)

lemma record_decision_cases:
  assumes "get_proposal (gdi_proposal_id i) st = Some p" and "decision_gate decide s i p st = (r, st1)"
  shows "(\<exists>e. record_decision decide s i st = (Inl e, st1)) \<or>
    (r = Inr () \<and> (\<exists>d. create_governance_decision (sub 1 s) i = Inr d))"
proof (cases r)
  case (Inl e)
  then show ?thesis unfolding record_decision_gate[OF assms(1)] by (subst op_bind_def) (simp add: assms(2))
next
  case (Inr u)
  then show ?thesis
    unfolding record_decision_gate[OF assms(1)]
    by (cases "create_governance_decision (sub 1 s) i") (simp_all add: op_bind_def assms(2) op_result_def)
qed

lemma preserved_record_decision: "preserved (record_decision decide s i)"
proof (rule preservedI)
  fix st assume inv: "improvement_inv st"
  show "improvement_inv (snd (record_decision decide s i st))"
  proof (cases "get_proposal (gdi_proposal_id i) st")
    case None
    with inv show ?thesis by (simp add: record_decision_def op_bind_def require_proposal_def)
  next
    case (Some p)
    obtain r st1 where gate: "decision_gate decide s i p st = (r, st1)" by fastforce
    have inv1: "improvement_inv st1" using preservedD[OF preserved_gate inv, of decide s i p] gate by simp
    from record_decision_cases[OF Some gate] show ?thesis
    proof
      assume "\<exists>e. record_decision decide s i st = (Inl e, st1)"
      with inv1 show ?thesis by auto
    next
      assume "r = Inr () \<and> (\<exists>d. create_governance_decision (sub 1 s) i = Inr d)"
      then obtain d where ok: "decision_gate decide s i p st = (Inr (), st1)"
        and d: "create_governance_decision (sub 1 s) i = Inr d" using gate by auto
      have "im_policies (create_decision_row d st1) \<noteq> []"
        using inv1 by (simp add: improvement_inv_def never_applies_def create_decision_row_def)
      from status_for_decision_ok[OF this, of "gvd_decision d" "sub 2 s" p] created_decision[OF d]
      obtain x where x: "status_for_decision (sub 2 s) p (gvd_decision d) (create_decision_row d st1) = Inr x"
        and "x \<noteq> ''applied''" by auto
      have "improvement_inv (decided s p d x st1)"
        using inv1 \<open>x \<noteq> ''applied''\<close> by (rule decided_inv) (simp add: created_decision[OF d] get_proposal_id[OF Some])
      then show ?thesis
        by (simp add: record_decision_run[OF Some ok d x])
    qed
  qed
qed

section \<open>Every operation keeps the invariant\<close>

lemmas op_preserved = preserved_bind preserved_parts preserved_updates preserved_policy preserved_event
  preserved_row row_inv

lemma cluster_loop_inv: "improvement_inv st \<Longrightarrow> improvement_inv (snd (cluster_loop s k gs st))"
  by (induction gs arbitrary: k st) (simp_all add: Let_def case_prod_beta row_inv)

lemma preserved_update_safety_policy: "preserved (update_safety_policy s i x)"
proof -
  have safe: "list_all (\<lambda>p. \<not> sfp_auto_apply p) (update_by sfp_id i (patch_safety_policy now x) ps)"
    if "sfx_auto_apply x \<noteq> Some True" and "list_all (\<lambda>p. \<not> sfp_auto_apply p) ps" for now ps
    using that by (intro list_all_update_by) (auto simp: patch_safety_policy_def opt_default_def split: option.split)
  show ?thesis
    unfolding update_safety_policy_def
    by (auto intro!: preserved_parts preserved_update_entry
        simp: improvement_inv_def never_applies_def decisions_audited_def safe)
qed

lemma preserved_creations:
  "preserved (create_signal s a)" "preserved (create_requirement s b)" "preserved (create_plan s c)"
  "preserved (create_draft s d)"
  unfolding create_signal_def create_requirement_def create_plan_def create_draft_def
  by (intro op_preserved | assumption)+

lemma preserved_candidate_ops:
  "preserved (create_candidate_from_cluster s i)" "preserved (triage_candidate s j x)"
proof (rule preservedI)
  fix st assume inv: "improvement_inv st"
  show "improvement_inv (snd (create_candidate_from_cluster s i st))"
    using inv
    by (auto simp: create_candidate_from_cluster_def Let_def case_prod_beta split: option.split
        intro!: preservedD[OF preserved_bind] op_preserved)
next
  show "preserved (triage_candidate s j x)"
    unfolding triage_candidate_def by (intro op_preserved)
qed

text \<open>A body that reads the state it starts in.\<close>

lemma preserved_reading: "(\<And>st. preserved (m st)) \<Longrightarrow> preserved (\<lambda>st. m st st)"
  by (simp add: preserved_def)

lemma preserved_then:
  "preserved m \<Longrightarrow> (\<And>st. improvement_inv st \<Longrightarrow> improvement_inv (g st)) \<Longrightarrow> preserved (\<lambda>st. m (g st))"
  by (simp add: preserved_def)

lemma preserved_if:
  "preserved m \<Longrightarrow> preserved n \<Longrightarrow> preserved (if b then m else n)"
  "preserved m \<Longrightarrow> preserved n \<Longrightarrow> preserved (\<lambda>st. if b then m st else n st)"
  by (cases b, simp_all)+

lemma preserved_option:
  assumes "preserved n" and "\<And>x. preserved (m x)"
  shows "preserved (\<lambda>st. case g st of None \<Rightarrow> n st | Some x \<Rightarrow> m x st)"
  using assms by (auto simp: preserved_def split: option.split)

lemma preserved_same: "preserved (\<lambda>st. (r, st))"
  by (simp add: preserved_def)

lemma preserved_draft_proposal: "preserved (create_draft_proposal s i)"
  unfolding create_draft_proposal_def Let_def
  by (rule preserved_bind, rule preserved_parts, rule preserved_bind, rule preserved_parts,
      rule preserved_then, intro op_preserved, rule row_inv) simp_all

lemma preserved_transitions: "preserved (transition_proposal s j x)" "preserved (transition_draft_change s k y)"
proof -
  show "preserved (transition_proposal s j x)"
    unfolding transition_proposal_def by (auto intro!: op_preserved preserved_if)
  show "preserved (transition_draft_change s k y)"
    unfolding transition_draft_change_def
    by (rule preserved_bind, rule preserved_parts, intro preserved_option preserved_if preserved_same preserved_updates)
qed

lemma preserved_eval_run: "preserved (attach_eval_run s i)"
  unfolding attach_eval_run_def
  by (rule preserved_bind, rule preserved_parts, intro preserved_option preserved_if preserved_same op_preserved) simp_all

lemma preserved_canary: "preserved (evaluate_canary_readiness s i)"
  unfolding evaluate_canary_readiness_def Let_def
  by (rule preserved_bind, rule preserved_parts, rule preserved_reading, rule preserved_bind, rule preserved_parts,
      rule preservedI, rule preservedD[OF preserved_bind], rule preserved_event, simp, rule preserved_parts,
      rule row_inv)

lemma preserved_gate_check: "preserved (evaluate_apply_gate decide s i)"
proof -
  have policy: "improvement_inv st \<Longrightarrow> improvement_inv (snd (improvement_policy decide z r st))" for st z r
    by (simp add: improvement_policy_def Let_def case_prod_beta row_inv)
  show ?thesis
    unfolding evaluate_apply_gate_def Let_def case_prod_beta
    by (rule preserved_bind, rule preserved_parts, rule preserved_reading,
        rule preserved_bind, rule preserved_parts, rule preserved_bind, rule preserved_parts, rule preservedI,
        rule preservedD[OF preserved_bind], rule preserved_event, simp,
        intro op_preserved preserved_if, simp, intro row_inv policy, assumption, simp)
qed

lemma preserved_analyze: "preserved (analyze_failure_cluster s i)"
proof -
  have "preserved (op_bind (require_cluster i) (\<lambda>c st.
      (let a = analysis_of s c st in (Inr a, create_analysis_row a st))))"
    unfolding Let_def by (rule preserved_bind, rule preserved_parts, rule preservedI) (simp add: row_inv)
  then show ?thesis
    by (auto simp: preserved_def analyze_failure_cluster_def split: option.split)
qed

lemma preserved_generate_candidate: "preserved (generate_candidate s i)"
  unfolding generate_candidate_def
  by (rule preserved_bind, rule preserved_analyze, rule preservedI)
    (auto simp: Let_def case_prod_beta row_inv split: option.split)

lemma preserved_generate_proposal: "preserved (generate_proposal s i)"
proof -
  have closing: "preserved (op_bind (update_candidate s1 j x) (\<lambda>_.
      op_bind (case u of None \<Rightarrow> op_return ()
               | Some u \<Rightarrow> op_bind (update_failure_cluster s2 (clu_id u) y) (\<lambda>_. op_return ()))
        (\<lambda>_. op_return p)))" for s1 s2 j x y u and p :: proposal
    by (cases u) (simp_all add: op_preserved)
  show ?thesis
    unfolding generate_proposal_def Let_def
    by (rule preserved_bind, rule preserved_parts, rule preserved_option, rule preservedI,
        rule preservedD[OF closing], rule row_inv, assumption, simp, rule preserved_same)
qed

lemma preserved_prepare_draft: "preserved (prepare_draft_change decide s i)"
  unfolding prepare_draft_change_def
  by (rule preserved_bind, rule preserved_parts,
      intro preserved_option preserved_same preserved_bind preserved_policy preserved_creations)

lemma preserved_readiness: "preserved (evaluate_proposal_readiness s i)"
  unfolding evaluate_proposal_readiness_def
  by (rule preserved_bind, rule preserved_parts, rule preserved_reading, rule preserved_bind,
      rule preserved_parts, rule preserved_row, rule row_inv)

section \<open>The improvement loop as a transition system\<close>

text \<open>A step is one call of one operation that changes the state, with any arguments and draws.\<close>

inductive improvement_step :: "engine \<Rightarrow> improvement_state \<Rightarrow> improvement_state \<Rightarrow> bool" for decide where
  signal: "improvement_step decide st (snd (create_signal s i st))"
| recompute: "improvement_step decide st (snd (recompute_clusters s st))"
| candidate: "improvement_step decide st (snd (create_candidate_from_cluster s j st))"
| triage: "improvement_step decide st (snd (triage_candidate s k x st))"
| propose: "improvement_step decide st (snd (create_draft_proposal s l st))"
| transition: "improvement_step decide st (snd (transition_proposal s k x st))"
| requirement: "improvement_step decide st (snd (create_requirement s m st))"
| plan: "improvement_step decide st (snd (create_plan s n st))"
| policy: "improvement_step decide st (snd (update_safety_policy s k p st))"
| draft: "improvement_step decide st (snd (create_draft s q st))"
| draft_transition: "improvement_step decide st (snd (transition_draft_change s k x st))"
| decision: "improvement_step decide st (snd (record_decision decide s r st))"
| eval_run: "improvement_step decide st (snd (attach_eval_run s t st))"
| canary: "improvement_step decide st (snd (evaluate_canary_readiness s k st))"
| gate: "improvement_step decide st (snd (evaluate_apply_gate decide s k st))"
| analyze: "improvement_step decide st (snd (analyze_failure_cluster s k st))"
| generate_candidate: "improvement_step decide st (snd (generate_candidate s k st))"
| generate_proposal: "improvement_step decide st (snd (generate_proposal s k st))"
| prepare: "improvement_step decide st (snd (prepare_draft_change decide s k st))"
| readiness: "improvement_step decide st (snd (evaluate_proposal_readiness s k st))"

inductive improvement_reachable :: "engine \<Rightarrow> improvement_state \<Rightarrow> bool" for decide where
  start: "improvement_reachable decide (new_improvement s p)"
| step: "improvement_reachable decide st \<Longrightarrow> improvement_step decide st st' \<Longrightarrow> improvement_reachable decide st'"

lemmas operations_preserved = preserved_creations preserved_candidate_ops preserved_draft_proposal
  preserved_transitions preserved_update_safety_policy preserved_record_decision preserved_eval_run
  preserved_canary preserved_gate_check preserved_analyze preserved_generate_candidate
  preserved_generate_proposal preserved_prepare_draft preserved_readiness

lemma improvement_step_inv: "improvement_step decide st st' \<Longrightarrow> improvement_inv st \<Longrightarrow> improvement_inv st'"
  by (erule improvement_step.cases)
    (simp_all add: preservedD[OF operations_preserved(1)] preservedD[OF operations_preserved(2)] preservedD operations_preserved
      recompute_clusters_def cluster_loop_inv)

lemma new_improvement_inv: "improvement_inv (new_improvement s p)"
  by (simp add: improvement_inv_def never_applies_def decisions_audited_def new_improvement_def
      create_default_safety_policy_def List.map_filter_def)

lemma reachable_improvement_inv: "improvement_reachable decide st \<Longrightarrow> improvement_inv st"
  by (induction rule: improvement_reachable.induct) (auto intro: new_improvement_inv improvement_step_inv)

end
