(* ===== verification/ImprovementProperties.thy ===== *)
theory ImprovementProperties
  imports ImprovementInvariant
begin

text \<open>
  Properties of the improvement loop: what a decision does to a proposal and who may approve one,
  what clustering keeps of the signals, what the review queue can show, and that nothing is applied.
\<close>

section \<open>Decisions\<close>

definition has_text :: "string \<Rightarrow> bool" where
  "has_text v \<longleftrightarrow> trim v \<noteq> []"

text \<open>The status a decision leads to, other than an approval.\<close>

definition decision_target :: "string \<Rightarrow> string option" where
  "decision_target decision =
     map_of [(''reject'', ''rejected''), (''request_changes'', ''draft''), (''mark_eval_required'', ''eval_required''),
       (''mark_canary_required'', ''approved_for_canary''), (''archive'', ''archived'')] decision"

lemma decision_target_spec:
  assumes "decision_target decision = Some target"
  shows "decision \<in> set governance_decisions" and "decision \<noteq> ''approve''"
    and "status_for_decision s p decision st = Inr target"
  using assms
  by (auto simp: decision_target_def governance_decisions_def status_for_decision_def split: if_splits)

lemma decided_proposal:
  assumes "get_proposal i st = Some p"
  shows "\<exists>q. get_proposal i (decided s p d status st) = Some q \<and> prp_status q = status"
  using assms get_proposal_id[OF assms]
  by (auto simp: get_proposal_def decided_def decide_proposal_def find_by_update)

text \<open>
  C32: Any decision other than an approval succeeds for every stored proposal, whatever its status,
  whoever asks and whatever the policy engine says: no policy is evaluated and the status machine of
  proposals is not consulted, so that a rejected or archived proposal can be marked for canary.
\<close>

theorem decisions_bypass_status_machine:
  assumes "get_proposal (gdi_proposal_id i) st = Some p"
    and "decision_target (gdi_decision i) = Some target"
    and "has_text (gdi_reason i)" and "has_text (gdi_proposal_id i)"
  shows "\<exists>d st' q. record_decision decide s i st = (Inr d, st') \<and> im_policy st' = im_policy st \<and>
    get_proposal (gdi_proposal_id i) st' = Some q \<and> prp_status q = target \<and> d \<in> set (im_decisions st')"
proof -
  note target = decision_target_spec[OF assms(2)]
  have gate: "decision_gate decide s i p st = (Inr (), st)"
    using target(2) by (simp add: decision_gate_def)
  obtain d where d: "create_governance_decision (sub 1 s) i = Inr d"
    using target(1) assms(3,4)
    by (auto simp: create_governance_decision_def in_vocabulary_def required_string_def has_text_def)
  have "record_decision decide s i st = (Inr d, decided s p d target st)"
    using assms(1) gate d by (rule record_decision_run) (simp add: created_decision[OF d] target(3))
  moreover obtain q where "get_proposal (gdi_proposal_id i) (decided s p d target st) = Some q \<and> prp_status q = target"
    using decided_proposal[OF assms(1)] by blast
  ultimately show ?thesis by (auto simp: decided_def)
qed

section \<open>Approvals\<close>

definition may_approve :: "string option \<Rightarrow> bool" where
  "may_approve actor \<longleftrightarrow>
     (case actor of None \<Rightarrow> True
      | Some a \<Rightarrow> str_includes a ''admin'' \<or> str_includes a ''reviewer'' \<or> starts_with a ''mock'')"

lemma approval_role:
  assumes "dec_allowed (evaluate default_policy_rules s (approval_request actor p))"
  shows "may_approve actor"
proof -
  have gate: "(''improvement.proposal.approve'', [''system'', ''system_admin'', ''platform_admin'',
      ''reviewer'', ''registry_admin'', ''registry_reviewer'', ''improvement_reviewer'']) \<in> set role_gates"
    by (simp add: role_gates_def)
  have "req_action (approval_request actor p) = ''improvement.proposal.approve''"
    by (simp add: approval_request_def improvement_request_def)
  with default_allowed_role[OF assms] gate
  have "subj_roles (req_subject (approval_request actor p)) \<noteq> []" by fastforce
  then show ?thesis
    by (auto simp: may_approve_def approval_request_def improvement_request_def mock_improvement_subject_def
        create_policy_subject_def Let_def opt_default_def split: if_splits option.split)
qed

lemma eval_passed_runs:
  assumes "eval_status_for_proposal i ids st \<in> {''not_required'', ''passed''}" and "j \<in> set ids"
  shows "\<exists>run \<in> set (im_runs st). evr_proposal_id run = i \<and> evr_requirement_id run = j \<and> evr_status run = ''passed''"
  using assms
  by (auto simp: eval_status_for_proposal_def Let_def list_ex_iff list_all_iff list_runs_for_def oldest_first_def
      split: if_splits)

lemma readiness_fields:
  assumes "readiness_snapshot s p st = Inr r"
  shows "rdy_eval_status r = eval_status_for_proposal (prp_id p) (required_eval_ids p st) st"
    and "\<exists>policy. active_safety_policy st = Inr policy \<and>
      rdy_canary r = sfp_canary policy \<and> (\<not> sfp_auto_apply policy \<longrightarrow> ''auto_apply_disabled'' \<in> set (rdy_blocking r))"
  using assms by (cases "active_safety_policy st"; auto simp: readiness_snapshot_def Let_def)+

lemma approved_status:
  assumes "status_for_decision s p ''approve'' st = Inr status" and "status \<noteq> ''eval_required''"
  shows "eval_status_for_proposal (prp_id p) (required_eval_ids p st) st \<in> {''not_required'', ''passed''}"
proof -
  obtain r where r: "readiness_snapshot s p st = Inr r"
    using assms(1) by (cases "readiness_snapshot s p st") (simp_all add: status_for_decision_def)
  then have "rdy_eval_status r \<in> {''not_required'', ''passed''}"
    using assms by (auto simp: status_for_decision_def split: if_splits)
  then show ?thesis by (simp add: readiness_fields[OF r])
qed

definition required_for :: "proposal \<Rightarrow> eval_requirement \<Rightarrow> bool" where
  "required_for p r \<longleftrightarrow> evq_blocking r \<and> evq_target_kind r = prp_target_kind p \<and>
     (evq_target_id r = None \<or> evq_target_id r = Some (prp_target_id p))"

lemma required_eval_ids_set: "set (required_eval_ids p st) = evq_id ` {r \<in> set (im_requirements st). required_for p r}"
  by (auto simp: required_eval_ids_def sort_strings_def list_eval_requirements_def by_id_def required_for_def)

lemma gate_kept:
  assumes "decision_gate decide s i p st = (r, st1)"
  shows "im_requirements st1 = im_requirements st" "im_runs st1 = im_runs st" "im_policies st1 = im_policies st"
  using assms
  by (auto simp: decision_gate_def require_policy_def improvement_policy_def Let_def case_prod_beta split: if_splits)

text \<open>
  C31: Under the default rules an approval is recorded only for an actor whose name contains admin or
  reviewer or starts with mock (an absent actor is mock-admin), and it moves the proposal past
  eval_required only when every blocking eval requirement that applies to its target has a passed run.
\<close>

theorem approval_gated:
  assumes "record_decision (evaluate default_policy_rules) s i st = (Inr d, st')"
    and "gdi_decision i = ''approve''"
  shows "may_approve (gdi_actor_id i) \<and>
    (\<exists>p q. get_proposal (gdi_proposal_id i) st = Some p \<and> get_proposal (gdi_proposal_id i) st' = Some q \<and>
      (prp_status q = ''eval_required'' \<or>
       (\<forall>r \<in> set (im_requirements st). required_for p r \<longrightarrow>
          (\<exists>run \<in> set (im_runs st). evr_proposal_id run = prp_id p \<and>
             evr_requirement_id run = evq_id r \<and> evr_status run = ''passed''))))"
proof -
  let ?engine = "evaluate default_policy_rules"
  obtain p where p: "get_proposal (gdi_proposal_id i) st = Some p"
    using assms(1) by (cases "get_proposal (gdi_proposal_id i) st")
      (auto simp: record_decision_def op_bind_def require_proposal_def)
  obtain r st1 where gate: "decision_gate ?engine s i p st = (r, st1)" by fastforce
  with record_decision_cases[OF p gate] assms(1) have r: "r = Inr ()"
    and d: "\<exists>d. create_governance_decision (sub 1 s) i = Inr d" by auto
  then obtain d' where d': "create_governance_decision (sub 1 s) i = Inr d'" by blast
  have may: "may_approve (gdi_actor_id i)"
    using gate assms(2) unfolding r
    by (intro approval_role[of "sub 0 (sub 0 s)" _ p])
      (auto simp: decision_gate_def require_policy_def improvement_policy_def svc_evaluate_def Let_def split: if_splits)
  obtain status where status: "status_for_decision (sub 2 s) p (gvd_decision d') (create_decision_row d' st1) = Inr status"
    using assms(1) gate[unfolded r] d'
    by (cases "status_for_decision (sub 2 s) p (gvd_decision d') (create_decision_row d' st1)")
      (auto simp: record_decision_gate[OF p] op_bind_def op_result_def)
  have st': "st' = decided s p d' status st1"
    using record_decision_run[OF p gate[unfolded r] d' status] assms(1) by simp
  have "get_proposal (gdi_proposal_id i) st1 = Some p"
    using p decision_gate_keeps[of ?engine s i p st] gate by (simp add: get_proposal_def)
  from decided_proposal[OF this] obtain q where q: "get_proposal (gdi_proposal_id i) st' = Some q" "prp_status q = status"
    unfolding st' by blast
  have "prp_status q = ''eval_required'' \<or> (\<forall>r \<in> set (im_requirements st). required_for p r \<longrightarrow>
      (\<exists>run \<in> set (im_runs st). evr_proposal_id run = prp_id p \<and> evr_requirement_id run = evq_id r \<and> evr_status run = ''passed''))"
  proof (cases "status = ''eval_required''")
    case False
    have "status_for_decision (sub 2 s) p ''approve'' (create_decision_row d' st1) = Inr status"
      using status created_decision[OF d'] assms(2) by simp
    note evals = eval_passed_runs[OF approved_status[OF this False], unfolded required_eval_ids_set]
    show ?thesis using evals gate_kept[OF gate] by (auto simp: create_decision_row_def)
  qed (simp add: q)
  with may p q show ?thesis by blast
qed

section \<open>Nothing is applied\<close>

text \<open>
  C30: Over every sequence of calls: no proposal is ever applied, no safety policy allows automatic
  application, no apply gate opens, and the decisions recorded are exactly those of the governance
  audit, in order, by proposal, actor and decision.
\<close>

theorem nothing_applied_decisions_audited:
  assumes "improvement_reachable decide st"
  shows "(\<forall>p \<in> set (im_proposals st). prp_status p \<noteq> ''applied'') \<and>
    (\<forall>p \<in> set (im_policies st). \<not> sfp_auto_apply p) \<and> (\<forall>g \<in> set (im_gates st). \<not> apg_can_apply g) \<and>
    map decision_key (im_decisions st) = List.map_filter recorded_key (im_audit st)"
  using reachable_improvement_inv[OF assms]
  by (simp add: improvement_inv_def never_applies_def decisions_audited_def list_all_iff)

lemma active_policy_stored:
  assumes "active_safety_policy st = Inr p"
  shows "p \<in> set (im_policies st)"
proof (cases "List.find sfp_enabled (list_safety_policies st)")
  case (Some q)
  then have "q \<in> set (list_safety_policies st)" by (auto simp: find_Some_iff)
  with Some assms show ?thesis by (simp add: active_safety_policy_def list_safety_policies_def by_id_def)
next
  case None
  with assms obtain ps where "list_safety_policies st = p # ps"
    by (cases "list_safety_policies st") (simp_all add: active_safety_policy_def)
  then have "p \<in> set (list_safety_policies st)" by simp
  then show ?thesis by (simp add: list_safety_policies_def by_id_def)
qed

lemma snapshot_never_clear:
  assumes "improvement_reachable decide st" and "readiness_snapshot s p st = Inr r"
  shows "''auto_apply_disabled'' \<in> set (rdy_blocking r)"
proof -
  from readiness_fields(2)[OF assms(2)] obtain policy where a: "active_safety_policy st = Inr policy"
    and "\<not> sfp_auto_apply policy \<longrightarrow> ''auto_apply_disabled'' \<in> set (rdy_blocking r)" by blast
  moreover have "\<not> sfp_auto_apply policy"
    using reachable_improvement_inv[OF assms(1)] active_policy_stored[OF a]
    by (simp add: improvement_inv_def never_applies_def list_all_iff)
  ultimately show ?thesis by simp
qed

lemma review_item_blocked:
  assumes "improvement_reachable decide st" and "review_item_for s p st = Inr x"
  shows "''auto_apply_disabled'' \<in> set (rvi_blocking x) \<and> rvi_readiness x \<noteq> ''ready_for_canary''"
proof -
  obtain r where r: "readiness_snapshot s p st = Inr r"
    using assms(2) by (cases "readiness_snapshot s p st") (simp_all add: review_item_for_def)
  then have "rvi_blocking x = rdy_blocking r" and "rvi_readiness x = readiness_status p r"
    using assms(2) by (auto simp: review_item_for_def)
  with snapshot_never_clear[OF assms(1) r] show ?thesis by (auto simp: readiness_status_def)
qed

lemma review_items_from:
  "review_items s k ps st = Inr xs \<Longrightarrow> x \<in> set xs \<Longrightarrow> \<exists>s' p. review_item_for s' p st = Inr x"
  by (induction ps arbitrary: k xs) (simp, fastforce simp: bind_result_Inr)

lemma review_items_ok:
  assumes "im_policies st \<noteq> []"
  shows "\<exists>xs. review_items s k ps st = Inr xs"
proof (induction ps arbitrary: k)
  case (Cons p ps)
  obtain x where "review_item_for (sub k s) p st = Inr x"
    using readiness_snapshot_ok[OF assms, of "sub k s" p] by (auto simp: review_item_for_def)
  with Cons.IH[of "Suc k"] show ?case by (auto simp: bind_result_Inr)
qed simp

text \<open>
  C33: Listing the review queue never fails and never shows a proposal as ready for canary: in every
  reachable state each item carries the blocking reason auto_apply_disabled, whatever was approved,
  evaluated or planned.
\<close>

theorem ready_for_canary_unreachable:
  assumes "improvement_reachable decide st"
  shows "\<exists>xs. list_review_queue s f st = Inr xs \<and>
    (\<forall>x \<in> set xs. ''auto_apply_disabled'' \<in> set (rvi_blocking x) \<and> rvi_readiness x \<noteq> ''ready_for_canary'')"
proof -
  have "im_policies st \<noteq> []"
    using reachable_improvement_inv[OF assms] by (simp add: improvement_inv_def never_applies_def)
  from review_items_ok[OF this, of s 0 "filter (in_review_queue f) (list_proposals st)"]
  obtain xs where xs: "review_items s 0 (filter (in_review_queue f) (list_proposals st)) st = Inr xs" by blast
  from review_items_from[OF xs] review_item_blocked[OF assms] show ?thesis
    by (fastforce simp: list_review_queue_def bind_result_Inr oldest_first_def xs)
qed

section \<open>Clusters\<close>

definition group_signals :: "(string \<times> failure_signal list) list \<Rightarrow> failure_signal list" where
  "group_signals gs = concat (map snd gs)"

lemma add_to_group_mset: "mset (group_signals (add_to_group k x gs)) = add_mset x (mset (group_signals gs))"
  by (induction k x gs rule: add_to_group.induct) (auto simp: group_signals_def)

definition groups_keyed :: "(string \<times> failure_signal list) list \<Rightarrow> bool" where
  "groups_keyed gs \<longleftrightarrow>
     distinct (map fst gs) \<and> list_all (\<lambda>(k, xs). xs \<noteq> [] \<and> list_all (\<lambda>x. group_key x = k) xs) gs"

lemma add_to_group_fst: "fst ` set (add_to_group k x gs) = insert k (fst ` set gs)"
  by (induction k x gs rule: add_to_group.induct) auto

lemma add_to_group_keyed: "groups_keyed gs \<Longrightarrow> group_key x = k \<Longrightarrow> groups_keyed (add_to_group k x gs)"
proof (induction k x gs rule: add_to_group.induct)
  case (2 k x k' xs gs)
  then show ?case using add_to_group_fst[of k x gs] by (auto simp: groups_keyed_def)
qed (simp add: groups_keyed_def)

lemma signal_groups_fold:
  "groups_keyed gs \<Longrightarrow>
   groups_keyed (fold (\<lambda>x. add_to_group (group_key x) x) xs gs) \<and>
   mset (group_signals (fold (\<lambda>x. add_to_group (group_key x) x) xs gs)) = mset (group_signals gs) + mset xs"
  by (induction xs arbitrary: gs) (simp_all add: add_to_group_keyed add_to_group_mset)

lemma signal_groups_spec:
  "groups_keyed (signal_groups xs)" "mset (group_signals (signal_groups xs)) = mset xs"
  using signal_groups_fold[of "[]" xs] by (simp_all add: signal_groups_def groups_keyed_def group_signals_def)

definition cluster_for :: "failure_signal list \<Rightarrow> failure_cluster \<Rightarrow> bool" where
  "cluster_for g c \<longleftrightarrow>
     clu_signal_ids c = sort_strings (map sig_id g) \<and> clu_severity c = highest_severity g \<and>
     clu_category c = sig_category (hd g) \<and> clu_target_kind c = sig_target_kind (hd g)"

lemma cluster_of_for: "cluster_for g (cluster_of s g st)"
  by (simp add: cluster_for_def cluster_of_def Let_def)

lemma cluster_loop_for: "list_all2 cluster_for gs (fst (cluster_loop s k gs st))"
  by (induction gs arbitrary: k st) (simp_all add: Let_def case_prod_beta cluster_of_for)

lemma cluster_for_ids:
  "list_all2 cluster_for gs cs \<Longrightarrow> mset (concat (map clu_signal_ids cs)) = image_mset sig_id (mset (concat gs))"
  by (induction rule: list_all2_induct) (simp_all add: cluster_for_def sort_strings_def)

lemma group_holds_key:
  assumes "groups_keyed gs" and "(k, g) \<in> set gs"
  shows "mset g = filter_mset (\<lambda>x. group_key x = k) (mset (group_signals gs))"
  using assms
proof (induction gs)
  case (Cons p gs)
  obtain k' g' where p: "p = (k', g')" by (cases p)
  have here: "list_all (\<lambda>x. group_key x = k') g'" and keyed: "groups_keyed gs" and fresh: "k' \<notin> fst ` set gs"
    using Cons.prems(1) by (auto simp: groups_keyed_def p)
  have "filter (\<lambda>x. group_key x = k) g' = (if k' = k then g' else [])"
    using here by (auto simp: list_all_iff filter_id_conv filter_empty_conv)
  then have mine: "filter_mset (\<lambda>x. group_key x = k) (mset g') = (if k' = k then mset g' else {#})"
    by (metis mset.simps(1) mset_filter)
  have "filter (\<lambda>x. group_key x = k') (group_signals gs) = []"
    using keyed fresh by (force simp: groups_keyed_def list_all_iff group_signals_def filter_empty_conv)
  then have others: "filter_mset (\<lambda>x. group_key x = k') (mset (group_signals gs)) = {#}"
    by (metis mset.simps(1) mset_filter)
  show ?case
  proof (cases "(k, g) = p")
    case True
    then show ?thesis using mine others by (simp add: p group_signals_def)
  next
    case False
    then have "(k, g) \<in> set gs" using Cons.prems(2) by simp
    moreover from this have "k' \<noteq> k" using fresh by force
    ultimately show ?thesis using mine Cons.IH[OF keyed] by (simp add: p group_signals_def)
  qed
qed simp

lemma groups_keys: "groups_keyed gs \<Longrightarrow> fst ` set gs = group_key ` set (concat (map snd gs))"
proof (induction gs)
  case (Cons p gs)
  obtain k g where p: "p = (k, g)" by (cases p)
  have g: "g \<noteq> []" "\<forall>x \<in> set g. group_key x = k" and "groups_keyed gs"
    using Cons.prems by (auto simp: groups_keyed_def p list_all_iff)
  from g have "group_key ` set g = {k}" by (cases g) auto
  then show ?case using Cons.IH[OF \<open>groups_keyed gs\<close>] by (simp add: p image_Un)
qed simp

lemma Max_insert_max: "finite S \<Longrightarrow> Max (insert a (insert b S)) = Max (insert (max a b) S)" for a :: int
  by (cases "S = {}") (simp_all add: max.assoc)

lemma highest_severity_reached:
  "severity_rank (highest_severity xs) = Max (insert 0 ((\<lambda>x. severity_rank (sig_severity x)) ` set xs))"
proof -
  have "severity_rank (fold (\<lambda>x cur. if severity_rank cur < severity_rank (sig_severity x) then sig_severity x else cur) xs cur)
      = Max (insert (severity_rank cur) ((\<lambda>x. severity_rank (sig_severity x)) ` set xs))" for cur
  proof (induction xs arbitrary: cur)
    case (Cons a xs)
    have "severity_rank (if severity_rank cur < severity_rank (sig_severity a) then sig_severity a else cur) =
        max (severity_rank cur) (severity_rank (sig_severity a))" by simp
    then show ?case
      unfolding fold_simps Cons.IH list.set image_insert by (subst Max_insert_max) simp_all
  qed simp
  from this[of "''low''"] show ?thesis
    by (simp add: highest_severity_def severity_rank_def severities_def)
qed

text \<open>The cluster of a key: the ids of all signals of that key, and their highest severity.\<close>

definition cluster_of_key :: "failure_signal multiset \<Rightarrow> string \<Rightarrow> failure_cluster \<Rightarrow> bool" where
  "cluster_of_key signals k c \<longleftrightarrow>
     mset (clu_signal_ids c) = image_mset sig_id (filter_mset (\<lambda>x. group_key x = k) signals) \<and>
     severity_rank (clu_severity c) =
       Max (insert 0 ((\<lambda>x. severity_rank (sig_severity x)) ` {x \<in> set_mset signals. group_key x = k}))"

text \<open>
  C34: Recomputing the clusters returns one cluster for each grouping key (category, target kind and target
  reference joined by bars) among the recorded signals and no other: two signals are in the same cluster exactly
  when they have the same key.  A cluster lists the ids of all signals of its key, and its severity
  is the highest among them, low when none is ranked; so each signal is counted in exactly one
  cluster.
\<close>

theorem clusters_partition_signals:
  "\<exists>ks. distinct ks \<and> set ks = group_key ` set (im_signals st) \<and>
     list_all2 (cluster_of_key (mset (im_signals st))) ks (fst (recompute_clusters s st)) \<and>
     mset (concat (map clu_signal_ids (fst (recompute_clusters s st)))) = image_mset sig_id (mset (im_signals st))"
proof -
  let ?all = "list_failure_signals st"
  let ?groups = "signal_groups ?all"
  let ?gs = "sort_by (\<lambda>l r. locale_compare (group_key (hd l)) (group_key (hd r))) (map snd ?groups)"
  let ?key = "\<lambda>g. group_key (hd g)"
  let ?ks = "map ?key ?gs"
  have all: "mset ?all = mset (im_signals st)" by (simp add: list_failure_signals_def by_id_def)
  note keyed = signal_groups_spec(1)[of ?all]
  have signals: "mset (group_signals ?groups) = mset (im_signals st)" using signal_groups_spec(2)[of ?all] all by simp
  have group: "g \<noteq> [] \<and> ?key g = k \<and> mset g = filter_mset (\<lambda>x. group_key x = k) (mset (im_signals st))"
    if "(k, g) \<in> set ?groups" for k g
    using group_holds_key[OF keyed that] keyed that signals
    by (auto simp: groups_keyed_def list_all_iff dest!: bspec[OF _ that])
  have loop: "list_all2 cluster_for ?gs (fst (recompute_clusters s st))"
    using cluster_loop_for[of ?gs s 0 st] by (simp add: recompute_clusters_def)
  have "map ?key (map snd ?groups) = map fst ?groups"
    using group by (auto simp: case_prod_unfold)
  then have keys: "mset ?ks = mset (map fst ?groups)" by (metis mset_map mset_sort_by)
  have "distinct ?ks"
    using mset_eq_imp_distinct_iff[OF keys] keyed by (simp add: groups_keyed_def)
  moreover have "set ?ks = group_key ` set (im_signals st)"
  proof -
    have "set ?ks = fst ` set ?groups" using keys by (metis list.set_map set_mset_mset)
    also have "\<dots> = group_key ` set (group_signals ?groups)"
      using keyed unfolding group_signals_def by (rule groups_keys)
    also have "set (group_signals ?groups) = set (im_signals st)" using signals by (metis set_mset_mset)
    finally show ?thesis .
  qed
  moreover have "cluster_of_key (mset (im_signals st)) (?key g) c" if "g \<in> set ?gs" "cluster_for g c" for g c
  proof -
    from that(1) obtain k where "(k, g) \<in> set ?groups" by auto
    note g = group[OF this]
    then have "set g = {x \<in> set (im_signals st). group_key x = ?key g}"
      by (metis set_mset_filter set_mset_mset)
    with g that(2) highest_severity_reached[of g] show ?thesis
      by (simp add: cluster_of_key_def cluster_for_def sort_strings_def)
  qed
  then have "list_all2 (cluster_of_key (mset (im_signals st))) ?ks (fst (recompute_clusters s st))"
    unfolding list.rel_map by (blast intro: list.rel_mono_strong[OF loop])
  moreover have "mset (concat ?gs) = mset (im_signals st)"
    using signals by (simp add: group_signals_def mset_concat image_mset.compositionality flip: sum_mset_sum_list)
  ultimately show ?thesis using cluster_for_ids[OF loop] by (intro exI[of _ ?ks]) simp
qed

section \<open>The engine\<close>

lemma find_by_upsert_other:
  "find_by key2 i xs = None \<Longrightarrow> key2 a = i \<Longrightarrow> find_by key2 i (upsert_by key a xs) = Some a"
  by (induction xs) (auto split: if_splits)

lemma analyze_again:
  assumes "analyze_failure_cluster s i st = (Inr a, st1)"
  shows "get_analysis_for_cluster i st1 = Some a \<and> im_candidates st1 = im_candidates st"
proof (cases "get_analysis_for_cluster i st")
  case None
  then obtain c where c: "get_failure_cluster i st = Some c" and "a = analysis_of s c st"
    and "st1 = create_analysis_row a st"
    using assms by (auto simp: analyze_failure_cluster_def require_cluster_def op_bind_def Let_def split: option.splits)
  moreover have "ana_cluster_id a = i"
    using c \<open>a = _\<close> by (auto simp: analysis_of_def Let_def get_failure_cluster_def dest: find_by_Some)
  ultimately show ?thesis
    using None by (simp add: get_analysis_for_cluster_def create_analysis_row_def find_by_upsert_other)
qed (use assms in \<open>simp add: analyze_failure_cluster_def\<close>)

text \<open>
  C35: Generating a candidate is idempotent: a second call for the same cluster, at any later time,
  returns the candidate of the first and changes nothing.
\<close>

theorem generate_candidate_idempotent:
  assumes "generate_candidate s i st = (Inr c, st')"
  shows "generate_candidate s' i st' = (Inr c, st') \<and> c \<in> set (im_candidates st')"
proof -
  obtain a st1 where a: "analyze_failure_cluster (sub 0 s) i st = (Inr a, st1)"
    using assms by (auto simp: generate_candidate_def op_bind_Inr)
  let ?id = "stable_candidate_id i (ana_candidate_type a)"
  have found: "get_candidate ?id st' = Some c \<and> get_analysis_for_cluster i st' = Some a"
    using assms a analyze_again[OF a]
    by (auto simp: generate_candidate_def op_bind_def Let_def case_prod_beta create_candidate_row_def
        get_candidate_def get_analysis_for_cluster_def find_by_append split: option.splits)
  then have "analyze_failure_cluster (sub 0 s') i st' = (Inr a, st')"
    by (simp add: analyze_failure_cluster_def)
  with found show ?thesis
    by (auto simp: generate_candidate_def op_bind_def Let_def case_prod_beta get_candidate_def dest: find_by_Some)
qed

section \<open>Witnesses\<close>

definition sample_proposal :: "string \<Rightarrow> proposal" where
  "sample_proposal status =
     \<lparr>prp_id = ''p'', prp_candidate_id = ''c'', prp_target_kind = ''skill'', prp_target_id = ''skill_a'',
      prp_target_name = ''a'', prp_target_version = ''1.0.0'', prp_change_type = ''patch'', prp_patch = None,
      prp_summary = ''s'', prp_rationale = ''r'', prp_safety_notes = [], prp_status = status,
      prp_created_by = ''mock-admin'', prp_created_at = 0, prp_updated_at = 0\<rparr>"

definition sample_signal :: "string \<Rightarrow> string \<Rightarrow> failure_signal" where
  "sample_signal i severity =
     \<lparr>sig_id = i, sig_source_type = ''manual'', sig_source_id = ''x'', sig_task_id = None, sig_run_id = None,
      sig_target_kind = ''skill'', sig_target_ref = None, sig_severity = severity, sig_category = ''cost_spike'',
      sig_summary = ''s'', sig_details = None, sig_observed_at = 0, sig_metadata = []\<rparr>"

abbreviation fresh_improvement :: improvement_state where
  "fresh_improvement \<equiv> new_improvement sample_draws (new_policy_service None)"

lemma has_text_sample: "has_text ''p''" "has_text ''why''"
  by (simp_all add: has_text_def trim_def is_space_def)

theorem decisions_bypass_status_machine_witness:
  "\<exists>d st' q. record_decision (evaluate default_policy_rules) sample_draws
       \<lparr>gdi_proposal_id = ''p'', gdi_actor_id = Some ''visitor'', gdi_decision = ''mark_canary_required'',
        gdi_reason = ''why'', gdi_created_at = None\<rparr>
       (fresh_improvement\<lparr>im_proposals := [sample_proposal ''rejected'']\<rparr>) = (Inr d, st') \<and>
     get_proposal ''p'' st' = Some q \<and> prp_status q = ''approved_for_canary''"
  using decisions_bypass_status_machine[of "\<lparr>gdi_proposal_id = ''p'', gdi_actor_id = Some ''visitor'',
      gdi_decision = ''mark_canary_required'', gdi_reason = ''why'', gdi_created_at = None\<rparr>"
      "fresh_improvement\<lparr>im_proposals := [sample_proposal ''rejected'']\<rparr>" "sample_proposal ''rejected''"
      "''approved_for_canary''" "evaluate default_policy_rules" sample_draws]
  by (auto simp: get_proposal_def sample_proposal_def decision_target_def has_text_sample)

definition sample_approval :: decision_input where
  "sample_approval = \<lparr>gdi_proposal_id = ''p'', gdi_actor_id = None, gdi_decision = ''approve'',
     gdi_reason = ''why'', gdi_created_at = None\<rparr>"

abbreviation state_to_approve :: improvement_state where
  "state_to_approve \<equiv> fresh_improvement\<lparr>im_proposals := [sample_proposal ''awaiting_review'']\<rparr>"

lemma approval_rules_for: "rules_for ''improvement.proposal.approve'' = [improvement_rules ! 2]"
  by (simp add: rules_for_def default_rule_defs cong: rule_literal_cong)

lemma sample_approval_allowed:
  "dec_allowed (evaluate default_policy_rules s (approval_request None p))"
  by (simp add: default_allowed_iff approval_request_def improvement_request_def approval_rules_for
      improvement_rules_def rule_applies_def condition_matches_def no_conditions_def map_matches_def
      mock_improvement_subject_def create_policy_subject_def create_policy_resource_def create_policy_context_def
      str_includes_def starts_with_def opt_default_def Let_def cong: rule_literal_cong)

lemma sample_approval_run:
  "\<exists>d st'. record_decision (evaluate default_policy_rules) sample_draws sample_approval state_to_approve = (Inr d, st')"
proof -
  let ?engine = "evaluate default_policy_rules"
  have p: "get_proposal (gdi_proposal_id sample_approval) state_to_approve = Some (sample_proposal ''awaiting_review'')"
    by (simp add: get_proposal_def sample_approval_def sample_proposal_def)
  obtain st1 where gate: "decision_gate ?engine sample_draws sample_approval (sample_proposal ''awaiting_review'')
      state_to_approve = (Inr (), st1)"
    by (simp add: decision_gate_def require_policy_def improvement_policy_def svc_evaluate_def Let_def
        sample_approval_def sample_approval_allowed)
  obtain d where d: "create_governance_decision (sub 1 sample_draws) sample_approval = Inr d"
    using has_text_sample
    by (auto simp: create_governance_decision_def in_vocabulary_def required_string_def has_text_def
        sample_approval_def governance_decisions_def)
  have "im_policies (create_decision_row d st1) \<noteq> []"
    using gate_kept(3)[OF gate] by (simp add: create_decision_row_def new_improvement_def)
  moreover have "gvd_decision d \<in> set governance_decisions" using created_decision[OF d] by simp
  ultimately obtain x where "status_for_decision (sub 2 sample_draws) (sample_proposal ''awaiting_review'') (gvd_decision d)
      (create_decision_row d st1) = Inr x"
    using status_for_decision_ok by blast
  from record_decision_run[OF p gate d this] show ?thesis by blast
qed

theorem approval_gated_witness:
  "\<exists>d st' q. record_decision (evaluate default_policy_rules) sample_draws sample_approval state_to_approve = (Inr d, st') \<and>
     may_approve None \<and> get_proposal ''p'' st' = Some q"
proof -
  obtain d st' where "record_decision (evaluate default_policy_rules) sample_draws sample_approval state_to_approve = (Inr d, st')"
    using sample_approval_run by blast
  with approval_gated[OF this] show ?thesis by (auto simp: sample_approval_def)
qed

definition one_signal :: improvement_state where
  "one_signal = snd (create_signal sample_draws
     \<lparr>sgi_id = None, sgi_source_type = ''manual'', sgi_source_id = ''x'', sgi_task_id = None, sgi_run_id = None,
      sgi_target_kind = ''skill'', sgi_target_ref = None, sgi_severity = ''high'', sgi_category = ''cost_spike'',
      sgi_summary = ''s'', sgi_details = None, sgi_observed_at = None, sgi_metadata = None\<rparr> fresh_improvement)"

lemma one_signal_reachable: "improvement_reachable (evaluate default_policy_rules) one_signal"
  unfolding one_signal_def
  by (rule improvement_reachable.step[OF improvement_reachable.start improvement_step.signal])

theorem nothing_applied_decisions_audited_witness:
  "map decision_key (im_decisions one_signal) = List.map_filter recorded_key (im_audit one_signal)"
  using nothing_applied_decisions_audited[OF one_signal_reachable] by simp

theorem ready_for_canary_unreachable_witness:
  "\<exists>xs. list_review_queue sample_draws
       \<lparr>rvf_status = None, rvf_target_kind = None, rvf_action = None, rvf_archived = True\<rparr> one_signal = Inr xs"
  using ready_for_canary_unreachable[OF one_signal_reachable] by blast

definition sample_cluster :: failure_cluster where
  "sample_cluster =
     \<lparr>clu_id = ''k'', clu_title = ''t'', clu_category = ''cost_spike'', clu_target_kind = ''skill'',
      clu_target_ref = None, clu_signal_ids = [], clu_severity = ''low'', clu_status = ''open'',
      clu_summary = ''s'', clu_created_at = 0, clu_updated_at = 0\<rparr>"

theorem generate_candidate_idempotent_witness:
  "\<exists>c st'. generate_candidate sample_draws ''k'' (fresh_improvement\<lparr>im_clusters := [sample_cluster]\<rparr>) = (Inr c, st') \<and>
     generate_candidate sample_draws ''k'' st' = (Inr c, st')"
proof -
  have "get_failure_cluster ''k'' (fresh_improvement\<lparr>im_clusters := [sample_cluster]\<rparr>) = Some sample_cluster"
    by (simp add: get_failure_cluster_def sample_cluster_def)
  then obtain c st' where
    "generate_candidate sample_draws ''k'' (fresh_improvement\<lparr>im_clusters := [sample_cluster]\<rparr>) = (Inr c, st')"
    by (simp add: generate_candidate_def analyze_failure_cluster_def get_analysis_for_cluster_def require_cluster_def
        op_bind_def Let_def case_prod_beta get_candidate_def create_analysis_row_def new_improvement_def)
  with generate_candidate_idempotent[OF this] show ?thesis by blast
qed

end
