(* ===== verification/LlmModel.thy ===== *)
theory LlmModel
  imports AuthService Redaction
begin

text \<open>
  The data of the LLM gateway, \<open>packages/llm-gateway/src\<close>: models, routes, fallback policies and
  virtual keys with their in-memory repositories and validations, the resolution of a model for a
  prompt, and the records of \<open>types.ts\<close> the gateway exchanges.
\<close>

section \<open>Vocabularies\<close>

definition llm_provider_kinds :: "string list" where
  "llm_provider_kinds = [''mock'', ''openai_compatible'', ''anthropic_compatible'', ''gemini_compatible'',
     ''bedrock_compatible'', ''vertex_compatible'', ''azure_compatible'', ''litellm_compatible'',
     ''local_cli'', ''local'', ''custom'']"

definition is_llm_provider_kind :: "string \<Rightarrow> bool" where
  "is_llm_provider_kind k \<longleftrightarrow> k \<in> set llm_provider_kinds"

definition is_llm_model_status :: "string \<Rightarrow> bool" where
  "is_llm_model_status s \<longleftrightarrow> s \<in> {''active'', ''disabled'', ''deprecated''}"

definition is_virtual_key_status :: "string \<Rightarrow> bool" where
  "is_virtual_key_status s \<longleftrightarrow> s \<in> {''active'', ''disabled''}"

definition prompt_classes :: "string list" where
  "prompt_classes = [''code_generation'', ''code_review'', ''conflict_resolution'', ''registry_review'',
     ''summarization'', ''general'', ''unknown'']"

definition is_prompt_class :: "string \<Rightarrow> bool" where
  "is_prompt_class c \<longleftrightarrow> c \<in> set prompt_classes"

definition provider_kind_to_model_provider :: "string \<Rightarrow> string" where
  "provider_kind_to_model_provider k =
     (if k = ''mock'' then ''mock'' else if k = ''local'' \<or> k = ''local_cli'' then ''local'' else ''mock'')"

section \<open>Records\<close>

record llm_model =
  lm_id :: string
  lm_kind :: string
  lm_display :: string
  lm_context :: num
  lm_tools :: bool
  lm_streaming :: bool
  lm_input_cost :: "num option"
  lm_output_cost :: "num option"
  lm_status :: string
  lm_metadata :: jsobj
  lm_created_at :: time
  lm_updated_at :: time

record llm_request =
  lq_task_id :: string
  lq_run_id :: string
  lq_actor_id :: "string option"
  lq_principal_id :: "string option"
  lq_auth :: "auth_context option"
  lq_model_ref :: "string option"
  lq_provider_id :: "string option"
  lq_key_id :: "string option"
  lq_kind :: "string option"
  lq_prompt_class :: "string option"
  lq_capabilities :: "string list option"
  lq_max_fallback :: "num option"
  lq_prompt :: string
  lq_system :: "string option"
  lq_tool_context :: "jsobj option"
  lq_max_tokens :: "num option"
  lq_temperature :: "num option"
  lq_budget_limit :: "num option"
  lq_repo_id :: "string option"
  lq_metadata :: "jsobj option"

record llm_result =
  lr_id :: string
  lr_kind :: string
  lr_provider_id :: "string option"
  lr_model_id :: string
  lr_content :: string
  lr_input_tokens :: num
  lr_output_tokens :: num
  lr_cost :: num
  lr_finish :: string
  lr_latency :: "num option"
  lr_created_at :: time
  lr_metadata :: jsobj

record llm_audit_event =
  la_id :: string
  la_type :: string
  la_task_id :: "string option"
  la_run_id :: "string option"
  la_actor_id :: "string option"
  la_kind :: string
  la_provider_id :: "string option"
  la_model_id :: "string option"
  la_result :: string
  la_reason :: "string option"
  la_metadata :: jsobj
  la_created_at :: time

record budget_decision =
  bd_allowed :: bool
  bd_reason :: string
  bd_task_id :: string
  bd_run_id :: string
  bd_model_id :: string
  bd_kind :: string
  bd_cost :: num
  bd_remaining :: "num option"
  bd_id :: "string option"

record routing_request =
  rtq_id :: string
  rtq_task_id :: string
  rtq_run_id :: string
  rtq_actor_id :: "string option"
  rtq_principal_id :: "string option"
  rtq_model_id :: "string option"
  rtq_capabilities :: "string list"
  rtq_prompt_class :: string
  rtq_priority :: string
  rtq_max_fallback :: num
  rtq_budget_limit :: "num option"
  rtq_metadata :: jsobj

record routing_decision =
  rtd_id :: string
  rtd_request_id :: string
  rtd_provider_id :: "string option"
  rtd_kind :: "string option"
  rtd_model_id :: "string option"
  rtd_route_id :: "string option"
  rtd_chain :: "string list"
  rtd_decision :: string
  rtd_reason :: string
  rtd_policy_id :: "string option"
  rtd_budget_id :: "string option"
  rtd_credential_id :: "string option"
  rtd_auth_id :: "string option"
  rtd_created_at :: time
  rtd_metadata :: jsobj

record llm_route =
  rte_id :: string
  rte_name :: string
  rte_description :: string
  rte_provider_id :: string
  rte_kind :: string
  rte_transport :: "string option"
  rte_model_id :: string
  rte_priority :: num
  rte_enabled :: bool
  rte_capabilities :: "string list"
  rte_classes :: "string list"
  rte_max_input :: "num option"
  rte_max_output :: "num option"
  rte_input_cost :: "num option"
  rte_output_cost :: "num option"
  rte_remote :: bool
  rte_secret_ref :: bool
  rte_fallback :: bool
  rte_billing :: "string option"
  rte_metadata :: jsobj
  rte_created_at :: time
  rte_updated_at :: time

record llm_fallback_policy =
  fbp_id :: string
  fbp_name :: string
  fbp_enabled :: bool
  fbp_max_attempts :: num
  fbp_allowed_kinds :: "string list"
  fbp_disallowed_kinds :: "string list"
  fbp_same_data_class :: bool
  fbp_budget_remaining :: bool
  fbp_policy_allow :: bool
  fbp_stop_on_policy :: bool
  fbp_stop_on_credential :: bool
  fbp_stop_on_budget :: bool
  fbp_metadata :: jsobj
  fbp_created_at :: time
  fbp_updated_at :: time

record provider_health =
  phl_provider_id :: string
  phl_kind :: string
  phl_status :: string
  phl_remote :: bool
  phl_checked_at :: time
  phl_reason :: "string option"
  phl_metadata :: jsobj

record virtual_key =
  vky_id :: string
  vky_owner_kind :: string
  vky_owner_id :: string
  vky_display :: string
  vky_kinds :: "string list"
  vky_models :: "string list"
  vky_monthly :: "num option"
  vky_per_task :: "num option"
  vky_rpm :: "num option"
  vky_tpm :: "num option"
  vky_status :: string
  vky_created_at :: time
  vky_updated_at :: time

record llm_config =
  lcf_kind :: string
  lcf_mode :: string
  lcf_fallback :: bool
  lcf_max_fallback :: num
  lcf_allowed_kinds :: "string list"
  lcf_allowed_ids :: "string list"
  lcf_denied_ids :: "string list"
  lcf_denied_models :: "string list"
  lcf_remote :: bool
  lcf_remote_completion :: bool
  lcf_openai_configured :: bool
  lcf_base_url :: bool
  lcf_api_key :: bool
  lcf_secret_ref :: "string option"
  lcf_source :: string
  lcf_credential :: string
  lcf_reason :: "string option"
  lcf_env_secrets :: bool
  lcf_secret_keys :: nat
  lcf_models :: "string list"
  lcf_model_count :: nat
  lcf_default_model :: "string option"
  lcf_default_configured :: bool
  lcf_integration_tests :: bool

record usage_event =
  uev_id :: string
  uev_task_id :: "string option"
  uev_run_id :: "string option"
  uev_user_id :: string
  uev_repo_id :: "string option"
  uev_provider :: string
  uev_model :: "string option"
  uev_type :: string
  uev_input_tokens :: "num option"
  uev_output_tokens :: "num option"
  uev_cost :: "num option"
  uev_latency :: "num option"
  uev_skill_version :: "string option"
  uev_harness_version :: "string option"
  uev_metadata :: jsobj
  uev_created_at :: time

section \<open>The catalogues\<close>

text \<open>Each repository is a \<open>Map\<close> by id, kept in the order of insertion.\<close>

definition list_models :: "llm_model list \<Rightarrow> llm_model list" where
  "list_models ms = sort_by (\<lambda>l r. locale_compare (lm_id l) (lm_id r)) ms"

definition get_model :: "string \<Rightarrow> llm_model list \<Rightarrow> llm_model option" where
  "get_model i ms = find_by lm_id i ms"

definition upsert_model :: "llm_model \<Rightarrow> llm_model list \<Rightarrow> llm_model list" where
  "upsert_model m ms = upsert_by lm_id m ms"

definition is_selectable_model :: "llm_model \<Rightarrow> bool" where
  "is_selectable_model m \<longleftrightarrow> lm_status m = ''active''"

definition validate_model :: "llm_model \<Rightarrow> unit result" where
  "validate_model m =
     (if lm_id m = [] \<or> lm_display m = [] \<or> \<not> is_llm_provider_kind (lm_kind m) \<or> \<not> is_llm_model_status (lm_status m)
      then Inl (Error ''LLM model requires id, displayName, providerKind, and status.'') else Inr ())"

text \<open>The dates an input may leave out are given as options.\<close>

definition register_model ::
  "draws \<Rightarrow> llm_model \<Rightarrow> time option \<Rightarrow> time option \<Rightarrow> (llm_model list, llm_model) op" where
  "register_model s m created updated ms =
     (case validate_model m of
        Inl e \<Rightarrow> (Inl e, ms)
      | Inr _ \<Rightarrow>
          if get_model (lm_id m) ms \<noteq> None then (Inl (Error (''LLM model already exists: '' @ lm_id m)), ms)
          else
            (let x = m\<lparr>lm_created_at := opt_default created (clock 0 s), lm_updated_at := opt_default updated (clock 0 s)\<rparr>
             in (Inr x, upsert_model x ms)))"

definition update_model_status :: "draws \<Rightarrow> string \<Rightarrow> string \<Rightarrow> (llm_model list, llm_model) op" where
  "update_model_status s i status ms =
     (if \<not> is_llm_model_status status then (Inl (Error (''Invalid LLM model status: '' @ status)), ms)
      else (case get_model i ms of
        None \<Rightarrow> (Inl (Error (''LLM model not found: '' @ i)), ms)
      | Some m \<Rightarrow>
          (let x = m\<lparr>lm_status := status, lm_updated_at := clock 0 s\<rparr> in (Inr x, upsert_model x ms))))"

definition list_keys :: "virtual_key list \<Rightarrow> virtual_key list" where
  "list_keys ks = sort_by (\<lambda>l r. locale_compare (vky_id l) (vky_id r)) ks"

definition get_key :: "string \<Rightarrow> virtual_key list \<Rightarrow> virtual_key option" where
  "get_key i ks = find_by vky_id i ks"

definition upsert_key :: "virtual_key \<Rightarrow> virtual_key list \<Rightarrow> virtual_key list" where
  "upsert_key k ks = upsert_by vky_id k ks"

definition validate_virtual_key :: "virtual_key \<Rightarrow> unit result" where
  "validate_virtual_key k =
     (if vky_owner_kind k = [] \<or> vky_owner_id k = [] \<or> vky_display k = [] \<or> \<not> is_virtual_key_status (vky_status k)
      then Inl (Error ''Virtual model key requires ownerKind, ownerId, displayName, and status.'')
      else if vky_kinds k = []
      then Inl (Error ''Virtual model key requires at least one allowed provider kind.'')
      else if vky_models k = [] then Inl (Error ''Virtual model key requires at least one allowed model id.'')
      else Inr ())"

definition create_key :: "draws \<Rightarrow> virtual_key \<Rightarrow> string option \<Rightarrow> (virtual_key list, virtual_key) op" where
  \<comment> \<open>a key that exists under the id is replaced\<close>
  "create_key s k i ks =
     (case validate_virtual_key k of
        Inl e \<Rightarrow> (Inl e, ks)
      | Inr _ \<Rightarrow>
          (let x = k\<lparr>vky_id := opt_default i (fresh_id ''vmk'' 0 s), vky_created_at := clock 0 s, vky_updated_at := clock 0 s\<rparr>
           in (Inr x, upsert_key x ks)))"

definition update_key_status :: "draws \<Rightarrow> string \<Rightarrow> string \<Rightarrow> (virtual_key list, virtual_key) op" where
  "update_key_status s i status ks =
     (if \<not> is_virtual_key_status status then (Inl (Error (''Invalid virtual model key status: '' @ status)), ks)
      else (case get_key i ks of
        None \<Rightarrow> (Inl (Error (''Virtual model key not found: '' @ i)), ks)
      | Some k \<Rightarrow>
          (let x = k\<lparr>vky_status := status, vky_updated_at := clock 0 s\<rparr> in (Inr x, upsert_key x ks))))"

definition allows_provider :: "virtual_key \<Rightarrow> string \<Rightarrow> bool" where
  "allows_provider k kind \<longleftrightarrow> kind \<in> set (vky_kinds k)"

definition create_default_virtual_key :: virtual_key where
  "create_default_virtual_key =
     \<lparr>vky_id = ''vmk_system_mock'', vky_owner_kind = ''system'', vky_owner_id = ''system'',
      vky_display = ''System Mock Virtual Model Key'', vky_kinds = [''mock''],
      vky_models = [''mock-model'', ''mock-small@1.0'', ''mock-coder@1.0'', ''mock-conflict-resolver@1.0'',
        ''mock-registry-reviewer@1.0''],
      vky_monthly = Some 100, vky_per_task = Some 5, vky_rpm = Some 120, vky_tpm = Some 120000,
      vky_status = ''active'', vky_created_at = 1767225600000, vky_updated_at = 1767225600000\<rparr>"

section \<open>Routes and fallback policies\<close>

definition route_cmp :: "llm_route \<Rightarrow> llm_route \<Rightarrow> int" where
  "route_cmp = cmp_or (\<lambda>l r. num_cmp (rte_priority l) (rte_priority r)) (\<lambda>l r. locale_compare (rte_id l) (rte_id r))"

definition list_routes :: "llm_route list \<Rightarrow> llm_route list" where
  "list_routes rs = sort_by route_cmp rs"

definition get_route :: "string \<Rightarrow> llm_route list \<Rightarrow> llm_route option" where
  "get_route i rs = find_by rte_id i rs"

definition upsert_route :: "llm_route \<Rightarrow> llm_route list \<Rightarrow> llm_route list" where
  "upsert_route r rs = upsert_by rte_id r rs"

definition validate_route :: "llm_route \<Rightarrow> unit result" where
  "validate_route r =
     (if rte_id r = [] \<or> rte_name r = [] \<or> rte_provider_id r = [] \<or> rte_kind r = [] \<or> rte_model_id r = []
      then Inl (Error ''LLM route requires id, name, providerId, providerKind, and modelId.'')
      else if rte_capabilities r = [] then Inl (Error ''LLM route requires at least one capability.'')
      else if rte_classes r = [] \<or> list_ex (\<lambda>c. \<not> is_prompt_class c) (rte_classes r)
      then Inl (Error ''LLM route requires at least one valid prompt class.'')
      else Inr ())"

definition add_route ::
  "draws \<Rightarrow> llm_route \<Rightarrow> time option \<Rightarrow> time option \<Rightarrow> (llm_route list, llm_route) op" where
  "add_route s r created updated rs =
     (case validate_route r of
        Inl e \<Rightarrow> (Inl e, rs)
      | Inr _ \<Rightarrow>
          if get_route (rte_id r) rs \<noteq> None then (Inl (Error (''LLM route already exists: '' @ rte_id r)), rs)
          else
            (let x = r\<lparr>rte_created_at := opt_default created (clock 0 s), rte_updated_at := opt_default updated (clock 0 s)\<rparr>
             in (Inr x, upsert_route x rs)))"

definition set_route_enabled :: "draws \<Rightarrow> string \<Rightarrow> bool \<Rightarrow> (llm_route list, llm_route) op" where
  "set_route_enabled s i enabled rs =
     (case get_route i rs of
        None \<Rightarrow> (Inl (Error (''LLM route not found: '' @ i)), rs)
      | Some r \<Rightarrow>
          (let x = r\<lparr>rte_enabled := enabled, rte_updated_at := clock 0 s\<rparr> in (Inr x, upsert_route x rs)))"

definition list_fallbacks :: "llm_fallback_policy list \<Rightarrow> llm_fallback_policy list" where
  "list_fallbacks ps = sort_by (\<lambda>l r. locale_compare (fbp_id l) (fbp_id r)) ps"

definition get_fallback :: "string \<Rightarrow> llm_fallback_policy list \<Rightarrow> llm_fallback_policy option" where
  "get_fallback i ps = find_by fbp_id i ps"

definition upsert_fallback :: "llm_fallback_policy \<Rightarrow> llm_fallback_policy list \<Rightarrow> llm_fallback_policy list" where
  "upsert_fallback p ps = upsert_by fbp_id p ps"

definition validate_fallback :: "llm_fallback_policy \<Rightarrow> unit result" where
  "validate_fallback p =
     (if fbp_id p = [] \<or> fbp_name p = [] \<or> fbp_max_attempts p < 0
      then Inl (Error ''LLM fallback policy requires id, name, and non-negative maxAttempts.'') else Inr ())"

definition add_fallback ::
  "draws \<Rightarrow> llm_fallback_policy \<Rightarrow> time option \<Rightarrow> time option \<Rightarrow>
   (llm_fallback_policy list, llm_fallback_policy) op" where
  "add_fallback s p created updated ps =
     (case validate_fallback p of
        Inl e \<Rightarrow> (Inl e, ps)
      | Inr _ \<Rightarrow>
          if get_fallback (fbp_id p) ps \<noteq> None
          then (Inl (Error (''LLM fallback policy already exists: '' @ fbp_id p)), ps)
          else
            (let x = p\<lparr>fbp_created_at := opt_default created (clock 0 s), fbp_updated_at := opt_default updated (clock 0 s)\<rparr>
             in (Inr x, upsert_fallback x ps)))"

definition create_default_fallback :: llm_fallback_policy where
  "create_default_fallback =
     \<lparr>fbp_id = ''fallback_default_bounded'', fbp_name = ''Default bounded fallback'', fbp_enabled = False,
      fbp_max_attempts = 0, fbp_allowed_kinds = [''mock''], fbp_disallowed_kinds = [''local_cli''],
      fbp_same_data_class = True, fbp_budget_remaining = True, fbp_policy_allow = True,
      fbp_stop_on_policy = True, fbp_stop_on_credential = True, fbp_stop_on_budget = True,
      fbp_metadata = [(''defaultRuntime'', JStr ''fallback_disabled'')],
      fbp_created_at = 1767225600000, fbp_updated_at = 1767225600000\<rparr>"

interpretation models: keyed_repository lm_id get_model upsert_model
  by unfold_locales (auto simp: get_model_def upsert_model_def dest: find_by_Some)

interpretation virtual_keys: keyed_repository vky_id get_key upsert_key
  by unfold_locales (auto simp: get_key_def upsert_key_def dest: find_by_Some)

interpretation routes: keyed_repository rte_id get_route upsert_route
  by unfold_locales (auto simp: get_route_def upsert_route_def dest: find_by_Some)

interpretation fallbacks: keyed_repository fbp_id get_fallback upsert_fallback
  by unfold_locales (auto simp: get_fallback_def upsert_fallback_def dest: find_by_Some)

section \<open>The model of a task\<close>

record model_task =
  ttx_title :: string
  ttx_description :: string
  ttx_selected :: "string option"

record model_resolution =
  mrs_model :: "llm_model option"
  mrs_warnings :: "string list"
  mrs_errors :: "string list"

definition excluded_warning :: "llm_model \<Rightarrow> string" where
  "excluded_warning m = ''Model '' @ lm_id m @ '' excluded: status is '' @ lm_status m @ ''.''"

fun resolve_loop :: "string option \<Rightarrow> string list \<Rightarrow> string list \<Rightarrow> llm_model list \<Rightarrow> model_resolution" where
  "resolve_loop kind warnings [] ms =
     \<lparr>mrs_model = None, mrs_warnings = warnings, mrs_errors = [''No selectable model is available.'']\<rparr>"
| "resolve_loop kind warnings (i # is) ms =
     (case get_model i ms of
        None \<Rightarrow> resolve_loop kind warnings is ms
      | Some m \<Rightarrow>
          if truthy_str kind \<and> lm_kind m \<noteq> the kind then resolve_loop kind warnings is ms
          else if is_selectable_model m then \<lparr>mrs_model = Some m, mrs_warnings = warnings, mrs_errors = []\<rparr>
          else resolve_loop kind (warnings @ [excluded_warning m]) is ms)"

definition resolution_text :: "model_task option \<Rightarrow> string option \<Rightarrow> string" where
  "resolution_text t prompt =
     to_lower (opt_default (map_option ttx_title t) [] @ '' '' @ opt_default (map_option ttx_description t) [] @
       '' '' @ opt_default prompt [])"

definition model_candidates :: "model_task option \<Rightarrow> string option \<Rightarrow> string option \<Rightarrow> string list" where
  "model_candidates t prompt kind =
     (let text = resolution_text t prompt; pick = (\<lambda>b i. if b then [i] else [])
      in (case Option.bind t ttx_selected of None \<Rightarrow> [] | Some i \<Rightarrow> [i]) @
         pick (str_includes text ''conflict'') ''mock-conflict-resolver@1.0'' @
         pick (str_includes text ''registry'') ''mock-registry-reviewer@1.0'' @
         pick (str_includes text ''code'' \<or> str_includes text ''fix'' \<or> str_includes text ''bug'') ''mock-coder@1.0'' @
         pick (kind = Some ''openai_compatible'') ''openai-compatible/default'' @
         [''mock-model'', ''mock-small@1.0''])"

definition resolve_model_for_task ::
  "model_task option \<Rightarrow> string option \<Rightarrow> string option \<Rightarrow> string option \<Rightarrow> llm_model list \<Rightarrow> model_resolution" where
  "resolve_model_for_task t prompt requested kind ms =
     (if truthy_str requested then
        (case get_model (the requested) ms of
           None \<Rightarrow> \<lparr>mrs_model = None, mrs_warnings = [],
             mrs_errors = [''Model '' @ the requested @ '' is not registered.'']\<rparr>
         | Some m \<Rightarrow>
             if truthy_str kind \<and> lm_kind m \<noteq> the kind
             then \<lparr>mrs_model = None, mrs_warnings = [],
               mrs_errors = [''Model '' @ lm_id m @ '' does not match provider '' @ the kind @ ''.'']\<rparr>
             else if \<not> is_selectable_model m
             then \<lparr>mrs_model = None, mrs_warnings = [excluded_warning m],
               mrs_errors = [''No selectable model satisfies '' @ lm_id m @ ''.'']\<rparr>
             else \<lparr>mrs_model = Some m, mrs_warnings = [], mrs_errors = []\<rparr>)
      else resolve_loop kind [] (model_candidates t prompt kind) ms)"

text \<open>The model routers of the runner.\<close>

record model_selection =
  msl_provider :: string
  msl_model :: string
  msl_reason :: string

definition mock_select_model :: "model_task \<Rightarrow> string \<Rightarrow> nat \<Rightarrow> string option \<Rightarrow> model_selection" where
  "mock_select_model t agent skills preferred =
     \<lparr>msl_provider = ''mock'', msl_model = opt_default (opt_or preferred (ttx_selected t)) ''mock-model'',
      msl_reason = ''Selected deterministic mock model for '' @ agent @ '' with '' @ nat_to_string skills @
        '' skill package(s).''\<rparr>"

definition catalog_select_model :: "model_task \<Rightarrow> string \<Rightarrow> string option \<Rightarrow> llm_model list \<Rightarrow> model_selection" where
  "catalog_select_model t agent preferred ms =
     (let r = resolve_model_for_task (Some t) None preferred None ms in
      case mrs_model r of
        None \<Rightarrow>
          (let reason = join_with '' '' (mrs_errors r) in
           \<lparr>msl_provider = ''mock'', msl_model = opt_default (opt_or preferred (ttx_selected t)) ''mock-model'',
            msl_reason = (if reason = [] then ''Fell back to deterministic mock model.'' else reason)\<rparr>)
      | Some m \<Rightarrow>
          \<lparr>msl_provider = provider_kind_to_model_provider (lm_kind m), msl_model = lm_id m,
           msl_reason = ''Selected '' @ lm_id m @ '' from the deterministic LLM model catalog for '' @ agent @ ''.''\<rparr>)"

end
