(* ===== verification/LlmProviders.thy ===== *)
theory LlmProviders
  imports LlmModel
begin

text \<open>
  The providers of the LLM gateway, \<open>packages/llm-gateway/src/providers.ts\<close>: the deterministic mock,
  the OpenAI-compatible provider over an HTTP client, which is a parameter, the skeletons that always
  refuse, and the configuration read from the environment.
\<close>

section \<open>Estimates\<close>

definition estimate_prompt_tokens :: "string \<Rightarrow> num" where
  "estimate_prompt_tokens text = max 1 (of_int \<lceil>of_nat (length text) / (4 :: num)\<rceil>)"

text \<open>\<open>Number(x.toFixed(6))\<close>: the nearest multiple of a millionth, a tie away from zero.\<close>

definition to_fixed_6 :: "num \<Rightarrow> num" where
  "to_fixed_6 x =
     (if x < 0 then - (of_int \<lfloor>- x * 1000000 + 1 / 2\<rfloor> / 1000000) else of_int \<lfloor>x * 1000000 + 1 / 2\<rfloor> / 1000000)"

definition estimate_completion_cost :: "llm_model \<Rightarrow> num \<Rightarrow> num \<Rightarrow> num" where
  "estimate_completion_cost m input_tokens output_tokens =
     to_fixed_6 (opt_default (lm_input_cost m) (1 / 1000000) * input_tokens +
                 opt_default (lm_output_cost m) (2 / 1000000) * output_tokens)"

definition prompt_text :: "llm_request \<Rightarrow> string" where
  "prompt_text q = opt_default (lq_system q) [] @ [CHR 0x0A] @ lq_prompt q"

record llm_usage =
  lus_input :: num
  lus_output :: num
  lus_cost :: num

definition estimate_usage :: "llm_request \<Rightarrow> llm_model \<Rightarrow> llm_usage" where
  "estimate_usage q m =
     (let i = estimate_prompt_tokens (prompt_text q); out = min (opt_default (lq_max_tokens q) 96) 96
      in \<lparr>lus_input = i, lus_output = out, lus_cost = estimate_completion_cost m i out\<rparr>)"

definition request_metadata :: "llm_request \<Rightarrow> string \<Rightarrow> js" where
  "request_metadata q k = obj_get (opt_default (lq_metadata q) []) k"

definition as_string :: "js \<Rightarrow> string option" where
  "as_string v = (case v of JStr s \<Rightarrow> Some s | _ \<Rightarrow> None)"

section \<open>The mock provider\<close>

definition mock_completion :: "draws \<Rightarrow> bool \<Rightarrow> llm_request \<Rightarrow> llm_model \<Rightarrow> string + llm_result" where
  "mock_completion s unavailable q m =
     (if unavailable \<or> request_metadata q ''simulateProviderUnavailable'' = JBool True
      then Inl ''mock_provider_unavailable''
      else if lm_status m \<noteq> ''active'' \<or> request_metadata q ''simulateModelDisabled'' = JBool True
      then Inl ''model_disabled''
      else
        (let u = estimate_usage q m in
         Inr \<lparr>lr_id = fresh_id ''llmreq'' 0 s, lr_kind = ''mock'', lr_provider_id = lq_provider_id q,
           lr_model_id = lm_id m,
           lr_content = ''Mock LLM Gateway completion for '' @ lq_task_id q @ '' using '' @ lm_id m @ ''.'',
           lr_input_tokens = lus_input u, lr_output_tokens = lus_output u, lr_cost = lus_cost u,
           lr_finish = ''stop'', lr_latency = Some 12, lr_created_at = clock 1 s,
           lr_metadata = [(''source'', JStr ''llm_gateway''), (''task_id'', JStr (lq_task_id q)),
             (''task_run_id'', JStr (lq_run_id q)), (''virtual_key_id'', of_opt_str (lq_key_id q)),
             (''provider_id'', of_opt_str (lq_provider_id q)), (''provider_kind'', JStr ''mock'')]\<rparr>))"

section \<open>The OpenAI-compatible provider\<close>

record openai_settings =
  ops_remote :: bool
  ops_completion :: bool
  ops_base_url :: "string option"
  ops_api_key :: "string option"
  ops_models :: "string list"
  ops_default_model :: "string option"
  ops_timeout :: num

record http_post =
  hpo_url :: string
  hpo_timeout :: num
  hpo_headers :: jsobj
  hpo_body :: jsobj

datatype http_outcome =
    HttpResponse bool num js
  | HttpThrown "(string \<times> string) option"  \<comment> \<open>the name and message of an \<open>Error\<close>, or another value\<close>

type_synonym http_client = "http_post \<Rightarrow> http_outcome"

definition as_record :: "js \<Rightarrow> jsobj" where
  "as_record v = (case v of JObj o' \<Rightarrow> o' | _ \<Rightarrow> [])"

definition llm_env_prefixes :: pat where
  "llm_env_prefixes = any_of (map lit_i [''OPENAI'', ''ANTHROPIC'', ''AICHESTRA_LLM'', ''LLM'', ''GITHUB'',
     ''GOOGLE_APPLICATION''])"

definition redact_llm_text :: "string \<Rightarrow> string" where
  "redact_llm_text s =
     mask_paths
       (subst (seq_of [lit_i ''GOOGLE_APPLICATION_CREDENTIALS'', Rep 0 is_space, lit ''='', Rep 0 is_space,
           Rep 1 not_space]) ''GOOGLE_APPLICATION_CREDENTIALS=[redacted]''
       (mask_assignment sensitive_name
       (mask_assignment (lit_i ''AICHESTRA_GITHUB_WEBHOOK_SECRET'')
       (mask_assignment (Cat llm_env_prefixes (lit_i ''_TOKEN''))
       (mask_assignment (Cat llm_env_prefixes (lit_i ''_API_KEY''))
       (subst (key_pattern ''AIza'' dash_word) ''[redacted-api-key]''
       (subst (key_pattern ''sk-'' dash_word) ''[redacted-api-key]''
       (mask_bearer s))))))))"

definition chat_completions_url :: "string \<Rightarrow> string" where
  "chat_completions_url base =
     (let t = rev (dropWhile (\<lambda>c. c = CHR ''/'') (rev base))
      in if ends_with t ''/chat/completions'' then t else t @ ''/chat/completions'')"

record openai_completion =
  oac_id :: "string option"
  oac_content :: string
  oac_input :: num
  oac_output :: num
  oac_finish :: string

definition normalize_completion :: "js \<Rightarrow> llm_usage \<Rightarrow> openai_completion" where
  "normalize_completion body u =
     (let record = as_record body;
          first = (case obj_get record ''choices'' of JArr (x # _) \<Rightarrow> as_record x | _ \<Rightarrow> []);
          message = as_record (obj_get first ''message'');
          usage = as_record (obj_get record ''usage'');
          finish = opt_default (as_string (obj_get first ''finish_reason'')) ''stop''
      in \<lparr>oac_id = as_string (obj_get record ''id''),
          oac_content = opt_default (opt_or (as_string (obj_get message ''content'')) (as_string (obj_get first ''text''))) [],
          oac_input = (case obj_get usage ''prompt_tokens'' of JNum n \<Rightarrow> n | _ \<Rightarrow> lus_input u),
          oac_output = (case obj_get usage ''completion_tokens'' of JNum n \<Rightarrow> n | _ \<Rightarrow> lus_output u),
          oac_finish = (if finish = ''length'' then ''length'' else if finish = ''stop'' then ''stop'' else ''error'')\<rparr>)"

definition normalize_error :: "js \<Rightarrow> num \<Rightarrow> string" where
  "normalize_error body status =
     (let message = map_option redact_llm_text
            (as_string (obj_get (as_record (obj_get (as_record body) ''error'')) ''message''));
          code = ''openai_compatible_http_'' @ num_to_string status
      in if truthy_str message then code @ '':'' @ take 160 (the message) else code)"

definition normalize_thrown :: "(string \<times> string) option \<Rightarrow> string" where
  "normalize_thrown e =
     (if map_option fst e = Some ''AbortError'' then ''openai_compatible_timeout''
      else
        (let message = (case e of Some (_, msg) \<Rightarrow> redact_llm_text msg | None \<Rightarrow> ''unknown_provider_error'')
         in if matches_any_word [''abort'', ''timeout''] message then ''openai_compatible_timeout''
            else ''openai_compatible_provider_error:'' @ take 160 message))"

definition remote_model_for :: "openai_settings \<Rightarrow> llm_model \<Rightarrow> llm_request \<Rightarrow> string" where
  "remote_model_for p m q =
     opt_default (opt_or (as_string (request_metadata q ''remoteModelId''))
       (opt_or (as_string (obj_get (lm_metadata m) ''remoteModelId'')) (ops_default_model p))) (lm_id m)"

definition is_model_allowed :: "openai_settings \<Rightarrow> string \<Rightarrow> string \<Rightarrow> bool" where
  "is_model_allowed p i remote \<longleftrightarrow> ops_models p = [] \<or> i \<in> set (ops_models p) \<or> remote \<in> set (ops_models p)"

definition chat_request :: "openai_settings \<Rightarrow> llm_request \<Rightarrow> string \<Rightarrow> http_post" where
  "chat_request p q remote =
     \<lparr>hpo_url = chat_completions_url (the (ops_base_url p)), hpo_timeout = ops_timeout p,
      hpo_headers = [(''content-type'', JStr ''application/json''),
        (''authorization'', JStr (''Bearer '' @ the (ops_api_key p)))],
      hpo_body = [(''model'', JStr remote),
        (''messages'', JArr
          ((if truthy_str (lq_system q)
            then [JObj [(''role'', JStr ''system''), (''content'', JStr (the (lq_system q)))]] else []) @
           [JObj [(''role'', JStr ''user''), (''content'', JStr (lq_prompt q))]])),
        (''max_tokens'', JNum (opt_default (lq_max_tokens q) 96)),
        (''temperature'', JNum (opt_default (lq_temperature q) (2 / 10)))]\<rparr>"

definition openai_result ::
  "draws \<Rightarrow> llm_request \<Rightarrow> llm_model \<Rightarrow> string \<Rightarrow> openai_completion \<Rightarrow> llm_result" where
  "openai_result s q m remote c =
     (let content = redact_llm_text (oac_content c) in
      \<lparr>lr_id = fresh_id ''llmreq'' 0 s, lr_kind = ''openai_compatible'', lr_provider_id = lq_provider_id q,
       lr_model_id = lm_id m, lr_content = content, lr_input_tokens = oac_input c,
       lr_output_tokens = oac_output c, lr_cost = estimate_completion_cost m (oac_input c) (oac_output c),
       lr_finish = oac_finish c, lr_latency = Some (of_int (clock 2 s - clock 1 s)), lr_created_at = clock 3 s,
       lr_metadata = [(''source'', JStr ''llm_gateway''), (''remote_provider'', JStr ''openai_compatible''),
         (''remote_model'', JStr remote), (''provider_id'', of_opt_str (lq_provider_id q)),
         (''response_id'', of_opt_str (oac_id c)), (''redaction_applied'', JBool (content \<noteq> oac_content c)),
         (''direct_provider_api_key_exposed'', JBool False)]\<rparr>)"

definition openai_completion_call ::
  "http_client \<Rightarrow> draws \<Rightarrow> openai_settings \<Rightarrow> llm_request \<Rightarrow> llm_model \<Rightarrow> string + llm_result" where
  "openai_completion_call http s p q m =
     (if \<not> ops_remote p then Inl ''blocked_remote_llm_disabled''
      else if \<not> ops_completion p then Inl ''remote_llm_completion_disabled''
      else if \<not> truthy_str (ops_base_url p) \<or> \<not> truthy_str (ops_api_key p) then Inl ''openai_compatible_config_missing''
      else
        (let remote = remote_model_for p m q in
         if \<not> is_model_allowed p (lm_id m) remote then Inl ''model_not_allowlisted''
         else (case http (chat_request p q remote) of
           HttpThrown e \<Rightarrow> Inl (normalize_thrown e)
         | HttpResponse ok status body \<Rightarrow>
             if \<not> ok then Inl (normalize_error body status)
             else
               (let c = normalize_completion body (estimate_usage q m)
                in if oac_content c = [] then Inl ''openai_compatible_empty_response''
                   else Inr (openai_result s q m remote c)))))"

section \<open>All providers\<close>

datatype llm_provider =
    MockProvider bool
  | OpenAIProvider openai_settings
  | SkeletonProvider string string bool  \<comment> \<open>its kind, its reason, and whether a local agent is required\<close>

fun provider_kind_of :: "llm_provider \<Rightarrow> string" where
  "provider_kind_of (MockProvider _) = ''mock''"
| "provider_kind_of (OpenAIProvider _) = ''openai_compatible''"
| "provider_kind_of (SkeletonProvider kind _ _) = kind"

record provider_validation =
  pvl_ok :: bool
  pvl_kind :: string
  pvl_reason :: "string option"

fun provider_validate :: "llm_provider \<Rightarrow> provider_validation" where
  "provider_validate (MockProvider unavailable) =
     \<lparr>pvl_ok = \<not> unavailable, pvl_kind = ''mock'',
      pvl_reason = (if unavailable then Some ''mock_provider_unavailable'' else None)\<rparr>"
| "provider_validate (OpenAIProvider p) =
     (let r = (\<lambda>ok reason. \<lparr>pvl_ok = ok, pvl_kind = ''openai_compatible'', pvl_reason = reason\<rparr>)
      in if \<not> ops_remote p then r False (Some ''blocked_remote_llm_disabled'')
         else if \<not> truthy_str (ops_base_url p) \<or> \<not> truthy_str (ops_api_key p)
         then r False (Some ''openai_compatible_config_missing'')
         else r True None)"
| "provider_validate (SkeletonProvider kind reason _) =
     \<lparr>pvl_ok = False, pvl_kind = kind, pvl_reason = Some reason\<rparr>"

fun create_completion ::
  "http_client \<Rightarrow> draws \<Rightarrow> llm_provider \<Rightarrow> llm_request \<Rightarrow> llm_model \<Rightarrow> string + llm_result" where
  "create_completion http s (MockProvider unavailable) q m = mock_completion s unavailable q m"
| "create_completion http s (OpenAIProvider p) q m = openai_completion_call http s p q m"
| "create_completion http s (SkeletonProvider kind reason local) q m =
     Inl (if local then ''local_agent_required'' else reason)"

definition default_openai :: openai_settings where
  "default_openai = \<lparr>ops_remote = False, ops_completion = False, ops_base_url = None, ops_api_key = None,
     ops_models = [], ops_default_model = None, ops_timeout = 30000\<rparr>"

definition anthropic_skeleton :: llm_provider where
  "anthropic_skeleton =
     SkeletonProvider ''anthropic_compatible'' ''anthropic_compatible_provider_not_implemented'' False"

definition gemini_skeleton :: llm_provider where
  "gemini_skeleton = SkeletonProvider ''gemini_compatible'' ''gemini_compatible_provider_not_implemented'' False"

definition bedrock_skeleton :: llm_provider where
  "bedrock_skeleton = SkeletonProvider ''bedrock_compatible'' ''bedrock_compatible_provider_not_implemented'' False"

definition vertex_skeleton :: llm_provider where
  "vertex_skeleton = SkeletonProvider ''vertex_compatible'' ''vertex_compatible_provider_not_implemented'' False"

definition azure_skeleton :: llm_provider where
  "azure_skeleton = SkeletonProvider ''azure_compatible'' ''azure_compatible_provider_not_implemented'' False"

definition litellm_skeleton :: llm_provider where
  "litellm_skeleton = SkeletonProvider ''litellm_compatible'' ''litellm_compatible_provider_not_implemented'' False"

definition local_cli_skeleton :: llm_provider where
  "local_cli_skeleton = SkeletonProvider ''local_cli'' ''local_agent_required'' True"

section \<open>Configuration from the environment\<close>

type_synonym environment = "string \<Rightarrow> string option"

definition parse_env_list :: "string option \<Rightarrow> string list" where
  "parse_env_list v = filter (\<lambda>x. x \<noteq> []) (map trim (split_on CHR '','' (opt_default v [])))"

definition parse_non_negative_int :: "string option \<Rightarrow> num" where
  "parse_non_negative_int v =
     (case parse_int (opt_default v ''0'') of Some n \<Rightarrow> if 0 < n then of_int n else 0 | None \<Rightarrow> 0)"

definition is_routing_mode :: "string \<Rightarrow> bool" where
  "is_routing_mode m \<longleftrightarrow> m \<in> {''mock_only'', ''single_provider'', ''multi_provider''}"

definition env_flag :: "environment \<Rightarrow> string \<Rightarrow> bool" where
  "env_flag env k \<longleftrightarrow> env k = Some ''true''"

definition llm_config_from_env :: "environment \<Rightarrow> llm_config" where
  "llm_config_from_env env =
     (let kind = (if env ''AICHESTRA_LLM_PROVIDER'' = Some ''openai_compatible'' then ''openai_compatible'' else ''mock'');
          models = parse_env_list (env ''AICHESTRA_LLM_ALLOWED_MODELS'');
          mode = (case env ''AICHESTRA_LLM_ROUTING_MODE'' of
              Some m \<Rightarrow> if is_routing_mode m then Some m else None | None \<Rightarrow> None);
          secret_ref = env ''AICHESTRA_LLM_API_KEY_SECRET_REF'';
          ref = truthy_str secret_ref;
          key = truthy_str (env ''AICHESTRA_LLM_API_KEY'')
      in \<lparr>lcf_kind = kind,
          lcf_mode = opt_default mode (if kind = ''openai_compatible'' then ''single_provider'' else ''mock_only''),
          lcf_fallback = env_flag env ''AICHESTRA_ENABLE_LLM_FALLBACK'',
          lcf_max_fallback = parse_non_negative_int (env ''AICHESTRA_LLM_MAX_FALLBACK_ATTEMPTS''),
          lcf_allowed_kinds = filter is_llm_provider_kind (parse_env_list (env ''AICHESTRA_ALLOWED_LLM_PROVIDER_KINDS'')),
          lcf_allowed_ids = parse_env_list (env ''AICHESTRA_ALLOWED_LLM_PROVIDER_IDS''),
          lcf_denied_ids = parse_env_list (env ''AICHESTRA_DENIED_LLM_PROVIDER_IDS''),
          lcf_denied_models = parse_env_list (env ''AICHESTRA_DENIED_LLM_MODELS''),
          lcf_remote = env_flag env ''AICHESTRA_ENABLE_REMOTE_LLM'',
          lcf_remote_completion = env_flag env ''AICHESTRA_ALLOW_REMOTE_LLM_COMPLETION'',
          lcf_openai_configured = (key \<or> ref), lcf_base_url = truthy_str (env ''AICHESTRA_LLM_BASE_URL''),
          lcf_api_key = (key \<or> ref), lcf_secret_ref = secret_ref,
          lcf_source = (if ref then ''secret_ref'' else if key then ''legacy_env'' else ''none''),
          lcf_credential = (if key \<or> ref then ''resolved'' else ''missing''),
          lcf_reason = (if ref then None else if key then Some ''legacy_env_api_key_configured''
            else Some ''llm_api_key_missing''),
          lcf_env_secrets = env_flag env ''AICHESTRA_ENABLE_ENV_SECRET_PROVIDER'',
          lcf_secret_keys = length (parse_env_list (env ''AICHESTRA_ALLOWED_SECRET_ENV_KEYS'')),
          lcf_models = models, lcf_model_count = length models,
          lcf_default_model = env ''AICHESTRA_LLM_DEFAULT_MODEL'',
          lcf_default_configured = truthy_str (env ''AICHESTRA_LLM_DEFAULT_MODEL''),
          lcf_integration_tests = env_flag env ''AICHESTRA_LLM_INTEGRATION_TESTS''\<rparr>)"

record llm_credential =
  lcd_allowed :: bool
  lcd_status :: string
  lcd_value :: "string option"
  lcd_reason :: "string option"

record llm_credential_request =
  lcq_secret_ref :: string
  lcq_purpose :: string
  lcq_provider_id :: string
  lcq_context :: jsobj

text \<open>The resolver is the security service's, given by the caller; the audit of a fallback is returned.\<close>

type_synonym credential_resolver = "llm_credential_request \<Rightarrow> llm_credential"

definition model_configured :: "llm_config \<Rightarrow> bool" where
  "model_configured c \<longleftrightarrow> lcf_models c \<noteq> [] \<or> truthy_str (lcf_default_model c)"

definition legacy_fallback_event :: "llm_config \<Rightarrow> jsobj" where
  "legacy_fallback_event c =
     [(''providerId'', JStr ''openai_compatible''), (''purpose'', JStr ''llm_api_call''),
      (''envKey'', JStr ''AICHESTRA_LLM_API_KEY''), (''reason'', JStr ''legacy_env_api_key_configured''),
      (''metadata'', JObj [(''providerKind'', JStr ''openai_compatible''), (''source'', JStr ''legacy_env''),
        (''refConfigured'', JBool False), (''remoteLlmEnabled'', JBool (lcf_remote c)),
        (''remoteCompletionEnabled'', JBool (lcf_remote_completion c)),
        (''baseUrlConfigured'', JBool (lcf_base_url c)), (''modelAllowlisted'', JBool (model_configured c)),
        (''envProviderEnabled'', JBool (lcf_env_secrets c))])]"

definition credential_request_of :: "llm_config \<Rightarrow> llm_credential_request" where
  "credential_request_of c =
     \<lparr>lcq_secret_ref = the (lcf_secret_ref c), lcq_purpose = ''llm_api_call'', lcq_provider_id = ''openai_compatible'',
      lcq_context = [(''providerKind'', JStr ''openai_compatible''), (''remoteLlmEnabled'', JBool (lcf_remote c)),
        (''remoteCompletionEnabled'', JBool (lcf_remote_completion c)),
        (''baseUrlConfigured'', JBool (lcf_base_url c)), (''modelAllowlisted'', JBool (model_configured c)),
        (''credentialsConfigured'', JBool True), (''envSecretProviderEnabled'', JBool (lcf_env_secrets c))]\<rparr>"

definition resolve_llm_credential ::
  "llm_config \<Rightarrow> environment \<Rightarrow> credential_resolver option \<Rightarrow> llm_credential \<times> jsobj list" where
  "resolve_llm_credential c env resolver =
     (if truthy_str (lcf_secret_ref c) then
        (case resolver of
           None \<Rightarrow> (\<lparr>lcd_allowed = False, lcd_status = ''blocked'', lcd_value = None,
             lcd_reason = Some ''credential_resolver_unavailable''\<rparr>, [])
         | Some f \<Rightarrow> (f (credential_request_of c), []))
      else if truthy_str (env ''AICHESTRA_LLM_API_KEY'') then
        (\<lparr>lcd_allowed = True, lcd_status = ''resolved'', lcd_value = env ''AICHESTRA_LLM_API_KEY'', lcd_reason = None\<rparr>,
         [legacy_fallback_event c])
      else (\<lparr>lcd_allowed = False, lcd_status = ''missing'', lcd_value = None, lcd_reason = Some ''llm_api_key_missing''\<rparr>, []))"

definition provider_from_config ::
  "llm_config \<Rightarrow> environment \<Rightarrow> string option \<Rightarrow> credential_resolver option \<Rightarrow> llm_provider" where
  "provider_from_config c env value resolver =
     (if lcf_kind c = ''openai_compatible'' then
        OpenAIProvider \<lparr>ops_remote = lcf_remote c, ops_completion = lcf_remote_completion c,
          ops_base_url = env ''AICHESTRA_LLM_BASE_URL'',
          ops_api_key = (if truthy_str value then value else lcd_value (fst (resolve_llm_credential c env resolver))),
          ops_models = lcf_models c, ops_default_model = env ''AICHESTRA_LLM_DEFAULT_MODEL'', ops_timeout = 30000\<rparr>
      else MockProvider False)"

definition provider_from_env ::
  "environment \<Rightarrow> credential_resolver option \<Rightarrow> llm_config \<times> llm_provider \<times> jsobj list" where
  "provider_from_env env resolver =
     (let c = llm_config_from_env env; (credential, events) = resolve_llm_credential c env resolver;
          resolved = c\<lparr>lcf_api_key := lcd_allowed credential, lcf_openai_configured := lcd_allowed credential,
            lcf_credential := lcd_status credential, lcf_reason := lcd_reason credential,
            lcf_source := (if truthy_str (lcf_secret_ref c) then ''secret_ref''
              else if lcd_allowed credential then ''legacy_env'' else ''none'')\<rparr>
      in (resolved, provider_from_config resolved env (lcd_value credential) None, events))"

end
