(* ===== verification/LlmCatalog.thy ===== *)
theory LlmCatalog
  imports LlmProviders
begin

text \<open>
  The models of \<open>seedLlmModels\<close> (\<open>packages/llm-gateway/src/providers.ts\<close>) and the routes of
  \<open>seedLlmRoutes\<close> (\<open>routing.ts\<close>).
\<close>

section \<open>Models\<close>

definition llm_seed_date :: time where
  "llm_seed_date = 1767225600000"

definition seed_model ::
  "string \<Rightarrow> string \<Rightarrow> string \<Rightarrow> num \<Rightarrow> bool \<Rightarrow> num \<Rightarrow> num \<Rightarrow> string \<Rightarrow> jsobj \<Rightarrow> llm_model" where
  \<comment> \<open>no seeded model streams\<close>
  "seed_model i kind name ctx tools input_cost output_cost status meta =
     \<lparr>lm_id = i, lm_kind = kind, lm_display = name, lm_context = ctx, lm_tools = tools, lm_streaming = False,
      lm_input_cost = Some input_cost, lm_output_cost = Some output_cost, lm_status = status,
      lm_metadata = meta, lm_created_at = llm_seed_date, lm_updated_at = llm_seed_date\<rparr>"

definition model_mock_model :: llm_model where
  "model_mock_model = seed_model ''mock-model'' ''mock'' ''Mock Model'' 16000 True (1 / 1000000) (2 / 1000000) ''active''
     [(''legacyDefault'', JBool True)]"

definition model_mock_small :: llm_model where
  "model_mock_small = seed_model ''mock-small@1.0'' ''mock'' ''Mock Small'' 8000 False (5 / 10000000) (1 / 1000000) ''active''
     [(''tier'', JStr ''small'')]"

definition model_mock_coder :: llm_model where
  "model_mock_coder = seed_model ''mock-coder@1.0'' ''mock'' ''Mock Coder'' 32000 True (1 / 1000000) (2 / 1000000) ''active''
     [(''tier'', JStr ''coder'')]"

definition model_mock_conflict_resolver :: llm_model where
  "model_mock_conflict_resolver = seed_model ''mock-conflict-resolver@1.0'' ''mock'' ''Mock Conflict Resolver'' 32000 True (1 / 1000000) (2 / 1000000) ''active''
     [(''specialization'', JStr ''conflict'')]"

definition model_mock_registry_reviewer :: llm_model where
  "model_mock_registry_reviewer = seed_model ''mock-registry-reviewer@1.0'' ''mock'' ''Mock Registry Reviewer'' 24000 True (1 / 1000000) (2 / 1000000) ''active''
     [(''specialization'', JStr ''registry'')]"

definition model_openai_compatible_default :: llm_model where
  "model_openai_compatible_default = seed_model ''openai-compatible/default'' ''openai_compatible'' ''OpenAI-compatible Default'' 128000 True (3 / 1000000) (6 / 1000000) ''active''
     [(''remoteProvider'', JStr ''openai_compatible''), (''remoteModelFromConfig'', JBool True)]"

definition model_anthropic_compatible_skeleton :: llm_model where
  "model_anthropic_compatible_skeleton = seed_model ''anthropic-compatible/skeleton'' ''anthropic_compatible'' ''Anthropic-compatible Skeleton'' 200000 True (4 / 1000000) (12 / 1000000) ''disabled''
     [(''skeleton'', JBool True), (''providerId'', JStr ''anthropic-api-key''), (''capabilities'', JArr [JStr ''completion'', JStr ''code_generation'', JStr ''code_review''])]"

definition model_gemini_compatible_skeleton :: llm_model where
  "model_gemini_compatible_skeleton = seed_model ''gemini-compatible/skeleton'' ''gemini_compatible'' ''Gemini-compatible Skeleton'' 1000000 True (2 / 1000000) (6 / 1000000) ''disabled''
     [(''skeleton'', JBool True), (''providerId'', JStr ''gemini-api-key''), (''capabilities'', JArr [JStr ''completion'', JStr ''summarization'', JStr ''json_output''])]"

definition model_bedrock_compatible_skeleton :: llm_model where
  "model_bedrock_compatible_skeleton = seed_model ''bedrock-compatible/skeleton'' ''bedrock_compatible'' ''Bedrock-compatible Skeleton'' 200000 False (4 / 1000000) (12 / 1000000) ''disabled''
     [(''skeleton'', JBool True), (''providerId'', JStr ''bedrock-anthropic-cloud''), (''capabilities'', JArr [JStr ''completion'', JStr ''cloud_iam''])]"

definition model_vertex_compatible_skeleton :: llm_model where
  "model_vertex_compatible_skeleton = seed_model ''vertex-compatible/skeleton'' ''vertex_compatible'' ''Vertex-compatible Skeleton'' 1000000 True (2 / 1000000) (6 / 1000000) ''disabled''
     [(''skeleton'', JBool True), (''providerId'', JStr ''vertex-gemini-cloud''), (''capabilities'', JArr [JStr ''completion'', JStr ''cloud_iam''])]"

definition model_azure_compatible_skeleton :: llm_model where
  "model_azure_compatible_skeleton = seed_model ''azure-compatible/skeleton'' ''azure_compatible'' ''Azure-compatible Skeleton'' 128000 True (3 / 1000000) (6 / 1000000) ''disabled''
     [(''skeleton'', JBool True), (''providerId'', JStr ''azure-foundry-cloud''), (''capabilities'', JArr [JStr ''completion'', JStr ''cloud_iam''])]"

definition model_litellm_compatible_skeleton :: llm_model where
  "model_litellm_compatible_skeleton = seed_model ''litellm-compatible/skeleton'' ''litellm_compatible'' ''LiteLLM-compatible Skeleton'' 128000 True (3 / 1000000) (6 / 1000000) ''disabled''
     [(''skeleton'', JBool True), (''providerId'', JStr ''litellm-compatible-skeleton''), (''capabilities'', JArr [JStr ''completion''])]"

definition model_claude_code_local :: llm_model where
  "model_claude_code_local = seed_model ''claude-code/local'' ''local_cli'' ''Claude Code Local CLI'' 200000 True (0) (0) ''active''
     [(''localAgentRequired'', JBool True), (''providerId'', JStr ''claude-code-local''), (''capabilities'', JArr [JStr ''local_cli'', JStr ''code_generation''])]"

definition model_codex_cli_local :: llm_model where
  "model_codex_cli_local = seed_model ''codex-cli/local'' ''local_cli'' ''Codex CLI Local'' 128000 True (0) (0) ''active''
     [(''localAgentRequired'', JBool True), (''providerId'', JStr ''codex-cli-local''), (''capabilities'', JArr [JStr ''local_cli'', JStr ''code_generation''])]"

definition model_gemini_cli_local :: llm_model where
  "model_gemini_cli_local = seed_model ''gemini-cli/local'' ''local_cli'' ''Gemini CLI Local'' 1000000 True (0) (0) ''active''
     [(''localAgentRequired'', JBool True), (''providerId'', JStr ''gemini-cli-local''), (''capabilities'', JArr [JStr ''local_cli'', JStr ''summarization''])]"

definition seed_llm_models :: "llm_model list" where
  "seed_llm_models = [model_mock_model, model_mock_small, model_mock_coder, model_mock_conflict_resolver, model_mock_registry_reviewer, model_openai_compatible_default, model_anthropic_compatible_skeleton, model_gemini_compatible_skeleton, model_bedrock_compatible_skeleton, model_vertex_compatible_skeleton, model_azure_compatible_skeleton, model_litellm_compatible_skeleton, model_claude_code_local, model_codex_cli_local, model_gemini_cli_local]"

section \<open>Routes\<close>

definition skeleton_route :: "string \<Rightarrow> string \<Rightarrow> string \<Rightarrow> string \<Rightarrow> string \<Rightarrow> num \<Rightarrow> llm_route" where
  "skeleton_route i name provider_id kind model_id priority =
     (let cloud = kind \<in> {''bedrock_compatible'', ''vertex_compatible'', ''azure_compatible''} in
      \<lparr>rte_id = i, rte_name = name, rte_description = ''Disabled v2 provider skeleton. No network calls.'',
       rte_provider_id = provider_id, rte_kind = kind,
       rte_transport = Some (if cloud then ''cloud_iam'' else ''cloud_api''), rte_model_id = model_id,
       rte_priority = priority, rte_enabled = True, rte_capabilities = [''completion''],
       rte_classes = [''code_generation'', ''code_review'', ''summarization'', ''general'', ''unknown''],
       rte_max_input = None, rte_max_output = None, rte_input_cost = None, rte_output_cost = None,
       rte_remote = True, rte_secret_ref = True, rte_fallback = False,
       rte_billing = Some (if cloud then ''cloud_project'' else ''provider_workspace''),
       rte_metadata = [(''skeleton'', JBool True), (''implemented'', JBool False), (''noNetworkCalls'', JBool True)],
       rte_created_at = llm_seed_date, rte_updated_at = llm_seed_date\<rparr>)"

definition route_mock_general :: llm_route where
  "route_mock_general =
     \<lparr>rte_id = ''route_mock_general'', rte_name = ''Mock general'',
      rte_description = ''Default deterministic mock route.'',
      rte_provider_id = ''mock'', rte_kind = ''mock'', rte_transport = None, rte_model_id = ''mock-model'',
      rte_priority = 100, rte_enabled = True, rte_capabilities = [''completion'', ''general''],
      rte_classes = [''general'', ''unknown'', ''summarization''], rte_max_input = None, rte_max_output = None,
      rte_input_cost = None, rte_output_cost = None, rte_remote = False, rte_secret_ref = False, rte_fallback = True,
      rte_billing = Some ''aichestra_owned'', rte_metadata = [(''dataClass'', JStr ''mock'')],
      rte_created_at = llm_seed_date, rte_updated_at = llm_seed_date\<rparr>"

definition route_mock_coder :: llm_route where
  "route_mock_coder =
     \<lparr>rte_id = ''route_mock_coder'', rte_name = ''Mock coder'',
      rte_description = ''Deterministic mock route for code generation and review.'',
      rte_provider_id = ''mock'', rte_kind = ''mock'', rte_transport = None, rte_model_id = ''mock-coder@1.0'',
      rte_priority = 110, rte_enabled = True, rte_capabilities = [''completion'', ''code_generation'', ''code_review''],
      rte_classes = [''code_generation'', ''code_review'', ''general'', ''unknown''], rte_max_input = None, rte_max_output = None,
      rte_input_cost = None, rte_output_cost = None, rte_remote = False, rte_secret_ref = False, rte_fallback = True,
      rte_billing = Some ''aichestra_owned'', rte_metadata = [(''dataClass'', JStr ''mock'')],
      rte_created_at = llm_seed_date, rte_updated_at = llm_seed_date\<rparr>"

definition route_mock_conflict :: llm_route where
  "route_mock_conflict =
     \<lparr>rte_id = ''route_mock_conflict'', rte_name = ''Mock conflict resolver'',
      rte_description = ''Deterministic mock route for conflict-resolution prompts.'',
      rte_provider_id = ''mock'', rte_kind = ''mock'', rte_transport = None, rte_model_id = ''mock-conflict-resolver@1.0'',
      rte_priority = 105, rte_enabled = True, rte_capabilities = [''completion'', ''conflict_resolution'', ''code_review''],
      rte_classes = [''conflict_resolution''], rte_max_input = None, rte_max_output = None,
      rte_input_cost = None, rte_output_cost = None, rte_remote = False, rte_secret_ref = False, rte_fallback = True,
      rte_billing = Some ''aichestra_owned'', rte_metadata = [(''dataClass'', JStr ''mock'')],
      rte_created_at = llm_seed_date, rte_updated_at = llm_seed_date\<rparr>"

definition route_mock_registry :: llm_route where
  "route_mock_registry =
     \<lparr>rte_id = ''route_mock_registry'', rte_name = ''Mock registry reviewer'',
      rte_description = ''Deterministic mock route for registry review prompts.'',
      rte_provider_id = ''mock'', rte_kind = ''mock'', rte_transport = None, rte_model_id = ''mock-registry-reviewer@1.0'',
      rte_priority = 106, rte_enabled = True, rte_capabilities = [''completion'', ''registry_review'', ''code_review''],
      rte_classes = [''registry_review''], rte_max_input = None, rte_max_output = None,
      rte_input_cost = None, rte_output_cost = None, rte_remote = False, rte_secret_ref = False, rte_fallback = True,
      rte_billing = Some ''aichestra_owned'', rte_metadata = [(''dataClass'', JStr ''mock'')],
      rte_created_at = llm_seed_date, rte_updated_at = llm_seed_date\<rparr>"

definition route_openai_compatible_default :: llm_route where
  "route_openai_compatible_default =
     \<lparr>rte_id = ''route_openai_compatible_default'', rte_name = ''OpenAI-compatible default'',
      rte_description = ''Controlled v1 OpenAI-compatible route behind explicit gates.'',
      rte_provider_id = ''openai-api-key'', rte_kind = ''openai_compatible'', rte_transport = Some ''cloud_api'', rte_model_id = ''openai-compatible/default'',
      rte_priority = 300, rte_enabled = True, rte_capabilities = [''completion'', ''code_generation'', ''code_review'', ''summarization'', ''tool_use''],
      rte_classes = [''code_generation'', ''code_review'', ''summarization'', ''general'', ''unknown''], rte_max_input = Some 128000, rte_max_output = None,
      rte_input_cost = None, rte_output_cost = None, rte_remote = True, rte_secret_ref = True, rte_fallback = False,
      rte_billing = Some ''provider_workspace'', rte_metadata = [(''dataClass'', JStr ''remote_provider''), (''onlyRemoteImplementationInV2'', JBool True)],
      rte_created_at = llm_seed_date, rte_updated_at = llm_seed_date\<rparr>"

definition route_anthropic_compatible_skeleton :: llm_route where
  "route_anthropic_compatible_skeleton = skeleton_route ''route_anthropic_compatible_skeleton'' ''Anthropic-compatible skeleton'' ''anthropic-api-key'' ''anthropic_compatible''
     ''anthropic-compatible/skeleton'' 500"

definition route_gemini_compatible_skeleton :: llm_route where
  "route_gemini_compatible_skeleton = skeleton_route ''route_gemini_compatible_skeleton'' ''Gemini-compatible skeleton'' ''gemini-api-key'' ''gemini_compatible''
     ''gemini-compatible/skeleton'' 510"

definition route_bedrock_compatible_skeleton :: llm_route where
  "route_bedrock_compatible_skeleton = skeleton_route ''route_bedrock_compatible_skeleton'' ''Bedrock-compatible skeleton'' ''bedrock-anthropic-cloud'' ''bedrock_compatible''
     ''bedrock-compatible/skeleton'' 520"

definition route_vertex_compatible_skeleton :: llm_route where
  "route_vertex_compatible_skeleton = skeleton_route ''route_vertex_compatible_skeleton'' ''Vertex-compatible skeleton'' ''vertex-gemini-cloud'' ''vertex_compatible''
     ''vertex-compatible/skeleton'' 530"

definition route_azure_compatible_skeleton :: llm_route where
  "route_azure_compatible_skeleton = skeleton_route ''route_azure_compatible_skeleton'' ''Azure-compatible skeleton'' ''azure-foundry-cloud'' ''azure_compatible''
     ''azure-compatible/skeleton'' 540"

definition route_litellm_compatible_skeleton :: llm_route where
  "route_litellm_compatible_skeleton = skeleton_route ''route_litellm_compatible_skeleton'' ''LiteLLM-compatible skeleton'' ''litellm-compatible-skeleton'' ''litellm_compatible''
     ''litellm-compatible/skeleton'' 550"

definition route_local_cli_claude_code :: llm_route where
  "route_local_cli_claude_code =
     \<lparr>rte_id = ''route_local_cli_claude_code'', rte_name = ''Claude Code local CLI bridge'',
      rte_description = ''Local CLI route represented as Local Agent required; not directly executable.'',
      rte_provider_id = ''claude-code-local'', rte_kind = ''local_cli'', rte_transport = Some ''local_cli'', rte_model_id = ''claude-code/local'',
      rte_priority = 900, rte_enabled = True, rte_capabilities = [''local_cli'', ''code_generation'', ''code_review''],
      rte_classes = [''code_generation'', ''code_review'', ''general'', ''unknown''], rte_max_input = None, rte_max_output = None,
      rte_input_cost = None, rte_output_cost = None, rte_remote = False, rte_secret_ref = False, rte_fallback = False,
      rte_billing = Some ''local_user_session'', rte_metadata = [(''localAgentRequired'', JBool True), (''directInvocation'', JBool False)],
      rte_created_at = llm_seed_date, rte_updated_at = llm_seed_date\<rparr>"

definition seed_llm_routes :: "llm_route list" where
  "seed_llm_routes =
     [route_mock_general, route_mock_coder,
      route_mock_conflict, route_mock_registry,
      route_openai_compatible_default, route_anthropic_compatible_skeleton,
      route_gemini_compatible_skeleton, route_bedrock_compatible_skeleton,
      route_vertex_compatible_skeleton, route_azure_compatible_skeleton,
      route_litellm_compatible_skeleton, route_local_cli_claude_code]"

end
