(* ===== verification/LlmGateway.thy ===== *)
theory LlmGateway
  imports LlmCatalog PolicyService
begin

text \<open>
  The gateway of \<open>packages/llm-gateway/src/gateway.ts\<close>: its state, its audit, the catalogue
  operations, the selection of a route with every gate, and the evaluation of the policies.  The HTTP
  client and the policy engine are parameters; the enterprise catalogue is its map from a provider to
  its billing mode.
\<close>

section \<open>State and audit\<close>

record llm_state =
  lg_provider :: llm_provider
  lg_config :: llm_config
  lg_models :: "llm_model list"
  lg_keys :: "virtual_key list"
  lg_routes :: "llm_route list"
  lg_fallbacks :: "llm_fallback_policy list"
  lg_decisions :: "routing_decision list"
  lg_audit :: "llm_audit_event list"
  lg_usage :: "usage_event list option"
  lg_actor :: string
  lg_record_legacy :: bool
  lg_policy :: policy_service
  lg_auth :: "auth_service option"
  lg_billing :: "string \<Rightarrow> string option"

text \<open>A service with the repositories it makes when it is given none.\<close>

definition new_llm_gateway ::
  "llm_provider option \<Rightarrow> llm_config option \<Rightarrow> usage_event list option \<Rightarrow> string option \<Rightarrow> bool option \<Rightarrow>
   policy_service \<Rightarrow> auth_service option \<Rightarrow> (string \<Rightarrow> string option) \<Rightarrow> llm_state" where
  "new_llm_gateway p c usage actor_id legacy policy auth billing =
     \<lparr>lg_provider = opt_default p (MockProvider False),
      lg_config = opt_default c (fst (provider_from_env (\<lambda>_. None) None)), lg_models = seed_llm_models,
      lg_keys = [create_default_virtual_key], lg_routes = seed_llm_routes, lg_fallbacks = [create_default_fallback],
      lg_decisions = [], lg_audit = [], lg_usage = usage, lg_actor = opt_default actor_id ''mock-llm-actor'',
      lg_record_legacy = opt_default legacy False, lg_policy = policy, lg_auth = auth, lg_billing = billing\<rparr>"

definition sanitize_llm :: "jsobj \<Rightarrow> jsobj" where
  "sanitize_llm o' = (case sanitize_security_value [] (JObj o') of JObj p \<Rightarrow> p | _ \<Rightarrow> [])"

type_synonym llm_event_input = "string \<Rightarrow> time \<Rightarrow> llm_audit_event"

definition record_llm_audit :: "draws \<Rightarrow> llm_event_input \<Rightarrow> llm_state \<Rightarrow> llm_state" where
  "record_llm_audit s mk st =
     (let e = mk (fresh_id ''llmaudit'' 0 s) (clock 0 s)
      in st\<lparr>lg_audit := lg_audit st @ [e\<lparr>la_metadata := sanitize_llm (la_metadata e)\<rparr>]\<rparr>)"

text \<open>An event of the gateway itself, and one of a request.\<close>

definition gateway_event ::
  "string \<Rightarrow> string option \<Rightarrow> string \<Rightarrow> string option \<Rightarrow> string option \<Rightarrow> string \<Rightarrow> string option \<Rightarrow> jsobj \<Rightarrow>
   llm_event_input" where
  "gateway_event ty actor_id kind provider_id model_id res reason meta i time =
     \<lparr>la_id = i, la_type = ty, la_task_id = None, la_run_id = None, la_actor_id = actor_id, la_kind = kind,
      la_provider_id = provider_id, la_model_id = model_id, la_result = res, la_reason = reason,
      la_metadata = meta, la_created_at = time\<rparr>"

definition llm_request_event ::
  "llm_request \<Rightarrow> string \<Rightarrow> string \<Rightarrow> string \<Rightarrow> string option \<Rightarrow> string option \<Rightarrow> string \<Rightarrow> string option \<Rightarrow> jsobj \<Rightarrow>
   llm_event_input" where
  "llm_request_event q ty actor_id kind provider_id model_id res reason meta i time =
     \<lparr>la_id = i, la_type = ty, la_task_id = Some (lq_task_id q), la_run_id = Some (lq_run_id q),
      la_actor_id = Some actor_id, la_kind = kind, la_provider_id = provider_id, la_model_id = model_id,
      la_result = res, la_reason = reason, la_metadata = meta, la_created_at = time\<rparr>"

definition caller :: "llm_request \<Rightarrow> llm_state \<Rightarrow> string" where
  "caller q st = opt_default (lq_actor_id q) (lg_actor st)"

definition context_actor :: "llm_request \<Rightarrow> string option" where
  "context_actor q = opt_or (lq_actor_id q) (map_option (\<lambda>c. ac_id (cx_actor c)) (lq_auth q))"

definition routed_caller :: "llm_request \<Rightarrow> llm_state \<Rightarrow> string" where
  "routed_caller q st = opt_default (context_actor q) (lg_actor st)"

section \<open>Catalogue operations\<close>

text \<open>An operation of a repository, then an audit event of its result; a throw is not audited.\<close>

definition catalog_op ::
  "(llm_state \<Rightarrow> 'c) \<Rightarrow> ('c \<Rightarrow> llm_state \<Rightarrow> llm_state) \<Rightarrow> ('c, 'a) op \<Rightarrow> draws \<Rightarrow> ('a \<Rightarrow> llm_state \<Rightarrow> llm_event_input) \<Rightarrow>
   (llm_state, 'a) op" where
  "catalog_op get put m s event st =
     (case m (get st) of
        (Inl e, c) \<Rightarrow> (Inl e, put c st)
      | (Inr x, c) \<Rightarrow> (Inr x, record_llm_audit s (event x st) (put c st)))"

definition create_llm_route :: "draws \<Rightarrow> llm_route \<Rightarrow> time option \<Rightarrow> time option \<Rightarrow> (llm_state, llm_route) op" where
  "create_llm_route s r created updated =
     catalog_op lg_routes (\<lambda>c st. st\<lparr>lg_routes := c\<rparr>) (add_route (sub 0 s) r created updated) (sub 1 s)
       (\<lambda>x _. gateway_event ''llm_route_created'' None (rte_kind x) (Some (rte_provider_id x)) (Some (rte_model_id x))
          ''allowed'' None [(''route_id'', JStr (rte_id x)), (''enabled'', JBool (rte_enabled x)),
            (''requires_remote'', JBool (rte_remote x)), (''requires_secret_ref'', JBool (rte_secret_ref x))])"

definition update_llm_route :: "draws \<Rightarrow> string \<Rightarrow> bool \<Rightarrow> (llm_state, llm_route) op" where
  "update_llm_route s i enabled =
     catalog_op lg_routes (\<lambda>c st. st\<lparr>lg_routes := c\<rparr>) (set_route_enabled (sub 0 s) i enabled) (sub 1 s)
       (\<lambda>x _. gateway_event (if enabled then ''llm_route_enabled'' else ''llm_route_disabled'') None (rte_kind x)
          (Some (rte_provider_id x)) (Some (rte_model_id x)) ''allowed'' None
          [(''route_id'', JStr (rte_id x)), (''enabled'', JBool enabled)])"

definition first_kind :: "string list \<Rightarrow> string" where
  "first_kind ks = (case ks of [] \<Rightarrow> ''mock'' | k # _ \<Rightarrow> k)"

definition create_llm_fallback ::
  "draws \<Rightarrow> llm_fallback_policy \<Rightarrow> time option \<Rightarrow> time option \<Rightarrow> (llm_state, llm_fallback_policy) op" where
  "create_llm_fallback s p created updated =
     catalog_op lg_fallbacks (\<lambda>c st. st\<lparr>lg_fallbacks := c\<rparr>) (add_fallback (sub 0 s) p created updated) (sub 1 s)
       (\<lambda>x _. gateway_event ''llm_fallback_policy_created'' None (first_kind (fbp_allowed_kinds x)) None None
          ''allowed'' None [(''fallback_policy_id'', JStr (fbp_id x)), (''enabled'', JBool (fbp_enabled x)),
            (''max_attempts'', JNum (fbp_max_attempts x))])"

definition register_llm_model :: "draws \<Rightarrow> llm_model \<Rightarrow> time option \<Rightarrow> time option \<Rightarrow> (llm_state, llm_model) op" where
  "register_llm_model s m created updated =
     catalog_op lg_models (\<lambda>c st. st\<lparr>lg_models := c\<rparr>) (register_model (sub 0 s) m created updated) (sub 1 s)
       (\<lambda>x _. gateway_event ''llm_model_registered'' None (lm_kind x) None (Some (lm_id x)) ''allowed'' None
          [(''status'', JStr (lm_status x))])"

definition update_llm_model :: "draws \<Rightarrow> string \<Rightarrow> string \<Rightarrow> (llm_state, llm_model) op" where
  "update_llm_model s i status =
     catalog_op lg_models (\<lambda>c st. st\<lparr>lg_models := c\<rparr>) (update_model_status (sub 0 s) i status) (sub 1 s)
       (\<lambda>x _. gateway_event ''llm_model_status_changed'' None (lm_kind x) None (Some (lm_id x)) ''allowed'' None
          [(''status'', JStr (lm_status x))])"

definition create_virtual_key :: "draws \<Rightarrow> virtual_key \<Rightarrow> string option \<Rightarrow> (llm_state, virtual_key) op" where
  "create_virtual_key s k i =
     catalog_op lg_keys (\<lambda>c st. st\<lparr>lg_keys := c\<rparr>) (create_key (sub 0 s) k i) (sub 1 s)
       (\<lambda>x st. gateway_event ''llm_virtual_key_created'' (Some (lg_actor st)) (first_kind (vky_kinds x)) None None
          ''allowed'' None [(''virtual_key_id'', JStr (vky_id x)), (''owner_kind'', JStr (vky_owner_kind x)),
            (''stores_provider_secret'', JBool False)])"

definition update_virtual_key :: "draws \<Rightarrow> string \<Rightarrow> string \<Rightarrow> (llm_state, virtual_key) op" where
  "update_virtual_key s i status =
     catalog_op lg_keys (\<lambda>c st. st\<lparr>lg_keys := c\<rparr>) (update_key_status (sub 0 s) i status) (sub 1 s)
       (\<lambda>x st. gateway_event ''llm_virtual_key_status_changed'' (Some (lg_actor st)) (first_kind (vky_kinds x)) None
          None ''allowed'' None [(''virtual_key_id'', JStr (vky_id x)), (''status'', JStr (vky_status x))])"

definition validate_llm_connection :: "draws \<Rightarrow> llm_state \<Rightarrow> provider_validation \<times> llm_state" where
  "validate_llm_connection s st =
     (let v = provider_validate (lg_provider st)
      in (v, record_llm_audit s (gateway_event ''llm_connection_validated'' None (pvl_kind v) None None
           (if pvl_ok v then ''allowed'' else ''blocked'') (pvl_reason v) []) st))"

section \<open>Configuration and health\<close>

definition gateway_llm_config :: "llm_state \<Rightarrow> llm_config" where
  "gateway_llm_config st = (lg_config st)\<lparr>lcf_kind := provider_kind_of (lg_provider st)\<rparr>"

definition skeleton_listing :: "string \<Rightarrow> jsobj" where
  "skeleton_listing kind =
     [(''providerKind'', JStr kind), (''default'', JBool False), (''remote'', JBool True), (''enabled'', JBool False),
      (''skeleton'', JBool True), (''reason'', JStr ''provider_not_implemented'')]"

definition list_providers :: "llm_state \<Rightarrow> jsobj list" where
  "list_providers st =
     (let c = lg_config st; kind = provider_kind_of (lg_provider st) in
      [[(''providerKind'', JStr ''mock''), (''default'', JBool (kind = ''mock'')), (''remote'', JBool False),
        (''enabled'', JBool True)],
       [(''providerKind'', JStr ''openai_compatible''), (''default'', JBool (kind = ''openai_compatible'')),
        (''remote'', JBool True), (''enabled'', JBool (lcf_remote c)),
        (''completionEnabled'', JBool (lcf_remote_completion c)), (''baseUrlConfigured'', JBool (lcf_base_url c)),
        (''apiKeyConfigured'', JBool (lcf_api_key c)), (''allowedModelCount'', JNum (of_nat (lcf_model_count c))),
        (''credentialSource'', JStr (lcf_source c)), (''credentialStatus'', JStr (lcf_credential c)),
        (''envSecretProviderEnabled'', JBool (lcf_env_secrets c))]] @
      map skeleton_listing [''anthropic_compatible'', ''gemini_compatible'', ''bedrock_compatible'',
        ''vertex_compatible'', ''azure_compatible'', ''litellm_compatible''] @
      [[(''providerKind'', JStr ''local_cli''), (''default'', JBool False), (''remote'', JBool False),
        (''enabled'', JBool False), (''skeleton'', JBool True), (''localAgentRequired'', JBool True),
        (''reason'', JStr ''local_agent_required'')]])"

definition routing_config :: "llm_state \<Rightarrow> jsobj" where
  "routing_config st =
     (let c = lg_config st; strs = (\<lambda>xs. JArr (map JStr xs)) in
      [(''routingMode'', JStr (lcf_mode c)), (''fallbackEnabled'', JBool (lcf_fallback c)),
       (''maxFallbackAttempts'', JNum (lcf_max_fallback c)), (''allowedProviderKinds'', strs (lcf_allowed_kinds c)),
       (''allowedProviderIds'', strs (lcf_allowed_ids c)), (''deniedProviderIds'', strs (lcf_denied_ids c)),
       (''allowedModels'', strs (lcf_models c)), (''deniedModels'', strs (lcf_denied_models c)),
       (''defaultRouteProviderKind'', JStr ''mock''), (''remoteLlmEnabled'', JBool (lcf_remote c)),
       (''remoteCompletionEnabled'', JBool (lcf_remote_completion c)), (''secretsExposed'', JBool False)])"

definition openai_gates_open :: "llm_config \<Rightarrow> bool" where
  "openai_gates_open c \<longleftrightarrow>
     lcf_remote c \<and> lcf_remote_completion c \<and> lcf_base_url c \<and> lcf_credential c = ''resolved''"

definition provider_health_for :: "string \<Rightarrow> time \<Rightarrow> llm_config \<Rightarrow> provider_health" where
  "provider_health_for kind now c =
     (let h = (\<lambda>i status remote reason meta. \<lparr>phl_provider_id = i, phl_kind = kind, phl_status = status,
            phl_remote = remote, phl_checked_at = now, phl_reason = reason, phl_metadata = meta\<rparr>)
      in if kind = ''mock'' then h ''mock'' ''healthy'' False None []
         else if kind = ''openai_compatible'' then
           h ''openai-api-key'' (if openai_gates_open c then ''healthy'' else ''disabled'') (lcf_remote c)
             (if openai_gates_open c then None else Some ''openai_compatible_gates_not_configured'')
             [(''baseUrlConfigured'', JBool (lcf_base_url c)), (''credentialStatus'', JStr (lcf_credential c)),
              (''skeleton'', JBool False)]
         else if kind = ''local_cli'' then
           h ''local_cli'' ''unavailable'' False (Some ''local_agent_required'')
             [(''directInvocation'', JBool False), (''credentialCacheAccessAllowed'', JBool False)]
         else h kind ''disabled'' False (Some ''provider_not_implemented'')
             [(''skeleton'', JBool True), (''noNetworkCalls'', JBool True)])"

definition list_provider_health :: "draws \<Rightarrow> llm_state \<Rightarrow> provider_health list" where
  "list_provider_health s st =
     map (\<lambda>kind. provider_health_for kind (clock 0 s) (lg_config st))
       (sort_by lex_cmp (first_occurrences (map rte_kind (list_routes (lg_routes st)) @ [''mock'', ''openai_compatible''])))"

section \<open>The request to route\<close>

definition infer_prompt_class :: "string \<Rightarrow> string" where
  "infer_prompt_class prompt =
     (let text = to_lower prompt; has = str_includes text in
      if has ''conflict'' \<or> has ''merge'' then ''conflict_resolution''
      else if has ''registry'' \<or> has ''skill'' \<or> has ''harness'' then ''registry_review''
      else if has ''review'' then ''code_review''
      else if has ''summarize'' \<or> has ''summary'' then ''summarization''
      else if has ''code'' \<or> has ''fix'' \<or> has ''bug'' \<or> has ''implement'' then ''code_generation''
      else if text \<noteq> [] then ''general'' else ''unknown'')"

definition capabilities_for_class :: "string \<Rightarrow> string list" where
  "capabilities_for_class c =
     (if c \<in> {''code_generation'', ''code_review'', ''conflict_resolution'', ''registry_review'', ''summarization''}
      then [''completion'', c] else [''completion''])"

definition fallback_attempts :: "llm_request \<Rightarrow> llm_config \<Rightarrow> num" where
  "fallback_attempts q c = max 0 (min (opt_default (lq_max_fallback q) (lcf_max_fallback c)) (lcf_max_fallback c))"

definition to_routing_request :: "draws \<Rightarrow> llm_request \<Rightarrow> llm_state \<Rightarrow> routing_request" where
  "to_routing_request s q st =
     (let cls = opt_default (lq_prompt_class q) (infer_prompt_class (lq_prompt q)) in
      \<lparr>rtq_id = fresh_id ''llmroute_req'' 0 s, rtq_task_id = lq_task_id q, rtq_run_id = lq_run_id q,
       rtq_actor_id = context_actor q,
       rtq_principal_id = opt_or (lq_principal_id q) (map_option (\<lambda>c. ap_id (cx_principal c)) (lq_auth q)),
       rtq_model_id = lq_model_ref q, rtq_capabilities = opt_default (lq_capabilities q) (capabilities_for_class cls),
       rtq_prompt_class = cls, rtq_priority = ''normal'', rtq_max_fallback = fallback_attempts q (lg_config st),
       rtq_budget_limit = lq_budget_limit q, rtq_metadata = sanitize_llm (opt_default (lq_metadata q) [])\<rparr>)"

definition allowlisted :: "llm_config \<Rightarrow> string \<Rightarrow> llm_model option \<Rightarrow> bool" where
  "allowlisted c i m \<longleftrightarrow>
     lcf_models c = [] \<or> i \<in> set (lcf_models c) \<or>
     (case Option.bind m (\<lambda>m. as_string (obj_get (lm_metadata m) ''remoteModelId'')) of
        None \<Rightarrow> False | Some r \<Rightarrow> r \<in> set (lcf_models c)) \<or>
     (case lcf_default_model c of None \<Rightarrow> False | Some d \<Rightarrow> d \<in> set (lcf_models c))"

definition is_model_allowlisted :: "llm_config \<Rightarrow> llm_model \<Rightarrow> bool" where
  "is_model_allowlisted c m = allowlisted c (lm_id m) (Some m)"

definition is_route_allowlisted :: "llm_route \<Rightarrow> llm_state \<Rightarrow> bool" where
  "is_route_allowlisted r st = allowlisted (lg_config st) (rte_model_id r) (get_model (rte_model_id r) (lg_models st))"

definition config_admits :: "llm_route \<Rightarrow> llm_state \<Rightarrow> bool" where
  "config_admits r st \<longleftrightarrow>
     (let c = lg_config st; kind = rte_kind r in
      \<not> (lcf_mode c = ''mock_only'' \<and> kind \<noteq> ''mock'') \<and>
      \<not> (lcf_mode c = ''single_provider'' \<and> kind \<noteq> ''mock'' \<and> kind \<noteq> lcf_kind c) \<and>
      (lcf_allowed_kinds c = [] \<or> kind \<in> set (lcf_allowed_kinds c)) \<and>
      (lcf_allowed_ids c = [] \<or> rte_provider_id r \<in> set (lcf_allowed_ids c)) \<and>
      rte_provider_id r \<notin> set (lcf_denied_ids c) \<and> rte_model_id r \<notin> set (lcf_denied_models c) \<and>
      (kind = ''mock'' \<or> lcf_models c = [] \<or> is_route_allowlisted r st))"

definition request_admits :: "llm_route \<Rightarrow> llm_request \<Rightarrow> bool" where
  "request_admits r q \<longleftrightarrow>
     (\<not> truthy_str (lq_kind q) \<or> Some (rte_kind r) = lq_kind q) \<and>
     (\<not> truthy_str (lq_provider_id q) \<or> Some (rte_provider_id r) = lq_provider_id q \<or>
        Some (rte_kind r) = lq_provider_id q \<or> rte_kind r = ''mock'') \<and>
     (\<not> truthy_str (lq_model_ref q) \<or> Some (rte_model_id r) = lq_model_ref q)"

definition route_matches_request :: "llm_request \<Rightarrow> routing_request \<Rightarrow> llm_state \<Rightarrow> llm_route \<Rightarrow> bool" where
  "route_matches_request q rr st r \<longleftrightarrow>
     rte_enabled r \<and> config_admits r st \<and> request_admits r q \<and>
     (case get_model (rte_model_id r) (lg_models st) of None \<Rightarrow> False | Some m \<Rightarrow> lm_status m = ''active'') \<and>
     (truthy_str (lq_model_ref q) \<or> rtq_prompt_class rr \<in> set (rte_classes r) \<or> ''unknown'' \<in> set (rte_classes r)) \<and>
     (lq_model_ref q \<noteq> None \<or> list_all (\<lambda>c. c \<in> set (rte_capabilities r)) (rtq_capabilities rr))"

definition no_route_reason :: "llm_request \<Rightarrow> llm_config \<Rightarrow> string" where
  "no_route_reason q c =
     (if lcf_mode c = ''mock_only'' \<and> truthy_str (lq_kind q) \<and> lq_kind q \<noteq> Some ''mock'' then ''routing_mode_mock_only''
      else if truthy_str (lq_model_ref q) \<and> the (lq_model_ref q) \<in> set (lcf_denied_models c) then ''model_denied_by_config''
      else if truthy_str (lq_provider_id q) \<and> the (lq_provider_id q) \<in> set (lcf_denied_ids c)
      then ''provider_denied_by_config''
      else ''no_route_found'')"

section \<open>The budget\<close>

definition budget_limit :: "llm_request \<Rightarrow> virtual_key \<Rightarrow> num option" where
  "budget_limit q k =
     (case (lq_budget_limit q, vky_per_task k) of
        (None, None) \<Rightarrow> None | (Some a, None) \<Rightarrow> Some a | (None, Some b) \<Rightarrow> Some b | (Some a, Some b) \<Rightarrow> Some (min a b))"

definition check_budget :: "draws \<Rightarrow> llm_request \<Rightarrow> llm_model \<Rightarrow> llm_state \<Rightarrow> budget_decision" where
  "check_budget s q m st =
     (let cost = lus_cost (estimate_usage q m);
          decide = (\<lambda>allowed reason remaining. \<lparr>bd_allowed = allowed, bd_reason = reason, bd_task_id = lq_task_id q,
            bd_run_id = lq_run_id q, bd_model_id = lm_id m, bd_kind = lm_kind m, bd_cost = cost,
            bd_remaining = remaining, bd_id = Some (fresh_id ''llmbudget'' 0 s)\<rparr>)
      in case get_key (if truthy_str (lq_key_id q) then the (lq_key_id q) else ''vmk_system_mock'') (lg_keys st) of
           None \<Rightarrow> decide False ''virtual_key_not_found'' None
         | Some k \<Rightarrow>
             if vky_status k \<noteq> ''active'' then decide False ''virtual_key_disabled'' None
             else if \<not> allows_provider k (lm_kind m) then decide False ''provider_not_allowed'' None
             else if lm_id m \<notin> set (vky_models k) then decide False ''model_not_allowed'' None
             else (case budget_limit q k of
               None \<Rightarrow> decide True ''allowed'' None
             | Some l \<Rightarrow> if l < cost then decide False ''budget_exceeded'' (Some (l - cost))
                         else decide True ''allowed'' (Some (l - cost))))"

definition budget_ref :: "budget_decision option \<Rightarrow> string option" where
  "budget_ref b = (case b of None \<Rightarrow> None | Some d \<Rightarrow> opt_or (bd_id d) (Some (bd_reason d)))"

end
