(* ===== verification/LlmRouting.thy ===== *)
theory LlmRouting
  imports LlmGateway
begin

text \<open>
  The selection of a route and the completion of a request, \<open>packages/llm-gateway/src/gateway.ts\<close>:
  the gates of a route in order, the policies of a completion, the provider call, the one fallback,
  usage records, and the legacy entry point of the runner.
\<close>

section \<open>Requests to the policy engine and the authorisation service\<close>

definition llm_policy :: "engine \<Rightarrow> draws \<Rightarrow> policy_request \<Rightarrow> llm_state \<Rightarrow> policy_decision \<times> llm_state" where
  "llm_policy decide s req st =
     (let (d, p) = svc_evaluate decide s req (lg_policy st) in (d, st\<lparr>lg_policy := p\<rparr>))"

definition policy_environment :: "llm_config \<Rightarrow> llm_model \<Rightarrow> budget_decision \<Rightarrow> jsobj" where
  "policy_environment c m b =
     [(''budgetAllowed'', JBool (bd_allowed b)), (''remoteLlmEnabled'', JBool (lcf_remote c)),
      (''remoteCompletionEnabled'', JBool (lcf_remote_completion c)), (''baseUrlConfigured'', JBool (lcf_base_url c)),
      (''credentialsConfigured'', JBool (lcf_api_key c \<or> lcf_openai_configured c)),
      (''credentialSource'', JStr (lcf_source c)), (''credentialStatus'', JStr (lcf_credential c)),
      (''envSecretProviderEnabled'', JBool (lcf_env_secrets c)),
      (''modelAllowlisted'', JBool (lm_kind m = ''mock'' \<or> is_model_allowlisted c m)),
      (''credentialCacheAccessAllowed'', JBool False), (''credentialMaterialStored'', JBool False)]"

definition llm_subject :: "llm_request \<Rightarrow> llm_state \<Rightarrow> policy_subject" where
  "llm_subject q st =
     (case (lq_auth q, lg_auth st) of
        (Some cx, Some a) \<Rightarrow> to_policy_subject cx (as_repo a)
      | _ \<Rightarrow> create_policy_subject (Some (caller q st)) None
               (Some (if truthy_str (lq_actor_id q) then ''user'' else ''service'')) (Some [''system''])
               None None None None None)"

definition llm_context :: "llm_request \<Rightarrow> string \<Rightarrow> string \<Rightarrow> jsobj \<Rightarrow> jsobj \<Rightarrow> policy_context" where
  "llm_context q model_id kind env meta =
     (create_policy_context (Some env) (Some meta))
       \<lparr>ctx_task_id := Some (lq_task_id q), ctx_task_run_id := Some (lq_run_id q), ctx_repo_id := lq_repo_id q,
        ctx_model_id := Some model_id, ctx_provider_kind := Some kind\<rparr>"

definition route_select_request ::
  "llm_request \<Rightarrow> llm_route \<Rightarrow> llm_model \<Rightarrow> budget_decision \<Rightarrow> llm_state \<Rightarrow> policy_request" where
  "route_select_request q r m b st =
     \<lparr>req_subject = llm_subject q st, req_action = ''llm.route.select'',
      req_resource = create_policy_resource ''llm_route'' (Some (rte_id r))
        (Some [(''providerKind'', JStr (rte_kind r)), (''providerId'', JStr (rte_provider_id r)),
          (''modelId'', JStr (lm_id m)), (''status'', JStr (lm_status m))]),
      req_context = llm_context q (lm_id m) (rte_kind r) (policy_environment (lg_config st) m b)
        [(''source'', JStr ''llm_gateway''), (''routeId'', JStr (rte_id r))]\<rparr>"

definition route_check :: "llm_request \<Rightarrow> llm_route \<Rightarrow> llm_model \<Rightarrow> budget_decision \<Rightarrow> auth_context \<Rightarrow> llm_state \<Rightarrow> check_request" where
  "route_check q r m b cx st =
     \<lparr>ck_context = cx, ck_action = ''llm.route.select'',
      ck_resource = \<lparr>ar_kind = ''llm_route'', ar_id = Some (rte_id r), ar_scope = None,
        ar_metadata = Some [(''providerKind'', JStr (rte_kind r)), (''providerId'', JStr (rte_provider_id r)),
          (''modelId'', JStr (lm_id m))]\<rparr>,
      ck_policy_context = Some (llm_context q (lm_id m) (rte_kind r) (policy_environment (lg_config st) m b)
        [(''source'', JStr ''llm_gateway''), (''routeId'', JStr (rte_id r))])\<rparr>"

definition route_authorization ::
  "engine \<Rightarrow> draws \<Rightarrow> llm_request \<Rightarrow> llm_route \<Rightarrow> llm_model \<Rightarrow> budget_decision \<Rightarrow> llm_state \<Rightarrow>
   auth_decision option \<times> llm_state" where
  \<comment> \<open>a request without a context is checked as \<open>mock-admin\<close>\<close>
  "route_authorization decide s q r m b st =
     (case lg_auth st of
        None \<Rightarrow> (None, st)
      | Some a \<Rightarrow>
          (let (cx, a1) = (case lq_auth q of
                 Some cx \<Rightarrow> (cx, a)
               | None \<Rightarrow>
                   (let (cx, repo) = resolve_auth_context (sub 0 s) ''mock-admin''
                          \<lparr>aq_request_id = None, aq_actor_id = Some ''mock-admin'', aq_correlation_id = None,
                           aq_source = Some ''system'', aq_metadata = Some [(''source'', JStr ''llm_gateway''),
                             (''mockGatewayDefault'', JBool True), (''requestedActorId'', of_opt_str (lq_actor_id q))]\<rparr>
                          (as_repo a)
                    in (cx, a\<lparr>as_repo := repo\<rparr>)));
               (d, a2) = auth_check decide (sub 1 s) (route_check q r m b cx st) a1
           in (Some d, st\<lparr>lg_auth := Some a2\<rparr>)))"

section \<open>Routing decisions\<close>

text \<open>What a routing decision is made from, next to the request.\<close>

record decision_input_llm =
  dli_route :: "llm_route option"
  dli_model :: "llm_model option"
  dli_budget :: "budget_decision option"
  dli_policy :: "policy_decision option"
  dli_auth :: "auth_decision option"
  dli_credential :: "string option"
  dli_decision :: string
  dli_reason :: string
  dli_chain :: "string list"
  dli_metadata :: jsobj

definition auth_decision_ref :: "decision_input_llm \<Rightarrow> string option" where
  "auth_decision_ref i = Option.bind (dli_auth i) (\<lambda>d. map_option ae_id (ad_audit_event d))"

definition routing_decision_of :: "draws \<Rightarrow> llm_request \<Rightarrow> routing_request \<Rightarrow> decision_input_llm \<Rightarrow> routing_decision" where
  "routing_decision_of s q rr i =
     \<lparr>rtd_id = fresh_id ''llmroute'' 0 s, rtd_request_id = rtq_id rr,
      rtd_provider_id = map_option rte_provider_id (dli_route i), rtd_kind = map_option rte_kind (dli_route i),
      rtd_model_id = map_option lm_id (dli_model i), rtd_route_id = map_option rte_id (dli_route i),
      rtd_chain = dli_chain i, rtd_decision = dli_decision i, rtd_reason = dli_reason i,
      rtd_policy_id = map_option dec_id (dli_policy i), rtd_budget_id = budget_ref (dli_budget i),
      rtd_credential_id = dli_credential i, rtd_auth_id = auth_decision_ref i, rtd_created_at = clock 1 s,
      rtd_metadata = sanitize_llm (obj_spread (dli_metadata i)
        [(''task_id'', JStr (lq_task_id q)), (''task_run_id'', JStr (lq_run_id q)),
         (''actor_id'', of_opt_str (context_actor q)), (''prompt_class'', JStr (rtq_prompt_class rr))])\<rparr>"

definition routing_event :: "llm_request \<Rightarrow> decision_input_llm \<Rightarrow> routing_decision \<Rightarrow> llm_state \<Rightarrow> llm_event_input" where
  "routing_event q i d st =
     llm_request_event q
       (if dli_decision i = ''selected'' then ''llm_route_selected''
        else if dli_decision i = ''no_route'' then ''llm_no_route_found'' else ''llm_route_blocked'')
       (routed_caller q st)
       (opt_default (opt_or (map_option rte_kind (dli_route i)) (lq_kind q)) ''mock'')
       (opt_or (map_option rte_provider_id (dli_route i)) (lq_provider_id q))
       (opt_or (map_option lm_id (dli_model i)) (lq_model_ref q))
       (if dli_decision i = ''selected'' then ''allowed'' else ''blocked'') (Some (dli_reason i))
       [(''routing_decision_id'', JStr (rtd_id d)), (''route_id'', of_opt_str (map_option rte_id (dli_route i))),
        (''policy_decision_id'', of_opt_str (map_option dec_id (dli_policy i))),
        (''authorization_decision_id'', of_opt_str (auth_decision_ref i)),
        (''budget_decision_id'', of_opt_str (budget_ref (dli_budget i))), (''decision'', JStr (dli_decision i))]"

definition record_routing_decision ::
  "draws \<Rightarrow> llm_request \<Rightarrow> routing_request \<Rightarrow> decision_input_llm \<Rightarrow> llm_state \<Rightarrow> routing_decision \<times> llm_state" where
  "record_routing_decision s q rr i st =
     (let d = routing_decision_of (sub 0 s) q rr i
      in (d, record_llm_audit (sub 1 s) (routing_event q i d st) (st\<lparr>lg_decisions := lg_decisions st @ [d]\<rparr>)))"

section \<open>The gates of a route\<close>

record selection =
  sel_route :: "llm_route option"
  sel_model :: "llm_model option"
  sel_budget :: "budget_decision option"
  sel_decision :: routing_decision

definition select_with ::
  "draws \<Rightarrow> llm_request \<Rightarrow> routing_request \<Rightarrow> decision_input_llm \<Rightarrow> llm_state \<Rightarrow> selection \<times> llm_state" where
  \<comment> \<open>the selection returned with a recorded decision\<close>
  "select_with s q rr i st =
     (let (d, st') = record_routing_decision s q rr i st
      in (\<lparr>sel_route = dli_route i, sel_model = dli_model i, sel_budget = dli_budget i, sel_decision = d\<rparr>, st'))"

definition no_route_input :: "string list \<Rightarrow> nat \<Rightarrow> string \<Rightarrow> decision_input_llm" where
  "no_route_input excluded attempt reason =
     \<lparr>dli_route = None, dli_model = None, dli_budget = None, dli_policy = None, dli_auth = None, dli_credential = None,
      dli_decision = ''no_route'', dli_reason = reason, dli_chain = excluded,
      dli_metadata = [(''fallback_attempt'', JNum (of_nat attempt))]\<rparr>"

definition route_input ::
  "string list \<Rightarrow> nat \<Rightarrow> llm_route \<Rightarrow> llm_model \<Rightarrow> budget_decision option \<Rightarrow> string \<Rightarrow> string \<Rightarrow> jsobj \<Rightarrow> decision_input_llm" where
  "route_input excluded attempt r m b decision reason meta =
     \<lparr>dli_route = Some r, dli_model = Some m, dli_budget = b, dli_policy = None, dli_auth = None, dli_credential = None,
      dli_decision = decision, dli_reason = reason, dli_chain = excluded @ [rte_id r],
      dli_metadata = meta @ [(''fallback_attempt'', JNum (of_nat attempt))]\<rparr>"

definition credentials_missing :: "llm_route \<Rightarrow> llm_config \<Rightarrow> bool" where
  "credentials_missing r c \<longleftrightarrow> rte_secret_ref r \<and> lcf_credential c \<noteq> ''resolved''"

definition credentials_input ::
  "llm_request \<Rightarrow> string list \<Rightarrow> nat \<Rightarrow> llm_route \<Rightarrow> llm_model \<Rightarrow> budget_decision option \<Rightarrow> llm_config \<Rightarrow> decision_input_llm" where
  "credentials_input q excluded attempt r m b c =
     (route_input excluded attempt r m b ''credentials_blocked'' (opt_default (lcf_reason c) (lcf_credential c))
        [(''credential_status'', JStr (lcf_credential c)), (''credential_source'', JStr (lcf_source c))])
     \<lparr>dli_credential := as_string (request_metadata q ''credentialResolutionId'')\<rparr>"

definition health_input ::
  "string list \<Rightarrow> nat \<Rightarrow> llm_route \<Rightarrow> llm_model \<Rightarrow> budget_decision option \<Rightarrow> provider_health \<Rightarrow> decision_input_llm" where
  "health_input excluded attempt r m b h =
     route_input excluded attempt r m b ''provider_unavailable'' (opt_default (phl_reason h) ''provider_unavailable'')
       [(''provider_health_status'', JStr (phl_status h))]"

text \<open>The gates of a candidate, in their order; the last ones run the services.\<close>

definition decide_route ::
  "engine \<Rightarrow> draws \<Rightarrow> llm_request \<Rightarrow> routing_request \<Rightarrow> string list \<Rightarrow> nat \<Rightarrow> llm_route \<Rightarrow> llm_model \<Rightarrow> llm_state \<Rightarrow>
   selection \<times> llm_state" where
  "decide_route decide s q rr excluded attempt r m st =
     (let c = lg_config st; finish = (\<lambda>k i st. select_with (sub k s) q rr i st);
          input = route_input excluded attempt r m;
          health = provider_health_for (rte_kind r) (clock 0 s) c
      in if credentials_missing r c then finish 1 (credentials_input q excluded attempt r m None c) st
         else if rte_kind r = ''local_cli'' then finish 2 (health_input excluded attempt r m None health) st
         else
           (let b = check_budget (sub 3 s) (q\<lparr>lq_provider_id := Some (rte_provider_id r), lq_kind := Some (rte_kind r)\<rparr>) m st
            in if \<not> bd_allowed b then finish 4 (input (Some b) ''budget_blocked'' (bd_reason b) []) st
               else
                 (let (auth, st1) = route_authorization decide (sub 5 s) q r m b st
                  in case (case auth of Some d \<Rightarrow> if ad_allowed d then None else Some d | None \<Rightarrow> None) of
                       Some d \<Rightarrow> finish 6 ((input (Some b) ''policy_blocked'' (ad_reason d)
                         [(''source'', JStr ''authorization_service'')])\<lparr>dli_auth := auth\<rparr>) st1
                     | None \<Rightarrow>
                         (let (pd, st2) = llm_policy decide (sub 7 s) (route_select_request q r m b st1) st1
                          in if \<not> dec_allowed pd
                             then finish 8 ((input (Some b) ''policy_blocked'' (dec_reason pd) [])\<lparr>dli_policy := Some pd\<rparr>) st2
                             else if credentials_missing r c
                             then finish 9 (credentials_input q excluded attempt r m (Some b) c) st2
                             else if phl_status health \<noteq> ''healthy''
                             then finish 10 (health_input excluded attempt r m (Some b) health) st2
                             else finish 11 ((input (Some b) ''selected'' ''route_selected'' [])
                               \<lparr>dli_policy := Some pd, dli_auth := auth\<rparr>) st2))))"

text \<open>The first candidate with a registered model decides.\<close>

fun select_loop ::
  "engine \<Rightarrow> draws \<Rightarrow> llm_request \<Rightarrow> routing_request \<Rightarrow> string list \<Rightarrow> nat \<Rightarrow> llm_route list \<Rightarrow> llm_state \<Rightarrow>
   selection \<times> llm_state" where
  "select_loop decide s q rr excluded attempt [] st =
     select_with (sub 0 s) q rr (no_route_input excluded attempt ''no_selectable_route'') st"
| "select_loop decide s q rr excluded attempt (r # rs) st =
     (case get_model (rte_model_id r) (lg_models st) of
        None \<Rightarrow> select_loop decide s q rr excluded attempt rs st
      | Some m \<Rightarrow> decide_route decide (sub 1 s) q rr excluded attempt r m st)"

definition routing_requested :: "llm_request \<Rightarrow> routing_request \<Rightarrow> nat \<Rightarrow> llm_state \<Rightarrow> llm_event_input" where
  "routing_requested q rr attempt st =
     llm_request_event q (if attempt \<noteq> 0 then ''llm_fallback_started'' else ''llm_routing_requested'') (routed_caller q st)
       (opt_default (lq_kind q) ''mock'') (lq_provider_id q) (lq_model_ref q) ''allowed'' None
       [(''source'', JStr ''llm_gateway''), (''routing_request_id'', JStr (rtq_id rr)),
        (''prompt_class'', JStr (rtq_prompt_class rr)),
        (''requested_capabilities'', JArr (map JStr (rtq_capabilities rr))),
        (''fallback_attempt'', JNum (of_nat attempt))]"

definition candidate_routes :: "llm_request \<Rightarrow> routing_request \<Rightarrow> string list \<Rightarrow> llm_state \<Rightarrow> llm_route list" where
  "candidate_routes q rr excluded st =
     filter (route_matches_request q rr st) (filter (\<lambda>r. rte_id r \<notin> set excluded) (list_routes (lg_routes st)))"

definition inactive_model :: "llm_request \<Rightarrow> llm_state \<Rightarrow> llm_model option" where
  "inactive_model q st =
     (if truthy_str (lq_model_ref q)
      then (case get_model (the (lq_model_ref q)) (lg_models st) of
              None \<Rightarrow> None | Some m \<Rightarrow> if lm_status m \<noteq> ''active'' then Some m else None)
      else None)"

definition select_route_for_request ::
  "engine \<Rightarrow> draws \<Rightarrow> llm_request \<Rightarrow> string list \<Rightarrow> nat \<Rightarrow> llm_state \<Rightarrow> selection \<times> llm_state" where
  "select_route_for_request decide s q excluded attempt st0 =
     (let rr = to_routing_request (sub 0 s) q st0;
          st = record_llm_audit (sub 1 s) (routing_requested q rr attempt st0) st0;
          none = no_route_input (first_occurrences excluded) attempt
      in case inactive_model q st of
           Some m \<Rightarrow> select_with (sub 2 s) q rr
             ((none (''No selectable model satisfies '' @ lm_id m @ ''.''))
                \<lparr>dli_model := Some m, dli_metadata := [(''model_status'', JStr (lm_status m)),
                   (''fallback_attempt'', JNum (of_nat attempt))]\<rparr>) st
         | None \<Rightarrow>
             (let candidates = candidate_routes q rr excluded st
              in if candidates = [] then select_with (sub 3 s) q rr (none (no_route_reason q (lg_config st))) st
                 else select_loop decide (sub 4 s) q rr (first_occurrences excluded) attempt candidates st))"

record route_result =
  rtr_ok :: bool
  rtr_model :: "llm_model option"
  rtr_budget :: "budget_decision option"
  rtr_decision :: routing_decision
  rtr_route :: "llm_route option"
  rtr_reason :: "string option"

definition route_request :: "engine \<Rightarrow> draws \<Rightarrow> llm_request \<Rightarrow> llm_state \<Rightarrow> route_result \<times> llm_state" where
  "route_request decide s q st =
     (let (x, st') = select_route_for_request decide s q [] 0 st; selected = (rtd_decision (sel_decision x) = ''selected'')
      in (\<lparr>rtr_ok = selected, rtr_model = sel_model x, rtr_budget = sel_budget x, rtr_decision = sel_decision x,
           rtr_route = sel_route x, rtr_reason = (if selected then None else Some (rtd_reason (sel_decision x)))\<rparr>, st'))"

section \<open>The policies of a completion\<close>

definition completion_request ::
  "llm_request \<Rightarrow> llm_model \<Rightarrow> budget_decision \<Rightarrow> string \<Rightarrow> string \<Rightarrow> string \<Rightarrow> jsobj \<Rightarrow> llm_state \<Rightarrow> policy_request" where
  "completion_request q m b action kind i meta st =
     \<lparr>req_subject = llm_subject q st, req_action = action, req_resource = create_policy_resource kind (Some i) (Some meta),
      req_context = llm_context q (lm_id m) (lm_kind m) (policy_environment (lg_config st) m b)
        [(''source'', JStr ''llm_gateway'')]\<rparr>"

text \<open>The requests of a completion in order: the first denial is the answer, else the last decision.\<close>

definition completion_requests ::
  "llm_request \<Rightarrow> llm_model \<Rightarrow> budget_decision \<Rightarrow> llm_state \<Rightarrow> policy_request list" where
  "completion_requests q m b st =
     (let kind = [(''providerKind'', JStr (lm_kind m))]; pid = opt_default (lq_provider_id q) (lm_kind m);
          req = (\<lambda>action rk i meta. completion_request q m b action rk i meta st)
      in [req ''llm.model.use'' ''llm_model'' (lm_id m) (kind @ [(''status'', JStr (lm_status m))])] @
         (if lm_kind m = ''mock'' then []
          else [req ''provider.credential.resolve'' ''provider_credential'' pid
                  (kind @ [(''credentialSource'', JStr (lcf_source (lg_config st)))]),
                req ''provider.invoke'' ''llm_provider'' pid kind,
                req ''llm.remote_completion'' ''llm_provider'' (lm_kind m) kind]) @
         [req ''llm.completion'' ''llm_provider'' (lm_kind m) kind])"

fun first_denial ::
  "engine \<Rightarrow> draws \<Rightarrow> nat \<Rightarrow> policy_request \<Rightarrow> policy_request list \<Rightarrow> llm_state \<Rightarrow> policy_decision \<times> llm_state" where
  "first_denial decide s k r [] st = llm_policy decide (sub k s) r st"
| "first_denial decide s k r (r' # rs) st =
     (let (d, st1) = llm_policy decide (sub k s) r st
      in if \<not> dec_allowed d then (d, st1) else first_denial decide s (Suc k) r' rs st1)"

definition evaluate_completion_policy ::
  "engine \<Rightarrow> draws \<Rightarrow> llm_request \<Rightarrow> llm_model \<Rightarrow> budget_decision \<Rightarrow> llm_state \<Rightarrow> policy_decision \<times> llm_state" where
  "evaluate_completion_policy decide s q m b st =
     (let rs = completion_requests q m b st in first_denial decide s 0 (hd rs) (tl rs) st)"

section \<open>Usage\<close>

definition billing_mode :: "llm_request \<Rightarrow> llm_state \<Rightarrow> string option" where
  "billing_mode q st =
     opt_or (Option.bind (opt_or (lq_provider_id q) (as_string (request_metadata q ''providerId'')))
               (\<lambda>i. if i = [] then None else lg_billing st i))
            (as_string (request_metadata q ''billingMode''))"

definition usage_of :: "draws \<Rightarrow> llm_result \<Rightarrow> llm_request \<Rightarrow> llm_state \<Rightarrow> usage_event" where
  "usage_of s x q st =
     \<lparr>uev_id = fresh_id ''usage'' 0 s, uev_task_id = Some (lq_task_id q), uev_run_id = Some (lq_run_id q),
      uev_user_id = caller q st, uev_repo_id = lq_repo_id q, uev_provider = lr_kind x, uev_model = Some (lr_model_id x),
      uev_type = ''llm_call'', uev_input_tokens = Some (lr_input_tokens x), uev_output_tokens = Some (lr_output_tokens x),
      uev_cost = Some (lr_cost x), uev_latency = lr_latency x, uev_skill_version = None, uev_harness_version = None,
      uev_metadata = [(''source'', JStr ''llm_gateway''), (''gateway_request_id'', JStr (lr_id x)),
        (''virtual_key_id'', of_opt_str (lq_key_id q)),
        (''provider_id'', of_opt_str (opt_or (lr_provider_id x) (lq_provider_id q))),
        (''billing_mode'', of_opt_str (billing_mode q st)), (''provider_kind'', JStr (lr_kind x)),
        (''model_id'', JStr (lr_model_id x)), (''route_id'', of_opt_str (as_string (request_metadata q ''routeId''))),
        (''routing_decision_id'', of_opt_str (as_string (request_metadata q ''routingDecisionId''))),
        (''fallback_attempt'', case request_metadata q ''fallbackAttempt'' of JNum n \<Rightarrow> JNum n | _ \<Rightarrow> JNum 0)],
      uev_created_at = clock 1 s\<rparr>"

definition record_llm_usage :: "draws \<Rightarrow> llm_result \<Rightarrow> llm_request \<Rightarrow> llm_state \<Rightarrow> usage_event option \<times> llm_state" where
  "record_llm_usage s x q st =
     (case lg_usage st of
        None \<Rightarrow> (None, st)
      | Some us \<Rightarrow> (let u = usage_of s x q st in (Some u, st\<lparr>lg_usage := Some (us @ [u])\<rparr>)))"

definition list_llm_usage :: "llm_state \<Rightarrow> usage_event list" where
  "list_llm_usage st =
     filter (\<lambda>u. obj_get (uev_metadata u) ''source'' = JStr ''llm_gateway'') (opt_default (lg_usage st) [])"

definition attempt_request :: "llm_request \<Rightarrow> string option \<Rightarrow> string \<Rightarrow> string \<Rightarrow> nat \<Rightarrow> llm_request" where
  "attempt_request q provider_id route_id decision_id attempt =
     q\<lparr>lq_provider_id := provider_id,
       lq_metadata := Some (obj_spread (opt_default (lq_metadata q) [])
         [(''routeId'', JStr route_id), (''routingDecisionId'', JStr decision_id),
          (''fallbackAttempt'', JNum (of_nat attempt))])\<rparr>"

end
