(* ===== verification/LlmCompletion.thy ===== *)
theory LlmCompletion
  imports LlmRouting
begin

text \<open>
  The completion of a request, \<open>packages/llm-gateway/src/gateway.ts\<close>: \<open>completeRoute\<close>, its one
  fallback, and \<open>complete\<close>, the entry point of the runner.
\<close>

section \<open>Outcomes and audit\<close>

record completion_outcome =
  cpo_ok :: bool
  cpo_result :: "llm_result option"
  cpo_usage :: "usage_event option"
  cpo_budget :: "budget_decision option"
  cpo_decision :: "routing_decision option"
  cpo_attempts :: "routing_decision list option"
  cpo_reason :: "string option"

definition completion_failure ::
  "string option \<Rightarrow> budget_decision option \<Rightarrow> routing_decision option \<Rightarrow> routing_decision list option \<Rightarrow>
   completion_outcome" where
  "completion_failure reason b d attempts =
     \<lparr>cpo_ok = False, cpo_result = None, cpo_usage = None, cpo_budget = b, cpo_decision = d,
      cpo_attempts = attempts, cpo_reason = reason\<rparr>"

definition completion_success ::
  "llm_result \<Rightarrow> usage_event option \<Rightarrow> budget_decision \<Rightarrow> routing_decision option \<Rightarrow> routing_decision list option \<Rightarrow>
   completion_outcome" where
  "completion_success x u b d attempts =
     \<lparr>cpo_ok = True, cpo_result = Some x, cpo_usage = u, cpo_budget = Some b, cpo_decision = d,
      cpo_attempts = attempts, cpo_reason = None\<rparr>"

text \<open>An event of a request by its caller; the fallback names the actor of the auth context too.\<close>

definition audit_request ::
  "draws \<Rightarrow> llm_request \<Rightarrow> string \<Rightarrow> string \<Rightarrow> string option \<Rightarrow> string option \<Rightarrow> string \<Rightarrow> string option \<Rightarrow> jsobj \<Rightarrow>
   llm_state \<Rightarrow> llm_state" where
  "audit_request s q ty kind pid mid res reason meta st =
     record_llm_audit s (llm_request_event q ty (caller q st) kind pid mid res reason meta) st"

definition audit_fallback ::
  "draws \<Rightarrow> llm_request \<Rightarrow> string \<Rightarrow> llm_route \<Rightarrow> string \<Rightarrow> string \<Rightarrow> string option \<Rightarrow> jsobj \<Rightarrow> llm_state \<Rightarrow> llm_state" where
  "audit_fallback s q ty r mid res reason meta st =
     record_llm_audit s
       (llm_request_event q ty (routed_caller q st) (rte_kind r) (Some (rte_provider_id r)) (Some mid) res reason meta) st"

definition event_type_for_failure :: "string option \<Rightarrow> string" where
  "event_type_for_failure reason =
     (if \<not> truthy_str reason then ''llm_remote_completion_failed''
      else
        (let has = str_includes (the reason) in
         if has ''disabled'' \<or> has ''missing'' \<or> has ''allowlist'' then ''llm_remote_completion_blocked''
         else if has ''http'' \<or> has ''provider_error'' \<or> has ''timeout'' then ''llm_provider_error''
         else ''llm_remote_completion_failed''))"

definition provider_for_route :: "llm_route \<Rightarrow> llm_state \<Rightarrow> llm_provider" where
  "provider_for_route r st =
     (let kind = rte_kind r in
      if kind = provider_kind_of (lg_provider st) then lg_provider st
      else if kind = ''mock'' then MockProvider False
      else if kind = ''openai_compatible'' then OpenAIProvider default_openai
      else if kind = ''anthropic_compatible'' then anthropic_skeleton
      else if kind = ''gemini_compatible'' then gemini_skeleton
      else if kind = ''bedrock_compatible'' then bedrock_skeleton
      else if kind = ''vertex_compatible'' then vertex_skeleton
      else if kind = ''azure_compatible'' then azure_skeleton
      else if kind = ''litellm_compatible'' then litellm_skeleton
      else if kind = ''local_cli'' then local_cli_skeleton
      else MockProvider True)"

section \<open>A refused route\<close>

definition budget_refused :: "route_result \<Rightarrow> bool" where
  "budget_refused x \<longleftrightarrow> (case rtr_budget x of None \<Rightarrow> False | Some b \<Rightarrow> \<not> bd_allowed b)"

definition refusal_reason :: "route_result \<Rightarrow> string option" where
  "refusal_reason x = opt_or (rtr_reason x) (map_option bd_reason (rtr_budget x))"

definition refusal_type :: "llm_request \<Rightarrow> route_result \<Rightarrow> string" where
  "refusal_type q x =
     (if budget_refused x then ''llm_budget_blocked''
      else if rtd_decision (rtr_decision x) = ''policy_blocked'' \<and>
              opt_or (rtd_kind (rtr_decision x)) (lq_kind q) \<noteq> Some ''mock''
      then ''llm_policy_blocked'' else ''llm_completion_blocked'')"

definition audit_refusal ::
  "draws \<Rightarrow> llm_request \<Rightarrow> route_result \<Rightarrow> string \<Rightarrow> jsobj \<Rightarrow> jsobj \<Rightarrow> llm_state \<Rightarrow> llm_state" where
  \<comment> \<open>a refusal of the budget is audited as such and as a blocked completion\<close>
  "audit_refusal s q x ty meta budget_meta st =
     (let audit = (\<lambda>k ty meta st. audit_request (sub k s) q ty
            (opt_default (opt_or (map_option lm_kind (rtr_model x)) (lq_kind q)) (provider_kind_of (lg_provider st)))
            None (opt_or (map_option lm_id (rtr_model x)) (lq_model_ref q)) ''blocked'' (refusal_reason x) meta st);
          st1 = audit 0 ty meta st
      in if ty = ''llm_budget_blocked'' then audit 1 ''llm_completion_blocked'' budget_meta st1 else st1)"

definition refuse_completion ::
  "draws \<Rightarrow> llm_request \<Rightarrow> route_result \<Rightarrow> llm_state \<Rightarrow> completion_outcome \<times> llm_state" where
  "refuse_completion s q x st =
     (completion_failure (Some (opt_default (refusal_reason x) ''llm_route_blocked'')) (rtr_budget x)
        (Some (rtr_decision x)) None,
      audit_refusal s q x (refusal_type q x) [(''source'', JStr ''llm_gateway'')]
        [(''source'', JStr ''llm_gateway''),
         (''budget_decision_id'', of_opt_str (map_option bd_reason (rtr_budget x)))] st)"

definition admitted :: "route_result \<Rightarrow> (llm_model \<times> budget_decision \<times> llm_route) option" where
  "admitted x =
     (if rtr_ok x then
        (case (rtr_model x, rtr_budget x, rtr_route x) of
           (Some m, Some b, Some r) \<Rightarrow> if bd_allowed b then Some (m, b, r) else None
         | _ \<Rightarrow> None)
      else None)"

section \<open>The fallback\<close>

definition fallback_environment :: "llm_config \<Rightarrow> num \<Rightarrow> llm_route \<Rightarrow> llm_model \<Rightarrow> budget_decision \<Rightarrow> jsobj" where
  "fallback_environment c attempts r m b =
     obj_spread (policy_environment c (m\<lparr>lm_kind := rte_kind r\<rparr>) b)
       [(''fallbackEnabled'', JBool (lcf_fallback c)), (''fallbackWithinLimit'', JBool (0 < attempts)),
        (''budgetAllowed'', JBool (bd_allowed b))]"

definition fallback_subject :: "llm_request \<Rightarrow> llm_state \<Rightarrow> policy_subject" where
  "fallback_subject q st =
     create_policy_subject (Some (routed_caller q st)) None
       (Some (if truthy_str (lq_actor_id q) \<or> lq_auth q \<noteq> None then ''user'' else ''service''))
       (Some (case lq_auth q of Some cx \<Rightarrow> map ro_name (cx_roles cx) | None \<Rightarrow> [''system'']))
       None None None None None"

definition fallback_request ::
  "llm_request \<Rightarrow> llm_route \<Rightarrow> llm_model \<Rightarrow> budget_decision \<Rightarrow> string option \<Rightarrow> llm_state \<Rightarrow> policy_request" where
  "fallback_request q r m b reason st =
     \<lparr>req_subject = fallback_subject q st, req_action = ''llm.fallback'',
      req_resource = create_policy_resource ''llm_fallback_policy''
        (Some (case get_fallback ''fallback_default_bounded'' (lg_fallbacks st) of
           Some p \<Rightarrow> fbp_id p | None \<Rightarrow> ''fallback_default_bounded''))
        (Some [(''failedRouteId'', JStr (rte_id r))]),
      req_context = llm_context q (rte_model_id r) (rte_kind r)
        (fallback_environment (lg_config st) (fallback_attempts q (lg_config st)) r m b)
        [(''source'', JStr ''llm_gateway''), (''failedRouteId'', JStr (rte_id r)), (''reason'', of_opt_str reason)]\<rparr>"

definition fallback_blocked_input :: "llm_route \<Rightarrow> llm_model \<Rightarrow> budget_decision \<Rightarrow> policy_decision \<Rightarrow> decision_input_llm" where
  "fallback_blocked_input r m b pd =
     \<lparr>dli_route = Some r, dli_model = Some m, dli_budget = Some b, dli_policy = Some pd, dli_auth = None,
      dli_credential = None, dli_decision = ''policy_blocked'', dli_reason = dec_reason pd, dli_chain = [rte_id r],
      dli_metadata = [(''fallback_attempt_blocked'', JBool True)]\<rparr>"

definition block_fallback ::
  "draws \<Rightarrow> llm_request \<Rightarrow> llm_route \<Rightarrow> llm_model \<Rightarrow> budget_decision \<Rightarrow> policy_decision \<Rightarrow> llm_state \<Rightarrow>
   completion_outcome \<times> llm_state" where
  "block_fallback s q r m b pd st =
     (let (d, st1) = record_routing_decision (sub 0 s) q (to_routing_request (sub 1 s) q st)
            (fallback_blocked_input r m b pd) st
      in (completion_failure (Some (dec_reason pd)) (Some b) (Some d) (Some [d]),
          audit_fallback (sub 2 s) q ''llm_fallback_attempt_blocked'' r (rte_model_id r) ''blocked''
            (Some (dec_reason pd))
            [(''routing_decision_id'', JStr (rtd_id d)), (''policy_decision_id'', JStr (dec_id pd))] st1))"

definition audit_no_fallback :: "draws \<Rightarrow> llm_request \<Rightarrow> llm_route \<Rightarrow> selection \<Rightarrow> llm_state \<Rightarrow> llm_state" where
  "audit_no_fallback s q failed x st =
     audit_fallback s q ''llm_fallback_attempt_blocked'' (opt_default (sel_route x) failed)
       (opt_default (map_option lm_id (sel_model x)) (rte_model_id failed)) ''blocked''
       (Some (rtd_reason (sel_decision x))) [(''routing_decision_id'', JStr (rtd_id (sel_decision x)))] st"

definition fallback_call ::
  "http_client \<Rightarrow> draws \<Rightarrow> llm_request \<Rightarrow> llm_route \<Rightarrow> llm_model \<Rightarrow> llm_state \<Rightarrow> string + llm_result" where
  "fallback_call http s q r m st =
     create_completion http s (provider_for_route r st)
       (q\<lparr>lq_provider_id := Some (rte_provider_id r), lq_kind := Some (rte_kind r),
          lq_metadata := Some (obj_spread (opt_default (lq_metadata q) []) [(''fallbackAttempt'', JNum 1)])\<rparr>) m"

definition complete_fallback ::
  "http_client \<Rightarrow> draws \<Rightarrow> llm_request \<Rightarrow> llm_route \<Rightarrow> llm_model \<Rightarrow> budget_decision \<Rightarrow> routing_decision \<Rightarrow> llm_state \<Rightarrow>
   completion_outcome \<times> llm_state" where
  "complete_fallback http s q r m b d st =
     (case fallback_call http (sub 0 s) q r m st of
        Inl reason \<Rightarrow>
          (completion_failure (Some reason) (Some b) (Some d) (Some [d]),
           audit_fallback (sub 1 s) q ''llm_fallback_attempt_failed'' r (lm_id m) ''failed'' (Some reason)
             [(''routing_decision_id'', JStr (rtd_id d))] st)
      | Inr x \<Rightarrow>
          (let (u, st1) = record_llm_usage (sub 2 s) x
                 (attempt_request q (Some (rte_provider_id r)) (rte_id r) (rtd_id d) 1) st
           in (completion_success x u b (Some d) (Some [d]),
               audit_fallback (sub 3 s) q ''llm_fallback_attempt_succeeded'' r (lm_id m) ''allowed'' None
                 [(''routing_decision_id'', JStr (rtd_id d)), (''route_id'', JStr (rte_id r)),
                  (''usage_event_id'', of_opt_str (map_option uev_id u))] st1)))"

definition fallback_possible :: "llm_request \<Rightarrow> llm_route \<Rightarrow> llm_state \<Rightarrow> llm_model option" where
  "fallback_possible q failed st =
     (if \<not> lcf_fallback (lg_config st) \<or> fallback_attempts q (lg_config st) = 0 \<or> \<not> rte_fallback failed then None
      else
        (case get_model (rte_model_id failed) (lg_models st) of
           None \<Rightarrow> None
         | Some m \<Rightarrow>
             if \<not> (case get_fallback ''fallback_default_bounded'' (lg_fallbacks st) of
                     Some p \<Rightarrow> fbp_enabled p | None \<Rightarrow> False) \<and> \<not> lcf_fallback (lg_config st)
             then None else Some m))"

definition try_fallback ::
  "http_client \<Rightarrow> engine \<Rightarrow> draws \<Rightarrow> llm_request \<Rightarrow> llm_route \<Rightarrow> budget_decision \<Rightarrow> string option \<Rightarrow> llm_state \<Rightarrow>
   completion_outcome option \<times> llm_state" where
  "try_fallback http decide s q failed b reason st =
     (case fallback_possible q failed st of
        None \<Rightarrow> (None, st)
      | Some m \<Rightarrow>
          (let (pd, st1) = llm_policy decide (sub 0 s) (fallback_request q failed m b reason st) st
           in if \<not> dec_allowed pd
              then (let (x, st2) = block_fallback (sub 1 s) q failed m b pd st1 in (Some x, st2))
              else
                (let (x, st2) = select_route_for_request decide (sub 2 s) q [rte_id failed] 1 st1; d = sel_decision x
                 in case (if rtd_decision d = ''selected'' then (sel_route x, sel_model x, sel_budget x)
                          else (None, None, None)) of
                      (Some r, Some m', Some b') \<Rightarrow>
                        (let (y, st3) = complete_fallback http (sub 3 s) q r m' b' d st2 in (Some y, st3))
                    | _ \<Rightarrow>
                        (Some (completion_failure (Some (rtd_reason d)) (sel_budget x) (Some d) (Some [d])),
                         audit_no_fallback (sub 4 s) q failed x st2))))"

section \<open>Completing a request\<close>

definition audit_policy_block ::
  "draws \<Rightarrow> llm_request \<Rightarrow> llm_model \<Rightarrow> policy_decision \<Rightarrow> jsobj \<Rightarrow> jsobj \<Rightarrow> llm_state \<Rightarrow> llm_state" where
  "audit_policy_block s q m pd pre_meta post_meta st =
     audit_request s q (if lm_kind m = ''mock'' then ''llm_completion_blocked'' else ''llm_policy_blocked'') (lm_kind m)
       (lq_provider_id q) (Some (lm_id m)) ''blocked'' (Some (dec_reason pd))
       ([(''source'', JStr ''llm_gateway'')] @ pre_meta @ [(''policy_decision_id'', JStr (dec_id pd)),
         (''matched_rule_ids'', JArr (map JStr (dec_matched_rule_ids pd)))] @ post_meta) st"

definition provider_id_entry :: "llm_request \<Rightarrow> jsobj" where
  "provider_id_entry q = [(''provider_id'', of_opt_str (lq_provider_id q))]"

definition audit_remote_request :: "draws \<Rightarrow> llm_request \<Rightarrow> llm_model \<Rightarrow> llm_state \<Rightarrow> llm_state" where
  "audit_remote_request s q m st =
     (let c = lg_config st in
      if lm_kind m = ''mock'' then st
      else audit_request s q ''llm_remote_completion_requested'' (lm_kind m) (lq_provider_id q) (Some (lm_id m))
        ''allowed'' None
        [(''source'', JStr ''llm_gateway''), (''base_url_configured'', JBool (lcf_base_url c)),
         (''api_key_configured'', JBool (lcf_api_key c)),
         (''allowed_model_count'', JNum (of_nat (lcf_model_count c))),
         (''default_model_configured'', JBool (lcf_default_configured c))] st)"

definition audit_failure :: "draws \<Rightarrow> llm_request \<Rightarrow> llm_model \<Rightarrow> string \<Rightarrow> llm_state \<Rightarrow> llm_state" where
  "audit_failure s q m reason st =
     audit_request s q
       (if lm_kind m = ''mock'' then ''llm_completion_blocked'' else event_type_for_failure (Some reason)) (lm_kind m)
       (lq_provider_id q) (Some (lm_id m)) (if lm_kind m = ''mock'' then ''blocked'' else ''failed'') (Some reason)
       [(''source'', JStr ''llm_gateway'')] st"

definition audit_success :: "draws \<Rightarrow> llm_request \<Rightarrow> llm_result \<Rightarrow> jsobj \<Rightarrow> jsobj \<Rightarrow> llm_state \<Rightarrow> llm_state" where
  "audit_success s q x pre_meta post_meta st =
     (let pid = opt_or (lr_provider_id x) (lq_provider_id q) in
      audit_request s q
        (if lr_kind x = ''mock'' then ''llm_completion_succeeded'' else ''llm_remote_completion_completed'') (lr_kind x)
        pid (Some (lr_model_id x)) ''allowed'' None
        ([(''source'', JStr ''llm_gateway''), (''gateway_request_id'', JStr (lr_id x)),
          (''provider_id'', of_opt_str pid)] @ pre_meta @ [(''billing_mode'', of_opt_str (billing_mode q st))] @ post_meta) st)"

definition audit_redaction :: "draws \<Rightarrow> llm_request \<Rightarrow> llm_result \<Rightarrow> llm_state \<Rightarrow> llm_state" where
  "audit_redaction s q x st =
     (if obj_get (lr_metadata x) ''redaction_applied'' = JBool True then
        audit_request s q ''llm_output_redacted'' (lr_kind x) (opt_or (lr_provider_id x) (lq_provider_id q))
          (Some (lr_model_id x)) ''allowed'' None
          [(''source'', JStr ''llm_gateway''), (''gateway_request_id'', JStr (lr_id x))] st
      else st)"

definition provider_id_for_call :: "llm_request \<Rightarrow> llm_route \<Rightarrow> string" where
  "provider_id_for_call q r =
     (if rte_kind r = ''mock'' then opt_default (lq_provider_id q) (rte_provider_id r) else rte_provider_id r)"

definition provider_call ::
  "http_client \<Rightarrow> draws \<Rightarrow> llm_request \<Rightarrow> llm_route \<Rightarrow> llm_model \<Rightarrow> llm_state \<Rightarrow> string + llm_result" where
  "provider_call http s q r m st =
     create_completion http s (provider_for_route r st)
       (q\<lparr>lq_provider_id := Some (provider_id_for_call q r), lq_kind := Some (rte_kind r)\<rparr>) m"

definition finish_completion ::
  "draws \<Rightarrow> llm_request \<Rightarrow> llm_route \<Rightarrow> budget_decision \<Rightarrow> routing_decision \<Rightarrow> llm_result \<Rightarrow> llm_state \<Rightarrow>
   completion_outcome \<times> llm_state" where
  "finish_completion s q r b d x st =
     (let (u, st1) = record_llm_usage (sub 0 s) x
            (attempt_request q (Some (provider_id_for_call q r)) (rte_id r) (rtd_id d) 0) st;
          st2 = audit_success (sub 1 s) q x
            [(''route_id'', JStr (rte_id r)), (''routing_decision_id'', JStr (rtd_id d))]
            [(''usage_event_id'', of_opt_str (map_option uev_id u)), (''estimated_cost_usd'', JNum (lr_cost x))] st1
      in (completion_success x u b (Some d) None, audit_redaction (sub 2 s) q x st2))"

definition fail_completion ::
  "http_client \<Rightarrow> engine \<Rightarrow> draws \<Rightarrow> llm_request \<Rightarrow> llm_model \<Rightarrow> llm_route \<Rightarrow> budget_decision \<Rightarrow> routing_decision \<Rightarrow>
   string \<Rightarrow> llm_state \<Rightarrow> completion_outcome \<times> llm_state" where
  "fail_completion http decide s q m r b d reason st =
     (let (f, st1) = try_fallback http decide (sub 1 s) q r b (Some reason) (audit_failure (sub 0 s) q m reason st)
      in case f of
           None \<Rightarrow> (completion_failure (Some reason) (Some b) (Some d) None, st1)
         | Some x \<Rightarrow>
             (if cpo_ok x then x
              else completion_failure (opt_or (cpo_reason x) (Some reason)) (Some b) (Some d) (cpo_attempts x), st1))"

definition run_completion ::
  "http_client \<Rightarrow> engine \<Rightarrow> draws \<Rightarrow> llm_request \<Rightarrow> llm_model \<Rightarrow> budget_decision \<Rightarrow> llm_route \<Rightarrow> routing_decision \<Rightarrow>
   llm_state \<Rightarrow> completion_outcome \<times> llm_state" where
  "run_completion http decide s q m b r d st =
     (let (pd, st1) = evaluate_completion_policy decide (sub 0 s) q m b st
      in if \<not> dec_allowed pd
         then (completion_failure (Some (dec_reason pd)) (Some b) (Some d) None,
               audit_policy_block (sub 1 s) q m pd (provider_id_entry q) [] st1)
         else
           (let st2 = audit_remote_request (sub 2 s) q m st1
            in case provider_call http (sub 3 s) q r m st2 of
                 Inl reason \<Rightarrow> fail_completion http decide (sub 4 s) q m r b d reason st2
               | Inr x \<Rightarrow> finish_completion (sub 5 s) q r b d x st2))"

definition complete_route ::
  "http_client \<Rightarrow> engine \<Rightarrow> draws \<Rightarrow> llm_request \<Rightarrow> llm_state \<Rightarrow> completion_outcome \<times> llm_state" where
  "complete_route http decide s q st =
     (let (x, st1) = route_request decide (sub 0 s) q st
      in case admitted x of
           None \<Rightarrow> refuse_completion (sub 1 s) q x st1
         | Some (m, b, r) \<Rightarrow> run_completion http decide (sub 2 s) q m b r (rtr_decision x) st1)"

section \<open>The entry point of the runner\<close>

record llm_call_input =
  lci_task_id :: string
  lci_run_id :: string
  lci_user_id :: string
  lci_repo_id :: string
  lci_branch :: string
  lci_agent :: string
  lci_model :: string
  lci_prompt :: string
  lci_skills :: "string list"
  lci_harness :: string
  lci_instructions :: string

definition legacy_flag :: "llm_request \<Rightarrow> jsobj" where
  "legacy_flag q = [(''legacy_runner_call'', JBool (request_metadata q ''legacy_runner_call'' = JBool True))]"

definition legacy_admitted :: "route_result \<Rightarrow> (llm_model \<times> budget_decision) option" where
  "legacy_admitted x =
     (if rtr_ok x then
        (case (rtr_model x, rtr_budget x) of
           (Some m, Some b) \<Rightarrow> if bd_allowed b then Some (m, b) else None
         | _ \<Rightarrow> None)
      else None)"

definition refuse_legacy :: "draws \<Rightarrow> llm_request \<Rightarrow> route_result \<Rightarrow> llm_state \<Rightarrow> completion_outcome \<times> llm_state" where
  "refuse_legacy s q x st =
     (let meta = [(''source'', JStr ''llm_gateway'')] @ legacy_flag q
      in (completion_failure (refusal_reason x) (rtr_budget x) None None,
          audit_refusal s q x (if budget_refused x then ''llm_budget_blocked'' else ''llm_completion_blocked'') meta meta st))"

definition complete_route_without_usage ::
  "http_client \<Rightarrow> engine \<Rightarrow> draws \<Rightarrow> llm_request \<Rightarrow> llm_state \<Rightarrow> completion_outcome \<times> llm_state" where
  "complete_route_without_usage http decide s q st =
     (let (x, st1) = route_request decide (sub 0 s) q st; failed = (\<lambda>reason b. completion_failure (Some reason) (Some b) None None)
      in case legacy_admitted x of
           None \<Rightarrow> refuse_legacy (sub 1 s) q x st1
         | Some (m, b) \<Rightarrow>
             if lm_kind m \<noteq> provider_kind_of (lg_provider st1)
             then (failed ''provider_model_mismatch'' b,
                   audit_request (sub 2 s) q ''llm_completion_blocked'' (lm_kind m) (lq_provider_id q) (Some (lm_id m))
                     ''blocked'' (Some ''provider_model_mismatch'')
                     ([(''source'', JStr ''llm_gateway'')] @ legacy_flag q) st1)
             else
               (let (pd, st2) = evaluate_completion_policy decide (sub 3 s) q m b st1
                in if \<not> dec_allowed pd
                   then (failed (dec_reason pd) b, audit_policy_block (sub 4 s) q m pd [] (provider_id_entry q @ legacy_flag q) st2)
                   else (case create_completion http (sub 5 s) (lg_provider st2) q m of
                     Inl reason \<Rightarrow> (failed reason b, audit_failure (sub 6 s) q m reason st2)
                   | Inr y \<Rightarrow>
                       (completion_success y None b None None,
                        audit_success (sub 7 s) q y [] [(''persisted_usage'', JBool False)] st2))))"

definition runner_request :: "llm_call_input \<Rightarrow> llm_request" where
  "runner_request i =
     \<lparr>lq_task_id = lci_task_id i, lq_run_id = lci_run_id i, lq_actor_id = Some (lci_user_id i),
      lq_principal_id = None, lq_auth = None, lq_model_ref = Some (lci_model i), lq_provider_id = None,
      lq_key_id = None, lq_kind = None, lq_prompt_class = None, lq_capabilities = None, lq_max_fallback = None,
      lq_prompt = lci_prompt i, lq_system = None, lq_tool_context = None, lq_max_tokens = None,
      lq_temperature = None, lq_budget_limit = None, lq_repo_id = Some (lci_repo_id i),
      lq_metadata = Some [(''branch'', JStr (lci_branch i)), (''agent'', JStr (lci_agent i)),
        (''skill_versions'', JArr (map JStr (lci_skills i))), (''harness_version'', JStr (lci_harness i)),
        (''instruction_set_hash'', JStr (lci_instructions i)), (''legacy_runner_call'', JBool True)]\<rparr>"

text \<open>The usage event handed back to the runner, without an id and a date.\<close>

definition runner_usage :: "llm_call_input \<Rightarrow> llm_result \<Rightarrow> jsobj" where
  "runner_usage i x =
     (let skills = join_with '','' (lci_skills i) in
      [(''taskId'', JStr (lci_task_id i)), (''taskRunId'', JStr (lci_run_id i)), (''userId'', JStr (lci_user_id i)),
       (''repoId'', JStr (lci_repo_id i)), (''provider'', JStr (lr_kind x)), (''model'', JStr (lr_model_id x)),
       (''eventType'', JStr ''llm_call''), (''inputTokens'', JNum (lr_input_tokens x)),
       (''outputTokens'', JNum (lr_output_tokens x)), (''costUsd'', JNum (lr_cost x)),
       (''latencyMs'', case lr_latency x of Some n \<Rightarrow> JNum n | None \<Rightarrow> JUndef), (''skillVersion'', JStr skills),
       (''harnessVersion'', JStr (lci_harness i)),
       (''metadata'', JObj [(''task_id'', JStr (lci_task_id i)), (''task_run_id'', JStr (lci_run_id i)),
         (''repo_id'', JStr (lci_repo_id i)), (''branch'', JStr (lci_branch i)), (''agent'', JStr (lci_agent i)),
         (''model'', JStr (lr_model_id x)), (''skill_versions'', JStr skills),
         (''harness_version'', JStr (lci_harness i)), (''instruction_set_hash'', JStr (lci_instructions i)),
         (''gateway_request_id'', JStr (lr_id x)), (''source'', JStr ''llm_gateway'')])])"

definition complete_runner_call ::
  "http_client \<Rightarrow> engine \<Rightarrow> draws \<Rightarrow> llm_call_input \<Rightarrow> llm_state \<Rightarrow> (string + string \<times> jsobj) \<times> llm_state" where
  "complete_runner_call http decide s i st =
     (let q = runner_request i; (x, st1) = complete_route_without_usage http decide (sub 0 s) q st
      in case cpo_result x of
           None \<Rightarrow> (Inl (opt_default (cpo_reason x) ''LLM Gateway completion failed''), st1)
         | Some y \<Rightarrow>
             (Inr (lr_content y, runner_usage i y),
              if lg_record_legacy st1 then snd (record_llm_usage (sub 1 s) y q st1) else st1))"

end
