(* ===== verification/LlmCalls.thy ===== *)
theory LlmCalls
  imports LlmCompletion
begin

text \<open>
  Lemmas on the calls of the LLM gateway: what routing and auditing leave alone, when no provider can
  reach the network, what a selected route has passed, the usage of a call, and the steps that carry
  the fallback policies along unread.
\<close>

section \<open>What routing and auditing leave alone\<close>

text \<open>
  A view of the state that depends on none of the four fields a routing writes: the audit, the services
  of policy and authorisation, and the routing decisions.
\<close>

locale llm_frame =
  fixes view :: "llm_state \<Rightarrow> 'v"
  assumes view_audit: "view (st\<lparr>lg_audit := events\<rparr>) = view st"
    and view_policy: "view (st\<lparr>lg_policy := p\<rparr>) = view st"
    and view_auth: "view (st\<lparr>lg_auth := a\<rparr>) = view st"
    and view_decisions: "view (st\<lparr>lg_decisions := ds\<rparr>) = view st"
begin

lemma frame_record_audit [simp]: "view (record_llm_audit s e st) = view st"
  by (simp add: record_llm_audit_def Let_def view_audit)

lemma frame_policy [simp]: "view (snd (llm_policy decide s r st)) = view st"
  by (simp add: llm_policy_def split_beta Let_def view_policy)

lemma frame_authorization [simp]: "view (snd (route_authorization decide s q r m b st)) = view st"
  by (simp add: route_authorization_def split_beta Let_def view_auth split: option.split)

lemma frame_select_with [simp]: "view (snd (select_with s q rr i st)) = view st"
  by (simp add: select_with_def record_routing_decision_def split_beta Let_def view_decisions)

lemma frame_decide_route [simp]: "view (snd (decide_route decide s q rr excluded attempt r m st)) = view st"
  by (simp add: decide_route_def split_beta Let_def split: option.split)

lemma frame_select_loop [simp]: "view (snd (select_loop decide s q rr excluded attempt rs st)) = view st"
  by (induction rs) (auto split: option.split)

lemma frame_select_route [simp]: "view (snd (select_route_for_request decide s q excluded attempt st)) = view st"
  by (simp add: select_route_for_request_def Let_def split: option.split)

lemma frame_route_request [simp]: "view (snd (route_request decide s q st)) = view st"
  by (simp add: route_request_def split_beta Let_def)

lemma frame_first_denial [simp]: "view (snd (first_denial decide s k r rs st)) = view st"
  by (induction rs arbitrary: k r st) (simp_all add: split_beta Let_def)

lemma frame_completion_policy [simp]: "view (snd (evaluate_completion_policy decide s q m b st)) = view st"
  by (simp add: evaluate_completion_policy_def Let_def)

lemma frame_request_audits [simp]:
  "view (audit_request s q ty kind pid mid res reason meta st) = view st"
  "view (audit_fallback s q ty' r mid' res reason meta st) = view st"
  "view (audit_failure s q m why st) = view st"
  "view (audit_remote_request s q m st) = view st"
  "view (audit_policy_block s q m pd pre_meta post_meta st) = view st"
  "view (audit_success s q x pre_meta post_meta st) = view st"
  "view (audit_redaction s q x st) = view st"
  "view (audit_no_fallback s q failed sel st) = view st"
  "view (audit_refusal s q rx ty meta bmeta st) = view st"
  by (simp_all add: audit_request_def audit_fallback_def audit_failure_def audit_remote_request_def
      audit_policy_block_def audit_success_def audit_redaction_def audit_no_fallback_def audit_refusal_def Let_def)

lemma frame_block_fallback [simp]: "view (snd (block_fallback s q r m b pd st)) = view st"
  by (simp add: block_fallback_def record_routing_decision_def split_beta Let_def view_decisions)

end

interpretation provider_frame: llm_frame lg_provider by unfold_locales simp_all

interpretation config_frame: llm_frame lg_config by unfold_locales simp_all

interpretation models_frame: llm_frame lg_models by unfold_locales simp_all

interpretation routes_frame: llm_frame lg_routes by unfold_locales simp_all

interpretation keys_frame: llm_frame lg_keys by unfold_locales simp_all

interpretation usage_frame: llm_frame lg_usage by unfold_locales simp_all

section \<open>The network\<close>

fun network_closed :: "llm_provider \<Rightarrow> bool" where
  "network_closed (OpenAIProvider p) \<longleftrightarrow>
     \<not> (ops_remote p \<and> ops_completion p \<and> truthy_str (ops_base_url p) \<and> truthy_str (ops_api_key p))"
| "network_closed _ \<longleftrightarrow> True"

lemma closed_provider_blind:
  "network_closed p \<Longrightarrow> create_completion http s p q m = create_completion http' s p q m"
  by (cases p) (auto simp: openai_completion_call_def)

lemma closed_route_provider: "network_closed (lg_provider st) \<Longrightarrow> network_closed (provider_for_route r st)"
  by (auto simp: provider_for_route_def Let_def default_openai_def anthropic_skeleton_def gemini_skeleton_def
      bedrock_skeleton_def vertex_skeleton_def azure_skeleton_def litellm_skeleton_def local_cli_skeleton_def)

lemma blind_calls:
  assumes "network_closed (lg_provider st)"
  shows "provider_call http s q r m st = provider_call http' s q r m st"
    and "fallback_call http s q r m st = fallback_call http' s q r m st"
  using closed_provider_blind[OF closed_route_provider[OF assms], of http _ r _ _ http']
  by (simp_all add: provider_call_def fallback_call_def)

lemma blind_fallback:
  assumes "network_closed (lg_provider st)"
  shows "try_fallback http decide s q r b reason st = try_fallback http' decide s q r b reason st"
proof -
  have "complete_fallback http s q r m b d st1 = complete_fallback http' s q r m b d st1"
    if "lg_provider st1 = lg_provider st" for s r m b d st1
    using blind_calls(2)[of st1 http _ q r m http'] assms that by (simp add: complete_fallback_def)
  then show ?thesis
    by (simp add: try_fallback_def split_beta Let_def split: option.split)
qed

lemma blind_run:
  assumes "network_closed (lg_provider st)"
  shows "run_completion http decide s q m b r d st = run_completion http' decide s q m b r d st"
proof -
  have call: "provider_call http s q r m st1 = provider_call http' s q r m st1"
    if "lg_provider st1 = lg_provider st" for s st1
    using blind_calls(1)[of st1 http s q r m http'] assms that by simp
  have "fail_completion http decide s q m r b d reason st1 = fail_completion http' decide s q m r b d reason st1"
    if "lg_provider st1 = lg_provider st" for s reason st1
    using blind_fallback[of "audit_failure (sub 0 s) q m reason st1" http decide "sub 1 s" q r b "Some reason" http']
      assms that by (simp add: fail_completion_def)
  then show ?thesis
    by (simp add: run_completion_def split_beta Let_def call split: sum.split)
qed

lemma blind_complete_route:
  "network_closed (lg_provider st) \<Longrightarrow> complete_route http decide s q st = complete_route http' decide s q st"
  using blind_run[of "snd (route_request decide (sub 0 s) q st)" http decide _ q _ _ _ _ http']
  by (simp add: complete_route_def split_beta split: option.split)

lemma blind_runner_call:
  assumes "network_closed (lg_provider st)"
  shows "complete_runner_call http decide s i st = complete_runner_call http' decide s i st"
proof -
  have "complete_route_without_usage http decide s q st = complete_route_without_usage http' decide s q st" for s q
    using closed_provider_blind[OF assms, of http _ q _ http']
    by (simp add: complete_route_without_usage_def split_beta Let_def split: option.split)
  then show ?thesis
    by (simp add: complete_runner_call_def)
qed


definition llm_env_gates_open :: "environment \<Rightarrow> credential_resolver option \<Rightarrow> bool" where
  "llm_env_gates_open env resolver \<longleftrightarrow>
     env_flag env ''AICHESTRA_ENABLE_REMOTE_LLM'' \<and> env_flag env ''AICHESTRA_ALLOW_REMOTE_LLM_COMPLETION'' \<and>
     truthy_str (env ''AICHESTRA_LLM_BASE_URL'') \<and>
     truthy_str (lcd_value (fst (resolve_llm_credential (llm_config_from_env env) env resolver)))"

lemma env_provider_closed:
  assumes "\<not> llm_env_gates_open env resolver"
  shows "network_closed (fst (snd (provider_from_env env resolver)))"
proof -
  define c where "c = llm_config_from_env env"
  have c: "lcf_remote c = env_flag env ''AICHESTRA_ENABLE_REMOTE_LLM''"
    "lcf_remote_completion c = env_flag env ''AICHESTRA_ALLOW_REMOTE_LLM_COMPLETION''"
    by (simp_all add: c_def llm_config_from_env_def Let_def)
  show ?thesis
    using assms
    by (auto simp: provider_from_env_def provider_from_config_def llm_env_gates_open_def resolve_llm_credential_def
        split_beta Let_def c simp flip: c_def split: if_splits)
qed

section \<open>What a selected route has passed\<close>

definition within_budget :: "llm_request \<Rightarrow> llm_model \<Rightarrow> llm_state \<Rightarrow> bool" where
  "within_budget q m st \<longleftrightarrow>
     (case get_key (if truthy_str (lq_key_id q) then the (lq_key_id q) else ''vmk_system_mock'') (lg_keys st) of
        None \<Rightarrow> False
      | Some k \<Rightarrow> vky_status k = ''active'' \<and> allows_provider k (lm_kind m) \<and> lm_id m \<in> set (vky_models k) \<and>
          (case lq_budget_limit q of None \<Rightarrow> True | Some l \<Rightarrow> lus_cost (estimate_usage q m) \<le> l) \<and>
          (case vky_per_task k of None \<Rightarrow> True | Some l \<Rightarrow> lus_cost (estimate_usage q m) \<le> l))"

lemma allowed_budget_within: "bd_allowed (check_budget s q m st) = within_budget q m st"
proof (cases "get_key (if truthy_str (lq_key_id q) then the (lq_key_id q) else ''vmk_system_mock'') (lg_keys st)")
  case None
  then show ?thesis
    unfolding check_budget_def within_budget_def Let_def None by simp
next
  case (Some k)
  show ?thesis
    unfolding check_budget_def within_budget_def Let_def Some option.case
    by (cases "lq_budget_limit q"; cases "vky_per_task k") (simp_all add: budget_limit_def not_less min_def)
qed

lemma within_budget_provider [simp]:
  "within_budget (q\<lparr>lq_provider_id := p, lq_kind := k\<rparr>) m st = within_budget q m st"
proof -
  have "estimate_usage (q\<lparr>lq_provider_id := p, lq_kind := k\<rparr>) m = estimate_usage q m"
    by (simp add: estimate_usage_def prompt_text_def)
  then show ?thesis
    unfolding within_budget_def by (simp split: option.split)
qed

lemma select_with_fields [simp]:
  "sel_route (fst (select_with s q rr i st)) = dli_route i"
  "sel_model (fst (select_with s q rr i st)) = dli_model i"
  "sel_budget (fst (select_with s q rr i st)) = dli_budget i"
  "rtd_decision (sel_decision (fst (select_with s q rr i st))) = dli_decision i"
  by (simp_all add: select_with_def record_routing_decision_def routing_decision_of_def split_beta Let_def)

lemma decision_inputs [simp]:
  "dli_route (route_input ex n r m b d why meta) = Some r"
  "dli_model (route_input ex n r m b d why meta) = Some m"
  "dli_budget (route_input ex n r m b d why meta) = b"
  "dli_decision (route_input ex n r m b d why meta) = d"
  "dli_decision (credentials_input q ex n r m b c) = ''credentials_blocked''"
  "dli_decision (health_input ex n r m b h) = ''provider_unavailable''"
  "dli_decision (no_route_input ex n why) = ''no_route''"
  by (simp_all add: route_input_def credentials_input_def health_input_def no_route_input_def)

lemma healthy_kind:
  "phl_status (provider_health_for kind now c) = ''healthy'' \<longleftrightarrow>
     kind = ''mock'' \<or> kind = ''openai_compatible'' \<and> openai_gates_open c"
  by (simp add: provider_health_for_def Let_def)

text \<open>
  The services that clear a route: the authorisation service asked in the state of the call, and the
  policy engine asked in the state that leaves.  The draws only give ids and dates.
\<close>

definition authorised_route ::
  "engine \<Rightarrow> llm_request \<Rightarrow> llm_route \<Rightarrow> llm_model \<Rightarrow> budget_decision \<Rightarrow> llm_state \<Rightarrow> bool" where
  "authorised_route decide q r m b st \<longleftrightarrow>
     lg_auth st = None \<or>
     (\<exists>s d. fst (route_authorization decide s q r m b st) = Some d \<and> ad_allowed d)"

definition permitted_route ::
  "engine \<Rightarrow> llm_request \<Rightarrow> llm_route \<Rightarrow> llm_model \<Rightarrow> budget_decision \<Rightarrow> llm_state \<Rightarrow> bool" where
  "permitted_route decide q r m b st \<longleftrightarrow>
     (\<exists>s s' st1. st1 = snd (route_authorization decide s' q r m b st) \<and>
        dec_allowed (fst (llm_policy decide s (route_select_request q r m b st1) st1)))"

lemma route_authorization_audit:
  "route_authorization decide s q r m b (st\<lparr>lg_audit := x\<rparr>) =
     (fst (route_authorization decide s q r m b st), (snd (route_authorization decide s q r m b st))\<lparr>lg_audit := x\<rparr>)"
  by (simp add: route_authorization_def route_check_def split_beta Let_def split: option.split)

lemma authorised_through_audit:
  "authorised_route decide q r m b (record_llm_audit s e st) = authorised_route decide q r m b st"
  by (simp add: authorised_route_def record_llm_audit_def Let_def route_authorization_audit)

lemma permitted_through_audit:
  "permitted_route decide q r m b (record_llm_audit s e st) = permitted_route decide q r m b st"
  by (simp add: permitted_route_def record_llm_audit_def Let_def route_authorization_audit llm_policy_def
      svc_evaluate_def route_select_request_def llm_subject_def caller_def split_beta cong: option.case_cong)

lemma decide_route_authorised:
  assumes "case fst (route_authorization decide s q r m b st) of Some d \<Rightarrow> ad_allowed d | None \<Rightarrow> True"
  shows "authorised_route decide q r m b st"
proof (cases "fst (route_authorization decide s q r m b st)")
  case None
  then show ?thesis
    by (auto simp: authorised_route_def route_authorization_def split_beta Let_def split: option.splits)
next
  case (Some d)
  then show ?thesis
    using assms unfolding authorised_route_def by auto
qed

definition cleared_route ::
  "engine \<Rightarrow> llm_request \<Rightarrow> llm_route \<Rightarrow> llm_model \<Rightarrow> budget_decision \<Rightarrow> llm_state \<Rightarrow> bool" where
  "cleared_route decide q r m b st \<longleftrightarrow>
     bd_allowed b \<and> within_budget q m st \<and> \<not> credentials_missing r (lg_config st) \<and>
     (rte_kind r = ''mock'' \<or> rte_kind r = ''openai_compatible'' \<and> openai_gates_open (lg_config st)) \<and>
     authorised_route decide q r m b st \<and> permitted_route decide q r m b st"

lemma decide_route_selected:
  assumes "rtd_decision (sel_decision (fst (decide_route decide s q rr ex n r m st))) = ''selected''"
  shows "\<exists>b. sel_route (fst (decide_route decide s q rr ex n r m st)) = Some r \<and>
    sel_model (fst (decide_route decide s q rr ex n r m st)) = Some m \<and>
    sel_budget (fst (decide_route decide s q rr ex n r m st)) = Some b \<and> cleared_route decide q r m b st"
proof -
  define b where "b = check_budget (sub 3 s) (q\<lparr>lq_provider_id := Some (rte_provider_id r), lq_kind := Some (rte_kind r)\<rparr>) m st"
  let ?auth = "route_authorization decide (sub 5 s) q r m b st"
  let ?pd = "llm_policy decide (sub 7 s) (route_select_request q r m b (snd ?auth)) (snd ?auth)"
  have gates: "\<not> credentials_missing r (lg_config st)" "rte_kind r \<noteq> ''local_cli''" "bd_allowed b"
    "case fst ?auth of Some d \<Rightarrow> ad_allowed d | None \<Rightarrow> True" "dec_allowed (fst ?pd)"
    "phl_status (provider_health_for (rte_kind r) (clock 0 s) (lg_config st)) = ''healthy''"
    using assms unfolding decide_route_def Let_def split_beta b_def[symmetric]
    by (auto split: if_splits option.splits)
  have "sel_route (fst (decide_route decide s q rr ex n r m st)) = Some r \<and>
    sel_model (fst (decide_route decide s q rr ex n r m st)) = Some m \<and>
    sel_budget (fst (decide_route decide s q rr ex n r m st)) = Some b"
    using gates unfolding decide_route_def Let_def split_beta b_def[symmetric] by (simp split: option.splits)
  moreover have "permitted_route decide q r m b st"
    using gates(5) unfolding permitted_route_def by blast
  ultimately show ?thesis
    using gates decide_route_authorised[OF gates(4)] allowed_budget_within[of "sub 3 s" _ m st]
    by (auto simp: cleared_route_def healthy_kind b_def)
qed


lemma select_loop_selected:
  assumes "rtd_decision (sel_decision (fst (select_loop decide s q rr ex n rs st))) = ''selected''"
  shows "\<exists>r m b. r \<in> set rs \<and> get_model (rte_model_id r) (lg_models st) = Some m \<and>
    sel_route (fst (select_loop decide s q rr ex n rs st)) = Some r \<and>
    sel_model (fst (select_loop decide s q rr ex n rs st)) = Some m \<and>
    sel_budget (fst (select_loop decide s q rr ex n rs st)) = Some b \<and> cleared_route decide q r m b st"
  using assms
proof (induction rs)
  case (Cons r rs)
  show ?case
  proof (cases "get_model (rte_model_id r) (lg_models st)")
    case None
    then show ?thesis using Cons by auto
  next
    case (Some m)
    then show ?thesis using Cons.prems decide_route_selected[of decide "sub 1 s" q rr ex n r m st] by auto
  qed
qed simp

lemma view_through_audit:
  "route_matches_request q rr (record_llm_audit s e st) r = route_matches_request q rr st r"
  "within_budget q m (record_llm_audit s e st) = within_budget q m st"
  "lg_auth (record_llm_audit s e st) = lg_auth st"
  by (simp_all add: record_llm_audit_def Let_def route_matches_request_def config_admits_def is_route_allowlisted_def
      within_budget_def)

lemma cleared_through_audit:
  "cleared_route decide q r m b (record_llm_audit s e st) = cleared_route decide q r m b st"
  by (simp add: cleared_route_def authorised_through_audit permitted_through_audit view_through_audit)

lemma select_route_selected:
  assumes "rtd_decision (sel_decision (fst (select_route_for_request decide s q ex n st))) = ''selected''"
  shows "\<exists>r m b. r \<in> set (list_routes (lg_routes st)) \<and> rte_id r \<notin> set ex \<and>
    route_matches_request q (to_routing_request (sub 0 s) q st) st r \<and>
    get_model (rte_model_id r) (lg_models st) = Some m \<and>
    sel_route (fst (select_route_for_request decide s q ex n st)) = Some r \<and>
    sel_model (fst (select_route_for_request decide s q ex n st)) = Some m \<and>
    sel_budget (fst (select_route_for_request decide s q ex n st)) = Some b \<and> cleared_route decide q r m b st"
proof -
  define rr where "rr = to_routing_request (sub 0 s) q st"
  define st1 where "st1 = record_llm_audit (sub 1 s) (routing_requested q rr n st) st"
  have "inactive_model q st1 = None" "candidate_routes q rr ex st1 \<noteq> []"
    using assms unfolding select_route_for_request_def Let_def rr_def[symmetric] st1_def[symmetric]
    by (auto split: option.splits if_splits)
  then have eq: "select_route_for_request decide s q ex n st =
      select_loop decide (sub 4 s) q rr (first_occurrences ex) n (candidate_routes q rr ex st1) st1"
    unfolding select_route_for_request_def Let_def rr_def[symmetric] st1_def[symmetric] by simp
  show ?thesis
    using select_loop_selected[of decide "sub 4 s" q rr "first_occurrences ex" n "candidate_routes q rr ex st1" st1]
      assms unfolding eq rr_def[symmetric]
    by (auto simp: candidate_routes_def st1_def view_through_audit cleared_through_audit)
qed

lemma selected_route_facts:
  assumes "rtr_ok (fst (route_request decide s q st))"
  shows "\<exists>r m b. rtr_route (fst (route_request decide s q st)) = Some r \<and>
    rtr_model (fst (route_request decide s q st)) = Some m \<and>
    rtr_budget (fst (route_request decide s q st)) = Some b \<and>
    r \<in> set (lg_routes st) \<and> rte_enabled r \<and> config_admits r st \<and> request_admits r q \<and>
    get_model (rte_model_id r) (lg_models st) = Some m \<and> lm_status m = ''active'' \<and>
    bd_allowed b \<and> within_budget q m st \<and> \<not> credentials_missing r (lg_config st) \<and>
    (rte_kind r = ''mock'' \<or> rte_kind r = ''openai_compatible'' \<and> openai_gates_open (lg_config st)) \<and>
    authorised_route decide q r m b st \<and> permitted_route decide q r m b st"
proof -
  have "rtd_decision (sel_decision (fst (select_route_for_request decide s q [] 0 st))) = ''selected''"
    using assms by (simp add: route_request_def split_beta Let_def)
  from select_route_selected[OF this] show ?thesis
    by (auto simp: route_request_def split_beta Let_def list_routes_def route_matches_request_def cleared_route_def)
qed

section \<open>Usage\<close>

lemma record_usage_appends:
  "lg_usage st = Some us \<Longrightarrow>
     record_llm_usage s x q st = (Some (usage_of s x q st), st\<lparr>lg_usage := Some (us @ [usage_of s x q st])\<rparr>)"
  by (simp add: record_llm_usage_def Let_def)

text \<open>A call either succeeds and appends the usage of its result, or fails and appends none.\<close>

definition usage_recorded :: "llm_request \<Rightarrow> usage_event list \<Rightarrow> completion_outcome \<Rightarrow> llm_state \<Rightarrow> bool" where
  "usage_recorded q us x st \<longleftrightarrow>
     (if cpo_ok x
      then (\<exists>y u. cpo_result x = Some y \<and> cpo_usage x = Some u \<and> lg_usage st = Some (us @ [u]) \<and>
              uev_task_id u = Some (lq_task_id q) \<and> uev_run_id u = Some (lq_run_id q) \<and>
              uev_model u = Some (lr_model_id y) \<and> uev_provider u = lr_kind y \<and>
              uev_input_tokens u = Some (lr_input_tokens y) \<and> uev_output_tokens u = Some (lr_output_tokens y) \<and>
              uev_cost u = Some (lr_cost y))
      else cpo_result x = None \<and> cpo_usage x = None \<and> lg_usage st = Some us)"

lemma outcome_fields [simp]:
  "\<not> cpo_ok (completion_failure why b d a)" "cpo_result (completion_failure why b d a) = None"
  "cpo_usage (completion_failure why b d a) = None" "cpo_ok (completion_success x u b' d a)"
  "cpo_result (completion_success x u b' d a) = Some x" "cpo_usage (completion_success x u b' d a) = u"
  by (simp_all add: completion_failure_def completion_success_def)

lemma usage_of_failure [simp]:
  "usage_recorded q us (completion_failure why b d a) st \<longleftrightarrow> lg_usage st = Some us"
  by (simp add: usage_recorded_def)

lemma block_fallback_outcome [simp]:
  "\<not> cpo_ok (fst (block_fallback s q r m b pd st))" "cpo_result (fst (block_fallback s q r m b pd st)) = None"
  "cpo_usage (fst (block_fallback s q r m b pd st)) = None"
  by (simp_all add: block_fallback_def split_beta Let_def)

lemma usage_complete_fallback:
  assumes "lg_usage st = Some us"
  shows "usage_recorded q us (fst (complete_fallback http s q r m b d st)) (snd (complete_fallback http s q r m b d st))"
  by (auto simp: complete_fallback_def usage_recorded_def record_usage_appends[OF assms] usage_of_def attempt_request_def
      assms split_beta Let_def split: sum.split)

lemma usage_try_fallback:
  assumes "lg_usage st = Some us"
  shows "case fst (try_fallback http decide s q r b why st) of
      None \<Rightarrow> lg_usage (snd (try_fallback http decide s q r b why st)) = Some us
    | Some x \<Rightarrow> usage_recorded q us x (snd (try_fallback http decide s q r b why st))"
proof -
  have fallback: "usage_recorded q us (fst (complete_fallback http s q r m b d st1)) (snd (complete_fallback http s q r m b d st1))"
    if "lg_usage st1 = lg_usage st" for s r m b d st1
    using usage_complete_fallback[of st1 us] that assms by simp
  have failure: "usage_recorded q us (completion_failure why b d a) st1" if "lg_usage st1 = lg_usage st" for why b d a st1
    using that assms by (simp add: usage_recorded_def)
  have blocked: "usage_recorded q us (fst (block_fallback s q r m b pd st1)) (snd (block_fallback s q r m b pd st1))"
    if "lg_usage st1 = lg_usage st" for s m pd st1
    using that assms by (simp add: usage_recorded_def)
  show ?thesis
    using assms by (auto simp: try_fallback_def split_beta Let_def fallback failure blocked split: option.split)
qed


lemma usage_run_completion:
  assumes "lg_usage st = Some us"
  shows "usage_recorded q us (fst (run_completion http decide s q m b r d st)) (snd (run_completion http decide s q m b r d st))"
proof -
  have finish: "usage_recorded q us (fst (finish_completion s q r b d x st1)) (snd (finish_completion s q r b d x st1))"
    if "lg_usage st1 = Some us" for s x st1
    by (simp add: finish_completion_def usage_recorded_def record_usage_appends[OF that] usage_of_def attempt_request_def
        Let_def)
  have fail: "usage_recorded q us (fst (fail_completion http decide s q m r b d why st1))
      (snd (fail_completion http decide s q m r b d why st1))" if "lg_usage st1 = Some us" for s why st1
    using usage_try_fallback[of "audit_failure (sub 0 s) q m why st1" us http decide "sub 1 s" q r b "Some why"] that
    by (auto simp: fail_completion_def split_beta usage_recorded_def split: option.split if_split_asm)
  show ?thesis
    using assms by (auto simp: run_completion_def split_beta Let_def finish fail split: sum.split)
qed


section \<open>The record of the fallback policy\<close>

definition with_fallbacks :: "llm_fallback_policy list \<Rightarrow> llm_state \<Rightarrow> llm_state" where
  "with_fallbacks fs st = st\<lparr>lg_fallbacks := fs\<rparr>"

lemma with_fallbacks_fields [simp]:
  "lg_provider (with_fallbacks fs st) = lg_provider st" "lg_config (with_fallbacks fs st) = lg_config st"
  "lg_models (with_fallbacks fs st) = lg_models st" "lg_keys (with_fallbacks fs st) = lg_keys st"
  "lg_routes (with_fallbacks fs st) = lg_routes st" "lg_decisions (with_fallbacks fs st) = lg_decisions st"
  "lg_audit (with_fallbacks fs st) = lg_audit st" "lg_usage (with_fallbacks fs st) = lg_usage st"
  "lg_actor (with_fallbacks fs st) = lg_actor st" "lg_policy (with_fallbacks fs st) = lg_policy st"
  "lg_auth (with_fallbacks fs st) = lg_auth st" "lg_billing (with_fallbacks fs st) = lg_billing st"
  by (simp_all add: with_fallbacks_def)

lemma with_fallbacks_updates:
  "(with_fallbacks fs st)\<lparr>lg_audit := es\<rparr> = with_fallbacks fs (st\<lparr>lg_audit := es\<rparr>)"
  "(with_fallbacks fs st)\<lparr>lg_policy := p\<rparr> = with_fallbacks fs (st\<lparr>lg_policy := p\<rparr>)"
  "(with_fallbacks fs st)\<lparr>lg_auth := a\<rparr> = with_fallbacks fs (st\<lparr>lg_auth := a\<rparr>)"
  "(with_fallbacks fs st)\<lparr>lg_decisions := ds\<rparr> = with_fallbacks fs (st\<lparr>lg_decisions := ds\<rparr>)"
  "(with_fallbacks fs st)\<lparr>lg_usage := us\<rparr> = with_fallbacks fs (st\<lparr>lg_usage := us\<rparr>)"
  by (simp_all add: with_fallbacks_def)

lemma reads_no_fallback [simp]:
  "caller q (with_fallbacks fs st) = caller q st" "routed_caller q (with_fallbacks fs st) = routed_caller q st"
  "llm_subject q (with_fallbacks fs st) = llm_subject q st"
  "route_select_request q r m b (with_fallbacks fs st) = route_select_request q r m b st"
  "route_check q r m b cx (with_fallbacks fs st) = route_check q r m b cx st"
  "routing_event q i d (with_fallbacks fs st) = routing_event q i d st"
  "to_routing_request s q (with_fallbacks fs st) = to_routing_request s q st"
  "route_matches_request q rr (with_fallbacks fs st) r = route_matches_request q rr st r"
  "inactive_model q (with_fallbacks fs st) = inactive_model q st"
  "check_budget s q m (with_fallbacks fs st) = check_budget s q m st"
  "routing_requested q rr n (with_fallbacks fs st) = routing_requested q rr n st"
  "completion_requests q m b (with_fallbacks fs st) = completion_requests q m b st"
  "billing_mode q (with_fallbacks fs st) = billing_mode q st" "usage_of s x q (with_fallbacks fs st) = usage_of s x q st"
  "provider_for_route r (with_fallbacks fs st) = provider_for_route r st"
  "fallback_subject q (with_fallbacks fs st) = fallback_subject q st"
  by (simp_all only: caller_def routed_caller_def llm_subject_def route_select_request_def route_check_def
      routing_event_def to_routing_request_def route_matches_request_def config_admits_def is_route_allowlisted_def
      inactive_model_def check_budget_def routing_requested_def completion_requests_def
      completion_request_def billing_mode_def usage_of_def provider_for_route_def fallback_subject_def
      with_fallbacks_fields)


lemma candidates_no_fallback [simp]: "candidate_routes q rr ex (with_fallbacks fs st) = candidate_routes q rr ex st"
  by (simp add: candidate_routes_def cong: filter_cong)

text \<open>Every step of a call treats the fallback policies as ballast.\<close>

lemma ballast_audit [simp]:
  "record_llm_audit s e (with_fallbacks fs st) = with_fallbacks fs (record_llm_audit s e st)"
  by (simp add: record_llm_audit_def Let_def with_fallbacks_updates)

lemma ballast_policy [simp]:
  "llm_policy decide s r (with_fallbacks fs st) = apsnd (with_fallbacks fs) (llm_policy decide s r st)"
  by (simp add: llm_policy_def split_beta Let_def with_fallbacks_updates)

lemma ballast_authorization [simp]:
  "route_authorization decide s q r m b (with_fallbacks fs st) =
     apsnd (with_fallbacks fs) (route_authorization decide s q r m b st)"
  by (simp add: route_authorization_def split_beta Let_def with_fallbacks_updates split: option.split)

lemma ballast_decision [simp]:
  "record_routing_decision s q rr i (with_fallbacks fs st) =
     apsnd (with_fallbacks fs) (record_routing_decision s q rr i st)"
  by (simp add: record_routing_decision_def Let_def with_fallbacks_updates)

lemma ballast_select_with [simp]:
  "select_with s q rr i (with_fallbacks fs st) = apsnd (with_fallbacks fs) (select_with s q rr i st)"
  by (simp add: select_with_def split_beta Let_def)

lemma ballast_decide_route [simp]:
  "decide_route decide s q rr ex n r m (with_fallbacks fs st) =
     apsnd (with_fallbacks fs) (decide_route decide s q rr ex n r m st)"
  by (simp add: decide_route_def split_beta Let_def split: option.split)

lemma ballast_select_loop [simp]:
  "select_loop decide s q rr ex n rs (with_fallbacks fs st) =
     apsnd (with_fallbacks fs) (select_loop decide s q rr ex n rs st)"
  by (induction rs) (simp_all split: option.split)

lemma ballast_select_route [simp]:
  "select_route_for_request decide s q ex n (with_fallbacks fs st) =
     apsnd (with_fallbacks fs) (select_route_for_request decide s q ex n st)"
  by (simp add: select_route_for_request_def Let_def split: option.split)

lemma ballast_first_denial [simp]:
  "first_denial decide s k r rs (with_fallbacks fs st) = apsnd (with_fallbacks fs) (first_denial decide s k r rs st)"
  by (induction rs arbitrary: k r st) (simp_all add: split_beta Let_def prod_eq_iff)

lemma ballast_completion_policy [simp]:
  "evaluate_completion_policy decide s q m b (with_fallbacks fs st) =
     apsnd (with_fallbacks fs) (evaluate_completion_policy decide s q m b st)"
  by (simp add: evaluate_completion_policy_def Let_def)

lemma ballast_usage [simp]:
  "record_llm_usage s x q (with_fallbacks fs st) = apsnd (with_fallbacks fs) (record_llm_usage s x q st)"
  by (simp add: record_llm_usage_def Let_def with_fallbacks_updates split: option.split)

lemma ballast_audits [simp]:
  "audit_request s q ty kind pid mid res reason meta (with_fallbacks fs st) =
     with_fallbacks fs (audit_request s q ty kind pid mid res reason meta st)"
  "audit_fallback s q ty r mid' res reason meta (with_fallbacks fs st) =
     with_fallbacks fs (audit_fallback s q ty r mid' res reason meta st)"
  by (simp_all add: audit_request_def audit_fallback_def)

lemma ballast_request_audits [simp]:
  "audit_failure s q m why (with_fallbacks fs st) = with_fallbacks fs (audit_failure s q m why st)"
  "audit_remote_request s q m (with_fallbacks fs st) = with_fallbacks fs (audit_remote_request s q m st)"
  "audit_policy_block s q m pd pre_meta post_meta (with_fallbacks fs st) =
     with_fallbacks fs (audit_policy_block s q m pd pre_meta post_meta st)"
  "audit_success s q x pre_meta post_meta (with_fallbacks fs st) = with_fallbacks fs (audit_success s q x pre_meta post_meta st)"
  "audit_redaction s q x (with_fallbacks fs st) = with_fallbacks fs (audit_redaction s q x st)"
  "audit_no_fallback s q failed sel (with_fallbacks fs st) = with_fallbacks fs (audit_no_fallback s q failed sel st)"
  "audit_refusal s q rx ty meta bmeta (with_fallbacks fs st) = with_fallbacks fs (audit_refusal s q rx ty meta bmeta st)"
  by (simp_all add: audit_failure_def audit_remote_request_def audit_policy_block_def audit_success_def
      audit_redaction_def audit_no_fallback_def audit_refusal_def Let_def)

lemma fallback_name: "(case get_fallback i ps of Some p \<Rightarrow> fbp_id p | None \<Rightarrow> i) = i"
  by (auto simp: get_fallback_def dest: find_by_Some split: option.split)

lemma fallback_request_ballast [simp]:
  "fallback_request q r m b why (with_fallbacks fs st) = fallback_request q r m b why st"
  by (simp add: fallback_request_def fallback_name)

lemma fallback_possible_ballast [simp]:
  "fallback_possible q r (with_fallbacks fs st) = fallback_possible q r st"
  by (simp add: fallback_possible_def split: option.split)


lemma ballast_block_fallback [simp]:
  "block_fallback s q r m b pd (with_fallbacks fs st) = apsnd (with_fallbacks fs) (block_fallback s q r m b pd st)"
  by (simp add: block_fallback_def split_beta Let_def)

lemma ballast_complete_fallback [simp]:
  "complete_fallback http s q r m b d (with_fallbacks fs st) =
     apsnd (with_fallbacks fs) (complete_fallback http s q r m b d st)"
  by (simp add: complete_fallback_def fallback_call_def split_beta Let_def split: sum.split)

lemma ballast_try_fallback [simp]:
  "try_fallback http decide s q r b why (with_fallbacks fs st) =
     apsnd (with_fallbacks fs) (try_fallback http decide s q r b why st)"
  by (simp add: try_fallback_def split_beta Let_def split: option.split)

lemma ballast_run_completion [simp]:
  "run_completion http decide s q m b r d (with_fallbacks fs st) =
     apsnd (with_fallbacks fs) (run_completion http decide s q m b r d st)"
  by (simp add: run_completion_def fail_completion_def finish_completion_def provider_call_def split_beta Let_def
      split: sum.split option.split)

lemma ballast_route_request [simp]:
  "route_request decide s q (with_fallbacks fs st) = apsnd (with_fallbacks fs) (route_request decide s q st)"
  by (simp add: route_request_def split_beta Let_def)


end
