(* ===== verification/LlmProperties.thy ===== *)
theory LlmProperties
  imports LlmCalls DefaultPolicy
begin

text \<open>
  What the LLM gateway promises: no network without its gates, what a selected route has passed, usage
  recorded once per result, that the record of the fallback policy is never consulted, and, under the
  default rules in the default mode \<open>mock_only\<close>, when a completion succeeds.
\<close>

lemma llm_rules_for:
  "rules_for ''llm.route.select'' = [llm_route_rules ! 3, llm_route_rules ! 4]"
  "rules_for ''llm.model.use'' = [llm_completion_rules ! 3, llm_route_rules ! 2]"
  "rules_for ''llm.completion'' = [llm_completion_rules ! 4, llm_completion_rules ! 5]"
  by (simp_all add: rules_for_def default_rule_defs cong: rule_literal_cong)

lemmas llm_policy_simps = llm_policy_def svc_evaluate_def default_allowed_iff Let_def llm_rules_for llm_route_rules_def
  llm_completion_rules_def rule_applies_def map_matches_def context_or_metadata_def create_policy_resource_def
  create_policy_context_def llm_context_def policy_environment_def condition_matches_def no_conditions_def nullish_def

lemma default_permits_mock_route:
  "rte_kind r = ''mock'' \<Longrightarrow>
     dec_allowed (fst (llm_policy (evaluate default_policy_rules) s (route_select_request q r m b st') st))"
  by (simp add: llm_policy_simps route_select_request_def cong: rule_literal_cong)

lemma default_permits_mock_requests:
  assumes "lm_kind m = ''mock''" "lm_status m = ''active''" "bd_allowed b"
  shows "dec_allowed (fst (llm_policy (evaluate default_policy_rules) s (completion_request q m b ''llm.model.use''
      ''llm_model'' i [(''providerKind'', JStr ''mock''), (''status'', JStr ''active'')] st') st))"
    and "dec_allowed (fst (llm_policy (evaluate default_policy_rules) s (completion_request q m b ''llm.completion''
      ''llm_provider'' i [(''providerKind'', JStr ''mock'')] st') st))"
  using assms by (simp_all add: llm_policy_simps completion_request_def cong: rule_literal_cong)

lemma default_permits_mock_completion:
  assumes "lm_kind m = ''mock''" "lm_status m = ''active''" "bd_allowed b"
  shows "dec_allowed (fst (evaluate_completion_policy (evaluate default_policy_rules) s q m b st))"
  using assms default_permits_mock_requests[OF assms]
  by (simp add: evaluate_completion_policy_def completion_requests_def Let_def split_beta)

definition mock_gateway :: "llm_state \<Rightarrow> bool" where
  "mock_gateway st \<longleftrightarrow>
     lcf_mode (lg_config st) = ''mock_only'' \<and> lg_provider st = MockProvider False \<and>
     (\<forall>k \<in> set (lg_keys st). vky_kinds k = [''mock''])"

lemma key_of_set: "get_key i ks = Some k \<Longrightarrow> k \<in> set ks"
  unfolding get_key_def using find_by_Some by metis

lemma mock_budget_kind:
  assumes "mock_gateway st" "within_budget q m st"
  shows "lm_kind m = ''mock''"
  using assms key_of_set[of _ "lg_keys st"]
  by (fastforce simp: mock_gateway_def within_budget_def allows_provider_def split: option.splits)

text \<open>
  What the authorisation service, where the gateway has one, answers for a route, with the draws and the
  budget decision of the call that decides on the route.
\<close>

definition authorization_allows :: "draws \<Rightarrow> llm_request \<Rightarrow> llm_route \<Rightarrow> llm_model \<Rightarrow> llm_state \<Rightarrow> bool" where
  "authorization_allows s q r m st \<longleftrightarrow>
     (case fst (route_authorization (evaluate default_policy_rules) (sub 5 s) q r m
        (check_budget (sub 3 s) (q\<lparr>lq_provider_id := Some (rte_provider_id r), lq_kind := Some (rte_kind r)\<rparr>) m st) st) of
        Some d \<Rightarrow> ad_allowed d
      | None \<Rightarrow> True)"

lemma authorization_allows_audit:
  "authorization_allows s q r m (record_llm_audit s' e st) = authorization_allows s q r m st"
  by (simp add: authorization_allows_def record_llm_audit_def Let_def route_authorization_audit check_budget_def)

lemma decide_mock_route:
  assumes "rte_kind r = ''mock''"
  shows "rtd_decision (sel_decision (fst (decide_route (evaluate default_policy_rules) s q rr ex n r m st))) =
      ''selected'' \<longleftrightarrow>
    \<not> credentials_missing r (lg_config st) \<and> within_budget q m st \<and> authorization_allows s q r m st"
  using allowed_budget_within[of "sub 3 s" _ m st] default_permits_mock_route[OF assms] assms
  by (simp add: decide_route_def authorization_allows_def Let_def split_beta healthy_kind split: option.split)

lemma select_mock_route:
  assumes "mock_gateway st"
  shows "rtd_decision (sel_decision (fst (select_route_for_request (evaluate default_policy_rules) s q [] 0 st))) =
      ''selected'' \<longleftrightarrow> inactive_model q st = None \<and>
    (\<exists>r rs m. candidate_routes q (to_routing_request (sub 0 s) q st) [] st = r # rs \<and> get_model (rte_model_id r) (lg_models st) = Some m \<and>
       \<not> credentials_missing r (lg_config st) \<and> within_budget q m st \<and>
       authorization_allows (sub 1 (sub 4 s)) q r m st)"
proof -
  define rr where "rr = to_routing_request (sub 0 s) q st"
  define st1 where "st1 = record_llm_audit (sub 1 s) (routing_requested q rr 0 st) st"
  have keeps: "inactive_model q st1 = inactive_model q st" "lg_models st1 = lg_models st"
    "lg_config st1 = lg_config st" "within_budget q m st1 = within_budget q m st"
    "candidate_routes q rr [] st1 = candidate_routes q rr [] st"
    "authorization_allows s' q r m st1 = authorization_allows s' q r m st" for s' r m
    using assms(1)
    by (simp_all add: st1_def mock_gateway_def inactive_model_def view_through_audit candidate_routes_def
        authorization_allows_audit cong: filter_cong)
  have kind: "rte_kind r = ''mock''" and model: "get_model (rte_model_id r) (lg_models st) \<noteq> None"
    if "r \<in> set (candidate_routes q rr [] st)" for r
    using that assms(1)
    by (auto simp: candidate_routes_def route_matches_request_def config_admits_def mock_gateway_def Let_def
        split: option.splits)
  show ?thesis
  proof (cases "candidate_routes q rr [] st")
    case Nil
    then show ?thesis
      unfolding select_route_for_request_def Let_def rr_def[symmetric] st1_def[symmetric] keeps
      by (simp add: no_route_input_def split: option.split)
  next
    case (Cons r rs)
    then obtain m where "get_model (rte_model_id r) (lg_models st) = Some m"
      using model by force
    then show ?thesis
      using Cons decide_mock_route[OF kind[of r]]
      unfolding select_route_for_request_def Let_def rr_def[symmetric] st1_def[symmetric] keeps
      by (simp add: no_route_input_def keeps split: option.split)
  qed
qed


definition completable :: "draws \<Rightarrow> llm_request \<Rightarrow> llm_state \<Rightarrow> bool" where
  "completable s q st \<longleftrightarrow> inactive_model q st = None \<and>
     (case candidate_routes q (to_routing_request (sub 0 (sub 0 s)) q st) [] st of
        [] \<Rightarrow> False
      | r # _ \<Rightarrow>
          (case get_model (rte_model_id r) (lg_models st) of
             None \<Rightarrow> False
           | Some m \<Rightarrow> \<not> credentials_missing r (lg_config st) \<and> within_budget q m st \<and>
               authorization_allows (sub 1 (sub 4 (sub 0 s))) q r m st))"

lemma route_request_completable:
  assumes "mock_gateway st"
  shows "rtr_ok (fst (route_request (evaluate default_policy_rules) (sub 0 s) q st)) = completable s q st"
  using select_mock_route[OF assms, of "sub 0 s" q]
  by (auto simp: route_request_def split_beta Let_def completable_def split: list.split option.split)

lemma mock_call_succeeds:
  assumes "lm_status m = ''active''" "request_metadata q ''simulateProviderUnavailable'' \<noteq> JBool True"
    "request_metadata q ''simulateModelDisabled'' \<noteq> JBool True" "rte_kind r = ''mock''"
    "lg_provider st = MockProvider False"
  shows "\<exists>x. provider_call http s q r m st = Inr x"
  using assms by (simp add: provider_call_def provider_for_route_def mock_completion_def request_metadata_def Let_def)

section \<open>Samples\<close>

definition sample_llm :: llm_state where
  "sample_llm = (new_llm_gateway None None (Some []) None None (new_policy_service None) None (\<lambda>_. None))
     \<lparr>lg_models := [model_mock_model], lg_routes := [route_mock_general]\<rparr>"

definition sample_call :: llm_call_input where
  "sample_call = \<lparr>lci_task_id = ''task_1'', lci_run_id = ''run_1'', lci_user_id = ''user_1'',
     lci_repo_id = ''repo_1'', lci_branch = ''main'', lci_agent = ''codex'', lci_model = ''mock-model'',
     lci_prompt = ''fix the bug'', lci_skills = [], lci_harness = ''h1'', lci_instructions = ''i1''\<rparr>"

definition sample_llm_request :: llm_request where
  "sample_llm_request = runner_request sample_call"

lemma sample_config: "lcf_mode (lg_config sample_llm) = ''mock_only'' \<and> lcf_models (lg_config sample_llm) = []"
  by (simp add: sample_llm_def new_llm_gateway_def provider_from_env_def split_beta Let_def llm_config_from_env_def
      parse_env_list_def split_on.simps trim_def)

lemma sample_mock_gateway: "mock_gateway sample_llm"
  using sample_config
  by (simp add: mock_gateway_def sample_llm_def new_llm_gateway_def create_default_virtual_key_def)

lemma sample_cost: "lus_cost (estimate_usage sample_llm_request model_mock_model) \<le> 5"
  by (simp add: estimate_usage_def estimate_prompt_tokens_def estimate_completion_cost_def to_fixed_6_def prompt_text_def
      sample_llm_request_def runner_request_def sample_call_def model_mock_model_def seed_model_def Let_def)

lemma sample_budget: "within_budget sample_llm_request model_mock_model sample_llm"
  using sample_cost
  by (simp add: within_budget_def sample_llm_def new_llm_gateway_def create_default_virtual_key_def get_key_def
      allows_provider_def)
    (simp add: sample_llm_request_def runner_request_def sample_call_def model_mock_model_def seed_model_def)

lemma sample_model: "get_model ''mock-model'' [model_mock_model] = Some model_mock_model"
  by (simp add: get_model_def model_mock_model_def seed_model_def)

lemma sample_route:
  "rte_model_id route_mock_general = ''mock-model''" "rte_kind route_mock_general = ''mock''"
  "rte_provider_id route_mock_general = ''mock''" "rte_enabled route_mock_general" "\<not> rte_secret_ref route_mock_general"
  by (simp_all add: route_mock_general_def)


lemma sample_fields:
  "lq_kind sample_llm_request = None" "lq_provider_id sample_llm_request = None"
  "lq_model_ref sample_llm_request = Some ''mock-model''"
  "lg_models sample_llm = [model_mock_model]" "lg_routes sample_llm = [route_mock_general]"
  "lm_status model_mock_model = ''active''"
  by (simp_all add: sample_llm_request_def runner_request_def sample_call_def sample_llm_def model_mock_model_def seed_model_def)

lemma sample_admits: "config_admits route_mock_general sample_llm"
  using sample_config
  by (simp add: config_admits_def sample_route)
    (simp add: sample_llm_def new_llm_gateway_def provider_from_env_def split_beta Let_def llm_config_from_env_def
      parse_env_list_def split_on.simps trim_def)

lemma sample_candidates: "candidate_routes sample_llm_request rr [] sample_llm = [route_mock_general]"
  using sample_admits
  by (simp add: candidate_routes_def sample_fields list_routes_def route_matches_request_def request_admits_def
      sample_route sample_model)

lemma sample_authorization: "authorization_allows s q r m sample_llm"
  by (simp add: authorization_allows_def route_authorization_def sample_llm_def new_llm_gateway_def split_beta)

lemma sample_completable: "completable sample_draws sample_llm_request sample_llm"
  by (simp add: completable_def sample_candidates sample_fields inactive_model_def sample_route sample_model sample_budget
      credentials_missing_def sample_authorization)

section \<open>Properties\<close>

text \<open>
  C36: With a provider made from an environment in which one of the gates is closed, the remote flag, the
  completion flag, the base URL or the credential, no call depends on the HTTP client, whatever the
  engine, the catalogue and the request are: outcome and state are the same for any two clients.
\<close>

theorem no_network_without_gates:
  assumes "lg_provider st = fst (snd (provider_from_env env resolver))" and "\<not> llm_env_gates_open env resolver"
  shows "complete_route http decide s q st = complete_route http' decide s q st \<and>
    complete_runner_call http decide s i st = complete_runner_call http' decide s i st"
proof -
  have "network_closed (lg_provider st)"
    using assms(1) env_provider_closed[OF assms(2)] by simp
  then show ?thesis
    using blind_complete_route blind_runner_call by blast
qed

text \<open>
  C37: A selected route is enabled, admitted by the configuration and the request, has an active model of
  the catalogue, a credential where it needs one, and a healthy provider; the virtual key is active
  and covers the kind and the model, and the budget limit of the request and the per-task budget of
  the key, where set, cover the estimated cost; the authorisation service, if there is one, asked in
  the state of the call, and the policy engine, asked in the state that leaves, allow it.  The monthly
  budget and the rate limits of the key are not consulted by the code.
\<close>

theorem selected_route_passed_every_gate:
  assumes "rtr_ok (fst (route_request decide s q st))"
  shows "\<exists>r m b. rtr_route (fst (route_request decide s q st)) = Some r \<and>
    rtr_model (fst (route_request decide s q st)) = Some m \<and>
    rtr_budget (fst (route_request decide s q st)) = Some b \<and>
    r \<in> set (lg_routes st) \<and> rte_enabled r \<and> config_admits r st \<and> request_admits r q \<and>
    get_model (rte_model_id r) (lg_models st) = Some m \<and> lm_status m = ''active'' \<and>
    bd_allowed b \<and> within_budget q m st \<and> \<not> credentials_missing r (lg_config st) \<and>
    (rte_kind r = ''mock'' \<or> rte_kind r = ''openai_compatible'' \<and> openai_gates_open (lg_config st)) \<and>
    authorised_route decide q r m b st \<and> permitted_route decide q r m b st"
  using assms by (rule selected_route_facts)

text \<open>
  C38: A completion that succeeds appends exactly one usage event, with the task, the model, the tokens and
  the cost of the result it returns; one that fails returns no result and appends none, also when a
  fallback was tried.
\<close>

theorem usage_recorded_once:
  assumes "lg_usage st = Some us"
  shows "usage_recorded q us (fst (complete_route http decide s q st)) (snd (complete_route http decide s q st))"
  using assms usage_run_completion[of "snd (route_request decide (sub 0 s) q st)" us]
  by (auto simp: complete_route_def split_beta refuse_completion_def split: option.split)

text \<open>
  C39: The repository of fallback policies has no influence: with any other contents a completion has the
  same outcome and does the same to the rest of the state, although a policy records whether fallback
  is enabled, how often and to which providers.
\<close>

theorem fallback_policy_never_consulted:
  "complete_route http decide s q (st\<lparr>lg_fallbacks := fs\<rparr>) =
     (let (x, st') = complete_route http decide s q st in (x, st'\<lparr>lg_fallbacks := fs\<rparr>))"
  unfolding with_fallbacks_def[symmetric]
  by (simp add: complete_route_def refuse_completion_def split_beta Let_def refusal_type_def prod_eq_iff split: option.split)

text \<open>
  C40: In the mode mock_only, under the default rules, with a mock provider that works, keys for the mock
  provider only and no failure simulated by the request, a completion succeeds exactly when the
  requested model is not inactive and the first route that matches the request needs no missing
  credential, is within the budget of the request and the per-task budget of the virtual key, and is
  allowed by the authorisation service, where the gateway has one.
\<close>

theorem mock_gateway_completes_exactly:
  assumes "mock_gateway st" "request_metadata q ''simulateProviderUnavailable'' \<noteq> JBool True"
    "request_metadata q ''simulateModelDisabled'' \<noteq> JBool True"
  shows "cpo_ok (fst (complete_route http (evaluate default_policy_rules) s q st)) = completable s q st"
proof (cases "completable s q st")
  case False
  then have "admitted (fst (route_request (evaluate default_policy_rules) (sub 0 s) q st)) = None"
    using route_request_completable[OF assms(1), of s q] by (simp add: admitted_def)
  then show ?thesis
    using False by (simp add: complete_route_def split_beta refuse_completion_def)
next
  case True
  let ?x = "fst (route_request (evaluate default_policy_rules) (sub 0 s) q st)"
  have ok: "rtr_ok ?x"
    using True route_request_completable[OF assms(1)] by simp
  from selected_route_facts[OF ok] obtain r m b where
    x: "rtr_route ?x = Some r" "rtr_model ?x = Some m" "rtr_budget ?x = Some b" "bd_allowed b"
    and m: "lm_status m = ''active''" "within_budget q m st" and r: "config_admits r st"
    by blast
  have kinds: "lm_kind m = ''mock''" "rte_kind r = ''mock''"
    using mock_budget_kind[OF assms(1) m(2)] r assms(1) by (auto simp: config_admits_def mock_gateway_def Let_def)
  have "cpo_ok (fst (run_completion http (evaluate default_policy_rules) t q m b r d st1))"
    if "lg_provider st1 = lg_provider st" for t d st1
  proof -
    have "\<exists>y. provider_call http s' q r m st2 = Inr y" if "lg_provider st2 = lg_provider st1" for s' st2
      by (rule mock_call_succeeds) (use assms m kinds that \<open>lg_provider st1 = _\<close> in \<open>simp_all add: mock_gateway_def\<close>)
    from this[of "audit_remote_request (sub 2 t) q m
        (snd (evaluate_completion_policy (evaluate default_policy_rules) (sub 0 t) q m b st1))" "sub 3 t"]
    obtain y where "provider_call http (sub 3 t) q r m (audit_remote_request (sub 2 t) q m
        (snd (evaluate_completion_policy (evaluate default_policy_rules) (sub 0 t) q m b st1))) = Inr y"
      by auto
    then show ?thesis
      using default_permits_mock_completion[OF kinds(1) m(1) x(4)]
      by (simp add: run_completion_def split_beta Let_def finish_completion_def)
  qed
  then show ?thesis
    using True ok x by (simp add: complete_route_def split_beta admitted_def)
qed

section \<open>Witnesses\<close>

text \<open>Everything is configured but the key.\<close>

definition keyless_env :: environment where
  "keyless_env k =
     (if k = ''AICHESTRA_LLM_PROVIDER'' then Some ''openai_compatible''
      else if k \<in> {''AICHESTRA_ENABLE_REMOTE_LLM'', ''AICHESTRA_ALLOW_REMOTE_LLM_COMPLETION''} then Some ''true''
      else if k = ''AICHESTRA_LLM_BASE_URL'' then Some ''https://llm.example'' else None)"

definition keyless_llm :: llm_state where
  "keyless_llm = sample_llm\<lparr>lg_provider := fst (snd (provider_from_env keyless_env None))\<rparr>"

lemma keyless_gates: "\<not> llm_env_gates_open keyless_env None"
  by (simp add: llm_env_gates_open_def resolve_llm_credential_def llm_config_from_env_def Let_def keyless_env_def)

theorem no_network_without_gates_witness:
  "complete_runner_call (\<lambda>_. HttpThrown None) (evaluate default_policy_rules) sample_draws sample_call keyless_llm =
     complete_runner_call (\<lambda>_. HttpResponse True 200 JNull) (evaluate default_policy_rules) sample_draws sample_call
       keyless_llm"
  using no_network_without_gates[OF _ keyless_gates, of keyless_llm "\<lambda>_. HttpThrown None" _ _ sample_llm_request]
  by (simp add: keyless_llm_def)

theorem selected_route_passed_every_gate_witness:
  "\<exists>r m. r \<in> set (lg_routes sample_llm) \<and> rte_enabled r \<and> within_budget sample_llm_request m sample_llm"
  using selected_route_passed_every_gate[of "evaluate default_policy_rules" "sub 0 sample_draws" sample_llm_request
      sample_llm] route_request_completable[OF sample_mock_gateway] sample_completable by blast

theorem usage_recorded_once_witness:
  "usage_recorded sample_llm_request []
     (fst (complete_route (\<lambda>_. HttpThrown None) (evaluate default_policy_rules) sample_draws sample_llm_request sample_llm))
     (snd (complete_route (\<lambda>_. HttpThrown None) (evaluate default_policy_rules) sample_draws sample_llm_request sample_llm))"
  by (rule usage_recorded_once) (simp add: sample_llm_def new_llm_gateway_def)

theorem mock_gateway_completes_exactly_witness:
  "cpo_ok (fst (complete_route (\<lambda>_. HttpThrown None) (evaluate default_policy_rules) sample_draws sample_llm_request
     sample_llm))"
  using mock_gateway_completes_exactly[OF sample_mock_gateway, of sample_llm_request "\<lambda>_. HttpThrown None" sample_draws]
    sample_completable
  by (simp add: request_metadata_def sample_llm_request_def runner_request_def sample_call_def)

end
