(* ===== verification/RunnerModel.thy ===== *)
theory RunnerModel
  imports RegistryModel Redaction
begin

text \<open>
  The data of the agent runner, \<open>packages/runner/src\<close>: its entities (\<open>agent-runner.ts\<close>), the harness
  policy (\<open>harness-policy.ts\<close>), the assembly of instructions (\<open>instruction-assembly.ts\<close>) and the
  in-memory repositories (\<open>repository.ts\<close>).  The hash of a payload is a parameter.
\<close>

section \<open>Entities\<close>

record agent_test =
  tst_command :: string
  tst_status :: string
  tst_output :: string

record environment_check =
  evc_ok :: bool
  evc_kind :: string
  evc_reason :: "string option"
  evc_metadata :: jsobj

record command_request =
  cmq_task_id :: string
  cmq_run_id :: string
  cmq_agent_run_id :: string
  cmq_workspace :: string
  cmq_command :: string
  cmq_args :: "string list"
  cmq_timeout :: num
  cmq_allowed :: "string list"
  cmq_denied :: "string list"
  cmq_inherit_env :: bool
  cmq_env_keys :: "string list"
  cmq_metadata :: jsobj

record command_validation =
  cmv_allowed :: bool
  cmv_reason :: string
  cmv_normalized :: string
  cmv_blocked :: "string option"

record command_result =
  cmr_id :: string
  cmr_task_id :: string
  cmr_run_id :: string
  cmr_agent_run_id :: string
  cmr_executor :: string
  cmr_status :: string
  cmr_command :: string
  cmr_args :: "string list"
  cmr_exit_code :: "int option"
  cmr_stdout :: string
  cmr_stderr :: string
  cmr_stdout_bytes :: nat
  cmr_stderr_bytes :: nat
  cmr_duration :: int
  cmr_blocked :: "string option"
  cmr_created_at :: time
  cmr_metadata :: jsobj

record agent_workspace =
  wsp_id :: string
  wsp_root :: string
  wsp_mode :: string
  wsp_task_id :: string
  wsp_run_id :: string
  wsp_created_at :: time
  wsp_cleanup :: string
  wsp_status :: string
  wsp_metadata :: jsobj

record workspace_request =
  wsq_task_id :: string
  wsq_run_id :: string
  wsq_mode :: string
  wsq_path :: "string option"
  wsq_cleanup :: string
  wsq_allow_root :: "bool option"
  wsq_metadata :: jsobj

record run_repo_ref =
  rrf_repo_id :: string
  rrf_local_path :: "string option"

record agent_run_request =
  arq_task_id :: string
  arq_run_id :: string
  arq_actor_id :: "string option"
  arq_repo :: "run_repo_ref option"
  arq_branch :: "string option"
  arq_model :: string
  arq_skills :: "version_ref list"
  arq_harness :: version_ref
  arq_instructions :: "version_ref list"
  arq_prompt :: string
  arq_allowed :: "string list"
  arq_tests :: "string list"
  arq_max_runtime :: num
  arq_metadata :: jsobj

record prepared_run =
  prn_id :: string
  prn_task_id :: string
  prn_run_id :: string
  prn_kind :: string
  prn_status :: string
  prn_reason :: "string option"
  prn_created_at :: time

record agent_run =
  arn_id :: string
  arn_task_id :: string
  arn_run_id :: string
  arn_kind :: string
  arn_status :: string
  arn_diff :: string
  arn_files :: "string list"
  arn_tests :: "agent_test list"
  arn_llm_ids :: "string list"
  arn_usage_ids :: "string list"
  arn_audit_ids :: "string list"
  arn_command_ids :: "string list"
  arn_workspace_id :: "string option"
  arn_created_at :: time
  arn_completed_at :: "time option"
  arn_metadata :: jsobj

record run_audit_event =
  rau_id :: string
  rau_task_id :: string
  rau_run_id :: string
  rau_kind :: string
  rau_type :: string
  rau_result :: string
  rau_reason :: "string option"
  rau_metadata :: jsobj
  rau_created_at :: time

record instruction_assembly =
  ias_id :: string
  ias_task_id :: string
  ias_run_id :: string
  ias_instructions :: "version_ref list"
  ias_skills :: "version_ref list"
  ias_harness :: version_ref
  ias_hash :: string
  ias_warnings :: "string list"
  ias_created_at :: time

record runner_config =
  rcf_kind :: string
  rcf_local :: bool
  rcf_commands :: bool
  rcf_root :: "string option"
  rcf_max_runtime :: num
  rcf_max_stdout :: nat
  rcf_max_stderr :: nat

section \<open>The harness policy\<close>

definition default_denied_commands :: "string list" where
  "default_denied_commands = [''git fetch'', ''git push'', ''git merge'', ''git rebase'', ''rm -rf'', ''rmdir'', ''del '',
     ''remove-item'', ''curl '', ''wget '', ''kubectl'', ''vault'', ''temporal'', ''mcp'']"

record harness_policy =
  hpl_allowed :: "string list"
  hpl_denied :: "string list"
  hpl_max_runtime :: num
  hpl_max_stdout :: nat
  hpl_max_stderr :: nat
  hpl_network :: bool
  hpl_file_write :: bool
  hpl_git_remote :: bool
  hpl_secrets :: bool
  hpl_cleanup :: string

text \<open>The policies of the runner are made without a harness.\<close>

definition create_harness_policy :: "string list option \<Rightarrow> num option \<Rightarrow> nat option \<Rightarrow> nat option \<Rightarrow> string option \<Rightarrow> harness_policy" where
  "create_harness_policy allowed runtime out err cleanup =
     \<lparr>hpl_allowed = opt_default allowed [], hpl_denied = default_denied_commands,
      hpl_max_runtime = opt_default runtime 60000, hpl_max_stdout = opt_default out 4096,
      hpl_max_stderr = opt_default err 4096, hpl_network = False, hpl_file_write = False, hpl_git_remote = False,
      hpl_secrets = False, hpl_cleanup = opt_default cleanup ''none''\<rparr>"

record harness_decision =
  hpd_allowed :: bool
  hpd_reason :: string
  hpd_blocked :: "string list"

definition includes_any :: "string list \<Rightarrow> string \<Rightarrow> bool" where
  "includes_any ws text = list_ex (\<lambda>w. str_includes (to_lower text) (to_lower w)) ws"

definition network_word :: pat where
  "network_word = seq_of [Bound, any_of [lit_i ''curl'', lit_i ''wget'', lit_i ''fetch''], Bound]"

definition remote_git_words :: pat where
  "remote_git_words = seq_of [Bound, lit_i ''git'', Rep 1 is_space,
     any_of [lit_i ''fetch'', lit_i ''push'', lit_i ''merge'', lit_i ''rebase''], Bound]"

definition evaluate_harness_policy :: "harness_policy \<Rightarrow> string list \<Rightarrow> harness_decision" where
  "evaluate_harness_policy p requested =
     (let blocked = filter (includes_any (hpl_denied p)) requested;
          net = filter (re_test network_word None) requested;
          remote = filter (re_test remote_git_words None) requested
      in if blocked \<noteq> []
         then \<lparr>hpd_allowed = False, hpd_reason = ''runner_command_denied_by_harness_policy'', hpd_blocked = blocked\<rparr>
         else if \<not> hpl_network p \<and> net \<noteq> []
         then \<lparr>hpd_allowed = False, hpd_reason = ''runner_network_disabled_by_harness_policy'', hpd_blocked = net\<rparr>
         else if \<not> hpl_git_remote p \<and> remote \<noteq> []
         then \<lparr>hpd_allowed = False, hpd_reason = ''runner_remote_git_disabled_by_harness_policy'', hpd_blocked = remote\<rparr>
         else \<lparr>hpd_allowed = True, hpd_reason = ''runner_harness_policy_allowed'', hpd_blocked = []\<rparr>)"

section \<open>Instructions\<close>

definition run_ref_label :: "version_ref \<Rightarrow> string" where
  "run_ref_label r = vr_kind r @ '':'' @ vr_name r @ ''@'' @ vr_version r @ '':'' @ opt_default (vr_id r) ''unresolved'' @ '':'' @
     opt_default (vr_checksum r) ''no-checksum''"

text \<open>The hash of the printed payload is a parameter, \<open>sha256(JSON.stringify(x))\<close>.\<close>

type_synonym payload_hash = "jsobj \<Rightarrow> string"

definition instruction_set_hash :: "payload_hash \<Rightarrow> agent_run_request \<Rightarrow> string" where
  "instruction_set_hash sha q =
     (let labels = (\<lambda>rs. JArr (map JStr (sort_by lex_cmp (map run_ref_label rs)))) in
      ''sha256:'' @ sha [(''instructions'', labels (arq_instructions q)), (''skills'', labels (arq_skills q)),
        (''harness'', JStr (run_ref_label (arq_harness q))), (''prompt'', JStr (arq_prompt q))])"

definition assemble_instructions :: "payload_hash \<Rightarrow> draws \<Rightarrow> agent_run_request \<Rightarrow> instruction_assembly" where
  "assemble_instructions sha s q =
     \<lparr>ias_id = fresh_id ''runner_instr'' 0 s, ias_task_id = arq_task_id q, ias_run_id = arq_run_id q,
      ias_instructions = arq_instructions q, ias_skills = arq_skills q, ias_harness = arq_harness q,
      ias_hash = instruction_set_hash sha q,
      ias_warnings =
        (if arq_instructions q = [] then [''No instruction artifacts were selected for this agent run.''] else []) @
        (if arq_skills q = [] then [''No skill refs were selected for this agent run.''] else []),
      ias_created_at = clock 0 s\<rparr>"

section \<open>Repositories\<close>

text \<open>Lists are filtered by the ids a caller gives and sorted by date, then id.\<close>

definition wanted :: "string option \<Rightarrow> string \<Rightarrow> bool" where
  "wanted f x \<longleftrightarrow> (case f of None \<Rightarrow> True | Some y \<Rightarrow> x = y)"

definition by_date :: "('a \<Rightarrow> time) \<Rightarrow> ('a \<Rightarrow> string) \<Rightarrow> 'a list \<Rightarrow> 'a list" where
  "by_date date i xs = sort_by (cmp_or (\<lambda>l r. num_cmp (date l) (date r)) (\<lambda>l r. locale_compare (i l) (i r))) xs"

definition list_runs :: "string option \<Rightarrow> string option \<Rightarrow> agent_run list \<Rightarrow> agent_run list" where
  "list_runs task run rs =
     by_date arn_created_at arn_id (filter (\<lambda>r. wanted task (arn_task_id r) \<and> wanted run (arn_run_id r)) rs)"

definition get_run :: "string \<Rightarrow> agent_run list \<Rightarrow> agent_run option" where
  "get_run i rs = find_by arn_id i rs"

definition get_run_by_task_run :: "string \<Rightarrow> agent_run list \<Rightarrow> agent_run option" where
  "get_run_by_task_run i rs = find_by arn_run_id i rs"

definition update_run_status :: "draws \<Rightarrow> string \<Rightarrow> string \<Rightarrow> jsobj \<Rightarrow> (agent_run list, agent_run) op" where
  "update_run_status s i status meta rs =
     (case get_run i rs of
        None \<Rightarrow> (Inl (Error (''Agent run not found: '' @ i)), rs)
      | Some r \<Rightarrow>
          (let f = (\<lambda>r. r\<lparr>arn_status := status, arn_metadata := obj_spread (arn_metadata r) meta,
                 arn_completed_at := (if status \<in> {''completed'', ''failed'', ''blocked'', ''cancelled''}
                   then Some (clock 0 s) else arn_completed_at r)\<rparr>)
           in (Inr (f r), update_by arn_id i f rs)))"

definition list_run_audit ::
  "string option \<Rightarrow> string option \<Rightarrow> string option \<Rightarrow> run_audit_event list \<Rightarrow> run_audit_event list" where
  "list_run_audit task run agent_run es =
     by_date rau_created_at rau_id
       (filter (\<lambda>e. wanted task (rau_task_id e) \<and> wanted run (rau_run_id e) \<and>
          (case agent_run of None \<Rightarrow> True | Some i \<Rightarrow> obj_get (rau_metadata e) ''runId'' = JStr i)) es)"

definition list_assemblies :: "string option \<Rightarrow> string option \<Rightarrow> instruction_assembly list \<Rightarrow> instruction_assembly list" where
  "list_assemblies task run xs =
     by_date ias_created_at ias_id (filter (\<lambda>x. wanted task (ias_task_id x) \<and> wanted run (ias_run_id x)) xs)"

definition get_assembly_for_run :: "string \<Rightarrow> instruction_assembly list \<Rightarrow> instruction_assembly option" where
  "get_assembly_for_run i xs = find_by ias_run_id i xs"

definition list_command_rows ::
  "string option \<Rightarrow> string option \<Rightarrow> string option \<Rightarrow> command_result list \<Rightarrow> command_result list" where
  "list_command_rows task run agent_run xs =
     by_date cmr_created_at cmr_id (filter (\<lambda>x. wanted task (cmr_task_id x) \<and> wanted run (cmr_run_id x) \<and>
        wanted agent_run (cmr_agent_run_id x)) xs)"

definition get_command_result :: "string \<Rightarrow> command_result list \<Rightarrow> command_result option" where
  "get_command_result i xs = find_by cmr_id i xs"

definition list_workspace_rows ::
  "string option \<Rightarrow> string option \<Rightarrow> string option \<Rightarrow> agent_workspace list \<Rightarrow> agent_workspace list" where
  "list_workspace_rows task run status xs =
     by_date wsp_created_at wsp_id (filter (\<lambda>x. wanted task (wsp_task_id x) \<and> wanted run (wsp_run_id x) \<and>
        wanted status (wsp_status x)) xs)"

definition find_workspace :: "string \<Rightarrow> agent_workspace list \<Rightarrow> agent_workspace option" where
  "find_workspace i xs = find_by wsp_id i xs"

end
