(* ===== verification/RunnerCommands.thy ===== *)
theory RunnerCommands
  imports RunnerModel JsDate
begin

text \<open>
  The execution of commands, \<open>packages/runner/src/command-executor.ts\<close>, and the workspaces they run in,
  \<open>workspace.ts\<close>.  The host is a parameter: its directories, its environment and what a started process
  does.  Processes started and changes of the file system are logged, in order.  Paths are POSIX paths.
\<close>

section \<open>Paths\<close>

text \<open>The names of a normalised absolute path: empty names and \<open>.\<close> are dropped, \<open>..\<close> drops a name.\<close>

fun normal_names :: "string list \<Rightarrow> string list \<Rightarrow> string list" where
  "normal_names acc [] = acc"
| "normal_names acc (x # xs) =
     (if x = [] \<or> x = ''.'' then normal_names acc xs
      else if x = ''..'' then normal_names (butlast acc) xs
      else normal_names (acc @ [x]) xs)"

definition path_names :: "string \<Rightarrow> string list" where
  "path_names p = normal_names [] (split_on CHR ''/'' p)"

definition is_absolute :: "string \<Rightarrow> bool" where
  "is_absolute p = starts_with p ''/''"

definition path_resolve :: "string \<Rightarrow> string \<Rightarrow> string" where
  "path_resolve cwd p = ''/'' @ join_with ''/'' (path_names (if is_absolute p then p else cwd @ ''/'' @ p))"

fun strip_common :: "'a list \<Rightarrow> 'a list \<Rightarrow> 'a list \<times> 'a list" where
  "strip_common (x # xs) (y # ys) = (if x = y then strip_common xs ys else (x # xs, y # ys))"
| "strip_common xs ys = (xs, ys)"

definition path_relative :: "string \<Rightarrow> string \<Rightarrow> string \<Rightarrow> string" where
  "path_relative cwd from to =
     (let (up, down) = strip_common (path_names (path_resolve cwd from)) (path_names (path_resolve cwd to))
      in join_with ''/'' (map (\<lambda>_. ''..'') up @ down))"

definition path_basename :: "string \<Rightarrow> string" where
  "path_basename p = (case filter (\<lambda>x. x \<noteq> []) (split_on CHR ''/'' p) of [] \<Rightarrow> [] | xs \<Rightarrow> last xs)"

definition is_within_root :: "string \<Rightarrow> string \<Rightarrow> string \<Rightarrow> bool" where
  "is_within_root cwd candidate base =
     (let relative = path_relative cwd base candidate
      in relative = [] \<or> (\<not> starts_with relative ''..'' \<and> \<not> is_absolute relative))"

section \<open>The host\<close>

record process_request =
  pcq_command :: string
  pcq_args :: "string list"
  pcq_cwd :: string
  pcq_env :: "(string \<times> string) list"
  pcq_timeout :: num

text \<open>The first event of a child: its end with the output so far, an error, or the timeout.\<close>

datatype child_outcome =
    ChildClosed "int option" string string
  | ChildError string
  | ChildTimeout string string

record host =
  hst_cwd :: string
  hst_tmp :: string
  hst_exec_path :: string
  hst_env :: "(string \<times> string) list"
  hst_process :: "process_request \<Rightarrow> child_outcome"

section \<open>Command texts\<close>

definition blocked_executables :: "string list" where
  "blocked_executables = [''curl'', ''curl.exe'', ''wget'', ''wget.exe'', ''git'', ''git.exe'', ''kubectl'',
     ''kubectl.exe'', ''vault'', ''vault.exe'', ''temporal'', ''temporal.exe'', ''mcp'', ''mcp.exe'', ''rm'', ''rm.exe'',
     ''rmdir'', ''rmdir.exe'', ''del'', ''remove-item'', ''powershell'', ''powershell.exe'', ''pwsh'', ''pwsh.exe'',
     ''cmd'', ''cmd.exe'', ''bash'', ''bash.exe'', ''sh'', ''sh.exe'']"

definition fixture_executables :: "string list" where
  "fixture_executables = [''node'', ''node.exe'', ''pnpm'', ''pnpm.cmd'']"

definition shell_metacharacter :: "char \<Rightarrow> bool" where
  "shell_metacharacter = one_of ''|;&<>`$''"

definition executable_name :: "string \<Rightarrow> string" where
  "executable_name c = to_lower (path_basename c)"

definition command_signature :: "string \<Rightarrow> string list \<Rightarrow> string" where
  "command_signature c args = trim (join_with '' '' (executable_name c # args))"

definition full_command_text :: "string \<Rightarrow> string list \<Rightarrow> string" where
  "full_command_text c args = trim (join_with '' '' (c # args))"

definition allowed_by_harness :: "string \<Rightarrow> string list \<Rightarrow> string list \<Rightarrow> bool" where
  "allowed_by_harness c args allowed \<longleftrightarrow>
     allowed \<noteq> [] \<and>
     list_ex (\<lambda>a. trim (to_lower a) \<in> {to_lower (command_signature c args), to_lower (full_command_text c args),
        executable_name c}) allowed"

definition secret_name :: "string \<Rightarrow> bool" where
  "secret_name k = matches_any_word [''token'', ''secret'', ''key''] k"

definition env_for_request :: "host \<Rightarrow> command_request \<Rightarrow> (string \<times> string) list" where
  "env_for_request h q =
     (if cmq_inherit_env q then filter (\<lambda>(k, _). \<not> secret_name k) (hst_env h)
      else concat (map (\<lambda>k. case map_of (hst_env h) k of None \<Rightarrow> [] | Some v \<Rightarrow> [(k, v)])
             (first_occurrences (filter (\<lambda>k. \<not> secret_name k) (cmq_env_keys q)))))"

definition preview_secret :: pat where
  "preview_secret = seq_of [Cap (seq_of [Rep 0 is_word, any_of [lit_i ''TOKEN'', lit_i ''SECRET'', lit_i ''KEY''],
     Rep 0 is_word, lit ''='']), Rep 1 not_space]"

fun unix_lines :: "string \<Rightarrow> string" where
  "unix_lines (a # b # cs) =
     (if a = CHR 0x0D \<and> b = CHR 0x0A then CHR 0x0A # unix_lines cs else a # unix_lines (b # cs))"
| "unix_lines s = s"

definition sanitize_preview :: "string \<Rightarrow> string" where
  "sanitize_preview s = unix_lines (subst_with preview_secret (\<lambda>v. v @ ''[redacted]'') s)"

definition output_preview :: "nat \<Rightarrow> string \<Rightarrow> string" where
  "output_preview limit out = sanitize_preview (take limit out)"

section \<open>Executors\<close>

datatype command_executor =
    BlockedExecutor
  | FixtureExecutor bool nat nat  \<comment> \<open>enabled, and the limits of the previews\<close>

fun executor_kind :: "command_executor \<Rightarrow> string" where
  "executor_kind BlockedExecutor = ''blocked''"
| "executor_kind (FixtureExecutor _ _ _) = ''fixture_local''"

definition command_refused :: "string \<Rightarrow> string \<Rightarrow> command_request \<Rightarrow> command_validation" where
  "command_refused reason blocked q =
     \<lparr>cmv_allowed = False, cmv_reason = reason, cmv_normalized = command_signature (cmq_command q) (cmq_args q),
      cmv_blocked = Some blocked\<rparr>"

fun validate_command :: "host \<Rightarrow> command_executor \<Rightarrow> command_request \<Rightarrow> command_validation" where
  "validate_command h BlockedExecutor q =
     command_refused ''command_executor_blocked'' ''local_command_execution_disabled'' q"
| "validate_command h (FixtureExecutor enabled _ _) q =
     (let c = cmq_command q; args = cmq_args q; name = executable_name c;
          normalized = command_signature c args; text = full_command_text c args
      in if \<not> enabled then command_refused ''fixture_local_executor_disabled'' ''local_command_execution_disabled'' q
         else if list_ex (list_ex shell_metacharacter) (c # args)
         then command_refused ''shell_syntax_not_allowed'' ''shell_execution_not_allowed'' q
         else if name \<in> set blocked_executables
         then command_refused ''unsafe_executable_blocked'' ''unsafe_command_blocked'' q
         else if name \<notin> set fixture_executables \<and> path_resolve (hst_cwd h) c \<noteq> hst_exec_path h
         then command_refused ''fixture_executor_command_not_supported'' ''unsupported_fixture_command'' q
         else if includes_any (cmq_denied q) text \<or> includes_any (cmq_denied q) normalized
         then command_refused ''command_denied_by_harness_policy'' ''denied_command'' q
         else if \<not> allowed_by_harness c args (cmq_allowed q)
         then command_refused ''command_not_allowed_by_harness_policy'' ''command_not_allowed'' q
         else \<lparr>cmv_allowed = True, cmv_reason = ''command_allowed'', cmv_normalized = normalized, cmv_blocked = None\<rparr>)"

definition blocked_command :: "draws \<Rightarrow> string \<Rightarrow> command_validation \<Rightarrow> command_request \<Rightarrow> command_result" where
  "blocked_command s kind v q =
     \<lparr>cmr_id = fresh_id ''cmd'' 0 s, cmr_task_id = cmq_task_id q, cmr_run_id = cmq_run_id q,
      cmr_agent_run_id = cmq_agent_run_id q, cmr_executor = kind, cmr_status = ''blocked'',
      cmr_command = cmq_command q, cmr_args = cmq_args q, cmr_exit_code = None, cmr_stdout = [], cmr_stderr = [],
      cmr_stdout_bytes = 0, cmr_stderr_bytes = 0, cmr_duration = clock 2 s - clock 1 s,
      cmr_blocked = Some (opt_default (cmv_blocked v) (cmv_reason v)), cmr_created_at = clock 3 s,
      cmr_metadata = [(''validationReason'', JStr (cmv_reason v)), (''externalCalls'', JBool False),
        (''shellExecution'', JBool False)]\<rparr>"

definition process_of :: "host \<Rightarrow> command_request \<Rightarrow> process_request" where
  "process_of h q =
     \<lparr>pcq_command = cmq_command q, pcq_args = cmq_args q, pcq_cwd = cmq_workspace q, pcq_env = env_for_request h q,
      pcq_timeout = max 1 (cmq_timeout q)\<rparr>"

definition finished_command ::
  "draws \<Rightarrow> nat \<Rightarrow> nat \<Rightarrow> command_validation \<Rightarrow> command_request \<Rightarrow> child_outcome \<Rightarrow> command_result" where
  "finished_command s max_out max_err v q child =
     (let (status, code, out, err) = (case child of
            ChildClosed code out err \<Rightarrow> (if code = Some 0 then ''completed'' else ''failed'', code, out, err)
          | ChildError msg \<Rightarrow> (''failed'', None, [], msg)
          | ChildTimeout out err \<Rightarrow> (''timed_out'', None, out, err))
      in \<lparr>cmr_id = fresh_id ''cmd'' 0 s, cmr_task_id = cmq_task_id q, cmr_run_id = cmq_run_id q,
          cmr_agent_run_id = cmq_agent_run_id q, cmr_executor = ''fixture_local'', cmr_status = status,
          cmr_command = cmq_command q, cmr_args = cmq_args q, cmr_exit_code = code,
          cmr_stdout = output_preview max_out out,
          cmr_stderr = (case child of ChildError msg \<Rightarrow> sanitize_preview msg | _ \<Rightarrow> output_preview max_err err),
          cmr_stdout_bytes = length out, cmr_stderr_bytes = length err, cmr_duration = clock 2 s - clock 1 s,
          cmr_blocked = (if status = ''timed_out'' then Some ''command_timed_out'' else None),
          cmr_created_at = clock 3 s,
          cmr_metadata = [(''normalizedCommand'', JStr (cmv_normalized v)), (''externalCalls'', JBool False),
            (''shellExecution'', JBool False)]\<rparr>)"

text \<open>The result, and the process that was started for it.\<close>

fun execute_command ::
  "host \<Rightarrow> draws \<Rightarrow> command_executor \<Rightarrow> command_request \<Rightarrow> command_result \<times> process_request list" where
  "execute_command h s BlockedExecutor q =
     (blocked_command s ''blocked'' (validate_command h BlockedExecutor q) q, [])"
| "execute_command h s (FixtureExecutor enabled max_out max_err) q =
     (let v = validate_command h (FixtureExecutor enabled max_out max_err) q
      in if \<not> cmv_allowed v then (blocked_command s ''fixture_local'' v q, [])
         else (finished_command s max_out max_err v q (hst_process h (process_of h q)), [process_of h q]))"

section \<open>Workspaces\<close>

datatype fs_effect = MakeDir string | RemoveTree string

record workspace_manager =
  wsm_root :: string
  wsm_rows :: "agent_workspace list"
  wsm_effects :: "fs_effect list"

definition new_workspace_manager :: "host \<Rightarrow> string option \<Rightarrow> workspace_manager" where
  "new_workspace_manager h base =
     \<lparr>wsm_root = path_resolve (hst_cwd h) (opt_default base (hst_tmp h @ ''/aichestra-agent-workspaces'')),
      wsm_rows = [], wsm_effects = []\<rparr>"

record workspace_check =
  wck_ok :: bool
  wck_reason :: "string option"
  wck_path :: string

definition validate_workspace :: "host \<Rightarrow> workspace_manager \<Rightarrow> string \<Rightarrow> bool option \<Rightarrow> workspace_check" where
  "validate_workspace h wm p allow_root =
     (let resolved = path_resolve (hst_cwd h) p; cwd = hst_cwd h;
          refuse = (\<lambda>reason. \<lparr>wck_ok = False, wck_reason = Some reason, wck_path = resolved\<rparr>)
      in if \<not> is_within_root cwd resolved (wsm_root wm) then refuse ''workspace_outside_allowed_root''
         else if resolved = path_resolve cwd cwd \<and> allow_root \<noteq> Some True
         then refuse ''repository_root_workspace_rejected''
         else if resolved = ''/'' then refuse ''filesystem_root_workspace_rejected''
         else \<lparr>wck_ok = True, wck_reason = None, wck_path = resolved\<rparr>)"

definition safe_name_char :: "char \<Rightarrow> char" where
  "safe_name_char c = (if is_alnum c \<or> c = CHR ''_'' \<or> c = CHR ''-'' then c else CHR ''_'')"

text \<open>\<open>mkdtemp\<close> adds characters of its own, an id drawn here, to the prefix and makes the directory.\<close>

definition create_temp_path :: "draws \<Rightarrow> string \<Rightarrow> workspace_manager \<Rightarrow> string \<times> workspace_manager" where
  "create_temp_path s task_id wm =
     (let p = path_resolve (wsm_root wm) (map safe_name_char task_id @ ''-'') @ dr_id s [0]
      in (p, wm\<lparr>wsm_effects := wsm_effects wm @ [MakeDir (wsm_root wm), MakeDir p]\<rparr>))"

definition workspace_row ::
  "draws \<Rightarrow> workspace_request \<Rightarrow> string \<Rightarrow> string \<Rightarrow> jsobj \<Rightarrow> agent_workspace" where
  "workspace_row s q dir status meta =
     \<lparr>wsp_id = fresh_id ''agentws'' 0 s, wsp_root = dir, wsp_mode = wsq_mode q, wsp_task_id = wsq_task_id q,
      wsp_run_id = wsq_run_id q, wsp_created_at = clock 0 s, wsp_cleanup = wsq_cleanup q, wsp_status = status,
      wsp_metadata = obj_spread (wsq_metadata q) meta\<rparr>"

definition create_workspace ::
  "host \<Rightarrow> draws \<Rightarrow> workspace_request \<Rightarrow> workspace_manager \<Rightarrow> agent_workspace \<times> workspace_manager" where
  "create_workspace h s q wm =
     (let (p, wm1) = (if wsq_mode q = ''fixture'' then (wsq_path q, wm)
            else (let (t, wm1) = create_temp_path (sub 0 s) (wsq_task_id q) wm in (Some t, wm1)));
          save = (\<lambda>w. (w, wm1\<lparr>wsm_rows := wsm_rows wm1 @ [w]\<rparr>))
      in if \<not> truthy_str p
         then save (workspace_row s q (wsm_root wm1) ''rejected'' [(''reason'', JStr ''workspace_path_missing'')])
         else
           (let v = validate_workspace h wm1 (the p) (wsq_allow_root q)
            in save (workspace_row s q (wck_path v) (if wck_ok v then ''ready'' else ''rejected'')
                 [(''reason'', of_opt_str (wck_reason v)), (''workspaceRoot'', JStr (wsm_root wm1))])))"

definition cleanup_workspace :: "draws \<Rightarrow> string \<Rightarrow> (workspace_manager, agent_workspace) op" where
  "cleanup_workspace s i wm =
     (case find_workspace i (wsm_rows wm) of
        None \<Rightarrow> (Inl (Error (''Agent workspace not found: '' @ i)), wm)
      | Some w \<Rightarrow>
          (let f = (\<lambda>w. w\<lparr>wsp_status := ''cleaned'',
                 wsp_metadata := obj_spread (wsp_metadata w) [(''cleanedAt'', JStr (iso_string (clock 0 s)))]\<rparr>)
           in (Inr (f w),
               wm\<lparr>wsm_rows := update_by wsp_id i f (wsm_rows wm),
                  wsm_effects := wsm_effects wm @
                    (if wsp_cleanup w = ''delete_temp_workspace'' \<and> wsp_mode w = ''temp'' \<and> wsp_status w \<noteq> ''cleaned''
                     then [RemoveTree (wsp_root w)] else [])\<rparr>)))"

section \<open>Paths below a root\<close>

definition path_name :: "string \<Rightarrow> bool" where
  "path_name x \<longleftrightarrow> x \<noteq> [] \<and> x \<noteq> ''.'' \<and> x \<noteq> ''..'' \<and> CHR ''/'' \<notin> set x"

definition below :: "string \<Rightarrow> string \<Rightarrow> bool" where
  "below base p \<longleftrightarrow> take (length (path_names base)) (path_names p) = path_names base"

lemma normal_names_names:
  "\<forall>x \<in> set acc. path_name x \<Longrightarrow> \<forall>x \<in> set xs. CHR ''/'' \<notin> set x \<Longrightarrow> x \<in> set (normal_names acc xs) \<Longrightarrow> path_name x"
proof (induction acc xs rule: normal_names.induct)
  case (2 acc y ys)
  then show ?case by (auto simp: path_name_def dest: in_set_butlastD split: if_splits)
qed simp

lemma path_names_names: "x \<in> set (path_names p) \<Longrightarrow> path_name x"
  unfolding path_names_def by (rule normal_names_names[of "[]"]) (auto dest: split_on_no_sep)

lemma normal_names_id: "\<forall>x \<in> set xs. path_name x \<Longrightarrow> normal_names acc xs = acc @ xs"
  by (induction xs arbitrary: acc) (simp_all add: path_name_def)

lemma split_on_append: "c \<notin> set x \<Longrightarrow> split_on c (x @ c # ys) = x # split_on c ys"
  by (induction x) auto

lemma split_on_single: "c \<notin> set x \<Longrightarrow> split_on c x = [x]"
  by (induction x) auto

lemma split_on_join: "xs \<noteq> [] \<Longrightarrow> \<forall>x \<in> set xs. c \<notin> set x \<Longrightarrow> split_on c (join_with [c] xs) = xs"
  by (induction "[c]" xs rule: join_with.induct) (simp_all add: split_on_append split_on_single)

lemma path_names_rooted:
  assumes "\<forall>x \<in> set ns. path_name x"
  shows "path_names (''/'' @ join_with ''/'' ns) = ns"
proof (cases "ns = []")
  case False
  then have "split_on CHR ''/'' (join_with ''/'' ns) = ns"
    using assms by (intro split_on_join) (auto simp: path_name_def)
  then show ?thesis using assms by (simp add: path_names_def normal_names_id)
qed (simp add: path_names_def)

lemma path_resolve_absolute [simp]: "is_absolute (path_resolve cwd p)"
  by (simp add: path_resolve_def is_absolute_def starts_with_def)

lemma path_names_resolve [simp]:
  "path_names (path_resolve cwd p) = path_names (if is_absolute p then p else cwd @ ''/'' @ p)"
  unfolding path_resolve_def by (rule path_names_rooted) (auto dest: path_names_names)

lemma path_resolve_idem [simp]: "path_resolve cwd' (path_resolve cwd p) = path_resolve cwd p"
  using path_names_resolve[of cwd p] path_resolve_absolute[of cwd p]
  by (simp add: path_resolve_def[of cwd'] path_resolve_def[of cwd p])

lemma strip_common_split: "strip_common xs ys = (up, down) \<Longrightarrow> \<exists>zs. xs = zs @ up \<and> ys = zs @ down"
proof (induction xs ys rule: strip_common.induct)
  case (1 x xs y ys)
  show ?case
  proof (cases "x = y")
    case True
    with 1 obtain zs where "xs = zs @ up" "ys = zs @ down" by auto
    with True have "x # xs = (x # zs) @ up \<and> y # ys = (x # zs) @ down" by simp
    then show ?thesis by blast
  qed (use 1 in auto)
qed auto

lemma join_dots: "starts_with (join_with ''/'' (''..'' # xs)) ''..''"
  by (cases xs) (simp_all add: starts_with_def)

text \<open>A candidate within a root has the names of the root in front: no \<open>..\<close> escapes it.\<close>

lemma within_root_below:
  assumes "is_within_root cwd candidate base"
  shows "below (path_resolve cwd base) (path_resolve cwd candidate)"
proof -
  obtain up down where ud: "strip_common (path_names (path_resolve cwd base)) (path_names (path_resolve cwd candidate)) = (up, down)"
    by fastforce
  then have rel: "path_relative cwd base candidate = join_with ''/'' (map (\<lambda>_. ''..'') up @ down)"
    unfolding path_relative_def by (simp only: ud Let_def prod.case)
  have "up = []"
  proof (cases up)
    case (Cons x xs)
    then have "starts_with (path_relative cwd base candidate) ''..''"
      using join_dots[of "map (\<lambda>_. ''..'') xs @ down"] rel by simp
    then show ?thesis using assms by (auto simp: is_within_root_def Let_def starts_with_def)
  qed simp
  then show ?thesis using strip_common_split[OF ud] unfolding below_def by auto
qed

lemma validate_workspace_confines:
  assumes "wck_ok (validate_workspace h wm p allow)"
  defines "dir \<equiv> wck_path (validate_workspace h wm p allow)"
  shows "dir = path_resolve (hst_cwd h) p" "below (path_resolve (hst_cwd h) (wsm_root wm)) dir" "dir \<noteq> ''/''"
    "dir = path_resolve (hst_cwd h) (hst_cwd h) \<Longrightarrow> allow = Some True"
  using assms within_root_below[of "hst_cwd h" "path_resolve (hst_cwd h) p" "wsm_root wm"]
  by (auto simp: validate_workspace_def Let_def split: if_splits)

section \<open>Started processes\<close>

text \<open>What a started process satisfies, given the allowed and the denied commands of its request.\<close>

definition process_confined :: "host \<Rightarrow> string list \<Rightarrow> string list \<Rightarrow> process_request \<Rightarrow> bool" where
  "process_confined h allowed denied p \<longleftrightarrow>
     (let c = pcq_command p; args = pcq_args p in
      \<not> list_ex (list_ex shell_metacharacter) (c # args) \<and>
      executable_name c \<notin> set blocked_executables \<and>
      (executable_name c \<in> set fixture_executables \<or> path_resolve (hst_cwd h) c = hst_exec_path h) \<and>
      \<not> includes_any denied (full_command_text c args) \<and> \<not> includes_any denied (command_signature c args) \<and>
      allowed_by_harness c args allowed \<and> list_all (\<lambda>(k, _). \<not> secret_name k) (pcq_env p))"

lemma env_no_secrets: "list_all (\<lambda>(k, _). \<not> secret_name k) (env_for_request h q)"
  by (auto simp: env_for_request_def list_all_iff set_first_occurrences split: option.splits)

lemma validate_command_allowed:
  assumes "cmv_allowed (validate_command h ex q)"
  shows "\<exists>out err. ex = FixtureExecutor True out err"
    "process_confined h (cmq_allowed q) (cmq_denied q) (process_of h q)"
  using assms env_no_secrets[of h q]
  by (cases ex; auto simp: process_confined_def process_of_def command_refused_def Let_def split: if_splits)+

lemma execute_command_starts:
  assumes "p \<in> set (snd (execute_command h s ex q))"
  shows "p = process_of h q" "\<exists>out err. ex = FixtureExecutor True out err"
    "process_confined h (cmq_allowed q) (cmq_denied q) p"
  using assms validate_command_allowed[of h ex q]
  by (cases ex; auto simp: Let_def simp del: validate_command.simps split: if_splits)+

text \<open>Without an enabled executor the answer does not depend on what a process would do.\<close>

lemma blocked_executor_blind:
  "execute_command (h\<lparr>hst_process := f\<rparr>) s BlockedExecutor q = execute_command h s BlockedExecutor q"
  by simp

end
