(* ===== verification/RunnerAgents.thy ===== *)
theory RunnerAgents
  imports RunnerCommands LlmCompletion
begin

text \<open>
  The two agents of the runner: the mock (\<open>packages/runner/src/mock-agent-runner.ts\<close>) and the local one
  (\<open>local-agent-runner.ts\<close>), which runs test commands in a workspace.  Both ask the LLM gateway when they
  are given one that routes; with the mock gateway of \<open>packages/adapters\<close> they have none.
\<close>

section \<open>State\<close>

record agent_state =
  ags_llm :: "llm_state option"
  ags_commands :: "command_result list"
  ags_workspaces :: workspace_manager
  ags_started :: "process_request list"

datatype agent_runner = MockRunner | LocalRunner runner_config command_executor

fun runner_kind :: "agent_runner \<Rightarrow> string" where
  "runner_kind MockRunner = ''mock''"
| "runner_kind (LocalRunner _ _) = ''local''"

definition default_executor :: "runner_config \<Rightarrow> command_executor" where
  "default_executor c =
     (if rcf_commands c then FixtureExecutor True (rcf_max_stdout c) (rcf_max_stderr c) else BlockedExecutor)"

definition runner_from_config :: "runner_config \<Rightarrow> agent_runner" where
  "runner_from_config c = (if rcf_kind c = ''local'' then LocalRunner c (default_executor c) else MockRunner)"

definition new_agent_state :: "host \<Rightarrow> runner_config \<Rightarrow> llm_state option \<Rightarrow> agent_state" where
  "new_agent_state h c llm =
     \<lparr>ags_llm = llm, ags_commands = [], ags_workspaces = new_workspace_manager h (rcf_root c), ags_started = []\<rparr>"

section \<open>The call of the LLM gateway\<close>

definition agent_llm_request :: "string \<Rightarrow> string \<Rightarrow> string \<Rightarrow> agent_run_request \<Rightarrow> llm_request" where
  "agent_llm_request title source kind q =
     \<lparr>lq_task_id = arq_task_id q, lq_run_id = arq_run_id q, lq_actor_id = arq_actor_id q, lq_principal_id = None,
      lq_auth = None, lq_model_ref = Some (arq_model q), lq_provider_id = None, lq_key_id = None, lq_kind = None,
      lq_prompt_class = None, lq_capabilities = None, lq_max_fallback = None, lq_prompt = arq_prompt q,
      lq_system = Some (title @ '' '' @ vr_name (arq_harness q) @ ''@'' @ vr_version (arq_harness q)),
      lq_tool_context = None, lq_max_tokens = None, lq_temperature = None,
      lq_budget_limit = (case obj_get (arq_metadata q) ''budgetLimitUsd'' of JNum n \<Rightarrow> Some n | _ \<Rightarrow> None),
      lq_repo_id = map_option rrf_repo_id (arq_repo q),
      lq_metadata = Some [(''source'', JStr source), (''runnerKind'', JStr kind)]\<rparr>"

definition route_agent_call ::
  "http_client \<Rightarrow> engine \<Rightarrow> draws \<Rightarrow> llm_request \<Rightarrow> agent_state \<Rightarrow> completion_outcome option \<times> agent_state" where
  "route_agent_call http decide s lq st =
     (case ags_llm st of
        None \<Rightarrow> (None, st)
      | Some g \<Rightarrow> (let (x, g') = complete_route http decide s lq g in (Some x, st\<lparr>ags_llm := Some g'\<rparr>)))"

definition nonempty_id :: "string option \<Rightarrow> string list" where
  "nonempty_id i = (if truthy_str i then [the i] else [])"

definition call_ids :: "completion_outcome option \<Rightarrow> string list \<times> string list" where
  "call_ids x =
     (nonempty_id (map_option lr_id (Option.bind x cpo_result)), nonempty_id (map_option uev_id (Option.bind x cpo_usage)))"

definition call_blocked :: "completion_outcome option \<Rightarrow> completion_outcome option" where
  "call_blocked x = (case x of Some y \<Rightarrow> if cpo_ok y then None else Some y | None \<Rightarrow> None)"

definition completion_metadata :: "completion_outcome option \<Rightarrow> jsobj" where
  "completion_metadata x =
     [(''completionProviderKind'', of_opt_str (map_option lr_kind (Option.bind x cpo_result))),
      (''completionModelId'', of_opt_str (map_option lr_model_id (Option.bind x cpo_result)))]"

definition no_changes :: string where
  "no_changes = ''0 files changed, 0 insertions, 0 deletions''"

section \<open>The mock agent\<close>

definition prompt_has :: "string list \<Rightarrow> string \<Rightarrow> bool" where
  "prompt_has ws prompt = list_ex (str_includes (to_lower prompt)) ws"

definition mock_changed_files :: "string \<Rightarrow> string list" where
  "mock_changed_files prompt =
     (if prompt_has [''login'', ''auth'', ''session''] prompt
      then [''src/auth/session.ts'', ''tests/auth/session.test.ts'']
      else if prompt_has [''payment''] prompt then [''src/payments/service.ts'', ''tests/payments/service.test.ts'']
      else if prompt_has [''infra''] prompt then [''infra/app.tf'']
      else [''src/app.ts''])"

definition whole_word :: "string list \<Rightarrow> string \<Rightarrow> bool" where
  "whole_word ws prompt = re_test (seq_of [Bound, any_of (map lit ws), Bound]) None (to_lower prompt)"

definition should_fail :: "string \<Rightarrow> bool" where
  "should_fail = whole_word [''mock-fail'', ''force-fail'', ''fail-task'']"

definition should_block :: "string \<Rightarrow> bool" where
  "should_block = whole_word [''mock-block'', ''blocked-command'', ''deny-run'']"

definition blocked_run ::
  "string \<Rightarrow> time \<Rightarrow> time \<Rightarrow> agent_run_request \<Rightarrow> string \<Rightarrow> string \<Rightarrow> string \<Rightarrow> jsobj \<Rightarrow> agent_run" where
  "blocked_run i created completed q kind label output meta =
     \<lparr>arn_id = i, arn_task_id = arq_task_id q, arn_run_id = arq_run_id q, arn_kind = kind, arn_status = ''blocked'',
      arn_diff = no_changes, arn_files = [],
      arn_tests = [\<lparr>tst_command = label, tst_status = ''blocked'', tst_output = output\<rparr>],
      arn_llm_ids = [], arn_usage_ids = [], arn_audit_ids = [], arn_command_ids = [], arn_workspace_id = None,
      arn_created_at = created, arn_completed_at = Some completed, arn_metadata = meta\<rparr>"

definition files_text :: "string list \<Rightarrow> string" where
  "files_text files = nat_to_string (length files)"

definition mock_run :: "draws \<Rightarrow> agent_run_request \<Rightarrow> completion_outcome option \<Rightarrow> agent_run" where
  "mock_run s q x =
     (let files = mock_changed_files (arq_prompt q); failed = should_fail (arq_prompt q)
      in \<lparr>arn_id = fresh_id ''agentrun'' 1 s, arn_task_id = arq_task_id q, arn_run_id = arq_run_id q, arn_kind = ''mock'',
          arn_status = (if failed then ''failed'' else ''completed''),
          arn_diff = files_text files @ '' files changed, 18 insertions, 4 deletions'', arn_files = files,
          arn_tests = [\<lparr>tst_command = (case arq_tests q of [] \<Rightarrow> ''mock test'' | c # _ \<Rightarrow> c),
            tst_status = (if failed then ''failed'' else ''passed''),
            tst_output = (if failed then ''Mock tests failed for '' @ arq_task_id q @ ''.''
              else ''Mock tests passed for '' @ files_text files @ '' changed file(s).'')\<rparr>],
          arn_llm_ids = fst (call_ids x), arn_usage_ids = snd (call_ids x), arn_audit_ids = [], arn_command_ids = [],
          arn_workspace_id = None, arn_created_at = clock 0 s, arn_completed_at = Some (clock 2 s),
          arn_metadata = completion_metadata x @ [(''externalCalls'', JBool False), (''remoteGit'', JBool False)]\<rparr>)"

definition execute_mock ::
  "http_client \<Rightarrow> engine \<Rightarrow> draws \<Rightarrow> agent_run_request \<Rightarrow> agent_state \<Rightarrow> agent_run \<times> agent_state" where
  "execute_mock http decide s q st =
     (if should_block (arq_prompt q)
      then (blocked_run (fresh_id ''agentrun'' 1 s) (clock 0 s) (clock 0 s) q ''mock'' ''mock test''
              ''Mock runner blocked by request metadata or prompt.'' [(''reason'', JStr ''mock_runner_blocked'')], st)
      else
        (let (x, st1) = route_agent_call http decide (sub 3 s)
               (agent_llm_request ''Agent runner'' ''agent_runner'' ''mock'' q) st
         in case call_blocked x of
              Some y \<Rightarrow>
                (blocked_run (fresh_id ''agentrun'' 1 s) (clock 0 s) (clock 2 s) q ''mock'' ''mock test''
                   (opt_default (cpo_reason y) ''LLM gateway blocked the runner call.'')
                   [(''reason'', JStr (opt_default (cpo_reason y) ''llm_gateway_blocked''))], st1)
            | None \<Rightarrow> (mock_run s q x, st1)))"

text \<open>The mock test runner, \<open>test-runner.ts\<close>.\<close>

record test_run_result =
  trr_passed :: bool
  trr_command :: string
  trr_output :: string

definition mock_test_run :: "string \<Rightarrow> string list \<Rightarrow> string list \<Rightarrow> string \<Rightarrow> test_run_result" where
  "mock_test_run task commands files prompt =
     (let passed = (\<not> should_fail prompt)
      in \<lparr>trr_passed = passed, trr_command = (case commands of [] \<Rightarrow> ''mock test'' | c # _ \<Rightarrow> c),
          trr_output = (if passed then ''Mock tests passed for '' @ files_text files @ '' changed file(s).''
            else ''Mock tests failed for '' @ task @ ''.'')\<rparr>)"

section \<open>The local agent\<close>

definition local_path_of :: "agent_run_request \<Rightarrow> string option" where
  "local_path_of q = Option.bind (arq_repo q) rrf_local_path"

definition resolve_safe :: "host \<Rightarrow> string option \<Rightarrow> string option" where
  "resolve_safe h p = (if truthy_str p then Some (path_resolve (hst_cwd h) (the p)) else None)"

definition validate_environment :: "host \<Rightarrow> agent_runner \<Rightarrow> string option \<Rightarrow> environment_check" where
  \<comment> \<open>the local path of the request is the third argument\<close>
  "validate_environment h r path =
     (case r of
        MockRunner \<Rightarrow>
          \<lparr>evc_ok = True, evc_kind = ''mock'', evc_reason = None,
           evc_metadata = [(''externalCalls'', JBool False), (''filesystemMutation'', JBool False),
             (''remoteGit'', JBool False)]\<rparr>
      | LocalRunner c _ \<Rightarrow>
          (let refuse = (\<lambda>reason meta. \<lparr>evc_ok = False, evc_kind = ''local'', evc_reason = Some reason, evc_metadata = meta\<rparr>);
               base = resolve_safe h (rcf_root c); p = resolve_safe h path
           in if \<not> rcf_local c
              then refuse ''local_runner_disabled'' [(''commandExecutionEnabled'', JBool (rcf_commands c)),
                (''workspaceRootConfigured'', JBool (truthy_str (rcf_root c)))]
              else if \<not> (case (base, p) of (Some b, Some x) \<Rightarrow> is_within_root (hst_cwd h) x b | _ \<Rightarrow> False)
              then refuse ''local_runner_workspace_unsafe'' [(''workspaceRootConfigured'', JBool (base \<noteq> None)),
                (''localPathConfigured'', JBool (p \<noteq> None))]
              else \<lparr>evc_ok = True, evc_kind = ''local'', evc_reason = None,
                evc_metadata = [(''commandExecutionEnabled'', JBool (rcf_commands c)),
                  (''workspaceRootConfigured'', JBool True), (''simulationMode'', JBool (\<not> rcf_commands c))]\<rparr>))"

definition prepare_run :: "host \<Rightarrow> draws \<Rightarrow> agent_runner \<Rightarrow> agent_run_request \<Rightarrow> prepared_run" where
  "prepare_run h s r q =
     (let v = validate_environment h r (local_path_of q) in
      \<lparr>prn_id = fresh_id ''agentprep'' 0 s, prn_task_id = arq_task_id q, prn_run_id = arq_run_id q,
       prn_kind = runner_kind r, prn_status = (if evc_ok v then ''prepared'' else ''blocked''),
       prn_reason = evc_reason v, prn_created_at = clock 0 s\<rparr>)"

definition local_changed_files :: "string \<Rightarrow> string list" where
  "local_changed_files prompt =
     (if prompt_has [''auth'', ''login''] prompt then [''src/auth/session.ts'', ''tests/auth/session.test.ts'']
      else [''src/app.ts''])"

text \<open>\<open>spec.trim().split(/\s+/).filter(Boolean)\<close>.\<close>

fun words_of :: "string \<Rightarrow> string \<Rightarrow> string list" where
  "words_of w [] = (if w = [] then [] else [w])"
| "words_of w (c # cs) = (if is_space c then (if w = [] then [] else [w]) @ words_of [] cs else words_of (w @ [c]) cs)"

definition parse_command_spec :: "string \<Rightarrow> string \<times> string list" where
  "parse_command_spec spec = (case words_of [] spec of [] \<Rightarrow> ([], []) | c # args \<Rightarrow> (c, args))"

definition fixture_env_keys :: "string list" where
  "fixture_env_keys = [''PATH'', ''Path'', ''PATHEXT'', ''SystemRoot'', ''COMSPEC'', ''HOME'', ''USERPROFILE'']"

definition run_command ::
  "host \<Rightarrow> draws \<Rightarrow> command_executor \<Rightarrow> command_request \<Rightarrow> agent_state \<Rightarrow> command_result \<times> agent_state" where
  \<comment> \<open>a command, its process in the log of the host, its result in the repository\<close>
  "run_command h s ex q st =
     (let (x, ps) = execute_command h s ex q
      in (x, st\<lparr>ags_commands := ags_commands st @ [x], ags_started := ags_started st @ ps\<rparr>))"

definition test_command_request ::
  "runner_config \<Rightarrow> agent_run_request \<Rightarrow> string \<Rightarrow> agent_workspace \<Rightarrow> string \<Rightarrow> command_request" where
  "test_command_request c q run_id w spec =
     (let policy = create_harness_policy (Some (arq_allowed q)) (Some (arq_max_runtime q)) (Some (rcf_max_stdout c))
            (Some (rcf_max_stderr c)) (Some (wsp_cleanup w));
          (command, args) = parse_command_spec spec
      in \<lparr>cmq_task_id = arq_task_id q, cmq_run_id = arq_run_id q, cmq_agent_run_id = run_id, cmq_workspace = wsp_root w,
          cmq_command = command, cmq_args = args, cmq_timeout = min (arq_max_runtime q) (hpl_max_runtime policy),
          cmq_allowed = hpl_allowed policy, cmq_denied = hpl_denied policy, cmq_inherit_env = False,
          cmq_env_keys = fixture_env_keys,
          cmq_metadata = [(''workspaceId'', JStr (wsp_id w)), (''source'', JStr ''local_agent_runner'')]\<rparr>)"

fun execute_test_commands ::
  "host \<Rightarrow> draws \<Rightarrow> nat \<Rightarrow> runner_config \<Rightarrow> command_executor \<Rightarrow> agent_run_request \<Rightarrow> string \<Rightarrow> agent_workspace \<Rightarrow>
   string list \<Rightarrow> agent_state \<Rightarrow> command_result list \<times> agent_state" where
  "execute_test_commands h s k c ex q run_id w [] st = ([], st)"
| "execute_test_commands h s k c ex q run_id w (spec # specs) st =
     (let (x, st1) = run_command h (sub k s) ex (test_command_request c q run_id w spec) st;
          (xs, st2) = execute_test_commands h s (Suc k) c ex q run_id w specs st1
      in (x # xs, st2))"

definition prepare_workspace :: "host \<Rightarrow> draws \<Rightarrow> agent_run_request \<Rightarrow> agent_state \<Rightarrow> agent_workspace \<times> agent_state" where
  "prepare_workspace h s q st =
     (let fixture = truthy_str (local_path_of q);
          (w, wm) = create_workspace h s
            \<lparr>wsq_task_id = arq_task_id q, wsq_run_id = arq_run_id q, wsq_mode = (if fixture then ''fixture'' else ''temp''),
             wsq_path = local_path_of q, wsq_cleanup = (if fixture then ''none'' else ''delete_temp_workspace''),
             wsq_allow_root = Some False,
             wsq_metadata = [(''runnerKind'', JStr ''local''), (''commandExecution'', JBool True)]\<rparr>
            (ags_workspaces st)
      in (w, st\<lparr>ags_workspaces := wm\<rparr>))"

definition blocked_local :: "draws \<Rightarrow> agent_run_request \<Rightarrow> string \<Rightarrow> string option \<Rightarrow> agent_run" where
  "blocked_local s q reason workspace_id =
     (blocked_run (fresh_id ''agentrun'' 1 s) (clock 0 s) (clock 0 s) q ''local'' ''local runner'' reason
        [(''reason'', JStr reason), (''workspaceId'', of_opt_str workspace_id), (''filesystemMutation'', JBool False),
         (''remoteGit'', JBool False), (''network'', JBool False)])
     \<lparr>arn_workspace_id := workspace_id\<rparr>"

definition command_test :: "command_result \<Rightarrow> agent_test" where
  "command_test x =
     \<lparr>tst_command = trim (join_with '' '' (path_basename (cmr_command x) # cmr_args x)),
      tst_status = (if cmr_status x = ''completed'' then ''passed''
        else if cmr_status x = ''blocked'' then ''blocked'' else ''failed''),
      tst_output = opt_default (cmr_blocked x) (cmr_stdout x)\<rparr>"

definition local_status :: "command_result list \<Rightarrow> string" where
  "local_status xs =
     (if list_ex (\<lambda>x. cmr_status x = ''blocked'') xs then ''blocked''
      else if list_ex (\<lambda>x. cmr_status x \<in> {''failed'', ''timed_out''}) xs then ''failed'' else ''completed'')"

definition local_run ::
  "draws \<Rightarrow> runner_config \<Rightarrow> command_executor \<Rightarrow> agent_run_request \<Rightarrow> completion_outcome option \<Rightarrow> agent_workspace option \<Rightarrow>
   command_result list \<Rightarrow> agent_run" where
  "local_run s c ex q x w results =
     (let files = local_changed_files (arq_prompt q)
      in \<lparr>arn_id = fresh_id ''agentrun'' 1 s, arn_task_id = arq_task_id q, arn_run_id = arq_run_id q, arn_kind = ''local'',
          arn_status = local_status results,
          arn_diff = files_text files @ '' files changed, 6 insertions, 1 deletion'', arn_files = files,
          arn_tests = (if results \<noteq> [] then map command_test results
            else [\<lparr>tst_command = (case arq_tests q of [] \<Rightarrow> ''local simulation'' | t # _ \<Rightarrow> t), tst_status = ''skipped'',
              tst_output = ''LocalAgentRunner ran in simulation mode; no commands were executed.''\<rparr>]),
          arn_llm_ids = fst (call_ids x), arn_usage_ids = snd (call_ids x), arn_audit_ids = [],
          arn_command_ids = map cmr_id results, arn_workspace_id = map_option wsp_id w,
          arn_created_at = clock 0 s, arn_completed_at = Some (clock 2 s),
          arn_metadata = [(''simulationMode'', JBool (\<not> rcf_commands c)), (''commandExecution'', JBool (rcf_commands c)),
            (''commandExecutorKind'', JStr (executor_kind ex)),
            (''commandResultStatuses'', JArr (map (\<lambda>x. JStr (cmr_status x)) results)),
            (''workspaceId'', of_opt_str (map_option wsp_id w)), (''filesystemMutation'', JBool False),
            (''remoteGit'', JBool False), (''network'', JBool False)] @ completion_metadata x\<rparr>)"

definition finish_workspace :: "draws \<Rightarrow> agent_workspace option \<Rightarrow> (agent_state, unit) op" where
  "finish_workspace s w st =
     (case w of
        None \<Rightarrow> (Inr (), st)
      | Some w \<Rightarrow>
          if wsp_cleanup w = ''delete_temp_workspace'' then
            (case cleanup_workspace s (wsp_id w) (ags_workspaces st) of
               (Inl e, wm) \<Rightarrow> (Inl e, st\<lparr>ags_workspaces := wm\<rparr>)
             | (Inr _, wm) \<Rightarrow> (Inr (), st\<lparr>ags_workspaces := wm\<rparr>))
          else (Inr (), st))"

definition run_in_workspace ::
  "host \<Rightarrow> draws \<Rightarrow> runner_config \<Rightarrow> command_executor \<Rightarrow> agent_run_request \<Rightarrow> completion_outcome option \<Rightarrow>
   agent_workspace option \<Rightarrow> (agent_state, agent_run) op" where
  "run_in_workspace h s c ex q x w st =
     (let (results, st1) = (case w of
            None \<Rightarrow> ([], st)
          | Some w \<Rightarrow> if rcf_commands c \<and> arq_tests q \<noteq> []
              then execute_test_commands h (sub 5 s) 0 c ex q (fresh_id ''agentrun'' 1 s) w (arq_tests q) st else ([], st))
      in case finish_workspace (sub 6 s) w st1 of
           (Inl e, st2) \<Rightarrow> (Inl e, st2)
         | (Inr _, st2) \<Rightarrow> (Inr (local_run s c ex q x w results), st2))"

definition execute_local ::
  "http_client \<Rightarrow> host \<Rightarrow> engine \<Rightarrow> draws \<Rightarrow> runner_config \<Rightarrow> command_executor \<Rightarrow> agent_run_request \<Rightarrow>
   (agent_state, agent_run) op" where
  "execute_local http h decide s c ex q st =
     (let v = validate_environment h (LocalRunner c ex) (local_path_of q)
      in if \<not> evc_ok v then (Inr (blocked_local s q (opt_default (evc_reason v) ''local_runner_blocked'') None), st)
         else if \<not> rcf_commands c \<and> arq_allowed q \<noteq> []
         then (Inr (blocked_local s q ''local_command_execution_disabled'' None), st)
         else
           (let (x, st1) = route_agent_call http decide (sub 3 s)
                  (agent_llm_request ''Local agent runner'' ''local_agent_runner'' ''local'' q) st
            in case call_blocked x of
                 Some y \<Rightarrow> (Inr (blocked_local s q (opt_default (cpo_reason y) ''llm_gateway_blocked'') None), st1)
               | None \<Rightarrow>
                   if \<not> rcf_commands c then run_in_workspace h s c ex q x None st1
                   else
                     (let (w, st2) = prepare_workspace h (sub 4 s) q st1
                      in if wsp_status w = ''rejected''
                         then (Inr (blocked_local s q
                           (opt_default (as_string (obj_get (wsp_metadata w) ''reason'')) ''workspace_rejected'')
                           (Some (wsp_id w))), st2)
                         else run_in_workspace h s c ex q x (Some w) st2)))"

fun execute_run ::
  "http_client \<Rightarrow> host \<Rightarrow> engine \<Rightarrow> draws \<Rightarrow> agent_runner \<Rightarrow> agent_run_request \<Rightarrow> (agent_state, agent_run) op" where
  "execute_run http h decide s MockRunner q st = (let (r, st1) = execute_mock http decide s q st in (Inr r, st1))"
| "execute_run http h decide s (LocalRunner c ex) q st = execute_local http h decide s c ex q st"

section \<open>One command of a run\<close>

record run_command_input =
  rci_path :: "string option"
  rci_command :: string
  rci_args :: "string list"
  rci_allowed :: "string list"
  rci_denied :: "string list option"
  rci_timeout :: "num option"

definition run_command_request ::
  "runner_config \<Rightarrow> agent_run \<Rightarrow> run_command_input \<Rightarrow> string \<Rightarrow> string list \<Rightarrow> jsobj \<Rightarrow> command_request" where
  "run_command_request c r i path env_keys meta =
     \<lparr>cmq_task_id = arn_task_id r, cmq_run_id = arn_run_id r, cmq_agent_run_id = arn_id r, cmq_workspace = path,
      cmq_command = rci_command i, cmq_args = rci_args i, cmq_timeout = opt_default (rci_timeout i) (rcf_max_runtime c),
      cmq_allowed = rci_allowed i, cmq_denied = opt_default (rci_denied i) default_denied_commands,
      cmq_inherit_env = False, cmq_env_keys = env_keys, cmq_metadata = meta\<rparr>"

definition save_command :: "command_result \<Rightarrow> agent_state \<Rightarrow> command_result \<times> agent_state" where
  "save_command x st = (x, st\<lparr>ags_commands := ags_commands st @ [x]\<rparr>)"

definition command_for_run ::
  "host \<Rightarrow> draws \<Rightarrow> runner_config \<Rightarrow> command_executor \<Rightarrow> agent_run \<Rightarrow> run_command_input \<Rightarrow> agent_state \<Rightarrow>
   command_result \<times> agent_state" where
  "command_for_run h s c ex r i st =
     (let path = opt_or (rci_path i)
            (map_option wsp_root (find_workspace (opt_default (arn_workspace_id r) []) (wsm_rows (ags_workspaces st))));
          refuse = (\<lambda>p reason. fst (execute_command h (sub 0 s) BlockedExecutor
            (run_command_request c r i p [] [(''reason'', JStr reason)])))
      in if \<not> truthy_str path
         then save_command (refuse (opt_default (rcf_root c) (hst_cwd h)) ''agent_run_workspace_missing'') st
         else
           (let v = validate_workspace h (ags_workspaces st) (the path) None
            in if \<not> wck_ok v
               then save_command ((refuse (the path) (opt_default (wck_reason v) ''workspace_rejected''))
                      \<lparr>cmr_blocked := opt_or (wck_reason v) (cmr_blocked
                        (refuse (the path) (opt_default (wck_reason v) ''workspace_rejected'')))\<rparr>) st
               else run_command h (sub 1 s) ex
                      (run_command_request c r i (wck_path v) fixture_env_keys
                         [(''source'', JStr ''execute_command_api'')]) st))"

section \<open>The legacy entry points\<close>

text \<open>
  The input has the fields of a call of the LLM gateway, \<open>lci_instructions\<close> being the hash of the assembled
  instruction set.
\<close>

record agent_summary =
  asy_summary :: string
  asy_files :: "string list"
  asy_diff :: string
  asy_usage :: jsobj
  asy_passed :: bool
  asy_run :: "agent_run option"
  asy_status :: string
  asy_tests :: "agent_test list"

definition mock_llm_usage :: "llm_call_input \<Rightarrow> jsobj" where
  "mock_llm_usage i =
     (let skills = join_with '','' (lci_skills i) in
      [(''taskId'', JStr (lci_task_id i)), (''taskRunId'', JStr (lci_run_id i)), (''userId'', JStr (lci_user_id i)),
       (''repoId'', JStr (lci_repo_id i)), (''provider'', JStr ''mock''), (''model'', JStr (lci_model i)),
       (''eventType'', JStr ''llm_call''), (''inputTokens'', JNum (of_int \<lceil>of_nat (length (lci_prompt i)) / (4 :: num)\<rceil>)),
       (''outputTokens'', JNum 64), (''costUsd'', JNum (1 / 1000)), (''latencyMs'', JNum 12),
       (''skillVersion'', JStr skills), (''harnessVersion'', JStr (lci_harness i)),
       (''metadata'', JObj [(''task_id'', JStr (lci_task_id i)), (''task_run_id'', JStr (lci_run_id i)),
         (''repo_id'', JStr (lci_repo_id i)), (''branch'', JStr (lci_branch i)), (''agent'', JStr (lci_agent i)),
         (''model'', JStr (lci_model i)), (''skill_versions'', JStr skills),
         (''harness_version'', JStr (lci_harness i)), (''instruction_set_hash'', JStr (lci_instructions i))])])"

definition complete_agent_call ::
  "http_client \<Rightarrow> engine \<Rightarrow> draws \<Rightarrow> llm_call_input \<Rightarrow> agent_state \<Rightarrow> (string + string \<times> jsobj) \<times> agent_state" where
  "complete_agent_call http decide s i st =
     (case ags_llm st of
        None \<Rightarrow> (Inr (''Mock completion for '' @ lci_task_id i @ '' using '' @ lci_model i @ ''.'', mock_llm_usage i), st)
      | Some g \<Rightarrow> (let (x, g') = complete_runner_call http decide s i g in (x, st\<lparr>ags_llm := Some g'\<rparr>)))"

definition run_mock ::
  "http_client \<Rightarrow> engine \<Rightarrow> draws \<Rightarrow> llm_call_input \<Rightarrow> agent_state \<Rightarrow> (string + agent_summary) \<times> agent_state" where
  "run_mock http decide s i st =
     (case complete_agent_call http decide s i st of
        (Inl e, st1) \<Rightarrow> (Inl e, st1)
      | (Inr (_, usage), st1) \<Rightarrow>
          (let files = mock_changed_files (lci_prompt i); failed = should_fail (lci_prompt i);
               status = (if failed then ''failed'' else ''completed'')
           in (Inr \<lparr>asy_summary = ''Mock agent generated a patch plan for '' @ lci_prompt i @ ''.'', asy_files = files,
                 asy_diff = files_text files @ '' files changed, 18 insertions, 4 deletions'', asy_usage = usage,
                 asy_passed = (\<not> failed), asy_run = None, asy_status = status,
                 asy_tests = [\<lparr>tst_command = ''mock test'', tst_status = (if failed then ''failed'' else ''passed''),
                   tst_output = (if failed then ''Mock tests failed for '' @ lci_task_id i @ ''.''
                     else ''Mock tests passed for '' @ files_text files @ '' changed file(s).'')\<rparr>]\<rparr>, st1)))"

definition named_version :: "string \<Rightarrow> string \<Rightarrow> version_ref" where
  "named_version kind v =
     (let parts = split_on CHR ''@'' v
      in \<lparr>vr_kind = kind, vr_name = hd parts, vr_version = (case tl parts of [] \<Rightarrow> ''unknown'' | x # _ \<Rightarrow> x),
          vr_id = None, vr_checksum = None\<rparr>)"

definition legacy_run_request :: "runner_config \<Rightarrow> llm_call_input \<Rightarrow> agent_run_request" where
  "legacy_run_request c i =
     \<lparr>arq_task_id = lci_task_id i, arq_run_id = lci_run_id i, arq_actor_id = Some (lci_user_id i),
      arq_repo = Some \<lparr>rrf_repo_id = lci_repo_id i, rrf_local_path = rcf_root c\<rparr>, arq_branch = Some (lci_branch i),
      arq_model = lci_model i, arq_skills = map (named_version ''skill'') (lci_skills i),
      arq_harness = named_version ''harness'' (lci_harness i), arq_instructions = [], arq_prompt = lci_prompt i,
      arq_allowed = [], arq_tests = [], arq_max_runtime = rcf_max_runtime c, arq_metadata = []\<rparr>"

definition local_usage :: "runner_config \<Rightarrow> llm_call_input \<Rightarrow> agent_run \<Rightarrow> jsobj" where
  "local_usage c i r =
     [(''taskId'', JStr (lci_task_id i)), (''taskRunId'', JStr (lci_run_id i)), (''userId'', JStr (lci_user_id i)),
      (''repoId'', JStr (lci_repo_id i)), (''provider'', JStr ''local''), (''model'', JStr (lci_model i)),
      (''eventType'', JStr ''runner_runtime''), (''costUsd'', JNum 0),
      (''skillVersion'', JStr (join_with '','' (lci_skills i))), (''harnessVersion'', JStr (lci_harness i)),
      (''metadata'', JObj [(''source'', JStr ''local_agent_runner''), (''simulationMode'', JBool (\<not> rcf_commands c)),
        (''filesystemMutation'', JBool False), (''remoteGit'', JBool False), (''network'', JBool False),
        (''reason'', obj_get (arn_metadata r) ''reason'')])]"

definition run_local ::
  "http_client \<Rightarrow> host \<Rightarrow> engine \<Rightarrow> draws \<Rightarrow> runner_config \<Rightarrow> command_executor \<Rightarrow> llm_call_input \<Rightarrow>
   (agent_state, agent_summary) op" where
  "run_local http h decide s c ex i st =
     (case execute_local http h decide s c ex (legacy_run_request c i) st of
        (Inl e, st1) \<Rightarrow> (Inl e, st1)
      | (Inr r, st1) \<Rightarrow>
          (Inr \<lparr>asy_summary = (if arn_status r = ''completed''
                then ''Local runner simulated a patch plan for '' @ lci_prompt i @ ''.''
                else ''Local runner blocked: '' @
                  js_string (js_or (obj_get (arn_metadata r) ''reason'') (JStr (arn_status r))) @ ''.''),
              asy_files = arn_files r, asy_diff = arn_diff r, asy_usage = local_usage c i r,
              asy_passed = (arn_status r = ''completed''), asy_run = Some r, asy_status = arn_status r,
              asy_tests = arn_tests r\<rparr>, st1))"

end
