(* ===== verification/RunnerService.thy ===== *)
theory RunnerService
  imports RunnerAgents SecurityService
begin

text \<open>
  The agent runner service, \<open>packages/runner/src/service.ts\<close>: the gates before a run (runner policy, harness
  policy, command policy, sandbox session), the run itself and its trail, and single commands of a run.
  The runner, its configuration and the host are given; the service keeps its own repositories beside those
  of the runner.
\<close>

section \<open>State\<close>

record runner_state =
  rsv_runs :: "agent_run list"
  rsv_audit :: "run_audit_event list"
  rsv_assemblies :: "instruction_assembly list"
  rsv_commands :: "command_result list"
  rsv_workspaces :: "agent_workspace list"
  rsv_policy :: policy_service
  rsv_security :: "security_state option"
  rsv_agent :: agent_state

record runner_setup =
  rst_runner :: agent_runner
  rst_config :: runner_config

definition new_runner_service ::
  "host \<Rightarrow> runner_config \<Rightarrow> policy_service \<Rightarrow> security_state option \<Rightarrow> llm_state option \<Rightarrow>
   runner_setup \<times> runner_state" where
  "new_runner_service h c p sec llm =
     (\<lparr>rst_runner = runner_from_config c, rst_config = c\<rparr>,
      \<lparr>rsv_runs = [], rsv_audit = [], rsv_assemblies = [], rsv_commands = [], rsv_workspaces = [], rsv_policy = p,
       rsv_security = sec, rsv_agent = new_agent_state h c llm\<rparr>)"

definition is_command_capable :: "agent_runner \<Rightarrow> bool" where
  "is_command_capable r = (case r of MockRunner \<Rightarrow> False | LocalRunner _ _ \<Rightarrow> True)"

abbreviation setup_kind :: "runner_setup \<Rightarrow> string" where
  "setup_kind u \<equiv> runner_kind (rst_runner u)"

section \<open>Listings of the set-up\<close>

record runner_listing =
  rlg_kind :: string
  rlg_default :: bool
  rlg_enabled :: bool
  rlg_local :: bool

definition list_runners :: "runner_setup \<Rightarrow> runner_listing list" where
  "list_runners u =
     [\<lparr>rlg_kind = ''mock'', rlg_default = (setup_kind u = ''mock''), rlg_enabled = True, rlg_local = False\<rparr>,
      \<lparr>rlg_kind = ''local'', rlg_default = (setup_kind u = ''local''), rlg_enabled = rcf_local (rst_config u),
       rlg_local = True\<rparr>] @
     map (\<lambda>k. \<lparr>rlg_kind = k, rlg_default = False, rlg_enabled = False, rlg_local = True\<rparr>)
       [''codex_cli_future'', ''claude_code_future'', ''aider_future'', ''custom_future'']"

record executor_listing =
  xlg_kind :: string
  xlg_default :: bool
  xlg_enabled :: bool
  xlg_executes :: bool

definition list_executors :: "runner_setup \<Rightarrow> executor_listing list" where
  "list_executors u =
     (let c = rst_config u in
      [\<lparr>xlg_kind = ''blocked'', xlg_default = (\<not> rcf_commands c), xlg_enabled = True, xlg_executes = False\<rparr>,
       \<lparr>xlg_kind = ''fixture_local'', xlg_default = (rcf_commands c \<and> setup_kind u = ''local''),
        xlg_enabled = (rcf_local c \<and> rcf_commands c), xlg_executes = True\<rparr>])"

definition get_runner_config :: "runner_setup \<Rightarrow> runner_config" where
  "get_runner_config u =
     (rst_config u)\<lparr>rcf_kind := (if setup_kind u = ''local'' then ''local'' else ''mock'')\<rparr>"

section \<open>Audit and policy\<close>

definition sanitize_run_metadata :: "jsobj \<Rightarrow> jsobj" where
  "sanitize_run_metadata = redact_keys [''token'', ''secret'', ''key'']"

definition record_run_audit ::
  "runner_setup \<Rightarrow> draws \<Rightarrow> string \<Rightarrow> string \<Rightarrow> string \<Rightarrow> string \<Rightarrow> string option \<Rightarrow> jsobj \<Rightarrow> runner_state \<Rightarrow>
   run_audit_event \<times> runner_state" where
  "record_run_audit u s task run ty res reason meta st =
     (let e = \<lparr>rau_id = fresh_id ''agentaudit'' 0 s, rau_task_id = task, rau_run_id = run, rau_kind = setup_kind u,
            rau_type = ty, rau_result = res, rau_reason = reason, rau_metadata = sanitize_run_metadata meta,
            rau_created_at = clock 0 s\<rparr>
      in (e, st\<lparr>rsv_audit := rsv_audit st @ [e]\<rparr>))"

definition version_ref_value :: "version_ref \<Rightarrow> js" where
  "version_ref_value r =
     JObj [(''kind'', JStr (vr_kind r)), (''name'', JStr (vr_name r)), (''version'', JStr (vr_version r)),
       (''id'', of_opt_str (vr_id r)), (''checksum'', of_opt_str (vr_checksum r))]"

definition runner_policy_request ::
  "string \<Rightarrow> string \<Rightarrow> string \<Rightarrow> string option \<Rightarrow> string option \<Rightarrow> jsobj \<Rightarrow> (policy_context \<Rightarrow> policy_context) \<Rightarrow>
   policy_request" where
  \<comment> \<open>the kind of the runner, the action, the kind of the resource, the actor, the command\<close>
  "runner_policy_request kind action rk actor command env extra =
     \<lparr>req_subject = create_policy_subject (Some (if truthy_str actor then the actor else ''mock-runner-actor'')) None
        (Some ''service'') (Some [''system'']) None None None None None,
      req_action = action,
      req_resource = create_policy_resource rk (if rk = ''runner'' then Some kind else command)
        (Some [(''runnerKind'', JStr kind), (''command'', of_opt_str command)]),
      req_context = extra ((create_policy_context (Some env) (Some [(''source'', JStr ''agent_runner_service'')]))
        \<lparr>ctx_runner_kind := Some kind, ctx_command := command\<rparr>)\<rparr>"

definition run_request_context :: "agent_run_request \<Rightarrow> policy_context \<Rightarrow> policy_context" where
  "run_request_context q c =
     c\<lparr>ctx_task_id := Some (arq_task_id q), ctx_task_run_id := Some (arq_run_id q),
       ctx_repo_id := map_option rrf_repo_id (arq_repo q), ctx_model_id := Some (arq_model q),
       ctx_skill_refs := Some (map version_ref_value (arq_skills q)),
       ctx_harness_ref := version_ref_value (arq_harness q),
       ctx_instruction_refs := Some (map version_ref_value (arq_instructions q))\<rparr>"

definition run_context :: "agent_run \<Rightarrow> policy_context \<Rightarrow> policy_context" where
  "run_context r c = c\<lparr>ctx_task_id := Some (arn_task_id r), ctx_task_run_id := Some (arn_run_id r)\<rparr>"

definition runner_policy ::
  "engine \<Rightarrow> draws \<Rightarrow> policy_request \<Rightarrow> runner_state \<Rightarrow> policy_decision \<times> runner_state" where
  "runner_policy decide s req st =
     (let (d, p) = svc_evaluate decide s req (rsv_policy st) in (d, st\<lparr>rsv_policy := p\<rparr>))"

definition command_environment :: "runner_setup \<Rightarrow> bool \<Rightarrow> bool \<Rightarrow> jsobj" where
  "command_environment u harness safe =
     [(''localCommandExecutionEnabled'', JBool (rcf_commands (rst_config u))), (''harnessAllowed'', JBool harness),
      (''workspaceSafe'', JBool safe)]"

section \<open>The environment\<close>

record environment_request =
  enq_task_id :: "string option"
  enq_run_id :: "string option"
  enq_path :: "string option"

definition validate_runner_environment ::
  "host \<Rightarrow> runner_setup \<Rightarrow> draws \<Rightarrow> environment_request option \<Rightarrow> runner_state \<Rightarrow> environment_check \<times> runner_state" where
  "validate_runner_environment h u s q st =
     (let v = validate_environment h (rst_runner u) (Option.bind q enq_path);
          (_, st1) = record_run_audit u s (opt_default (Option.bind q enq_task_id) ''task_unknown'')
            (opt_default (Option.bind q enq_run_id) ''run_unknown'') ''agent_runner_environment_validated''
            (if evc_ok v then ''allowed'' else ''blocked'') (evc_reason v) (evc_metadata v) st
      in (v, st1))"

section \<open>Runs\<close>

definition save_run :: "agent_run \<Rightarrow> runner_state \<Rightarrow> agent_run \<times> runner_state" where
  "save_run r st = (r, st\<lparr>rsv_runs := rsv_runs st @ [r]\<rparr>)"

definition refused_run ::
  "runner_setup \<Rightarrow> draws \<Rightarrow> string \<Rightarrow> agent_run_request \<Rightarrow> agent_test list \<Rightarrow> string list \<Rightarrow> jsobj \<Rightarrow> agent_run" where
  \<comment> \<open>a run with no work, saved with a status, its tests, its audit events and its metadata\<close>
  "refused_run u s status q tests audits meta =
     \<lparr>arn_id = fresh_id ''agentrun'' 1 s, arn_task_id = arq_task_id q, arn_run_id = arq_run_id q,
      arn_kind = setup_kind u, arn_status = status, arn_diff = no_changes, arn_files = [], arn_tests = tests,
      arn_llm_ids = [], arn_usage_ids = [], arn_audit_ids = audits, arn_command_ids = [], arn_workspace_id = None,
      arn_created_at = clock 1 s, arn_completed_at = Some (clock 0 s), arn_metadata = meta\<rparr>"

definition test_entry :: "string \<Rightarrow> string \<Rightarrow> string \<Rightarrow> agent_test" where
  "test_entry status output command = \<lparr>tst_command = command, tst_status = status, tst_output = output\<rparr>"

text \<open>A run that a gate refuses: an audit event \<open>agent_run_blocked\<close> and a saved blocked run.\<close>

definition block_run ::
  "runner_setup \<Rightarrow> draws \<Rightarrow> agent_run_request \<Rightarrow> string list \<Rightarrow> string \<Rightarrow> jsobj \<Rightarrow> jsobj \<Rightarrow> runner_state \<Rightarrow>
   agent_run \<times> runner_state" where
  "block_run u s q labels reason audit_meta meta st =
     (let (e, st1) = record_run_audit u (sub 0 s) (arq_task_id q) (arq_run_id q) ''agent_run_blocked'' ''blocked''
            (Some reason) audit_meta st
      in save_run (refused_run u (sub 1 s) ''blocked'' q (map (test_entry ''blocked'' reason) labels) [rau_id e]
           ((''reason'', JStr reason) # meta)) st1)"

definition str_list :: "string list \<Rightarrow> js" where
  "str_list xs = JArr (map JStr xs)"

definition failure_message :: "thrown \<Rightarrow> string" where
  "failure_message e =
     (case e of Error m \<Rightarrow> m | AuthorizationError m \<Rightarrow> m | ValidationError ms \<Rightarrow> join_with ''; '' ms)"

definition execution_event :: "string \<Rightarrow> string \<times> string" where
  "execution_event status =
     (if status = ''completed'' then (''agent_run_completed'', ''succeeded'')
      else if status = ''blocked'' then (''agent_run_blocked'', ''blocked'')
      else (''agent_run_failed'', ''failed''))"

definition fail_run ::
  "runner_setup \<Rightarrow> draws \<Rightarrow> agent_run_request \<Rightarrow> instruction_assembly \<Rightarrow> string \<Rightarrow> string \<Rightarrow> runner_state \<Rightarrow>
   agent_run \<times> runner_state" where
  "fail_run u s q a prepared_audit msg st =
     (let (e, st1) = record_run_audit u (sub 0 s) (arq_task_id q) (arq_run_id q) ''agent_run_failed'' ''failed''
            (Some msg) [(''instructionAssemblyId'', JStr (ias_id a))] st
      in save_run (refused_run u (sub 1 s) ''failed'' q [test_entry ''failed'' msg ''agent runner'']
           [prepared_audit, rau_id e] [(''instructionAssemblyId'', JStr (ias_id a))]) st1)"

text \<open>The sandbox session of the run is completed after its audit event and may throw.\<close>

definition close_sandbox :: "draws \<Rightarrow> string option \<Rightarrow> (runner_state, unit) op" where
  "close_sandbox s session st =
     (case (rsv_security st, session) of
        (Some sec, Some i) \<Rightarrow>
          (case complete_sandbox_session s i sec of
             (Inl e, sec1) \<Rightarrow> (Inl e, st\<lparr>rsv_security := Some sec1\<rparr>)
           | (Inr _, sec1) \<Rightarrow> (Inr (), st\<lparr>rsv_security := Some sec1\<rparr>))
      | _ \<Rightarrow> (Inr (), st))"

definition run_policy_request :: "runner_setup \<Rightarrow> agent_run_request \<Rightarrow> policy_request" where
  "run_policy_request u q =
     runner_policy_request (setup_kind u) ''runner.execute'' ''runner'' (arq_actor_id q) None [] (run_request_context q)"

definition tests_policy_request :: "runner_setup \<Rightarrow> agent_run_request \<Rightarrow> policy_request" where
  \<comment> \<open>asked once the harness policy has allowed the commands\<close>
  "tests_policy_request u q =
     runner_policy_request (setup_kind u) ''runner.command.execute'' ''command'' (arq_actor_id q)
       (Some (join_with '' && '' (arq_allowed q @ arq_tests q)))
       (command_environment u True (truthy_str (local_path_of q))) (run_request_context q)"

definition harness_verdict :: "agent_run_request \<Rightarrow> harness_decision" where
  "harness_verdict q =
     evaluate_harness_policy (create_harness_policy (Some (arq_allowed q)) (Some (arq_max_runtime q)) None None None)
       (arq_allowed q @ arq_tests q)"

text \<open>The gates before the work: an early return is the blocked run on the left.\<close>

type_synonym 'a run_step = "runner_state \<Rightarrow> (agent_run + 'a) \<times> runner_state"

definition stop_run :: "agent_run \<times> runner_state \<Rightarrow> (agent_run + 'a) \<times> runner_state" where
  "stop_run = apfst Inl"

definition runner_policy_gate :: "engine \<Rightarrow> runner_setup \<Rightarrow> draws \<Rightarrow> agent_run_request \<Rightarrow> unit run_step" where
  "runner_policy_gate decide u s q st =
     (let (d, st1) = runner_policy decide (sub 0 s) (run_policy_request u q) st
      in if dec_allowed d then (Inr (), st1)
         else stop_run (block_run u (sub 1 s) q [''runner policy''] (dec_reason d)
           [(''policyDecisionId'', JStr (dec_id d)), (''matchedRuleIds'', str_list (dec_matched_rule_ids d))]
           [(''policyDecisionId'', JStr (dec_id d))] st1))"

definition harness_gate ::
  "runner_setup \<Rightarrow> payload_hash \<Rightarrow> draws \<Rightarrow> agent_run_request \<Rightarrow> instruction_assembly run_step" where
  "harness_gate u sha s q st =
     (let d = harness_verdict q;
          a = assemble_instructions sha (sub 0 s) q;
          st1 = st\<lparr>rsv_assemblies := rsv_assemblies st @ [a]\<rparr>
      in if hpd_allowed d then (Inr a, st1)
         else stop_run (block_run u (sub 1 s) q (hpd_blocked d) (hpd_reason d)
           [(''blockedCommands'', str_list (hpd_blocked d)), (''instructionAssemblyId'', JStr (ias_id a))]
           [(''instructionAssemblyId'', JStr (ias_id a))] st1))"

definition command_policy_gate :: "engine \<Rightarrow> runner_setup \<Rightarrow> draws \<Rightarrow> agent_run_request \<Rightarrow> unit run_step" where
  "command_policy_gate decide u s q st =
     (if \<not> rcf_commands (rst_config u) \<or> arq_tests q = [] then (Inr (), st)
      else
        (let (d, st1) = runner_policy decide (sub 0 s) (tests_policy_request u q) st
         in if dec_allowed d then (Inr (), st1)
            else stop_run (block_run u (sub 1 s) q (arq_tests q) (dec_reason d)
              [(''policyDecisionId'', JStr (dec_id d)), (''matchedRuleIds'', str_list (dec_matched_rule_ids d))]
              [(''policyDecisionId'', JStr (dec_id d))] st1)))"

definition run_sandbox_gate ::
  "engine \<Rightarrow> runner_setup \<Rightarrow> draws \<Rightarrow> agent_run_request \<Rightarrow> (sandbox_session option \<times> sandbox_decision) option run_step" where
  "run_sandbox_gate decide u s q st =
     (case rsv_security st of
        None \<Rightarrow> (Inr None, st)
      | Some sec \<Rightarrow>
          if \<not> rcf_commands (rst_config u) \<or> \<not> truthy_str (local_path_of q) then (Inr None, st)
          else
            (let ((n, d), sec1) = create_sandbox_session decide (sub 0 s)
                   \<lparr>sq_profile_id = ''sandbox_local_temp_fixture'', sq_task_id = Some (arq_task_id q),
                    sq_run_id = Some (arq_run_id q), sq_runner_kind = Some (setup_kind u), sq_workspace_id = None,
                    sq_actor_id = arq_actor_id q,
                    sq_metadata = Some [(''source'', JStr ''agent_runner_service''),
                      (''localCommandExecutionEnabled'', JBool (rcf_commands (rst_config u)))]\<rparr> sec;
                 st1 = st\<lparr>rsv_security := Some sec1\<rparr>
             in if sd_allowed d then (Inr (Some (n, d)), st1)
                else stop_run (block_run u (sub 1 s) q [''sandbox policy''] (sd_reason d)
                  [(''sandboxDecisionId'', JStr (sd_id d))] [(''sandboxDecisionId'', JStr (sd_id d))] st1)))"

definition prepare_gate ::
  "host \<Rightarrow> runner_setup \<Rightarrow> draws \<Rightarrow> agent_run_request \<Rightarrow> instruction_assembly \<Rightarrow> string run_step" where
  \<comment> \<open>the id of the audit event of the preparation\<close>
  "prepare_gate h u s q a st =
     (let p = prepare_run h (sub 0 s) (rst_runner u) q;
          ok = (prn_status p = ''prepared'');
          (e, st1) = record_run_audit u (sub 1 s) (arq_task_id q) (arq_run_id q) ''agent_run_prepared''
            (if ok then ''allowed'' else ''blocked'') (prn_reason p)
            [(''preparedRunId'', JStr (prn_id p)), (''instructionAssemblyId'', JStr (ias_id a))] st
      in if prn_status p \<noteq> ''blocked'' then (Inr (rau_id e), st1)
         else stop_run (save_run (refused_run u (sub 2 s) ''blocked'' q
           [test_entry ''blocked'' (opt_default (prn_reason p) ''runner_prepare_blocked'') ''runner prepare'']
           [rau_id e] [(''reason'', of_opt_str (prn_reason p)), (''instructionAssemblyId'', JStr (ias_id a))]) st1))"

definition executed_run ::
  "agent_run \<Rightarrow> string list \<Rightarrow> instruction_assembly \<Rightarrow> (sandbox_session option \<times> sandbox_decision) option \<Rightarrow> agent_run" where
  "executed_run x audits a box =
     x\<lparr>arn_audit_ids := arn_audit_ids x @ audits,
       arn_metadata := obj_spread (arn_metadata x)
         [(''instructionAssemblyId'', JStr (ias_id a)), (''instructionSetHash'', JStr (ias_hash a)),
          (''sandboxSessionId'', of_opt_str (map_option sn_id (Option.bind box fst))),
          (''sandboxDecisionId'', of_opt_str (map_option (sd_id \<circ> snd) box)),
          (''safety'', JObj [(''externalCalls'', JBool False), (''remoteGit'', JBool False),
            (''activeRegistryMutation'', JBool False)])]\<rparr>"

definition execute_prepared ::
  "http_client \<Rightarrow> host \<Rightarrow> engine \<Rightarrow> runner_setup \<Rightarrow> draws \<Rightarrow> agent_run_request \<Rightarrow> instruction_assembly \<Rightarrow>
   (sandbox_session option \<times> sandbox_decision) option \<Rightarrow> string \<Rightarrow> runner_state \<Rightarrow> agent_run \<times> runner_state" where
  "execute_prepared http h decide u s q a box prepared_audit st =
     (case execute_run http h decide (sub 0 s) (rst_runner u) q (rsv_agent st) of
        (Inl e, ag) \<Rightarrow> fail_run u (sub 1 s) q a prepared_audit (failure_message e) (st\<lparr>rsv_agent := ag\<rparr>)
      | (Inr x, ag) \<Rightarrow>
          (let (ty, res) = execution_event (arn_status x);
               (e, st1) = record_run_audit u (sub 2 s) (arq_task_id q) (arq_run_id q) ty res
                 (as_string (obj_get (arn_metadata x) ''reason''))
                 [(''runId'', JStr (arn_id x)), (''changedFiles'', str_list (arn_files x)),
                  (''instructionAssemblyId'', JStr (ias_id a)), (''llmGatewayRequestIds'', str_list (arn_llm_ids x)),
                  (''usageLedgerEntryIds'', str_list (arn_usage_ids x)),
                  (''commandExecutionResultIds'', str_list (arn_command_ids x)),
                  (''workspaceId'', of_opt_str (arn_workspace_id x))] (st\<lparr>rsv_agent := ag\<rparr>)
           in case close_sandbox (sub 3 s) (map_option sn_id (Option.bind box fst)) st1 of
                (Inl err, st2) \<Rightarrow> fail_run u (sub 1 s) q a prepared_audit (failure_message err) st2
              | (Inr _, st2) \<Rightarrow> save_run (executed_run x [prepared_audit, rau_id e] a box) st2))"

definition run_agent_steps ::
  "http_client \<Rightarrow> host \<Rightarrow> engine \<Rightarrow> payload_hash \<Rightarrow> runner_setup \<Rightarrow> draws \<Rightarrow> agent_run_request \<Rightarrow> agent_run run_step" where
  "run_agent_steps http h decide sha u s q =
     op_bind (runner_policy_gate decide u (sub 0 s) q) (\<lambda>_.
     op_bind (harness_gate u sha (sub 1 s) q) (\<lambda>a.
     op_bind (command_policy_gate decide u (sub 2 s) q) (\<lambda>_.
     op_bind (run_sandbox_gate decide u (sub 3 s) q) (\<lambda>box.
     op_bind (prepare_gate h u (sub 4 s) q a) (\<lambda>prepared_audit st.
       apfst Inr (execute_prepared http h decide u (sub 5 s) q a box prepared_audit st))))))"

definition run_agent ::
  "http_client \<Rightarrow> host \<Rightarrow> engine \<Rightarrow> payload_hash \<Rightarrow> runner_setup \<Rightarrow> draws \<Rightarrow> agent_run_request \<Rightarrow> runner_state \<Rightarrow>
   agent_run \<times> runner_state" where
  "run_agent http h decide sha u s q st =
     apfst (\<lambda>r. case r of Inl x \<Rightarrow> x | Inr x \<Rightarrow> x) (run_agent_steps http h decide sha u s q st)"

section \<open>Listings\<close>

definition service_runs :: "string option \<Rightarrow> string option \<Rightarrow> runner_state \<Rightarrow> agent_run list" where
  "service_runs task run st = list_runs task run (rsv_runs st)"

definition service_run :: "string \<Rightarrow> runner_state \<Rightarrow> agent_run option" where
  "service_run i st = get_run i (rsv_runs st)"

definition service_audit ::
  "string option \<Rightarrow> string option \<Rightarrow> string option \<Rightarrow> runner_state \<Rightarrow> run_audit_event list" where
  "service_audit task run agent_run st = list_run_audit task run agent_run (rsv_audit st)"

definition service_assemblies :: "string option \<Rightarrow> string option \<Rightarrow> runner_state \<Rightarrow> instruction_assembly list" where
  "service_assemblies task run st = list_assemblies task run (rsv_assemblies st)"

definition service_assembly_for_run :: "string \<Rightarrow> runner_state \<Rightarrow> instruction_assembly option" where
  "service_assembly_for_run i st = get_assembly_for_run i (rsv_assemblies st)"

text \<open>A runner that executes commands answers from its own repositories.\<close>

definition service_commands ::
  "runner_setup \<Rightarrow> string option \<Rightarrow> string option \<Rightarrow> string option \<Rightarrow> runner_state \<Rightarrow> command_result list" where
  "service_commands u task run agent_run st =
     list_command_rows task run agent_run
       (if is_command_capable (rst_runner u) then ags_commands (rsv_agent st) else rsv_commands st)"

definition workspace_rows :: "runner_setup \<Rightarrow> runner_state \<Rightarrow> agent_workspace list" where
  "workspace_rows u st =
     (if is_command_capable (rst_runner u) then wsm_rows (ags_workspaces (rsv_agent st)) else rsv_workspaces st)"

definition service_workspaces ::
  "runner_setup \<Rightarrow> string option \<Rightarrow> string option \<Rightarrow> runner_state \<Rightarrow> agent_workspace list" where
  "service_workspaces u task run st = list_workspace_rows task run None (workspace_rows u st)"

definition service_workspace :: "runner_setup \<Rightarrow> string \<Rightarrow> runner_state \<Rightarrow> agent_workspace option" where
  "service_workspace u i st = find_workspace i (workspace_rows u st)"

definition workspace_for_run :: "runner_setup \<Rightarrow> string \<Rightarrow> runner_state \<Rightarrow> agent_workspace option" where
  "workspace_for_run u i st =
     (case Option.bind (service_run i st) arn_workspace_id of
        None \<Rightarrow> None
      | Some w \<Rightarrow> if w = [] then None else service_workspace u w st)"

section \<open>One command of a run\<close>

record command_call =
  ccl_path :: "string option"
  ccl_command :: string
  ccl_args :: "string list option"
  ccl_allowed :: "string list option"
  ccl_denied :: "string list option"
  ccl_timeout :: "num option"

definition call_input :: "runner_setup \<Rightarrow> command_call \<Rightarrow> run_command_input" where
  "call_input u i =
     \<lparr>rci_path = ccl_path i, rci_command = ccl_command i, rci_args = opt_default (ccl_args i) [],
      rci_allowed = opt_default (ccl_allowed i) [],
      rci_denied = Some (opt_default (ccl_denied i) (hpl_denied (create_harness_policy None None None None None))),
      rci_timeout = Some (opt_default (ccl_timeout i) (rcf_max_runtime (rst_config u)))\<rparr>"

definition blocked_call ::
  "host \<Rightarrow> runner_setup \<Rightarrow> draws \<Rightarrow> agent_run \<Rightarrow> command_call \<Rightarrow> jsobj \<Rightarrow> command_result" where
  "blocked_call h u s r i meta =
     fst (execute_command h s BlockedExecutor
       (run_command_request (rst_config u) r (call_input u i) (opt_default (ccl_path i) (hst_cwd h)) []
          ((''source'', JStr ''agent_runner_service'') # meta)))"

definition save_service_command :: "command_result \<Rightarrow> runner_state \<Rightarrow> command_result \<times> runner_state" where
  "save_service_command x st = (x, st\<lparr>rsv_commands := rsv_commands st @ [x]\<rparr>)"

definition command_call_request :: "runner_setup \<Rightarrow> agent_run \<Rightarrow> command_call \<Rightarrow> policy_request" where
  "command_call_request u r i =
     runner_policy_request (setup_kind u) ''runner.command.execute'' ''command'' None
       (Some (join_with '' '' (ccl_command i # opt_default (ccl_args i) [])))
       (command_environment u (opt_default (ccl_allowed i) [] \<noteq> [])
         (truthy_str (opt_or (ccl_path i) (arn_workspace_id r)))) (run_context r)"

definition perform_command ::
  "host \<Rightarrow> runner_setup \<Rightarrow> draws \<Rightarrow> agent_run \<Rightarrow> command_call \<Rightarrow> runner_state \<Rightarrow> command_result \<times> runner_state" where
  \<comment> \<open>a local runner saves the result itself\<close>
  "perform_command h u s r i st =
     (case (rcf_commands (rst_config u), rst_runner u) of
        (True, LocalRunner c ex) \<Rightarrow>
          (let (x, ag) = command_for_run h s c ex r (call_input u i) (rsv_agent st)
           in (x, st\<lparr>rsv_agent := ag\<rparr>))
      | _ \<Rightarrow> save_service_command (blocked_call h u s r i []) st)"

definition execute_command_for_run ::
  "host \<Rightarrow> engine \<Rightarrow> runner_setup \<Rightarrow> draws \<Rightarrow> string \<Rightarrow> command_call \<Rightarrow> (runner_state, command_result) op" where
  "execute_command_for_run h decide u s run_id i st =
     (case service_run run_id st of
        None \<Rightarrow> (Inl (Error (''Agent run not found: '' @ run_id)), st)
      | Some r \<Rightarrow>
          (let (d, st1) = runner_policy decide (sub 0 s) (command_call_request u r i) st;
               audit = (\<lambda>ty res reason meta st. snd (record_run_audit u (sub 2 s) (arn_task_id r) (arn_run_id r) ty res
                 reason meta st))
           in if \<not> dec_allowed d
              then
                (let (x, st2) = save_service_command
                       ((blocked_call h u (sub 1 s) r i [(''policyDecisionId'', JStr (dec_id d))])
                        \<lparr>cmr_blocked := Some (dec_reason d)\<rparr>) st1
                 in (Inr x, audit ''agent_command_blocked'' ''blocked'' (Some (dec_reason d))
                      [(''runId'', JStr (arn_id r)), (''commandResultId'', JStr (cmr_id x)),
                       (''policyDecisionId'', JStr (dec_id d)),
                       (''matchedRuleIds'', str_list (dec_matched_rule_ids d))] st2))
              else
                (let (x, st2) = perform_command h u (sub 1 s) r i st1; ok = (cmr_status x = ''completed'')
                 in (Inr x, audit (if ok then ''agent_command_completed'' else ''agent_command_blocked'')
                      (if ok then ''succeeded'' else ''blocked'') (cmr_blocked x)
                      [(''runId'', JStr (arn_id r)), (''commandResultId'', JStr (cmr_id x)),
                       (''command'', JStr (cmr_command x)), (''args'', str_list (cmr_args x)),
                       (''executorKind'', JStr (cmr_executor x)), (''status'', JStr (cmr_status x))] st2))))"

end
