(* ===== verification/RunnerCalls.thy ===== *)
theory RunnerCalls
  imports RunnerService
begin

text \<open>
  Lemmas on the runner and its service: what each step starts and leaves alone, and what the gates of a run
  let through.
\<close>

section \<open>What the agents start\<close>

text \<open>A process of a run: a test command of the request, in a workspace below the root of the workspaces.\<close>

definition run_process :: "host \<Rightarrow> agent_runner \<Rightarrow> agent_run_request \<Rightarrow> string \<Rightarrow> process_request \<Rightarrow> bool" where
  "run_process h r q base p \<longleftrightarrow>
     (case r of
        LocalRunner c (FixtureExecutor enabled _ _) \<Rightarrow> enabled \<and> rcf_local c \<and> rcf_commands c
      | _ \<Rightarrow> False) \<and>
     process_confined h (arq_allowed q) default_denied_commands p \<and>
     (pcq_command p, pcq_args p) \<in> set (map parse_command_spec (arq_tests q)) \<and>
     below (path_resolve (hst_cwd h) base) (pcq_cwd p) \<and>
     pcq_cwd p \<noteq> ''/'' \<and> pcq_cwd p \<noteq> path_resolve (hst_cwd h) (hst_cwd h) \<and>
     pcq_timeout p \<le> max 1 (arq_max_runtime q)"

text \<open>The processes a step adds to the log satisfy a predicate.\<close>

definition starts :: "(process_request \<Rightarrow> bool) \<Rightarrow> agent_state \<Rightarrow> agent_state \<Rightarrow> bool" where
  "starts P st st' \<longleftrightarrow> (\<exists>ps. ags_started st' = ags_started st @ ps \<and> (\<forall>p \<in> set ps. P p))"

lemma starts_same: "ags_started st' = ags_started st \<Longrightarrow> starts P st st'"
  by (simp add: starts_def)

lemma starts_trans: "starts P st st1 \<Longrightarrow> starts P st1 st2 \<Longrightarrow> starts P st st2"
  unfolding starts_def by (metis (no_types, lifting) UnE append_assoc set_append)

lemma starts_mono: "starts P st st' \<Longrightarrow> (\<And>p. P p \<Longrightarrow> Q p) \<Longrightarrow> starts Q st st'"
  unfolding starts_def by blast

lemma starts_new: "starts P st st' \<Longrightarrow> p \<in> set (drop (length (ags_started st)) (ags_started st')) \<Longrightarrow> P p"
  by (auto simp: starts_def)

lemma run_command_starts:
  "starts (\<lambda>p. p = process_of h q \<and> (\<exists>out err. ex = FixtureExecutor True out err) \<and>
     process_confined h (cmq_allowed q) (cmq_denied q) p) st (snd (run_command h s ex q st))"
proof -
  have "ags_started (snd (run_command h s ex q st)) = ags_started st @ snd (execute_command h s ex q)"
    by (simp add: run_command_def split_beta)
  then show ?thesis
    unfolding starts_def using execute_command_starts[of _ h s ex q] by blast
qed

lemma run_command_keeps [simp]: "ags_workspaces (snd (run_command h s ex q st)) = ags_workspaces st"
  by (simp add: run_command_def split_beta)

lemma test_commands_start:
  "starts (\<lambda>p. (\<exists>spec \<in> set specs. p = process_of h (test_command_request c q i w spec)) \<and>
     (\<exists>out err. ex = FixtureExecutor True out err) \<and> process_confined h (arq_allowed q) default_denied_commands p)
     st (snd (execute_test_commands h s k c ex q i w specs st))"
proof (induction specs arbitrary: st k)
  case (Cons spec specs)
  let ?q = "test_command_request c q i w spec"
  let ?st1 = "snd (run_command h (sub k s) ex ?q st)"
  have lists: "cmq_allowed ?q = arq_allowed q" "cmq_denied ?q = default_denied_commands"
    by (simp_all add: test_command_request_def create_harness_policy_def split_beta)
  show ?case
    using starts_trans[OF starts_mono[OF run_command_starts[of h ?q ex st "sub k s"]]
      starts_mono[OF Cons.IH[of ?st1 "Suc k"]]]
    by (simp add: split_beta Let_def lists)
qed (simp add: starts_same)

lemma test_commands_keep [simp]:
  "ags_workspaces (snd (execute_test_commands h s k c ex q i w specs st)) = ags_workspaces st"
  by (induction specs arbitrary: st k) (simp_all add: split_beta Let_def)

lemma route_agent_call_keeps [simp]:
  "ags_started (snd (route_agent_call http decide s lq st)) = ags_started st"
  "ags_workspaces (snd (route_agent_call http decide s lq st)) = ags_workspaces st"
  "ags_commands (snd (route_agent_call http decide s lq st)) = ags_commands st"
  by (simp_all add: route_agent_call_def split_beta split: option.split)

lemma prepare_workspace_keeps [simp]:
  "ags_started (snd (prepare_workspace h s q st)) = ags_started st"
  by (simp add: prepare_workspace_def split_beta Let_def)

lemma finish_workspace_keeps [simp]:
  "ags_started (snd (finish_workspace s w st)) = ags_started st"
  by (simp add: finish_workspace_def split: option.split prod.split sum.split)

lemma execute_mock_keeps [simp]:
  "ags_started (snd (execute_mock http decide s q st)) = ags_started st"
  "ags_workspaces (snd (execute_mock http decide s q st)) = ags_workspaces st"
  by (simp_all add: execute_mock_def split_beta Let_def split: option.split)

text \<open>A workspace that is not rejected passed the checks of its path.\<close>

lemma create_workspace_confined:
  assumes "wsp_status (fst (create_workspace h s wq wm)) \<noteq> ''rejected''" and "wsq_allow_root wq = Some False"
  defines "dir \<equiv> wsp_root (fst (create_workspace h s wq wm))"
  shows "below (path_resolve (hst_cwd h) (wsm_root wm)) dir" "dir \<noteq> ''/''"
    "dir \<noteq> path_resolve (hst_cwd h) (hst_cwd h)"
proof -
  define wm1 where "wm1 = (if wsq_mode wq = ''fixture'' then wm else snd (create_temp_path (sub 0 s) (wsq_task_id wq) wm))"
  define p where "p = (if wsq_mode wq = ''fixture'' then wsq_path wq
    else Some (fst (create_temp_path (sub 0 s) (wsq_task_id wq) wm)))"
  have root: "wsm_root wm1 = wsm_root wm" by (simp add: wm1_def create_temp_path_def Let_def)
  have w: "fst (create_workspace h s wq wm) =
      (if \<not> truthy_str p then workspace_row s wq (wsm_root wm1) ''rejected'' [(''reason'', JStr ''workspace_path_missing'')]
       else let v = validate_workspace h wm1 (the p) (wsq_allow_root wq)
         in workspace_row s wq (wck_path v) (if wck_ok v then ''ready'' else ''rejected'')
              [(''reason'', of_opt_str (wck_reason v)), (''workspaceRoot'', JStr (wsm_root wm1))])"
    by (simp add: create_workspace_def split_beta Let_def p_def wm1_def)
  then have ok: "wck_ok (validate_workspace h wm1 (the p) (Some False))"
    and dir: "dir = wck_path (validate_workspace h wm1 (the p) (Some False))"
    using assms(1,2) by (auto simp: dir_def workspace_row_def Let_def split: if_splits)
  show "below (path_resolve (hst_cwd h) (wsm_root wm)) dir" "dir \<noteq> ''/''"
    "dir \<noteq> path_resolve (hst_cwd h) (hst_cwd h)"
    using validate_workspace_confines[OF ok] by (auto simp: dir root)
qed

lemma run_in_workspace_starts:
  assumes "w \<noteq> None \<Longrightarrow> below (path_resolve (hst_cwd h) base) (wsp_root (the w)) \<and> wsp_root (the w) \<noteq> ''/'' \<and>
      wsp_root (the w) \<noteq> path_resolve (hst_cwd h) (hst_cwd h)"
    and "rcf_local c"
  shows "starts (run_process h (LocalRunner c ex) q base) st (snd (run_in_workspace h s c ex q x w st))"
proof -
  let ?tests = "case w of None \<Rightarrow> ([], st) | Some w \<Rightarrow> if rcf_commands c \<and> arq_tests q \<noteq> []
    then execute_test_commands h (sub 5 s) 0 c ex q (fresh_id ''agentrun'' 1 s) w (arq_tests q) st else ([], st)"
  have "ags_started (snd (run_in_workspace h s c ex q x w st)) = ags_started (snd ?tests)"
    using finish_workspace_keeps[of "sub 6 s" w "snd ?tests"]
    by (simp add: run_in_workspace_def split_beta split: sum.split prod.split)
  moreover have "starts (run_process h (LocalRunner c ex) q base) st (snd ?tests)"
  proof (cases "w \<noteq> None \<and> rcf_commands c \<and> arq_tests q \<noteq> []")
    case True
    then obtain v where w: "w = Some v" by blast
    have spec: "run_process h (LocalRunner c ex) q base p"
      if "\<exists>spec \<in> set (arq_tests q). p = process_of h (test_command_request c q i v spec)"
        "\<exists>out err. ex = FixtureExecutor True out err" "process_confined h (arq_allowed q) default_denied_commands p" for p i
      using that assms True
      by (auto simp: run_process_def w process_of_def test_command_request_def create_harness_policy_def split_beta)
    have "starts (run_process h (LocalRunner c ex) q base) st
        (snd (execute_test_commands h (sub 5 s) 0 c ex q i v (arq_tests q) st))" for i
      by (rule starts_mono[OF test_commands_start]) (elim conjE, rule spec)
    then show ?thesis using True by (simp add: w)
  qed (auto simp: starts_same split: option.split)
  ultimately show ?thesis by (simp add: starts_def)
qed

lemma execute_run_starts:
  "starts (run_process h r q (wsm_root (ags_workspaces st))) st (snd (execute_run http h decide s r q st))"
proof (cases r)
  case MockRunner
  then show ?thesis by (simp add: split_beta starts_same)
next
  case (LocalRunner c ex)
  let ?x = "fst (route_agent_call http decide (sub 3 s) (agent_llm_request ''Local agent runner'' ''local_agent_runner'' ''local'' q) st)"
  let ?st1 = "snd (route_agent_call http decide (sub 3 s) (agent_llm_request ''Local agent runner'' ''local_agent_runner'' ''local'' q) st)"
  let ?w = "fst (prepare_workspace h (sub 4 s) q ?st1)"
  let ?st2 = "snd (prepare_workspace h (sub 4 s) q ?st1)"
  let ?P = "run_process h (LocalRunner c ex) q (wsm_root (ags_workspaces st))"
  have "starts ?P st (snd (execute_local http h decide s c ex q st))"
  proof (cases "evc_ok (validate_environment h (LocalRunner c ex) (local_path_of q)) \<and>
      \<not> (\<not> rcf_commands c \<and> arq_allowed q \<noteq> []) \<and> call_blocked ?x = None")
    case True
    then have loc: "rcf_local c" by (auto simp: validate_environment_def Let_def split: if_splits)
    show ?thesis
    proof (cases "rcf_commands c")
      case False
      have "starts ?P ?st1 (snd (run_in_workspace h s c ex q ?x None ?st1))"
        by (rule run_in_workspace_starts) (use loc in simp_all)
      then show ?thesis
        using True False by (simp add: execute_local_def split_beta Let_def starts_def)
    next
      case commands: True
      show ?thesis
      proof (cases "wsp_status ?w = ''rejected''")
        case False
        have "starts ?P ?st2 (snd (run_in_workspace h s c ex q ?x (Some ?w) ?st2))"
        proof (rule run_in_workspace_starts)
          show "below (path_resolve (hst_cwd h) (wsm_root (ags_workspaces st))) (wsp_root (the (Some ?w))) \<and>
              wsp_root (the (Some ?w)) \<noteq> ''/'' \<and> wsp_root (the (Some ?w)) \<noteq> path_resolve (hst_cwd h) (hst_cwd h)"
            using False create_workspace_confined[of h "sub 4 s" _ "ags_workspaces st"]
            by (auto simp: prepare_workspace_def split_beta Let_def)
        qed (rule loc)
        then show ?thesis
          using True commands False by (simp add: execute_local_def split_beta Let_def starts_def)
      qed (use True commands in \<open>simp add: execute_local_def split_beta Let_def starts_same\<close>)
    qed
  qed (auto simp: execute_local_def split_beta Let_def starts_same split: option.split)
  then show ?thesis by (simp add: LocalRunner)
qed

section \<open>The gates of a run\<close>

definition run_gates_passed :: "host \<Rightarrow> engine \<Rightarrow> runner_setup \<Rightarrow> agent_run_request \<Rightarrow> bool" where
  "run_gates_passed h decide u q \<longleftrightarrow>
     (\<exists>s. dec_allowed (decide s (run_policy_request u q))) \<and>
     hpd_allowed (harness_verdict q) \<and>
     (rcf_commands (rst_config u) \<and> arq_tests q \<noteq> [] \<longrightarrow> (\<exists>s. dec_allowed (decide s (tests_policy_request u q)))) \<and>
     evc_ok (validate_environment h (rst_runner u) (local_path_of q))"

lemma block_run_simps [simp]:
  "arn_status (fst (block_run u s q ls reason am m st)) = ''blocked''"
  "rsv_agent (snd (block_run u s q ls reason am m st)) = rsv_agent st"
  by (simp_all add: block_run_def record_run_audit_def save_run_def refused_run_def Let_def)

lemma fst_stop_run [simp]: "stop_run x = (Inl (fst x), snd x)"
  by (cases x) (simp add: stop_run_def)

lemma runner_policy_simps [simp]:
  "dec_allowed (fst (runner_policy decide s req st)) = dec_allowed (decide (sub 0 s) req)"
  "rsv_agent (snd (runner_policy decide s req st)) = rsv_agent st"
  by (simp_all add: runner_policy_def svc_evaluate_def Let_def)

text \<open>What a gate answers and that it leaves the agents alone.\<close>

lemma gate_results:
  "runner_policy_gate decide u s q st = (Inr x, st') \<Longrightarrow>
     (\<exists>s. dec_allowed (decide s (run_policy_request u q))) \<and> rsv_agent st' = rsv_agent st"
  "harness_gate u sha s q st = (Inr a, st') \<Longrightarrow> hpd_allowed (harness_verdict q) \<and> rsv_agent st' = rsv_agent st"
  "command_policy_gate decide u s q st = (Inr y, st') \<Longrightarrow>
     (rcf_commands (rst_config u) \<and> arq_tests q \<noteq> [] \<longrightarrow> (\<exists>s. dec_allowed (decide s (tests_policy_request u q)))) \<and>
     rsv_agent st' = rsv_agent st"
  "run_sandbox_gate decide u s q st = (Inr b, st') \<Longrightarrow> rsv_agent st' = rsv_agent st"
  "prepare_gate h u s q a st = (Inr e, st') \<Longrightarrow>
     evc_ok (validate_environment h (rst_runner u) (local_path_of q)) \<and> rsv_agent st' = rsv_agent st"
  by (auto simp: runner_policy_gate_def harness_gate_def command_policy_gate_def run_sandbox_gate_def prepare_gate_def
        prepare_run_def record_run_audit_def split_beta Let_def split: if_splits option.splits)

lemma gate_refusals:
  "runner_policy_gate decide u s q st = (Inl r, st') \<Longrightarrow> arn_status r = ''blocked'' \<and> rsv_agent st' = rsv_agent st"
  "harness_gate u sha s q st = (Inl r, st') \<Longrightarrow> arn_status r = ''blocked'' \<and> rsv_agent st' = rsv_agent st"
  "command_policy_gate decide u s q st = (Inl r, st') \<Longrightarrow> arn_status r = ''blocked'' \<and> rsv_agent st' = rsv_agent st"
  "run_sandbox_gate decide u s q st = (Inl r, st') \<Longrightarrow> arn_status r = ''blocked'' \<and> rsv_agent st' = rsv_agent st"
  "prepare_gate h u s q a st = (Inl r, st') \<Longrightarrow> arn_status r = ''blocked'' \<and> rsv_agent st' = rsv_agent st"
  by (auto simp: runner_policy_gate_def harness_gate_def command_policy_gate_def run_sandbox_gate_def prepare_gate_def
        record_run_audit_def save_run_def refused_run_def split_beta Let_def split: if_splits option.splits)

lemma run_agent_stopped:
  assumes "run_agent_steps http h decide sha u s q st = (Inl r, st')"
  shows "arn_status r = ''blocked'' \<and> rsv_agent st' = rsv_agent st"
  using assms unfolding run_agent_steps_def op_bind_Inl
  by (elim disjE exE conjE)
    (auto simp: apfst_def map_prod_def split: prod.splits dest!: gate_refusals gate_results)

lemma run_agent_executed:
  assumes "run_agent_steps http h decide sha u s q st = (Inr r, st')"
  shows "run_gates_passed h decide u q \<and>
    (\<exists>a box e st1. rsv_agent st1 = rsv_agent st \<and> execute_prepared http h decide u (sub 5 s) q a box e st1 = (r, st'))"
  using assms unfolding run_agent_steps_def op_bind_Inr
  by (elim exE conjE) (auto simp: run_gates_passed_def apfst_def map_prod_def split: prod.splits dest!: gate_results; metis)

lemma close_sandbox_keeps [simp]: "rsv_agent (snd (close_sandbox s i st)) = rsv_agent st"
  by (auto simp: close_sandbox_def split: option.split prod.split sum.split)

lemma fail_run_simps [simp]:
  "arn_status (fst (fail_run u s q a e msg st)) = ''failed''"
  "rsv_agent (snd (fail_run u s q a e msg st)) = rsv_agent st"
  by (simp_all add: fail_run_def record_run_audit_def save_run_def refused_run_def Let_def)

lemma execute_prepared_agent:
  "rsv_agent (snd (execute_prepared http h decide u s q a box e st)) =
     snd (execute_run http h decide (sub 0 s) (rst_runner u) q (rsv_agent st))"
  using close_sandbox_keeps[of "sub 3 s" "map_option sn_id (Option.bind box fst)"]
  by (auto simp: execute_prepared_def record_run_audit_def save_run_def split_beta Let_def
        split: sum.split prod.split)

text \<open>A run whose gates are open reaches its runner; without a sandbox session its result is saved.\<close>

lemma run_agent_open:
  assumes "\<And>s. dec_allowed (decide s (run_policy_request u q))" "hpd_allowed (harness_verdict q)"
    and "\<And>s. rcf_commands (rst_config u) \<Longrightarrow> arq_tests q \<noteq> [] \<Longrightarrow> dec_allowed (decide s (tests_policy_request u q))"
    and "rsv_security st = None \<or> \<not> rcf_commands (rst_config u)"
    and "evc_ok (validate_environment h (rst_runner u) (local_path_of q))"
  shows "\<exists>a e st1. rsv_agent st1 = rsv_agent st \<and>
    run_agent http h decide sha u s q st = execute_prepared http h decide u (sub 5 s) q a None e st1"
proof -
  have policy: "\<exists>st1. runner_policy_gate decide u k q st = (Inr (), st1) \<and> rsv_agent st1 = rsv_agent st \<and>
      rsv_security st1 = rsv_security st" for k
    using assms(1) by (simp add: runner_policy_gate_def split_beta) (simp add: runner_policy_def split_beta)
  have harness: "\<exists>a st1. harness_gate u sha k q st' = (Inr a, st1) \<and> rsv_agent st1 = rsv_agent st' \<and>
      rsv_security st1 = rsv_security st'" for k st'
    using assms(2) by (simp add: harness_gate_def Let_def)
  have command: "\<exists>st1. command_policy_gate decide u k q st' = (Inr (), st1) \<and> rsv_agent st1 = rsv_agent st' \<and>
      rsv_security st1 = rsv_security st'" for k st'
    using assms(3) by (simp add: command_policy_gate_def split_beta) (simp add: runner_policy_def split_beta)
  have sandbox: "run_sandbox_gate decide u k q st' = (Inr None, st')" if "rsv_security st' = rsv_security st" for k st'
    using assms(4) that by (auto simp: run_sandbox_gate_def split: option.split)
  have prepare: "\<exists>e st1. prepare_gate h u k q a st' = (Inr e, st1) \<and> rsv_agent st1 = rsv_agent st'" for k a st'
    using assms(5) by (simp add: prepare_gate_def prepare_run_def record_run_audit_def Let_def)
  obtain st1 where 1: "runner_policy_gate decide u (sub 0 s) q st = (Inr (), st1)" "rsv_agent st1 = rsv_agent st"
      "rsv_security st1 = rsv_security st" using policy by blast
  obtain a st2 where 2: "harness_gate u sha (sub 1 s) q st1 = (Inr a, st2)" "rsv_agent st2 = rsv_agent st"
      "rsv_security st2 = rsv_security st" using harness[of "sub 1 s" st1] 1 by metis
  obtain st3 where 3: "command_policy_gate decide u (sub 2 s) q st2 = (Inr (), st3)" "rsv_agent st3 = rsv_agent st"
      "rsv_security st3 = rsv_security st" using command[of "sub 2 s" st2] 2 by metis
  obtain e st4 where 4: "prepare_gate h u (sub 4 s) q a st3 = (Inr e, st4)" "rsv_agent st4 = rsv_agent st"
    using prepare[of "sub 4 s" a st3] 3 by metis
  have "run_agent_steps http h decide sha u s q st = apfst Inr (execute_prepared http h decide u (sub 5 s) q a None e st4)"
    unfolding run_agent_steps_def op_bind_def 1(1) prod.case sum.case 2(1) 3(1) sandbox[OF 3(3)] 4(1) ..
  then show ?thesis
    using 4(2) by (intro exI[of _ a] exI[of _ e] exI[of _ st4]) (simp add: run_agent_def prod_eq_iff)
qed

lemma execute_prepared_status:
  "execute_run http h decide (sub 0 s) (rst_runner u) q (rsv_agent st) = (Inr x, ag) \<Longrightarrow>
     arn_status (fst (execute_prepared http h decide u s q a None e st)) = arn_status x"
  by (simp add: execute_prepared_def close_sandbox_def split_beta Let_def executed_run_def save_run_def
        record_run_audit_def split: option.split)

section \<open>The trail of a run\<close>

text \<open>The audit events a step appends are those of the request, by this runner, without a secret value.\<close>

definition event_of :: "runner_setup \<Rightarrow> agent_run_request \<Rightarrow> run_audit_event \<Rightarrow> bool" where
  "event_of u q e \<longleftrightarrow>
     rau_task_id e = arq_task_id q \<and> rau_run_id e = arq_run_id q \<and> rau_kind e = setup_kind u \<and>
     (\<forall>(k, v) \<in> set (rau_metadata e). matches_any_word [''token'', ''secret'', ''key''] k \<longrightarrow> v = JStr ''[redacted]'')"

definition new_events :: "runner_state \<Rightarrow> runner_state \<Rightarrow> run_audit_event list" where
  "new_events st st' = drop (length (rsv_audit st)) (rsv_audit st')"

definition audits :: "runner_setup \<Rightarrow> agent_run_request \<Rightarrow> runner_state \<Rightarrow> runner_state \<Rightarrow> bool" where
  "audits u q st st' \<longleftrightarrow>
     rsv_audit st' = rsv_audit st @ new_events st st' \<and> list_all (event_of u q) (new_events st st') \<and>
     rsv_runs st' = rsv_runs st"

text \<open>A run is saved once, with its ids, and names audit events that were appended for it.\<close>

definition run_recorded :: "runner_setup \<Rightarrow> agent_run_request \<Rightarrow> runner_state \<Rightarrow> agent_run \<Rightarrow> runner_state \<Rightarrow> bool" where
  "run_recorded u q st r st' \<longleftrightarrow>
     rsv_runs st' = rsv_runs st @ [r] \<and> arn_task_id r = arq_task_id q \<and> arn_run_id r = arq_run_id q \<and>
     rsv_audit st' = rsv_audit st @ new_events st st' \<and> list_all (event_of u q) (new_events st st') \<and>
     arn_audit_ids r \<noteq> [] \<and> set (arn_audit_ids r) \<subseteq> set (map rau_id (new_events st st'))"

lemma audits_same: "rsv_audit st' = rsv_audit st \<Longrightarrow> rsv_runs st' = rsv_runs st \<Longrightarrow> audits u q st st'"
  by (simp add: audits_def new_events_def)

lemma audits_append:
  "rsv_audit st' = rsv_audit st @ es \<Longrightarrow> list_all (event_of u q) es \<Longrightarrow> rsv_runs st' = rsv_runs st \<Longrightarrow> audits u q st st'"
  by (simp add: audits_def new_events_def)

lemma audits_trans:
  assumes "audits u q st st1" "audits u q st1 st2"
  shows "audits u q st st2" "new_events st st2 = new_events st st1 @ new_events st1 st2"
proof -
  have all: "rsv_audit st2 = rsv_audit st @ new_events st st1 @ new_events st1 st2"
    using assms by (metis audits_def append_assoc)
  then show eq: "new_events st st2 = new_events st st1 @ new_events st1 st2"
    unfolding new_events_def by (metis append_eq_conv_conj)
  show "audits u q st st2" using assms all by (simp add: audits_def eq)
qed

lemma recorded_after:
  assumes "audits u q st st1" "run_recorded u q st1 r st2"
  shows "run_recorded u q st r st2"
proof -
  have all: "rsv_audit st2 = rsv_audit st @ new_events st st1 @ new_events st1 st2"
    using assms by (metis audits_def run_recorded_def append_assoc)
  then have "new_events st st2 = new_events st st1 @ new_events st1 st2"
    unfolding new_events_def by (metis append_eq_conv_conj)
  then show ?thesis using assms by (auto simp: audits_def run_recorded_def)
qed

text \<open>An event of the request, recorded; a run saved with its id.\<close>

lemma recorded_event:
  "event_of u q (fst (record_run_audit u s (arq_task_id q) (arq_run_id q) ty res reason meta st))"
  using redact_keys_sensitive[of _ _ "[''token'', ''secret'', ''key'']" meta]
  by (auto simp: event_of_def record_run_audit_def sanitize_run_metadata_def Let_def)

lemma record_audit_audits:
  "audits u q st (snd (record_run_audit u s (arq_task_id q) (arq_run_id q) ty res reason meta st))"
  "new_events st (snd (record_run_audit u s (arq_task_id q) (arq_run_id q) ty res reason meta st)) =
     [fst (record_run_audit u s (arq_task_id q) (arq_run_id q) ty res reason meta st)]"
  using recorded_event[of u q s ty res reason meta st]
  by (auto simp: record_run_audit_def new_events_def Let_def intro: audits_append)

lemma save_run_recorded:
  assumes "audits u q st st1" "arn_task_id r = arq_task_id q" "arn_run_id r = arq_run_id q"
    "arn_audit_ids r \<noteq> []" "set (arn_audit_ids r) \<subseteq> set (map rau_id (new_events st st1))"
  shows "run_recorded u q st (fst (save_run r st1)) (snd (save_run r st1))"
  using assms by (simp add: run_recorded_def save_run_def audits_def new_events_def)

lemma refused_run_ids [simp]:
  "arn_task_id (refused_run u s status q tests as meta) = arq_task_id q"
  "arn_run_id (refused_run u s status q tests as meta) = arq_run_id q"
  "arn_audit_ids (refused_run u s status q tests as meta) = as"
  by (simp_all add: refused_run_def)

lemma block_run_recorded:
  "run_recorded u q st (fst (block_run u s q ls reason am m st)) (snd (block_run u s q ls reason am m st))"
  unfolding block_run_def
  by (simp add: split_beta Let_def, intro save_run_recorded record_audit_audits(1))
    (simp_all add: record_audit_audits(2))

lemma policy_audits: "audits u q st (snd (runner_policy decide s req st))"
  by (simp add: audits_same runner_policy_def split_beta)

text \<open>A gate extends the trail and lets the run go on, or records the run that it refuses.\<close>

definition gate_trail :: "runner_setup \<Rightarrow> agent_run_request \<Rightarrow> 'a run_step \<Rightarrow> bool" where
  "gate_trail u q m \<longleftrightarrow>
     (\<forall>st. case m st of (Inr _, st') \<Rightarrow> audits u q st st' | (Inl r, st') \<Rightarrow> run_recorded u q st r st')"

lemma gate_trail_bind:
  assumes "gate_trail u q m" "\<And>x. gate_trail u q (f x)"
  shows "gate_trail u q (op_bind m f)"
  unfolding gate_trail_def
proof
  fix st
  show "case op_bind m f st of (Inr _, st') \<Rightarrow> audits u q st st' | (Inl r, st') \<Rightarrow> run_recorded u q st r st'"
    using assms(1)[unfolded gate_trail_def, rule_format, of st]
      assms(2)[unfolded gate_trail_def, rule_format]
    by (auto simp: op_bind_def split: prod.splits sum.splits intro: audits_trans recorded_after)
       (metis (no_types, lifting) case_prod_conv sum.case audits_trans(1) recorded_after)+
qed

lemma gate_trails:
  "gate_trail u q (runner_policy_gate decide u s q)"
  "gate_trail u q (harness_gate u sha s q)"
  "gate_trail u q (command_policy_gate decide u s q)"
  "gate_trail u q (run_sandbox_gate decide u s q)"
  using recorded_after[OF policy_audits block_run_recorded]
    recorded_after[OF audits_same block_run_recorded]
  by (auto simp: gate_trail_def runner_policy_gate_def harness_gate_def command_policy_gate_def run_sandbox_gate_def
        split_beta Let_def policy_audits audits_same split: option.split)

text \<open>The run that the agents answer is the one of the request.\<close>

lemma blocked_run_simps [simp]:
  "arn_task_id (blocked_run i c d q k l out m) = arq_task_id q" "arn_run_id (blocked_run i c d q k l out m) = arq_run_id q"
  "arn_audit_ids (blocked_run i c d q k l out m) = []" "arn_status (blocked_run i c d q k l out m) = ''blocked''"
  by (simp_all add: blocked_run_def)

lemma run_in_workspace_Inr:
  "run_in_workspace h s c ex q x w st = (Inr r, st') \<Longrightarrow> \<exists>results. r = local_run s c ex q x w results \<and>
     (results = [] \<or> (\<exists>v k i st2. results = fst (execute_test_commands h k 0 c ex q i v (arq_tests q) st2)))"
  by (auto simp: run_in_workspace_def split_beta split: prod.splits sum.splits option.splits if_splits; blast)

lemma execute_run_ids:
  "execute_run http h decide s r q st = (Inr x, st') \<Longrightarrow>
     arn_task_id x = arq_task_id q \<and> arn_run_id x = arq_run_id q \<and> arn_audit_ids x = []"
  by (cases r) (auto simp: execute_mock_def mock_run_def execute_local_def blocked_local_def local_run_def split_beta
    Let_def split: if_splits option.splits dest!: run_in_workspace_Inr)

lemma close_sandbox_audits: "audits u q st (snd (close_sandbox s i st))"
  by (auto simp: close_sandbox_def split: option.split prod.split sum.split intro: audits_same)

lemma fail_run_recorded:
  assumes "audits u q st0 st" "e \<in> set (map rau_id (new_events st0 st))"
  shows "run_recorded u q st0 (fst (fail_run u s q a e msg st)) (snd (fail_run u s q a e msg st))"
  using assms audits_trans[OF assms(1) record_audit_audits(1)] record_audit_audits(2)
  unfolding fail_run_def by (simp add: split_beta Let_def, intro save_run_recorded) auto

lemma execute_prepared_recorded:
  assumes "audits u q st0 st" "e \<in> set (map rau_id (new_events st0 st))"
  shows "run_recorded u q st0 (fst (execute_prepared http h decide u s q a box e st))
    (snd (execute_prepared http h decide u s q a box e st))"
proof -
  obtain x ag where x: "execute_run http h decide (sub 0 s) (rst_runner u) q (rsv_agent st) = (x, ag)" by fastforce
  let ?st1 = "st\<lparr>rsv_agent := ag\<rparr>"
  have st1: "audits u q st0 ?st1" "e \<in> set (map rau_id (new_events st0 ?st1))"
    using assms by (simp_all add: audits_def new_events_def)
  show ?thesis
  proof (cases x)
    case (Inl err)
    then show ?thesis using x fail_run_recorded[OF st1] by (simp add: execute_prepared_def)
  next
    case (Inr r)
    note r = execute_run_ids[OF x[unfolded Inr]]
    define ty res where "ty = fst (execution_event (arn_status r))" and "res = snd (execution_event (arn_status r))"
    define reason where "reason = as_string (obj_get (arn_metadata r) ''reason'')"
    define meta where "meta = [(''runId'', JStr (arn_id r)), (''changedFiles'', str_list (arn_files r)),
      (''instructionAssemblyId'', JStr (ias_id a)), (''llmGatewayRequestIds'', str_list (arn_llm_ids r)),
      (''usageLedgerEntryIds'', str_list (arn_usage_ids r)),
      (''commandExecutionResultIds'', str_list (arn_command_ids r)), (''workspaceId'', of_opt_str (arn_workspace_id r))]"
    define ev where "ev = record_run_audit u (sub 2 s) (arq_task_id q) (arq_run_id q) ty res reason meta ?st1"
    have ev: "audits u q ?st1 (snd ev)" "new_events ?st1 (snd ev) = [fst ev]"
      by (simp_all add: ev_def record_audit_audits)
    define cl where "cl = close_sandbox (sub 3 s) (map_option sn_id (Option.bind box fst)) (snd ev)"
    have cl: "audits u q (snd ev) (snd cl)" by (simp add: cl_def close_sandbox_audits)
    have all: "audits u q st0 (snd cl)" "new_events st0 (snd cl) = new_events st0 ?st1 @ fst ev # new_events (snd ev) (snd cl)"
      using audits_trans[OF st1(1) audits_trans(1)[OF ev(1) cl]] audits_trans(2)[OF ev(1) cl] ev(2) by simp_all
    have "execute_prepared http h decide u s q a box e st =
        (case cl of (Inl err, st2) \<Rightarrow> fail_run u (sub 1 s) q a e (failure_message err) st2
         | (Inr _, st2) \<Rightarrow> save_run (executed_run r [e, rau_id (fst ev)] a box) st2)"
      by (simp add: execute_prepared_def x Inr split_beta Let_def cl_def ev_def ty_def res_def reason_def meta_def split: sum.split)
    moreover have "run_recorded u q st0 (fst (fail_run u (sub 1 s) q a e msg (snd cl))) (snd (fail_run u (sub 1 s) q a e msg (snd cl)))" for msg
      by (rule fail_run_recorded) (use all st1 in auto)
    moreover have "run_recorded u q st0 (fst (save_run (executed_run r [e, rau_id (fst ev)] a box) (snd cl)))
        (snd (save_run (executed_run r [e, rau_id (fst ev)] a box) (snd cl)))"
      by (rule save_run_recorded) (use all st1 r in \<open>auto simp: executed_run_def\<close>)
    ultimately show ?thesis by (cases cl; cases "fst cl") simp_all
  qed
qed

lemma prepare_gate_trail:
  "prepare_gate h u s q a st = (Inr e, st') \<Longrightarrow> audits u q st st' \<and> e \<in> set (map rau_id (new_events st st'))"
  "prepare_gate h u s q a st = (Inl r, st') \<Longrightarrow> run_recorded u q st r st'"
proof -
  define p where "p = prepare_run h (sub 0 s) (rst_runner u) q"
  define ev where "ev = record_run_audit u (sub 1 s) (arq_task_id q) (arq_run_id q) ''agent_run_prepared''
    (if prn_status p = ''prepared'' then ''allowed'' else ''blocked'') (prn_reason p)
    [(''preparedRunId'', JStr (prn_id p)), (''instructionAssemblyId'', JStr (ias_id a))] st"
  have ev: "audits u q st (snd ev)" "new_events st (snd ev) = [fst ev]"
    by (simp_all add: ev_def record_audit_audits)
  note gate = prepare_gate_def[of h u s q a st, unfolded Let_def, folded p_def, folded ev_def]
  show "prepare_gate h u s q a st = (Inr e, st') \<Longrightarrow> audits u q st st' \<and> e \<in> set (map rau_id (new_events st st'))"
    using ev by (auto simp: gate split_beta split: if_splits)
  show "prepare_gate h u s q a st = (Inl r, st') \<Longrightarrow> run_recorded u q st r st'"
    using save_run_recorded[OF ev(1)] by (auto simp: gate split_beta ev(2) split: if_splits)
qed

text \<open>The last step of a run, and a run after its gates.\<close>

definition run_trail :: "runner_setup \<Rightarrow> agent_run_request \<Rightarrow> agent_run run_step \<Rightarrow> bool" where
  "run_trail u q m \<longleftrightarrow>
     (\<forall>st. run_recorded u q st (case fst (m st) of Inl r \<Rightarrow> r | Inr r \<Rightarrow> r) (snd (m st)))"

lemma run_trail_bind:
  assumes "gate_trail u q m" "\<And>x. run_trail u q (f x)"
  shows "run_trail u q (op_bind m f)"
  unfolding run_trail_def
proof
  fix st
  obtain x st1 where m: "m st = (x, st1)" by fastforce
  then show "run_recorded u q st (case fst (op_bind m f st) of Inl r \<Rightarrow> r | Inr r \<Rightarrow> r) (snd (op_bind m f st))"
    using assms(1)[unfolded gate_trail_def, rule_format, of st] assms(2)[unfolded run_trail_def, rule_format]
    by (cases x) (auto simp: op_bind_def intro: recorded_after)
qed

lemma run_steps_trail: "run_trail u q (run_agent_steps http h decide sha u s q)"
proof -
  have "run_trail u q (op_bind (prepare_gate h u (sub 4 s) q a)
      (\<lambda>e st. apfst Inr (execute_prepared http h decide u (sub 5 s) q a box e st)))" for a box
    unfolding run_trail_def
  proof
    fix st
    obtain x st1 where p: "prepare_gate h u (sub 4 s) q a st = (x, st1)" by fastforce
    show "run_recorded u q st
        (case fst (op_bind (prepare_gate h u (sub 4 s) q a)
          (\<lambda>e st. apfst Inr (execute_prepared http h decide u (sub 5 s) q a box e st)) st) of Inl r \<Rightarrow> r | Inr r \<Rightarrow> r)
        (snd (op_bind (prepare_gate h u (sub 4 s) q a)
          (\<lambda>e st. apfst Inr (execute_prepared http h decide u (sub 5 s) q a box e st)) st))"
      using p prepare_gate_trail[of h u "sub 4 s" q a st] execute_prepared_recorded[of u q st st1]
      by (cases x) (simp_all add: op_bind_def)
  qed
  note prepared = this
  show ?thesis
    unfolding run_agent_steps_def by (rule prepared | rule gate_trails | rule run_trail_bind)+
qed

section \<open>Workspaces\<close>

text \<open>A directory that is an entry of another one.\<close>

definition child_of :: "string \<Rightarrow> string \<Rightarrow> bool" where
  "child_of base p \<longleftrightarrow> (\<exists>x. path_names p = path_names base @ [x])"

text \<open>
  Temporary directories are made directly below the root; a tree is removed only when it is one of them.
\<close>

definition workspaces_confined :: "workspace_manager \<Rightarrow> bool" where
  "workspaces_confined wm \<longleftrightarrow>
     is_absolute (wsm_root wm) \<and>
     (\<forall>w \<in> set (wsm_rows wm). wsp_mode w = ''temp'' \<longrightarrow>
        MakeDir (wsp_root w) \<in> set (wsm_effects wm) \<and> child_of (wsm_root wm) (wsp_root w)) \<and>
     (\<forall>p. RemoveTree p \<in> set (wsm_effects wm) \<longrightarrow>
        MakeDir p \<in> set (wsm_effects wm) \<and> child_of (wsm_root wm) p)"

definition plain_ids :: "draws \<Rightarrow> bool" where
  "plain_ids s \<longleftrightarrow> (\<forall>k. CHR ''/'' \<notin> set (dr_id s k))"

lemma plain_ids_sub [simp]: "plain_ids s \<Longrightarrow> plain_ids (sub k s)"
  by (simp add: plain_ids_def sub_def)

lemma split_on_concat: "split_on c (xs @ c # ys) = split_on c xs @ split_on c ys"
  by (induction xs) (auto split: list.split)

lemma normal_names_append: "normal_names acc (xs @ ys) = normal_names (normal_names acc xs) ys"
  by (induction acc xs rule: normal_names.induct) simp_all

lemma path_names_child: "path_name x \<Longrightarrow> path_names (p @ ''/'' @ x) = path_names p @ [x]"
  by (simp add: path_names_def split_on_concat normal_names_append split_on_single path_name_def)

lemma join_with_last: "join_with sep (xs @ [x]) @ y = join_with sep (xs @ [x @ y])"
  by (induction sep xs rule: join_with.induct) simp_all

lemma temp_name: "path_name (map safe_name_char t @ ''-'' @ y)" if "CHR ''/'' \<notin> set y"
  using that by (cases t) (auto simp: path_name_def safe_name_char_def is_alnum_def is_upper_def is_lower_def is_digit_def)

lemma temp_path:
  fixes t :: string
  assumes "is_absolute base" "CHR ''/'' \<notin> set y"
  defines "p \<equiv> path_resolve base (map safe_name_char t @ ''-'') @ y"
  shows "path_resolve cwd p = p" "child_of base p"
proof -
  have rel: "\<not> is_absolute (map safe_name_char t @ ''-'')"
    by (cases t) (auto simp: is_absolute_def starts_with_def safe_name_char_def is_alnum_def is_upper_def is_lower_def is_digit_def)
  have names: "\<forall>x \<in> set (path_names base @ [map safe_name_char t @ ''-'' @ y]). path_name x"
    using temp_name[OF assms(2), of t] by (auto dest: path_names_names)
  have p: "p = ''/'' @ join_with ''/'' (path_names base @ [map safe_name_char t @ ''-'' @ y])"
    using rel path_names_child[OF temp_name[of "[]" t], of base]
    by (simp add: p_def path_resolve_def join_with_last)
  have pn: "path_names p = path_names base @ [map safe_name_char t @ ''-'' @ y]"
    unfolding p by (rule path_names_rooted) (rule names)
  then show "child_of base p" by (simp add: child_of_def)
  have "is_absolute p" by (simp add: p is_absolute_def starts_with_def)
  then show "path_resolve cwd p = p" by (simp add: path_resolve_def pn) (simp add: p)
qed

lemma validate_workspace_path [simp]: "wck_path (validate_workspace h wm p a) = path_resolve (hst_cwd h) p"
  by (simp add: validate_workspace_def Let_def)

lemma create_workspace_confines:
  assumes "workspaces_confined wm" "plain_ids s"
  shows "workspaces_confined (snd (create_workspace h s wq wm))"
proof (cases "wsq_mode wq = ''fixture''")
  case True
  then show ?thesis
    using assms(1)
    by (auto simp: create_workspace_def workspaces_confined_def workspace_row_def Let_def)
next
  case False
  define t where "t = path_resolve (wsm_root wm) (map safe_name_char (wsq_task_id wq) @ ''-'') @ dr_id (sub 0 s) [0]"
  have "CHR ''/'' \<notin> set (dr_id (sub 0 s) [0])" using plain_ids_sub[OF assms(2)] by (simp add: plain_ids_def)
  then have t: "path_resolve (hst_cwd h) t = t" "child_of (wsm_root wm) t"
    using temp_path assms(1) unfolding t_def workspaces_confined_def by blast+
  have "t \<noteq> []" by (simp add: t_def path_resolve_def)
  then show ?thesis
    using False assms(1) t
    by (auto simp: create_workspace_def workspaces_confined_def workspace_row_def Let_def create_temp_path_def
        t_def[symmetric] truthy_str_def)
qed

lemma cleanup_workspace_confines:
  assumes "workspaces_confined wm"
  shows "workspaces_confined (snd (cleanup_workspace s i wm))"
proof (cases "find_workspace i (wsm_rows wm)")
  case (Some w)
  then have "w \<in> set (wsm_rows wm)"
    unfolding find_workspace_def using find_by_Some by metis
  then show ?thesis
    using assms Some by (auto simp: cleanup_workspace_def workspaces_confined_def Let_def dest!: in_update_by)
qed (use assms in \<open>simp add: cleanup_workspace_def\<close>)

lemma run_in_workspace_confines:
  assumes "workspaces_confined (ags_workspaces st)"
  shows "workspaces_confined (ags_workspaces (snd (run_in_workspace h s c ex q x w st)))"
proof -
  have "workspaces_confined (ags_workspaces (snd (finish_workspace k v st1)))"
    if "ags_workspaces st1 = ags_workspaces st" for k v st1
    using assms that cleanup_workspace_confines[of "ags_workspaces st1" k]
    by (auto simp: finish_workspace_def split: option.split prod.split sum.split) (metis snd_conv)+
  then show ?thesis
    using assms by (auto simp: run_in_workspace_def split_beta split: option.split sum.split prod.split)
qed

lemma execute_run_confines:
  assumes "workspaces_confined (ags_workspaces st)" "plain_ids s"
  shows "workspaces_confined (ags_workspaces (snd (execute_run http h decide s r q st)))"
proof (cases r)
  case (LocalRunner c ex)
  have "workspaces_confined (ags_workspaces (snd (prepare_workspace h k q st1)))"
    if "ags_workspaces st1 = ags_workspaces st" "plain_ids k" for k st1
    using that assms create_workspace_confines by (simp add: prepare_workspace_def split_beta Let_def)
  then show ?thesis
    using assms run_in_workspace_confines
    by (simp add: LocalRunner execute_local_def split_beta Let_def split: option.split)
qed (use assms in \<open>simp add: split_beta\<close>)

end
