(* ===== verification/RunnerProperties.thy ===== *)
theory RunnerProperties
  imports RunnerCalls DefaultPolicy
begin

text \<open>
  What the agent runner promises: which processes a run or a single command may start and where, which
  directories a run may remove, that every run is recorded, and what the default rules permit.
\<close>

section \<open>Processes\<close>

definition new_processes :: "runner_state \<Rightarrow> runner_state \<Rightarrow> process_request list" where
  "new_processes st st' = drop (length (ags_started (rsv_agent st))) (ags_started (rsv_agent st'))"

text \<open>
  A run starts a process only when the runner policy, the harness policy, the command policy and the check
  of the environment let it through, commands are enabled, and the process is a test command of the
  request: one of the fixture executables, allowed by the harness, without shell metacharacters and without
  a secret of the environment, in a directory below the root of the workspaces.
\<close>

theorem run_starts_confined_processes:
  assumes "p \<in> set (new_processes st (snd (run_agent http h decide sha u s q st)))"
  shows "run_gates_passed h decide u q \<and>
    run_process h (rst_runner u) q (wsm_root (ags_workspaces (rsv_agent st))) p"
proof -
  obtain x st' where x: "run_agent_steps http h decide sha u s q st = (x, st')" by fastforce
  then have st': "snd (run_agent http h decide sha u s q st) = st'" by (simp add: run_agent_def)
  show ?thesis
  proof (cases x)
    case (Inl r)
    then show ?thesis using run_agent_stopped[of http h decide sha u s q st r st'] x assms
      by (simp add: st' new_processes_def)
  next
    case (Inr r)
    from run_agent_executed[OF x[unfolded Inr]] obtain a box e st1 where
      passed: "run_gates_passed h decide u q" and st1: "rsv_agent st1 = rsv_agent st" and
      ran: "execute_prepared http h decide u (sub 5 s) q a box e st1 = (r, st')"
      by blast
    have "rsv_agent st' = snd (execute_run http h decide (sub 0 (sub 5 s)) (rst_runner u) q (rsv_agent st))"
      using execute_prepared_agent[of http h decide u "sub 5 s" q a box e st1] by (simp add: ran st1)
    then show ?thesis
      using passed assms starts_new[OF execute_run_starts] by (simp add: st' new_processes_def)
  qed
qed

lemma command_for_run_starts:
  assumes "rci_denied i = Some ds"
  shows "starts (\<lambda>p. (\<exists>out err. ex = FixtureExecutor True out err) \<and> process_confined h (rci_allowed i) ds p \<and>
      below (path_resolve (hst_cwd h) (wsm_root (ags_workspaces st))) (pcq_cwd p))
    st (snd (command_for_run h s c ex r i st))"
proof -
  have cmd: "starts (\<lambda>p. (\<exists>out err. ex = FixtureExecutor True out err) \<and> process_confined h (rci_allowed i) ds p \<and>
      below (path_resolve (hst_cwd h) (wsm_root (ags_workspaces st))) (pcq_cwd p))
    st (snd (run_command h k ex (run_command_request c r i d keys meta) st))"
    if "below (path_resolve (hst_cwd h) (wsm_root (ags_workspaces st))) d" for k d keys meta
    by (rule starts_mono[OF run_command_starts])
      (use that in \<open>simp add: run_command_request_def assms process_of_def\<close>)
  show ?thesis
    using cmd validate_workspace_confines[of h "ags_workspaces st"]
    by (auto simp: command_for_run_def Let_def save_command_def starts_same)
qed

text \<open>
  A single command of a run starts at most a process the policy engine allowed, that is allowed and not
  denied by the lists the caller gives, in a directory below the root of the workspaces, when commands are enabled and the runner is the local one.
\<close>

theorem command_call_starts_confined_processes:
  assumes "p \<in> set (new_processes st (snd (execute_command_for_run h decide u s i cl st)))"
  shows "rcf_commands (rst_config u) \<and> (\<exists>c out err. rst_runner u = LocalRunner c (FixtureExecutor True out err)) \<and>
    (\<exists>r s'. service_run i st = Some r \<and> dec_allowed (decide s' (command_call_request u r cl))) \<and>
    process_confined h (rci_allowed (call_input u cl)) (the (rci_denied (call_input u cl))) p \<and>
    below (path_resolve (hst_cwd h) (wsm_root (ags_workspaces (rsv_agent st)))) (pcq_cwd p)"
proof -
  have keep: "rsv_agent (snd (record_run_audit u k t r ty res why m st1)) = rsv_agent st1"
    "rsv_agent (snd (save_service_command x st1)) = rsv_agent st1" for k t r ty res why m x st1
    by (simp_all add: record_run_audit_def save_service_command_def Let_def)
  obtain r where r: "service_run i st = Some r"
    using assms by (cases "service_run i st") (simp_all add: execute_command_for_run_def new_processes_def)
  let ?pd = "runner_policy decide (sub 0 s) (command_call_request u r cl) st"
  have ok: "dec_allowed (fst ?pd)"
    using assms by (rule contrapos_pp)
      (simp add: execute_command_for_run_def r new_processes_def split_beta Let_def keep)
  have agent: "rsv_agent (snd (execute_command_for_run h decide u s i cl st)) =
      rsv_agent (snd (perform_command h u (sub 1 s) r cl (snd ?pd)))"
    using ok by (simp add: execute_command_for_run_def r split_beta Let_def keep)
  have "rcf_commands (rst_config u) \<and> (\<exists>c ex. rst_runner u = LocalRunner c ex)"
    using assms
    by (rule contrapos_pp) (auto simp: new_processes_def agent perform_command_def keep split: agent_runner.split bool.split)
  then obtain c ex where c: "rcf_commands (rst_config u)" "rst_runner u = LocalRunner c ex" by blast
  have denied: "rci_denied (call_input u cl) = Some (the (rci_denied (call_input u cl)))"
    by (simp add: call_input_def)
  show ?thesis
    using assms c r ok starts_new[OF command_for_run_starts[OF denied], of p]
    by (auto simp: new_processes_def agent perform_command_def split_beta)
qed

section \<open>Runs and workspaces\<close>

text \<open>
  Every run, refused, failed or completed, is saved once with its ids, and the audit grows by events of that
  request without a secret value, among them the ones the run names.
\<close>

theorem every_run_recorded:
  "run_recorded u q st (fst (run_agent http h decide sha u s q st)) (snd (run_agent http h decide sha u s q st))"
  using run_steps_trail[of u q http h decide sha s] by (simp add: run_trail_def run_agent_def)

text \<open>A run makes and removes directories only directly below the root of its workspaces.\<close>

theorem run_keeps_workspaces_confined:
  assumes "workspaces_confined (ags_workspaces (rsv_agent st))" "plain_ids s"
  shows "workspaces_confined (ags_workspaces (rsv_agent (snd (run_agent http h decide sha u s q st))))"
proof -
  obtain x st' where x: "run_agent_steps http h decide sha u s q st = (x, st')" by fastforce
  show ?thesis
  proof (cases x)
    case (Inl r)
    then show ?thesis using run_agent_stopped x assms by (fastforce simp: run_agent_def)
  next
    case (Inr r)
    from run_agent_executed[OF x[unfolded Inr]] obtain a box e st1 where
      st1: "rsv_agent st1 = rsv_agent st" and
      ran: "execute_prepared http h decide u (sub 5 s) q a box e st1 = (r, st')"
      by blast
    have "rsv_agent st' = snd (execute_run http h decide (sub 0 (sub 5 s)) (rst_runner u) q (rsv_agent st))"
      using execute_prepared_agent[of http h decide u "sub 5 s" q a box e st1] by (simp add: ran st1)
    then show ?thesis
      using execute_run_confines assms x by (simp add: run_agent_def)
  qed
qed

section \<open>The default rules\<close>

lemma runner_execute_rules: "rules_for ''runner.execute'' = [runner_rules ! 4]"
  by (simp add: rules_for_def default_rule_defs cong: rule_literal_cong)

lemma run_request_fields:
  "req_action (run_policy_request u q) = ''runner.execute''"
  "res_kind (req_resource (run_policy_request u q)) = ''runner''"
  "ctx_runner_kind (req_context (run_policy_request u q)) = Some (setup_kind u)"
  by (simp_all add: run_policy_request_def runner_policy_request_def create_policy_resource_def run_request_context_def)

lemma tests_request_fields:
  "req_action (tests_policy_request u q) = ''runner.command.execute''"
  "res_kind (req_resource (tests_policy_request u q)) = ''command''"
  "ctx_command (req_context (tests_policy_request u q)) = Some (join_with '' && '' (arq_allowed q @ arq_tests q))"
  "ctx_environment (req_context (tests_policy_request u q)) = command_environment u True (truthy_str (local_path_of q))"
  by (simp_all add: tests_policy_request_def runner_policy_request_def create_policy_resource_def run_request_context_def
    create_policy_context_def)

lemmas runner_policy_eval = default_allowed_iff runner_execute_rules runner_command_rules runner_rules_def
  rule_applies_def map_matches_def context_or_metadata_def condition_matches_def no_conditions_def
  run_request_fields tests_request_fields

lemma runner_kinds: "setup_kind u = ''mock'' \<or> setup_kind u = ''local''"
  by (cases "rst_runner u") simp_all

lemma default_permits_runs:
  "dec_allowed (evaluate default_policy_rules s (run_policy_request u q))"
  using runner_kinds[of u] by (simp add: runner_policy_eval cong: rule_literal_cong)

text \<open>Test commands that name no network or remote Git command are permitted when commands are enabled.\<close>

lemma default_permits_tests:
  assumes "rcf_commands (rst_config u)" "truthy_str (local_path_of q)"
    and "\<not> list_ex (str_includes (to_lower (join_with '' && '' (arq_allowed q @ arq_tests q))))
      [''curl'', ''wget'', ''fetch'', ''git fetch'', ''git push'', ''git merge'', ''git rebase'']"
  shows "dec_allowed (evaluate default_policy_rules s (tests_policy_request u q))"
proof -
  let ?req = "tests_policy_request u q"
  have words: "command_text ?req = to_lower (join_with '' && '' (arq_allowed q @ arq_tests q))"
    by (simp add: command_text_def tests_request_fields)
  have lower: "map to_lower [''curl'', ''wget'', ''fetch''] = [''curl'', ''wget'', ''fetch'']"
    "map to_lower [''git fetch'', ''git push'', ''git merge'', ''git rebase''] = [''git fetch'', ''git push'', ''git merge'', ''git rebase'']"
    by code_simp+
  have refused: "\<not> rule_applies ?req (runner_rules ! 1)" "\<not> rule_applies ?req (runner_rules ! 2)"
    using assms(3) lower
    by (auto simp: runner_rules_def rule_applies_def condition_matches_def no_conditions_def words)
  have applies: "rule_applies ?req (runner_rules ! 3)"
    by (simp add: runner_rules_def rule_applies_def condition_matches_def no_conditions_def tests_request_fields
      map_matches_def command_environment_def assms(1,2))
  have fields: "rule_priority (runner_rules ! 0) = 100" "rule_priority (runner_rules ! 3) = 200"
    "rule_eff (runner_rules ! 3) = EffAllow"
    by (simp_all add: runner_rules_def)
  show ?thesis
    using refused applies fields
    by (cases "rule_applies ?req (runner_rules ! 0)")
      (simp_all add: default_allowed_iff tests_request_fields(1) runner_command_rules rule_cmp_def cmp_or_def num_cmp_def)
qed

end
