(* ===== verification/Spec2Isabelle.thy ===== *)
theory Spec2Isabelle
  imports JsPrelude TextPatterns
    PolicyEngine PolicyRules DefaultPolicy PolicyService
    TaskStatus TaskModel Conflicts Store
    AuthRepository AuthCatalog AuthService AuthProperties
    Redaction SecurityModel SecurityService CredentialResolution SecurityInvariant SecurityProperties
    RegistryModel RegistryResolution RegistryProperties RegistryService RegistryHistory
    McpModel McpCatalog McpGateway McpProperties
    ImprovementModel ImprovementService ImprovementInvariant ImprovementProperties
    LlmModel LlmProviders LlmCatalog LlmGateway LlmRouting LlmCompletion LlmCalls LlmProperties
    JsDate RunnerModel RunnerCommands RunnerAgents RunnerService RunnerCalls RunnerProperties
begin

text \<open>
  A verification development of aichestra, a TypeScript monorepo that orchestrates coding agents:
  tasks over repositories, a policy engine, identities and authorization, secrets, a registry of
  skills, harnesses and instructions, tools reached through an MCP gateway, language models reached
  through a gateway with routes and budgets, and a loop that turns failures into governed proposals.

  \<^bold>\<open>The parts and how they interact.\<close>  Every service asks the policy engine
  (\<open>packages/policy/src/engine.ts\<close>) and keeps its own policy service
  (\<open>service.ts\<close>, \<open>audit.ts\<close>) with the audit of its decisions.  The authorization
  service (\<open>packages/auth/src/service.ts\<close>) resolves an actor with its principal, roles and
  scoped bindings, then asks the policy engine.  The security service
  (\<open>packages/security/src/service.ts\<close>) releases credentials as leases after policy, environment
  and allowlist gates.  The MCP gateway (\<open>packages/mcp-gateway/src/gateway.ts\<close>) asks both the
  authorization service and the policy engine, and so does the LLM gateway
  (\<open>packages/llm-gateway/src/gateway.ts\<close>) when it selects a route.  The store (\<open>packages/db/src/repository.ts\<close>)
  keeps tasks, leases and the merge queue and uses the conflict scores
  (\<open>packages/core/src/conflicts/scoring.ts\<close>) and the task status machine
  (\<open>packages/core/src/domain/status.ts\<close>).  The registry
  (\<open>packages/registry/src/index.ts\<close>) resolves versions with their dependencies and governs
  revisions.  The improvement loop (\<open>packages/improvement/src/index.ts\<close>) clusters failure
  signals, proposes changes and records decisions.  The agent runner (\<open>packages/runner/src/service.ts\<close>)
  asks the policy engine, the harness policy and the security service before a run, calls the LLM
  gateway and may start processes in workspaces.

  \<^bold>\<open>Which theory models what.\<close>
  \<^item> \<open>JsPrelude\<close>: the JavaScript the code uses: optional values, object literals, string
    methods, stable sorting by a comparator, \<open>Map\<close> and id-keyed arrays (with the locale
    \<open>keyed_repository\<close> of their contract), operations that throw (\<open>op\<close>), and the clock
    and id draws.  \<open>TextPatterns\<close>: the regular expressions, as matchers.
  \<^item> \<open>PolicyEngine\<close>, \<open>PolicyRules\<close>, \<open>DefaultPolicy\<close>, \<open>PolicyService\<close>: evaluation of a rule
    set, the default rules of \<open>default-rules.ts\<close>, what they allow, and the audited service.
  \<^item> \<open>TaskStatus\<close>, \<open>TaskModel\<close>, \<open>Conflicts\<close>, \<open>Store\<close>: the task machine, the request schemas,
    the conflict scores, the in-memory repository with its operations.
  \<^item> \<open>AuthRepository\<close>, \<open>AuthCatalog\<close>, \<open>AuthService\<close>, \<open>AuthProperties\<close>: the identity tables, the
    default actors, roles and bindings, the authorization service and its properties.
  \<^item> \<open>Redaction\<close>, \<open>SecurityModel\<close>, \<open>SecurityService\<close>, \<open>CredentialResolution\<close>,
    \<open>SecurityInvariant\<close>, \<open>SecurityProperties\<close>: redaction of text and metadata, the security
    entities, the control service, the resolution of credentials, the invariant of the state.
  \<^item> \<open>RegistryModel\<close>, \<open>RegistryResolution\<close>, \<open>RegistryProperties\<close>, \<open>RegistryService\<close>,
    \<open>RegistryHistory\<close>: registry entries and version ranges, resolution of dependencies, the
    governed mutations, and the history of revisions with roll back.
  \<^item> \<open>McpModel\<close>, \<open>McpCatalog\<close>, \<open>McpGateway\<close>, \<open>McpProperties\<close>: the tool catalogue, the gateway and
    its properties.
  \<^item> \<open>ImprovementModel\<close>, \<open>ImprovementService\<close>, \<open>ImprovementInvariant\<close>,
    \<open>ImprovementProperties\<close>: the entities and status machines of the improvement loop, its
    repository and services, the invariant over all operations, and its properties.
  \<^item> \<open>LlmModel\<close>, \<open>LlmProviders\<close>, \<open>LlmCatalog\<close>, \<open>LlmGateway\<close>, \<open>LlmRouting\<close>,
    \<open>LlmCompletion\<close>, \<open>LlmCalls\<close>, \<open>LlmProperties\<close>: the catalogues of models, keys, routes and
    fallback policies, the providers with the configuration from the environment, the seeds, the
    gateway with routing, completion, fallback and usage, lemmas on a call, and its properties.
  \<^item> \<open>JsDate\<close>, \<open>RunnerModel\<close>, \<open>RunnerCommands\<close>, \<open>RunnerAgents\<close>, \<open>RunnerService\<close>,
    \<open>RunnerCalls\<close>, \<open>RunnerProperties\<close>: the print of a date; the records and repositories of the runner,
    paths, commands and workspaces over a given host, the mock and the local agent, the service with its
    gates, lemmas on a run, and what a run may start, remove and leaves on record.

  \<^bold>\<open>How state and operations correspond to the code.\<close>  A class with private arrays or maps is a
  record of lists; an object literal type is a record; a union of literals is a datatype where the
  code switches on it and a string where it is only compared.  A method is a definition that takes the
  state and returns the result with the new state; a throw is \<open>Inl\<close> of the error with the state at
  the throw, so that rows written before it are kept.  A promise is its value.  Entities are values:
  the code clones what it stores and returns.  The ids and the time the code draws are a parameter,
  \<open>draws\<close>, indexed by the call site (\<open>fresh_id\<close>, \<open>clock\<close>, \<open>sub\<close> for the draws of a call), and no
  theorem assumes that they are distinct or increasing unless it says so.  Numbers that are scores are
  rationals, also costs in dollars; strings are ASCII; dates are milliseconds and always valid.

  \<^bold>\<open>What the lemmas show.\<close>  For the policy engine: the exact condition of an allowed request, and
  what the default rules can never allow.  For the services: every decision is audited, and the audit
  replays the state where it determines it: task histories, when callers of the store change no status
  with a patch and write no status entry themselves; registry revisions, over every mutation but the
  import of packages; MCP invocations, against the events the gateway itself records, while a caller may
  record others; governance decisions.  The step relations of these invariants take every public
  operation of the modelled part that changes its state, but where a text says which are left out.  For the guarded operations: the exact or necessary condition of success
  (authorization, credentials, MCP invocations, registry mutations, approvals, LLM routes and
  completions), and what does not depend on what (secret values, the HTTP client behind closed gates).  For the algorithms:
  bounds and symmetry of the conflict scores, the maximality of the version chosen, termination and
  closure of dependency resolution, the partition of signals into clusters.  Contracts that several
  repositories share are locales interpreted on the model's own tables.

  \<^bold>\<open>Bounds and termination.\<close>  Recursion is structural, by a \<open>termination\<close> proof, or bounded by a
  number the state determines: dependency resolution counts the entries not yet visited, which the
  termination property shows is enough for every registry.

  \<^bold>\<open>Not modelled.\<close>  The HTTP server, the worker and the web client (\<open>apps/\<close>), the DTO printers,
  the PostgreSQL repository (SQL run by an external driver), file-backed registries (file system),
  the package manifests of the registry (import, export and difference of arbitrary objects), the webhook
  and catalogue tables of the store, the external providers and Git hosts (processes and
  network), the worker's workflow over them, and the static catalogues of
  observability and deployment readiness.  Of the LLM gateway the protocol of local agents and the
  catalogue of enterprise providers are left out; the gateway sees of the latter a map from a provider
  to its billing mode.  Hashing (\<open>sha256\<close>), registry files, the HTTP client of the
  OpenAI-compatible provider and the host of the runner (its directories, environment and what a started
  process does) are parameters.
\<close>

end
